(* ===== verification/Prelude.thy ===== *)
theory Prelude
  imports Main "HOL-Library.Word" "HOL-Library.Multiset"
begin

text \<open>
  The prelude of the development: the names of the machine integer types, the Rust standard
  library operations that several modules of \<open>crates/core\<close> use (saturating arithmetic,
  \<open>Iterator::find_map\<close>, \<open>Iterator::position\<close>, \<open>Vec::remove\<close>, the \<open>?\<close> operator on
  \<open>Result\<close>), their generic lemmas, the lens interface that stands for a pair of a Rust
  getter and its \<open>_mut\<close> twin, and the lemma collections the other theories fill.
\<close>

section \<open>Lemma collections\<close>

named_theorems frame_simps \<open>what an operation leaves unchanged\<close>
named_theorems op_defs \<open>the definitions of the engine's operations\<close>
named_theorems leaf_defs \<open>the definitions behind the effect interpreter\<close>

section \<open>Machine integers\<close>

type_synonym u8 = "8 word"
type_synonym u32 = "32 word"
type_synonym u64 = "64 word"
type_synonym i32 = "32 word"

text \<open>
  Rust's \<open>u32::MAX\<close> is \<open>2 ^ 32 - 1\<close>. A plain Rust \<open>+=\<close> is word addition: it wraps in a
  release build, and a debug build stops where the word addition wraps.
\<close>

definition u32_max :: u32 where
  "u32_max = 4294967295"

definition saturating_add :: "u32 \<Rightarrow> u32 \<Rightarrow> u32" where
  "saturating_add x y = (if unat x + unat y < 2 ^ 32 then x + y else u32_max)"

definition saturating_sub :: "u32 \<Rightarrow> u32 \<Rightarrow> u32" where
  "saturating_sub x y = (if x < y then 0 else x - y)"

definition saturating_add_signed :: "u32 \<Rightarrow> i32 \<Rightarrow> u32" where
  "saturating_add_signed x d =
     (let v = uint x + sint d
      in if v < 0 then 0 else if v < 2 ^ 32 then word_of_int v else u32_max)"

lemma unat_u32_max: "unat u32_max = 2 ^ 32 - 1"
  by (simp add: u32_max_def)

lemma unat_lt_u32: "unat (x :: u32) < 2 ^ 32"
  using unsigned_less [of x, where ?'a = nat] by simp

text \<open>The comparison over \<open>int\<close>, for evaluation.\<close>

lemma saturating_add_code [code]:
  "saturating_add x y = (if uint x + uint y < 2 ^ 32 then x + y else u32_max)"
  by (simp add: saturating_add_def flip: of_nat_less_iff [where ?'a = int])

lemma unat_saturating_add: "unat (saturating_add x y) = min (2 ^ 32 - 1) (unat x + unat y)"
proof (cases "unat x + unat y < 2 ^ 32")
  case True
  then have "unat (x + y) = unat x + unat y"
    by (simp add: unat_word_ariths)
  with True show ?thesis by (simp add: saturating_add_def)
next
  case False
  then show ?thesis by (simp add: saturating_add_def unat_u32_max)
qed

lemma unat_saturating_sub: "unat (saturating_sub x y) = unat x - unat y"
proof (cases "x < y")
  case True
  then have "unat x < unat y" by (simp add: word_less_nat_alt)
  with True show ?thesis by (simp add: saturating_sub_def)
next
  case False
  then show ?thesis by (simp add: saturating_sub_def unat_sub not_less)
qed

lemma saturating_sub_eq_0: "saturating_sub x y = 0 \<longleftrightarrow> x \<le> y"
  by (metis (no_types) diff_is_0_eq unat_0 unat_saturating_sub word_le_nat_alt word_unat_eq_iff)

lemma uint_saturating_add_signed:
  "uint (saturating_add_signed x d) = max 0 (min (2 ^ 32 - 1) (uint x + sint d))"
proof -
  have max_val: "uint u32_max = 2 ^ 32 - 1" by (simp add: u32_max_def)
  consider "uint x + sint d < 0" | "0 \<le> uint x + sint d" "uint x + sint d < 2 ^ 32"
    | "2 ^ 32 \<le> uint x + sint d" by linarith
  then show ?thesis
  proof cases
    case 1
    then show ?thesis by (simp add: saturating_add_signed_def)
  next
    case 2
    define v where "v = uint x + sint d"
    from 2 have v: "0 \<le> v" "v < 2 ^ 32" by (simp_all add: v_def)
    then have "uint (word_of_int v :: u32) = v" by (simp add: uint_word_of_int)
    with v show ?thesis by (simp add: saturating_add_signed_def Let_def flip: v_def)
  next
    case 3
    then show ?thesis by (simp add: saturating_add_signed_def max_val)
  qed
qed

section \<open>Slices and vectors\<close>

text \<open>\<open>Iterator::find_map\<close>: the first \<open>Some\<close> the closure answers.\<close>

fun find_map :: "('a \<Rightarrow> 'b option) \<Rightarrow> 'a list \<Rightarrow> 'b option" where
  "find_map f [] = None"
| "find_map f (x # xs) = (case f x of None \<Rightarrow> find_map f xs | Some y \<Rightarrow> Some y)"

text \<open>\<open>Iterator::filter_map\<close>: every \<open>Some\<close> the closure answers, in order.\<close>

fun filter_map :: "('a \<Rightarrow> 'b option) \<Rightarrow> 'a list \<Rightarrow> 'b list" where
  "filter_map f [] = []"
| "filter_map f (x # xs) = (case f x of None \<Rightarrow> filter_map f xs | Some y \<Rightarrow> y # filter_map f xs)"

text \<open>\<open>Iterator::position\<close>: the index of the first element that satisfies the closure.\<close>

fun position_of :: "('a \<Rightarrow> bool) \<Rightarrow> 'a list \<Rightarrow> nat option" where
  "position_of p [] = None"
| "position_of p (x # xs) =
     (if p x then Some 0 else (case position_of p xs of None \<Rightarrow> None | Some i \<Rightarrow> Some (Suc i)))"

text \<open>\<open>Vec::remove\<close> on an index in range: the later elements move down by one.\<close>

definition remove_nth :: "nat \<Rightarrow> 'a list \<Rightarrow> 'a list" where
  "remove_nth i xs = take i xs @ drop (Suc i) xs"

text \<open>\<open><[T]>::first\<close>, \<open>last\<close> and \<open>get\<close>.\<close>

definition first_of :: "'a list \<Rightarrow> 'a option" where
  "first_of xs = (case xs of [] \<Rightarrow> None | x # _ \<Rightarrow> Some x)"

definition last_of :: "'a list \<Rightarrow> 'a option" where
  "last_of xs = (if xs = [] then None else Some (last xs))"

definition nth_of :: "'a list \<Rightarrow> nat \<Rightarrow> 'a option" where
  "nth_of xs i = (if i < length xs then Some (xs ! i) else None)"

fun list_of_option :: "'a option \<Rightarrow> 'a list" where
  "list_of_option None = []"
| "list_of_option (Some x) = [x]"

lemma set_filter_map: "set (filter_map f xs) = {y. \<exists>x \<in> set xs. f x = Some y}"
  by (induction xs) (auto split: option.splits)

lemma filter_map_append [simp]: "filter_map f (xs @ ys) = filter_map f xs @ filter_map f ys"
  by (induction xs) (auto split: option.splits)

lemma find_map_filter: "find_map f xs = first_of (filter_map f xs)"
  by (induction xs) (auto simp: first_of_def split: option.splits)

lemma find_map_Some: "find_map f xs = Some y \<Longrightarrow> \<exists>x \<in> set xs. f x = Some y"
  by (induction xs) (auto split: option.splits)

lemma find_map_None: "find_map f xs = None \<longleftrightarrow> (\<forall>x \<in> set xs. f x = None)"
  by (induction xs) (auto split: option.splits)

lemma position_of_SomeD:
  "position_of p xs = Some i \<Longrightarrow> i < length xs \<and> p (xs ! i) \<and> (\<forall>j < i. \<not> p (xs ! j))"
proof (induction xs arbitrary: i)
  case Nil
  then show ?case by simp
next
  case (Cons x xs)
  then show ?case
    by (auto simp: less_Suc_eq_0_disj split: if_splits option.splits)
qed

lemma position_of_None: "position_of p xs = None \<longleftrightarrow> (\<forall>x \<in> set xs. \<not> p x)"
  by (induction xs) (auto split: option.splits)

lemma position_of_lt: "position_of p xs = Some i \<Longrightarrow> i < length xs"
  by (simp add: position_of_SomeD)

lemma mset_remove_nth: "i < length xs \<Longrightarrow> add_mset (xs ! i) (mset (remove_nth i xs)) = mset xs"
proof -
  assume i: "i < length xs"
  have "mset xs = mset (take i xs @ xs ! i # drop (Suc i) xs)"
    using id_take_nth_drop [OF i] by simp
  then show ?thesis by (simp add: remove_nth_def)
qed

lemma length_remove_nth: "i < length xs \<Longrightarrow> length (remove_nth i xs) = length xs - 1"
  by (auto simp: remove_nth_def)

lemma first_of_simps [simp]: "first_of [] = None" "first_of (x # xs) = Some x"
  by (simp_all add: first_of_def)

lemma last_of_simps [simp]: "last_of [] = None" "last_of (xs @ [x]) = Some x"
  by (simp_all add: last_of_def)

lemma last_of_None [simp]: "last_of xs = None \<longleftrightarrow> xs = []"
  by (simp add: last_of_def)

lemma last_of_Some: "last_of xs = Some x \<longleftrightarrow> (\<exists>ys. xs = ys @ [x])"
  by (cases xs rule: rev_cases) (auto simp: last_of_def)

section \<open>The question mark operator\<close>

definition and_then :: "'e + 'a \<Rightarrow> ('a \<Rightarrow> 'e + 'b) \<Rightarrow> 'e + 'b" where
  "and_then r f = (case r of Inl e \<Rightarrow> Inl e | Inr a \<Rightarrow> f a)"

lemma and_then_simps [simp]: "and_then (Inl e) f = Inl e" "and_then (Inr a) f = f a"
  by (simp_all add: and_then_def)

lemma and_then_Inr: "and_then r f = Inr b \<longleftrightarrow> (\<exists>a. r = Inr a \<and> f a = Inr b)"
  by (cases r) auto

text \<open>\<open>Option::ok_or\<close>.\<close>

definition ok_or :: "'e \<Rightarrow> 'a option \<Rightarrow> 'e + 'a" where
  "ok_or e o' = (case o' of None \<Rightarrow> Inl e | Some a \<Rightarrow> Inr a)"

lemma ok_or_simps [simp]: "ok_or e None = Inl e" "ok_or e (Some a) = Inr a"
  by (simp_all add: ok_or_def)

text \<open>\<open>Result::map_err\<close>, \<open>bool::then_some\<close>, \<open>Option::transpose\<close> and \<open>collect\<close> into a \<open>Result\<close>,
  which stops at the first error.\<close>

definition map_err :: "('e \<Rightarrow> 'f) \<Rightarrow> 'e + 'a \<Rightarrow> 'f + 'a" where
  "map_err f r = (case r of Inl e \<Rightarrow> Inl (f e) | Inr a \<Rightarrow> Inr a)"

definition then_some :: "bool \<Rightarrow> 'a \<Rightarrow> 'a option" where
  "then_some b a = (if b then Some a else None)"

fun try_option :: "('a \<Rightarrow> 'e + 'b) \<Rightarrow> 'a option \<Rightarrow> 'e + 'b option" where
  "try_option f None = Inr None"
| "try_option f (Some x) = and_then (f x) (\<lambda>y. Inr (Some y))"

fun try_map :: "('a \<Rightarrow> 'e + 'b) \<Rightarrow> 'a list \<Rightarrow> 'e + 'b list" where
  "try_map f [] = Inr []"
| "try_map f (x # xs) = and_then (f x) (\<lambda>y. and_then (try_map f xs) (\<lambda>ys. Inr (y # ys)))"

lemma map_err_simps [simp]: "map_err f (Inl e) = Inl (f e)" "map_err f (Inr a) = Inr a"
  by (simp_all add: map_err_def)

text \<open>The question mark operator in a method that takes \<open>&mut self\<close>: an error keeps the value as
  the failing call left it.\<close>

definition try_then ::
  "('e + 'a) \<times> 's \<Rightarrow> ('a \<Rightarrow> 's \<Rightarrow> ('e + 'b) \<times> 's) \<Rightarrow> ('e + 'b) \<times> 's" where
  "try_then r f = (case r of (Inl e, s) \<Rightarrow> (Inl e, s) | (Inr a, s) \<Rightarrow> f a s)"

lemma try_then_simps [simp]: "try_then (Inl e, s) f = (Inl e, s)" "try_then (Inr a, s) f = f a s"
  by (simp_all add: try_then_def)

lemma try_then_Inr:
  "try_then r f = (Inr b, t) \<longleftrightarrow> (\<exists>a s. r = (Inr a, s) \<and> f a s = (Inr b, t))"
  by (cases r; cases "fst r") auto

section \<open>Places: a getter and its mutable twin\<close>

text \<open>
  \<open>PerPlayer::get\<close> and \<open>get_mut\<close>, and each module's \<open>summon_at\<close> and \<open>summon_at_mut\<close>, read and
  write one place inside a larger value. The interface they share is a lens; \<open>modify\<close> is what
  a Rust body does through the \<open>&mut\<close> reference. Two different places of one value are
  independent, which is what makes a write to one player leave the other alone.
\<close>

locale place =
  fixes look :: "'s \<Rightarrow> 'v" and put :: "'s \<Rightarrow> 'v \<Rightarrow> 's"
  assumes look_put: "look (put s v) = v"
    and put_look: "put s (look s) = s"
    and put_put: "put (put s v) w = put s w"
begin

definition modify :: "('v \<Rightarrow> 'v) \<Rightarrow> 's \<Rightarrow> 's" where
  "modify f s = put s (f (look s))"

lemma look_modify: "look (modify f s) = f (look s)"
  by (simp add: modify_def look_put)

lemma modify_modify: "modify f (modify g s) = modify (f \<circ> g) s"
  by (simp add: modify_def look_put put_put)

lemma modify_same: "f (look s) = look s \<Longrightarrow> modify f s = s"
  by (simp add: modify_def put_look)

lemma put_eq_iff: "put s v = s \<longleftrightarrow> v = look s"
  using look_put put_look by metis

end

locale two_places = one: place look1 put1 + two: place look2 put2
  for look1 :: "'s \<Rightarrow> 'v" and put1 and look2 :: "'s \<Rightarrow> 'w" and put2 +
  assumes look1_put2: "look1 (put2 s w) = look1 s"
    and look2_put1: "look2 (put1 s v) = look2 s"
begin

lemma modify_frame:
  "look1 (two.modify f s) = look1 s" "look2 (one.modify g s) = look2 s"
  by (simp_all add: one.modify_def two.modify_def look1_put2 look2_put1)

end

end
