(* ===== verification/Ids.thy ===== *)
theory Ids
  imports Prelude
begin

text \<open>
  \<open>crates/core/src/domain/ids.rs\<close>: players, card instances, battlefield positions and Mana
  types. The enums keep the source's constructors; they are written with their type's name in
  front (\<open>player_id.One\<close>), as in the source (\<open>PlayerId::One\<close>).
\<close>

datatype player_id = One | Two

fun opponent :: "player_id \<Rightarrow> player_id" where
  "opponent player_id.One = player_id.Two"
| "opponent player_id.Two = player_id.One"

datatype card_instance_id = CardInstanceId (card_number: u32)

datatype bench_slot = First | Second | Third

definition bench_all :: "bench_slot list" where
  "bench_all = [bench_slot.First, bench_slot.Second, bench_slot.Third]"

fun bench_index :: "bench_slot \<Rightarrow> nat" where
  "bench_index bench_slot.First = 0"
| "bench_index bench_slot.Second = 1"
| "bench_index bench_slot.Third = 2"

datatype position = Main | Bench bench_slot

datatype mana_type = Matter | Mind | Spirit

section \<open>The enums as ordered and finite types\<close>

instantiation player_id :: finite
begin

instance
proof
  have "(UNIV :: player_id set) = {player_id.One, player_id.Two}"
    by (auto intro: player_id.exhaust)
  then show "finite (UNIV :: player_id set)" by (metis finite.intros)
qed

end

text \<open>Bench slots are ordered by their index; \<open>BenchSlot::ALL\<close> lists them in that order.\<close>

lemma bench_index_inj: "bench_index s = bench_index t \<longleftrightarrow> s = t"
  by (cases s; cases t) auto

instantiation bench_slot :: linorder
begin

definition less_eq_bench_slot :: "bench_slot \<Rightarrow> bench_slot \<Rightarrow> bool" where
  "less_eq_bench_slot s t = (bench_index s \<le> bench_index t)"

definition less_bench_slot :: "bench_slot \<Rightarrow> bench_slot \<Rightarrow> bool" where
  "less_bench_slot s t = (bench_index s < bench_index t)"

instance
  by standard (auto simp: less_eq_bench_slot_def less_bench_slot_def bench_index_inj)

end

section \<open>Lemmas\<close>

lemma opponent_neq [simp]: "opponent p \<noteq> p" "p \<noteq> opponent p"
  by (cases p; simp)+

lemma opponent_opponent [simp]: "opponent (opponent p) = p"
  by (cases p) simp_all

lemma opponent_eq_iff [simp]: "opponent p = opponent q \<longleftrightarrow> p = q"
  by (cases p; cases q) simp_all

lemma player_cases: "q = p \<or> q = opponent p"
  by (cases p; cases q) simp_all

lemma set_bench_all [simp]: "s \<in> set bench_all"
  by (cases s) (simp_all add: bench_all_def)

lemma distinct_bench_all [simp]: "distinct bench_all"
  by (simp add: bench_all_def)

lemma sorted_bench_all: "sorted_wrt (<) bench_all"
  by (simp add: bench_all_def less_bench_slot_def)

lemma bench_all_index: "bench_all ! bench_index s = s" "bench_index s < length bench_all"
  by (cases s; simp add: bench_all_def)+

lemma all_bench_slot: "(\<forall>s. P s) \<longleftrightarrow> P bench_slot.First \<and> P bench_slot.Second \<and> P bench_slot.Third"
  by (metis bench_slot.exhaust)

lemma ex_bench_slot: "(\<exists>s. P s) \<longleftrightarrow> P bench_slot.First \<or> P bench_slot.Second \<or> P bench_slot.Third"
  by (metis bench_slot.exhaust)

lemma all_player: "(\<forall>p. P p) \<longleftrightarrow> P player_id.One \<and> P player_id.Two"
  by (metis player_id.exhaust)

end
