(* ===== verification/Entity_Id.thy ===== *)
theory Entity_Id
  imports Ids
begin

text \<open>
  \<open>EntityId\<close> of \<open>crates/core/src/domain/cards/entity.rs\<close>: the sixteen bytes of a card or ability
  identity, \<open>EntityId::parse\<close> and its \<open>Display\<close>. A Rust \<open>str\<close> is its UTF-8 bytes, one \<open>char\<close>
  per byte; \<open>len\<close> counts bytes there too, and a byte of a multi-byte character is neither a
  hyphen nor a hex digit, so filtering and testing bytes is filtering and testing characters.
\<close>

text \<open>The array \<open>[u8; 16]\<close>: a constructor of sixteen bytes.\<close>

datatype entity_id = EntityId u8 u8 u8 u8 u8 u8 u8 u8 u8 u8 u8 u8 u8 u8 u8 u8

datatype entity_id_parse_error = EntityIdParseError string

definition canonical_hyphen_positions :: "nat list" where
  "canonical_hyphen_positions = [8, 13, 18, 23]"

section \<open>Hex digits\<close>

text \<open>\<open>char::is_ascii_hexdigit\<close> and \<open>u8::from_str_radix(pair, 16)\<close> on two such digits.\<close>

definition hex_digit_value :: "char \<Rightarrow> nat option" where
  "hex_digit_value c =
     (let n = of_char c :: nat
      in if 48 \<le> n \<and> n \<le> 57 then Some (n - 48)
         else if 97 \<le> n \<and> n \<le> 102 then Some (n - 87)
         else if 65 \<le> n \<and> n \<le> 70 then Some (n - 55)
         else None)"

definition is_ascii_hexdigit :: "char \<Rightarrow> bool" where
  "is_ascii_hexdigit c = (hex_digit_value c \<noteq> None)"

definition from_hex_pair :: "string \<Rightarrow> u8 option" where
  "from_hex_pair pair =
     (case pair of
        [a, b] \<Rightarrow>
          (case (hex_digit_value a, hex_digit_value b) of
             (Some x, Some y) \<Rightarrow> Some (of_nat (16 * x + y))
           | _ \<Rightarrow> None)
      | _ \<Rightarrow> None)"

definition hex_digit :: "nat \<Rightarrow> char" where
  "hex_digit n = char_of (if n < 10 then 48 + n else 87 + n)"

text \<open>The format directive \<open>{:02x}\<close> on one byte.\<close>

definition lower_hex :: "u8 \<Rightarrow> string" where
  "lower_hex b = [hex_digit (unat b div 16), hex_digit (unat b mod 16)]"

section \<open>Parsing and printing\<close>

fun entity_id_bytes :: "entity_id \<Rightarrow> u8 list" where
  "entity_id_bytes (EntityId b0 b1 b2 b3 b4 b5 b6 b7 b8 b9 b10 b11 b12 b13 b14 b15) =
     [b0, b1, b2, b3, b4, b5, b6, b7, b8, b9, b10, b11, b12, b13, b14, b15]"

text \<open>The array that the loop of \<open>EntityId::parse\<close> fills from sixteen pairs of digits.\<close>

definition entity_id_from :: "u8 list \<Rightarrow> entity_id" where
  "entity_id_from bs =
     EntityId (bs ! 0) (bs ! 1) (bs ! 2) (bs ! 3) (bs ! 4) (bs ! 5) (bs ! 6) (bs ! 7)
       (bs ! 8) (bs ! 9) (bs ! 10) (bs ! 11) (bs ! 12) (bs ! 13) (bs ! 14) (bs ! 15)"

definition entity_id_parse :: "string \<Rightarrow> entity_id_parse_error + entity_id" where
  "entity_id_parse input =
     (let malformed = EntityIdParseError input in
      and_then
        (if length input = 32 then Inr input
         else if length input = 36 then
           (if \<exists>p \<in> set canonical_hyphen_positions. input ! p \<noteq> CHR ''-'' then Inl malformed
            else Inr (filter (\<lambda>c. c \<noteq> CHR ''-'') input))
         else Inl malformed)
        (\<lambda>hex.
          if length hex \<noteq> 32 \<or> \<not> list_all is_ascii_hexdigit hex then Inl malformed
          else
            (case those (map (\<lambda>i. from_hex_pair (take 2 (drop (2 * i) hex))) [0..<16]) of
               None \<Rightarrow> Inl malformed
             | Some bytes \<Rightarrow> Inr (entity_id_from bytes))))"

definition entity_id_display :: "entity_id \<Rightarrow> string" where
  "entity_id_display e =
     (let hex = (\<lambda>i j. concat (map lower_hex (take (j - i) (drop i (entity_id_bytes e)))))
      in hex 0 4 @ ''-'' @ hex 4 6 @ ''-'' @ hex 6 8 @ ''-'' @ hex 8 10 @ ''-'' @ hex 10 16)"

lemma length_entity_id_bytes [simp]: "length (entity_id_bytes e) = 16"
  by (cases e) simp

lemma entity_id_from_bytes [simp]: "entity_id_from (entity_id_bytes e) = e"
  by (cases e) (simp add: entity_id_from_def)

lemma entity_id_bytes_from:
  assumes "length bs = 16" shows "entity_id_bytes (entity_id_from bs) = bs"
proof -
  from assms have "bs = map ((!) bs) [0..<16]" by (metis map_nth)
  also have "\<dots> = entity_id_bytes (entity_id_from bs)"
    by (simp add: entity_id_from_def upt_rec numeral_eq_Suc)
  finally show ?thesis ..
qed

section \<open>Round trip\<close>

lemma of_char_hex_digit:
  "n < 16 \<Longrightarrow> (of_char (hex_digit n) :: nat) = (if n < 10 then 48 + n else 87 + n)"
  by (simp add: hex_digit_def)

lemma hex_digit_value_hex_digit: "n < 16 \<Longrightarrow> hex_digit_value (hex_digit n) = Some n"
  by (simp add: hex_digit_value_def of_char_hex_digit Let_def)

lemma hex_digit_not_hyphen: "n < 16 \<Longrightarrow> hex_digit n \<noteq> CHR ''-''"
proof
  assume n: "n < 16" and "hex_digit n = CHR ''-''"
  then have "(of_char (hex_digit n) :: nat) = of_char CHR ''-''" by simp
  also have "\<dots> = 45" by simp
  finally show False using n by (simp add: of_char_hex_digit split: if_splits)
qed

lemma unat_u8_div_mod: "unat (b :: u8) div 16 < 16" "unat (b :: u8) mod 16 < 16"
  using unsigned_less [of b, where ?'a = nat] by auto

lemma from_hex_pair_lower_hex: "from_hex_pair (lower_hex b) = Some b"
proof -
  have "of_nat (16 * (unat b div 16) + unat b mod 16) = b"
    by (simp only: mult_div_mod_eq) simp
  then show ?thesis
    by (simp add: from_hex_pair_def lower_hex_def hex_digit_value_hex_digit unat_u8_div_mod
        del: of_nat_add of_nat_mult)
qed

lemma lower_hex_length [simp]: "length (lower_hex b) = 2"
  by (simp add: lower_hex_def)

lemma lower_hex_digits:
  "list_all is_ascii_hexdigit (lower_hex b)" "filter (\<lambda>c. c \<noteq> CHR ''-'') (lower_hex b) = lower_hex b"
  by (simp_all add: lower_hex_def is_ascii_hexdigit_def hex_digit_value_hex_digit
      hex_digit_not_hyphen unat_u8_div_mod)

text \<open>The bare spelling: thirty-two digits, no hyphen.\<close>

abbreviation bare_hex :: "u8 list \<Rightarrow> string" where
  "bare_hex bs \<equiv> concat (map lower_hex bs)"

lemma length_bare_hex [simp]: "length (bare_hex bs) = 2 * length bs"
  by (induction bs) simp_all

lemma bare_hex_digits:
  "list_all is_ascii_hexdigit (bare_hex bs)"
  "filter (\<lambda>c. c \<noteq> CHR ''-'') (bare_hex bs) = bare_hex bs"
  by (induction bs) (simp_all add: lower_hex_digits)

lemma parse_pairs_bare_hex:
  "those (map (\<lambda>i. from_hex_pair (take 2 (drop (2 * i) (bare_hex bs)))) [0..<length bs]) = Some bs"
proof (induction bs)
  case Nil
  then show ?case by simp
next
  case (Cons b bs)
  have "map (\<lambda>i. from_hex_pair (take 2 (drop (2 * i) (bare_hex (b # bs))))) [0..<length (b # bs)]
      = from_hex_pair (lower_hex b) #
        map (\<lambda>i. from_hex_pair (take 2 (drop (2 * i) (bare_hex bs)))) [0..<length bs]"
    by (simp only: length_Cons map_upt_Suc) simp
  then show ?case using Cons.IH by (simp add: from_hex_pair_lower_hex)
qed

lemma display_without_hyphens:
  assumes "length bs = 16"
  shows "filter (\<lambda>c. c \<noteq> CHR ''-'') (entity_id_display (entity_id_from bs)) = bare_hex bs"
proof -
  have ten: "take 10 bs = take 4 bs @ take 2 (drop 4 bs) @ take 2 (drop 6 bs) @ take 2 (drop 8 bs)"
    using take_add [of 8 2 bs] take_add [of 6 2 bs] take_add [of 4 2 bs] by simp
  have "take 10 bs @ drop 10 bs = bs" by simp
  note split = this [unfolded ten append_assoc]
  have "filter (\<lambda>c. c \<noteq> CHR ''-'') (entity_id_display (entity_id_from bs))
      = bare_hex (take 4 bs @ take 2 (drop 4 bs) @ take 2 (drop 6 bs) @ take 2 (drop 8 bs)
          @ drop 10 bs)"
    using assms by (simp add: entity_id_display_def Let_def bare_hex_digits(2) entity_id_bytes_from)
  then show ?thesis by (simp only: split)
qed


lemma display_shape:
  assumes "length bs = 16"
  shows "length (entity_id_display (entity_id_from bs)) = 36"
    and "\<forall>p \<in> set canonical_hyphen_positions. entity_id_display (entity_id_from bs) ! p = CHR ''-''"
  using assms
  by (simp_all add: entity_id_display_def Let_def canonical_hyphen_positions_def nth_append
      length_bare_hex entity_id_bytes_from)

text \<open>Printing an identity and parsing the text gives the same identity back.\<close>

lemma parse_displayed: "entity_id_parse (entity_id_display e) = Inr e"
proof -
  obtain bs where e: "e = entity_id_from bs" and len: "length bs = 16"
    using entity_id_from_bytes [of e] length_entity_id_bytes [of e] by metis
  from parse_pairs_bare_hex [of bs] len
  have "those (map (\<lambda>i. from_hex_pair (take 2 (drop (2 * i) (bare_hex bs)))) [0..<16]) = Some bs"
    by simp
  with len display_shape [OF len] show ?thesis
    by (simp add: e entity_id_parse_def display_without_hyphens [OF len] bare_hex_digits(1))
qed

section \<open>Normal form\<close>

text \<open>\<open>u8::to_ascii_lowercase\<close>, used to state what parsing followed by printing does.\<close>

definition ascii_lower :: "char \<Rightarrow> char" where
  "ascii_lower c =
     (let n = of_char c :: nat in if 65 \<le> n \<and> n \<le> 90 then char_of (n + 32) else c)"

lemma hex_digit_value_lower:
  assumes "hex_digit_value c = Some x"
  shows "x < 16" and "hex_digit x = ascii_lower c"
proof -
  have c: "char_of (of_char c :: nat) = c" by simp
  show "x < 16"
    using assms by (auto simp: hex_digit_value_def Let_def split: if_splits)
  show "hex_digit x = ascii_lower c"
    using assms c
    by (auto simp: hex_digit_value_def hex_digit_def ascii_lower_def Let_def split: if_splits)
qed

lemma from_hex_pair_lower:
  assumes "from_hex_pair cs = Some v"
  shows "lower_hex v = map ascii_lower cs \<and> length cs = 2"
proof -
  from assms obtain a b x y where cs: "cs = [a, b]"
    and ab: "hex_digit_value a = Some x" "hex_digit_value b = Some y"
    and v: "v = of_nat (16 * x + y)"
    by (auto simp: from_hex_pair_def split: list.splits option.splits)
  from hex_digit_value_lower [OF ab(1)] hex_digit_value_lower [OF ab(2)]
  have x: "x < 16" "hex_digit x = ascii_lower a" and y: "y < 16" "hex_digit y = ascii_lower b"
    by simp_all
  have "unat v = (16 * x + y) mod 256"
    by (simp only: v unat_of_nat) simp
  with x(1) y(1) have "unat v = 16 * x + y" by simp
  then have "unat v div 16 = x" "unat v mod 16 = y" using y(1) by simp_all
  with x(2) y(2) show ?thesis by (simp add: cs lower_hex_def)
qed

lemma parse_pairs_lower:
  assumes "those (map (\<lambda>i. from_hex_pair (take 2 (drop (2 * i) hex))) [0..<n]) = Some bs"
    and "length hex = 2 * n"
  shows "length bs = n \<and> bare_hex bs = map ascii_lower hex"
  using assms
proof (induction n arbitrary: hex bs)
  case 0
  then show ?case by simp
next
  case (Suc n)
  have "map (\<lambda>i. from_hex_pair (take 2 (drop (2 * i) hex))) [0..<Suc n]
      = from_hex_pair (take 2 hex) #
        map (\<lambda>i. from_hex_pair (take 2 (drop (2 * i) (drop 2 hex)))) [0..<n]"
    by (simp only: map_upt_Suc) (simp add: add.commute)
  with Suc.prems obtain v vs where v: "from_hex_pair (take 2 hex) = Some v"
    and vs: "those (map (\<lambda>i. from_hex_pair (take 2 (drop (2 * i) (drop 2 hex)))) [0..<n]) = Some vs"
    and bs: "bs = v # vs"
    by (auto split: option.splits)
  have "length vs = n \<and> bare_hex vs = map ascii_lower (drop 2 hex)"
    using Suc.prems(2) by (intro Suc.IH [OF vs]) simp
  moreover have "lower_hex v = map ascii_lower (take 2 hex)"
    using from_hex_pair_lower [OF v] by simp
  ultimately show ?case
    by (simp add: bs flip: map_append)
qed

lemma hexdigit_not_hyphen: "is_ascii_hexdigit c \<Longrightarrow> c \<noteq> CHR ''-''"
  by (auto simp: is_ascii_hexdigit_def hex_digit_value_def Let_def)

text \<open>
  printing what parsing accepts gives the input's digits back in lower case, whichever of the two shapes the input had.
\<close>

lemma entity_id_parse_normalises:
  assumes "entity_id_parse input = Inr e"
  shows "filter (\<lambda>c. c \<noteq> CHR ''-'') (entity_id_display e)
      = map ascii_lower (filter (\<lambda>c. c \<noteq> CHR ''-'') input)"
proof -
  define hex where "hex = (if length input = 32 then input else filter (\<lambda>c. c \<noteq> CHR ''-'') input)"
  from assms obtain hex' where shape: "(if length input = 32 then Inr input
        else if length input = 36 then
          (if \<exists>p \<in> set canonical_hyphen_positions. input ! p \<noteq> CHR ''-''
           then Inl (EntityIdParseError input) else Inr (filter (\<lambda>c. c \<noteq> CHR ''-'') input))
        else Inl (EntityIdParseError input)) = Inr hex'"
    and digits: "(if length hex' \<noteq> 32 \<or> \<not> list_all is_ascii_hexdigit hex'
        then Inl (EntityIdParseError input)
        else (case those (map (\<lambda>i. from_hex_pair (take 2 (drop (2 * i) hex'))) [0..<16]) of
               None \<Rightarrow> Inl (EntityIdParseError input)
             | Some bytes \<Rightarrow> Inr (entity_id_from bytes))) = Inr e"
    unfolding entity_id_parse_def Let_def and_then_Inr by blast
  from shape have hex': "hex' = hex" by (simp add: hex_def split: if_splits)
  obtain parsed where parsed:
    "parsed = those (map (\<lambda>i. from_hex_pair (take 2 (drop (2 * i) hex))) [0..<16])" by simp
  from digits have len: "length hex = 32" and all: "list_all is_ascii_hexdigit hex"
    and "(case parsed of None \<Rightarrow> Inl (EntityIdParseError input)
          | Some bytes \<Rightarrow> Inr (entity_id_from bytes)) = Inr e"
    unfolding hex' parsed [symmetric] by (simp_all split: if_splits)
  then obtain bs where bs: "those (map (\<lambda>i. from_hex_pair (take 2 (drop (2 * i) hex))) [0..<16]) = Some bs"
    and e: "e = entity_id_from bs"
    unfolding parsed [symmetric] by (cases parsed) simp_all
  from all have "filter (\<lambda>c. c \<noteq> CHR ''-'') hex = hex"
    unfolding filter_id_conv list_all_iff using hexdigit_not_hyphen by metis
  then have hex: "hex = filter (\<lambda>c. c \<noteq> CHR ''-'') input"
    by (auto simp: hex_def split: if_splits)
  from parse_pairs_lower [OF bs] len
  have "length bs = 16" "bare_hex bs = map ascii_lower hex" by simp_all
  then show ?thesis
    by (simp add: e display_without_hyphens hex)
qed

text \<open>
  The identity of the next theorem has a lower case, an upper case and a hyphenated spelling,
  although the comment on \<open>EntityId::parse\<close> says an identity has at most two.
\<close>

theorem entity_id_three_spellings:
  "\<exists>e. entity_id_parse ''abcdefabcdefabcdefabcdefabcdefab'' = Inr e
     \<and> entity_id_parse ''ABCDEFABCDEFABCDEFABCDEFABCDEFAB'' = Inr e
     \<and> entity_id_parse ''abcdefab-cdef-abcd-efab-cdefabcdefab'' = Inr e"
  by (rule exI [of _ "EntityId 0xab 0xcd 0xef 0xab 0xcd 0xef 0xab 0xcd 0xef 0xab 0xcd 0xef
      0xab 0xcd 0xef 0xab"]) code_simp

end
