(* ===== verification/Cards.thy ===== *)
theory Cards
  imports Entity_Id
begin

unbundle bit_operations_syntax

text \<open>
  The card vocabulary of \<open>crates/core/src/domain/cards/mod.rs\<close> and the card container of
  \<open>crates/core/src/domain/cards/entity.rs\<close>: an \<open>Entity\<close> is an identity and an ordered list of
  components, a component may hold a nested ability entity, and \<open>get\<close>, \<open>all\<close> and \<open>demand\<close>
  read the components through a marker. The Rust trait \<open>ComponentField\<close> is the locale
  \<open>component_field\<close>, interpreted once for each of its seventeen implementations.
\<close>

section \<open>Vocabulary\<close>

datatype card_kind = Summon | Spell | Enchantment

datatype form = Base | Enhanced | Elite

datatype spell_timing = Support | Attack

datatype trigger_event =
  YourUpkeep | EntersMain | EntersBench | LeavesMain | LeavesBench | AnySummonDestroyed

datatype effect_condition = DefenderEnteredMainThisTurn | SpellPlayedThisTurn

datatype effect_source =
  Attack player_id position entity_id
| Spell player_id card_instance_id entity_id
| Skill player_id position entity_id
| Trigger player_id position entity_id

fun effect_source_controller :: "effect_source \<Rightarrow> player_id" where
  "effect_source_controller (effect_source.Attack controller _ _) = controller"
| "effect_source_controller (effect_source.Spell controller _ _) = controller"
| "effect_source_controller (effect_source.Skill controller _ _) = controller"
| "effect_source_controller (effect_source.Trigger controller _ _) = controller"

fun effect_source_position :: "effect_source \<Rightarrow> position option" where
  "effect_source_position (effect_source.Attack _ position _) = Some position"
| "effect_source_position (effect_source.Skill _ position _) = Some position"
| "effect_source_position (effect_source.Trigger _ position _) = Some position"
| "effect_source_position (effect_source.Spell _ _ _) = None"

datatype effect_target = Selected | Source

datatype damage_constraint = Unincreasable | Unpreventable

text \<open>
  \<open>DamageConstraints(u8)\<close>: a set of constraints in the bits of one byte. The field is private
  and only \<open>new\<close> and \<open>insert\<close> make values, so the type is the bytes with no other bit set.
\<close>

fun constraint_mask :: "damage_constraint \<Rightarrow> u8" where
  "constraint_mask Unincreasable = 1"
| "constraint_mask Unpreventable = 2"

typedef damage_constraints = "{d :: u8. d AND 0xFC = 0}" morphisms constraint_byte DamageConstraints
  by (rule exI [of _ 0]) simp

setup_lifting type_definition_damage_constraints

lift_definition constraints_new :: damage_constraints is 0
  by simp

lift_definition constraints_insert :: "damage_constraint \<Rightarrow> damage_constraints \<Rightarrow> damage_constraints"
  is "\<lambda>c d. d OR constraint_mask c"
proof -
  fix c and d :: u8
  assume "d AND 0xFC = 0"
  moreover have "constraint_mask c AND 0xFC = 0" by (cases c) simp_all
  ultimately show "(d OR constraint_mask c) AND 0xFC = 0" by (simp add: bit.conj_disj_distrib2)
qed

lift_definition constraints_contains :: "damage_constraints \<Rightarrow> damage_constraint \<Rightarrow> bool"
  is "\<lambda>d c. d AND constraint_mask c \<noteq> 0" .

definition constraints_from :: "damage_constraint list \<Rightarrow> damage_constraints" where
  "constraints_from cs = fold constraints_insert cs constraints_new"

instantiation damage_constraints :: equal
begin

definition equal_damage_constraints :: "damage_constraints \<Rightarrow> damage_constraints \<Rightarrow> bool" where
  "equal_damage_constraints d e = (constraint_byte d = constraint_byte e)"

instance
  by standard (simp add: equal_damage_constraints_def constraint_byte_inject)

end

record damage_addition =
  da_amount :: u32
  da_condition :: effect_condition

record damage_effect =
  de_base :: u32
  de_constraints :: damage_constraints
  de_additions :: "damage_addition list"

datatype response_block = AttackSpells

record cost =
  cost_matter :: u32
  cost_mind :: u32
  cost_spirit :: u32
  cost_generic :: u32

definition cost_default :: cost where
  "cost_default = \<lparr>cost_matter = 0, cost_mind = 0, cost_spirit = 0, cost_generic = 0\<rparr>"

datatype effect_leaf =
  DealDamage damage_effect
| Heal u32 effect_target
| MoveSummon
| SwapPositions
| BlockResponses effect_condition response_block
| ReturnSpellFromDiscard
| LookAtPrizes
| DrawCards u32
| ReturnSpellToDeckTop
| ProduceMana effect_target
| CannotBeMovedByOpponent effect_target
| ReadySummon
| SwapOpposingPositions

datatype modifier = OpposingRetreatCostDelta i32 | IncomingAttackDamageReduction u32

text \<open>Forms are ordered by declaration, as \<open>derive(PartialOrd, Ord)\<close> orders them.\<close>

fun form_rank :: "form \<Rightarrow> nat" where
  "form_rank Base = 0"
| "form_rank Enhanced = 1"
| "form_rank Elite = 2"

lemma form_rank_inj: "form_rank f = form_rank g \<longleftrightarrow> f = g"
  by (cases f; cases g) auto

instantiation form :: linorder
begin

definition less_eq_form :: "form \<Rightarrow> form \<Rightarrow> bool" where
  "less_eq_form f g = (form_rank f \<le> form_rank g)"

definition less_form :: "form \<Rightarrow> form \<Rightarrow> bool" where
  "less_form f g = (form_rank f < form_rank g)"

instance
  by standard (auto simp: less_eq_form_def less_form_def form_rank_inj)

end

section \<open>The container\<close>

record accounting_id =
  ai_prefix :: string
  ai_number :: u32

datatype component_kind =
  Name | AccountingId | Life | RetreatCost | Form | Produces | Tags | Cost | Skill | Attack
| Trigger | Effect | Passive | Timing | Event | Respondable | Persistent

text \<open>
  The newtypes \<open>Name\<close>, \<open>Life\<close>, \<open>RetreatCost\<close>, \<open>ManaTypes\<close> and \<open>Tags\<close> wrap one field each;
  their component carries the field.
\<close>

datatype entity = Entity (entity_id: entity_id) (entity_components: "component list")
and component =
  Name string
| AccountingId accounting_id
| Life u32
| RetreatCost u32
| Form form
| Produces "mana_type list"
| Tags "string list"
| Cost cost
| Skill entity
| Attack entity
| Trigger entity
| Effect effect_leaf
| Passive modifier
| Timing spell_timing
| Event trigger_event
| Respondable
| Persistent

record breakage =
  br_rule :: string
  br_entity :: entity_id
  br_expected :: component_kind

section \<open>Typed reads\<close>

definition name_field :: "component \<Rightarrow> string option" where
  "name_field c = (case c of component.Name x \<Rightarrow> Some x | _ \<Rightarrow> None)"

definition accounting_field :: "component \<Rightarrow> accounting_id option" where
  "accounting_field c = (case c of component.AccountingId x \<Rightarrow> Some x | _ \<Rightarrow> None)"

definition life_field :: "component \<Rightarrow> u32 option" where
  "life_field c = (case c of component.Life x \<Rightarrow> Some x | _ \<Rightarrow> None)"

definition retreat_cost_field :: "component \<Rightarrow> u32 option" where
  "retreat_cost_field c = (case c of component.RetreatCost x \<Rightarrow> Some x | _ \<Rightarrow> None)"

definition form_field :: "component \<Rightarrow> form option" where
  "form_field c = (case c of component.Form x \<Rightarrow> Some x | _ \<Rightarrow> None)"

definition mana_types_field :: "component \<Rightarrow> mana_type list option" where
  "mana_types_field c = (case c of component.Produces x \<Rightarrow> Some x | _ \<Rightarrow> None)"

definition tags_field :: "component \<Rightarrow> string list option" where
  "tags_field c = (case c of component.Tags x \<Rightarrow> Some x | _ \<Rightarrow> None)"

definition cost_field :: "component \<Rightarrow> cost option" where
  "cost_field c = (case c of component.Cost x \<Rightarrow> Some x | _ \<Rightarrow> None)"

definition skill_field :: "component \<Rightarrow> entity option" where
  "skill_field c = (case c of component.Skill x \<Rightarrow> Some x | _ \<Rightarrow> None)"

definition attack_field :: "component \<Rightarrow> entity option" where
  "attack_field c = (case c of component.Attack x \<Rightarrow> Some x | _ \<Rightarrow> None)"

definition trigger_field :: "component \<Rightarrow> entity option" where
  "trigger_field c = (case c of component.Trigger x \<Rightarrow> Some x | _ \<Rightarrow> None)"

definition effect_field :: "component \<Rightarrow> effect_leaf option" where
  "effect_field c = (case c of component.Effect x \<Rightarrow> Some x | _ \<Rightarrow> None)"

definition modifier_field :: "component \<Rightarrow> modifier option" where
  "modifier_field c = (case c of component.Passive x \<Rightarrow> Some x | _ \<Rightarrow> None)"

definition timing_field :: "component \<Rightarrow> spell_timing option" where
  "timing_field c = (case c of component.Timing x \<Rightarrow> Some x | _ \<Rightarrow> None)"

definition event_field :: "component \<Rightarrow> trigger_event option" where
  "event_field c = (case c of component.Event x \<Rightarrow> Some x | _ \<Rightarrow> None)"

definition respondable_field :: "component \<Rightarrow> unit option" where
  "respondable_field c = (case c of component.Respondable \<Rightarrow> Some () | _ \<Rightarrow> None)"

definition persistent_field :: "component \<Rightarrow> unit option" where
  "persistent_field c = (case c of component.Persistent \<Rightarrow> Some () | _ \<Rightarrow> None)"

text \<open>\<open>Entity::get\<close>, \<open>all\<close> and \<open>demand\<close>, with the marker's \<open>extract\<close> and kind as arguments.\<close>

definition entity_get :: "(component \<Rightarrow> 'o option) \<Rightarrow> entity \<Rightarrow> 'o option" where
  "entity_get field e = find_map field (entity_components e)"

definition entity_all :: "(component \<Rightarrow> 'o option) \<Rightarrow> entity \<Rightarrow> 'o list" where
  "entity_all field e = filter_map field (entity_components e)"

definition entity_demand ::
  "(component \<Rightarrow> 'o option) \<Rightarrow> component_kind \<Rightarrow> string \<Rightarrow> entity \<Rightarrow> breakage + 'o" where
  "entity_demand field kind rule e =
     ok_or \<lparr>br_rule = rule, br_entity = entity_id e, br_expected = kind\<rparr> (entity_get field e)"

text \<open>The card family an entity prints, read off its tags.\<close>

definition family :: "entity \<Rightarrow> card_kind" where
  "family e =
     (case entity_get tags_field e of
        Some tags \<Rightarrow>
          if \<exists>tag \<in> set tags. tag = ''spell'' then card_kind.Spell
          else if \<exists>tag \<in> set tags. tag = ''enchantment'' then card_kind.Enchantment
          else card_kind.Summon
      | None \<Rightarrow> card_kind.Summon)"

section \<open>The marker contract\<close>

text \<open>
  What a marker's implementation of \<open>ComponentField\<close> promises: \<open>extract\<close> answers exactly the
  payloads of its own variant. The facts about the three reads follow for every marker.
\<close>

locale component_field =
  fixes field :: "component \<Rightarrow> 'o option" and wrap :: "'o \<Rightarrow> component"
  assumes field_wrap: "field (wrap x) = Some x"
    and field_only: "field c = Some x \<Longrightarrow> c = wrap x"
begin

lemma field_iff: "field c = Some x \<longleftrightarrow> c = wrap x"
  using field_wrap field_only by blast

lemma wrap_inj: "wrap x = wrap y \<longleftrightarrow> x = y"
  by (metis field_wrap option.inject)

lemma set_all: "x \<in> set (entity_all field e) \<longleftrightarrow> wrap x \<in> set (entity_components e)"
  by (auto simp: entity_all_def set_filter_map field_iff)

lemma get_first_of_all: "entity_get field e = first_of (entity_all field e)"
  by (simp add: entity_get_def entity_all_def find_map_filter)

lemma get_None: "entity_get field e = None \<longleftrightarrow> (\<forall>x. wrap x \<notin> set (entity_components e))"
  unfolding entity_get_def find_map_None by (metis field_iff not_None_eq)

lemma get_Some: "entity_get field e = Some x \<Longrightarrow> wrap x \<in> set (entity_components e)"
  unfolding entity_get_def by (auto dest!: find_map_Some simp: field_iff)

lemma get_first:
  assumes "entity_components e = cs @ wrap x # cs'" and "\<forall>c \<in> set cs. field c = None"
  shows "entity_get field e = Some x"
proof -
  have "find_map field (cs @ wrap x # cs') = Some x"
    using assms(2) by (induction cs) (simp_all add: field_wrap)
  then show ?thesis by (simp add: entity_get_def assms(1))
qed

lemma demand_spec:
  "entity_demand field kind rule e =
     (if \<exists>x. wrap x \<in> set (entity_components e) then Inr (hd (entity_all field e))
      else Inl \<lparr>br_rule = rule, br_entity = entity_id e, br_expected = kind\<rparr>)"
proof (cases "entity_get field e")
  case None
  with get_None [of e] show ?thesis by (auto simp: entity_demand_def)
next
  case (Some x)
  then have "first_of (entity_all field e) = Some x" by (simp flip: get_first_of_all)
  with get_Some [OF Some] Some show ?thesis
    by (auto simp: entity_demand_def first_of_def split: list.splits)
qed

end

interpretation name: component_field name_field component.Name
  by unfold_locales (auto simp: name_field_def split: component.splits)

interpretation accounting: component_field accounting_field component.AccountingId
  by unfold_locales (auto simp: accounting_field_def split: component.splits)

interpretation life: component_field life_field component.Life
  by unfold_locales (auto simp: life_field_def split: component.splits)

interpretation retreat_cost: component_field retreat_cost_field component.RetreatCost
  by unfold_locales (auto simp: retreat_cost_field_def split: component.splits)

interpretation form: component_field form_field component.Form
  by unfold_locales (auto simp: form_field_def split: component.splits)

interpretation mana_types: component_field mana_types_field component.Produces
  by unfold_locales (auto simp: mana_types_field_def split: component.splits)

interpretation tags: component_field tags_field component.Tags
  by unfold_locales (auto simp: tags_field_def split: component.splits)

interpretation cost: component_field cost_field component.Cost
  by unfold_locales (auto simp: cost_field_def split: component.splits)

interpretation skill: component_field skill_field component.Skill
  by unfold_locales (auto simp: skill_field_def split: component.splits)

interpretation attack: component_field attack_field component.Attack
  by unfold_locales (auto simp: attack_field_def split: component.splits)

interpretation trigger: component_field trigger_field component.Trigger
  by unfold_locales (auto simp: trigger_field_def split: component.splits)

interpretation effect: component_field effect_field component.Effect
  by unfold_locales (auto simp: effect_field_def split: component.splits)

interpretation modifier: component_field modifier_field component.Passive
  by unfold_locales (auto simp: modifier_field_def split: component.splits)

interpretation timing: component_field timing_field component.Timing
  by unfold_locales (auto simp: timing_field_def split: component.splits)

interpretation event: component_field event_field component.Event
  by unfold_locales (auto simp: event_field_def split: component.splits)

interpretation respondable: component_field respondable_field "\<lambda>_. component.Respondable"
  by unfold_locales (auto simp: respondable_field_def split: component.splits)

interpretation persistent: component_field persistent_field "\<lambda>_. component.Persistent"
  by unfold_locales (auto simp: persistent_field_def split: component.splits)

lemmas field_defs =
  name_field_def accounting_field_def life_field_def retreat_cost_field_def form_field_def
  mana_types_field_def tags_field_def cost_field_def skill_field_def attack_field_def
  trigger_field_def effect_field_def modifier_field_def timing_field_def event_field_def
  respondable_field_def persistent_field_def

lemmas read_defs = entity_get_def entity_all_def entity_demand_def

section \<open>Constraint sets\<close>

lemma constraints_contains_bit:
  "constraints_contains d c = bit (constraint_byte d) (case c of Unincreasable \<Rightarrow> 0 | Unpreventable \<Rightarrow> 1)"
  using and_exp_eq_0_iff_not_bit [of "constraint_byte d" 0] and_exp_eq_0_iff_not_bit [of "constraint_byte d" 1]
  by (cases c) (simp_all only: constraints_contains.rep_eq constraint_mask.simps damage_constraint.case
      power_0 power_one_right not_not simp_thms)

lemma constraint_mask_bit:
  "bit (constraint_mask c) n \<longleftrightarrow> n = (case c of Unincreasable \<Rightarrow> 0 | Unpreventable \<Rightarrow> 1)"
  by (cases c) (auto simp: bit_simps bit_1_iff bit_2_iff)

lemma constraints_contains_insert:
  "constraints_contains (constraints_insert c d) c' \<longleftrightarrow> c' = c \<or> constraints_contains d c'"
  by (auto simp: constraints_contains_bit constraints_insert.rep_eq bit_or_iff constraint_mask_bit
      split: damage_constraint.splits)

lemma constraints_contains_new [simp]: "\<not> constraints_contains constraints_new c"
  by (simp add: constraints_contains.rep_eq constraints_new.rep_eq)

text \<open>A constraint set is determined by what it contains: no other bit of its byte is ever set.\<close>

lemma constraints_eqI:
  assumes "\<And>c. constraints_contains d c \<longleftrightarrow> constraints_contains e c"
  shows "d = e"
proof -
  have high: "\<not> bit (constraint_byte f) n" if "2 \<le> n" "n < 8" for f n
  proof -
    have "constraint_byte f AND 0xFC = 0" using constraint_byte [of f] by simp
    then have "\<not> bit (constraint_byte f AND 0xFC) n" by simp
    moreover have "bit (0xFC :: u8) n"
    proof -
      have "n \<in> {2, 3, 4, 5, 6, 7}" using that by auto
      then show ?thesis by auto
    qed
    ultimately show ?thesis by (simp add: bit_and_iff)
  qed
  have "bit (constraint_byte d) n = bit (constraint_byte e) n" if "n < 8" for n
  proof (cases "n < 2")
    case True
    then have "n = 0 \<or> n = 1" by auto
    with assms [of Unincreasable] assms [of Unpreventable] show ?thesis
      by (auto simp: constraints_contains_bit)
  next
    case False
    with high that show ?thesis by simp
  qed
  then have "constraint_byte d = constraint_byte e"
    by (intro bit_word_eqI) simp
  then show ?thesis by (simp add: constraint_byte_inject)
qed

text \<open>The two operations by arithmetic, for evaluation.\<close>

lemma bit_uint: "bit (d :: u8) n = odd (uint d div 2 ^ n)"
  by (metis bit_iff_odd bit_unsigned_iff possible_bit_int)

lemma constraints_contains_code [code]:
  "constraints_contains d c
    = odd (uint (constraint_byte d) div (case c of Unincreasable \<Rightarrow> 1 | Unpreventable \<Rightarrow> 2))"
  by (cases c) (simp_all add: constraints_contains_bit bit_uint)

lemma constraints_insert_code [code abstract]:
  "constraint_byte (constraints_insert c d)
    = (if constraints_contains d c then constraint_byte d else constraint_byte d + constraint_mask c)"
proof (cases "constraints_contains d c")
  case True
  then have "constraints_insert c d = d"
    by (intro constraints_eqI) (auto simp: constraints_contains_insert)
  with True show ?thesis by simp
next
  case False
  then have "constraint_byte d AND constraint_mask c = 0" by (simp add: constraints_contains.rep_eq)
  then show ?thesis using False by (simp add: constraints_insert.rep_eq disjunctive_add_eq_or)
qed

lemma constraints_contains_fold:
  "constraints_contains (fold constraints_insert cs d) c \<longleftrightarrow> c \<in> set cs \<or> constraints_contains d c"
  by (induction cs arbitrary: d) (auto simp: constraints_contains_insert)

text \<open>the byte of a constraint set represents exactly the constraints it was built from, and
  nothing else: two sets with the same members are the same byte.\<close>

lemma constraints_from_contains:
  "(constraints_contains (constraints_from cs) c \<longleftrightarrow> c \<in> set cs)
    \<and> (set cs = set cs' \<longleftrightarrow> constraints_from cs = constraints_from cs')"
proof -
  have member: "constraints_contains (constraints_from cs) c \<longleftrightarrow> c \<in> set cs" for cs c
    by (simp add: constraints_from_def constraints_contains_fold)
  then have "set cs = set cs' \<Longrightarrow> constraints_from cs = constraints_from cs'"
    by (intro constraints_eqI) simp
  moreover have "constraints_from cs = constraints_from cs' \<Longrightarrow> set cs = set cs'"
    using member by (metis subset_antisym subsetI)
  ultimately show ?thesis using member by blast
qed

end
