(* ===== verification/Card_Set.thy ===== *)
theory Card_Set
  imports Cards
begin

text \<open>
  \<open>AccountingId::code\<close> of \<open>domain/cards/entity.rs\<close> and the indexed card pool of
  \<open>domain/cards/set.rs\<close>. The two \<open>HashMap\<close>s are partial functions; \<open>entry(k).or_insert(v)\<close> is
  \<open>or_insert\<close>. The lemmas show that both indices answer the first entity of the authored list,
  and where that fails for accounting codes.
\<close>

section \<open>Accounting codes\<close>

fun dec_digits :: "nat \<Rightarrow> string" where
  "dec_digits n = (if n < 10 then [char_of (48 + n)]
                   else dec_digits (n div 10) @ [char_of (48 + n mod 10)])"

declare dec_digits.simps [simp del]

text \<open>The format directive \<open>{:03}\<close>: decimal, filled with zeros to three digits at least.\<close>

definition dec_width3 :: "nat \<Rightarrow> string" where
  "dec_width3 n = replicate (3 - length (dec_digits n)) CHR ''0'' @ dec_digits n"

definition accounting_code :: "accounting_id \<Rightarrow> string" where
  "accounting_code a = ai_prefix a @ ''-'' @ dec_width3 (unat (ai_number a))"

section \<open>The card pool\<close>

record card_set =
  cs_entities :: "entity list"
  cs_by_id :: "entity_id \<rightharpoonup> nat"
  cs_by_accounting :: "string \<rightharpoonup> entity_id"

definition or_insert :: "'k \<Rightarrow> 'v \<Rightarrow> ('k \<rightharpoonup> 'v) \<Rightarrow> ('k \<rightharpoonup> 'v)" where
  "or_insert k v m = (case m k of None \<Rightarrow> m(k \<mapsto> v) | Some _ \<Rightarrow> m)"

text \<open>One turn of the loop in \<open>CardSet::new\<close>.\<close>

definition index_entity ::
  "nat \<times> entity \<Rightarrow> (entity_id \<rightharpoonup> nat) \<times> (string \<rightharpoonup> entity_id)
    \<Rightarrow> (entity_id \<rightharpoonup> nat) \<times> (string \<rightharpoonup> entity_id)" where
  "index_entity ie ixs =
     (let (index, entity) = ie; (by_id, by_accounting) = ixs in
      (or_insert (entity_id entity) index by_id,
       (case entity_get accounting_field entity of
          Some accounting \<Rightarrow> or_insert (accounting_code accounting) (entity_id entity) by_accounting
        | None \<Rightarrow> by_accounting)))"

definition card_set_new :: "entity list \<Rightarrow> card_set" where
  "card_set_new entities =
     (let (by_id, by_accounting) =
            fold index_entity (enumerate 0 entities) (Map.empty, Map.empty)
      in \<lparr>cs_entities = entities, cs_by_id = by_id, cs_by_accounting = by_accounting\<rparr>)"

definition card_set_get :: "card_set \<Rightarrow> entity_id \<Rightarrow> entity option" where
  "card_set_get cs i = map_option (\<lambda>index. cs_entities cs ! index) (cs_by_id cs i)"

definition card_set_by_accounting :: "card_set \<Rightarrow> string \<Rightarrow> entity option" where
  "card_set_by_accounting cs code =
     (case cs_by_accounting cs code of None \<Rightarrow> None | Some i \<Rightarrow> card_set_get cs i)"

section \<open>The indices are first-wins\<close>

definition prints_code :: "string \<Rightarrow> entity \<Rightarrow> bool" where
  "prints_code code e \<longleftrightarrow> map_option accounting_code (entity_get accounting_field e) = Some code"

lemma or_insert_apply:
  "or_insert k v m k' = (case m k' of Some w \<Rightarrow> Some w | None \<Rightarrow> if k' = k then Some v else None)"
  by (auto simp: or_insert_def split: option.splits)

lemma index_entity_simps:
  "fst (index_entity (n, e) ixs) = or_insert (entity_id e) n (fst ixs)"
  "snd (index_entity (n, e) ixs) code =
     (case snd ixs code of Some i \<Rightarrow> Some i
      | None \<Rightarrow> if prints_code code e then Some (entity_id e) else None)"
  by (auto simp: index_entity_def prints_code_def or_insert_apply split: prod.splits option.splits)

lemma fold_index_by_id:
  "fst (fold index_entity (enumerate n es) ixs) i =
     (case fst ixs i of Some k \<Rightarrow> Some k
      | None \<Rightarrow> map_option (\<lambda>k. n + k) (position_of (\<lambda>e. entity_id e = i) es))"
proof (induction es arbitrary: n ixs)
  case Nil
  then show ?case by (simp split: option.splits)
next
  case (Cons e es)
  show ?case
    by (simp only: enumerate_simps fold_simps Cons.IH index_entity_simps)
      (auto simp: or_insert_apply split: option.splits)
qed

lemma fold_index_by_accounting:
  "snd (fold index_entity (enumerate n es) ixs) code =
     (case snd ixs code of Some i \<Rightarrow> Some i
      | None \<Rightarrow> map_option entity_id (find (prints_code code) es))"
proof (induction es arbitrary: n ixs)
  case Nil
  then show ?case by (simp split: option.splits)
next
  case (Cons e es)
  show ?case
    by (simp only: enumerate_simps fold_simps Cons.IH index_entity_simps)
      (auto split: option.splits)
qed

lemma find_position_of: "find p xs = map_option (\<lambda>i. xs ! i) (position_of p xs)"
  by (induction xs) (auto split: option.splits)

lemma card_set_new_simps:
  "cs_entities (card_set_new es) = es"
  "cs_by_id (card_set_new es) i = position_of (\<lambda>e. entity_id e = i) es"
  "cs_by_accounting (card_set_new es) code = map_option entity_id (find (prints_code code) es)"
proof -
  have zero: "map_option ((+) 0) x = x" for x :: "nat option" by (cases x) simp_all
  obtain ids codes where fold: "fold index_entity (enumerate 0 es) (Map.empty, Map.empty) = (ids, codes)"
    by fastforce
  show "cs_entities (card_set_new es) = es" by (simp add: card_set_new_def fold)
  show "cs_by_id (card_set_new es) i = position_of (\<lambda>e. entity_id e = i) es"
    using fold_index_by_id [of 0 es "(Map.empty, Map.empty)" i]
    by (simp add: card_set_new_def fold zero)
  show "cs_by_accounting (card_set_new es) code = map_option entity_id (find (prints_code code) es)"
    using fold_index_by_accounting [of 0 es "(Map.empty, Map.empty)" code]
    by (simp add: card_set_new_def fold)
qed

text \<open>\<open>CardSet::get\<close> answers the first authored entity that carries the identity.\<close>

lemma card_set_get_new: "card_set_get (card_set_new es) i = find (\<lambda>e. entity_id e = i) es"
  by (simp add: card_set_get_def card_set_new_simps find_position_of)

lemma by_accounting_new:
  "card_set_by_accounting (card_set_new es) code =
     (case find (prints_code code) es of None \<Rightarrow> None
      | Some e \<Rightarrow> find (\<lambda>e'. entity_id e' = entity_id e) es)"
  by (auto simp: card_set_by_accounting_def card_set_new_simps card_set_get_new
      split: option.splits)

lemma find_distinct_key:
  "distinct (map f xs) \<Longrightarrow> x \<in> set xs \<Longrightarrow> find (\<lambda>y. f y = f x) xs = Some x"
  by (induction xs) (auto simp: rev_image_eqI)

text \<open>with distinct identities, \<open>CardSet::by_accounting\<close> answers the first authored entity
  that prints the code.\<close>

lemma card_set_by_accounting_first:
  assumes "distinct (map entity_id es)"
  shows "card_set_by_accounting (card_set_new es) code = find (prints_code code) es"
proof (cases "find (prints_code code) es")
  case None
  then show ?thesis by (simp add: by_accounting_new)
next
  case (Some e)
  then have "e \<in> set es" by (auto simp: find_Some_iff)
  with assms Some show ?thesis by (simp add: by_accounting_new find_distinct_key)
qed

text \<open>
  Without distinct identities the accounting index can answer a card that does not print the
  code: it stores the identity, and the identity resolves to another entity.
\<close>

theorem by_accounting_wrong_card:
  "\<exists>es code e. card_set_by_accounting (card_set_new es) code = Some e \<and> \<not> prints_code code e"
proof -
  define i where "i = EntityId 0 0 0 0 0 0 0 0 0 0 0 0 0 0 0 0"
  define acc where "acc = (\<lambda>n. component.AccountingId \<lparr>ai_prefix = ''QRY'', ai_number = n\<rparr>)"
  have codes: "accounting_code \<lparr>ai_prefix = ''QRY'', ai_number = 1\<rparr> = ''QRY-001''"
    "accounting_code \<lparr>ai_prefix = ''QRY'', ai_number = 2\<rparr> = ''QRY-002''"
    by code_simp+
  let ?es = "[Entity i [acc 1], Entity i [acc 2]]"
  have "card_set_by_accounting (card_set_new ?es) ''QRY-002'' = Some (Entity i [acc 1])"
    "\<not> prints_code ''QRY-002'' (Entity i [acc 1])"
    by (simp_all add: by_accounting_new prints_code_def read_defs accounting_field_def acc_def codes)
  then show ?thesis by blast
qed

section \<open>Accounting codes are unambiguous\<close>

lemma dec_digits_chars: "c \<in> set (dec_digits n) \<Longrightarrow> c \<noteq> CHR ''-''"
proof (induction n rule: dec_digits.induct)
  case (1 n)
  have digit: "char_of (48 + m) \<noteq> CHR ''-''" if "m < 10" for m :: nat
  proof
    assume "char_of (48 + m) = CHR ''-''"
    then have "of_char (char_of (48 + m) :: char) = (of_char CHR ''-'' :: nat)" by simp
    with that show False by simp
  qed
  from 1 digit [of n] digit [of "n mod 10"] show ?case
    by (cases "n < 10") (auto simp: dec_digits.simps [of n])
qed

fun dec_value :: "string \<Rightarrow> nat" where
  "dec_value [] = 0"
| "dec_value (c # cs) = (of_char c - 48) * 10 ^ length cs + dec_value cs"

lemma dec_value_append: "dec_value (xs @ ys) = dec_value xs * 10 ^ length ys + dec_value ys"
  by (induction xs) (simp_all add: power_add algebra_simps)

lemma dec_value_digits: "dec_value (dec_digits n) = n"
proof (induction n rule: dec_digits.induct)
  case (1 n)
  then show ?case
    by (cases "n < 10") (simp_all add: dec_digits.simps [of n] dec_value_append)
qed

lemma dec_value_width3: "dec_value (dec_width3 n) = n"
proof -
  have zeros: "dec_value (replicate k CHR ''0'') = 0" for k by (induction k) simp_all
  show ?thesis by (simp add: dec_width3_def dec_value_append zeros dec_value_digits)
qed

lemma dec_width3_chars: "c \<in> set (dec_width3 n) \<Longrightarrow> c \<noteq> CHR ''-''"
  by (auto simp: dec_width3_def dest: dec_digits_chars)

lemma split_at_last:
  assumes "xs @ c # ys = xs' @ c # ys'" and "c \<notin> set ys" and "c \<notin> set ys'"
  shows "xs = xs' \<and> ys = ys'"
proof -
  have tail: "takeWhile (\<lambda>d. d \<noteq> c) (rev (us @ c # vs)) = rev vs" if "c \<notin> set vs" for us vs
  proof -
    have "takeWhile (\<lambda>d. d \<noteq> c) (rev vs @ c # rev us)
        = rev vs @ takeWhile (\<lambda>d. d \<noteq> c) (c # rev us)"
      using that by (intro takeWhile_append2) auto
    then show ?thesis by simp
  qed
  have "rev ys = rev ys'"
    using tail [OF assms(2), of xs] tail [OF assms(3), of xs'] assms(1) by simp
  with assms(1) show ?thesis by simp
qed

text \<open>Two accounting handles with the same printed code are the same handle.\<close>

lemma accounting_code_inj: "accounting_code a = accounting_code b \<longleftrightarrow> a = b"
proof
  assume "accounting_code a = accounting_code b"
  then have "ai_prefix a = ai_prefix b \<and> dec_width3 (unat (ai_number a)) = dec_width3 (unat (ai_number b))"
    unfolding accounting_code_def
    by (intro split_at_last [of _ "CHR ''-''"]) (use dec_width3_chars in auto)
  then have "ai_prefix a = ai_prefix b" "ai_number a = ai_number b"
    by (metis, metis dec_value_width3 word_unat_eq_iff)
  then show "a = b" by simp
qed simp

end
