(* ===== verification/State.thy ===== *)
theory State
  imports Card_Set
begin

text \<open>
  \<open>crates/core/src/domain/state.rs\<close>: the one value that is the whole match. Structs are records
  (a field \<open>f\<close> of \<open>PlayerState\<close> is \<open>ps_f\<close>, and so on), enums are datatypes. The array
  \<open>[Option<SummonInstance>; 3]\<close>, only ever indexed by \<open>slot.index()\<close> or walked in slot order, is
  a function of the slot. \<open>Vec\<close> and \<open>VecDeque\<close> are lists: a \<open>Vec\<close> used as a stack grows at its
  end, as in the code. \<open>Arc<CardSet>\<close> is the card set it points to; the hand-written
  \<open>PartialEq\<close> compares that field by handle, which no operation of the engine uses.
\<close>

section \<open>Cards in play\<close>

record card_ref =
  cr_instance :: card_instance_id
  cr_def :: entity_id

record upgrade_chain =
  uc_base :: card_ref
  uc_rest :: "card_ref list"

definition chain_new :: "card_ref \<Rightarrow> card_ref list \<Rightarrow> upgrade_chain" where
  "chain_new base rest = \<lparr>uc_base = base, uc_rest = rest\<rparr>"

definition chain_top :: "upgrade_chain \<Rightarrow> card_ref" where
  "chain_top c = (case last_of (uc_rest c) of Some layer \<Rightarrow> layer | None \<Rightarrow> uc_base c)"

definition chain_layers :: "upgrade_chain \<Rightarrow> card_ref list" where
  "chain_layers c = uc_base c # uc_rest c"

datatype duration_marker = CannotBeMovedByOpponent

datatype upgrade_activity = Available | PlayedThisTurn | UpgradedThisTurn

datatype entered_main = EnteredMain

record summon_turn_record =
  tr_upgrade :: upgrade_activity
  tr_main_entry :: "entered_main option"

definition turn_record_fresh :: summon_turn_record where
  "turn_record_fresh = \<lparr>tr_upgrade = Available, tr_main_entry = None\<rparr>"

datatype readiness = Ready | Exhausted

record summon_instance =
  si_chain :: upgrade_chain
  si_damage :: u32
  si_readiness :: readiness
  si_owner :: player_id
  si_controller :: player_id
  si_duration_markers :: "duration_marker list"
  si_turn :: summon_turn_record

section \<open>Players\<close>

record mana_bank =
  mb_matter :: u32
  mb_mind :: u32
  mb_spirit :: u32

definition mana_bank_default :: mana_bank where
  "mana_bank_default = \<lparr>mb_matter = 0, mb_mind = 0, mb_spirit = 0\<rparr>"

datatype coin = Coin

record player_state =
  ps_main :: "summon_instance option"
  ps_bench :: "bench_slot \<Rightarrow> summon_instance option"
  ps_deck :: "card_ref list"
  ps_hand :: "card_ref list"
  ps_prizes :: "card_ref list"
  ps_discard :: "card_ref list"
  ps_mana :: mana_bank
  ps_main_losses :: u8
  ps_enchantments :: "card_ref list"

record 'a per_player =
  pp_one :: 'a
  pp_two :: 'a

definition pp_new :: "'a \<Rightarrow> 'a \<Rightarrow> 'a per_player" where
  "pp_new one two = \<lparr>pp_one = one, pp_two = two\<rparr>"

definition pp_get :: "'a per_player \<Rightarrow> player_id \<Rightarrow> 'a" where
  "pp_get pp p = (case p of player_id.One \<Rightarrow> pp_one pp | player_id.Two \<Rightarrow> pp_two pp)"

text \<open>A write through \<open>PerPlayer::get_mut\<close>.\<close>

definition pp_set :: "'a per_player \<Rightarrow> player_id \<Rightarrow> 'a \<Rightarrow> 'a per_player" where
  "pp_set pp p v = (case p of player_id.One \<Rightarrow> pp\<lparr>pp_one := v\<rparr> | player_id.Two \<Rightarrow> pp\<lparr>pp_two := v\<rparr>)"

section \<open>The turn, decisions and the outcome\<close>

record stack_window =
  sw_holder :: player_id
  sw_prior_pass :: bool

datatype phase = Upkeep | Main | Combat

record turn_state =
  ts_active_player :: player_id
  ts_phase :: phase
  ts_window :: "stack_window option"
  ts_normal_attack_used :: bool
  ts_normal_retreat_used :: bool
  ts_spell_played_this_turn :: "bool per_player"

datatype mana_source = Player | Summon position

datatype pending_input =
  ManaProduction player_id mana_source
| Promotion player_id
| PrizePick player_id

datatype loss_reason = ThirdMainLoss | NoPromotionAvailable | EmptyDeckDraw | Resignation

record game_outcome =
  go_winner :: player_id
  go_reason :: loss_reason

datatype game_status = Playing | Ended game_outcome | Broken breakage

fun is_playing :: "game_status \<Rightarrow> bool" where
  "is_playing game_status.Playing = True"
| "is_playing (game_status.Ended _) = False"
| "is_playing (game_status.Broken _) = False"

section \<open>The Stack and the work queue\<close>

datatype stack_item =
  Attack player_id position
| Spell player_id card_ref "position list"
| Trigger player_id position entity_id trigger_event "position list" "effect_leaf list"

datatype movement_step = LeavingMain | EnteringBench | LeavingBench | EnteringMain

datatype work_item =
  DestructionCheck position
| DiscardDestroyedChain position
| RecordMainLoss player_id
| RecoverPrize player_id
| PromoteBenchSummon player_id
| ResolveMovementConsequences player_id
| MovementTrigger movement_step player_id position
| FireTrigger player_id position trigger_event entity_id
| LossCheck player_id
| ReadyAll
| DrawCard
| ProduceMana player_id mana_source
| BeginMainPhase

record game_state =
  gs_players :: "player_state per_player"
  gs_coin :: "coin option"
  gs_turn :: turn_state
  gs_stack :: "stack_item list"
  gs_stack_segment_bases :: "nat list"
  gs_work :: "work_item list"
  gs_pending :: "pending_input option"
  gs_status :: game_status
  gs_cards :: card_set

definition break_game :: "game_state \<Rightarrow> breakage \<Rightarrow> game_state" where
  "break_game s b = s\<lparr>gs_status := game_status.Broken b\<rparr>"

section \<open>Reading and writing the boards\<close>

text \<open>The Summon at a position, as every module of the engine reads it and writes it.\<close>

fun summon_at :: "player_state \<Rightarrow> position \<Rightarrow> summon_instance option" where
  "summon_at ps position.Main = ps_main ps"
| "summon_at ps (position.Bench slot) = ps_bench ps slot"

fun set_summon_at :: "player_state \<Rightarrow> position \<Rightarrow> summon_instance option \<Rightarrow> player_state" where
  "set_summon_at ps position.Main v = ps\<lparr>ps_main := v\<rparr>"
| "set_summon_at ps (position.Bench slot) v = ps\<lparr>ps_bench := (ps_bench ps)(slot := v)\<rparr>"

definition player_of :: "game_state \<Rightarrow> player_id \<Rightarrow> player_state" where
  "player_of s p = pp_get (gs_players s) p"

definition set_player :: "game_state \<Rightarrow> player_id \<Rightarrow> player_state \<Rightarrow> game_state" where
  "set_player s p ps = s\<lparr>gs_players := pp_set (gs_players s) p ps\<rparr>"

definition update_player :: "game_state \<Rightarrow> player_id \<Rightarrow> (player_state \<Rightarrow> player_state) \<Rightarrow> game_state" where
  "update_player s p f = set_player s p (f (player_of s p))"

text \<open>\<open>player.main.as_mut()\<close> and \<open>bench.iter_mut().flatten()\<close>: every Summon of a board.\<close>

definition map_summons :: "(summon_instance \<Rightarrow> summon_instance) \<Rightarrow> player_state \<Rightarrow> player_state" where
  "map_summons f ps =
     ps\<lparr>ps_main := map_option f (ps_main ps), ps_bench := (\<lambda>slot. map_option f (ps_bench ps slot))\<rparr>"

text \<open>\<open>work.push_back\<close>, \<open>work.push_front\<close>.\<close>

definition push_back :: "work_item \<Rightarrow> game_state \<Rightarrow> game_state" where
  "push_back w s = s\<lparr>gs_work := gs_work s @ [w]\<rparr>"

definition push_front :: "work_item \<Rightarrow> game_state \<Rightarrow> game_state" where
  "push_front w s = s\<lparr>gs_work := w # gs_work s\<rparr>"

text \<open>\<open>ordered_players\<close> and \<open>occupied_bench_slots\<close> of \<open>engine/destruction/mod.rs\<close>, which the
  trigger module reads too.\<close>

definition ordered_players :: "game_state \<Rightarrow> player_id list" where
  "ordered_players s =
     (let active = ts_active_player (gs_turn s) in [opponent active, active])"

definition occupied_bench_slots :: "game_state \<Rightarrow> player_id \<Rightarrow> bench_slot list" where
  "occupied_bench_slots s p = filter (\<lambda>slot. ps_bench (player_of s p) slot \<noteq> None) bench_all"

text \<open>\<open>window_after_play\<close> of \<open>engine/stack/mod.rs\<close>: the window that follows a play.\<close>

definition window_after_play :: "player_id \<Rightarrow> stack_window" where
  "window_after_play p = \<lparr>sw_holder = opponent p, sw_prior_pass = False\<rparr>"

section \<open>Places of the state\<close>

interpretation seat: two_places
  "\<lambda>pp. pp_get pp p" "\<lambda>pp v. pp_set pp p v"
  "\<lambda>pp. pp_get pp (opponent p)" "\<lambda>pp v. pp_set pp (opponent p) v" for p
  by unfold_locales (cases p; simp add: pp_get_def pp_set_def)+

interpretation spot: place "\<lambda>ps. summon_at ps pos" "\<lambda>ps v. set_summon_at ps pos v" for pos
  by unfold_locales (cases pos; simp)+

interpretation main_and_bench: two_places
  "\<lambda>ps. summon_at ps position.Main" "\<lambda>ps v. set_summon_at ps position.Main v"
  "\<lambda>ps. summon_at ps (position.Bench slot)" "\<lambda>ps v. set_summon_at ps (position.Bench slot) v"
  for slot
  by unfold_locales simp_all

interpretation board: two_places
  "\<lambda>s. player_of s p" "\<lambda>s v. set_player s p v"
  "\<lambda>s. player_of s (opponent p)" "\<lambda>s v. set_player s (opponent p) v" for p
  by unfold_locales (simp_all add: player_of_def set_player_def seat.one.look_put
      seat.one.put_look seat.one.put_put
      seat.look1_put2 seat.look2_put1)

section \<open>Lemmas\<close>

lemma pp_get_set: "pp_get (pp_set pp p v) q = (if q = p then v else pp_get pp q)"
  by (cases p; cases q) (simp_all add: pp_get_def pp_set_def)

lemma player_of_set_player [simp]:
  "player_of (set_player s p ps) q = (if q = p then ps else player_of s q)"
  by (simp add: player_of_def set_player_def pp_get_set)

lemma player_of_update_player [simp]:
  "player_of (update_player s p f) q = (if q = p then f (player_of s p) else player_of s q)"
  by (simp add: update_player_def)

lemma player_of_frame [simp]:
  "player_of (s\<lparr>gs_coin := a\<rparr>) p = player_of s p"
  "player_of (s\<lparr>gs_turn := b\<rparr>) p = player_of s p"
  "player_of (s\<lparr>gs_stack := c\<rparr>) p = player_of s p"
  "player_of (s\<lparr>gs_stack_segment_bases := d\<rparr>) p = player_of s p"
  "player_of (s\<lparr>gs_work := e\<rparr>) p = player_of s p"
  "player_of (s\<lparr>gs_pending := f\<rparr>) p = player_of s p"
  "player_of (s\<lparr>gs_status := g\<rparr>) p = player_of s p"
  "player_of (push_back w s) p = player_of s p"
  "player_of (push_front w s) p = player_of s p"
  by (simp_all add: player_of_def push_back_def push_front_def)

lemma set_player_frame [simp]:
  "gs_coin (set_player s p ps) = gs_coin s"
  "gs_turn (set_player s p ps) = gs_turn s"
  "gs_stack (set_player s p ps) = gs_stack s"
  "gs_stack_segment_bases (set_player s p ps) = gs_stack_segment_bases s"
  "gs_work (set_player s p ps) = gs_work s"
  "gs_pending (set_player s p ps) = gs_pending s"
  "gs_status (set_player s p ps) = gs_status s"
  "gs_cards (set_player s p ps) = gs_cards s"
  by (simp_all add: set_player_def)

lemma update_player_frame [simp]:
  "gs_coin (update_player s p f) = gs_coin s"
  "gs_turn (update_player s p f) = gs_turn s"
  "gs_stack (update_player s p f) = gs_stack s"
  "gs_stack_segment_bases (update_player s p f) = gs_stack_segment_bases s"
  "gs_work (update_player s p f) = gs_work s"
  "gs_pending (update_player s p f) = gs_pending s"
  "gs_status (update_player s p f) = gs_status s"
  "gs_cards (update_player s p f) = gs_cards s"
  by (simp_all add: update_player_def)

lemma push_frame [simp]:
  "gs_players (push_back w s) = gs_players s" "gs_players (push_front w s) = gs_players s"
  "gs_coin (push_back w s) = gs_coin s" "gs_coin (push_front w s) = gs_coin s"
  "gs_turn (push_back w s) = gs_turn s" "gs_turn (push_front w s) = gs_turn s"
  "gs_stack (push_back w s) = gs_stack s" "gs_stack (push_front w s) = gs_stack s"
  "gs_stack_segment_bases (push_back w s) = gs_stack_segment_bases s"
  "gs_stack_segment_bases (push_front w s) = gs_stack_segment_bases s"
  "gs_work (push_back w s) = gs_work s @ [w]" "gs_work (push_front w s) = w # gs_work s"
  "gs_pending (push_back w s) = gs_pending s" "gs_pending (push_front w s) = gs_pending s"
  "gs_status (push_back w s) = gs_status s" "gs_status (push_front w s) = gs_status s"
  "gs_cards (push_back w s) = gs_cards s" "gs_cards (push_front w s) = gs_cards s"
  by (simp_all add: push_back_def push_front_def)

lemma break_game_frame [simp]:
  "gs_players (break_game s b) = gs_players s"
  "gs_coin (break_game s b) = gs_coin s"
  "gs_turn (break_game s b) = gs_turn s"
  "gs_stack (break_game s b) = gs_stack s"
  "gs_stack_segment_bases (break_game s b) = gs_stack_segment_bases s"
  "gs_work (break_game s b) = gs_work s"
  "gs_pending (break_game s b) = gs_pending s"
  "gs_cards (break_game s b) = gs_cards s"
  "gs_status (break_game s b) = game_status.Broken b"
  "player_of (break_game s b) p = player_of s p"
  by (simp_all add: break_game_def player_of_def)

lemma is_playing_iff: "is_playing st \<longleftrightarrow> st = game_status.Playing"
  by (cases st) simp_all

lemma chain_top_in_layers: "chain_top c \<in> set (chain_layers c)"
  by (auto simp: chain_top_def chain_layers_def last_of_def)

lemma chain_new_layers [simp]: "chain_layers (chain_new b r) = b # r"
  by (simp add: chain_layers_def chain_new_def)

lemma chain_top_last: "chain_top c = last (chain_layers c)"
  by (simp add: chain_top_def chain_layers_def last_of_def)

lemma summon_at_set_summon_at:
  "summon_at (set_summon_at ps pos v) pos' = (if pos' = pos then v else summon_at ps pos')"
  by (cases pos; cases pos') auto

lemma set_summon_at_frame [simp]:
  "ps_deck (set_summon_at ps pos v) = ps_deck ps"
  "ps_hand (set_summon_at ps pos v) = ps_hand ps"
  "ps_prizes (set_summon_at ps pos v) = ps_prizes ps"
  "ps_discard (set_summon_at ps pos v) = ps_discard ps"
  "ps_mana (set_summon_at ps pos v) = ps_mana ps"
  "ps_main_losses (set_summon_at ps pos v) = ps_main_losses ps"
  "ps_enchantments (set_summon_at ps pos v) = ps_enchantments ps"
  by (cases pos; simp)+

lemma map_summons_frame [simp]:
  "ps_deck (map_summons f ps) = ps_deck ps"
  "ps_hand (map_summons f ps) = ps_hand ps"
  "ps_prizes (map_summons f ps) = ps_prizes ps"
  "ps_discard (map_summons f ps) = ps_discard ps"
  "ps_mana (map_summons f ps) = ps_mana ps"
  "ps_main_losses (map_summons f ps) = ps_main_losses ps"
  "ps_enchantments (map_summons f ps) = ps_enchantments ps"
  by (simp_all add: map_summons_def)

lemma summon_at_map_summons [simp]:
  "summon_at (map_summons f ps) pos = map_option f (summon_at ps pos)"
  by (cases pos) (simp_all add: map_summons_def)

lemma mem_occupied_bench_slots [simp]:
  "slot \<in> set (occupied_bench_slots s p) \<longleftrightarrow> ps_bench (player_of s p) slot \<noteq> None"
  by (simp add: occupied_bench_slots_def)

lemma set_ordered_players [simp]: "p \<in> set (ordered_players s)"
  by (cases p; cases "ts_active_player (gs_turn s)") (simp_all add: ordered_players_def)

lemma window_after_play_simps [simp]:
  "sw_holder (window_after_play p) = opponent p" "sw_prior_pass (window_after_play p) = False"
  by (simp_all add: window_after_play_def)

end
