(* ===== verification/Events.thy ===== *)
theory Events
  imports State
begin

text \<open>
  \<open>domain/events.rs\<close>, \<open>domain/actions.rs\<close> and \<open>domain/errors.rs\<close>: the facts a transition
  reports, the moves an operator submits, and the reasons a move is rejected. Struct-like
  variants take their fields in the order of their declaration.
\<close>

section \<open>Events\<close>

datatype damage_source =
  Attack player_id position entity_id
| Spell player_id card_instance_id entity_id
| Skill player_id position entity_id
| Trigger player_id position entity_id

datatype damage_origin = PrintedAbility entity_id | PersistentCard card_instance_id

fun damage_source_controller :: "damage_source \<Rightarrow> player_id" where
  "damage_source_controller (damage_source.Attack controller _ _) = controller"
| "damage_source_controller (damage_source.Spell controller _ _) = controller"
| "damage_source_controller (damage_source.Skill controller _ _) = controller"
| "damage_source_controller (damage_source.Trigger controller _ _) = controller"

fun damage_source_origin :: "damage_source \<Rightarrow> damage_origin" where
  "damage_source_origin (damage_source.Attack _ _ ability) = PrintedAbility ability"
| "damage_source_origin (damage_source.Skill _ _ ability) = PrintedAbility ability"
| "damage_source_origin (damage_source.Trigger _ _ ability) = PrintedAbility ability"
| "damage_source_origin (damage_source.Spell _ _ definition) = PrintedAbility definition"

fun damage_source_from :: "effect_source \<Rightarrow> damage_source" where
  "damage_source_from (effect_source.Attack c p a) = damage_source.Attack c p a"
| "damage_source_from (effect_source.Spell c i d) = damage_source.Spell c i d"
| "damage_source_from (effect_source.Skill c p a) = damage_source.Skill c p a"
| "damage_source_from (effect_source.Trigger c p a) = damage_source.Trigger c p a"

record battlefield_target =
  bt_controller :: player_id
  bt_position :: position

record damage_context =
  dc_source :: damage_source
  dc_target :: battlefield_target

datatype damage_stage = Addition | PersistentReduction | Clamp | Commit

datatype damage_operation = Add u32 | Reduce u32 | ClampToZero

datatype game_event =
  TurnBegan player_id
| SummonsReadied player_id "position list"
| CardDrawn player_id card_instance_id
| ManaProduced player_id mana_source mana_type
| SummonPlayed player_id card_instance_id bench_slot
| SummonUpgraded player_id card_instance_id position
| SpellCast player_id card_instance_id "position list"
| SkillActivated player_id position entity_id
| AttackDeclared player_id position
| PriorityPassed player_id
| StackItemResolved stack_item
| DamageCalculationStarted damage_context u32 damage_constraints
| DamageAdjustmentApplied damage_context damage_stage damage_operation damage_origin u32 u32
| DamageAdjustmentSkipped damage_context damage_stage damage_operation damage_origin u32
    damage_constraint
| DamageApplied damage_context u32 u32 u32
| Healed position u32
| SummonDestroyed position player_id
| PrizeRecovered player_id card_instance_id
| PrizesViewed player_id "card_instance_id list"
| SummonPromoted player_id bench_slot
| SummonsSwapped player_id bench_slot
| TriggerFired player_id position trigger_event entity_id
| CoinConverted player_id mana_type
| ManaDeducted player_id mana_type u32
| GameEnded player_id loss_reason

section \<open>Actions\<close>

datatype game_action =
  PlaySummon player_id card_instance_id bench_slot
| UpgradeSummon player_id card_instance_id position
| CastSpell player_id card_instance_id "position list" "mana_type option"
| ActivateSkill player_id position entity_id "position list" "mana_type option"
| Retreat player_id bench_slot "mana_type option"
| DeclareAttack player_id position "mana_type option"
| EndTurn player_id
| PassPriority player_id
| ConvertCoin player_id mana_type
| ChooseManaType player_id mana_type
| ChoosePromotion player_id bench_slot
| ChoosePrize player_id nat
| Resign player_id

fun actor :: "game_action \<Rightarrow> player_id" where
  "actor (PlaySummon player _ _) = player"
| "actor (UpgradeSummon player _ _) = player"
| "actor (CastSpell player _ _ _) = player"
| "actor (ActivateSkill player _ _ _ _) = player"
| "actor (Retreat player _ _) = player"
| "actor (DeclareAttack player _ _) = player"
| "actor (EndTurn player) = player"
| "actor (PassPriority player) = player"
| "actor (ConvertCoin player _) = player"
| "actor (ChooseManaType player _) = player"
| "actor (ChoosePromotion player _) = player"
| "actor (ChoosePrize player _) = player"
| "actor (Resign player) = player"

section \<open>Errors and outcomes\<close>

datatype action_error =
  NotYourDecision
| GameAlreadyOver
| GameBroken
| WrongPhase
| EmptyPosition
| UnknownCard
| InsufficientMana mana_bank
| SummonExhausted
| NormalAttackAlreadyUsed
| NormalRetreatAlreadyUsed
| AlreadyUpgradedThisTurn
| PlayedThisTurn
| IllegalUpgradeTarget
| InvalidTarget
| PendingInputMismatch
| InvalidManaHint

datatype invalid_scenario =
  DuplicateCardInstance card_instance_id
| UnknownCardDef entity_id
| EmptyUpgradeChain player_id position
| IllegalChainOrder player_id position
| NoSummonInPlay player_id

text \<open>\<open>ActionOutcome\<close> of \<open>engine/apply/mod.rs\<close>.\<close>

record action_outcome =
  ao_state :: game_state
  ao_events :: "game_event list"

lemma damage_source_from_controller [simp]:
  "damage_source_controller (damage_source_from src) = effect_source_controller src"
  by (cases src) simp_all

end
