(* ===== verification/Damage.thy ===== *)
theory Damage
  imports Events
begin

text \<open>
  \<open>engine/damage.rs\<close>: pure evaluation of one Damage effect and its commit to one target. The
  loop of \<open>evaluate\<close> over the adjustments is a fold of \<open>damage_step\<close> over \<open>(amount, lines)\<close>.
  The main results: the evaluated amount equals a closed reference formula, and the public
  event trace accounts for every change between the printed base and the committed total.
\<close>

section \<open>Intents, adjustments and lines\<close>

record damage_intent =
  dn_context :: damage_context
  dn_effect :: damage_effect

record damage_adjustment =
  dj_stage :: damage_stage
  dj_operation :: damage_operation
  dj_origin :: damage_origin

datatype damage_line =
  Applied damage_stage damage_operation damage_origin u32 u32
| Skipped damage_stage damage_operation damage_origin u32 damage_constraint

record damage_resolution =
  dr_context :: damage_context
  dr_base :: u32
  dr_constraints :: damage_constraints
  dr_amount :: u32
  dr_lines :: "damage_line list"

section \<open>Collecting adjustments\<close>

definition condition_holds ::
  "game_state \<Rightarrow> player_id \<Rightarrow> position list \<Rightarrow> effect_condition \<Rightarrow> bool" where
  "condition_holds s controller targets condition =
     (case condition of
        SpellPlayedThisTurn \<Rightarrow> pp_get (ts_spell_played_this_turn (gs_turn s)) controller
      | DefenderEnteredMainThisTurn \<Rightarrow>
          (case first_of targets of
             None \<Rightarrow> False
           | Some position \<Rightarrow>
               (case summon_at (player_of s (opponent controller)) position of
                  None \<Rightarrow> False
                | Some summon \<Rightarrow> tr_main_entry (si_turn summon) \<noteq> None)))"

text \<open>The reductions one Enchantment contributes, in printed order.\<close>

definition card_reductions :: "card_set \<Rightarrow> card_ref \<Rightarrow> damage_adjustment list" where
  "card_reductions cards cref =
     (case card_set_get cards (cr_def cref) of
        None \<Rightarrow> []
      | Some entity \<Rightarrow>
          filter_map (\<lambda>modifier. case modifier of
              IncomingAttackDamageReduction amount \<Rightarrow>
                Some \<lparr>dj_stage = PersistentReduction, dj_operation = Reduce amount,
                      dj_origin = PersistentCard (cr_instance cref)\<rparr>
            | OpposingRetreatCostDelta _ \<Rightarrow> None)
            (entity_all modifier_field entity))"

definition is_opposing_attack :: "damage_context \<Rightarrow> bool" where
  "is_opposing_attack context =
     (case dc_source context of
        damage_source.Attack controller _ _ \<Rightarrow> opponent controller = bt_controller (dc_target context)
      | _ \<Rightarrow> False)"

definition collect_adjustments :: "game_state \<Rightarrow> damage_intent \<Rightarrow> damage_adjustment list" where
  "collect_adjustments s intent =
     (let context = dn_context intent;
          origin = damage_source_origin (dc_source context);
          controller = damage_source_controller (dc_source context);
          selected_target = [bt_position (dc_target context)];
          additions =
            map (\<lambda>addition. \<lparr>dj_stage = Addition, dj_operation = Add (da_amount addition),
                              dj_origin = origin\<rparr>)
              (filter (\<lambda>addition. condition_holds s controller selected_target
                                    (da_condition addition))
                (de_additions (dn_effect intent)))
      in if is_opposing_attack context
         then additions
           @ concat (map (card_reductions (gs_cards s))
               (ps_enchantments (player_of s (bt_controller (dc_target context)))))
         else additions)"

section \<open>Evaluation\<close>

definition blocked_by :: "damage_constraints \<Rightarrow> damage_stage \<Rightarrow> damage_constraint option" where
  "blocked_by constraints stage =
     (case stage of
        Addition \<Rightarrow>
          if constraints_contains constraints Unincreasable then Some Unincreasable else None
      | PersistentReduction \<Rightarrow>
          if constraints_contains constraints Unpreventable then Some Unpreventable else None
      | Clamp \<Rightarrow> None
      | Commit \<Rightarrow> None)"

fun perform :: "damage_operation \<Rightarrow> u32 \<Rightarrow> u32" where
  "perform (Add value) amount = saturating_add amount value"
| "perform (Reduce value) amount = saturating_sub amount value"
| "perform ClampToZero amount = amount"

definition damage_step ::
  "damage_constraints \<Rightarrow> damage_adjustment \<Rightarrow> u32 \<times> damage_line list \<Rightarrow> u32 \<times> damage_line list" where
  "damage_step constraints adjustment al =
     (let amount = fst al; lines = snd al in
      case blocked_by constraints (dj_stage adjustment) of
        Some constraint \<Rightarrow>
          (amount, lines @ [Skipped (dj_stage adjustment) (dj_operation adjustment)
             (dj_origin adjustment) amount constraint])
      | None \<Rightarrow>
          (let output = perform (dj_operation adjustment) amount
           in (output, lines @ [Applied (dj_stage adjustment) (dj_operation adjustment)
                (dj_origin adjustment) amount output])))"

definition evaluate :: "game_state \<Rightarrow> damage_intent \<Rightarrow> damage_resolution" where
  "evaluate s intent =
     (let origin = damage_source_origin (dc_source (dn_context intent));
          adjustments = collect_adjustments s intent
            @ [\<lparr>dj_stage = Clamp, dj_operation = ClampToZero, dj_origin = origin\<rparr>];
          (amount, lines) = fold (damage_step (de_constraints (dn_effect intent))) adjustments
            (de_base (dn_effect intent), [])
      in \<lparr>dr_context = dn_context intent, dr_base = de_base (dn_effect intent),
          dr_constraints = de_constraints (dn_effect intent), dr_amount = amount, dr_lines = lines\<rparr>)"

section \<open>Commit\<close>

fun line_event :: "damage_context \<Rightarrow> damage_line \<Rightarrow> game_event" where
  "line_event context (Applied stage operation origin input output) =
     DamageAdjustmentApplied context stage operation origin input output"
| "line_event context (Skipped stage operation origin input constraint) =
     DamageAdjustmentSkipped context stage operation origin input constraint"

definition commit :: "game_state \<Rightarrow> damage_resolution \<Rightarrow> game_state \<times> game_event list" where
  "commit s resolution =
     (let target = dc_target (dr_context resolution) in
      case summon_at (player_of s (bt_controller target)) (bt_position target) of
        None \<Rightarrow> (s, [])
      | Some summon \<Rightarrow>
          (let before = si_damage summon;
               after = saturating_add before (dr_amount resolution);
               s = update_player s (bt_controller target)
                     (\<lambda>ps. set_summon_at ps (bt_position target) (Some (summon\<lparr>si_damage := after\<rparr>)))
           in (push_back (DestructionCheck (bt_position target)) s,
               DamageCalculationStarted (dr_context resolution) (dr_base resolution)
                 (dr_constraints resolution)
               # map (line_event (dr_context resolution)) (dr_lines resolution)
               @ [DamageApplied (dr_context resolution) (dr_amount resolution) before after])))"

section \<open>The reference formula\<close>

text \<open>What the additions and the reductions add up to, over unbounded numbers.\<close>

definition raise_total :: "game_state \<Rightarrow> damage_intent \<Rightarrow> nat" where
  "raise_total s intent =
     (if constraints_contains (de_constraints (dn_effect intent)) Unincreasable then 0
      else \<Sum>a \<leftarrow> de_additions (dn_effect intent).
        if condition_holds s (damage_source_controller (dc_source (dn_context intent)))
             [bt_position (dc_target (dn_context intent))] (da_condition a)
        then unat (da_amount a) else 0)"

definition modifier_reduction :: "modifier \<Rightarrow> nat" where
  "modifier_reduction m =
     (case m of IncomingAttackDamageReduction amount \<Rightarrow> unat amount | _ \<Rightarrow> 0)"

definition printed_reduction :: "card_set \<Rightarrow> card_ref \<Rightarrow> nat" where
  "printed_reduction cards cref =
     (case card_set_get cards (cr_def cref) of
        None \<Rightarrow> 0
      | Some entity \<Rightarrow> \<Sum>m \<leftarrow> entity_all modifier_field entity. modifier_reduction m)"

definition reduce_total :: "game_state \<Rightarrow> damage_intent \<Rightarrow> nat" where
  "reduce_total s intent =
     (if constraints_contains (de_constraints (dn_effect intent)) Unpreventable
        \<or> \<not> is_opposing_attack (dn_context intent) then 0
      else \<Sum>c \<leftarrow> ps_enchantments (player_of s (bt_controller (dc_target (dn_context intent)))).
        printed_reduction (gs_cards s) c)"

definition add_value :: "damage_adjustment \<Rightarrow> nat" where
  "add_value j = (case dj_operation j of Add v \<Rightarrow> unat v | _ \<Rightarrow> 0)"

definition reduce_value :: "damage_adjustment \<Rightarrow> nat" where
  "reduce_value j = (case dj_operation j of Reduce v \<Rightarrow> unat v | _ \<Rightarrow> 0)"

lemma damage_step_pair:
  "blocked_by c (dj_stage j) = Some x \<Longrightarrow> damage_step c j (a, ls)
     = (a, ls @ [Skipped (dj_stage j) (dj_operation j) (dj_origin j) a x])"
  "blocked_by c (dj_stage j) = None \<Longrightarrow> damage_step c j (a, ls)
     = (perform (dj_operation j) a,
        ls @ [Applied (dj_stage j) (dj_operation j) (dj_origin j) a (perform (dj_operation j) a)])"
  by (simp_all add: damage_step_def Let_def)

lemma operation_values:
  "dj_operation j = Add v \<Longrightarrow> add_value j = unat v"
  "dj_operation j = Reduce v \<Longrightarrow> reduce_value j = unat v"
  by (simp_all add: add_value_def reduce_value_def)

lemma fold_additions:
  assumes "\<forall>j \<in> set js. dj_stage j = Addition \<and> (\<exists>v. dj_operation j = Add v)"
  shows "unat (fst (fold (damage_step c) js (a, ls))) =
    (if constraints_contains c Unincreasable then unat a
     else min (2 ^ 32 - 1) (unat a + (\<Sum>j \<leftarrow> js. add_value j)))"
  using assms
proof (induction js arbitrary: a ls)
  case Nil
  then show ?case using unat_lt_u32 [of a] by (simp add: min_def)
next
  case (Cons j js)
  then obtain v where "dj_stage j = Addition" "dj_operation j = Add v" by auto
  with Cons show ?case
    by (cases "constraints_contains c Unincreasable")
      (auto simp: damage_step_pair blocked_by_def unat_saturating_add operation_values)
qed

lemma fold_reductions:
  assumes "\<forall>j \<in> set js. dj_stage j = PersistentReduction \<and> (\<exists>v. dj_operation j = Reduce v)"
  shows "unat (fst (fold (damage_step c) js (a, ls))) =
    (if constraints_contains c Unpreventable then unat a
     else unat a - (\<Sum>j \<leftarrow> js. reduce_value j))"
  using assms
proof (induction js arbitrary: a ls)
  case Nil
  then show ?case by simp
next
  case (Cons j js)
  then obtain v where "dj_stage j = PersistentReduction" "dj_operation j = Reduce v" by auto
  with Cons show ?case
    by (cases "constraints_contains c Unpreventable")
      (auto simp: damage_step_pair blocked_by_def unat_saturating_sub operation_values)
qed

lemma card_reductions_shape:
  "\<forall>j \<in> set (card_reductions cs cref). dj_stage j = PersistentReduction \<and> (\<exists>v. dj_operation j = Reduce v)"
proof -
  have "dj_stage j = PersistentReduction \<and> (\<exists>v. dj_operation j = Reduce v)"
    if "(case m of IncomingAttackDamageReduction amount \<Rightarrow>
          Some \<lparr>dj_stage = PersistentReduction, dj_operation = Reduce amount,
                dj_origin = PersistentCard (cr_instance cref)\<rparr>
        | OpposingRetreatCostDelta _ \<Rightarrow> None) = Some j" for m j
    using that by (cases m) auto
  then show ?thesis by (fastforce simp: card_reductions_def set_filter_map split: option.splits)
qed

lemma card_reductions_total:
  "(\<Sum>j \<leftarrow> card_reductions cs cref. reduce_value j) = printed_reduction cs cref"
proof -
  have "(\<Sum>j \<leftarrow> filter_map (\<lambda>modifier. case modifier of
              IncomingAttackDamageReduction amount \<Rightarrow>
                Some \<lparr>dj_stage = PersistentReduction, dj_operation = Reduce amount,
                      dj_origin = PersistentCard (cr_instance cref)\<rparr>
            | OpposingRetreatCostDelta _ \<Rightarrow> None) ms. reduce_value j)
      = (\<Sum>m \<leftarrow> ms. modifier_reduction m)" for ms
    by (induction ms) (auto simp: reduce_value_def modifier_reduction_def split: modifier.splits)
  then show ?thesis
    by (simp add: card_reductions_def printed_reduction_def split: option.splits)
qed

lemma sum_list_concat_map: "(\<Sum>y \<leftarrow> concat (map f xs). g y) = (\<Sum>x \<leftarrow> xs. \<Sum>y \<leftarrow> f x. (g y :: nat))"
  by (induction xs) simp_all

lemma sum_list_filter_if: "(\<Sum>x \<leftarrow> filter p xs. f x) = (\<Sum>x \<leftarrow> xs. if p x then f x else (0 :: nat))"
  by (induction xs) simp_all

text \<open>The adjustments are the additions that hold, then the reductions that apply.\<close>

lemma collect_adjustments_split:
  obtains as rs where "collect_adjustments s i = as @ rs"
    and "\<forall>j \<in> set as. dj_stage j = Addition \<and> (\<exists>v. dj_operation j = Add v)"
    and "\<forall>j \<in> set rs. dj_stage j = PersistentReduction \<and> (\<exists>v. dj_operation j = Reduce v)"
    and "\<not> constraints_contains (de_constraints (dn_effect i)) Unincreasable
      \<longrightarrow> (\<Sum>j \<leftarrow> as. add_value j) = raise_total s i"
    and "\<not> constraints_contains (de_constraints (dn_effect i)) Unpreventable
      \<longrightarrow> (\<Sum>j \<leftarrow> rs. reduce_value j) = reduce_total s i"
proof -
  define hold where "hold a = condition_holds s
    (damage_source_controller (dc_source (dn_context i)))
    [bt_position (dc_target (dn_context i))] (da_condition a)" for a :: damage_addition
  define add where "add a = \<lparr>dj_stage = Addition, dj_operation = Add (da_amount a),
    dj_origin = damage_source_origin (dc_source (dn_context i))\<rparr>" for a :: damage_addition
  define as where "as = map add (filter hold (de_additions (dn_effect i)))"
  define rs where "rs = (if is_opposing_attack (dn_context i)
    then concat (map (card_reductions (gs_cards s))
      (ps_enchantments (player_of s (bt_controller (dc_target (dn_context i))))))
    else [])"
  have split: "collect_adjustments s i = as @ rs"
    unfolding collect_adjustments_def Let_def as_def rs_def add_def hold_def by simp
  have "(\<Sum>j \<leftarrow> as. add_value j) = (\<Sum>a \<leftarrow> de_additions (dn_effect i). if hold a then unat (da_amount a) else 0)"
    unfolding as_def by (simp add: sum_list_filter_if o_def add_value_def add_def)
  then have raise: "\<not> constraints_contains (de_constraints (dn_effect i)) Unincreasable
      \<longrightarrow> (\<Sum>j \<leftarrow> as. add_value j) = raise_total s i"
    by (simp add: raise_total_def hold_def)
  have reduce: "\<not> constraints_contains (de_constraints (dn_effect i)) Unpreventable
      \<longrightarrow> (\<Sum>j \<leftarrow> rs. reduce_value j) = reduce_total s i"
    by (simp add: rs_def reduce_total_def sum_list_concat_map card_reductions_total)
  have "\<forall>j \<in> set as. dj_stage j = Addition \<and> (\<exists>v. dj_operation j = Add v)"
    by (auto simp: as_def add_def)
  moreover have "\<forall>j \<in> set rs. dj_stage j = PersistentReduction \<and> (\<exists>v. dj_operation j = Reduce v)"
    using card_reductions_shape by (auto simp: rs_def)
  ultimately show thesis using that split raise reduce by blast
qed

text \<open>C30: the evaluated Damage is the printed base plus every addition whose condition holds
  (none when it is Unincreasable), capped at \<open>u32::MAX\<close>, less every reduction the defender's
  Enchantments print against an opposing attack (none when it is Unpreventable), floored at
  zero: the staged loop computes one closed formula.\<close>

theorem evaluate_amount:
  "unat (dr_amount (evaluate s i))
    = min (2 ^ 32 - 1) (unat (de_base (dn_effect i)) + raise_total s i) - reduce_total s i"
proof -
  let ?c = "de_constraints (dn_effect i)" and ?b = "de_base (dn_effect i)"
  obtain as rs where split: "collect_adjustments s i = as @ rs"
    and as: "\<forall>j \<in> set as. dj_stage j = Addition \<and> (\<exists>v. dj_operation j = Add v)"
    and rs: "\<forall>j \<in> set rs. dj_stage j = PersistentReduction \<and> (\<exists>v. dj_operation j = Reduce v)"
    and raise: "\<not> constraints_contains ?c Unincreasable \<longrightarrow> (\<Sum>j \<leftarrow> as. add_value j) = raise_total s i"
    and reduce: "\<not> constraints_contains ?c Unpreventable \<longrightarrow> (\<Sum>j \<leftarrow> rs. reduce_value j) = reduce_total s i"
    by (rule collect_adjustments_split [of s i])
  obtain a1 l1 where one: "fold (damage_step ?c) as (?b, []) = (a1, l1)" by fastforce
  obtain a2 l2 where two: "fold (damage_step ?c) rs (a1, l1) = (a2, l2)" by fastforce
  have "dr_amount (evaluate s i) = a2"
    by (simp add: evaluate_def split one two damage_step_def blocked_by_def)
  moreover have "unat a1 = min (2 ^ 32 - 1) (unat ?b + raise_total s i)"
    using fold_additions [OF as, of ?c ?b "[]"] one raise unat_lt_u32 [of ?b]
    by (auto simp: raise_total_def split: if_splits)
  moreover have "unat a2 = unat a1 - reduce_total s i"
    using fold_reductions [OF rs, of ?c a1 l1] two reduce
    by (auto simp: reduce_total_def split: if_splits)
  ultimately show ?thesis by simp
qed

section \<open>The event trace\<close>

text \<open>
  An auditor's reading of the lines: each one starts from the amount the previous one left, an
  applied line performs its own operation, and a skipped one leaves the amount alone.
\<close>

fun audit :: "u32 \<Rightarrow> damage_line list \<Rightarrow> u32 option" where
  "audit amount [] = Some amount"
| "audit amount (Applied _ operation _ input output # ls) =
     (if input = amount \<and> output = perform operation amount then audit output ls else None)"
| "audit amount (Skipped _ _ _ input _ # ls) = (if input = amount then audit amount ls else None)"

lemma audit_append: "audit a (ls @ ks) = (case audit a ls of None \<Rightarrow> None | Some b \<Rightarrow> audit b ks)"
  by (induction a ls rule: audit.induct) auto

lemma fold_damage_step_audit:
  "audit b ls = Some a \<Longrightarrow> fold (damage_step c) js (a, ls) = (a', ls') \<Longrightarrow> audit b ls' = Some a'"
proof (induction js arbitrary: a ls)
  case (Cons j js)
  show ?case
  proof (cases "blocked_by c (dj_stage j)")
    case None
    let ?l = "Applied (dj_stage j) (dj_operation j) (dj_origin j) a (perform (dj_operation j) a)"
    have "audit b (ls @ [?l]) = Some (perform (dj_operation j) a)"
      using Cons.prems(1) by (simp add: audit_append)
    then show ?thesis using Cons.IH Cons.prems(2) None by (simp add: damage_step_pair)
  next
    case (Some x)
    let ?l = "Skipped (dj_stage j) (dj_operation j) (dj_origin j) a x"
    have "audit b (ls @ [?l]) = Some a" using Cons.prems(1) by (simp add: audit_append)
    then show ?thesis using Cons.IH Cons.prems(2) Some by (simp add: damage_step_pair)
  qed
qed simp

lemma evaluate_simps [simp]:
  "dr_context (evaluate s i) = dn_context i" "dr_base (evaluate s i) = de_base (dn_effect i)"
  "dr_constraints (evaluate s i) = de_constraints (dn_effect i)"
  by (simp_all add: evaluate_def split: prod.splits)

text \<open>The trace of an evaluation is complete: replayed line by line from the printed base it
  passes through every intermediate amount and ends at exactly the amount committed.\<close>

lemma evaluate_trace: "audit (dr_base (evaluate s i)) (dr_lines (evaluate s i)) = Some (dr_amount (evaluate s i))"
proof -
  obtain a ls where run: "fold (damage_step (de_constraints (dn_effect i))) (collect_adjustments s i
      @ [\<lparr>dj_stage = Clamp, dj_operation = ClampToZero,
          dj_origin = damage_source_origin (dc_source (dn_context i))\<rparr>]) (de_base (dn_effect i), [])
      = (a, ls)" by fastforce
  have "audit (de_base (dn_effect i)) ls = Some a"
    by (rule fold_damage_step_audit [OF _ run]) simp
  then show ?thesis by (simp only: evaluate_def Let_def run split damage_resolution.simps)
qed

section \<open>What a commit changes\<close>

lemma commit_miss:
  "summon_at (player_of s (bt_controller (dc_target (dr_context r)))) (bt_position (dc_target (dr_context r)))
     = None \<Longrightarrow> commit s r = (s, [])"
  by (simp add: commit_def)

lemma commit_frame [frame_simps]:
  "gs_coin (fst (commit s r)) = gs_coin s"
  "gs_turn (fst (commit s r)) = gs_turn s"
  "gs_stack (fst (commit s r)) = gs_stack s"
  "gs_stack_segment_bases (fst (commit s r)) = gs_stack_segment_bases s"
  "gs_pending (fst (commit s r)) = gs_pending s"
  "gs_status (fst (commit s r)) = gs_status s"
  "gs_cards (fst (commit s r)) = gs_cards s"
  by (simp_all add: commit_def Let_def split: option.splits)

text \<open>a commit on an occupied target raises that one Summon's Damage by the evaluated amount,
  saturating, leaves every other Summon, pile and player alone, and queues exactly one
  destruction check behind the work already there.\<close>

lemma commit_hit:
  assumes "summon_at (player_of s (bt_controller t)) (bt_position t) = Some summon"
    and "t = dc_target (dr_context r)"
  shows "summon_at (player_of (fst (commit s r)) p) pos =
      (if p = bt_controller t \<and> pos = bt_position t
       then Some (summon\<lparr>si_damage := saturating_add (si_damage summon) (dr_amount r)\<rparr>)
       else summon_at (player_of s p) pos)
    \<and> gs_work (fst (commit s r)) = gs_work s @ [DestructionCheck (bt_position t)]
    \<and> (\<forall>q. ps_deck (player_of (fst (commit s r)) q) = ps_deck (player_of s q)
         \<and> ps_hand (player_of (fst (commit s r)) q) = ps_hand (player_of s q)
         \<and> ps_discard (player_of (fst (commit s r)) q) = ps_discard (player_of s q)
         \<and> ps_mana (player_of (fst (commit s r)) q) = ps_mana (player_of s q))
    \<and> last (snd (commit s r))
        = DamageApplied (dr_context r) (dr_amount r) (si_damage summon)
            (saturating_add (si_damage summon) (dr_amount r))"
  using assms by (simp add: commit_def Let_def summon_at_set_summon_at)

end
