(* ===== verification/Loss.thy ===== *)
theory Loss
  imports Events
begin

text \<open>
  \<open>engine/loss.rs\<close>: the losing conditions of rules section 2. Every losing path sets the status
  to a win for the loser's opponent; the resolution loop stops on the status.
\<close>

definition lose :: "game_state \<Rightarrow> player_id \<Rightarrow> loss_reason \<Rightarrow> game_state \<times> game_event list" where
  "lose s loser reason =
     (let outcome = \<lparr>go_winner = opponent loser, go_reason = reason\<rparr>
      in (s\<lparr>gs_status := game_status.Ended outcome\<rparr>, [GameEnded (go_winner outcome) (go_reason outcome)]))"

definition draw_failure :: "game_state \<Rightarrow> player_id \<Rightarrow> game_state \<times> game_event list" where
  "draw_failure s p = lose s p EmptyDeckDraw"

definition loss_check :: "game_state \<Rightarrow> player_id \<Rightarrow> game_state \<times> game_event list" where
  "loss_check s p =
     (let ps = player_of s p in
      if 3 \<le> ps_main_losses ps then lose s p ThirdMainLoss
      else if ps_main ps = None \<and> (\<forall>slot \<in> set bench_all. ps_bench ps slot = None)
      then lose s p NoPromotionAvailable
      else (s, []))"

lemma lose_frame [frame_simps]:
  "gs_players (fst (lose s p r)) = gs_players s"
  "gs_coin (fst (lose s p r)) = gs_coin s"
  "gs_turn (fst (lose s p r)) = gs_turn s"
  "gs_stack (fst (lose s p r)) = gs_stack s"
  "gs_stack_segment_bases (fst (lose s p r)) = gs_stack_segment_bases s"
  "gs_work (fst (lose s p r)) = gs_work s"
  "gs_pending (fst (lose s p r)) = gs_pending s"
  "gs_cards (fst (lose s p r)) = gs_cards s"
  "player_of (fst (lose s p r)) q = player_of s q"
  "gs_status (fst (lose s p r)) = game_status.Ended \<lparr>go_winner = opponent p, go_reason = r\<rparr>"
  by (simp_all add: lose_def)

text \<open>Whether a player has lost through Main destruction, and by which reason.\<close>

definition main_loss_reason :: "player_state \<Rightarrow> loss_reason option" where
  "main_loss_reason ps =
     (if 3 \<le> ps_main_losses ps then Some ThirdMainLoss
      else if \<forall>pos. summon_at ps pos = None then Some NoPromotionAvailable
      else None)"

lemma no_summon_iff:
  "(\<forall>pos. summon_at ps pos = None)
    \<longleftrightarrow> ps_main ps = None \<and> (\<forall>slot \<in> set bench_all. ps_bench ps slot = None)"
proof
  assume *: "\<forall>pos. summon_at ps pos = None"
  show "ps_main ps = None \<and> (\<forall>slot \<in> set bench_all. ps_bench ps slot = None)"
    using * [rule_format, of position.Main] * [rule_format, of "position.Bench _"] by simp
next
  assume "ps_main ps = None \<and> (\<forall>slot \<in> set bench_all. ps_bench ps slot = None)"
  then show "\<forall>pos. summon_at ps pos = None" by (metis position.exhaust set_bench_all summon_at.simps)
qed

text \<open>A loss check ends the game exactly when the player has three Main losses or no Summon
  left anywhere, the third loss taking precedence; it names the opponent as the winner, reports
  it in one event, and changes nothing but the status.\<close>

lemma loss_check_spec:
  "loss_check s p =
    (case main_loss_reason (player_of s p) of
       None \<Rightarrow> (s, [])
     | Some reason \<Rightarrow>
         (s\<lparr>gs_status := game_status.Ended \<lparr>go_winner = opponent p, go_reason = reason\<rparr>\<rparr>,
          [GameEnded (opponent p) reason]))"
  unfolding loss_check_def main_loss_reason_def no_summon_iff by (simp add: Let_def lose_def)

end
