(* ===== verification/Upkeep.thy ===== *)
theory Upkeep
  imports Loss "HOL-Library.Sublist"
begin

text \<open>
  \<open>engine/upkeep.rs\<close>: the anchoring rule, the per-turn reset and the Upkeep executors. The
  array \<open>seen: [bool; 3]\<close> is a function of the Mana type.
\<close>

section \<open>The anchoring rule\<close>

definition controlled_summons :: "player_state \<Rightarrow> summon_instance list" where
  "controlled_summons ps =
     (case ps_main ps of None \<Rightarrow> [] | Some summon \<Rightarrow> [summon]) @ filter_map (ps_bench ps) bench_all"

definition controlled_positions :: "player_state \<Rightarrow> position list" where
  "controlled_positions ps =
     (if ps_main ps \<noteq> None then [position.Main] else [])
     @ map position.Bench (filter (\<lambda>slot. ps_bench ps slot \<noteq> None) bench_all)"

definition top_entity :: "card_set \<Rightarrow> summon_instance \<Rightarrow> entity option" where
  "top_entity cards summon = card_set_get cards (cr_def (chain_top (si_chain summon)))"

definition produced_types :: "card_set \<Rightarrow> summon_instance \<Rightarrow> mana_type list" where
  "produced_types cards summon =
     (case Option.bind (top_entity cards summon) (entity_get mana_types_field) of
        Some types \<Rightarrow> types | None \<Rightarrow> [])"

definition anchor_types :: "card_set \<Rightarrow> player_state \<Rightarrow> mana_type list" where
  "anchor_types cards ps =
     (let seen = fold (\<lambda>summon seen. fold (\<lambda>t seen. seen(t := True)) (produced_types cards summon) seen)
                   (controlled_summons ps) (\<lambda>_. False)
      in filter seen [Matter, Mind, Spirit])"

definition summon_types :: "card_set \<Rightarrow> player_state \<Rightarrow> position \<Rightarrow> mana_type list" where
  "summon_types cards ps pos =
     (case summon_at ps pos of Some summon \<Rightarrow> produced_types cards summon | None \<Rightarrow> [])"

definition available_types :: "card_set \<Rightarrow> player_state \<Rightarrow> mana_source \<Rightarrow> mana_type list" where
  "available_types cards ps source =
     (case source of
        mana_source.Player \<Rightarrow> anchor_types cards ps
      | mana_source.Summon pos \<Rightarrow> summon_types cards ps pos)"

definition bank :: "mana_type \<Rightarrow> player_state \<Rightarrow> player_state" where
  "bank t ps =
     (let m = ps_mana ps in
      ps\<lparr>ps_mana :=
        (case t of
           Matter \<Rightarrow> m\<lparr>mb_matter := mb_matter m + 1\<rparr>
         | Mind \<Rightarrow> m\<lparr>mb_mind := mb_mind m + 1\<rparr>
         | Spirit \<Rightarrow> m\<lparr>mb_spirit := mb_spirit m + 1\<rparr>)\<rparr>)"

section \<open>The per-turn reset\<close>

definition clear_per_turn_flags :: "summon_instance \<Rightarrow> summon_instance" where
  "clear_per_turn_flags summon = summon\<lparr>si_turn := turn_record_fresh\<rparr>"

definition reset_per_turn_summon_records :: "player_state \<Rightarrow> player_state" where
  "reset_per_turn_summon_records ps = map_summons clear_per_turn_flags ps"

section \<open>Work executors\<close>

definition ready_all :: "game_state \<Rightarrow> game_state \<times> game_event list" where
  "ready_all s =
     (let player = ts_active_player (gs_turn s);
          positions = controlled_positions (player_of s player)
      in (update_player s player (map_summons (\<lambda>summon. summon\<lparr>si_readiness := Ready\<rparr>)),
          [SummonsReadied player positions]))"

datatype draw_outcome = Drew | DeckEmpty

text \<open>Taking the front card of the Deck into the hand, which \<open>draw_card\<close> and the \<open>DrawCards\<close> leaf
  both do.\<close>

definition take_top :: "card_ref \<Rightarrow> card_ref list \<Rightarrow> player_state \<Rightarrow> player_state" where
  "take_top cref rest ps = ps\<lparr>ps_deck := rest, ps_hand := ps_hand ps @ [cref]\<rparr>"

definition draw_card :: "game_state \<Rightarrow> game_state \<times> game_event list \<times> draw_outcome" where
  "draw_card s =
     (let player = ts_active_player (gs_turn s) in
      case ps_deck (player_of s player) of
        [] \<Rightarrow> (s, [], DeckEmpty)
      | cref # rest \<Rightarrow>
          (update_player s player (take_top cref rest), [CardDrawn player (cr_instance cref)], Drew))"

definition produce_mana :: "game_state \<Rightarrow> player_id \<Rightarrow> mana_source \<Rightarrow> game_state \<times> game_event list" where
  "produce_mana s player source =
     (case available_types (gs_cards s) (player_of s player) source of
        [] \<Rightarrow> (s, [])
      | [mana_type] \<Rightarrow>
          (update_player s player (bank mana_type), [ManaProduced player source mana_type])
      | _ \<Rightarrow> (s\<lparr>gs_pending := Some (ManaProduction player source)\<rparr>, []))"

definition begin_main_phase :: "game_state \<Rightarrow> game_state \<times> game_event list" where
  "begin_main_phase s = (s\<lparr>gs_turn := (gs_turn s)\<lparr>ts_phase := phase.Main\<rparr>\<rparr>, [])"

text \<open>\<open>execute_draw\<close> of \<open>engine/resolution/mod.rs\<close>.\<close>

definition execute_draw :: "game_state \<Rightarrow> game_state \<times> game_event list" where
  "execute_draw s =
     (case draw_card s of
        (s, events, Drew) \<Rightarrow> (s, events)
      | (s, events, DeckEmpty) \<Rightarrow>
          (let (s, loss_events) = draw_failure s (ts_active_player (gs_turn s))
           in (s, events @ loss_events)))"

section \<open>Frames\<close>

lemma bank_frame [simp]:
  "ps_main (bank t ps) = ps_main ps" "ps_bench (bank t ps) = ps_bench ps"
  "ps_deck (bank t ps) = ps_deck ps" "ps_hand (bank t ps) = ps_hand ps"
  "ps_prizes (bank t ps) = ps_prizes ps" "ps_discard (bank t ps) = ps_discard ps"
  "ps_main_losses (bank t ps) = ps_main_losses ps"
  "ps_enchantments (bank t ps) = ps_enchantments ps"
  "summon_at (bank t ps) pos = summon_at ps pos"
  by (simp_all add: bank_def Let_def) (cases pos; simp)

lemma take_top_frame [simp]:
  "ps_main (take_top c r ps) = ps_main ps" "ps_bench (take_top c r ps) = ps_bench ps"
  "ps_prizes (take_top c r ps) = ps_prizes ps" "ps_discard (take_top c r ps) = ps_discard ps"
  "ps_mana (take_top c r ps) = ps_mana ps" "ps_main_losses (take_top c r ps) = ps_main_losses ps"
  "ps_enchantments (take_top c r ps) = ps_enchantments ps"
  "ps_deck (take_top c r ps) = r" "ps_hand (take_top c r ps) = ps_hand ps @ [c]"
  "summon_at (take_top c r ps) pos = summon_at ps pos"
  by (simp_all add: take_top_def) (cases pos; simp)

text \<open>What an executor of this module can change: the boards' readiness, one hand, the Mana, the
  pending decision, the phase and the status.\<close>

lemma produce_mana_frame [frame_simps]:
  "gs_coin (fst (produce_mana s p src)) = gs_coin s"
  "gs_turn (fst (produce_mana s p src)) = gs_turn s"
  "gs_stack (fst (produce_mana s p src)) = gs_stack s"
  "gs_stack_segment_bases (fst (produce_mana s p src)) = gs_stack_segment_bases s"
  "gs_work (fst (produce_mana s p src)) = gs_work s"
  "gs_status (fst (produce_mana s p src)) = gs_status s"
  "gs_cards (fst (produce_mana s p src)) = gs_cards s"
  by (simp_all add: produce_mana_def split: list.splits)

lemma ready_all_frame [frame_simps]:
  "gs_coin (fst (ready_all s)) = gs_coin s"
  "gs_turn (fst (ready_all s)) = gs_turn s"
  "gs_stack (fst (ready_all s)) = gs_stack s"
  "gs_stack_segment_bases (fst (ready_all s)) = gs_stack_segment_bases s"
  "gs_work (fst (ready_all s)) = gs_work s"
  "gs_pending (fst (ready_all s)) = gs_pending s"
  "gs_status (fst (ready_all s)) = gs_status s"
  "gs_cards (fst (ready_all s)) = gs_cards s"
  by (simp_all add: ready_all_def Let_def)

lemma execute_draw_cases:
  "execute_draw s =
    (let player = ts_active_player (gs_turn s) in
     case ps_deck (player_of s player) of
       [] \<Rightarrow> lose s player EmptyDeckDraw
     | cref # rest \<Rightarrow>
         (update_player s player (take_top cref rest), [CardDrawn player (cr_instance cref)]))"
  by (simp add: execute_draw_def draw_card_def draw_failure_def Let_def
      split: list.splits prod.splits draw_outcome.splits)

lemma execute_draw_frame [frame_simps]:
  "gs_coin (fst (execute_draw s)) = gs_coin s"
  "gs_turn (fst (execute_draw s)) = gs_turn s"
  "gs_stack (fst (execute_draw s)) = gs_stack s"
  "gs_stack_segment_bases (fst (execute_draw s)) = gs_stack_segment_bases s"
  "gs_work (fst (execute_draw s)) = gs_work s"
  "gs_pending (fst (execute_draw s)) = gs_pending s"
  "gs_cards (fst (execute_draw s)) = gs_cards s"
  by (simp_all add: execute_draw_cases Let_def frame_simps split: list.splits)

section \<open>The anchor\<close>

lemma fold_mark: "fold (\<lambda>t seen. seen(t := True)) ts f t = (t \<in> set ts \<or> f t)"
  by (induction ts arbitrary: f) auto

lemma fold_mark_all:
  "fold (\<lambda>summon seen. fold (\<lambda>t seen. seen(t := True)) (g summon) seen) ss f t
    = ((\<exists>summon \<in> set ss. t \<in> set (g summon)) \<or> f t)"
  by (induction ss arbitrary: f) (auto simp: fold_mark)

lemma set_controlled_summons:
  "summon \<in> set (controlled_summons ps) \<longleftrightarrow> (\<exists>pos. summon_at ps pos = Some summon)"
proof -
  have "(\<exists>pos. summon_at ps pos = Some summon)
      \<longleftrightarrow> ps_main ps = Some summon \<or> (\<exists>slot. ps_bench ps slot = Some summon)"
    by (metis position.exhaust summon_at.simps)
  then show ?thesis
    by (auto simp: controlled_summons_def set_filter_map split: option.splits)
qed

lemma set_controlled_positions: "pos \<in> set (controlled_positions ps) \<longleftrightarrow> summon_at ps pos \<noteq> None"
  by (cases pos) (auto simp: controlled_positions_def)

lemma distinct_controlled_positions: "distinct (controlled_positions ps)"
  by (auto simp: controlled_positions_def distinct_map inj_on_def)

lemma set_filter_types: "t \<in> set (filter f [Matter, Mind, Spirit]) \<longleftrightarrow> f t"
  by (cases t) auto

text \<open>A player's anchor lists, each once and in the order Matter, Mind, Spirit, exactly the
  Mana types printed by the topmost card of some Summon on that player's board.\<close>

lemma anchor_types_spec:
  "(t \<in> set (anchor_types cards ps)
      \<longleftrightarrow> (\<exists>pos summon. summon_at ps pos = Some summon \<and> t \<in> set (produced_types cards summon)))
    \<and> distinct (anchor_types cards ps)
    \<and> subseq (anchor_types cards ps) [Matter, Mind, Spirit]"
proof (intro conjI)
  show "t \<in> set (anchor_types cards ps)
      \<longleftrightarrow> (\<exists>pos summon. summon_at ps pos = Some summon \<and> t \<in> set (produced_types cards summon))"
    unfolding anchor_types_def Let_def set_filter_types fold_mark_all
    using set_controlled_summons [of _ ps] by metis
  show "distinct (anchor_types cards ps)" by (simp add: anchor_types_def Let_def)
  show "subseq (anchor_types cards ps) [Matter, Mind, Spirit]"
    unfolding anchor_types_def Let_def by (rule subseq_filter_left)
qed

lemma produce_mana_cases:
  "produce_mana s p src =
    (let ts = available_types (gs_cards s) (player_of s p) src in
     if ts = [] then (s, [])
     else if length ts = 1 then (update_player s p (bank (hd ts)), [ManaProduced p src (hd ts)])
     else (s\<lparr>gs_pending := Some (ManaProduction p src)\<rparr>, []))"
  by (simp add: produce_mana_def Let_def split: list.splits)

end
