(* ===== verification/Effects.thy ===== *)
theory Effects
  imports Damage Upkeep
begin

text \<open>
  \<open>engine/effects/mod.rs\<close>: the interpreter of the thirteen effect leaves, one definition per
  function, and \<open>apply_leaves\<close> of \<open>engine/resolution/mod.rs\<close>, the one path every ability takes
  to it. The locale \<open>leaf_stable\<close> is the interface the interpreter offers to the invariants of
  the engine: a relation every single leaf respects holds across any list of leaves.
\<close>

section \<open>Leaves on one Summon\<close>

fun effect_position :: "effect_source \<Rightarrow> position list \<Rightarrow> effect_target \<Rightarrow> position option" where
  "effect_position source selected effect_target.Selected = first_of selected"
| "effect_position source selected effect_target.Source = effect_source_position source"

definition deal_damage ::
  "game_state \<Rightarrow> effect_source \<Rightarrow> position list \<Rightarrow> damage_effect \<Rightarrow> game_state \<times> game_event list" where
  "deal_damage s source targets effect =
     (case first_of targets of
        None \<Rightarrow> (s, [])
      | Some position \<Rightarrow>
          (let context = \<lparr>dc_source = damage_source_from source,
                 dc_target = \<lparr>bt_controller = opponent (effect_source_controller source),
                              bt_position = position\<rparr>\<rparr>;
               intent = \<lparr>dn_context = context, dn_effect = effect\<rparr>
           in commit s (evaluate s intent)))"

definition heal ::
  "game_state \<Rightarrow> player_id \<Rightarrow> position option \<Rightarrow> u32 \<Rightarrow> game_state \<times> game_event list" where
  "heal s controller pos amount =
     (case pos of
        None \<Rightarrow> (s, [])
      | Some position \<Rightarrow>
          (case summon_at (player_of s controller) position of
             None \<Rightarrow> (s, [])
           | Some summon \<Rightarrow>
               (let removed = min amount (si_damage summon)
                in (update_player s controller (\<lambda>ps. set_summon_at ps position
                      (Some (summon\<lparr>si_damage := si_damage summon - removed\<rparr>))),
                    [Healed position removed]))))"

definition add_marker :: "duration_marker list \<Rightarrow> duration_marker list" where
  "add_marker ms =
     (if duration_marker.CannotBeMovedByOpponent \<in> set ms then ms
      else ms @ [duration_marker.CannotBeMovedByOpponent])"

definition cannot_be_moved_by_opponent ::
  "game_state \<Rightarrow> player_id \<Rightarrow> position option \<Rightarrow> game_state \<times> game_event list" where
  "cannot_be_moved_by_opponent s controller pos =
     (case pos of
        None \<Rightarrow> (s, [])
      | Some position \<Rightarrow>
          (case summon_at (player_of s controller) position of
             None \<Rightarrow> (s, [])
           | Some summon \<Rightarrow>
               (update_player s controller (\<lambda>ps. set_summon_at ps position
                  (Some (summon\<lparr>si_duration_markers := add_marker (si_duration_markers summon)\<rparr>))),
                [])))"

definition ready_summon ::
  "game_state \<Rightarrow> player_id \<Rightarrow> position list \<Rightarrow> game_state \<times> game_event list" where
  "ready_summon s controller targets =
     (case first_of targets of
        None \<Rightarrow> (s, [])
      | Some position \<Rightarrow>
          (case summon_at (player_of s controller) position of
             None \<Rightarrow> (s, [])
           | Some summon \<Rightarrow>
               (update_player s controller (\<lambda>ps. set_summon_at ps position
                  (Some (summon\<lparr>si_readiness := Ready\<rparr>))),
                [SummonsReadied controller [position]])))"

section \<open>Leaves on the piles\<close>

definition is_spell_card :: "card_set \<Rightarrow> card_ref \<Rightarrow> bool" where
  "is_spell_card cards cref =
     (case card_set_get cards (cr_def cref) of
        None \<Rightarrow> False | Some entity \<Rightarrow> family entity = card_kind.Spell)"

definition return_spell_from_discard ::
  "game_state \<Rightarrow> player_id \<Rightarrow> game_state \<times> game_event list" where
  "return_spell_from_discard s controller =
     (let ps = player_of s controller in
      case position_of (is_spell_card (gs_cards s)) (ps_discard ps) of
        None \<Rightarrow> (s, [])
      | Some index \<Rightarrow>
          (set_player s controller
             (ps\<lparr>ps_discard := remove_nth index (ps_discard ps),
                 ps_hand := ps_hand ps @ [ps_discard ps ! index]\<rparr>), []))"

definition return_spell_to_deck_top ::
  "game_state \<Rightarrow> player_id \<Rightarrow> game_state \<times> game_event list" where
  "return_spell_to_deck_top s controller =
     (let ps = player_of s controller in
      case position_of (is_spell_card (gs_cards s)) (ps_hand ps) of
        None \<Rightarrow> (s, [])
      | Some index \<Rightarrow>
          (set_player s controller
             (ps\<lparr>ps_hand := remove_nth index (ps_hand ps),
                 ps_deck := ps_hand ps ! index # ps_deck ps\<rparr>), []))"

definition look_at_prizes :: "game_state \<Rightarrow> player_id \<Rightarrow> game_state \<times> game_event list" where
  "look_at_prizes s controller =
     (s, [PrizesViewed controller (map cr_instance (ps_prizes (player_of s controller)))])"

text \<open>The loop \<open>for _ in 0..amount\<close>, which stops early on an empty Deck.\<close>

fun draw_loop :: "nat \<Rightarrow> player_id \<Rightarrow> game_state \<Rightarrow> game_state \<times> game_event list" where
  "draw_loop 0 controller s = (s, [])"
| "draw_loop (Suc n) controller s =
     (case ps_deck (player_of s controller) of
        [] \<Rightarrow> (s, [])
      | cref # rest \<Rightarrow>
          (let (s', events) = draw_loop n controller
                 (update_player s controller (take_top cref rest))
           in (s', CardDrawn controller (cr_instance cref) # events)))"

definition draw_cards :: "game_state \<Rightarrow> player_id \<Rightarrow> u32 \<Rightarrow> game_state \<times> game_event list" where
  "draw_cards s controller amount =
     (let available = length (ps_deck (player_of s controller));
          (s, events) = draw_loop (unat amount) controller s
      in if available < unat amount
         then (let (s, loss_events) = draw_failure s controller in (s, events @ loss_events))
         else (s, events))"

definition produce_mana_leaf ::
  "game_state \<Rightarrow> player_id \<Rightarrow> position option \<Rightarrow> game_state \<times> game_event list" where
  "produce_mana_leaf s controller pos =
     (case pos of
        None \<Rightarrow> (s, [])
      | Some position \<Rightarrow> produce_mana s controller (mana_source.Summon position))"

section \<open>Leaves that move Summons\<close>

text \<open>The two writes of a Main/Bench exchange and the four movement steps it queues, which
  \<open>swap_positions\<close>, \<open>swap_opposing_positions\<close> and \<open>board::retreat\<close> all write out.\<close>

definition exchange ::
  "bench_slot \<Rightarrow> summon_instance \<Rightarrow> summon_instance \<Rightarrow> player_state \<Rightarrow> player_state" where
  "exchange slot incoming_main vacating_main ps =
     set_summon_at (set_summon_at ps position.Main (Some incoming_main))
       (position.Bench slot) (Some vacating_main)"

definition exchange_work :: "player_id \<Rightarrow> bench_slot \<Rightarrow> work_item list" where
  "exchange_work player slot =
     [MovementTrigger LeavingMain player (position.Bench slot),
      MovementTrigger EnteringBench player (position.Bench slot),
      MovementTrigger LeavingBench player position.Main,
      MovementTrigger EnteringMain player position.Main]"

definition move_summon ::
  "game_state \<Rightarrow> player_id \<Rightarrow> position list \<Rightarrow> game_state \<times> game_event list" where
  "move_summon s controller targets =
     (case targets of
        position.Bench from_slot # position.Bench to_slot # _ \<Rightarrow>
          (let ps = player_of s controller in
           if ps_bench ps to_slot \<noteq> None then (s, [])
           else
             (case ps_bench ps from_slot of
                None \<Rightarrow> (s, [])
              | Some summon \<Rightarrow>
                  (let ps = set_summon_at ps (position.Bench from_slot) None;
                       ps = set_summon_at ps (position.Bench to_slot) (Some summon);
                       s = set_player s controller ps;
                       s = push_back (MovementTrigger LeavingBench controller (position.Bench to_slot)) s;
                       s = push_back (MovementTrigger EnteringBench controller (position.Bench to_slot)) s
                   in (s, []))))
      | _ \<Rightarrow> (s, []))"

definition swap_positions ::
  "game_state \<Rightarrow> player_id \<Rightarrow> position list \<Rightarrow> game_state \<times> game_event list" where
  "swap_positions s controller targets =
     (case first_of targets of
        Some (position.Bench slot) \<Rightarrow>
          (let ps = player_of s controller in
           case (ps_main ps, ps_bench ps slot) of
             (Some vacating_main, Some incoming_main) \<Rightarrow>
               (fold push_back (exchange_work controller slot)
                  (set_player s controller (exchange slot incoming_main vacating_main ps)),
                [SummonsSwapped controller slot])
           | _ \<Rightarrow> (s, []))
      | _ \<Rightarrow> (s, []))"

definition swap_opposing_positions ::
  "game_state \<Rightarrow> player_id \<Rightarrow> position list \<Rightarrow> game_state \<times> game_event list" where
  "swap_opposing_positions s controller targets =
     (case first_of targets of
        Some (position.Bench slot) \<Rightarrow>
          (let opp = opponent controller; ps = player_of s opp in
           case ps_main ps of
             None \<Rightarrow> (s, [])
           | Some vacating_main \<Rightarrow>
               if duration_marker.CannotBeMovedByOpponent \<in> set (si_duration_markers vacating_main)
               then (s, [])
               else
                 (case ps_bench ps slot of
                    None \<Rightarrow> (s, [])
                  | Some incoming_main \<Rightarrow>
                      (fold push_back (exchange_work opp slot)
                         (set_player s opp (exchange slot incoming_main vacating_main ps)),
                       [SummonsSwapped opp slot])))
      | _ \<Rightarrow> (s, []))"

section \<open>The interpreter\<close>

fun apply_leaf ::
  "game_state \<Rightarrow> effect_source \<Rightarrow> position list \<Rightarrow> effect_leaf \<Rightarrow> game_state \<times> game_event list" where
  "apply_leaf s source targets (DealDamage effect) = deal_damage s source targets effect"
| "apply_leaf s source targets (Heal amount target) =
     heal s (effect_source_controller source) (effect_position source targets target) amount"
| "apply_leaf s source targets (DrawCards amount) = draw_cards s (effect_source_controller source) amount"
| "apply_leaf s source targets MoveSummon = move_summon s (effect_source_controller source) targets"
| "apply_leaf s source targets SwapPositions = swap_positions s (effect_source_controller source) targets"
| "apply_leaf s source targets (effect_leaf.ProduceMana target) =
     produce_mana_leaf s (effect_source_controller source) (effect_position source targets target)"
| "apply_leaf s source targets ReadySummon = ready_summon s (effect_source_controller source) targets"
| "apply_leaf s source targets (effect_leaf.CannotBeMovedByOpponent target) =
     cannot_be_moved_by_opponent s (effect_source_controller source) (effect_position source targets target)"
| "apply_leaf s source targets ReturnSpellFromDiscard =
     return_spell_from_discard s (effect_source_controller source)"
| "apply_leaf s source targets ReturnSpellToDeckTop =
     return_spell_to_deck_top s (effect_source_controller source)"
| "apply_leaf s source targets SwapOpposingPositions =
     swap_opposing_positions s (effect_source_controller source) targets"
| "apply_leaf s source targets LookAtPrizes = look_at_prizes s (effect_source_controller source)"
| "apply_leaf s source targets (BlockResponses _ _) = (s, [])"

fun apply_leaves ::
  "game_state \<Rightarrow> effect_source \<Rightarrow> position list \<Rightarrow> effect_leaf list \<Rightarrow> game_state \<times> game_event list" where
  "apply_leaves s source targets [] = (s, [])"
| "apply_leaves s source targets (leaf # leaves) =
     (let (s', events) = apply_leaf s source targets leaf in
      if \<not> is_playing (gs_status s') then (s', events)
      else (let (s'', events') = apply_leaves s' source targets leaves in (s'', events @ events')))"

lemmas leaf_cases [leaf_defs] =
  deal_damage_def heal_def cannot_be_moved_by_opponent_def ready_summon_def
  return_spell_from_discard_def return_spell_to_deck_top_def look_at_prizes_def
  produce_mana_leaf_def move_summon_def swap_positions_def swap_opposing_positions_def

section \<open>Frames of the leaves\<close>

lemma fold_push_back_frame [simp]:
  "gs_players (fold push_back ws s) = gs_players s"
  "gs_coin (fold push_back ws s) = gs_coin s"
  "gs_turn (fold push_back ws s) = gs_turn s"
  "gs_stack (fold push_back ws s) = gs_stack s"
  "gs_stack_segment_bases (fold push_back ws s) = gs_stack_segment_bases s"
  "gs_work (fold push_back ws s) = gs_work s @ ws"
  "gs_pending (fold push_back ws s) = gs_pending s"
  "gs_status (fold push_back ws s) = gs_status s"
  "gs_cards (fold push_back ws s) = gs_cards s"
  "player_of (fold push_back ws s) p = player_of s p"
  by (induction ws arbitrary: s) (simp_all add: player_of_def)

lemma draw_loop_frame [frame_simps]:
  "gs_coin (fst (draw_loop n p s)) = gs_coin s"
  "gs_turn (fst (draw_loop n p s)) = gs_turn s"
  "gs_stack (fst (draw_loop n p s)) = gs_stack s"
  "gs_stack_segment_bases (fst (draw_loop n p s)) = gs_stack_segment_bases s"
  "gs_work (fst (draw_loop n p s)) = gs_work s"
  "gs_pending (fst (draw_loop n p s)) = gs_pending s"
  "gs_status (fst (draw_loop n p s)) = gs_status s"
  "gs_cards (fst (draw_loop n p s)) = gs_cards s"
  by (induction n arbitrary: s; simp split: list.splits prod.splits; metis fst_conv update_player_frame)+

lemma draw_cards_fst:
  "fst (draw_cards s p n) =
    (if length (ps_deck (player_of s p)) < unat n
     then fst (lose (fst (draw_loop (unat n) p s)) p EmptyDeckDraw) else fst (draw_loop (unat n) p s))"
  by (simp add: draw_cards_def draw_failure_def lose_def Let_def split: prod.splits)

section \<open>What every leaf respects\<close>

text \<open>
  The interface of the interpreter: a relation between states that is reflexive and transitive
  and that each single leaf respects is respected by any list of leaves. The frame of the
  interpreter and the invariants of the engine are instances.
\<close>

locale leaf_stable =
  fixes R :: "game_state \<Rightarrow> game_state \<Rightarrow> bool"
  assumes refl: "R s s"
    and trans: "R s t \<Longrightarrow> R t u \<Longrightarrow> R s u"
    and leaf: "R s (fst (apply_leaf s source targets leaf))"
begin

lemma leaves: "R s (fst (apply_leaves s source targets leaves))"
proof (induction leaves arbitrary: s)
  case Nil
  show ?case by (simp add: refl)
next
  case (Cons leaf leaves)
  let ?s = "fst (apply_leaf s source targets leaf)"
  have "fst (apply_leaves s source targets (leaf # leaves))
      \<in> {?s, fst (apply_leaves ?s source targets leaves)}"
    by (simp add: split_def Let_def)
  with leaf [of s source targets leaf] Cons [of ?s] show ?case by (auto intro: trans)
qed

end

text \<open>The frame of a leaf: the Coin, the turn, the Stack, its segments and the card set stay, work
  is only added behind the queue, and a game that is over stays over.\<close>

definition leaf_frame :: "game_state \<Rightarrow> game_state \<Rightarrow> bool" where
  "leaf_frame s t \<longleftrightarrow> gs_coin t = gs_coin s \<and> gs_turn t = gs_turn s \<and> gs_stack t = gs_stack s
     \<and> gs_stack_segment_bases t = gs_stack_segment_bases s \<and> gs_cards t = gs_cards s
     \<and> (\<exists>ws. gs_work t = gs_work s @ ws)
     \<and> (gs_status t = gs_status s \<or> (\<exists>out. gs_status t = game_status.Ended out))
     \<and> (gs_pending t = gs_pending s \<or> (\<exists>p src. gs_pending t = Some (ManaProduction p src)))"

lemma leaf_frame_apply_leaf: "leaf_frame s (fst (apply_leaf s source targets leaf))"
proof (cases leaf)
  case (DealDamage effect)
  then show ?thesis
    by (simp add: leaf_frame_def deal_damage_def Let_def frame_simps commit_def split: option.splits)
next
  case (DrawCards n)
  then show ?thesis by (simp add: leaf_frame_def draw_cards_fst frame_simps)
next
  case (ProduceMana target)
  then show ?thesis
    by (simp add: leaf_frame_def produce_mana_leaf_def produce_mana_def frame_simps
        split: option.splits list.splits)
qed (simp_all add: leaf_frame_def leaf_cases Let_def
    split: option.splits list.splits position.splits)

interpretation frame: leaf_stable leaf_frame
proof
  show "leaf_frame s s" for s by (simp add: leaf_frame_def)
  show "leaf_frame s u" if "leaf_frame s t" "leaf_frame t u" for s t u
    using that by (auto simp: leaf_frame_def)
qed (rule leaf_frame_apply_leaf)

lemma apply_leaves_frame [frame_simps]:
  "gs_coin (fst (apply_leaves s src ts ls)) = gs_coin s"
  "gs_turn (fst (apply_leaves s src ts ls)) = gs_turn s"
  "gs_stack (fst (apply_leaves s src ts ls)) = gs_stack s"
  "gs_stack_segment_bases (fst (apply_leaves s src ts ls)) = gs_stack_segment_bases s"
  "gs_cards (fst (apply_leaves s src ts ls)) = gs_cards s"
  using frame.leaves [of s src ts ls] by (simp_all add: leaf_frame_def)

end
