(* ===== verification/Triggers.thy ===== *)
theory Triggers
  imports Effects
begin

text \<open>
  \<open>engine/triggers/mod.rs\<close>: discovery and firing of Triggered Abilities. Discovery only queues
  \<open>FireTrigger\<close> work; firing re-reads the ability and either applies it at once or opens a new
  Stack segment with a response window.
\<close>

section \<open>Reading the abilities\<close>

fun movement_event :: "movement_step \<Rightarrow> trigger_event" where
  "movement_event LeavingMain = LeavesMain"
| "movement_event EnteringBench = EntersBench"
| "movement_event LeavingBench = LeavesBench"
| "movement_event EnteringMain = EntersMain"

definition card_at :: "game_state \<Rightarrow> player_id \<Rightarrow> position \<Rightarrow> entity option" where
  "card_at s player pos =
     (case summon_at (player_of s player) pos of
        None \<Rightarrow> None | Some summon \<Rightarrow> top_entity (gs_cards s) summon)"

definition matching_abilities ::
  "game_state \<Rightarrow> player_id \<Rightarrow> position \<Rightarrow> trigger_event \<Rightarrow> entity_id list" where
  "matching_abilities s player pos event =
     (case card_at s player pos of
        None \<Rightarrow> []
      | Some card' \<Rightarrow>
          map entity_id (filter (\<lambda>ability. entity_get event_field ability = Some event)
            (entity_all trigger_field card')))"

definition ability_at ::
  "game_state \<Rightarrow> player_id \<Rightarrow> position \<Rightarrow> entity_id \<Rightarrow> (bool \<times> effect_leaf list) option" where
  "ability_at s player pos ability =
     (case card_at s player pos of
        None \<Rightarrow> None
      | Some card' \<Rightarrow>
          (case find (\<lambda>e. entity_id e = ability) (entity_all trigger_field card') of
             None \<Rightarrow> None
           | Some trigger_entity \<Rightarrow>
               Some (entity_get respondable_field trigger_entity \<noteq> None,
                     entity_all effect_field trigger_entity)))"

section \<open>Discovery\<close>

definition live_positions :: "game_state \<Rightarrow> player_id \<Rightarrow> position list" where
  "live_positions s player =
     (if ps_main (player_of s player) \<noteq> None then [position.Main] else [])
     @ map position.Bench (occupied_bench_slots s player)"

definition candidates ::
  "game_state \<Rightarrow> player_id list \<Rightarrow> trigger_event \<Rightarrow> (player_id \<times> position \<times> entity_id) list" where
  "candidates s players event =
     concat (map (\<lambda>player. concat (map (\<lambda>pos.
         map (\<lambda>ability. (player, pos, ability)) (matching_abilities s player pos event))
       (live_positions s player))) players)"

definition discover_front ::
  "game_state \<Rightarrow> player_id list \<Rightarrow> trigger_event \<Rightarrow> game_state" where
  "discover_front s players event =
     fold (\<lambda>(player, pos, ability). push_front (FireTrigger player pos event ability))
       (rev (candidates s players event)) s"

definition discover_back ::
  "game_state \<Rightarrow> player_id list \<Rightarrow> trigger_event \<Rightarrow> game_state" where
  "discover_back s players event =
     fold (\<lambda>(player, pos, ability). push_back (FireTrigger player pos event ability))
       (candidates s players event) s"

section \<open>Firing\<close>

definition is_deal_damage :: "effect_leaf \<Rightarrow> bool" where
  "is_deal_damage leaf = (case leaf of DealDamage _ \<Rightarrow> True | _ \<Rightarrow> False)"

definition implicit_targets :: "position \<Rightarrow> effect_leaf list \<Rightarrow> position list" where
  "implicit_targets pos effects =
     (if \<exists>leaf \<in> set effects. is_deal_damage leaf then [position.Main] else [pos])"

definition fire ::
  "game_state \<Rightarrow> player_id \<Rightarrow> position \<Rightarrow> trigger_event \<Rightarrow> entity_id \<Rightarrow> bool \<times> effect_leaf list
    \<Rightarrow> game_state \<times> game_event list" where
  "fire s player pos event ability trigger =
     (let (respondable, effects) = trigger;
          events = [TriggerFired player pos event ability];
          targets = implicit_targets pos effects
      in if respondable
         then (s\<lparr>gs_stack_segment_bases := gs_stack_segment_bases s @ [length (gs_stack s)],
                 gs_stack := gs_stack s @ [stack_item.Trigger player pos ability event targets effects],
                 gs_turn := (gs_turn s)\<lparr>ts_window := Some (window_after_play player)\<rparr>\<rparr>,
               events)
         else (let (s, leaf_events) =
                 apply_leaves s (effect_source.Trigger player pos ability) targets effects
               in (s, events @ leaf_events)))"

definition mark_main_entry :: "summon_instance \<Rightarrow> summon_instance" where
  "mark_main_entry summon = summon\<lparr>si_turn := (si_turn summon)\<lparr>tr_main_entry := Some EnteredMain\<rparr>\<rparr>"

definition movement_trigger ::
  "game_state \<Rightarrow> movement_step \<Rightarrow> player_id \<Rightarrow> position \<Rightarrow> game_state \<times> game_event list" where
  "movement_trigger s step player pos =
     (let s = (if step = EnteringMain \<and> pos = position.Main
               then update_player s player (\<lambda>ps. ps\<lparr>ps_main := map_option mark_main_entry (ps_main ps)\<rparr>)
               else s);
          event = movement_event step
      in (fold (\<lambda>ability. push_front (FireTrigger player pos event ability))
            (rev (matching_abilities s player pos event)) s, []))"

definition fire_queued ::
  "game_state \<Rightarrow> player_id \<Rightarrow> position \<Rightarrow> trigger_event \<Rightarrow> entity_id \<Rightarrow> game_state \<times> game_event list" where
  "fire_queued s player pos event ability =
     (case ability_at s player pos ability of
        Some trigger \<Rightarrow> fire s player pos event ability trigger
      | None \<Rightarrow> (s, []))"

section \<open>Lemmas\<close>

lemma fold_push_front:
  "fold (\<lambda>x. push_front (f x)) (rev xs) s = s\<lparr>gs_work := map f xs @ gs_work s\<rparr>"
  by (induction xs) (simp_all add: push_front_def)

lemma fold_push_back: "fold (\<lambda>x. push_back (f x)) xs s = s\<lparr>gs_work := gs_work s @ map f xs\<rparr>"
  by (induction xs arbitrary: s) (simp_all add: push_back_def)

definition trigger_work :: "trigger_event \<Rightarrow> player_id \<times> position \<times> entity_id \<Rightarrow> work_item" where
  "trigger_work event c = (case c of (player, pos, ability) \<Rightarrow> FireTrigger player pos event ability)"

text \<open>Both discoveries queue the same items; they differ in which end they go to.\<close>

lemma discover_front_eq:
  "discover_front s players event
    = s\<lparr>gs_work := map (trigger_work event) (candidates s players event) @ gs_work s\<rparr>"
  using fold_push_front [of "trigger_work event" "candidates s players event" s]
  by (simp add: discover_front_def trigger_work_def split_def)

lemma discover_back_eq:
  "discover_back s players event
    = s\<lparr>gs_work := gs_work s @ map (trigger_work event) (candidates s players event)\<rparr>"
  using fold_push_back [of "trigger_work event" "candidates s players event" s]
  by (simp add: discover_back_def trigger_work_def split_def)

lemma movement_trigger_eq:
  "movement_trigger s step player pos =
    (let s = (if step = EnteringMain \<and> pos = position.Main
              then update_player s player (\<lambda>ps. ps\<lparr>ps_main := map_option mark_main_entry (ps_main ps)\<rparr>)
              else s)
     in (s\<lparr>gs_work := map (FireTrigger player pos (movement_event step))
            (matching_abilities s player pos (movement_event step)) @ gs_work s\<rparr>, []))"
  by (simp add: movement_trigger_def Let_def fold_push_front)

lemma set_live_positions: "pos \<in> set (live_positions s p) \<longleftrightarrow> summon_at (player_of s p) pos \<noteq> None"
  by (cases pos) (auto simp: live_positions_def)

lemma set_candidates:
  "(player, pos, ability) \<in> set (candidates s players event)
    \<longleftrightarrow> player \<in> set players \<and> ability \<in> set (matching_abilities s player pos event)"
proof -
  have "pos \<in> set (live_positions s player)" if "ability \<in> set (matching_abilities s player pos event)"
    using that by (auto simp: set_live_positions matching_abilities_def card_at_def split: option.splits)
  then show ?thesis by (auto simp: candidates_def)
qed

lemma candidates_cong:
  assumes "gs_cards s1 = gs_cards s2" and "\<And>p. p \<in> set ps \<Longrightarrow> player_of s1 p = player_of s2 p"
  shows "candidates s1 ps event = candidates s2 ps event"
proof -
  have "card_at s1 p pos = card_at s2 p pos" if "p \<in> set ps" for p pos
    using assms(1) assms(2) [OF that] by (simp add: card_at_def cong: option.case_cong)
  then have "matching_abilities s1 p pos event = matching_abilities s2 p pos event"
    if "p \<in> set ps" for p pos
    using that by (simp add: matching_abilities_def)
  moreover have "live_positions s1 p = live_positions s2 p" if "p \<in> set ps" for p
    using assms(2) [OF that] by (simp add: live_positions_def occupied_bench_slots_def)
  ultimately show ?thesis
    unfolding candidates_def by (intro arg_cong [where f = concat] map_cong refl) simp_all
qed

text \<open>Discovery before a destruction chain and discovery at Upkeep queue one \<open>FireTrigger\<close>
  for each candidate ability and nothing else; the first keeps them ahead of all queued work,
  the second behind it, both in the same order.\<close>

lemma discover_queues:
  "gs_work (discover_front s players event)
      = map (trigger_work event) (candidates s players event) @ gs_work s
    \<and> gs_work (discover_back s players event)
      = gs_work s @ map (trigger_work event) (candidates s players event)
    \<and> (FireTrigger p pos event ability \<in> trigger_work event ` set (candidates s players event)
        \<longleftrightarrow> p \<in> set players \<and> ability \<in> set (matching_abilities s p pos event))"
  by (auto simp: discover_front_eq discover_back_eq trigger_work_def set_candidates
      split: prod.splits intro!: image_eqI [of _ _ "(p, pos, ability)"])

end
