(* ===== verification/Destruction.thy ===== *)
theory Destruction
  imports Triggers
begin

text \<open>
  \<open>engine/destruction/mod.rs\<close>: the destruction check, the fixed step order it queues, and the
  executors and answers of those steps. A \<open>Result\<close> whose error is a \<open>Breakage\<close> is a sum; a
  breakage reaches the state through \<open>break_game\<close>.
\<close>

section \<open>Who is destroyed\<close>

definition life_of :: "card_set \<Rightarrow> summon_instance \<Rightarrow> breakage + u32" where
  "life_of cards summon =
     (let def_id = cr_def (chain_top (si_chain summon)) in
      and_then
        (ok_or \<lparr>br_rule = ''destruction'', br_entity = def_id, br_expected = component_kind.Life\<rparr>
          (card_set_get cards def_id))
        (entity_demand life_field component_kind.Life ''destruction''))"

definition is_destroyed :: "game_state \<Rightarrow> player_id \<Rightarrow> position \<Rightarrow> breakage + bool" where
  "is_destroyed s player pos =
     (case summon_at (player_of s player) pos of
        None \<Rightarrow> Inr False
      | Some summon \<Rightarrow>
          and_then (life_of (gs_cards s) summon) (\<lambda>life. Inr (life \<le> si_damage summon)))"

fun find_destroyed :: "game_state \<Rightarrow> position \<Rightarrow> player_id list \<Rightarrow> breakage + player_id option" where
  "find_destroyed s pos [] = Inr None"
| "find_destroyed s pos (player # players) =
     and_then (is_destroyed s player pos)
       (\<lambda>destroyed. if destroyed then Inr (Some player) else find_destroyed s pos players)"

definition destroyed_controller :: "game_state \<Rightarrow> position \<Rightarrow> breakage + player_id option" where
  "destroyed_controller s pos = find_destroyed s pos (ordered_players s)"

section \<open>The check\<close>

definition destruction_work :: "player_id \<Rightarrow> position \<Rightarrow> work_item list" where
  "destruction_work player pos =
     [DiscardDestroyedChain pos]
     @ (if pos = position.Main
        then [RecordMainLoss player, RecoverPrize player, PromoteBenchSummon player,
              ResolveMovementConsequences player]
        else [])
     @ [LossCheck player]"

definition enqueue_destruction :: "player_id \<Rightarrow> position \<Rightarrow> game_state \<Rightarrow> game_state" where
  "enqueue_destruction player pos s = fold push_back (destruction_work player pos) s"

text \<open>The loop of \<open>check\<close>: a breakage returns the state as broken, with what it queued before.\<close>

fun check_players :: "game_state \<Rightarrow> position \<Rightarrow> player_id list \<Rightarrow> game_state" where
  "check_players s pos [] = s"
| "check_players s pos (player # players) =
     (case is_destroyed s player pos of
        Inl breakage \<Rightarrow> break_game s breakage
      | Inr destroyed \<Rightarrow>
          check_players (if destroyed then enqueue_destruction player pos s else s) pos players)"

definition destruction_check :: "game_state \<Rightarrow> position \<Rightarrow> game_state \<times> game_event list" where
  "destruction_check s pos = (check_players s pos (ordered_players s), [])"

section \<open>The steps\<close>

definition discard_destroyed_chain :: "game_state \<Rightarrow> position \<Rightarrow> game_state \<times> game_event list" where
  "discard_destroyed_chain s pos =
     (case destroyed_controller s pos of
        Inl breakage \<Rightarrow> (break_game s breakage, [])
      | Inr None \<Rightarrow> (s, [])
      | Inr (Some controller) \<Rightarrow>
          (case summon_at (player_of s controller) pos of
             None \<Rightarrow> (s, [])
           | Some summon \<Rightarrow>
               (let owner = si_owner summon;
                    s = update_player s controller (\<lambda>ps. set_summon_at ps pos None);
                    s = update_player s owner
                          (\<lambda>ps. ps\<lparr>ps_discard := ps_discard ps @ chain_layers (si_chain summon)\<rparr>);
                    s = discover_front s (ordered_players s) AnySummonDestroyed
                in (s, [SummonDestroyed pos owner]))))"

definition record_main_loss :: "game_state \<Rightarrow> player_id \<Rightarrow> game_state \<times> game_event list" where
  "record_main_loss s player =
     (update_player s player (\<lambda>ps. ps\<lparr>ps_main_losses := ps_main_losses ps + 1\<rparr>), [])"

definition recover_prize :: "game_state \<Rightarrow> player_id \<Rightarrow> game_state \<times> game_event list" where
  "recover_prize s player =
     (if ps_prizes (player_of s player) = [] then (s, [])
      else (s\<lparr>gs_pending := Some (PrizePick (opponent player))\<rparr>, []))"

definition answer_prize ::
  "game_state \<Rightarrow> player_id \<Rightarrow> nat \<Rightarrow> action_error + action_outcome" where
  "answer_prize s player prize_index =
     (if gs_pending s \<noteq> Some (PrizePick player) then Inl PendingInputMismatch
      else
        let recovering = opponent player; ps = player_of s recovering in
        if length (ps_prizes ps) \<le> prize_index then Inl InvalidTarget
        else
          let prize = ps_prizes ps ! prize_index;
              s = set_player s recovering
                    (ps\<lparr>ps_prizes := remove_nth prize_index (ps_prizes ps),
                        ps_hand := ps_hand ps @ [prize]\<rparr>)
          in Inr \<lparr>ao_state = s\<lparr>gs_pending := None\<rparr>,
                  ao_events = [PrizeRecovered recovering (cr_instance prize)]\<rparr>)"

definition promote_from_slot ::
  "game_state \<Rightarrow> player_id \<Rightarrow> bench_slot \<Rightarrow> game_state \<times> game_event list" where
  "promote_from_slot s player slot =
     (case ps_bench (player_of s player) slot of
        None \<Rightarrow> (s, [])
      | Some summon \<Rightarrow>
          (update_player s player (\<lambda>ps. set_summon_at (set_summon_at ps (position.Bench slot) None)
             position.Main (Some summon)),
           [SummonPromoted player slot]))"

definition promote_bench_summon :: "game_state \<Rightarrow> player_id \<Rightarrow> game_state \<times> game_event list" where
  "promote_bench_summon s player =
     (case occupied_bench_slots s player of
        [] \<Rightarrow> (s, [])
      | [slot] \<Rightarrow> promote_from_slot s player slot
      | _ \<Rightarrow> (s\<lparr>gs_pending := Some (Promotion player)\<rparr>, []))"

definition answer_promotion ::
  "game_state \<Rightarrow> player_id \<Rightarrow> bench_slot \<Rightarrow> action_error + action_outcome" where
  "answer_promotion s player slot =
     (if gs_pending s \<noteq> Some (Promotion player) then Inl PendingInputMismatch
      else if ps_bench (player_of s player) slot = None then Inl EmptyPosition
      else
        let (s, events) = promote_from_slot s player slot
        in Inr \<lparr>ao_state = s\<lparr>gs_pending := None\<rparr>, ao_events = events\<rparr>)"

definition resolve_movement_consequences ::
  "game_state \<Rightarrow> player_id \<Rightarrow> game_state \<times> game_event list" where
  "resolve_movement_consequences s player =
     (if ps_main (player_of s player) \<noteq> None
      then (push_front (MovementTrigger LeavingBench player position.Main)
              (push_front (MovementTrigger EnteringMain player position.Main) s), [])
      else (s, []))"

section \<open>Lemmas\<close>

lemma life_of_spec:
  "life_of cards summon =
    (case top_entity cards summon of
       Some entity \<Rightarrow>
         (case entity_get life_field entity of
            Some life \<Rightarrow> Inr life
          | None \<Rightarrow> Inl \<lparr>br_rule = ''destruction'', br_entity = entity_id entity,
              br_expected = component_kind.Life\<rparr>)
     | None \<Rightarrow> Inl \<lparr>br_rule = ''destruction'', br_entity = cr_def (chain_top (si_chain summon)),
         br_expected = component_kind.Life\<rparr>)"
  by (simp add: life_of_def top_entity_def entity_demand_def Let_def split: option.splits)

lemma is_destroyed_cong:
  assumes "gs_cards s' = gs_cards s" and "summon_at (player_of s' p) pos = summon_at (player_of s p) pos"
  shows "is_destroyed s' p pos = is_destroyed s p pos"
  using assms by (simp add: is_destroyed_def split: option.splits)

lemma enqueue_destruction_frame [simp]:
  "gs_players (enqueue_destruction p pos s) = gs_players s"
  "gs_coin (enqueue_destruction p pos s) = gs_coin s"
  "gs_turn (enqueue_destruction p pos s) = gs_turn s"
  "gs_stack (enqueue_destruction p pos s) = gs_stack s"
  "gs_stack_segment_bases (enqueue_destruction p pos s) = gs_stack_segment_bases s"
  "gs_work (enqueue_destruction p pos s) = gs_work s @ destruction_work p pos"
  "gs_pending (enqueue_destruction p pos s) = gs_pending s"
  "gs_status (enqueue_destruction p pos s) = gs_status s"
  "gs_cards (enqueue_destruction p pos s) = gs_cards s"
  "player_of (enqueue_destruction p pos s) q = player_of s q"
  by (simp_all add: enqueue_destruction_def)

lemma check_players_frame [frame_simps]:
  "gs_players (check_players s pos ps) = gs_players s"
  "gs_coin (check_players s pos ps) = gs_coin s"
  "gs_turn (check_players s pos ps) = gs_turn s"
  "gs_stack (check_players s pos ps) = gs_stack s"
  "gs_stack_segment_bases (check_players s pos ps) = gs_stack_segment_bases s"
  "gs_pending (check_players s pos ps) = gs_pending s"
  "gs_cards (check_players s pos ps) = gs_cards s"
  by (induction s pos ps rule: check_players.induct) (simp_all split: sum.splits)

lemma enqueue_destruction_is_destroyed [simp]:
  "is_destroyed (enqueue_destruction p pos s) q pos' = is_destroyed s q pos'"
  by (rule is_destroyed_cong) simp_all

lemma check_players_queues:
  assumes "\<And>p. p \<in> set ps \<Longrightarrow> is_destroyed s p pos = Inr (d p)"
  shows "check_players s pos ps
    = s\<lparr>gs_work := gs_work s @ concat (map (\<lambda>p. if d p then destruction_work p pos else []) ps)\<rparr>"
  using assms
proof (induction ps arbitrary: s)
  case (Cons p ps)
  have step: "enqueue_destruction p pos s = s\<lparr>gs_work := gs_work s @ destruction_work p pos\<rparr>"
    by (simp add: enqueue_destruction_def destruction_work_def push_back_def)
  have "is_destroyed (s\<lparr>gs_work := ws\<rparr>) q pos = is_destroyed s q pos" for q ws
    by (rule is_destroyed_cong) simp_all
  then show ?case using Cons.IH Cons.prems by (simp add: step)
qed simp

lemma is_destroyed_readable:
  assumes "\<And>summon. summon_at (player_of s p) pos = Some summon
    \<Longrightarrow> \<exists>e. top_entity (gs_cards s) summon = Some e \<and> entity_get life_field e = Some life"
  shows "is_destroyed s p pos
    = Inr (case summon_at (player_of s p) pos of None \<Rightarrow> False | Some summon \<Rightarrow> life \<le> si_damage summon)"
  using assms by (auto simp: is_destroyed_def life_of_spec split: option.splits)

text \<open>C33: where the topmost card of each Summon at a position prints its Life, the destruction check
  queues, behind the existing work, one contiguous procedure for each player whose Summon there
  has taken at least that Life in Damage, the opponent of the active player first. The procedure
  discards the chain and checks for a loss; for Main it also records the Main loss, recovers a
  Prize, promotes and resolves the movement, in this order between the two. Nothing else of the
  state changes and no event is emitted.\<close>

theorem destruction_check_queues:
  assumes "\<And>p summon. summon_at (player_of s p) pos = Some summon
    \<Longrightarrow> \<exists>e. top_entity (gs_cards s) summon = Some e \<and> entity_get life_field e = Some (life p)"
  shows "destruction_check s pos =
    (s\<lparr>gs_work := gs_work s @ concat (map
        (\<lambda>p. case summon_at (player_of s p) pos of
            None \<Rightarrow> []
          | Some summon \<Rightarrow>
              if life p \<le> si_damage summon
              then DiscardDestroyedChain pos
                # (if pos = position.Main
                   then [RecordMainLoss p, RecoverPrize p, PromoteBenchSummon p, ResolveMovementConsequences p]
                   else [])
                @ [LossCheck p]
              else [])
        [opponent (ts_active_player (gs_turn s)), ts_active_player (gs_turn s)])\<rparr>, [])"
proof -
  let ?hit = "\<lambda>p. case summon_at (player_of s p) pos of None \<Rightarrow> False | Some summon \<Rightarrow> life p \<le> si_damage summon"
  have "is_destroyed s p pos = Inr (?hit p)" for p
    by (rule is_destroyed_readable) (rule assms)
  from check_players_queues [of _ s pos, OF this]
  have queue: "check_players s pos (ordered_players s) = s\<lparr>gs_work := gs_work s
      @ concat (map (\<lambda>p. if ?hit p then destruction_work p pos else []) (ordered_players s))\<rparr>" .
  have work: "(if ?hit p then destruction_work p pos else [])
    = (case summon_at (player_of s p) pos of
         None \<Rightarrow> []
       | Some summon \<Rightarrow>
           if life p \<le> si_damage summon
           then DiscardDestroyedChain pos
             # (if pos = position.Main
                then [RecordMainLoss p, RecoverPrize p, PromoteBenchSummon p, ResolveMovementConsequences p]
                else [])
             @ [LossCheck p]
           else [])" for p
    by (simp add: destruction_work_def split: option.split)
  show ?thesis
    unfolding destruction_check_def queue work by (simp only: ordered_players_def Let_def)
qed

text \<open>A Summon whose topmost card is unknown or prints no Life never passes silently: the
  check breaks the game naming the card and the missing Life, and keeps the boards as they
  were.\<close>

lemma destruction_check_breaks:
  assumes "summon_at (player_of s p) pos = Some summon"
    and "Option.bind (top_entity (gs_cards s) summon) (entity_get life_field) = None"
  shows "(\<exists>b. gs_status (fst (destruction_check s pos)) = game_status.Broken b
        \<and> br_rule b = ''destruction'' \<and> br_expected b = component_kind.Life)
    \<and> gs_players (fst (destruction_check s pos)) = gs_players s
    \<and> snd (destruction_check s pos) = []"
proof -
  have broken: "\<exists>b. is_destroyed s p pos = Inl b \<and> br_rule b = ''destruction''
      \<and> br_expected b = component_kind.Life"
    using assms by (auto simp: is_destroyed_def life_of_spec split: option.splits)
  have shape: "br_rule b = ''destruction'' \<and> br_expected b = component_kind.Life"
    if "is_destroyed s q pos = Inl b" for q b
    using that by (auto simp: is_destroyed_def life_of_spec and_then_def split: option.splits sum.splits)
  have "p = opponent (ts_active_player (gs_turn s)) \<or> p = ts_active_player (gs_turn s)"
    using player_cases by blast
  with broken shape show ?thesis
    by (auto simp: destruction_check_def ordered_players_def Let_def frame_simps split: sum.splits)
qed

end
