(* ===== verification/Resolution.thy ===== *)
theory Resolution
  imports Destruction "HOL-Library.While_Combinator"
begin

text \<open>
  \<open>engine/resolution/mod.rs\<close>: the resolution loop. One iteration of \<open>drain\<close> is \<open>drain_step\<close>;
  the loop itself is \<open>while_option\<close>, so that a loop that never ends is the value \<open>None\<close>: the
  source has no bound on the number of iterations.
\<close>

section \<open>The Stack\<close>

definition current_base :: "game_state \<Rightarrow> nat" where
  "current_base s = (case last_of (gs_stack_segment_bases s) of Some base \<Rightarrow> base | None \<Rightarrow> 0)"

definition stack_has_unresolved_items :: "game_state \<Rightarrow> bool" where
  "stack_has_unresolved_items s = (current_base s < length (gs_stack s))"

definition attacker_effects :: "game_state \<Rightarrow> player_id \<Rightarrow> (entity_id \<times> effect_leaf list) option" where
  "attacker_effects s attacker =
     (case ps_main (player_of s attacker) of
        None \<Rightarrow> None
      | Some main_summon \<Rightarrow>
          (case top_entity (gs_cards s) main_summon of
             None \<Rightarrow> None
           | Some entity \<Rightarrow>
               (case entity_get attack_field entity of
                  None \<Rightarrow> None
                | Some attack \<Rightarrow> Some (entity_id attack, entity_all effect_field attack))))"

definition spell_effects :: "card_set \<Rightarrow> entity_id \<Rightarrow> effect_leaf list" where
  "spell_effects cards def_id =
     (case card_set_get cards def_id of
        None \<Rightarrow> [] | Some entity \<Rightarrow> entity_all effect_field entity)"

definition resolve_attack ::
  "game_state \<Rightarrow> player_id \<Rightarrow> position \<Rightarrow> game_state \<times> game_event list" where
  "resolve_attack s attacker target =
     (case attacker_effects s attacker of
        None \<Rightarrow> (s, [])
      | Some (ability, effects) \<Rightarrow>
          apply_leaves s (effect_source.Attack attacker position.Main ability) [target] effects)"

definition persists :: "card_set \<Rightarrow> entity_id \<Rightarrow> bool" where
  "persists cards def_id =
     (case card_set_get cards def_id of
        None \<Rightarrow> False | Some entity \<Rightarrow> entity_get persistent_field entity \<noteq> None)"

definition place_resolved_spell :: "card_set \<Rightarrow> card_ref \<Rightarrow> player_state \<Rightarrow> player_state" where
  "place_resolved_spell cards cref ps =
     (if persists cards (cr_def cref)
      then ps\<lparr>ps_enchantments := ps_enchantments ps @ [cref]\<rparr>
      else ps\<lparr>ps_discard := ps_discard ps @ [cref]\<rparr>)"

definition resolve_spell ::
  "game_state \<Rightarrow> player_id \<Rightarrow> card_ref \<Rightarrow> position list \<Rightarrow> game_state \<times> game_event list" where
  "resolve_spell s caster cref targets =
     (let (s, events) = apply_leaves s (effect_source.Spell caster (cr_instance cref) (cr_def cref))
            targets (spell_effects (gs_cards s) (cr_def cref))
      in (update_player s caster (place_resolved_spell (gs_cards s) cref), events))"

fun resolve_item :: "game_state \<Rightarrow> stack_item \<Rightarrow> game_state \<times> game_event list" where
  "resolve_item s (stack_item.Attack attacker target) = resolve_attack s attacker target"
| "resolve_item s (stack_item.Spell caster cref targets) = resolve_spell s caster cref targets"
| "resolve_item s (stack_item.Trigger controller source ability event targets effects) =
     apply_leaves s (effect_source.Trigger controller source ability) targets effects"

text \<open>Dropping the base of a segment that the last pop settled.\<close>

definition close_segment :: "game_state \<Rightarrow> game_state" where
  "close_segment s =
     (if last_of (gs_stack_segment_bases s) = Some (length (gs_stack s))
      then s\<lparr>gs_stack_segment_bases := butlast (gs_stack_segment_bases s)\<rparr> else s)"

definition resolve_top_stack_item :: "game_state \<Rightarrow> game_state \<times> game_event list" where
  "resolve_top_stack_item s =
     (case last_of (gs_stack s) of
        None \<Rightarrow> (s, [])
      | Some item \<Rightarrow>
          (let s = s\<lparr>gs_stack := butlast (gs_stack s)\<rparr>;
               (s, events) = resolve_item s item
           in (close_segment s, StackItemResolved item # events)))"

section \<open>The work queue\<close>

fun execute :: "game_state \<Rightarrow> work_item \<Rightarrow> game_state \<times> game_event list" where
  "execute s ReadyAll = ready_all s"
| "execute s DrawCard = execute_draw s"
| "execute s (work_item.ProduceMana player source) = produce_mana s player source"
| "execute s BeginMainPhase = begin_main_phase s"
| "execute s (DestructionCheck pos) = destruction_check s pos"
| "execute s (DiscardDestroyedChain pos) = discard_destroyed_chain s pos"
| "execute s (RecordMainLoss player) = record_main_loss s player"
| "execute s (RecoverPrize player) = recover_prize s player"
| "execute s (PromoteBenchSummon player) = promote_bench_summon s player"
| "execute s (ResolveMovementConsequences player) = resolve_movement_consequences s player"
| "execute s (MovementTrigger step player pos) = movement_trigger s step player pos"
| "execute s (FireTrigger player pos event ability) = fire_queued s player pos event ability"
| "execute s (LossCheck player) = loss_check s player"

section \<open>The loop\<close>

definition drain_stops :: "game_state \<Rightarrow> bool" where
  "drain_stops s \<longleftrightarrow>
     gs_pending s \<noteq> None \<or> \<not> is_playing (gs_status s) \<or> ts_window (gs_turn s) \<noteq> None
     \<or> (\<not> stack_has_unresolved_items s \<and> gs_work s = [])"

definition drain_step :: "game_state \<Rightarrow> game_state \<times> game_event list" where
  "drain_step s =
     (if stack_has_unresolved_items s then resolve_top_stack_item s
      else
        (case gs_work s of
           [] \<Rightarrow> (s, [])
         | item # rest \<Rightarrow> execute (s\<lparr>gs_work := rest\<rparr>) item))"

definition drain_body :: "game_state \<times> game_event list \<Rightarrow> game_state \<times> game_event list" where
  "drain_body se =
     (let (s, item_events) = drain_step (fst se) in (s, snd se @ item_events))"

definition drain :: "game_state \<Rightarrow> (game_state \<times> game_event list) option" where
  "drain s = while_option (\<lambda>se. \<not> drain_stops (fst se)) drain_body (s, [])"

section \<open>Lemmas on the loop\<close>

lemma fst_drain_body: "fst (drain_body se) = fst (drain_step (fst se))"
  by (simp add: drain_body_def split: prod.splits)

lemma drain_rule:
  assumes "drain s = Some (s', events)" and "P s"
    and "\<And>s. P s \<Longrightarrow> \<not> drain_stops s \<Longrightarrow> P (fst (drain_step s))"
  shows "P s'"
  using while_option_rule [where P = "\<lambda>se. P (fst se)", OF _ assms(1) [unfolded drain_def]] assms(2,3)
  by (simp add: fst_drain_body)

lemma drain_settles: "drain s = Some (s', events) \<Longrightarrow> drain_stops s'"
  unfolding drain_def by (drule while_option_stop) simp

lemma drain_stopped: "drain_stops s \<Longrightarrow> drain s = Some (s, [])"
  unfolding drain_def by (subst while_option_unfold) simp

text \<open>The state of a run does not depend on the events collected so far.\<close>

lemma while_drain_events:
  "while_option (\<lambda>se. \<not> drain_stops (fst se)) drain_body (s, es)
    = map_option (\<lambda>(s', es'). (s', es @ es'))
        (while_option (\<lambda>se. \<not> drain_stops (fst se)) drain_body (s, []))"
proof -
  define f where "f = (\<lambda>(s' :: game_state, es' :: game_event list). (s', es @ es'))"
  have stop: "drain_stops (fst (f se)) = drain_stops (fst se)"
    and body: "f (drain_body se) = drain_body (f se)" for se
    by (cases se; simp add: f_def drain_body_def split: prod.splits)+
  have "map_option f (while_option (\<lambda>se. \<not> drain_stops (fst se)) drain_body (s, []))
      = while_option (\<lambda>se. \<not> drain_stops (fst se)) drain_body (f (s, []))"
    by (rule while_option_commute) (simp_all only: stop body)
  then show ?thesis by (simp add: f_def)
qed

text \<open>One unfolding of the loop, which witnesses and concrete runs compute with.\<close>

lemma drain_unfold:
  "drain s =
    (if drain_stops s then Some (s, [])
     else (case drain_step s of (s', es) \<Rightarrow>
       map_option (\<lambda>(s'', es'). (s'', es @ es')) (drain s')))"
proof (cases "drain_stops s")
  case True
  then show ?thesis by (simp add: drain_stopped)
next
  case False
  then have "drain s = while_option (\<lambda>se. \<not> drain_stops (fst se)) drain_body (drain_body (s, []))"
    unfolding drain_def by (subst while_option_unfold) simp
  also have "drain_body (s, []) = drain_step s"
    by (simp add: drain_body_def split: prod.splits)
  finally have run: "drain s = while_option (\<lambda>se. \<not> drain_stops (fst se)) drain_body (drain_step s)" .
  obtain s' es where step: "drain_step s = (s', es)" by fastforce
  show ?thesis
    using False by (simp add: run step while_drain_events [of s' es] flip: drain_def [of s'])
qed

text \<open>the loop stops in a settled state only: a decision is pending, the game is over, a
  response window is open, or neither the current segment nor the queue holds anything; and a
  settled state is left exactly as it is.\<close>

lemma drain_settled:
  assumes "drain s = Some (s', events)"
  shows "drain_stops s' \<and> drain s' = Some (s', [])"
  using drain_settles [OF assms] drain_stopped by blast

end
