(* ===== verification/Turn.thy ===== *)
theory Turn
  imports Resolution
begin

text \<open>
  \<open>engine/turn.rs\<close>: ending a turn, the handover to the opponent, the Coin, and the answer to a
  paused Mana production.
\<close>

section \<open>Handlers\<close>

definition end_turn :: "game_state \<Rightarrow> player_id \<Rightarrow> action_error + action_outcome" where
  "end_turn s player =
     (if gs_pending s \<noteq> None \<or> ts_window (gs_turn s) \<noteq> None
         \<or> \<not> (ts_phase (gs_turn s) = phase.Main \<or> ts_phase (gs_turn s) = Combat)
         \<or> player \<noteq> ts_active_player (gs_turn s)
      then Inl WrongPhase
      else Inr \<lparr>ao_state = s\<lparr>gs_turn := (gs_turn s)\<lparr>ts_window := Some (window_after_play player)\<rparr>\<rparr>,
                ao_events = []\<rparr>)"

definition drop_markers :: "summon_instance \<Rightarrow> summon_instance" where
  "drop_markers summon = summon\<lparr>si_duration_markers :=
     filter (\<lambda>marker. marker \<noteq> duration_marker.CannotBeMovedByOpponent) (si_duration_markers summon)\<rparr>"

definition expire_cannot_be_moved_by_opponent :: "player_state \<Rightarrow> player_state" where
  "expire_cannot_be_moved_by_opponent ps = map_summons drop_markers ps"

definition handover :: "game_state \<Rightarrow> action_outcome" where
  "handover s =
     (let player = ts_active_player (gs_turn s);
          opp = opponent player;
          s = s\<lparr>gs_turn := \<lparr>ts_active_player = opp, ts_phase = Upkeep, ts_window = None,
                ts_normal_attack_used = False, ts_normal_retreat_used = False,
                ts_spell_played_this_turn = pp_new False False\<rparr>\<rparr>;
          s = update_player s player reset_per_turn_summon_records;
          s = update_player s opp reset_per_turn_summon_records;
          s = update_player s opp expire_cannot_be_moved_by_opponent;
          s = push_back ReadyAll s;
          s = discover_back s [opp] YourUpkeep;
          s = push_back DrawCard s;
          s = push_back (work_item.ProduceMana opp mana_source.Player) s;
          s = push_back BeginMainPhase s
      in \<lparr>ao_state = s, ao_events = [TurnBegan opp]\<rparr>)"

definition holds_priority :: "game_state \<Rightarrow> player_id \<Rightarrow> bool" where
  "holds_priority s player =
     (case ts_window (gs_turn s) of Some window \<Rightarrow> sw_holder window = player | None \<Rightarrow> False)"

definition resting_in_own_main :: "game_state \<Rightarrow> player_id \<Rightarrow> bool" where
  "resting_in_own_main s player =
     (ts_window (gs_turn s) = None \<and> ts_phase (gs_turn s) = phase.Main
      \<and> player = ts_active_player (gs_turn s))"

definition convert_coin ::
  "game_state \<Rightarrow> player_id \<Rightarrow> mana_type \<Rightarrow> action_error + action_outcome" where
  "convert_coin s player t =
     (if gs_pending s \<noteq> None then Inl WrongPhase
      else if \<not> resting_in_own_main s player \<and> \<not> holds_priority s player then Inl WrongPhase
      else if player \<noteq> player_id.Two \<or> gs_coin s = None then Inl InvalidTarget
      else if t \<notin> set (anchor_types (gs_cards s) (player_of s player)) then Inl InvalidTarget
      else Inr \<lparr>ao_state = update_player (s\<lparr>gs_coin := None\<rparr>) player (bank t),
                ao_events = [CoinConverted player t]\<rparr>)"

definition choose_mana_type ::
  "game_state \<Rightarrow> player_id \<Rightarrow> mana_type \<Rightarrow> action_error + action_outcome" where
  "choose_mana_type s player t =
     (case gs_pending s of
        Some (ManaProduction pending_player source) \<Rightarrow>
          if player \<noteq> pending_player then Inl PendingInputMismatch
          else if t \<notin> set (available_types (gs_cards s) (player_of s pending_player) source)
          then Inl InvalidTarget
          else Inr \<lparr>ao_state = update_player (s\<lparr>gs_pending := None\<rparr>) pending_player (bank t),
                    ao_events = [ManaProduced pending_player source t]\<rparr>
      | _ \<Rightarrow> Inl PendingInputMismatch)"

section \<open>The handover\<close>

lemma map_summons_map_summons [simp]: "map_summons f (map_summons g ps) = map_summons (f \<circ> g) ps"
  by (simp add: map_summons_def option.map_comp)

definition fresh_turn :: "player_id \<Rightarrow> turn_state" where
  "fresh_turn player = \<lparr>ts_active_player = player, ts_phase = Upkeep, ts_window = None,
     ts_normal_attack_used = False, ts_normal_retreat_used = False,
     ts_spell_played_this_turn = pp_new False False\<rparr>"

lemma matching_abilities_map_summons:
  assumes "\<And>summon. si_chain (f summon) = si_chain summon"
    and "player_of s' p = map_summons f (player_of s p)" and "gs_cards s' = gs_cards s"
  shows "matching_abilities s' p pos event = matching_abilities s p pos event"
  using assms by (simp add: matching_abilities_def card_at_def top_entity_def split: option.splits)

text \<open>What one board looks like after the handover.\<close>

definition turned_over :: "game_state \<Rightarrow> player_id \<Rightarrow> player_state" where
  "turned_over s p =
     (if p = ts_active_player (gs_turn s) then map_summons clear_per_turn_flags (player_of s p)
      else map_summons (drop_markers \<circ> clear_per_turn_flags) (player_of s p))"

lemma handover_state:
  "ao_state (handover s) =
    (let opp = opponent (ts_active_player (gs_turn s)) in
     (set_player (set_player s (ts_active_player (gs_turn s)) (turned_over s (ts_active_player (gs_turn s))))
        opp (turned_over s opp))
     \<lparr>gs_turn := fresh_turn opp,
      gs_work := gs_work s @ ReadyAll
        # map (trigger_work YourUpkeep) (candidates (set_player s opp (turned_over s opp)) [opp] YourUpkeep)
        @ [DrawCard, work_item.ProduceMana opp mana_source.Player, BeginMainPhase]\<rparr>)"
proof -
  have fields: "gs_players t = gs_players t' \<Longrightarrow> gs_coin t = gs_coin t' \<Longrightarrow> gs_turn t = gs_turn t' \<Longrightarrow>
     gs_stack t = gs_stack t' \<Longrightarrow> gs_stack_segment_bases t = gs_stack_segment_bases t' \<Longrightarrow>
     gs_work t = gs_work t' \<Longrightarrow> gs_pending t = gs_pending t' \<Longrightarrow> gs_status t = gs_status t' \<Longrightarrow>
     gs_cards t = gs_cards t' \<Longrightarrow> t = t'" for t t' :: game_state
    by simp
  show ?thesis
    unfolding handover_def Let_def discover_back_eq action_outcome.simps
    apply (rule fields)
            apply (simp_all add: push_back_def update_player_def set_player_def turned_over_def
        reset_per_turn_summon_records_def expire_cannot_be_moved_by_opponent_def player_of_def
        pp_get_set fresh_turn_def seat.one.put_put)
    apply (rule arg_cong [where f = "map _"], rule candidates_cong)
     apply (simp_all add: player_of_def pp_get_set)
    done
qed

lemma handover_frame [frame_simps]:
  "gs_coin (ao_state (handover s)) = gs_coin s"
  "gs_turn (ao_state (handover s)) = fresh_turn (opponent (ts_active_player (gs_turn s)))"
  "gs_stack (ao_state (handover s)) = gs_stack s"
  "gs_stack_segment_bases (ao_state (handover s)) = gs_stack_segment_bases s"
  "gs_pending (ao_state (handover s)) = gs_pending s"
  "gs_status (ao_state (handover s)) = gs_status s"
  "gs_cards (ao_state (handover s)) = gs_cards s"
  "player_of (ao_state (handover s)) p = turned_over s p"
  using player_cases [of p "ts_active_player (gs_turn s)"]
  by (auto simp: handover_state Let_def player_of_def set_player_def pp_get_set)

text \<open>C32: the handover starts the opponent's turn in Upkeep with every per-turn flag cleared on
  both boards, the movement ban lifted from the newly active player's board only, and the
  Upkeep queued in the order of the rules: Ready, \<open>YourUpkeep\<close> triggers, draw, Mana, Main Phase.\<close>

theorem handover_upkeep:
  "let opp = opponent (ts_active_player (gs_turn s)); s' = ao_state (handover s) in
     gs_turn s' = fresh_turn opp
     \<and> (\<exists>triggers. (\<forall>w \<in> set triggers. \<exists>pos ability. w = FireTrigger opp pos YourUpkeep ability)
          \<and> gs_work s' = gs_work s @ [ReadyAll] @ triggers
              @ [DrawCard, work_item.ProduceMana opp mana_source.Player, BeginMainPhase])
     \<and> (\<forall>p pos. summon_at (player_of s' p) pos
          = map_option (\<lambda>summon. summon\<lparr>si_turn := turn_record_fresh,
                 si_duration_markers := (if p = opp then [] else si_duration_markers summon)\<rparr>)
              (summon_at (player_of s p) pos))"
proof -
  let ?a = "ts_active_player (gs_turn s)"
  have markers: "filter (\<lambda>m. m \<noteq> duration_marker.CannotBeMovedByOpponent) ms = []" for ms
    by (induction ms) (auto intro: duration_marker.exhaust)
  have board: "summon_at (turned_over s p) pos
      = map_option (\<lambda>summon. summon\<lparr>si_turn := turn_record_fresh,
             si_duration_markers := (if p = opponent ?a then [] else si_duration_markers summon)\<rparr>)
          (summon_at (player_of s p) pos)" for p pos
    using player_cases [of p ?a]
    by (cases "summon_at (player_of s p) pos")
      (auto simp: turned_over_def clear_per_turn_flags_def drop_markers_def markers)
  let ?t = "map (trigger_work YourUpkeep)
    (candidates (set_player s (opponent ?a) (turned_over s (opponent ?a))) [opponent ?a] YourUpkeep)"
  have "\<forall>w \<in> set ?t. \<exists>pos ability. w = FireTrigger (opponent ?a) pos YourUpkeep ability"
    by (auto simp: trigger_work_def set_candidates)
  moreover have "gs_work (ao_state (handover s)) = gs_work s @ [ReadyAll] @ ?t
      @ [DrawCard, work_item.ProduceMana (opponent ?a) mana_source.Player, BeginMainPhase]"
    by (simp add: handover_state Let_def)
  ultimately show ?thesis unfolding Let_def handover_frame board by blast
qed

end
