(* ===== verification/Payment.thy ===== *)
theory Payment
  imports Events
begin

text \<open>
  \<open>engine/payment.rs\<close>: the cost deduction policy. The code simulates the three pools in
  \<open>[i64; 3]\<close>; every value it holds is a difference of two \<open>u32\<close> sums, far inside \<open>i64\<close>, so
  the model computes on \<open>int\<close>. The array is a function of the Mana type, indexed in the code by
  \<open>slot(mana_type)\<close> only.
\<close>

section \<open>The policy\<close>

definition pool_order :: "mana_type list" where
  "pool_order = [Matter, Mind, Spirit]"

definition to_array :: "mana_bank \<Rightarrow> mana_type \<Rightarrow> int" where
  "to_array bank t =
     (case t of Matter \<Rightarrow> uint (mb_matter bank) | Mind \<Rightarrow> uint (mb_mind bank)
      | Spirit \<Rightarrow> uint (mb_spirit bank))"

text \<open>\<open>u32::try_from\<close> on an \<open>i64\<close>.\<close>

definition u32_try_from :: "int \<Rightarrow> u32 option" where
  "u32_try_from v = (if 0 \<le> v \<and> v < 2 ^ 32 then Some (word_of_int v) else None)"

definition unsigned_deficit :: "int \<Rightarrow> u32" where
  "unsigned_deficit v =
     (if 0 \<le> v then 0 else (case u32_try_from (- v) of Some d \<Rightarrow> d | None \<Rightarrow> u32_max))"

definition unsigned_nonnegative :: "int \<Rightarrow> u32" where
  "unsigned_nonnegative v = (case u32_try_from v of Some d \<Rightarrow> d | None \<Rightarrow> 0)"

definition candidate_wins ::
  "(mana_type \<Rightarrow> int) \<Rightarrow> (mana_type \<Rightarrow> bool) \<Rightarrow> mana_type \<Rightarrow> mana_type \<Rightarrow> bool" where
  "candidate_wins remaining typed_named candidate best =
     (if remaining best < remaining candidate then True
      else if remaining candidate = remaining best then \<not> typed_named candidate \<and> typed_named best
      else False)"

definition pick_largest_pool :: "(mana_type \<Rightarrow> int) \<Rightarrow> (mana_type \<Rightarrow> bool) \<Rightarrow> mana_type" where
  "pick_largest_pool remaining typed_named =
     fold (\<lambda>candidate best. if candidate_wins remaining typed_named candidate best
                             then candidate else best) pool_order Matter"

record deduction =
  dd_mana_type :: mana_type
  dd_amount :: u32

record payment =
  pm_bank :: mana_bank
  pm_deductions :: "deduction list"

datatype payment_error = Insufficient mana_bank | InvalidHint

definition cost_array :: "cost \<Rightarrow> mana_type \<Rightarrow> int" where
  "cost_array c t =
     (case t of Matter \<Rightarrow> uint (cost_matter c) | Mind \<Rightarrow> uint (cost_mind c)
      | Spirit \<Rightarrow> uint (cost_spirit c))"

text \<open>The loop \<open>for _ in 0..cost.generic\<close> over \<open>(remaining, generic_spent)\<close>.\<close>

fun spend_generic ::
  "nat \<Rightarrow> (mana_type \<Rightarrow> bool) \<Rightarrow> (mana_type \<Rightarrow> int) \<Rightarrow> (mana_type \<Rightarrow> int)
    \<Rightarrow> (mana_type \<Rightarrow> int) \<times> (mana_type \<Rightarrow> int)" where
  "spend_generic 0 typed_named remaining spent = (remaining, spent)"
| "spend_generic (Suc n) typed_named remaining spent =
     (let chosen = pick_largest_pool remaining typed_named
      in spend_generic n typed_named
           (remaining(chosen := remaining chosen - 1)) (spent(chosen := spent chosen + 1)))"

definition typed_shortfall :: "mana_bank \<Rightarrow> cost \<Rightarrow> mana_bank" where
  "typed_shortfall bank c =
     \<lparr>mb_matter = saturating_sub (cost_matter c) (mb_matter bank),
      mb_mind = saturating_sub (cost_mind c) (mb_mind bank),
      mb_spirit = saturating_sub (cost_spirit c) (mb_spirit bank)\<rparr>"

definition deduct :: "mana_bank \<Rightarrow> cost \<Rightarrow> mana_type option \<Rightarrow> payment_error + payment" where
  "deduct bank cost hint =
     (let typed_short = typed_shortfall bank cost in
      if 0 < mb_matter typed_short \<or> 0 < mb_mind typed_short \<or> 0 < mb_spirit typed_short
      then Inl (Insufficient typed_short)
      else
        let remaining = (\<lambda>t. to_array bank t - cost_array cost t) in
        if (case hint of None \<Rightarrow> False
            | Some t \<Rightarrow> cost_generic cost = 0 \<or> remaining t = 0)
        then Inl InvalidHint
        else
          let typed_named = (\<lambda>t. 0 < cost_array cost t);
              (remaining, generic_spent) =
                (case hint of
                   Some t \<Rightarrow>
                     (remaining(t := remaining t - uint (cost_generic cost)),
                      (\<lambda>_. 0)(t := uint (cost_generic cost)))
                 | None \<Rightarrow> spend_generic (unat (cost_generic cost)) typed_named remaining (\<lambda>_. 0))
          in
          if \<exists>t \<in> set pool_order. remaining t < 0
          then Inl (Insufficient
                 \<lparr>mb_matter = unsigned_deficit (remaining Matter),
                  mb_mind = unsigned_deficit (remaining Mind),
                  mb_spirit = unsigned_deficit (remaining Spirit)\<rparr>)
          else
            let total_spent = (\<lambda>t. cost_array cost t + generic_spent t)
            in Inr \<lparr>pm_bank =
                  \<lparr>mb_matter = unsigned_nonnegative (remaining Matter),
                   mb_mind = unsigned_nonnegative (remaining Mind),
                   mb_spirit = unsigned_nonnegative (remaining Spirit)\<rparr>,
                pm_deductions =
                  filter_map (\<lambda>t. if 0 < total_spent t
                    then Some \<lparr>dd_mana_type = t,
                      dd_amount = (case u32_try_from (total_spent t) of
                        Some a \<Rightarrow> a | None \<Rightarrow> u32_max)\<rparr>
                    else None) pool_order\<rparr>)"

section \<open>The greedy loop\<close>

definition pool_sum :: "(mana_type \<Rightarrow> int) \<Rightarrow> int" where
  "pool_sum f = f Matter + f Mind + f Spirit"

lemma all_mana_type: "(\<forall>t. P t) \<longleftrightarrow> P Matter \<and> P Mind \<and> P Spirit"
  by (metis mana_type.exhaust)

lemma set_pool_order [simp]: "set pool_order = UNIV"
  by (auto simp: pool_order_def intro: mana_type.exhaust)

lemma pool_sum_upd: "pool_sum (f(t := v)) = pool_sum f - f t + v"
  by (cases t) (simp_all add: pool_sum_def)

lemma to_array_bounds: "0 \<le> to_array b t" "to_array b t < 2 ^ 32"
  using uint_lt2p [of "mb_matter b"] uint_lt2p [of "mb_mind b"] uint_lt2p [of "mb_spirit b"]
  by (cases t; simp add: to_array_def)+

lemma cost_array_bounds: "0 \<le> cost_array c t" "cost_array c t < 2 ^ 32"
  using uint_lt2p [of "cost_matter c"] uint_lt2p [of "cost_mind c"] uint_lt2p [of "cost_spirit c"]
  by (cases t; simp add: cost_array_def)+

lemma pick_largest_pool_max: "remaining t \<le> remaining (pick_largest_pool remaining typed_named)"
  by (cases t) (auto simp: pick_largest_pool_def pool_order_def candidate_wins_def)

lemma spend_generic_sum:
  "spend_generic n named r g = (r', g') \<Longrightarrow>
     pool_sum r' = pool_sum r - int n \<and> pool_sum g' = pool_sum g + int n"
  by (induction n named r g rule: spend_generic.induct) (auto simp: Let_def pool_sum_upd)

lemma spend_generic_balance:
  "spend_generic n named r g = (r', g') \<Longrightarrow>
     r' t + g' t = r t + g t \<and> g t \<le> g' t \<and> g' t \<le> g t + int n"
  by (induction n named r g rule: spend_generic.induct) (force simp: Let_def)+

lemma spend_generic_step:
  assumes "spend_generic (Suc n) named r g = res"
  shows "spend_generic n named
      (r(pick_largest_pool r named := r (pick_largest_pool r named) - 1))
      (g(pick_largest_pool r named := g (pick_largest_pool r named) + 1)) = res"
  using assms by (simp add: Let_def)

lemma spend_generic_nonneg:
  "spend_generic n named r g = (r', g') \<Longrightarrow> \<forall>t. 0 \<le> r t \<Longrightarrow> int n \<le> pool_sum r \<Longrightarrow> 0 \<le> r' t"
proof (induction n named r g rule: spend_generic.induct)
  case (2 n named r g)
  let ?c = "pick_largest_pool r named"
  have "1 \<le> r ?c"
    using pick_largest_pool_max [of r Matter named] pick_largest_pool_max [of r Mind named]
      pick_largest_pool_max [of r Spirit named] 2(4) by (simp add: pool_sum_def)
  with 2(3) have "\<forall>t. 0 \<le> (r(?c := r ?c - 1)) t" by simp
  moreover have "int n \<le> pool_sum (r(?c := r ?c - 1))" using 2(4) by (simp add: pool_sum_upd)
  ultimately show ?case by (rule 2(1) [OF refl spend_generic_step [OF 2(2)]])
qed simp

lemma spend_generic_nonpos:
  "spend_generic n named r g = (r', g') \<Longrightarrow> \<forall>t. r t \<le> 0 \<Longrightarrow> r' t \<le> 0"
proof (induction n named r g rule: spend_generic.induct)
  case (2 n named r g)
  let ?c = "pick_largest_pool r named"
  have "\<forall>t. (r(?c := r ?c - 1)) t \<le> 0"
    using 2(3) by (metis diff_le_eq fun_upd_apply le_add_same_cancel1 order_trans zero_le_one)
  then show ?case by (rule 2(1) [OF refl spend_generic_step [OF 2(2)]])
qed simp

lemma spend_generic_short:
  "spend_generic n named r g = (r', g') \<Longrightarrow> \<forall>t. 0 \<le> r t \<Longrightarrow> pool_sum r < int n \<Longrightarrow> r' t \<le> 0"
proof (induction n named r g rule: spend_generic.induct)
  case (1 named r g)
  then show ?case by (simp add: pool_sum_def all_mana_type)
next
  case (2 n named r g)
  let ?c = "pick_largest_pool r named"
  show ?case
  proof (cases "1 \<le> r ?c")
    case True
    with 2(3) have "\<forall>t. 0 \<le> (r(?c := r ?c - 1)) t" by simp
    moreover have "pool_sum (r(?c := r ?c - 1)) < int n" using 2(4) by (simp add: pool_sum_upd)
    ultimately show ?thesis by (rule 2(1) [OF refl spend_generic_step [OF 2(2)]])
  next
    case False
    then have "\<forall>t. r t \<le> 0" using pick_largest_pool_max [of r _ named] by (smt (verit))
    with 2(2) show ?thesis by (rule spend_generic_nonpos)
  qed
qed

section \<open>What a payment does\<close>

definition covers_typed :: "mana_bank \<Rightarrow> cost \<Rightarrow> bool" where
  "covers_typed bank c \<longleftrightarrow> (\<forall>t. cost_array c t \<le> to_array bank t)"

text \<open>What the deductions of a payment take from one pool.\<close>

definition paid :: "payment \<Rightarrow> mana_type \<Rightarrow> int" where
  "paid p t = (\<Sum>d\<leftarrow>pm_deductions p. if dd_mana_type d = t then uint (dd_amount d) else 0)"

definition generic_split ::
  "cost \<Rightarrow> mana_type option \<Rightarrow> (mana_type \<Rightarrow> int) \<Rightarrow> (mana_type \<Rightarrow> int) \<times> (mana_type \<Rightarrow> int)" where
  "generic_split c hint r =
     (case hint of
        Some t \<Rightarrow> (r(t := r t - uint (cost_generic c)), (\<lambda>_. 0)(t := uint (cost_generic c)))
      | None \<Rightarrow> spend_generic (unat (cost_generic c)) (\<lambda>t. 0 < cost_array c t) r (\<lambda>_. 0))"

lemma word_pos: "0 < (x :: u32) \<longleftrightarrow> x \<noteq> 0"
  by (simp add: word_neq_0_conv)

lemma typed_shortfall_iff:
  "0 < mb_matter (typed_shortfall b c) \<or> 0 < mb_mind (typed_shortfall b c)
     \<or> 0 < mb_spirit (typed_shortfall b c) \<longleftrightarrow> \<not> covers_typed b c"
  by (simp add: typed_shortfall_def covers_typed_def word_pos saturating_sub_eq_0 all_mana_type
      cost_array_def to_array_def word_le_def)

lemma uint_u32_try_from: "u32_try_from v = Some w \<longleftrightarrow> 0 \<le> v \<and> v < 2 ^ 32 \<and> uint w = v"
proof (cases "0 \<le> v \<and> v < 2 ^ 32")
  case True
  then have "uint (word_of_int v :: u32) = v" by (simp add: uint_word_of_int)
  with True show ?thesis by (auto simp: u32_try_from_def)
next
  case False
  then show ?thesis by (auto simp: u32_try_from_def)
qed

lemma u32_try_from_ok: "0 \<le> v \<Longrightarrow> v < 2 ^ 32 \<Longrightarrow> \<exists>w. u32_try_from v = Some w \<and> uint w = v"
  by (metis u32_try_from_def uint_u32_try_from)

lemma uint_unsigned_nonnegative: "0 \<le> v \<Longrightarrow> v < 2 ^ 32 \<Longrightarrow> uint (unsigned_nonnegative v) = v"
  using u32_try_from_ok [of v] by (auto simp: unsigned_nonnegative_def)

lemma uint_unsigned_deficit: "- (2 ^ 32) < v \<Longrightarrow> uint (unsigned_deficit v) = max 0 (- v)"
  using u32_try_from_ok [of "- v"] by (auto simp: unsigned_deficit_def)

lemma generic_split_facts:
  assumes "generic_split c hint r = (r', g')"
  shows "r' t + g' t = r t" and "0 \<le> g' t" and "g' t \<le> uint (cost_generic c)"
    and "pool_sum g' = uint (cost_generic c)" and "pool_sum r' = pool_sum r - uint (cost_generic c)"
proof -
  have z: "pool_sum (\<lambda>_. 0) = 0" by (simp add: pool_sum_def)
  have n: "int (unat (cost_generic c)) = uint (cost_generic c)" by simp
  have *: "r' t + g' t = r t \<and> 0 \<le> g' t \<and> g' t \<le> uint (cost_generic c)
      \<and> pool_sum g' = uint (cost_generic c) \<and> pool_sum r' = pool_sum r - uint (cost_generic c)"
  proof (cases hint)
    case None
    then have s: "spend_generic (unat (cost_generic c)) (\<lambda>t. 0 < cost_array c t) r (\<lambda>_. 0) = (r', g')"
      using assms by (simp add: generic_split_def)
    show ?thesis
      using spend_generic_sum [OF s] spend_generic_balance [OF s, of t] z by simp
  next
    case (Some h)
    with assms have "r' = r(h := r h - uint (cost_generic c))" "g' = (\<lambda>_. 0)(h := uint (cost_generic c))"
      by (simp_all add: generic_split_def)
    then show ?thesis by (simp add: pool_sum_upd z)
  qed
  then show "r' t + g' t = r t" "0 \<le> g' t" "g' t \<le> uint (cost_generic c)"
    "pool_sum g' = uint (cost_generic c)" "pool_sum r' = pool_sum r - uint (cost_generic c)"
    by blast+
qed

text \<open>The three outcomes of \<open>deduct\<close>, each by its condition.\<close>

lemma deduct_typed_short:
  "\<not> covers_typed b c \<Longrightarrow> deduct b c hint = Inl (Insufficient (typed_shortfall b c))"
  unfolding deduct_def Let_def typed_shortfall_iff by simp

lemma deduct_bad_hint:
  assumes "covers_typed b c" and "cost_generic c = 0 \<or> to_array b t = cost_array c t"
  shows "deduct b c (Some t) = Inl InvalidHint"
  unfolding deduct_def Let_def typed_shortfall_iff using assms by auto

lemma deduct_generic:
  assumes "covers_typed b c"
    and "\<forall>t. hint = Some t \<longrightarrow> cost_generic c \<noteq> 0 \<and> to_array b t \<noteq> cost_array c t"
    and split: "generic_split c hint (\<lambda>t. to_array b t - cost_array c t) = (r', g')"
  shows "deduct b c hint =
    (if \<exists>t. r' t < 0
     then Inl (Insufficient \<lparr>mb_matter = unsigned_deficit (r' Matter),
        mb_mind = unsigned_deficit (r' Mind), mb_spirit = unsigned_deficit (r' Spirit)\<rparr>)
     else Inr \<lparr>pm_bank = \<lparr>mb_matter = unsigned_nonnegative (r' Matter),
            mb_mind = unsigned_nonnegative (r' Mind), mb_spirit = unsigned_nonnegative (r' Spirit)\<rparr>,
          pm_deductions = filter_map (\<lambda>t. if 0 < cost_array c t + g' t
            then Some \<lparr>dd_mana_type = t, dd_amount = (case u32_try_from (cost_array c t + g' t) of
                Some a \<Rightarrow> a | None \<Rightarrow> u32_max)\<rparr> else None) pool_order\<rparr>)"
proof -
  have nohint: "\<not> (case hint of None \<Rightarrow> False
      | Some t \<Rightarrow> cost_generic c = 0 \<or> to_array b t - cost_array c t = 0)"
    using assms(2) by (cases hint) auto
  show ?thesis
    unfolding deduct_def Let_def typed_shortfall_iff
    using assms(1) nohint split [unfolded generic_split_def]
    by (simp split: prod.splits)
qed

lemma paid_filter_map:
  assumes "\<And>t. 0 \<le> f t \<and> f t < 2 ^ 32"
  shows "paid \<lparr>pm_bank = bank, pm_deductions = filter_map (\<lambda>t. if 0 < f t
      then Some \<lparr>dd_mana_type = t, dd_amount = (case u32_try_from (f t) of
        Some a \<Rightarrow> a | None \<Rightarrow> u32_max)\<rparr> else None) pool_order\<rparr> t = f t"
proof -
  have amount: "uint (case u32_try_from (f u) of Some a \<Rightarrow> a | None \<Rightarrow> u32_max) = f u" for u
    using u32_try_from_ok [of "f u"] assms [of u] by auto
  have "f t = 0" if "\<not> 0 < f t" using assms [of t] that by simp
  then show ?thesis
    by (cases t) (simp_all add: paid_def pool_order_def amount)
qed

lemma deduct_Inr_cases:
  assumes "deduct b c hint = Inr p"
  obtains r' g' where "covers_typed b c"
    and "generic_split c hint (\<lambda>t. to_array b t - cost_array c t) = (r', g')"
    and "\<And>t. 0 \<le> r' t" and "\<And>t. to_array (pm_bank p) t = r' t"
    and "\<And>t. paid p t = cost_array c t + g' t"
    and "\<And>t. hint = Some t \<Longrightarrow> cost_generic c \<noteq> 0"
proof -
  obtain r' g' where split: "generic_split c hint (\<lambda>t. to_array b t - cost_array c t) = (r', g')"
    by fastforce
  from assms have typed: "covers_typed b c"
    using deduct_typed_short by fastforce
  from assms have hint: "\<forall>t. hint = Some t \<longrightarrow> cost_generic c \<noteq> 0 \<and> to_array b t \<noteq> cost_array c t"
    using deduct_bad_hint [OF typed] by fastforce
  note result = assms [unfolded deduct_generic [OF typed hint split]]
  note facts = generic_split_facts [OF split]
  from result have nonneg: "0 \<le> r' t" for t by (auto split: if_splits simp: not_less)
  have bounds: "r' t < 2 ^ 32" "0 \<le> cost_array c t + g' t" "cost_array c t + g' t < 2 ^ 32" for t
    using facts(1,2) [of t] nonneg [of t] to_array_bounds [of b t] cost_array_bounds [of c t] by simp_all
  have p: "p = \<lparr>pm_bank = \<lparr>mb_matter = unsigned_nonnegative (r' Matter),
            mb_mind = unsigned_nonnegative (r' Mind), mb_spirit = unsigned_nonnegative (r' Spirit)\<rparr>,
          pm_deductions = filter_map (\<lambda>t. if 0 < cost_array c t + g' t
            then Some \<lparr>dd_mana_type = t, dd_amount = (case u32_try_from (cost_array c t + g' t) of
                Some a \<Rightarrow> a | None \<Rightarrow> u32_max)\<rparr> else None) pool_order\<rparr>"
    using result by (simp split: if_splits)
  have "to_array (pm_bank p) t = r' t" for t
    by (cases t) (simp_all add: p to_array_def uint_unsigned_nonnegative [OF nonneg bounds(1)])
  moreover have "paid p t = cost_array c t + g' t" for t
    unfolding p by (rule paid_filter_map) (use bounds in blast)
  ultimately show thesis using that typed split nonneg hint by blast
qed

text \<open>C29: an accepted payment takes exactly the cost out of the bank: each pool loses what the
  deductions name, each typed component comes from its own pool, the deductions add up to the
  whole cost, and a hinted Generic component comes from the hinted pool alone.\<close>

theorem deduct_exact:
  assumes "deduct bank c hint = Inr p"
  shows "(\<forall>t. to_array (pm_bank p) t + paid p t = to_array bank t \<and> cost_array c t \<le> paid p t)
    \<and> pool_sum (paid p) = pool_sum (cost_array c) + uint (cost_generic c)
    \<and> (\<forall>h t. hint = Some h \<longrightarrow>
          paid p t = cost_array c t + (if t = h then uint (cost_generic c) else 0))"
proof -
  obtain r' g' where split: "generic_split c hint (\<lambda>t. to_array bank t - cost_array c t) = (r', g')"
    and bank: "\<And>t. to_array (pm_bank p) t = r' t" and paid: "\<And>t. paid p t = cost_array c t + g' t"
    using deduct_Inr_cases [OF assms] by metis
  note facts = generic_split_facts [OF split]
  have "to_array (pm_bank p) t + paid p t = to_array bank t \<and> cost_array c t \<le> paid p t" for t
    using facts(1,2) [of t] by (simp add: bank paid)
  moreover have "pool_sum (paid p) = pool_sum (cost_array c) + uint (cost_generic c)"
    using facts(4) by (simp add: pool_sum_def paid)
  moreover have "paid p t = cost_array c t + (if t = h then uint (cost_generic c) else 0)"
    if "hint = Some h" for h t
    using split that by (auto simp: generic_split_def paid)
  ultimately show ?thesis by blast
qed

lemma deduct_payable:
  "(\<exists>p. deduct bank c None = Inr p) \<longleftrightarrow>
     covers_typed bank c \<and> pool_sum (cost_array c) + uint (cost_generic c) \<le> pool_sum (to_array bank)"
proof
  assume "\<exists>p. deduct bank c None = Inr p"
  then obtain p where p: "deduct bank c None = Inr p" ..
  obtain r' g' where "covers_typed bank c" and nonneg: "\<And>t. 0 \<le> r' t"
    and split: "generic_split c None (\<lambda>t. to_array bank t - cost_array c t) = (r', g')"
    using deduct_Inr_cases [OF p] by metis
  have "0 \<le> pool_sum r'" using nonneg by (simp add: pool_sum_def)
  with generic_split_facts(5) [OF split] \<open>covers_typed bank c\<close>
  show "covers_typed bank c
      \<and> pool_sum (cost_array c) + uint (cost_generic c) \<le> pool_sum (to_array bank)"
    by (simp add: pool_sum_def)
next
  assume enough: "covers_typed bank c
      \<and> pool_sum (cost_array c) + uint (cost_generic c) \<le> pool_sum (to_array bank)"
  obtain r' g' where split: "generic_split c None (\<lambda>t. to_array bank t - cost_array c t) = (r', g')"
    by fastforce
  have "0 \<le> r' t" for t
    using enough split unfolding generic_split_def option.case
    by (intro spend_generic_nonneg) (auto simp: covers_typed_def pool_sum_def)
  with enough show "\<exists>p. deduct bank c None = Inr p"
    using deduct_generic [OF _ _ split] by (simp add: not_less)
qed

text \<open>C28: without a hint a cost is payable exactly when every typed pool covers its component
  and the bank as a whole covers the whole cost: the greedy choice never loses a payment.\<close>

theorem deduct_complete:
  "(\<exists>p. deduct bank c None = Inr p) \<longleftrightarrow>
     covers_typed bank c \<and> pool_sum (cost_array c) + uint (cost_generic c) \<le> pool_sum (to_array bank)"
  by (rule deduct_payable)

text \<open>A hinted cost is payable exactly when the typed pools cover their components, there is
  a Generic component, and the hinted pool covers it besides its own typed component.\<close>

lemma deduct_hint_complete:
  "(\<exists>p. deduct bank c (Some h) = Inr p) \<longleftrightarrow>
     covers_typed bank c \<and> cost_generic c \<noteq> 0
     \<and> cost_array c h + uint (cost_generic c) \<le> to_array bank h"
proof
  assume "\<exists>p. deduct bank c (Some h) = Inr p"
  then obtain p where p: "deduct bank c (Some h) = Inr p" ..
  obtain r' g' where "covers_typed bank c" and nonneg: "\<And>t. 0 \<le> r' t" and "cost_generic c \<noteq> 0"
    and split: "generic_split c (Some h) (\<lambda>t. to_array bank t - cost_array c t) = (r', g')"
    using deduct_Inr_cases [OF p] by metis
  from split have "r' h = to_array bank h - cost_array c h - uint (cost_generic c)"
    by (auto simp: generic_split_def)
  with nonneg have "cost_array c h + uint (cost_generic c) \<le> to_array bank h"
    by (smt (verit))
  with \<open>covers_typed bank c\<close> \<open>cost_generic c \<noteq> 0\<close> show "covers_typed bank c \<and> cost_generic c \<noteq> 0
      \<and> cost_array c h + uint (cost_generic c) \<le> to_array bank h"
    by blast
next
  assume enough: "covers_typed bank c \<and> cost_generic c \<noteq> 0
      \<and> cost_array c h + uint (cost_generic c) \<le> to_array bank h"
  obtain r' g' where split: "generic_split c (Some h) (\<lambda>t. to_array bank t - cost_array c t) = (r', g')"
    by fastforce
  have "uint (cost_generic c) \<noteq> 0" using enough by (metis uint_0_iff)
  then have "0 < uint (cost_generic c)"
    using uint_ge_0 [of "cost_generic c"] by linarith
  then have "to_array bank h \<noteq> cost_array c h" using enough by auto
  moreover have "0 \<le> r' t" for t
    using enough split by (auto simp: generic_split_def covers_typed_def)
  ultimately show "\<exists>p. deduct bank c (Some h) = Inr p"
    using enough deduct_generic [OF _ _ split] by (simp add: not_less)
qed

text \<open>When the typed pools suffice but the bank as a whole does not, the reported shortfall
  adds up to exactly the Mana that is missing.\<close>

lemma deduct_shortfall_exact:
  assumes "covers_typed bank c" and "deduct bank c None = Inl (Insufficient short)"
  shows "pool_sum (to_array short)
    = pool_sum (cost_array c) + uint (cost_generic c) - pool_sum (to_array bank)"
proof -
  let ?r = "\<lambda>t. to_array bank t - cost_array c t"
  obtain r' g' where split: "generic_split c None ?r = (r', g')" by fastforce
  have r: "\<forall>t. 0 \<le> ?r t" using assms(1) by (simp add: covers_typed_def)
  have "\<not> (\<exists>p. deduct bank c None = Inr p)" using assms(2) by simp
  then have few: "pool_sum ?r < int (unat (cost_generic c))"
    using deduct_payable [of bank c] assms(1) by (simp add: pool_sum_def)
  have nonpos: "r' t \<le> 0" for t
    using split few r unfolding generic_split_def option.case by (intro spend_generic_short)
  have low: "- (2 ^ 32) < r' t" for t
  proof -
    have "r' t + g' t = ?r t" "g' t \<le> uint (cost_generic c)"
      using generic_split_facts(1,3) [OF split, of t] by simp_all
    moreover have "0 \<le> ?r t" using r by blast
    moreover have "uint (cost_generic c) < 2 ^ 32" using uint_lt2p [of "cost_generic c"] by simp
    ultimately show ?thesis by linarith
  qed
  have "deduct bank c None = Inl (Insufficient \<lparr>mb_matter = unsigned_deficit (r' Matter),
        mb_mind = unsigned_deficit (r' Mind), mb_spirit = unsigned_deficit (r' Spirit)\<rparr>)"
    using assms deduct_generic [OF assms(1) _ split] by (auto split: if_splits)
  with assms(2) have "to_array short t = - r' t" for t
    by (cases t) (auto simp: to_array_def uint_unsigned_deficit [OF low] nonpos)
  then have "pool_sum (to_array short) = - pool_sum r'" by (simp add: pool_sum_def)
  with generic_split_facts(5) [OF split] show ?thesis by (simp add: pool_sum_def)
qed

end
