(* ===== verification/Stack.thy ===== *)
theory Stack
  imports Turn Payment
begin

text \<open>
  \<open>engine/stack/mod.rs\<close>: declaring the normal attack, casting a Spell, and passing Priority.
  The match on \<open>payment::deduct\<close> and the event list it feeds, which every paying handler
  repeats, are \<open>pay\<close> and \<open>deduction_events\<close>.
\<close>

section \<open>Paying\<close>

definition pay :: "mana_bank \<Rightarrow> cost \<Rightarrow> mana_type option \<Rightarrow> action_error + payment" where
  "pay pool cost hint =
     (case deduct pool cost hint of
        Inr payment \<Rightarrow> Inr payment
      | Inl (Insufficient short) \<Rightarrow> Inl (InsufficientMana short)
      | Inl InvalidHint \<Rightarrow> Inl InvalidManaHint)"

definition deduction_events :: "player_id \<Rightarrow> payment \<Rightarrow> game_event list" where
  "deduction_events player payment =
     map (\<lambda>d. ManaDeducted player (dd_mana_type d) (dd_amount d)) (pm_deductions payment)"

definition printed_cost :: "entity \<Rightarrow> cost" where
  "printed_cost entity = (case entity_get cost_field entity of Some c \<Rightarrow> c | None \<Rightarrow> cost_default)"

section \<open>Handlers\<close>

definition declare_attack ::
  "game_state \<Rightarrow> player_id \<Rightarrow> position \<Rightarrow> mana_type option \<Rightarrow> action_error + action_outcome" where
  "declare_attack s player target hint =
     (if gs_pending s \<noteq> None then Inl PendingInputMismatch
      else if ts_normal_attack_used (gs_turn s) then Inl NormalAttackAlreadyUsed
      else if ts_phase (gs_turn s) \<noteq> phase.Main \<or> ts_window (gs_turn s) \<noteq> None then Inl WrongPhase
      else if target \<noteq> position.Main then Inl InvalidTarget
      else
        let ps = player_of s player in
        and_then (ok_or EmptyPosition (ps_main ps)) (\<lambda>main_summon.
        and_then (ok_or UnknownCard (top_entity (gs_cards s) main_summon)) (\<lambda>entity.
        and_then (ok_or UnknownCard (entity_get attack_field entity)) (\<lambda>attack.
        and_then (pay (ps_mana ps) (printed_cost attack) hint) (\<lambda>payment.
          Inr \<lparr>ao_state = update_player
                 (s\<lparr>gs_turn := (gs_turn s)\<lparr>ts_normal_attack_used := True, ts_phase := Combat,
                      ts_window := Some (window_after_play player)\<rparr>,
                    gs_stack := gs_stack s @ [stack_item.Attack player target]\<rparr>)
                 player (\<lambda>ps. ps\<lparr>ps_mana := pm_bank payment\<rparr>),
               ao_events = deduction_events player payment @ [AttackDeclared player target]\<rparr>)))))"

definition is_attack_item :: "stack_item \<Rightarrow> bool" where
  "is_attack_item item = (case item of stack_item.Attack _ _ \<Rightarrow> True | _ \<Rightarrow> False)"

definition blocks_attack_spells :: "game_state \<Rightarrow> player_id \<Rightarrow> position \<Rightarrow> effect_leaf \<Rightarrow> bool" where
  "blocks_attack_spells s attacker target leaf =
     (case leaf of
        BlockResponses condition AttackSpells \<Rightarrow> condition_holds s attacker [target] condition
      | _ \<Rightarrow> False)"

definition attack_responses_blocked :: "game_state \<Rightarrow> bool" where
  "attack_responses_blocked s =
     (case find is_attack_item (rev (drop (current_base s) (gs_stack s))) of
        Some (stack_item.Attack attacker target) \<Rightarrow>
          (case ps_main (player_of s attacker) of
             None \<Rightarrow> False
           | Some main_summon \<Rightarrow>
               (case top_entity (gs_cards s) main_summon of
                  None \<Rightarrow> False
                | Some entity \<Rightarrow>
                    (case entity_get attack_field entity of
                       None \<Rightarrow> False
                     | Some attack \<Rightarrow>
                         (\<exists>leaf \<in> set (entity_all effect_field attack).
                            blocks_attack_spells s attacker target leaf))))
      | _ \<Rightarrow> False)"

text \<open>The timing and cost a card is cast with; a card that cannot be cast has none.\<close>

definition casting :: "entity \<Rightarrow> (spell_timing \<times> cost) option" where
  "casting entity =
     (case family entity of
        card_kind.Spell \<Rightarrow>
          (case entity_get timing_field entity of
             Some timing \<Rightarrow> Some (timing, printed_cost entity) | None \<Rightarrow> None)
      | card_kind.Enchantment \<Rightarrow> Some (Support, printed_cost entity)
      | card_kind.Summon \<Rightarrow> None)"

definition legal_timing :: "game_state \<Rightarrow> player_id \<Rightarrow> spell_timing \<Rightarrow> bool" where
  "legal_timing s player timing =
     (case timing of
        Support \<Rightarrow> resting_in_own_main s player \<or> holds_priority s player
      | spell_timing.Attack \<Rightarrow> holds_priority s player)"

definition cast_spell ::
  "game_state \<Rightarrow> player_id \<Rightarrow> card_instance_id \<Rightarrow> position list \<Rightarrow> mana_type option
    \<Rightarrow> action_error + action_outcome" where
  "cast_spell s player instance_id targets hint =
     (if gs_pending s \<noteq> None then Inl PendingInputMismatch
      else
        let ps = player_of s player in
        and_then (ok_or UnknownCard (position_of (\<lambda>c. cr_instance c = instance_id) (ps_hand ps)))
          (\<lambda>hand_index.
        let cref = ps_hand ps ! hand_index in
        and_then (ok_or UnknownCard (card_set_get (gs_cards s) (cr_def cref))) (\<lambda>entity.
        and_then (ok_or UnknownCard (casting entity)) (\<lambda>(timing, cost).
        if \<not> legal_timing s player timing then Inl WrongPhase
        else if timing = spell_timing.Attack \<and> holds_priority s player \<and> attack_responses_blocked s
        then Inl WrongPhase
        else
          and_then (pay (ps_mana ps) cost hint) (\<lambda>payment.
          let turn = gs_turn s in
          Inr \<lparr>ao_state = update_player
                 (s\<lparr>gs_turn := turn\<lparr>ts_window := Some (window_after_play player),
                      ts_spell_played_this_turn :=
                        pp_set (ts_spell_played_this_turn turn) player True\<rparr>,
                    gs_stack := gs_stack s @ [stack_item.Spell player cref targets]\<rparr>)
                 player (\<lambda>ps. ps\<lparr>ps_mana := pm_bank payment,
                                  ps_hand := remove_nth hand_index (ps_hand ps)\<rparr>),
               ao_events = deduction_events player payment
                 @ [SpellCast player instance_id targets]\<rparr>)))))"

definition pass :: "game_state \<Rightarrow> player_id \<Rightarrow> action_error + action_outcome" where
  "pass s player =
     (if gs_pending s \<noteq> None then Inl PendingInputMismatch
      else
        (case ts_window (gs_turn s) of
           None \<Rightarrow> Inl WrongPhase
         | Some window \<Rightarrow>
             if sw_holder window \<noteq> player then Inl NotYourDecision
             else if sw_prior_pass window
             then
               (let next = s\<lparr>gs_turn := (gs_turn s)\<lparr>ts_window := None\<rparr>\<rparr> in
                if gs_stack next = []
                then (let handed = handover next
                      in Inr \<lparr>ao_state = ao_state handed,
                              ao_events = PriorityPassed player # ao_events handed\<rparr>)
                else Inr \<lparr>ao_state = next, ao_events = [PriorityPassed player]\<rparr>)
             else Inr \<lparr>ao_state = s\<lparr>gs_turn := (gs_turn s)\<lparr>ts_window :=
                         Some \<lparr>sw_holder = opponent player, sw_prior_pass = True\<rparr>\<rparr>\<rparr>,
                       ao_events = [PriorityPassed player]\<rparr>))"

section \<open>Lemmas\<close>

lemma ok_or_Inr: "ok_or e o' = Inr a \<longleftrightarrow> o' = Some a"
  by (cases o') simp_all

lemma pay_Inr: "pay pool cost hint = Inr p \<longleftrightarrow> deduct pool cost hint = Inr p"
  by (auto simp: pay_def split: sum.splits payment_error.splits)

text \<open>The card of a hand with a given instance, and its place in the hand.\<close>

definition in_hand :: "player_state \<Rightarrow> card_instance_id \<Rightarrow> action_error + nat \<times> card_ref" where
  "in_hand ps instance_id =
     and_then (ok_or UnknownCard (position_of (\<lambda>c. cr_instance c = instance_id) (ps_hand ps)))
       (\<lambda>hand_index. Inr (hand_index, ps_hand ps ! hand_index))"

lemma in_hand_Inr:
  "in_hand ps i = Inr (n, c) \<Longrightarrow> n < length (ps_hand ps) \<and> ps_hand ps ! n = c \<and> cr_instance c = i"
  by (auto simp: in_hand_def and_then_Inr ok_or_Inr dest: position_of_SomeD)

text \<open>The turn after an attack is declared and after a Spell is cast.\<close>

definition attack_turn :: "game_state \<Rightarrow> player_id \<Rightarrow> turn_state" where
  "attack_turn s player = (gs_turn s)\<lparr>ts_normal_attack_used := True, ts_phase := Combat,
     ts_window := Some (window_after_play player)\<rparr>"

definition cast_turn :: "game_state \<Rightarrow> player_id \<Rightarrow> turn_state" where
  "cast_turn s player = (gs_turn s)\<lparr>ts_window := Some (window_after_play player),
     ts_spell_played_this_turn := pp_set (ts_spell_played_this_turn (gs_turn s)) player True\<rparr>"

lemma declare_attack_iff:
  "declare_attack s player target hint = Inr out \<longleftrightarrow>
    (\<exists>main_summon entity attack payment.
       gs_pending s = None \<and> \<not> ts_normal_attack_used (gs_turn s)
       \<and> ts_phase (gs_turn s) = phase.Main \<and> ts_window (gs_turn s) = None \<and> target = position.Main
       \<and> ps_main (player_of s player) = Some main_summon
       \<and> top_entity (gs_cards s) main_summon = Some entity
       \<and> entity_get attack_field entity = Some attack
       \<and> deduct (ps_mana (player_of s player)) (printed_cost attack) hint = Inr payment
       \<and> out = \<lparr>ao_state = (set_player s player ((player_of s player)\<lparr>ps_mana := pm_bank payment\<rparr>))
                  \<lparr>gs_turn := attack_turn s player,
                   gs_stack := gs_stack s @ [stack_item.Attack player position.Main]\<rparr>,
                ao_events = deduction_events player payment @ [AttackDeclared player position.Main]\<rparr>)"
  by (auto simp: declare_attack_def and_then_Inr ok_or_Inr pay_Inr Let_def update_player_def
      set_player_def attack_turn_def)

lemma declare_attack_cases:
  assumes "declare_attack s player target hint = Inr out"
  obtains main_summon entity attack payment where
    "gs_pending s = None" and "ts_phase (gs_turn s) = phase.Main" and "ts_window (gs_turn s) = None"
    and "ps_main (player_of s player) = Some main_summon"
    and "top_entity (gs_cards s) main_summon = Some entity"
    and "entity_get attack_field entity = Some attack"
    and "deduct (ps_mana (player_of s player)) (printed_cost attack) hint = Inr payment"
    and "ao_state out = (set_player s player ((player_of s player)\<lparr>ps_mana := pm_bank payment\<rparr>))
      \<lparr>gs_turn := attack_turn s player, gs_stack := gs_stack s @ [stack_item.Attack player position.Main]\<rparr>"
  using assms unfolding declare_attack_iff by force

lemma cast_spell_cases:
  assumes "cast_spell s player i targets hint = Inr out"
  obtains n cref entity timing cost payment where "gs_pending s = None"
    and "in_hand (player_of s player) i = Inr (n, cref)"
    and "card_set_get (gs_cards s) (cr_def cref) = Some entity"
    and "casting entity = Some (timing, cost)" and "legal_timing s player timing"
    and "timing = spell_timing.Attack \<Longrightarrow> \<not> attack_responses_blocked s"
    and "deduct (ps_mana (player_of s player)) cost hint = Inr payment"
    and "ao_state out = (set_player s player ((player_of s player)\<lparr>ps_mana := pm_bank payment,
        ps_hand := remove_nth n (ps_hand (player_of s player))\<rparr>))
      \<lparr>gs_turn := cast_turn s player, gs_stack := gs_stack s @ [stack_item.Spell player cref targets]\<rparr>"
proof -
  let ?ps = "player_of s player"
  from assms obtain n entity timing cost payment where none: "gs_pending s = None"
    and index: "position_of (\<lambda>c. cr_instance c = i) (ps_hand ?ps) = Some n"
    and entity: "card_set_get (gs_cards s) (cr_def (ps_hand ?ps ! n)) = Some entity"
    and casting: "casting entity = Some (timing, cost)" and legal: "legal_timing s player timing"
    and free: "\<not> (timing = spell_timing.Attack \<and> holds_priority s player \<and> attack_responses_blocked s)"
    and paid: "deduct (ps_mana ?ps) cost hint = Inr payment"
    and out: "ao_state out = update_player
      (s\<lparr>gs_turn := cast_turn s player,
         gs_stack := gs_stack s @ [stack_item.Spell player (ps_hand ?ps ! n) targets]\<rparr>)
      player (\<lambda>ps. ps\<lparr>ps_mana := pm_bank payment, ps_hand := remove_nth n (ps_hand ps)\<rparr>)"
    unfolding cast_spell_def Let_def cast_turn_def
    by (simp add: and_then_Inr ok_or_Inr pay_Inr split_def split: if_splits) fastforce
  have "in_hand ?ps i = Inr (n, ps_hand ?ps ! n)" by (simp add: in_hand_def index)
  moreover have "timing = spell_timing.Attack \<Longrightarrow> \<not> attack_responses_blocked s"
    using free legal by (auto simp: legal_timing_def)
  moreover have "ao_state out = (set_player s player (?ps\<lparr>ps_mana := pm_bank payment,
        ps_hand := remove_nth n (ps_hand ?ps)\<rparr>))
      \<lparr>gs_turn := cast_turn s player,
       gs_stack := gs_stack s @ [stack_item.Spell player (ps_hand ?ps ! n) targets]\<rparr>"
    unfolding out by (rule game_state.equality) (simp_all add: update_player_def set_player_def)
  ultimately show thesis using that none entity casting legal paid by blast
qed

text \<open>C31: \<open>DeclareAttack\<close> is accepted exactly for the attack the rules allow: nothing pending, not
  yet attacked this turn, a resting Main Phase, the Main target, a Main Summon whose known card
  prints an Attack, and a payable cost; it then begins Combat, pays, puts the attack on top of
  the Stack and gives the defender Priority.\<close>

theorem declare_attack_spec:
  "declare_attack s player target hint = Inr out \<longleftrightarrow>
    (\<exists>main_summon entity attack payment.
       gs_pending s = None \<and> \<not> ts_normal_attack_used (gs_turn s)
       \<and> ts_phase (gs_turn s) = phase.Main \<and> ts_window (gs_turn s) = None \<and> target = position.Main
       \<and> ps_main (player_of s player) = Some main_summon
       \<and> top_entity (gs_cards s) main_summon = Some entity
       \<and> entity_get attack_field entity = Some attack
       \<and> deduct (ps_mana (player_of s player)) (printed_cost attack) hint = Inr payment
       \<and> out = \<lparr>ao_state = (set_player s player ((player_of s player)\<lparr>ps_mana := pm_bank payment\<rparr>))
                  \<lparr>gs_turn := (gs_turn s)\<lparr>ts_normal_attack_used := True, ts_phase := Combat,
                      ts_window := Some \<lparr>sw_holder = opponent player, sw_prior_pass = False\<rparr>\<rparr>,
                    gs_stack := gs_stack s @ [stack_item.Attack player position.Main]\<rparr>,
                ao_events = deduction_events player payment @ [AttackDeclared player position.Main]\<rparr>)"
  unfolding declare_attack_iff attack_turn_def window_after_play_def ..

text \<open>Passing is a two-step protocol. The first pass hands Priority over and remembers it; a
  second one in a row closes the window, and only with an empty Stack does it end the turn; any
  play in between forgets the first pass.\<close>

lemma pass_protocol:
  assumes "gs_pending s = None" and "ts_window (gs_turn s) = Some \<lparr>sw_holder = p, sw_prior_pass = False\<rparr>"
  shows "\<exists>s1 s2. pass s p = Inr \<lparr>ao_state = s1, ao_events = [PriorityPassed p]\<rparr>
    \<and> pass s1 p = Inl NotYourDecision
    \<and> pass s1 (opponent p) = Inr s2
    \<and> (gs_stack s \<noteq> [] \<longrightarrow> ao_state s2 = s\<lparr>gs_turn := (gs_turn s)\<lparr>ts_window := None\<rparr>\<rparr>
         \<and> ao_events s2 = [PriorityPassed (opponent p)])
    \<and> (gs_stack s = [] \<longrightarrow> ts_active_player (gs_turn (ao_state s2)) = opponent (ts_active_player (gs_turn s))
         \<and> ts_phase (gs_turn (ao_state s2)) = Upkeep
         \<and> ao_events s2 = [PriorityPassed (opponent p), TurnBegan (opponent (ts_active_player (gs_turn s)))])"
  using assms
  by (simp add: pass_def Let_def frame_simps fresh_turn_def) (simp add: handover_def Let_def)

end
