(* ===== verification/Board.thy ===== *)
theory Board
  imports Stack
begin

text \<open>
  \<open>engine/board/mod.rs\<close>: playing, upgrading and retreating a Summon.
\<close>

definition produced_by :: "entity \<Rightarrow> mana_type list" where
  "produced_by entity =
     (case entity_get mana_types_field entity of Some types \<Rightarrow> types | None \<Rightarrow> [])"

definition current_form :: "entity \<Rightarrow> form option" where
  "current_form entity = entity_get form_field entity"

definition retreat_cost :: "entity \<Rightarrow> u32 option" where
  "retreat_cost entity = entity_get retreat_cost_field entity"

definition board_positions :: "position list" where
  "board_positions = [position.Main, position.Bench bench_slot.First,
     position.Bench bench_slot.Second, position.Bench bench_slot.Third]"

definition opposing_delta_of :: "entity \<Rightarrow> i32 option" where
  "opposing_delta_of entity =
     (case entity_get modifier_field entity of
        Some (OpposingRetreatCostDelta delta) \<Rightarrow> Some delta | _ \<Rightarrow> None)"

definition opposing_retreat_cost_delta :: "game_state \<Rightarrow> player_id \<Rightarrow> i32" where
  "opposing_retreat_cost_delta s player =
     (let opponent_state = player_of s (opponent player)
      in sum_list (filter_map opposing_delta_of
           (filter_map (top_entity (gs_cards s))
             (filter_map (summon_at opponent_state) board_positions))))"

definition require_free_main_phase :: "game_state \<Rightarrow> action_error + unit" where
  "require_free_main_phase s =
     (if gs_pending s \<noteq> None then Inl PendingInputMismatch
      else if ts_phase (gs_turn s) \<noteq> phase.Main \<or> ts_window (gs_turn s) \<noteq> None then Inl WrongPhase
      else Inr ())"

section \<open>Handlers\<close>

definition played_summon :: "player_id \<Rightarrow> card_ref \<Rightarrow> summon_instance" where
  "played_summon player cref =
     \<lparr>si_chain = chain_new cref [], si_damage = 0, si_readiness = Exhausted, si_owner = player,
      si_controller = player, si_duration_markers = [],
      si_turn = \<lparr>tr_upgrade = upgrade_activity.PlayedThisTurn, tr_main_entry = None\<rparr>\<rparr>"

definition play_summon ::
  "game_state \<Rightarrow> player_id \<Rightarrow> card_instance_id \<Rightarrow> bench_slot \<Rightarrow> action_error + action_outcome" where
  "play_summon s player instance_id slot =
     and_then (require_free_main_phase s) (\<lambda>_.
     let ps = player_of s player in
     if ps_bench ps slot \<noteq> None then Inl InvalidTarget
     else
       and_then (in_hand ps instance_id) (\<lambda>(hand_index, cref).
       and_then (ok_or UnknownCard (card_set_get (gs_cards s) (cr_def cref))) (\<lambda>entity.
       if family entity \<noteq> card_kind.Summon \<or> current_form entity \<noteq> Some Base then Inl UnknownCard
       else Inr \<lparr>ao_state = set_player s player
                   (set_summon_at (ps\<lparr>ps_hand := remove_nth hand_index (ps_hand ps)\<rparr>)
                     (position.Bench slot) (Some (played_summon player cref))),
                 ao_events = [SummonPlayed player instance_id slot]\<rparr>)))"

definition check_upgrade_activity :: "summon_instance \<Rightarrow> action_error + unit" where
  "check_upgrade_activity summon =
     (case tr_upgrade (si_turn summon) of
        upgrade_activity.Available \<Rightarrow> Inr ()
      | upgrade_activity.PlayedThisTurn \<Rightarrow> Inl action_error.PlayedThisTurn
      | upgrade_activity.UpgradedThisTurn \<Rightarrow> Inl AlreadyUpgradedThisTurn)"

definition upgraded_summon :: "card_ref \<Rightarrow> summon_instance \<Rightarrow> summon_instance" where
  "upgraded_summon cref summon =
     (let new_layers = drop 1 (chain_layers (si_chain summon)) @ [cref]
      in summon\<lparr>si_chain := chain_new (uc_base (si_chain summon)) new_layers,
                si_readiness := Exhausted,
                si_turn := (si_turn summon)\<lparr>tr_upgrade := upgrade_activity.UpgradedThisTurn\<rparr>\<rparr>)"

definition upgrade_summon ::
  "game_state \<Rightarrow> player_id \<Rightarrow> card_instance_id \<Rightarrow> position \<Rightarrow> action_error + action_outcome" where
  "upgrade_summon s player instance_id pos =
     and_then (require_free_main_phase s) (\<lambda>_.
     let ps = player_of s player in
     and_then (ok_or EmptyPosition (summon_at ps pos)) (\<lambda>summon.
     and_then (check_upgrade_activity summon) (\<lambda>_.
     and_then (in_hand ps instance_id) (\<lambda>(hand_index, cref).
     and_then (ok_or UnknownCard (card_set_get (gs_cards s) (cr_def cref))) (\<lambda>entity.
     if family entity \<noteq> card_kind.Summon then Inl UnknownCard
     else
       and_then (ok_or UnknownCard (current_form entity)) (\<lambda>new_form.
       and_then (ok_or UnknownCard (top_entity (gs_cards s) summon)) (\<lambda>top_card.
       and_then (ok_or UnknownCard (current_form top_card)) (\<lambda>top_form.
       let new_types = produced_by entity; top_types = produced_by top_card;
           types_carry_forward = (\<forall>t \<in> set top_types. t \<in> set new_types) in
       if new_form \<le> top_form \<or> \<not> types_carry_forward then Inl IllegalUpgradeTarget
       else Inr \<lparr>ao_state = set_player s player
                   (set_summon_at (ps\<lparr>ps_hand := remove_nth hand_index (ps_hand ps)\<rparr>)
                     pos (Some (upgraded_summon cref summon))),
                 ao_events = [SummonUpgraded player instance_id pos]\<rparr>))))))))"

definition retreat ::
  "game_state \<Rightarrow> player_id \<Rightarrow> bench_slot \<Rightarrow> mana_type option \<Rightarrow> action_error + action_outcome" where
  "retreat s player slot hint =
     and_then (require_free_main_phase s) (\<lambda>_.
     if ts_normal_retreat_used (gs_turn s) then Inl NormalRetreatAlreadyUsed
     else
       let ps = player_of s player in
       and_then (ok_or EmptyPosition (ps_main ps)) (\<lambda>vacating_main.
       and_then (ok_or EmptyPosition (ps_bench ps slot)) (\<lambda>incoming_main.
       and_then (ok_or UnknownCard (top_entity (gs_cards s) vacating_main)) (\<lambda>entity.
       and_then (ok_or UnknownCard (retreat_cost entity)) (\<lambda>printed.
       let delta = opposing_retreat_cost_delta s player;
           adjusted_cost = saturating_add_signed printed delta;
           cost = \<lparr>cost_matter = 0, cost_mind = 0, cost_spirit = 0, cost_generic = adjusted_cost\<rparr>
       in and_then (pay (ps_mana ps) cost hint) (\<lambda>payment.
          let next = s\<lparr>gs_turn := (gs_turn s)\<lparr>ts_normal_retreat_used := True\<rparr>\<rparr>;
              next = set_player next player
                (exchange slot incoming_main vacating_main (ps\<lparr>ps_mana := pm_bank payment\<rparr>));
              next = fold push_back (exchange_work player slot) next
          in Inr \<lparr>ao_state = next,
                  ao_events = deduction_events player payment @ [SummonsSwapped player slot]\<rparr>))))))"

section \<open>Lemmas\<close>

lemma require_free_main_phase_Inr:
  "require_free_main_phase s = Inr u \<longleftrightarrow>
     gs_pending s = None \<and> ts_phase (gs_turn s) = phase.Main \<and> ts_window (gs_turn s) = None"
  by (simp add: require_free_main_phase_def)

text \<open>What an accepted play, upgrade or retreat changes, one elimination for each.\<close>

lemma play_summon_cases:
  assumes "play_summon s player i slot = Inr out"
  obtains n cref entity where "require_free_main_phase s = Inr ()"
    and "ps_bench (player_of s player) slot = None"
    and "in_hand (player_of s player) i = Inr (n, cref)"
    and "card_set_get (gs_cards s) (cr_def cref) = Some entity"
    and "family entity = card_kind.Summon" and "current_form entity = Some Base"
    and "out = \<lparr>ao_state = set_player s player (set_summon_at
        ((player_of s player)\<lparr>ps_hand := remove_nth n (ps_hand (player_of s player))\<rparr>)
        (position.Bench slot) (Some (played_summon player cref))),
      ao_events = [SummonPlayed player i slot]\<rparr>"
  using assms by (auto simp: play_summon_def and_then_Inr ok_or_Inr Let_def split: if_splits)

lemma upgrade_summon_cases:
  assumes "upgrade_summon s player i pos = Inr out"
  obtains summon n cref entity new_form top_card top_form where
    "require_free_main_phase s = Inr ()" and "summon_at (player_of s player) pos = Some summon"
    and "tr_upgrade (si_turn summon) = upgrade_activity.Available"
    and "in_hand (player_of s player) i = Inr (n, cref)"
    and "card_set_get (gs_cards s) (cr_def cref) = Some entity"
    and "family entity = card_kind.Summon" and "current_form entity = Some new_form"
    and "top_entity (gs_cards s) summon = Some top_card" and "current_form top_card = Some top_form"
    and "top_form < new_form" and "set (produced_by top_card) \<subseteq> set (produced_by entity)"
    and "out = \<lparr>ao_state = set_player s player (set_summon_at
        ((player_of s player)\<lparr>ps_hand := remove_nth n (ps_hand (player_of s player))\<rparr>)
        pos (Some (upgraded_summon cref summon))),
      ao_events = [SummonUpgraded player i pos]\<rparr>"
  using assms
  by (auto simp: upgrade_summon_def and_then_Inr ok_or_Inr Let_def check_upgrade_activity_def
      not_le subset_iff split: if_splits upgrade_activity.splits)

lemma retreat_cases:
  assumes "retreat s player slot hint = Inr out"
  obtains vacating incoming entity printed payment where
    "require_free_main_phase s = Inr ()" and "\<not> ts_normal_retreat_used (gs_turn s)"
    and "ps_main (player_of s player) = Some vacating"
    and "ps_bench (player_of s player) slot = Some incoming"
    and "top_entity (gs_cards s) vacating = Some entity" and "retreat_cost entity = Some printed"
    and "deduct (ps_mana (player_of s player)) \<lparr>cost_matter = 0, cost_mind = 0, cost_spirit = 0,
        cost_generic = saturating_add_signed printed (opposing_retreat_cost_delta s player)\<rparr> hint
      = Inr payment"
    and "out = \<lparr>ao_state = fold push_back (exchange_work player slot)
        (set_player (s\<lparr>gs_turn := (gs_turn s)\<lparr>ts_normal_retreat_used := True\<rparr>\<rparr>) player
          (exchange slot incoming vacating ((player_of s player)\<lparr>ps_mana := pm_bank payment\<rparr>))),
      ao_events = deduction_events player payment @ [SummonsSwapped player slot]\<rparr>"
  using assms
  by (auto simp: retreat_def and_then_Inr ok_or_Inr pay_Inr Let_def split: if_splits)

end
