(* ===== verification/Skills.thy ===== *)
theory Skills
  imports Board
begin

text \<open>
  \<open>engine/skills/mod.rs\<close>: activating a Skill. \<open>validate_targets\<close> walks the Skill's leaves and
  stops at the first illegal one, through the question mark operator. The module's own
  \<open>require_free_main_phase\<close> is textually the one of \<open>engine/board/mod.rs\<close>.
\<close>

definition validate_move_summon :: "player_state \<Rightarrow> position list \<Rightarrow> action_error + unit" where
  "validate_move_summon ps targets =
     (case targets of
        position.Bench from_slot # position.Bench to_slot # _ \<Rightarrow>
          if ps_bench ps from_slot = None then Inl InvalidTarget
          else if ps_bench ps to_slot \<noteq> None then Inl InvalidTarget
          else Inr ()
      | _ \<Rightarrow> Inl InvalidTarget)"

definition validate_swap_positions :: "player_state \<Rightarrow> position list \<Rightarrow> action_error + unit" where
  "validate_swap_positions ps targets =
     (case first_of targets of
        Some (position.Bench slot) \<Rightarrow>
          if ps_bench ps slot = None then Inl InvalidTarget
          else if ps_main ps = None then Inl InvalidTarget
          else Inr ()
      | _ \<Rightarrow> Inl InvalidTarget)"

definition validate_swap_opposing_positions ::
  "player_state \<Rightarrow> position list \<Rightarrow> action_error + unit" where
  "validate_swap_opposing_positions ps targets =
     (case first_of targets of
        Some (position.Bench slot) \<Rightarrow>
          if ps_bench ps slot = None then Inl InvalidTarget
          else
            (case ps_main ps of
               None \<Rightarrow> Inl InvalidTarget
             | Some main_summon \<Rightarrow>
                 if duration_marker.CannotBeMovedByOpponent \<in> set (si_duration_markers main_summon)
                 then Inl InvalidTarget else Inr ())
      | _ \<Rightarrow> Inl InvalidTarget)"

definition validate_leaf ::
  "game_state \<Rightarrow> player_id \<Rightarrow> position list \<Rightarrow> effect_leaf \<Rightarrow> action_error + unit" where
  "validate_leaf s controller targets leaf =
     (case leaf of
        MoveSummon \<Rightarrow> validate_move_summon (player_of s controller) targets
      | SwapPositions \<Rightarrow> validate_swap_positions (player_of s controller) targets
      | SwapOpposingPositions \<Rightarrow>
          validate_swap_opposing_positions (player_of s (opponent controller)) targets
      | _ \<Rightarrow> Inr ())"

fun validate_targets ::
  "game_state \<Rightarrow> player_id \<Rightarrow> effect_leaf list \<Rightarrow> position list \<Rightarrow> action_error + unit" where
  "validate_targets s controller [] targets = Inr ()"
| "validate_targets s controller (leaf # leaves) targets =
     and_then (validate_leaf s controller targets leaf)
       (\<lambda>_. validate_targets s controller leaves targets)"

definition activate_skill ::
  "game_state \<Rightarrow> player_id \<Rightarrow> position \<Rightarrow> entity_id \<Rightarrow> position list \<Rightarrow> mana_type option
    \<Rightarrow> action_error + action_outcome" where
  "activate_skill s player pos ability targets hint =
     and_then (require_free_main_phase s) (\<lambda>_.
     let ps = player_of s player in
     and_then (ok_or EmptyPosition (summon_at ps pos)) (\<lambda>summon.
     if si_readiness summon = Exhausted then Inl SummonExhausted
     else
       and_then (ok_or UnknownCard (top_entity (gs_cards s) summon)) (\<lambda>top_card.
       and_then (ok_or InvalidTarget
           (find (\<lambda>e. entity_id e = ability) (entity_all skill_field top_card))) (\<lambda>skill.
       let effects = entity_all effect_field skill in
       and_then (validate_targets s player effects targets) (\<lambda>_.
       and_then (pay (ps_mana ps) (printed_cost skill) hint) (\<lambda>payment.
       let next = set_player s player
             (set_summon_at (ps\<lparr>ps_mana := pm_bank payment\<rparr>) pos
               (Some (summon\<lparr>si_readiness := Exhausted\<rparr>)));
           (next, leaf_events) =
             apply_leaves next (effect_source.Skill player pos ability) targets effects
       in Inr \<lparr>ao_state = next,
               ao_events = deduction_events player payment
                 @ SkillActivated player pos ability # leaf_events\<rparr>))))))"

section \<open>Lemmas\<close>

lemma validate_targets_Inr:
  "validate_targets s p leaves targets = Inr u \<longleftrightarrow>
     (\<forall>leaf \<in> set leaves. validate_leaf s p targets leaf = Inr ())"
  by (induction leaves) (auto simp: and_then_Inr)

lemma activate_skill_cases:
  assumes "activate_skill s player pos ability targets hint = Inr out"
  obtains summon top_card skill payment where
    "require_free_main_phase s = Inr ()" and "summon_at (player_of s player) pos = Some summon"
    and "si_readiness summon = Ready" and "top_entity (gs_cards s) summon = Some top_card"
    and "find (\<lambda>e. entity_id e = ability) (entity_all skill_field top_card) = Some skill"
    and "\<forall>leaf \<in> set (entity_all effect_field skill). validate_leaf s player targets leaf = Inr ()"
    and "deduct (ps_mana (player_of s player)) (printed_cost skill) hint = Inr payment"
    and "ao_state out = fst (apply_leaves (set_player s player
        (set_summon_at ((player_of s player)\<lparr>ps_mana := pm_bank payment\<rparr>) pos
          (Some (summon\<lparr>si_readiness := Exhausted\<rparr>))))
        (effect_source.Skill player pos ability) targets (entity_all effect_field skill))"
proof -
  have ready: "r \<noteq> Exhausted \<longleftrightarrow> r = Ready" for r by (cases r) simp_all
  show thesis
    using assms that
    by (auto simp: activate_skill_def and_then_Inr ok_or_Inr pay_Inr Let_def validate_targets_Inr
        ready split_def split: if_splits)
qed

text \<open>What makes the targets of each kind of movement legal, on the board as it stands.\<close>

lemma validate_move_summon_Inr:
  "validate_move_summon ps targets = Inr u \<longleftrightarrow>
    (\<exists>from_slot to_slot rest. targets = position.Bench from_slot # position.Bench to_slot # rest
      \<and> ps_bench ps from_slot \<noteq> None \<and> ps_bench ps to_slot = None)"
  by (auto simp: validate_move_summon_def split: list.splits position.splits if_splits)

lemma validate_swap_positions_Inr:
  "validate_swap_positions ps targets = Inr u \<longleftrightarrow>
    (\<exists>slot rest. targets = position.Bench slot # rest \<and> ps_bench ps slot \<noteq> None \<and> ps_main ps \<noteq> None)"
  by (cases targets) (auto simp: validate_swap_positions_def split: position.splits if_splits)

lemma validate_swap_opposing_positions_Inr:
  "validate_swap_opposing_positions ps targets = Inr u \<longleftrightarrow>
    (\<exists>slot rest main_summon. targets = position.Bench slot # rest \<and> ps_bench ps slot \<noteq> None
      \<and> ps_main ps = Some main_summon
      \<and> duration_marker.CannotBeMovedByOpponent \<notin> set (si_duration_markers main_summon))"
  by (cases targets)
    (auto simp: validate_swap_opposing_positions_def split: position.splits option.splits if_splits)

lemma validate_leaves_Inr:
  "(\<forall>leaf \<in> set leaves. validate_leaf s p targets leaf = Inr ()) \<longleftrightarrow>
    (MoveSummon \<in> set leaves \<longrightarrow> validate_move_summon (player_of s p) targets = Inr ())
    \<and> (SwapPositions \<in> set leaves \<longrightarrow> validate_swap_positions (player_of s p) targets = Inr ())
    \<and> (SwapOpposingPositions \<in> set leaves \<longrightarrow>
         validate_swap_opposing_positions (player_of s (opponent p)) targets = Inr ())"
  (is "?all \<longleftrightarrow> ?each")
proof
  show ?all if ?each
  proof
    fix leaf
    assume "leaf \<in> set leaves"
    with that show "validate_leaf s p targets leaf = Inr ()" by (cases leaf) (simp_all add: validate_leaf_def)
  qed
next
  assume all: ?all
  show ?each
    using bspec [OF all, of MoveSummon] bspec [OF all, of SwapPositions] bspec [OF all, of SwapOpposingPositions]
    by (simp add: validate_leaf_def)
qed

text \<open>C35: activating a Skill is accepted exactly in a free Main phase, for a Ready Summon whose topmost
  card prints the named Skill, with targets legal for every movement the Skill prints (a Bench
  Summon and a free slot to move it to; a Bench Summon and a Main Summon to exchange with; for the
  opponent's exchange the same on the opponent's board, and a Main Summon that may be moved), all
  on the board before anything is paid, and with a cost the bank pays. The cost is then taken and
  the Summon Exhausted before the first effect runs, on the targets named.\<close>

theorem activate_skill_accepts:
  "activate_skill s player pos ability targets hint = Inr out \<longleftrightarrow>
    gs_pending s = None \<and> ts_phase (gs_turn s) = phase.Main \<and> ts_window (gs_turn s) = None
    \<and> (\<exists>summon top_card skill payment leaf_events.
        summon_at (player_of s player) pos = Some summon \<and> si_readiness summon = Ready
        \<and> top_entity (gs_cards s) summon = Some top_card
        \<and> find (\<lambda>e. entity_id e = ability) (entity_all skill_field top_card) = Some skill
        \<and> (MoveSummon \<in> set (entity_all effect_field skill) \<longrightarrow>
             (\<exists>from_slot to_slot rest. targets = position.Bench from_slot # position.Bench to_slot # rest
                \<and> ps_bench (player_of s player) from_slot \<noteq> None
                \<and> ps_bench (player_of s player) to_slot = None))
        \<and> (SwapPositions \<in> set (entity_all effect_field skill) \<longrightarrow>
             (\<exists>slot rest. targets = position.Bench slot # rest
                \<and> ps_bench (player_of s player) slot \<noteq> None \<and> ps_main (player_of s player) \<noteq> None))
        \<and> (SwapOpposingPositions \<in> set (entity_all effect_field skill) \<longrightarrow>
             (\<exists>slot rest main_summon. targets = position.Bench slot # rest
                \<and> ps_bench (player_of s (opponent player)) slot \<noteq> None
                \<and> ps_main (player_of s (opponent player)) = Some main_summon
                \<and> duration_marker.CannotBeMovedByOpponent \<notin> set (si_duration_markers main_summon)))
        \<and> deduct (ps_mana (player_of s player)) (printed_cost skill) hint = Inr payment
        \<and> apply_leaves
            (set_player s player (set_summon_at ((player_of s player)\<lparr>ps_mana := pm_bank payment\<rparr>) pos
              (Some (summon\<lparr>si_readiness := Exhausted\<rparr>))))
            (effect_source.Skill player pos ability) targets (entity_all effect_field skill)
          = (ao_state out, leaf_events)
        \<and> ao_events out = deduction_events player payment @ SkillActivated player pos ability # leaf_events)"
proof -
  have ready: "r \<noteq> Exhausted \<longleftrightarrow> r = Ready" for r by (cases r) simp_all
  have out: "Inr \<lparr>ao_state = a, ao_events = b\<rparr> = (Inr out :: action_error + action_outcome)
    \<longleftrightarrow> a = ao_state out \<and> b = ao_events out" for a b
    by (cases out) auto
  have free: "require_free_main_phase s = Inr u \<longleftrightarrow> gs_pending s = None
    \<and> ts_phase (gs_turn s) = phase.Main \<and> ts_window (gs_turn s) = None" for u
    by (simp add: require_free_main_phase_def)
  show ?thesis
    unfolding validate_move_summon_Inr [of _ _ "()", symmetric] validate_swap_positions_Inr [of _ _ "()", symmetric]
      validate_swap_opposing_positions_Inr [of _ _ "()", symmetric]
    by (auto simp: activate_skill_def and_then_Inr ok_or_Inr pay_Inr Let_def validate_targets_Inr validate_leaves_Inr
        ready free out split_def prod_eq_iff split: if_splits)
qed

end
