(* ===== verification/Apply.thy ===== *)
theory Apply
  imports Skills
begin

text \<open>
  \<open>engine/apply/mod.rs\<close>: the public transition \<open>apply\<close>, its actor gate and its dispatch. Because
  the resolution loop has no bound, the model's \<open>apply_action\<close> answers \<open>None\<close> when the loop does
  not return, and otherwise the source's \<open>Result\<close>.
\<close>

definition resign :: "game_state \<Rightarrow> player_id \<Rightarrow> action_outcome" where
  "resign s player =
     (let outcome = \<lparr>go_winner = opponent player, go_reason = Resignation\<rparr>
      in \<lparr>ao_state = s\<lparr>gs_status := game_status.Ended outcome\<rparr>,
          ao_events = [GameEnded (go_winner outcome) (go_reason outcome)]\<rparr>)"

fun pending_actor :: "pending_input \<Rightarrow> player_id" where
  "pending_actor (ManaProduction player _) = player"
| "pending_actor (Promotion player) = player"
| "pending_actor (PrizePick chooser) = chooser"

definition required_actor :: "game_state \<Rightarrow> player_id" where
  "required_actor s =
     (case gs_pending s of
        Some pending \<Rightarrow> pending_actor pending
      | None \<Rightarrow>
          (case ts_window (gs_turn s) of
             Some window \<Rightarrow> sw_holder window
           | None \<Rightarrow> ts_active_player (gs_turn s)))"

definition check_actor :: "game_state \<Rightarrow> player_id \<Rightarrow> action_error + unit" where
  "check_actor s player = (if player = required_actor s then Inr () else Inl NotYourDecision)"

fun dispatch :: "game_state \<Rightarrow> game_action \<Rightarrow> action_error + action_outcome" where
  "dispatch s (PlaySummon player cref slot) = play_summon s player cref slot"
| "dispatch s (UpgradeSummon player cref pos) = upgrade_summon s player cref pos"
| "dispatch s (CastSpell player cref targets hint) = cast_spell s player cref targets hint"
| "dispatch s (ActivateSkill player pos ability targets hint) =
     activate_skill s player pos ability targets hint"
| "dispatch s (Retreat player slot hint) = retreat s player slot hint"
| "dispatch s (DeclareAttack player target hint) = declare_attack s player target hint"
| "dispatch s (EndTurn player) = end_turn s player"
| "dispatch s (PassPriority player) = pass s player"
| "dispatch s (ConvertCoin player t) = convert_coin s player t"
| "dispatch s (ChooseManaType player t) = choose_mana_type s player t"
| "dispatch s (ChoosePromotion player slot) = answer_promotion s player slot"
| "dispatch s (ChoosePrize player prize_index) = answer_prize s player prize_index"
| "dispatch s (Resign player) = Inr (resign s player)"

definition apply_action :: "game_state \<Rightarrow> game_action \<Rightarrow> (action_error + action_outcome) option" where
  "apply_action s action =
     (case gs_status s of
        game_status.Ended _ \<Rightarrow> Some (Inl GameAlreadyOver)
      | game_status.Broken _ \<Rightarrow> Some (Inl GameBroken)
      | game_status.Playing \<Rightarrow>
          (case action of
             Resign player \<Rightarrow> Some (Inr (resign s player))
           | _ \<Rightarrow>
               (case check_actor s (actor action) of
                  Inl e \<Rightarrow> Some (Inl e)
                | Inr _ \<Rightarrow>
                    (case dispatch s action of
                       Inl e \<Rightarrow> Some (Inl e)
                     | Inr outcome \<Rightarrow>
                         (case drain (ao_state outcome) of
                            None \<Rightarrow> None
                          | Some (s', drained) \<Rightarrow>
                              Some (Inr \<lparr>ao_state = s', ao_events = ao_events outcome @ drained\<rparr>))))))"

section \<open>Lemmas\<close>

definition is_resign :: "game_action \<Rightarrow> bool" where
  "is_resign action = (case action of Resign _ \<Rightarrow> True | _ \<Rightarrow> False)"

lemma apply_action_playing:
  assumes "gs_status s = game_status.Playing" and "\<not> is_resign action"
  shows "apply_action s action =
    (case check_actor s (actor action) of
       Inl e \<Rightarrow> Some (Inl e)
     | Inr _ \<Rightarrow>
         (case dispatch s action of
            Inl e \<Rightarrow> Some (Inl e)
          | Inr outcome \<Rightarrow>
              map_option (\<lambda>(s', drained). Inr \<lparr>ao_state = s', ao_events = ao_events outcome @ drained\<rparr>)
                (drain (ao_state outcome))))"
  using assms
  by (cases action; simp add: apply_action_def is_resign_def)
    (auto split: option.splits sum.splits)

lemma apply_action_resign:
  "gs_status s = game_status.Playing \<Longrightarrow> apply_action s (Resign p) = Some (Inr (resign s p))"
  by (simp add: apply_action_def)

lemma apply_action_accepted:
  assumes "apply_action s action = Some (Inr out)"
  obtains (resigned) p where "gs_status s = game_status.Playing" and "action = Resign p"
      and "out = resign s p"
  | (drained) mid drained where "gs_status s = game_status.Playing" and "\<not> is_resign action"
      and "actor action = required_actor s" and "dispatch s action = Inr mid"
      and "drain (ao_state mid) = Some (ao_state out, drained)"
      and "ao_events out = ao_events mid @ drained"
proof (cases "gs_status s")
  case Playing
  show thesis
  proof (cases "is_resign action")
    case True
    then obtain p where "action = Resign p" by (auto simp: is_resign_def split: game_action.splits)
    with Playing assms resigned show thesis by (simp add: apply_action_resign)
  next
    case False
    with Playing assms drained show thesis
      by (auto simp: apply_action_playing check_actor_def split: sum.splits if_splits)
  qed
qed (use assms in \<open>simp_all add: apply_action_def\<close>)

text \<open>C36: who may act. A finished or broken game accepts no action at all. While the game is
  playing, either player may resign, which ends it at once for the opponent. Every other action
  is refused as somebody else's decision unless it comes from the one player the game waits
  for: the player a pending decision names, or else the holder of the open response window, or
  else the active player.\<close>

theorem apply_action_gate:
  "(gs_status s \<noteq> game_status.Playing \<longrightarrow>
      apply_action s action = Some (Inl (case gs_status s of
        game_status.Broken _ \<Rightarrow> GameBroken | _ \<Rightarrow> GameAlreadyOver)))
    \<and> (gs_status s = game_status.Playing \<longrightarrow>
        apply_action s (Resign p) = Some (Inr
          \<lparr>ao_state = s\<lparr>gs_status := game_status.Ended \<lparr>go_winner = opponent p, go_reason = Resignation\<rparr>\<rparr>,
           ao_events = [GameEnded (opponent p) Resignation]\<rparr>))
    \<and> (gs_status s = game_status.Playing \<and> (\<forall>q. action \<noteq> Resign q)
        \<and> actor action \<noteq>
            (case gs_pending s of
               Some (ManaProduction q source) \<Rightarrow> q
             | Some (Promotion q) \<Rightarrow> q
             | Some (PrizePick chooser) \<Rightarrow> chooser
             | None \<Rightarrow>
                 (case ts_window (gs_turn s) of
                    Some window \<Rightarrow> sw_holder window
                  | None \<Rightarrow> ts_active_player (gs_turn s))) \<longrightarrow>
        apply_action s action = Some (Inl NotYourDecision))"
proof (intro conjI impI)
  show "gs_status s \<noteq> game_status.Playing \<Longrightarrow> apply_action s action = Some (Inl (case gs_status s of
      game_status.Broken _ \<Rightarrow> GameBroken | _ \<Rightarrow> GameAlreadyOver))"
    by (cases "gs_status s") (simp_all add: apply_action_def)
  show "gs_status s = game_status.Playing \<Longrightarrow> apply_action s (Resign p) = Some (Inr
      \<lparr>ao_state = s\<lparr>gs_status := game_status.Ended \<lparr>go_winner = opponent p, go_reason = Resignation\<rparr>\<rparr>,
       ao_events = [GameEnded (opponent p) Resignation]\<rparr>)"
    by (simp add: apply_action_resign resign_def Let_def)
qed (auto simp: apply_action_playing is_resign_def check_actor_def required_actor_def
    split: game_action.splits option.splits pending_input.splits)

end
