(* ===== verification/Scenario.thy ===== *)
theory Scenario
  imports Apply
begin

text \<open>
  \<open>scenario.rs\<close>: the parser from a described match situation to a \<open>game_state\<close>. Each check that
  answers a \<open>Result\<close> is a sum whose left side is an \<open>invalid_scenario\<close>; the array of the Bench is
  a function of the slot, as in the state.
\<close>

section \<open>Descriptions\<close>

record scenario_summon =
  sc_chain :: "card_ref list"
  sc_damage :: u32
  sc_readiness :: readiness

record scenario_player =
  sp_deck :: "card_ref list"
  sp_hand :: "card_ref list"
  sp_prizes :: "card_ref list"
  sp_discard :: "card_ref list"
  sp_mana :: mana_bank
  sp_main_losses :: u8
  sp_main :: "scenario_summon option"
  sp_bench :: "bench_slot \<Rightarrow> scenario_summon option"

record scenario =
  sn_players :: "scenario_player per_player"
  sn_active_player :: player_id
  sn_coin :: "coin option"

section \<open>Checks over the whole board\<close>

definition positioned_summons :: "scenario_player \<Rightarrow> (position \<times> scenario_summon) list" where
  "positioned_summons player =
     (case sp_main player of Some summon \<Rightarrow> [(position.Main, summon)] | None \<Rightarrow> [])
     @ filter_map (\<lambda>slot. map_option (\<lambda>summon. (position.Bench slot, summon)) (sp_bench player slot))
         bench_all"

definition player_card_refs :: "scenario_player \<Rightarrow> card_ref list" where
  "player_card_refs player =
     sp_deck player @ sp_hand player @ sp_prizes player @ sp_discard player
     @ concat (map (\<lambda>(_, summon). sc_chain summon) (positioned_summons player))"

definition all_card_refs :: "scenario \<Rightarrow> card_ref list" where
  "all_card_refs sc = player_card_refs (pp_one (sn_players sc)) @ player_card_refs (pp_two (sn_players sc))"

text \<open>The loop over the cards, with the set \<open>seen\<close>.\<close>

fun find_duplicate :: "card_instance_id set \<Rightarrow> card_ref list \<Rightarrow> card_instance_id option" where
  "find_duplicate seen [] = None"
| "find_duplicate seen (c # cs) =
     (if cr_instance c \<in> seen then Some (cr_instance c)
      else find_duplicate (insert (cr_instance c) seen) cs)"

definition check_no_duplicate_instances :: "scenario \<Rightarrow> invalid_scenario + unit" where
  "check_no_duplicate_instances sc =
     (case find_duplicate {} (all_card_refs sc) of
        Some i \<Rightarrow> Inl (DuplicateCardInstance i) | None \<Rightarrow> Inr ())"

definition check_every_def_known :: "card_set \<Rightarrow> scenario \<Rightarrow> invalid_scenario + unit" where
  "check_every_def_known cards sc =
     (case find (\<lambda>c. card_set_get cards (cr_def c) = None) (all_card_refs sc) of
        Some c \<Rightarrow> Inl (UnknownCardDef (cr_def c)) | None \<Rightarrow> Inr ())"

section \<open>Chains\<close>

definition form_of ::
  "card_set \<Rightarrow> player_id \<Rightarrow> position \<Rightarrow> card_ref \<Rightarrow> invalid_scenario + form" where
  "form_of cards player pos c =
     and_then (ok_or (UnknownCardDef (cr_def c)) (card_set_get cards (cr_def c)))
       (\<lambda>entity. ok_or (IllegalChainOrder player pos) (entity_get form_field entity))"

fun check_climb ::
  "card_set \<Rightarrow> player_id \<Rightarrow> position \<Rightarrow> form \<Rightarrow> card_ref list \<Rightarrow> invalid_scenario + unit" where
  "check_climb cards player pos previous [] = Inr ()"
| "check_climb cards player pos previous (c # cs) =
     and_then (form_of cards player pos c) (\<lambda>form.
       if form \<le> previous then Inl (IllegalChainOrder player pos)
       else check_climb cards player pos form cs)"

definition build_chain ::
  "card_set \<Rightarrow> player_id \<Rightarrow> position \<Rightarrow> card_ref list \<Rightarrow> invalid_scenario + upgrade_chain" where
  "build_chain cards player pos refs =
     (case refs of
        [] \<Rightarrow> Inl (EmptyUpgradeChain player pos)
      | base # rest \<Rightarrow>
          and_then (form_of cards player pos base) (\<lambda>previous.
          and_then (check_climb cards player pos previous rest) (\<lambda>_.
          Inr (chain_new base rest))))"

definition build_summon_instance ::
  "card_set \<Rightarrow> player_id \<Rightarrow> position \<Rightarrow> scenario_summon \<Rightarrow> invalid_scenario + summon_instance" where
  "build_summon_instance cards player pos summon =
     and_then (build_chain cards player pos (sc_chain summon)) (\<lambda>chain.
     Inr \<lparr>si_chain = chain, si_damage = sc_damage summon, si_readiness = sc_readiness summon,
          si_owner = player, si_controller = player, si_duration_markers = [],
          si_turn = turn_record_fresh\<rparr>)"

section \<open>Players\<close>

definition build_at ::
  "card_set \<Rightarrow> player_id \<Rightarrow> position \<Rightarrow> scenario_summon option \<Rightarrow> invalid_scenario + summon_instance option" where
  "build_at cards player pos described =
     (case described of
        None \<Rightarrow> Inr None
      | Some summon \<Rightarrow>
          and_then (build_summon_instance cards player pos summon) (\<lambda>built. Inr (Some built)))"

fun build_bench ::
  "card_set \<Rightarrow> player_id \<Rightarrow> scenario_player \<Rightarrow> bench_slot list
    \<Rightarrow> (bench_slot \<Rightarrow> summon_instance option) \<Rightarrow> invalid_scenario + (bench_slot \<Rightarrow> summon_instance option)" where
  "build_bench cards player described [] bench = Inr bench"
| "build_bench cards player described (slot # slots) bench =
     and_then (build_at cards player (position.Bench slot) (sp_bench described slot)) (\<lambda>built.
     build_bench cards player described slots (bench(slot := built)))"

definition build_player_state ::
  "card_set \<Rightarrow> player_id \<Rightarrow> scenario_player \<Rightarrow> invalid_scenario + player_state" where
  "build_player_state cards player described =
     and_then (build_at cards player position.Main (sp_main described)) (\<lambda>main.
     and_then (build_bench cards player described bench_all (\<lambda>_. None)) (\<lambda>bench.
     if main = None \<and> (\<forall>slot \<in> set bench_all. bench slot = None) then Inl (NoSummonInPlay player)
     else Inr \<lparr>ps_main = main, ps_bench = bench, ps_deck = sp_deck described,
       ps_hand = sp_hand described, ps_prizes = sp_prizes described,
       ps_discard = sp_discard described, ps_mana = sp_mana described,
       ps_main_losses = sp_main_losses described, ps_enchantments = []\<rparr>))"

definition derive_pending :: "player_state per_player \<Rightarrow> pending_input option" where
  "derive_pending players =
     (case find (\<lambda>player. ps_main (pp_get players player) = None) [player_id.One, player_id.Two] of
        Some player \<Rightarrow> Some (Promotion player) | None \<Rightarrow> None)"

definition from_scenario :: "card_set \<Rightarrow> scenario \<Rightarrow> invalid_scenario + game_state" where
  "from_scenario cards sc =
     and_then (check_no_duplicate_instances sc) (\<lambda>_.
     and_then (check_every_def_known cards sc) (\<lambda>_.
     and_then (build_player_state cards player_id.One (pp_one (sn_players sc))) (\<lambda>one.
     and_then (build_player_state cards player_id.Two (pp_two (sn_players sc))) (\<lambda>two.
     let players = pp_new one two; pending = derive_pending players in
     Inr \<lparr>gs_players = players, gs_coin = sn_coin sc,
       gs_turn = \<lparr>ts_active_player = sn_active_player sc, ts_phase = phase.Main, ts_window = None,
         ts_normal_attack_used = False, ts_normal_retreat_used = False,
         ts_spell_played_this_turn = pp_new False False\<rparr>,
       gs_stack = [], gs_stack_segment_bases = [], gs_work = [], gs_pending = pending,
       gs_status = game_status.Playing, gs_cards = cards\<rparr>))))"

section \<open>What parsing accepts\<close>

text \<open>The chain of a described Summon is well formed: not empty, every card prints a Form, and the
  Forms strictly climb.\<close>

definition form_in :: "card_set \<Rightarrow> card_ref \<Rightarrow> form option" where
  "form_in cards c = Option.bind (card_set_get cards (cr_def c)) (entity_get form_field)"

definition climbs :: "card_set \<Rightarrow> card_ref list \<Rightarrow> bool" where
  "climbs cards refs \<longleftrightarrow> refs \<noteq> [] \<and> (\<forall>c \<in> set refs. form_in cards c \<noteq> None)
     \<and> sorted_wrt (<) (map (\<lambda>c. the (form_in cards c)) refs)"

definition well_formed :: "card_set \<Rightarrow> scenario \<Rightarrow> bool" where
  "well_formed cards sc \<longleftrightarrow>
     distinct (map cr_instance (all_card_refs sc))
     \<and> (\<forall>c \<in> set (all_card_refs sc). card_set_get cards (cr_def c) \<noteq> None)
     \<and> (\<forall>p. positioned_summons (pp_get (sn_players sc) p) \<noteq> []
          \<and> (\<forall>(pos, summon) \<in> set (positioned_summons (pp_get (sn_players sc) p)).
               climbs cards (sc_chain summon)))"

lemma find_duplicate_None:
  "find_duplicate seen cs = None
    \<longleftrightarrow> distinct (map cr_instance cs) \<and> (\<forall>c \<in> set cs. cr_instance c \<notin> seen)"
  by (induction cs arbitrary: seen) (auto simp: image_iff)

lemma check_no_duplicate_instances_ok:
  "check_no_duplicate_instances sc = Inr u \<longleftrightarrow> distinct (map cr_instance (all_card_refs sc))"
  using find_duplicate_None [of "{}" "all_card_refs sc"]
  by (cases "find_duplicate {} (all_card_refs sc)") (simp_all add: check_no_duplicate_instances_def)

lemma check_every_def_known_ok:
  "check_every_def_known cards sc = Inr u
    \<longleftrightarrow> (\<forall>c \<in> set (all_card_refs sc). card_set_get cards (cr_def c) \<noteq> None)"
proof (cases "find (\<lambda>c. card_set_get cards (cr_def c) = None) (all_card_refs sc)")
  case None
  then have "\<forall>c \<in> set (all_card_refs sc). card_set_get cards (cr_def c) \<noteq> None"
    by (auto simp: find_None_iff)
  with None show ?thesis by (simp add: check_every_def_known_def)
next
  case (Some c)
  then have "c \<in> set (all_card_refs sc) \<and> card_set_get cards (cr_def c) = None"
    by (auto simp: find_Some_iff)
  with Some show ?thesis by (auto simp: check_every_def_known_def)
qed

lemma form_of_ok: "form_of cards player pos c = Inr f \<longleftrightarrow> form_in cards c = Some f"
  by (auto simp: form_of_def form_in_def and_then_Inr ok_or_Inr bind_eq_Some_conv)

lemma check_climb_ok:
  "check_climb cards player pos previous cs = Inr u \<longleftrightarrow>
     (\<forall>c \<in> set cs. form_in cards c \<noteq> None)
     \<and> sorted_wrt (<) (previous # map (\<lambda>c. the (form_in cards c)) cs)"
proof (induction cs arbitrary: previous)
  case (Cons c cs)
  show ?case
  proof (cases "form_in cards c")
    case None
    then have "form_of cards player pos c \<noteq> Inr f" for f by (simp add: form_of_ok)
    with None show ?thesis by (auto simp: and_then_Inr)
  next
    case (Some f)
    then have "form_of cards player pos c = Inr f" by (simp add: form_of_ok)
    with Some Cons show ?thesis by (auto simp: not_le)
  qed
qed simp

lemma build_chain_ok:
  "build_chain cards player pos refs = Inr chain
    \<longleftrightarrow> climbs cards refs \<and> chain = chain_new (hd refs) (tl refs)"
  by (cases refs) (auto simp: build_chain_def climbs_def and_then_Inr form_of_ok check_climb_ok)

definition built_summon :: "player_id \<Rightarrow> scenario_summon \<Rightarrow> summon_instance" where
  "built_summon player summon =
     \<lparr>si_chain = chain_new (hd (sc_chain summon)) (tl (sc_chain summon)), si_damage = sc_damage summon,
      si_readiness = sc_readiness summon, si_owner = player, si_controller = player,
      si_duration_markers = [], si_turn = turn_record_fresh\<rparr>"

lemma build_at_Inr:
  "build_at cards player pos described = Inr built \<longleftrightarrow>
     built = map_option (built_summon player) described
     \<and> (\<forall>summon. described = Some summon \<longrightarrow> climbs cards (sc_chain summon))"
  by (cases described)
    (auto simp: build_at_def build_summon_instance_def and_then_Inr build_chain_ok built_summon_def)

lemma build_bench_Inr:
  "build_bench cards player described slots bench = Inr result \<longleftrightarrow>
     result = (\<lambda>slot. if slot \<in> set slots then map_option (built_summon player) (sp_bench described slot)
                      else bench slot)
     \<and> (\<forall>slot \<in> set slots. \<forall>summon. sp_bench described slot = Some summon \<longrightarrow>
          climbs cards (sc_chain summon))"
  by (induction slots arbitrary: bench) (auto simp: and_then_Inr build_at_Inr fun_eq_iff)

lemma set_positioned_summons:
  "(pos, summon) \<in> set (positioned_summons described) \<longleftrightarrow>
     (case pos of position.Main \<Rightarrow> sp_main described | position.Bench slot \<Rightarrow> sp_bench described slot)
       = Some summon"
  by (cases pos) (auto simp: positioned_summons_def set_filter_map split: option.splits)

lemma positioned_summons_Nil:
  "positioned_summons described = [] \<longleftrightarrow>
     sp_main described = None \<and> (\<forall>slot. sp_bench described slot = None)"
  by (auto simp: positioned_summons_def bench_all_def all_bench_slot split: option.splits)

definition built_player :: "player_id \<Rightarrow> scenario_player \<Rightarrow> player_state" where
  "built_player player described =
     \<lparr>ps_main = map_option (built_summon player) (sp_main described),
      ps_bench = (\<lambda>slot. map_option (built_summon player) (sp_bench described slot)),
      ps_deck = sp_deck described, ps_hand = sp_hand described, ps_prizes = sp_prizes described,
      ps_discard = sp_discard described, ps_mana = sp_mana described,
      ps_main_losses = sp_main_losses described, ps_enchantments = []\<rparr>"

lemma build_player_state_Inr:
  "build_player_state cards player described = Inr ps \<longleftrightarrow>
     ps = built_player player described \<and> positioned_summons described \<noteq> []
     \<and> (\<forall>(pos, summon) \<in> set (positioned_summons described). climbs cards (sc_chain summon))"
proof -
  have all: "(\<forall>(pos, summon) \<in> set (positioned_summons described). climbs cards (sc_chain summon))
    \<longleftrightarrow> (\<forall>summon. sp_main described = Some summon \<longrightarrow> climbs cards (sc_chain summon))
      \<and> (\<forall>slot summon. sp_bench described slot = Some summon \<longrightarrow> climbs cards (sc_chain summon))"
    by (auto simp: set_positioned_summons split: position.splits)
  show ?thesis
    unfolding all positioned_summons_Nil
    by (auto simp: build_player_state_def and_then_Inr build_at_Inr build_bench_Inr built_player_def)
qed

lemma from_scenario_iff: "(\<exists>s. from_scenario cards sc = Inr s) \<longleftrightarrow> well_formed cards sc"
  by (auto simp: from_scenario_def and_then_Inr check_no_duplicate_instances_ok
      check_every_def_known_ok build_player_state_Inr well_formed_def all_player pp_get_def Let_def)

lemma from_scenario_Inr:
  "from_scenario cards sc = Inr s \<Longrightarrow> well_formed cards sc \<and> s =
     (let players = pp_new (built_player player_id.One (pp_one (sn_players sc)))
        (built_player player_id.Two (pp_two (sn_players sc))) in
      \<lparr>gs_players = players, gs_coin = sn_coin sc,
       gs_turn = \<lparr>ts_active_player = sn_active_player sc, ts_phase = phase.Main, ts_window = None,
         ts_normal_attack_used = False, ts_normal_retreat_used = False,
         ts_spell_played_this_turn = pp_new False False\<rparr>,
       gs_stack = [], gs_stack_segment_bases = [], gs_work = [], gs_pending = derive_pending players,
       gs_status = game_status.Playing, gs_cards = cards\<rparr>)"
  using from_scenario_iff [of cards sc]
  by (auto simp: from_scenario_def and_then_Inr build_player_state_Inr Let_def)

text \<open>C34: parsing accepts a scenario exactly when it is well formed (no card instance repeats,
  every card is in the card set, each player has a Summon in play, and every chain is non-empty
  and climbs strictly in Form), and the state it builds is the scenario's Main Phase with nothing
  queued and nothing on the stack.\<close>

theorem from_scenario_accepts:
  "from_scenario cards sc = Inr s \<longleftrightarrow> well_formed cards sc \<and>
     (let players = pp_new (built_player player_id.One (pp_one (sn_players sc)))
        (built_player player_id.Two (pp_two (sn_players sc))) in
      s = \<lparr>gs_players = players, gs_coin = sn_coin sc,
       gs_turn = \<lparr>ts_active_player = sn_active_player sc, ts_phase = phase.Main, ts_window = None,
         ts_normal_attack_used = False, ts_normal_retreat_used = False,
         ts_spell_played_this_turn = pp_new False False\<rparr>,
       gs_stack = [], gs_stack_segment_bases = [], gs_work = [], gs_pending = derive_pending players,
       gs_status = game_status.Playing, gs_cards = cards\<rparr>)"
  using from_scenario_iff [of cards sc] from_scenario_Inr [of cards sc]
  by (auto simp: Let_def)

end
