(* ===== verification/Zones.thy ===== *)
theory Zones
  imports Scenario
begin

text \<open>
  Where the cards are. A player's cards lie in five piles, in the upgrade chains on that
  player's board, and in the Spells that player has on the Stack; every operation of the engine
  moves cards between these zones. The abstraction \<open>owned\<close> forgets the zones and keeps the
  multiset of cards; the theory proves what each operation does to it.
\<close>

section \<open>The abstraction\<close>

definition pile_cards :: "player_state \<Rightarrow> card_ref multiset" where
  "pile_cards ps = mset (ps_deck ps) + mset (ps_hand ps) + mset (ps_prizes ps) + mset (ps_discard ps)
     + mset (ps_enchantments ps)"

definition chain_cards :: "summon_instance option \<Rightarrow> card_ref multiset" where
  "chain_cards so = (case so of None \<Rightarrow> {#} | Some summon \<Rightarrow> mset (chain_layers (si_chain summon)))"

definition board_cards :: "player_state \<Rightarrow> card_ref multiset" where
  "board_cards ps = (\<Sum>pos \<leftarrow> board_positions. chain_cards (summon_at ps pos))"

definition player_cards :: "player_state \<Rightarrow> card_ref multiset" where
  "player_cards ps = pile_cards ps + board_cards ps"

definition stack_card :: "player_id \<Rightarrow> stack_item \<Rightarrow> card_ref option" where
  "stack_card p item =
     (case item of stack_item.Spell caster cref _ \<Rightarrow> if caster = p then Some cref else None | _ \<Rightarrow> None)"

definition stack_cards :: "stack_item list \<Rightarrow> player_id \<Rightarrow> card_ref multiset" where
  "stack_cards st p = mset (filter_map (stack_card p) st)"

definition owned :: "game_state \<Rightarrow> player_id \<Rightarrow> card_ref multiset" where
  "owned s p = player_cards (player_of s p) + stack_cards (gs_stack s) p"

text \<open>Every Summon sits on the board of the player who owns and controls it.\<close>

definition at_home :: "player_id \<Rightarrow> player_state \<Rightarrow> bool" where
  "at_home p ps \<longleftrightarrow> (\<forall>pos summon. summon_at ps pos = Some summon \<longrightarrow>
     si_owner summon = p \<and> si_controller summon = p)"

definition home :: "game_state \<Rightarrow> bool" where
  "home s \<longleftrightarrow> (\<forall>p. at_home p (player_of s p))"

section \<open>Writing one position\<close>

lemma board_cards_unfold:
  "board_cards ps = chain_cards (ps_main ps) + chain_cards (ps_bench ps bench_slot.First)
     + chain_cards (ps_bench ps bench_slot.Second) + chain_cards (ps_bench ps bench_slot.Third)"
  by (simp add: board_cards_def board_positions_def ac_simps)

lemma board_cards_set:
  "board_cards (set_summon_at ps pos v) + chain_cards (summon_at ps pos) = board_cards ps + chain_cards v"
proof (cases pos)
  case Main
  then show ?thesis by (simp add: board_cards_unfold ac_simps)
next
  case (Bench slot)
  then show ?thesis by (cases slot) (simp_all add: board_cards_unfold ac_simps)
qed

lemma board_cards_same_chain:
  "chain_cards v = chain_cards (summon_at ps pos) \<Longrightarrow> board_cards (set_summon_at ps pos v) = board_cards ps"
  using board_cards_set [of ps pos v] by simp

lemma chain_cards_simps [simp]:
  "chain_cards None = {#}" "chain_cards (Some summon) = mset (chain_layers (si_chain summon))"
  by (simp_all add: chain_cards_def)

lemma pile_cards_set [simp]: "pile_cards (set_summon_at ps pos v) = pile_cards ps"
  by (simp add: pile_cards_def)

lemma player_cards_set:
  "player_cards (set_summon_at ps pos v) + chain_cards (summon_at ps pos) = player_cards ps + chain_cards v"
  using board_cards_set [of ps pos v] by (simp add: player_cards_def ac_simps)

lemma player_cards_same_chain:
  "chain_cards v = chain_cards (summon_at ps pos) \<Longrightarrow> player_cards (set_summon_at ps pos v) = player_cards ps"
  using player_cards_set [of ps pos v] by simp

lemma board_cards_cong:
  "ps_main ps = ps_main ps' \<Longrightarrow> ps_bench ps = ps_bench ps' \<Longrightarrow> board_cards ps = board_cards ps'"
  by (simp add: board_cards_unfold)

lemma board_cards_map_summons:
  "(\<And>summon. si_chain (f summon) = si_chain summon) \<Longrightarrow> board_cards (map_summons f ps) = board_cards ps"
proof -
  assume f: "\<And>summon. si_chain (f summon) = si_chain summon"
  have "chain_cards (map_option f so) = chain_cards so" for so by (cases so) (simp_all add: f)
  then show ?thesis by (simp add: board_cards_unfold map_summons_def)
qed

lemma player_cards_map_summons:
  "(\<And>summon. si_chain (f summon) = si_chain summon) \<Longrightarrow> player_cards (map_summons f ps) = player_cards ps"
  by (simp add: player_cards_def pile_cards_def board_cards_map_summons)

lemma at_home_set:
  "at_home p ps \<Longrightarrow> (\<And>summon. v = Some summon \<Longrightarrow> si_owner summon = p \<and> si_controller summon = p)
    \<Longrightarrow> at_home p (set_summon_at ps pos v)"
  by (simp add: at_home_def summon_at_set_summon_at)

lemma at_home_cong:
  "(\<And>pos. summon_at ps pos = summon_at ps' pos) \<Longrightarrow> at_home p ps = at_home p ps'"
  by (simp add: at_home_def)

lemma summon_at_cong:
  "ps_main ps = ps_main ps' \<Longrightarrow> ps_bench ps = ps_bench ps' \<Longrightarrow> summon_at ps pos = summon_at ps' pos"
  by (cases pos) simp_all

lemma at_home_map_summons:
  "at_home p ps \<Longrightarrow> (\<And>summon. si_owner (f summon) = si_owner summon \<and> si_controller (f summon) = si_controller summon)
    \<Longrightarrow> at_home p (map_summons f ps)"
  by (auto simp: at_home_def)

section \<open>Boards that only change in place or trade places\<close>

text \<open>The change of one player's state that moves no card out of that player's zones.\<close>

definition keeps_cards :: "player_id \<Rightarrow> player_state \<Rightarrow> player_state \<Rightarrow> bool" where
  "keeps_cards p ps ps' \<longleftrightarrow> (at_home p ps \<longrightarrow> at_home p ps' \<and> player_cards ps' = player_cards ps)"

lemma keeps_cards_refl [simp]: "keeps_cards p ps ps"
  by (simp add: keeps_cards_def)

lemma keeps_cards_trans: "keeps_cards p a b \<Longrightarrow> keeps_cards p b c \<Longrightarrow> keeps_cards p a c"
  by (simp add: keeps_cards_def)

lemma keeps_in_place:
  assumes "summon_at ps pos = Some summon" and "si_chain summon' = si_chain summon"
    and "si_owner summon' = si_owner summon" and "si_controller summon' = si_controller summon"
  shows "keeps_cards p ps (set_summon_at ps pos (Some summon'))"
proof -
  have "player_cards (set_summon_at ps pos (Some summon')) = player_cards ps"
    by (rule player_cards_same_chain) (simp add: assms)
  moreover have "at_home p (set_summon_at ps pos (Some summon'))" if home: "at_home p ps"
  proof (rule at_home_set [OF home])
    show "si_owner s = p \<and> si_controller s = p" if "Some summon' = Some s" for s
      using home assms(1,3,4) that by (auto simp: at_home_def)
  qed
  ultimately show ?thesis by (simp add: keeps_cards_def)
qed

lemma keeps_move:
  assumes "summon_at ps from_pos = Some summon" and "summon_at ps to_pos = None"
  shows "keeps_cards p ps (set_summon_at (set_summon_at ps from_pos None) to_pos (Some summon))"
proof -
  let ?mid = "set_summon_at ps from_pos None"
  have neq: "from_pos \<noteq> to_pos" using assms by auto
  have "player_cards (set_summon_at ?mid to_pos (Some summon)) = player_cards ps"
    using player_cards_set [of ps from_pos None] player_cards_set [of ?mid to_pos "Some summon"]
      assms neq by (simp add: summon_at_set_summon_at)
  moreover have "at_home p (set_summon_at ?mid to_pos (Some summon))" if home: "at_home p ps"
    using home assms(1) by (intro at_home_set) (auto simp: at_home_def)
  ultimately show ?thesis by (simp add: keeps_cards_def)
qed

lemma keeps_exchange:
  assumes "ps_main ps = Some vacating" and "ps_bench ps slot = Some incoming"
  shows "keeps_cards p ps (exchange slot incoming vacating ps)"
proof -
  let ?mid = "set_summon_at ps position.Main (Some incoming)"
  have "player_cards (exchange slot incoming vacating ps) = player_cards ps"
    using player_cards_set [of ps position.Main "Some incoming"]
      player_cards_set [of ?mid "position.Bench slot" "Some vacating"] assms
    by (simp add: exchange_def)
  moreover have "at_home p (exchange slot incoming vacating ps)" if home: "at_home p ps"
  proof -
    have "si_owner incoming = p \<and> si_controller incoming = p"
      using home assms(2) by (auto simp: at_home_def elim!: allE [of _ "position.Bench slot"])
    moreover have "si_owner vacating = p \<and> si_controller vacating = p"
      using home assms(1) by (auto simp: at_home_def elim!: allE [of _ position.Main])
    ultimately show ?thesis
      unfolding exchange_def using home by (intro at_home_set) auto
  qed
  ultimately show ?thesis by (simp add: keeps_cards_def)
qed

lemma keeps_take_top: "ps_deck ps = c # rest \<Longrightarrow> keeps_cards p ps (take_top c rest ps)"
  by (simp add: keeps_cards_def at_home_def player_cards_def pile_cards_def
      board_cards_cong [of "take_top c rest ps" ps])

lemma keeps_bank: "keeps_cards p ps (bank t ps)"
  by (simp add: keeps_cards_def at_home_def player_cards_def pile_cards_def
      board_cards_cong [of "bank t ps" ps])

lemma keeps_piles:
  assumes "ps_main ps' = ps_main ps" and "ps_bench ps' = ps_bench ps" and "pile_cards ps' = pile_cards ps"
  shows "keeps_cards p ps ps'"
  using summon_at_cong [OF assms(1,2)] board_cards_cong [OF assms(1,2)] assms(3)
  by (simp add: keeps_cards_def at_home_def player_cards_def)

lemma keeps_map_summons:
  "(\<And>summon. si_chain (f summon) = si_chain summon \<and> si_owner (f summon) = si_owner summon
      \<and> si_controller (f summon) = si_controller summon) \<Longrightarrow> keeps_cards p ps (map_summons f ps)"
  by (simp add: keeps_cards_def player_cards_map_summons at_home_map_summons)

section \<open>Conservation by the effect interpreter\<close>

definition conserves :: "game_state \<Rightarrow> game_state \<Rightarrow> bool" where
  "conserves s t \<longleftrightarrow> (home s \<longrightarrow> home t \<and> (\<forall>p. owned t p = owned s p))"

lemma conserves_refl [simp]: "conserves s s"
  by (simp add: conserves_def)

lemma conserves_trans: "conserves s t \<Longrightarrow> conserves t u \<Longrightarrow> conserves s u"
  by (simp add: conserves_def)

lemma conserves_players:
  assumes "gs_stack t = gs_stack s" and "\<And>p. keeps_cards p (player_of s p) (player_of t p)"
  shows "conserves s t"
  using assms by (simp add: conserves_def home_def owned_def keeps_cards_def)

lemma conserves_update:
  "keeps_cards p (player_of s p) (f (player_of s p)) \<Longrightarrow> conserves s (update_player s p f)"
  by (rule conserves_players) simp_all

lemma conserves_set_player:
  "keeps_cards p (player_of s p) ps \<Longrightarrow> conserves s (set_player s p ps)"
  by (rule conserves_players) simp_all

lemma conserves_frame: "gs_stack t = gs_stack u \<Longrightarrow> gs_players t = gs_players u \<Longrightarrow> conserves s t = conserves s u"
  by (simp add: conserves_def home_def owned_def player_of_def)

lemma conserves_commit: "conserves s (fst (commit s r))"
proof (rule conserves_players)
  show "gs_stack (fst (commit s r)) = gs_stack s" by (simp add: frame_simps)
  show "keeps_cards p (player_of s p) (player_of (fst (commit s r)) p)" for p
    by (auto simp: commit_def Let_def split: option.splits intro: keeps_in_place)
qed

lemma conserves_draw_loop: "conserves s (fst (draw_loop n p s))"
proof (induction n arbitrary: s)
  case (Suc n)
  show ?case
  proof (cases "ps_deck (player_of s p)")
    case (Cons c rest)
    have "conserves s (update_player s p (take_top c rest))"
      by (rule conserves_update, rule keeps_take_top [OF Cons])
    with Cons Suc show ?thesis by (auto simp: split_def Let_def intro: conserves_trans)
  qed simp
qed simp

lemma conserves_lose: "conserves s (fst (lose t p r)) = conserves s t"
  by (rule conserves_frame) (simp_all add: frame_simps)

lemma conserves_draw_cards: "conserves s (fst (draw_cards s p n))"
  using conserves_draw_loop [of s "unat n" p] by (simp add: draw_cards_fst conserves_lose)

lemma conserves_produce_mana: "conserves s (fst (produce_mana s p src))"
  by (auto simp: produce_mana_def split: list.splits intro!: conserves_update keeps_bank)
    (simp_all add: conserves_frame [of _ s])

lemma pile_cards_return_to_hand:
  assumes "position_of f (ps_discard ps) = Some i"
  shows "pile_cards (ps\<lparr>ps_discard := remove_nth i (ps_discard ps),
      ps_hand := ps_hand ps @ [ps_discard ps ! i]\<rparr>) = pile_cards ps"
proof -
  have "mset (ps_discard ps) = add_mset (ps_discard ps ! i) (mset (remove_nth i (ps_discard ps)))"
    using mset_remove_nth [OF position_of_lt [OF assms]] by simp
  then show ?thesis by (simp add: pile_cards_def)
qed

lemma pile_cards_return_to_deck:
  assumes "position_of f (ps_hand ps) = Some i"
  shows "pile_cards (ps\<lparr>ps_hand := remove_nth i (ps_hand ps),
      ps_deck := ps_hand ps ! i # ps_deck ps\<rparr>) = pile_cards ps"
proof -
  have "mset (ps_hand ps) = add_mset (ps_hand ps ! i) (mset (remove_nth i (ps_hand ps)))"
    using mset_remove_nth [OF position_of_lt [OF assms]] by simp
  then show ?thesis by (simp add: pile_cards_def)
qed

lemma conserves_exchange:
  assumes "ps_main (player_of s p) = Some vacating" and "ps_bench (player_of s p) slot = Some incoming"
  shows "conserves s (fold push_back ws (set_player s p (exchange slot incoming vacating (player_of s p))))"
proof (rule conserves_players)
  show "keeps_cards q (player_of s q) (player_of (fold push_back ws
      (set_player s p (exchange slot incoming vacating (player_of s p)))) q)" for q
    using keeps_exchange [OF assms] by simp
qed simp

lemma conserves_move:
  assumes "ps_bench (player_of s p) from_slot = Some summon" and "ps_bench (player_of s p) to_slot = None"
  shows "conserves s (push_back w (push_back w' (set_player s p
    (set_summon_at (set_summon_at (player_of s p) (position.Bench from_slot) None)
      (position.Bench to_slot) (Some summon)))))"
proof (rule conserves_players)
  show "keeps_cards q (player_of s q) (player_of (push_back w (push_back w' (set_player s p
    (set_summon_at (set_summon_at (player_of s p) (position.Bench from_slot) None)
      (position.Bench to_slot) (Some summon))))) q)" for q
    using keeps_move [of "player_of s p" "position.Bench from_slot" summon "position.Bench to_slot" p]
      assms by simp
qed simp

lemma conserves_leaf: "conserves s (fst (apply_leaf s source targets leaf))"
proof (cases leaf)
  case (DealDamage effect)
  then show ?thesis by (simp add: deal_damage_def Let_def conserves_commit split: option.splits)
next
  case (DrawCards n)
  then show ?thesis by (simp add: conserves_draw_cards)
next
  case (ProduceMana target)
  then show ?thesis by (simp add: produce_mana_leaf_def conserves_produce_mana split: option.splits)
next
  case ReturnSpellFromDiscard
  then show ?thesis
    by (auto simp: return_spell_from_discard_def Let_def pile_cards_return_to_hand split: option.splits
        intro!: conserves_set_player keeps_piles)
next
  case ReturnSpellToDeckTop
  then show ?thesis
    by (auto simp: return_spell_to_deck_top_def Let_def pile_cards_return_to_deck split: option.splits
        intro!: conserves_set_player keeps_piles)
next
  case SwapPositions
  then show ?thesis
    by (auto simp: swap_positions_def Let_def split: option.splits position.splits
        intro!: conserves_exchange)
next
  case SwapOpposingPositions
  then show ?thesis
    by (auto simp: swap_opposing_positions_def Let_def split: option.splits position.splits
        intro!: conserves_exchange)
next
  case MoveSummon
  then show ?thesis
    by (auto simp: move_summon_def Let_def simp del: set_summon_at.simps
        split: option.splits position.splits list.splits intro!: conserves_move)
next
  case (Heal n target)
  then show ?thesis
    by (auto simp: heal_def Let_def split: option.splits intro!: conserves_update keeps_in_place)
next
  case ReadySummon
  then show ?thesis
    by (auto simp: ready_summon_def split: option.splits intro!: conserves_update keeps_in_place)
next
  case (CannotBeMovedByOpponent target)
  then show ?thesis
    by (auto simp: cannot_be_moved_by_opponent_def split: option.splits
        intro!: conserves_update keeps_in_place)
qed (simp_all add: look_at_prizes_def)

end
