(* ===== verification/Conservation.thy ===== *)
theory Conservation
  imports Zones
begin

text \<open>
  What each work item, Stack item and handler does to the cards a player owns. Everything
  conserves them except a Promotion onto a Main that is still occupied, which loses the
  overwritten chain.
\<close>

interpretation conservation: leaf_stable conserves
  by unfold_locales (auto intro: conserves_trans conserves_leaf)

section \<open>The work queue\<close>

lemma conserves_same:
  "gs_stack t = gs_stack s \<Longrightarrow> gs_players t = gs_players s \<Longrightarrow> conserves s t"
  by (simp add: conserves_def home_def owned_def player_of_def)

lemma conserves_after:
  "conserves s t \<Longrightarrow> gs_stack u = gs_stack t \<Longrightarrow> gs_players u = gs_players t \<Longrightarrow> conserves s u"
  by (simp add: conserves_def home_def owned_def player_of_def)

lemma conserves_ready_all: "conserves s (fst (ready_all s))"
  by (auto simp: ready_all_def Let_def intro!: conserves_update keeps_map_summons)

lemma conserves_execute_draw: "conserves s (fst (execute_draw s))"
  by (auto simp: execute_draw_cases Let_def conserves_lose split: list.splits
      intro!: conserves_update keeps_take_top)

lemma conserves_discard: "conserves s (fst (discard_destroyed_chain s pos))"
proof (cases "destroyed_controller s pos")
  case (Inl b)
  then show ?thesis by (auto simp: discard_destroyed_chain_def intro: conserves_same)
next
  case (Inr found)
  show ?thesis
  proof (cases "\<exists>p summon. found = Some p \<and> summon_at (player_of s p) pos = Some summon")
    case False
    with Inr show ?thesis
      by (auto simp: discard_destroyed_chain_def split: option.splits)
  next
    case True
    then obtain p summon where found: "found = Some p"
      and at: "summon_at (player_of s p) pos = Some summon" by blast
    let ?t = "fst (discard_destroyed_chain s pos)"
    let ?ps = "player_of s p"
    let ?new = "(set_summon_at ?ps pos None)\<lparr>ps_discard := ps_discard ?ps @ chain_layers (si_chain summon)\<rparr>"
    have "home ?t \<and> (\<forall>q. owned ?t q = owned s q)" if home: "home s"
    proof -
      have "si_owner summon = p" using home at by (auto simp: home_def at_home_def)
      then have t: "player_of ?t q = (if q = p then ?new else player_of s q)" "gs_stack ?t = gs_stack s" for q
        using Inr found at
        by (simp_all add: discard_destroyed_chain_def Let_def discover_front_eq)
      have summons: "summon_at ?new pos' = summon_at (set_summon_at ?ps pos None) pos'" for pos'
        by (rule summon_at_cong) simp_all
      have "at_home p (set_summon_at ?ps pos None)"
        using home by (intro at_home_set) (simp_all add: home_def)
      then have "at_home p ?new" using summons by (simp add: at_home_def)
      moreover have "player_cards ?new = player_cards ?ps"
      proof -
        have "board_cards ?new = board_cards (set_summon_at ?ps pos None)"
          by (rule board_cards_cong) simp_all
        then show ?thesis
          using board_cards_set [of ?ps pos None] at by (simp add: player_cards_def pile_cards_def ac_simps)
      qed
      ultimately show ?thesis using home t by (simp add: home_def owned_def)
    qed
    then show ?thesis by (simp add: conserves_def)
  qed
qed

lemma conserves_fire: "conserves s (fst (fire s player pos event ability trigger))"
  by (auto simp: fire_def split_def Let_def conservation.leaves)
    (auto simp: conserves_def home_def owned_def stack_cards_def stack_card_def player_of_def)

lemma conserves_movement_trigger: "conserves s (fst (movement_trigger s step player pos))"
proof -
  let ?mark = "\<lambda>ps. ps\<lparr>ps_main := map_option mark_main_entry (ps_main ps)\<rparr>"
  have same: "keeps_cards player ps (?mark ps)" for ps
  proof (cases "ps_main ps")
    case None
    then have "?mark ps = ps" by simp
    then show ?thesis by simp
  next
    case (Some summon)
    then have "?mark ps = set_summon_at ps position.Main (Some (mark_main_entry summon))" by simp
    then show ?thesis
      using keeps_in_place [of ps position.Main summon "mark_main_entry summon" player] Some
      by (simp add: mark_main_entry_def)
  qed
  then have "conserves s (update_player s player ?mark)" by (rule conserves_update)
  then show ?thesis
    by (cases "step = EnteringMain \<and> pos = position.Main")
      (auto simp: movement_trigger_eq Let_def intro: conserves_same elim: conserves_after)
qed

lemma conserves_promote:
  assumes "ps_main (player_of s player) = None"
  shows "conserves s (fst (promote_from_slot s player slot))"
  using assms keeps_move [of "player_of s player" "position.Bench slot" _ position.Main player]
  by (auto simp: promote_from_slot_def split: option.splits intro!: conserves_update)

lemma conserves_execute:
  assumes "\<And>player. item = PromoteBenchSummon player \<Longrightarrow> ps_main (player_of s player) = None"
  shows "conserves s (fst (execute s item))"
proof (cases item)
    case (DestructionCheck pos)
    then show ?thesis
      by (auto simp: destruction_check_def frame_simps intro: conserves_same)
  next
    case (PromoteBenchSummon player)
    then show ?thesis
      using conserves_promote [OF assms [OF PromoteBenchSummon]]
      by (auto simp: promote_bench_summon_def split: list.splits intro: conserves_same)
  next
    case (RecordMainLoss player)
    then show ?thesis
      by (auto simp: record_main_loss_def pile_cards_def intro!: conserves_update keeps_piles)
  next
    case (LossCheck player)
    then show ?thesis
      by (auto simp: loss_check_def Let_def conserves_lose)
  next
    case (ResolveMovementConsequences player)
    then show ?thesis
      by (auto simp: resolve_movement_consequences_def intro: conserves_same)
  next
    case (RecoverPrize player)
    then show ?thesis by (auto simp: recover_prize_def intro: conserves_same)
  next
    case (FireTrigger player pos event ability)
    then show ?thesis by (simp add: fire_queued_def conserves_fire split: option.splits)
  qed (auto simp: conserves_discard conserves_movement_trigger conserves_ready_all
      conserves_execute_draw conserves_produce_mana begin_main_phase_def intro: conserves_same)

text \<open>C18: every item of the work queue conserves each player's cards, zone by zone, as long as no
  Promotion finds its Main occupied: nothing the engine does by itself creates, duplicates or
  loses a card, and every Summon stays with its owner.\<close>

theorem execute_conserves:
  assumes "home s" and "\<And>player. item = PromoteBenchSummon player \<Longrightarrow> ps_main (player_of s player) = None"
  shows "home (fst (execute s item)) \<and> owned (fst (execute s item)) p = owned s p"
  using conserves_execute [of item s] assms by (simp add: conserves_def)

section \<open>Losing nothing but an overwritten Main\<close>

definition no_gain :: "game_state \<Rightarrow> game_state \<Rightarrow> bool" where
  "no_gain s t \<longleftrightarrow> (home s \<longrightarrow> home t \<and> (\<forall>p. owned t p \<subseteq># owned s p))"

lemma no_gain_refl [simp]: "no_gain s s"
  by (simp add: no_gain_def)

lemma no_gain_trans: "no_gain s t \<Longrightarrow> no_gain t u \<Longrightarrow> no_gain s u"
  by (auto simp: no_gain_def intro: subset_mset.order_trans)

lemma conserves_no_gain: "conserves s t \<Longrightarrow> no_gain s t"
  by (simp add: conserves_def no_gain_def)

lemma no_gain_promote: "no_gain s (fst (promote_from_slot s player slot))"
proof (cases "ps_bench (player_of s player) slot")
  case (Some summon)
  let ?ps = "player_of s player"
  let ?mid = "set_summon_at ?ps (position.Bench slot) None"
  let ?new = "set_summon_at ?mid position.Main (Some summon)"
  have "player_cards ?new + chain_cards (ps_main ?ps) = player_cards ?ps"
    using player_cards_set [of ?ps "position.Bench slot" None]
      player_cards_set [of ?mid position.Main "Some summon"] Some by simp
  then have "player_cards ?new \<subseteq># player_cards ?ps" by (metis mset_subset_eq_add_left)
  moreover have "at_home player ?new" if "home s"
  proof (rule at_home_set)
    show "at_home player ?mid" using that by (intro at_home_set) (simp_all add: home_def)
    show "si_owner sm = player \<and> si_controller sm = player" if "Some summon = Some sm" for sm
      using that \<open>home s\<close> Some by (auto simp: home_def at_home_def elim!: allE [of _ player]
          allE [of _ "position.Bench slot"])
  qed
  ultimately show ?thesis
    using Some by (auto simp: no_gain_def promote_from_slot_def home_def owned_def)
qed (simp add: promote_from_slot_def)

text \<open>C38: a Promotion onto a Main that is still occupied, whether it is the only choice or chosen by
  the player, puts the promoted Summon over the old one: the old Summon's whole chain leaves
  every zone of its player, and that is exactly what is lost.\<close>

theorem promotion_overwrites:
  assumes "ps_main (player_of s p) = Some old" and "ps_bench (player_of s p) slot = Some new"
    and "occupied_bench_slots s p = [slot] \<and> t = fst (execute s (PromoteBenchSummon p))
      \<or> (\<exists>events. answer_promotion s p slot = Inr \<lparr>ao_state = t, ao_events = events\<rparr>)"
  shows "ps_main (player_of t p) = Some new \<and> ps_bench (player_of t p) slot = None
    \<and> owned s p = owned t p + mset (chain_layers (si_chain old))
    \<and> owned t (opponent p) = owned s (opponent p)"
proof -
  let ?ps = "player_of s p"
  let ?mid = "set_summon_at ?ps (position.Bench slot) None"
  let ?new = "set_summon_at ?mid position.Main (Some new)"
  have cards: "player_cards ?ps = player_cards ?new + mset (chain_layers (si_chain old))"
    using player_cards_set [of ?ps "position.Bench slot" None]
      player_cards_set [of ?mid position.Main "Some new"] assms(1,2) by simp
  have "gs_stack t = gs_stack s" "player_of t q = (if q = p then ?new else player_of s q)" for q
    using assms(2,3)
    by (auto simp: promote_bench_summon_def answer_promotion_def promote_from_slot_def Let_def split: if_splits)
  then show ?thesis by (simp add: owned_def cards opponent_neq)
qed

lemma no_gain_pending: "no_gain s (s\<lparr>gs_pending := x\<rparr>)"
  by (rule conserves_no_gain [OF conserves_same]) simp_all

lemma no_gain_execute: "no_gain s (fst (execute s item))"
proof (cases "\<exists>player. item = PromoteBenchSummon player")
  case True
  then show ?thesis
    by (auto simp: promote_bench_summon_def no_gain_promote no_gain_pending split: list.splits)
next
  case False
  then show ?thesis
    using conserves_execute [of item s] by (auto intro: conserves_no_gain)
qed

section \<open>The Stack\<close>

lemma stack_cards_append [simp]: "stack_cards (xs @ ys) p = stack_cards xs p + stack_cards ys p"
  by (simp add: stack_cards_def)

lemma stack_cards_single:
  "stack_cards [stack_item.Spell caster c ts] p = (if caster = p then {#c#} else {#})"
  "stack_cards [stack_item.Attack a pos] p = {#}"
  "stack_cards [stack_item.Trigger q pos ability event ts ls] p = {#}"
  "stack_cards [] p = {#}"
  by (simp_all add: stack_cards_def stack_card_def)

lemma conserves_resolve_top: "conserves s (fst (resolve_top_stack_item s))"
proof (cases "gs_stack s" rule: rev_cases)
  case Nil
  then show ?thesis by (simp add: resolve_top_stack_item_def)
next
  case (snoc below item)
  let ?s = "s\<lparr>gs_stack := below\<rparr>"
  let ?t = "fst (resolve_item ?s item)"
  have top: "fst (resolve_top_stack_item s) = close_segment ?t"
    using snoc by (simp add: resolve_top_stack_item_def split_def Let_def)
  have "home ?t \<and> (\<forall>p. owned ?t p = owned s p)" if home: "home s"
  proof -
    have home': "home ?s" and owned': "owned ?s p + stack_cards [item] p = owned s p" for p
      using home snoc by (simp_all add: home_def owned_def)
    show ?thesis
    proof (cases item)
      case (Attack attacker target)
      have "conserves ?s ?t"
        by (auto simp: Attack resolve_attack_def conservation.leaves split: option.splits)
      with home' owned' show ?thesis by (simp add: conserves_def Attack stack_cards_single)
    next
      case (Trigger controller source ability event targets effects)
      have "conserves ?s ?t" by (simp add: Trigger conservation.leaves)
      with home' owned' show ?thesis by (simp add: conserves_def Trigger stack_cards_single)
    next
      case (Spell caster c targets)
      define u where "u = fst (apply_leaves ?s (effect_source.Spell caster (cr_instance c) (cr_def c))
        targets (spell_effects (gs_cards ?s) (cr_def c)))"
      have u: "home u" "\<And>p. owned u p = owned ?s p"
        using conservation.leaves [of ?s "effect_source.Spell caster (cr_instance c) (cr_def c)" targets
            "spell_effects (gs_cards ?s) (cr_def c)"] home' by (simp_all add: conserves_def u_def)
      have t: "?t = update_player u caster (place_resolved_spell (gs_cards u) c)"
        by (simp add: Spell resolve_spell_def u_def split_def Let_def)
      have ps: "at_home q (place_resolved_spell cs c ps) = at_home q ps"
        "player_cards (place_resolved_spell cs c ps) = player_cards ps + {#c#}" for q cs ps
        using summon_at_cong [of "place_resolved_spell cs c ps" ps]
          board_cards_cong [of "place_resolved_spell cs c ps" ps]
        by (simp_all add: place_resolved_spell_def at_home_def player_cards_def pile_cards_def
            split: if_splits)
      have "owned ?t p = owned ?s p + stack_cards [item] p" for p
        unfolding t owned_def using u(2) [of p] by (simp add: owned_def ps Spell stack_cards_single)
      with u(1) owned' show ?thesis by (simp add: t home_def ps)
    qed
  qed
  then have "conserves s ?t" by (simp add: conserves_def)
  then show ?thesis unfolding top by (rule conserves_after) (simp_all add: close_segment_def)
qed

end
