(* ===== verification/Game.thy ===== *)
theory Game
  imports Conservation
begin

text \<open>
  Runs of the engine. The locale \<open>engine_stable\<close> is the contract between the engine's pieces and
  an invariant: a reflexive and transitive relation that every leaf, every work item, every
  Stack resolution and every handler respects is respected by the resolution loop, by \<open>apply\<close>
  and by whole matches. \<open>reachable\<close> is the set of states a match can be in: those parsed from a
  scenario and those an accepted action leads to.
\<close>

section \<open>The contract\<close>

locale engine_stable = leaf_stable R for R :: "game_state \<Rightarrow> game_state \<Rightarrow> bool" +
  assumes execute: "gs_work s = item # rest \<Longrightarrow> \<not> drain_stops s \<Longrightarrow> \<not> stack_has_unresolved_items s
      \<Longrightarrow> R s (fst (execute (s\<lparr>gs_work := rest\<rparr>) item))"
    and resolve: "\<not> drain_stops s \<Longrightarrow> stack_has_unresolved_items s
      \<Longrightarrow> R s (fst (resolve_top_stack_item s))"
    and handler: "gs_status s = game_status.Playing \<Longrightarrow> \<not> is_resign action
      \<Longrightarrow> actor action = required_actor s \<Longrightarrow> dispatch s action = Inr out \<Longrightarrow> R s (ao_state out)"
    and over: "R s (s\<lparr>gs_status := game_status.Ended outcome\<rparr>)"
begin

lemma step: "\<not> drain_stops s \<Longrightarrow> R s (fst (drain_step s))"
  by (cases "gs_work s") (auto simp: drain_step_def refl resolve execute)

lemma run: "drain s = Some (t, events) \<Longrightarrow> R s t"
  by (erule drain_rule [where P = "R s"]) (auto intro: refl trans step)

lemma applied:
  assumes "apply_action s action = Some (Inr out)"
  shows "R s (ao_state out)"
  using assms
proof (cases rule: apply_action_accepted)
  case (resigned p)
  then show ?thesis by (simp add: resign_def Let_def over)
next
  case (drained mid es)
  have "R s (ao_state mid)" by (rule handler) (use drained in simp_all)
  moreover have "R (ao_state mid) (ao_state out)" by (rule run) (use drained in simp)
  ultimately show ?thesis by (rule trans)
qed

end

section \<open>Matches\<close>

inductive reachable :: "card_set \<Rightarrow> scenario \<Rightarrow> game_state \<Rightarrow> bool" for cards sc where
  parsed: "from_scenario cards sc = Inr s \<Longrightarrow> reachable cards sc s"
| played: "reachable cards sc s \<Longrightarrow> apply_action s action = Some (Inr out) \<Longrightarrow>
    reachable cards sc (ao_state out)"

inductive_cases reachableE: "reachable cards sc s"

text \<open>The state a list of accepted actions leads to.\<close>

fun plays :: "game_state \<Rightarrow> game_action list \<Rightarrow> game_state option" where
  "plays s [] = Some s"
| "plays s (action # actions) =
     (case apply_action s action of
        Some (Inr out) \<Rightarrow> plays (ao_state out) actions
      | _ \<Rightarrow> None)"

lemma reachable_plays: "reachable cards sc s \<Longrightarrow> plays s actions = Some t \<Longrightarrow> reachable cards sc t"
  by (induction s actions rule: plays.induct) (auto split: option.splits sum.splits intro: played)

context engine_stable
begin

lemma from_start:
  "reachable cards sc s \<Longrightarrow> \<exists>start. from_scenario cards sc = Inr start \<and> R start s"
  by (induction rule: reachable.induct) (auto intro: refl trans applied)

end

text \<open>An invariant of single states, and what it takes to hold on every reachable state.\<close>

locale game_invariant =
  fixes I :: "game_state \<Rightarrow> bool"
  assumes I_leaf: "I s \<Longrightarrow> I (fst (apply_leaf s source targets leaf))"
    and I_execute: "I s \<Longrightarrow> gs_work s = item # rest \<Longrightarrow> \<not> drain_stops s
      \<Longrightarrow> \<not> stack_has_unresolved_items s \<Longrightarrow> I (fst (execute (s\<lparr>gs_work := rest\<rparr>) item))"
    and I_resolve: "I s \<Longrightarrow> \<not> drain_stops s \<Longrightarrow> stack_has_unresolved_items s
      \<Longrightarrow> I (fst (resolve_top_stack_item s))"
    and I_handler: "I s \<Longrightarrow> gs_status s = game_status.Playing \<Longrightarrow> \<not> is_resign action
      \<Longrightarrow> actor action = required_actor s \<Longrightarrow> dispatch s action = Inr out \<Longrightarrow> I (ao_state out)"
    and I_over: "I s \<Longrightarrow> I (s\<lparr>gs_status := game_status.Ended outcome\<rparr>)"
begin

lemma I_leaves: "I s \<Longrightarrow> I (fst (apply_leaves s source targets leaves))"
  by (induction leaves arbitrary: s) (auto simp: split_def Let_def I_leaf)

end

sublocale game_invariant \<subseteq> engine_stable "\<lambda>s t. I s \<longrightarrow> I t"
  by unfold_locales (auto intro: I_leaf I_execute I_resolve I_handler I_over)

context game_invariant
begin

lemma I_reachable:
  assumes "\<And>start. from_scenario cards sc = Inr start \<Longrightarrow> I start" and "reachable cards sc s"
  shows "I s"
  using from_start [OF assms(2)] assms(1) by blast

end

section \<open>Every handler keeps the cards\<close>

lemma summon_at_mana [simp]: "summon_at (ps\<lparr>ps_mana := m\<rparr>) pos = summon_at ps pos"
  by (cases pos) simp_all

lemma keeps_mana: "keeps_cards p ps (ps\<lparr>ps_mana := m\<rparr>)"
  by (rule keeps_piles) (simp_all add: pile_cards_def)

lemma mset_hand:
  assumes "in_hand ps i = Inr (n, c)"
  shows "mset (ps_hand ps) = add_mset c (mset (remove_nth n (ps_hand ps)))"
  using in_hand_Inr [OF assms] mset_remove_nth [of n "ps_hand ps"] by simp

text \<open>A card that leaves the hand for a position, on top of what the position held.\<close>

lemma keeps_hand_to_board:
  assumes "in_hand ps i = Inr (n, c)"
    and "chain_cards (Some summon) = add_mset c (chain_cards (summon_at ps pos))"
    and "at_home p ps \<Longrightarrow> si_owner summon = p \<and> si_controller summon = p"
  shows "keeps_cards p ps
    (set_summon_at (ps\<lparr>ps_hand := remove_nth n (ps_hand ps)\<rparr>) pos (Some summon))"
proof -
  let ?ps = "ps\<lparr>ps_hand := remove_nth n (ps_hand ps)\<rparr>"
  have at: "summon_at ?ps q = summon_at ps q" for q by (rule summon_at_cong) simp_all
  have board: "board_cards ?ps = board_cards ps" by (rule board_cards_cong) simp_all
  have "player_cards (set_summon_at ?ps pos (Some summon)) = player_cards ps"
    using board_cards_set [of ?ps pos "Some summon"] assms(2) at board mset_hand [OF assms(1)]
    by (simp add: player_cards_def pile_cards_def)
  moreover have "at_home p (set_summon_at ?ps pos (Some summon))" if home: "at_home p ps"
    using assms(3) [OF home] home at by (intro at_home_set) (simp_all add: at_home_def)
  ultimately show ?thesis by (simp add: keeps_cards_def)
qed

lemma conserves_play:
  assumes "play_summon s player i slot = Inr out" shows "conserves s (ao_state out)"
  using assms
  by (rule play_summon_cases)
    (auto intro!: conserves_set_player keeps_hand_to_board simp: played_summon_def simp del: set_summon_at.simps)

lemma conserves_upgrade:
  assumes "upgrade_summon s player i pos = Inr out" shows "conserves s (ao_state out)"
  using assms
proof (rule upgrade_summon_cases)
  fix summon n c
  assume at: "summon_at (player_of s player) pos = Some summon"
    and hand: "in_hand (player_of s player) i = Inr (n, c)"
    and out: "out = \<lparr>ao_state = set_player s player (set_summon_at
        ((player_of s player)\<lparr>ps_hand := remove_nth n (ps_hand (player_of s player))\<rparr>)
        pos (Some (upgraded_summon c summon))), ao_events = [SummonUpgraded player i pos]\<rparr>"
  have "keeps_cards player (player_of s player) (set_summon_at
        ((player_of s player)\<lparr>ps_hand := remove_nth n (ps_hand (player_of s player))\<rparr>)
        pos (Some (upgraded_summon c summon)))"
    using hand by (rule keeps_hand_to_board)
      (use at in \<open>auto simp: upgraded_summon_def Let_def chain_layers_def chain_new_def at_home_def\<close>)
  then show ?thesis by (simp add: out conserves_set_player)
qed

lemma conserves_retreat:
  assumes "retreat s player slot hint = Inr out" shows "conserves s (ao_state out)"
  using assms
proof (rule retreat_cases)
  fix vacating incoming payment
  let ?ps = "player_of s player"
  assume main: "ps_main ?ps = Some vacating" and bench: "ps_bench ?ps slot = Some incoming"
    and out: "out = \<lparr>ao_state = fold push_back (exchange_work player slot)
        (set_player (s\<lparr>gs_turn := (gs_turn s)\<lparr>ts_normal_retreat_used := True\<rparr>\<rparr>) player
          (exchange slot incoming vacating (?ps\<lparr>ps_mana := pm_bank payment\<rparr>))),
      ao_events = deduction_events player payment @ [SummonsSwapped player slot]\<rparr>"
  have "keeps_cards player ?ps (exchange slot incoming vacating (?ps\<lparr>ps_mana := pm_bank payment\<rparr>))"
    using keeps_mana by (rule keeps_cards_trans) (rule keeps_exchange, simp_all add: main bench)
  then show ?thesis by (auto simp: out intro!: conserves_players)
qed

lemma conserves_attack:
  assumes "declare_attack s player target hint = Inr out" shows "conserves s (ao_state out)"
  using assms
proof (rule declare_attack_cases)
  fix payment
  assume out: "ao_state out = (set_player s player ((player_of s player)\<lparr>ps_mana := pm_bank payment\<rparr>))
      \<lparr>gs_turn := attack_turn s player, gs_stack := gs_stack s @ [stack_item.Attack player position.Main]\<rparr>"
  have "keeps_cards p (player_of s p) (player_of (ao_state out) p)" for p
    by (simp add: out keeps_mana)
  then show ?thesis
    by (simp add: conserves_def home_def owned_def keeps_cards_def out stack_cards_single)
qed

lemma conserves_cast:
  assumes "cast_spell s player i targets hint = Inr out" shows "conserves s (ao_state out)"
  using assms
proof (rule cast_spell_cases)
  fix n c payment
  let ?ps = "player_of s player"
  let ?new = "?ps\<lparr>ps_mana := pm_bank payment, ps_hand := remove_nth n (ps_hand ?ps)\<rparr>"
  assume hand: "in_hand ?ps i = Inr (n, c)"
    and out: "ao_state out = (set_player s player ?new)
      \<lparr>gs_turn := cast_turn s player, gs_stack := gs_stack s @ [stack_item.Spell player c targets]\<rparr>"
  have "board_cards ?new = board_cards ?ps" by (rule board_cards_cong) simp_all
  then have cards: "player_cards ?new + {#c#} = player_cards ?ps"
    using mset_hand [OF hand] by (simp add: player_cards_def pile_cards_def)
  have "summon_at ?new pos = summon_at ?ps pos" for pos by (rule summon_at_cong) simp_all
  then have "at_home player ?new = at_home player ?ps" by (simp add: at_home_def)
  with cards show ?thesis
    by (auto simp: conserves_def home_def owned_def out stack_cards_single)
qed

lemma conserves_skill:
  assumes "activate_skill s player pos ability targets hint = Inr out"
  shows "conserves s (ao_state out)"
  using assms
proof (rule activate_skill_cases)
  fix summon skill payment
  let ?ps = "player_of s player"
  let ?mid = "set_player s player (set_summon_at (?ps\<lparr>ps_mana := pm_bank payment\<rparr>) pos
    (Some (summon\<lparr>si_readiness := Exhausted\<rparr>)))"
  assume at: "summon_at ?ps pos = Some summon"
    and out: "ao_state out = fst (apply_leaves ?mid (effect_source.Skill player pos ability) targets
      (entity_all effect_field skill))"
  have "keeps_cards player ?ps (set_summon_at (?ps\<lparr>ps_mana := pm_bank payment\<rparr>) pos
    (Some (summon\<lparr>si_readiness := Exhausted\<rparr>)))"
    using keeps_mana by (rule keeps_cards_trans) (rule keeps_in_place, auto simp: at)
  then have "conserves s ?mid" by (rule conserves_set_player)
  then show ?thesis unfolding out by (rule conserves_trans) (rule conservation.leaves)
qed

lemma conserves_handover: "conserves s (ao_state (handover s))"
proof (rule conserves_players)
  show "keeps_cards p (player_of s p) (player_of (ao_state (handover s)) p)" for p
    by (auto simp: frame_simps turned_over_def clear_per_turn_flags_def drop_markers_def
        intro!: keeps_map_summons)
qed (simp add: frame_simps)

lemma conserves_pass:
  assumes "pass s player = Inr out" shows "conserves s (ao_state out)"
proof -
  have "conserves s (ao_state (handover (s\<lparr>gs_turn := turn\<rparr>)))" for turn
    by (rule conserves_trans [OF conserves_same conserves_handover]) simp_all
  then show ?thesis
    using assms by (auto simp: pass_def Let_def split: if_splits option.splits intro: conserves_same)
qed

lemma conserves_prize:
  assumes "answer_prize s player n = Inr out" shows "conserves s (ao_state out)"
proof -
  let ?ps = "player_of s (opponent player)"
  let ?new = "?ps\<lparr>ps_prizes := remove_nth n (ps_prizes ?ps), ps_hand := ps_hand ?ps @ [ps_prizes ?ps ! n]\<rparr>"
  have n: "n < length (ps_prizes ?ps)" and out: "ao_state out = (set_player s (opponent player) ?new)\<lparr>gs_pending := None\<rparr>"
    using assms by (auto simp: answer_prize_def Let_def split: if_splits)
  have "mset (ps_prizes ?ps) = add_mset (ps_prizes ?ps ! n) (mset (remove_nth n (ps_prizes ?ps)))"
    using mset_remove_nth [OF n] by simp
  then have "conserves s (set_player s (opponent player) ?new)"
    by (intro conserves_set_player keeps_piles) (simp_all add: pile_cards_def)
  then show ?thesis unfolding out by (rule conserves_after) simp_all
qed

lemma conserves_update_after:
  "keeps_cards p (player_of s p) (f (player_of s p)) \<Longrightarrow> gs_stack t = gs_stack s \<Longrightarrow> gs_players t = gs_players s
    \<Longrightarrow> conserves s (update_player t p f)"
  by (rule conserves_players) (simp_all add: player_of_def [of t] flip: player_of_def [of s])

text \<open>Every handler but the answer to a Promotion, which moves a Summon as the automatic one does.\<close>

lemma conserves_dispatch:
  assumes "dispatch s action = Inr out" and "\<forall>p slot. action \<noteq> ChoosePromotion p slot"
  shows "conserves s (ao_state out)"
proof (cases action)
  case (EndTurn p)
  then show ?thesis using assms by (auto simp: end_turn_def split: if_splits intro: conserves_same)
next
  case (ConvertCoin p t)
  then show ?thesis
    using assms by (auto simp: convert_coin_def split: if_splits intro!: conserves_update_after keeps_bank)
next
  case (ChooseManaType p t)
  then show ?thesis
    using assms by (auto simp: choose_mana_type_def split: if_splits option.splits pending_input.splits
        intro!: conserves_update_after keeps_bank)
next
  case (Resign p)
  then show ?thesis using assms by (auto simp: resign_def intro: conserves_same)
qed (use assms in \<open>auto intro: conserves_play conserves_upgrade conserves_retreat conserves_attack
    conserves_cast conserves_skill conserves_pass conserves_prize\<close>)

lemma no_gain_dispatch:
  assumes "dispatch s action = Inr out"
  shows "no_gain s (ao_state out)"
proof (cases "\<exists>p slot. action = ChoosePromotion p slot")
  case True
  then obtain p slot where "answer_promotion s p slot = Inr out" using assms by auto
  then have "ao_state out = (fst (promote_from_slot s p slot))\<lparr>gs_pending := None\<rparr>"
    by (auto simp: answer_promotion_def split_def Let_def split: if_splits)
  then show ?thesis using no_gain_trans [OF no_gain_promote no_gain_pending] by simp
next
  case False
  then show ?thesis using conserves_dispatch [OF assms] by (auto intro: conserves_no_gain)
qed

interpretation never_gains: engine_stable no_gain
proof
  show "no_gain s (fst (apply_leaf s source targets leaf))" for s source targets leaf
    by (rule conserves_no_gain [OF conserves_leaf])
  show "no_gain s (fst (execute (s\<lparr>gs_work := rest\<rparr>) item))" for s item rest
    by (rule no_gain_trans [OF conserves_no_gain [OF conserves_same] no_gain_execute]) simp_all
  show "no_gain s (fst (resolve_top_stack_item s))" for s
    by (rule conserves_no_gain [OF conserves_resolve_top])
  show "no_gain s (s\<lparr>gs_status := game_status.Ended outcome\<rparr>)" for s outcome
    by (rule conserves_no_gain [OF conserves_same]) simp_all
qed (auto intro: no_gain_trans no_gain_dispatch)

end
