(* ===== verification/Frames.thy ===== *)
theory Frames
  imports Game
begin

text \<open>
  What the pieces of the engine leave alone: how a leaf can change a player, how a work item can
  change the Stack and the queue. These frames are what the invariants of the later theories
  are proved from.
\<close>

section \<open>Leaves and players\<close>

definition bench_count :: "player_state \<Rightarrow> nat" where
  "bench_count ps = length (filter (\<lambda>slot. ps_bench ps slot \<noteq> None) bench_all)"

definition summon_count :: "player_state \<Rightarrow> nat" where
  "summon_count ps = (if ps_main ps \<noteq> None then 1 else 0) + bench_count ps"

text \<open>A leaf never changes losses, Prizes or Enchantments, and it fills or empties no board.\<close>

definition same_shape :: "player_state \<Rightarrow> player_state \<Rightarrow> bool" where
  "same_shape ps ps' \<longleftrightarrow> ps_main_losses ps' = ps_main_losses ps \<and> ps_prizes ps' = ps_prizes ps
     \<and> (ps_main ps' = None \<longleftrightarrow> ps_main ps = None) \<and> bench_count ps' = bench_count ps"

lemma same_shape_refl [simp]: "same_shape ps ps"
  by (simp add: same_shape_def)

lemma same_shape_trans: "same_shape a b \<Longrightarrow> same_shape b c \<Longrightarrow> same_shape a c"
  by (simp add: same_shape_def)

lemma bench_count_unfold:
  "bench_count ps = (if ps_bench ps bench_slot.First \<noteq> None then 1 else 0)
     + (if ps_bench ps bench_slot.Second \<noteq> None then 1 else 0)
     + (if ps_bench ps bench_slot.Third \<noteq> None then 1 else 0)"
  by (simp add: bench_count_def bench_all_def)

lemma bench_count_pos: "0 < bench_count ps \<longleftrightarrow> (\<exists>slot. ps_bench ps slot \<noteq> None)"
  by (auto simp: bench_count_unfold ex_bench_slot)

lemma same_shape_in_place:
  "summon_at ps pos = Some summon \<Longrightarrow> same_shape ps (set_summon_at ps pos (Some summon'))"
proof (cases pos)
  case (Bench slot)
  then show "summon_at ps pos = Some summon \<Longrightarrow> same_shape ps (set_summon_at ps pos (Some summon'))"
    by (cases slot) (simp_all add: same_shape_def bench_count_unfold)
qed (simp add: same_shape_def bench_count_unfold)

lemma same_shape_exchange:
  "ps_main ps = Some vacating \<Longrightarrow> ps_bench ps slot = Some incoming \<Longrightarrow>
     same_shape ps (exchange slot incoming vacating ps)"
  by (cases slot) (simp_all add: same_shape_def exchange_def bench_count_unfold)

lemma same_shape_move:
  "ps_bench ps from_slot = Some summon \<Longrightarrow> ps_bench ps to_slot = None \<Longrightarrow>
     same_shape ps (set_summon_at (set_summon_at ps (position.Bench from_slot) None)
       (position.Bench to_slot) (Some summon))"
  by (cases from_slot; cases to_slot) (simp_all add: same_shape_def bench_count_unfold)

lemma same_shape_piles:
  "ps_main ps' = ps_main ps \<Longrightarrow> ps_bench ps' = ps_bench ps \<Longrightarrow> ps_main_losses ps' = ps_main_losses ps
    \<Longrightarrow> ps_prizes ps' = ps_prizes ps \<Longrightarrow> same_shape ps ps'"
  by (simp add: same_shape_def bench_count_def)

definition shapes :: "game_state \<Rightarrow> game_state \<Rightarrow> bool" where
  "shapes s t \<longleftrightarrow> (\<forall>p. same_shape (player_of s p) (player_of t p))"

lemma shapes_refl [simp]: "shapes s s"
  by (simp add: shapes_def)

lemma shapes_trans: "shapes s t \<Longrightarrow> shapes t u \<Longrightarrow> shapes s u"
  unfolding shapes_def using same_shape_trans by blast

lemma shapes_update: "same_shape (player_of s p) (f (player_of s p)) \<Longrightarrow> shapes s (update_player s p f)"
  by (simp add: shapes_def)

lemma shapes_set: "same_shape (player_of s p) ps \<Longrightarrow> shapes s (set_player s p ps)"
  by (simp add: shapes_def)

lemma shapes_after: "shapes s t \<Longrightarrow> (\<And>p. player_of u p = player_of t p) \<Longrightarrow> shapes s u"
  by (simp add: shapes_def)

lemma shapes_draw_loop: "shapes s (fst (draw_loop n p s))"
proof (induction n arbitrary: s)
  case (Suc n)
  have "shapes s (update_player s p (take_top c r))" for c r
    by (rule shapes_update) (simp add: same_shape_piles)
  with Suc show ?case by (auto simp: split_def Let_def split: list.splits intro: shapes_trans)
qed simp

lemma shapes_produce_mana: "shapes s (fst (produce_mana s p src))"
  by (auto simp: produce_mana_def split: list.splits intro!: shapes_update same_shape_piles)
    (simp_all add: shapes_def)

lemma shapes_leaf: "shapes s (fst (apply_leaf s source targets leaf))"
proof (cases leaf)
  case (DealDamage effect)
  then show ?thesis
    by (auto simp: deal_damage_def commit_def Let_def shapes_def split: option.splits
        intro: same_shape_in_place)
next
  case (DrawCards n)
  then show ?thesis
    using shapes_draw_loop [of s "unat n" "effect_source_controller source"]
    by (auto simp: draw_cards_fst shapes_def frame_simps)
next
  case (ProduceMana target)
  then show ?thesis by (simp add: produce_mana_leaf_def shapes_produce_mana split: option.splits)
next
  case ReturnSpellFromDiscard
  then show ?thesis
    by (auto simp: return_spell_from_discard_def Let_def split: option.splits
        intro!: shapes_set same_shape_piles)
next
  case ReturnSpellToDeckTop
  then show ?thesis
    by (auto simp: return_spell_to_deck_top_def Let_def split: option.splits
        intro!: shapes_set same_shape_piles)
next
  case SwapPositions
  then show ?thesis
    by (auto simp: swap_positions_def Let_def shapes_def split: option.splits position.splits
        intro!: same_shape_exchange)
next
  case SwapOpposingPositions
  then show ?thesis
    by (auto simp: swap_opposing_positions_def Let_def shapes_def split: option.splits position.splits
        intro!: same_shape_exchange)
next
  case MoveSummon
  then show ?thesis
    by (auto simp: move_summon_def Let_def shapes_def simp del: set_summon_at.simps
        split: option.splits position.splits list.splits intro!: same_shape_move)
next
  case (Heal n target)
  then show ?thesis
    by (auto simp: heal_def Let_def split: option.splits intro!: shapes_update same_shape_in_place)
next
  case ReadySummon
  then show ?thesis
    by (auto simp: ready_summon_def split: option.splits intro!: shapes_update same_shape_in_place)
next
  case (CannotBeMovedByOpponent target)
  then show ?thesis
    by (auto simp: cannot_be_moved_by_opponent_def split: option.splits
        intro!: shapes_update same_shape_in_place)
qed (simp_all add: look_at_prizes_def)

interpretation shape: leaf_stable shapes
  by unfold_locales (auto intro: shapes_trans shapes_leaf)

section \<open>Leaves and the queue\<close>

text \<open>What a leaf can queue: destruction checks and movement steps.\<close>

definition leaf_work :: "work_item \<Rightarrow> bool" where
  "leaf_work w \<longleftrightarrow> (case w of DestructionCheck _ \<Rightarrow> True | MovementTrigger _ _ _ \<Rightarrow> True | _ \<Rightarrow> False)"

definition queues_leaf_work :: "game_state \<Rightarrow> game_state \<Rightarrow> bool" where
  "queues_leaf_work s t \<longleftrightarrow> (\<exists>ws. gs_work t = gs_work s @ ws \<and> (\<forall>w \<in> set ws. leaf_work w))"

lemma queues_leaf_work_same: "gs_work t = gs_work s \<Longrightarrow> queues_leaf_work s t"
  by (simp add: queues_leaf_work_def)

lemma queues_leaf_work_trans: "queues_leaf_work s t \<Longrightarrow> queues_leaf_work t u \<Longrightarrow> queues_leaf_work s u"
  by (force simp: queues_leaf_work_def)

lemma exchange_work_leaf: "\<forall>w \<in> set (exchange_work p slot). leaf_work w"
  by (simp add: exchange_work_def leaf_work_def)

lemma queues_leaf: "queues_leaf_work s (fst (apply_leaf s source targets leaf))"
proof (cases leaf)
  case (DealDamage effect)
  then show ?thesis
    by (auto simp: deal_damage_def commit_def Let_def queues_leaf_work_def leaf_work_def split: option.splits)
next
  case (DrawCards n)
  then show ?thesis by (simp add: draw_cards_fst frame_simps queues_leaf_work_same)
next
  case (ProduceMana target)
  then show ?thesis
    by (auto simp: produce_mana_leaf_def frame_simps split: option.splits intro!: queues_leaf_work_same)
next
  case SwapPositions
  then show ?thesis
    using exchange_work_leaf
    by (auto simp: swap_positions_def Let_def queues_leaf_work_def split: option.splits position.splits)
next
  case SwapOpposingPositions
  then show ?thesis
    using exchange_work_leaf
    by (auto simp: swap_opposing_positions_def Let_def queues_leaf_work_def split: option.splits position.splits)
next
  case MoveSummon
  then show ?thesis
    by (auto simp: move_summon_def Let_def queues_leaf_work_def leaf_work_def
        split: option.splits position.splits list.splits)
qed (auto simp: leaf_cases Let_def split: option.splits intro!: queues_leaf_work_same)

interpretation queueing: leaf_stable queues_leaf_work
  by unfold_locales (auto intro: queues_leaf_work_same queues_leaf_work_trans queues_leaf)

section \<open>The three ways of firing\<close>

lemma fire_queued_cases:
  obtains (gone) "ability_at s p pos ability = None" and "fst (fire_queued s p pos event ability) = s"
  | (respondable) effects where "ability_at s p pos ability = Some (True, effects)"
      and "fst (fire_queued s p pos event ability)
        = s\<lparr>gs_stack_segment_bases := gs_stack_segment_bases s @ [length (gs_stack s)],
            gs_stack := gs_stack s @ [stack_item.Trigger p pos ability event (implicit_targets pos effects) effects],
            gs_turn := (gs_turn s)\<lparr>ts_window := Some (window_after_play p)\<rparr>\<rparr>"
  | (immediate) effects where "ability_at s p pos ability = Some (False, effects)"
      and "fst (fire_queued s p pos event ability)
        = fst (apply_leaves s (effect_source.Trigger p pos ability) (implicit_targets pos effects) effects)"
proof (cases "ability_at s p pos ability")
  case None
  with gone show thesis by (simp add: fire_queued_def)
next
  case (Some trigger)
  obtain r effects where "trigger = (r, effects)" by fastforce
  with Some respondable immediate show thesis
    by (cases r) (simp_all add: fire_queued_def fire_def split_def Let_def)
qed

section \<open>Work items and the queue\<close>

text \<open>What a work item can put in front of the queue: triggers of a destruction or a movement, and
  movement steps.\<close>

definition front_work :: "work_item \<Rightarrow> bool" where
  "front_work w \<longleftrightarrow> (case w of FireTrigger _ _ _ _ \<Rightarrow> True | MovementTrigger _ _ _ \<Rightarrow> True | _ \<Rightarrow> False)"

text \<open>What it can put behind the queue: leaf work, or the destruction procedures of a check.\<close>

definition back_work :: "work_item list \<Rightarrow> bool" where
  "back_work ws \<longleftrightarrow> (\<forall>w \<in> set ws. leaf_work w)
     \<or> (\<exists>players pos. ws = concat (map (\<lambda>p. destruction_work p pos) players))"

lemma back_work_Nil [simp]: "back_work []"
  by (simp add: back_work_def)

lemma check_players_work:
  "\<exists>chosen. gs_work (check_players s pos ps) = gs_work s @ concat (map (\<lambda>p. destruction_work p pos) chosen)"
proof (induction s pos ps rule: check_players.induct)
  case (1 s pos)
  show ?case by (intro exI [of _ "[]"]) simp
next
  case (2 s pos player players)
  show ?case
  proof (cases "is_destroyed s player pos")
    case (Inl b)
    then show ?thesis by (intro exI [of _ "[]"]) simp
  next
    case (Inr destroyed)
    then obtain chosen where "gs_work (check_players s pos (player # players))
        = gs_work (if destroyed then enqueue_destruction player pos s else s)
          @ concat (map (\<lambda>p. destruction_work p pos) chosen)"
      using 2 by auto
    then show ?thesis
      by (intro exI [of _ "(if destroyed then [player] else []) @ chosen"]) simp
  qed
qed

lemma execute_work:
  "\<exists>front back. gs_work (fst (execute s item)) = front @ gs_work s @ back
     \<and> (\<forall>w \<in> set front. front_work w) \<and> back_work back"
proof -
  have same: ?thesis if "gs_work (fst (execute s item)) = gs_work s"
    using that by (intro exI [of _ "[]"]) simp
  have fires: "\<forall>w \<in> set (map (trigger_work e) cs). front_work w" for e cs
    by (auto simp: trigger_work_def front_work_def split: prod.splits)
  show ?thesis
  proof (cases item)
    case (DestructionCheck pos)
    then show ?thesis
      using check_players_work [of s pos "ordered_players s"]
      by (fastforce simp: destruction_check_def back_work_def)
  next
    case (DiscardDestroyedChain pos)
    have "\<exists>cs. gs_work (fst (discard_destroyed_chain s pos))
        = map (trigger_work AnySummonDestroyed) cs @ gs_work s"
      by (auto simp: discard_destroyed_chain_def Let_def discover_front_eq
          split: sum.splits option.splits intro: exI [of _ "[]"])
    then obtain cs where "gs_work (fst (execute s item))
        = map (trigger_work AnySummonDestroyed) cs @ gs_work s" using DiscardDestroyedChain by auto
    then show ?thesis
      using fires [of AnySummonDestroyed cs]
      by (intro exI [of _ "map (trigger_work AnySummonDestroyed) cs"] exI [of _ "[]"]) simp
  next
    case (ResolveMovementConsequences p)
    then show ?thesis
      using same
      by (cases "ps_main (player_of s p) = None")
        (simp_all add: resolve_movement_consequences_def front_work_def
          exI [of _ "[MovementTrigger LeavingBench p position.Main,
            MovementTrigger EnteringMain p position.Main]"] exI [of _ "[]"])
  next
    case (MovementTrigger step p pos)
    then obtain abilities where "gs_work (fst (execute s item))
        = map (FireTrigger p pos (movement_event step)) abilities @ gs_work s"
      by (cases "step = EnteringMain \<and> pos = position.Main") (auto simp: movement_trigger_eq Let_def)
    then show ?thesis
      by (intro exI [of _ "map (FireTrigger p pos (movement_event step)) abilities"] exI [of _ "[]"])
        (simp add: front_work_def)
  next
    case (FireTrigger p pos event ability)
    show ?thesis
    proof (cases rule: fire_queued_cases [of s p pos ability event])
      case (immediate effects)
      then show ?thesis
        using FireTrigger queueing.leaves [of s "effect_source.Trigger p pos ability"
            "implicit_targets pos effects" effects]
        by (fastforce simp: queues_leaf_work_def back_work_def intro: exI [of _ "[]"])
    qed (rule same, simp add: FireTrigger)+
  next
    case (PromoteBenchSummon p)
    then show ?thesis
      by (intro same) (auto simp: promote_bench_summon_def promote_from_slot_def split: list.splits option.splits)
  qed (use same in \<open>auto simp: frame_simps record_main_loss_def recover_prize_def loss_check_def
      begin_main_phase_def Let_def\<close>)
qed

section \<open>Work items and the Stack\<close>

text \<open>An item leaves the Stack and its segments alone, or it fires a respondable trigger: one new
  item on top, in a segment of its own, with a window opened for the opponent.\<close>

definition stack_frame :: "game_state \<Rightarrow> game_state \<Rightarrow> bool" where
  "stack_frame s t \<longleftrightarrow> gs_stack t = gs_stack s \<and> gs_stack_segment_bases t = gs_stack_segment_bases s
     \<and> ts_window (gs_turn t) = ts_window (gs_turn s)"

lemma execute_stack:
  "stack_frame s (fst (execute s item))
    \<or> (\<exists>top'. gs_stack (fst (execute s item)) = gs_stack s @ [top']
        \<and> gs_stack_segment_bases (fst (execute s item)) = gs_stack_segment_bases s @ [length (gs_stack s)]
        \<and> ts_window (gs_turn (fst (execute s item))) \<noteq> None)"
proof (cases item)
  case (FireTrigger p pos event ability)
  show ?thesis
    by (cases rule: fire_queued_cases [of s p pos ability event])
      (simp_all add: FireTrigger stack_frame_def frame_simps)
next
  case (DiscardDestroyedChain pos)
  then show ?thesis
    by (auto simp: discard_destroyed_chain_def Let_def discover_front_eq stack_frame_def
        split: sum.splits option.splits)
next
  case (PromoteBenchSummon p)
  then show ?thesis
    by (auto simp: promote_bench_summon_def promote_from_slot_def stack_frame_def
        split: list.splits option.splits)
qed (auto simp: stack_frame_def frame_simps destruction_check_def record_main_loss_def recover_prize_def
    loss_check_def begin_main_phase_def Let_def resolve_movement_consequences_def movement_trigger_eq)

lemma execute_cards [frame_simps]: "gs_cards (fst (execute s item)) = gs_cards s"
proof (cases item)
  case (FireTrigger p pos event ability)
  show ?thesis
    by (cases rule: fire_queued_cases [of s p pos ability event]) (simp_all add: FireTrigger frame_simps)
next
  case (DiscardDestroyedChain pos)
  then show ?thesis
    by (auto simp: discard_destroyed_chain_def Let_def discover_front_eq split: sum.splits option.splits)
next
  case (PromoteBenchSummon p)
  then show ?thesis
    by (auto simp: promote_bench_summon_def promote_from_slot_def split: list.splits option.splits)
qed (auto simp: frame_simps destruction_check_def record_main_loss_def recover_prize_def
    loss_check_def begin_main_phase_def Let_def resolve_movement_consequences_def movement_trigger_eq)

lemma resolve_item_frame [frame_simps]:
  "gs_stack (fst (resolve_item s item)) = gs_stack s"
  "gs_stack_segment_bases (fst (resolve_item s item)) = gs_stack_segment_bases s"
  "gs_turn (fst (resolve_item s item)) = gs_turn s"
  "gs_cards (fst (resolve_item s item)) = gs_cards s"
  by (cases item; simp add: resolve_attack_def resolve_spell_def split_def Let_def frame_simps split: option.splits)+

end
