(* ===== verification/Invariants.thy ===== *)
theory Invariants
  imports Frames
begin

text \<open>
  Invariants of whole matches, each an interpretation of \<open>game_invariant\<close>: the Stack segments,
  the advance out of Upkeep, the answerability of paused decisions, and the count of Main
  losses. \<open>handled\<close> sums up what an accepted action does to a state before the loop runs.
\<close>

section \<open>What an accepted action does\<close>

definition quiet :: "game_state \<Rightarrow> game_state \<Rightarrow> bool" where
  "quiet s t \<longleftrightarrow> gs_stack t = gs_stack s \<and> ts_phase (gs_turn t) = ts_phase (gs_turn s)
     \<and> queues_leaf_work s t"

definition pushed :: "game_state \<Rightarrow> game_state \<Rightarrow> bool" where
  "pushed s t \<longleftrightarrow> (\<exists>item. gs_stack t = gs_stack s @ [item])
     \<and> (ts_phase (gs_turn t) = ts_phase (gs_turn s) \<or> ts_phase (gs_turn t) = Combat)
     \<and> gs_work t = gs_work s"

definition turned :: "game_state \<Rightarrow> game_state \<Rightarrow> bool" where
  "turned s t \<longleftrightarrow> gs_stack s = [] \<and> gs_stack t = [] \<and> ts_phase (gs_turn t) = Upkeep
     \<and> (\<exists>fires p. (\<forall>w \<in> set fires. front_work w) \<and> gs_work t = gs_work s @ [ReadyAll] @ fires
          @ [DrawCard, work_item.ProduceMana p mana_source.Player, BeginMainPhase])"

definition handled :: "game_state \<Rightarrow> game_state \<Rightarrow> bool" where
  "handled s t \<longleftrightarrow> gs_cards t = gs_cards s \<and> gs_stack_segment_bases t = gs_stack_segment_bases s
     \<and> (\<forall>p. ps_main_losses (player_of t p) = ps_main_losses (player_of s p))
     \<and> (gs_pending t = None \<or> (\<exists>p src. gs_pending t = Some (ManaProduction p src)))
     \<and> (quiet s t \<or> pushed s t \<or> turned s t)"

lemma handled_skill:
  assumes "activate_skill s player pos ability targets hint = Inr out"
  shows "handled s (ao_state out)"
  using assms
proof (rule activate_skill_cases)
  fix summon skill payment
  let ?ps = "player_of s player"
  let ?mid = "set_player s player (set_summon_at (?ps\<lparr>ps_mana := pm_bank payment\<rparr>) pos
    (Some (summon\<lparr>si_readiness := Exhausted\<rparr>)))"
  let ?src = "effect_source.Skill player pos ability" and ?ls = "entity_all effect_field skill"
  assume free: "require_free_main_phase s = Inr ()"
    and out: "ao_state out = fst (apply_leaves ?mid ?src targets ?ls)"
  have "shapes ?mid (ao_state out)" "leaf_frame ?mid (ao_state out)" "queues_leaf_work ?mid (ao_state out)"
    unfolding out by (rule shape.leaves frame.leaves queueing.leaves)+
  then show ?thesis
    using free
    by (auto simp: handled_def quiet_def shapes_def same_shape_def leaf_frame_def queues_leaf_work_def
        require_free_main_phase_Inr split: if_splits)
qed

lemma handled_pass:
  assumes "pass s player = Inr out" shows "handled s (ao_state out)"
proof -
  have turned: "turned s (ao_state (handover (s\<lparr>gs_turn := turn\<rparr>)))" if "gs_stack s = []" for turn
    using that
    by (force simp: turned_def frame_simps fresh_turn_def handover_state Let_def trigger_work_def front_work_def
        split: prod.splits)
  have losses: "ps_main_losses (turned_over t p) = ps_main_losses (player_of t p)" for t p
    by (simp add: turned_over_def)
  from assms show ?thesis
    using turned
    by (auto simp: pass_def handled_def quiet_def queues_leaf_work_def frame_simps losses Let_def
        split: if_splits option.splits)
qed

lemma handled_dispatch:
  assumes "dispatch s action = Inr out" and "\<not> is_resign action"
  shows "handled s (ao_state out)"
proof (cases action)
  case (PlaySummon player i slot)
  with assms have "play_summon s player i slot = Inr out" by simp
  then show ?thesis
    by (rule play_summon_cases)
      (auto simp: handled_def quiet_def queues_leaf_work_def require_free_main_phase_Inr)
next
  case (UpgradeSummon player i pos)
  with assms have "upgrade_summon s player i pos = Inr out" by simp
  then show ?thesis
    by (rule upgrade_summon_cases)
      (auto simp: handled_def quiet_def queues_leaf_work_def require_free_main_phase_Inr)
next
  case (Retreat player slot hint)
  with assms have "retreat s player slot hint = Inr out" by simp
  then show ?thesis
    by (rule retreat_cases)
      (auto simp: handled_def quiet_def queues_leaf_work_def require_free_main_phase_Inr exchange_def
        exchange_work_def leaf_work_def)
next
  case (CastSpell player i targets hint)
  with assms have "cast_spell s player i targets hint = Inr out" by simp
  then show ?thesis
    by (rule cast_spell_cases) (auto simp: handled_def pushed_def cast_turn_def)
next
  case (DeclareAttack player target hint)
  with assms have "declare_attack s player target hint = Inr out" by simp
  then show ?thesis
    by (rule declare_attack_cases) (auto simp: handled_def pushed_def attack_turn_def)
next
  case (ChooseManaType p t)
  then show ?thesis
    using assms by (auto simp: choose_mana_type_def handled_def quiet_def queues_leaf_work_def
        split: if_splits option.splits pending_input.splits)
next
  case (ChoosePromotion p slot)
  then show ?thesis
    using assms by (auto simp: answer_promotion_def promote_from_slot_def split_def Let_def handled_def
        quiet_def queues_leaf_work_def split: if_splits option.splits)
next
  case (ChoosePrize p n)
  then show ?thesis
    using assms by (auto simp: answer_prize_def Let_def handled_def quiet_def queues_leaf_work_def
        split: if_splits)
next
  case (EndTurn p)
  then show ?thesis
    using assms by (auto simp: end_turn_def handled_def quiet_def queues_leaf_work_def split: if_splits)
next
  case (ConvertCoin p t)
  then show ?thesis
    using assms by (auto simp: convert_coin_def handled_def quiet_def queues_leaf_work_def split: if_splits)
qed (use assms in \<open>auto simp: is_resign_def intro: handled_skill handled_pass\<close>)

section \<open>The Stack segments\<close>

text \<open>Work only runs over a settled Stack, so a respondable trigger always opens its segment at the
  bottom: there is at most one segment, it starts at zero, and it is never empty.\<close>

definition segments_ok :: "game_state \<Rightarrow> bool" where
  "segments_ok s \<longleftrightarrow> gs_stack_segment_bases s = [] \<or> (gs_stack_segment_bases s = [0] \<and> gs_stack s \<noteq> [])"

lemma current_base_ok: "segments_ok s \<Longrightarrow> current_base s = 0"
  by (auto simp: segments_ok_def current_base_def last_of_def)

lemma settled_stack:
  assumes "segments_ok s" and "\<not> stack_has_unresolved_items s"
  shows "gs_stack s = []" and "gs_stack_segment_bases s = []"
proof -
  show "gs_stack s = []"
    using assms by (simp add: stack_has_unresolved_items_def current_base_ok)
  then show "gs_stack_segment_bases s = []" using assms(1) by (simp add: segments_ok_def)
qed

interpretation segments: game_invariant segments_ok
proof
  fix s :: game_state and source targets leaf
  assume "segments_ok s"
  then show "segments_ok (fst (apply_leaf s source targets leaf))"
    using leaf_frame_apply_leaf [of s source targets leaf] by (simp add: segments_ok_def leaf_frame_def)
next
  fix s :: game_state and item rest
  assume ok: "segments_ok s" and settled: "\<not> stack_has_unresolved_items s"
  note empty = settled_stack [OF ok settled]
  show "segments_ok (fst (execute (s\<lparr>gs_work := rest\<rparr>) item))"
    using execute_stack [of "s\<lparr>gs_work := rest\<rparr>" item] empty
    by (auto simp: segments_ok_def stack_frame_def)
next
  fix s :: game_state
  assume ok: "segments_ok s" and "\<not> drain_stops s" and unresolved: "stack_has_unresolved_items s"
  then obtain below item where stack: "gs_stack s = below @ [item]"
    by (cases "gs_stack s" rule: rev_cases) (auto simp: stack_has_unresolved_items_def)
  have "fst (resolve_top_stack_item s) = close_segment (fst (resolve_item (s\<lparr>gs_stack := below\<rparr>) item))"
    by (simp add: resolve_top_stack_item_def stack split_def Let_def)
  then show "segments_ok (fst (resolve_top_stack_item s))"
    using ok by (auto simp: segments_ok_def close_segment_def frame_simps last_of_def)
next
  fix s :: game_state and action out
  assume "segments_ok s" and "\<not> is_resign action" and "dispatch s action = Inr out"
  then show "segments_ok (ao_state out)"
    using handled_dispatch [of s action out]
    by (auto simp: handled_def segments_ok_def quiet_def pushed_def turned_def)
next
  fix s :: game_state and outcome
  assume "segments_ok s"
  then show "segments_ok (s\<lparr>gs_status := game_status.Ended outcome\<rparr>)" by (simp add: segments_ok_def)
qed

lemma parsed_segments: "from_scenario cards sc = Inr s \<Longrightarrow> segments_ok s"
  by (drule from_scenario_Inr) (simp add: segments_ok_def Let_def)

lemma reachable_segments: "reachable cards sc s \<Longrightarrow> segments_ok s"
  by (rule segments.I_reachable) (rule parsed_segments)

section \<open>Every match rests settled\<close>

lemma reachable_stops: "reachable cards sc s \<Longrightarrow> drain_stops s"
proof (induction rule: reachable.induct)
  case (parsed s)
  then show ?case
    by (auto dest!: from_scenario_Inr simp: drain_stops_def stack_has_unresolved_items_def Let_def)
next
  case (played s action out)
  from played(2) show ?case
    by (rule apply_action_accepted) (auto simp: resign_def drain_stops_def dest: drain_settles)
qed

lemma resting_state:
  assumes "reachable cards sc s" and "gs_status s = game_status.Playing"
    and "gs_pending s = None" and "ts_window (gs_turn s) = None"
  shows "gs_stack s = [] \<and> gs_stack_segment_bases s = [] \<and> gs_work s = []"
  using reachable_stops [OF assms(1)] assms(2-4) settled_stack [OF reachable_segments [OF assms(1)]]
  by (simp add: drain_stops_def)

section \<open>The advance out of Upkeep\<close>

text \<open>As long as the turn is in Upkeep, the step that ends it is still queued.\<close>

definition upkeep_ok :: "game_state \<Rightarrow> bool" where
  "upkeep_ok s \<longleftrightarrow> (ts_phase (gs_turn s) = Upkeep \<longrightarrow> BeginMainPhase \<in> set (gs_work s))"

lemma execute_phase:
  "ts_phase (gs_turn (fst (execute s item)))
    = (if item = BeginMainPhase then phase.Main else ts_phase (gs_turn s))"
proof (cases item)
  case (FireTrigger p pos event ability)
  show ?thesis
    by (cases rule: fire_queued_cases [of s p pos ability event]) (simp_all add: FireTrigger frame_simps)
next
  case (DiscardDestroyedChain pos)
  then show ?thesis
    by (auto simp: discard_destroyed_chain_def Let_def discover_front_eq split: sum.splits option.splits)
next
  case (PromoteBenchSummon p)
  then show ?thesis
    by (auto simp: promote_bench_summon_def promote_from_slot_def split: list.splits option.splits)
qed (auto simp: frame_simps destruction_check_def record_main_loss_def recover_prize_def
    loss_check_def begin_main_phase_def Let_def resolve_movement_consequences_def movement_trigger_eq)

lemma resolve_top_cases:
  assumes "stack_has_unresolved_items s"
  obtains below item where "gs_stack s = below @ [item]"
    and "fst (resolve_top_stack_item s) = close_segment (fst (resolve_item (s\<lparr>gs_stack := below\<rparr>) item))"
proof (cases "gs_stack s" rule: rev_cases)
  case (snoc below item)
  then show thesis
    using that by (simp add: resolve_top_stack_item_def split_def Let_def)
qed (use assms in \<open>simp add: stack_has_unresolved_items_def\<close>)

lemma close_segment_frame [simp]:
  "gs_players (close_segment s) = gs_players s" "gs_turn (close_segment s) = gs_turn s"
  "gs_work (close_segment s) = gs_work s" "gs_pending (close_segment s) = gs_pending s"
  "gs_status (close_segment s) = gs_status s" "gs_cards (close_segment s) = gs_cards s"
  "gs_stack (close_segment s) = gs_stack s" "player_of (close_segment s) p = player_of s p"
  by (simp_all add: close_segment_def player_of_def)

text \<open>Resolving a Stack item is a list of leaves and, for a Spell, putting the card away.\<close>

lemma resolve_item_leaves:
  "\<exists>src ts ls. fst (resolve_item s item) = fst (apply_leaves s src ts ls)
    \<or> (\<exists>caster c. fst (resolve_item s item) = update_player (fst (apply_leaves s src ts ls)) caster
          (place_resolved_spell (gs_cards s) c))"
proof (cases item)
  case (Attack attacker target)
  show ?thesis
  proof (cases "attacker_effects s attacker")
    case None
    then show ?thesis
      by (intro exI [of _ "[]"] exI disjI1) (simp add: Attack resolve_attack_def)
  next
    case (Some ae)
    then show ?thesis
      by (intro exI disjI1) (simp add: Attack resolve_attack_def split_def)
  qed
next
  case (Spell caster c ts)
  show ?thesis
    unfolding Spell
    by (intro exI disjI2) (simp add: resolve_spell_def split_def Let_def frame_simps)
next
  case (Trigger p pos ability event ts ls)
  then show ?thesis by (intro exI disjI1) simp
qed

lemma place_resolved_frame [simp]:
  "ps_main (place_resolved_spell cs c ps) = ps_main ps"
  "ps_bench (place_resolved_spell cs c ps) = ps_bench ps"
  "ps_prizes (place_resolved_spell cs c ps) = ps_prizes ps"
  "ps_main_losses (place_resolved_spell cs c ps) = ps_main_losses ps"
  by (simp_all add: place_resolved_spell_def)

lemma resolve_item_effects:
  "shapes s (fst (resolve_item s item))" "queues_leaf_work s (fst (resolve_item s item))"
  "gs_pending (fst (resolve_item s item)) = gs_pending s
    \<or> (\<exists>p src. gs_pending (fst (resolve_item s item)) = Some (ManaProduction p src))"
proof -
  obtain src ts ls where *: "fst (resolve_item s item) = fst (apply_leaves s src ts ls)
    \<or> (\<exists>caster c. fst (resolve_item s item) = update_player (fst (apply_leaves s src ts ls)) caster
          (place_resolved_spell (gs_cards s) c))"
    using resolve_item_leaves by blast
  let ?u = "fst (apply_leaves s src ts ls)"
  have put: "shapes u (update_player u p (place_resolved_spell cs c))"
    "queues_leaf_work u (update_player u p (place_resolved_spell cs c))" for u p cs c
    by (auto intro!: shapes_update same_shape_piles queues_leaf_work_same)
  have leaves: "shapes s ?u" "queues_leaf_work s ?u" "leaf_frame s ?u"
    by (rule shape.leaves queueing.leaves frame.leaves)+
  show "shapes s (fst (resolve_item s item))"
    using * leaves(1) put(1) [of ?u] shapes_trans by metis
  show "queues_leaf_work s (fst (resolve_item s item))"
    using * leaves(2) put(2) [of ?u] queues_leaf_work_trans by metis
  show "gs_pending (fst (resolve_item s item)) = gs_pending s
    \<or> (\<exists>p src. gs_pending (fst (resolve_item s item)) = Some (ManaProduction p src))"
    using * leaves(3) by (auto simp: leaf_frame_def)
qed

interpretation upkeep: game_invariant upkeep_ok
proof
  fix s :: game_state and source targets leaf
  assume "upkeep_ok s"
  then show "upkeep_ok (fst (apply_leaf s source targets leaf))"
    using leaf_frame_apply_leaf [of s source targets leaf] by (auto simp: upkeep_ok_def leaf_frame_def)
next
  fix s :: game_state and item rest
  assume "upkeep_ok s" and "gs_work s = item # rest"
  then show "upkeep_ok (fst (execute (s\<lparr>gs_work := rest\<rparr>) item))"
    using execute_work [of "s\<lparr>gs_work := rest\<rparr>" item]
    by (auto simp: upkeep_ok_def execute_phase)
next
  fix s :: game_state
  assume ok: "upkeep_ok s" and "stack_has_unresolved_items s"
  from this(2) show "upkeep_ok (fst (resolve_top_stack_item s))"
  proof (rule resolve_top_cases)
    fix below item
    assume "fst (resolve_top_stack_item s) = close_segment (fst (resolve_item (s\<lparr>gs_stack := below\<rparr>) item))"
    then show ?thesis
      using ok resolve_item_effects(2) [of "s\<lparr>gs_stack := below\<rparr>" item]
      by (auto simp: upkeep_ok_def queues_leaf_work_def frame_simps)
  qed
next
  fix s :: game_state and action out
  assume "upkeep_ok s" and "\<not> is_resign action" and "dispatch s action = Inr out"
  then show "upkeep_ok (ao_state out)"
    using handled_dispatch [of s action out]
    by (auto simp: handled_def upkeep_ok_def quiet_def pushed_def turned_def queues_leaf_work_def)
next
  fix s :: game_state and outcome
  assume "upkeep_ok s"
  then show "upkeep_ok (s\<lparr>gs_status := game_status.Ended outcome\<rparr>)" by (simp add: upkeep_ok_def)
qed

lemma parsed_upkeep: "from_scenario cards sc = Inr s \<Longrightarrow> upkeep_ok s"
  by (drule from_scenario_Inr) (simp add: upkeep_ok_def Let_def)

lemma reachable_upkeep: "reachable cards sc s \<Longrightarrow> upkeep_ok s"
  by (rule upkeep.I_reachable) (rule parsed_upkeep)

section \<open>Paused decisions\<close>

text \<open>A Promotion is only ever asked of a player with a Benched Summon, a Prize pick only when the
  recovering player has a Prize.\<close>

definition choice_ok :: "game_state \<Rightarrow> bool" where
  "choice_ok s \<longleftrightarrow>
     (\<forall>p. gs_pending s = Some (Promotion p) \<longrightarrow> 0 < bench_count (player_of s p))
     \<and> (\<forall>p. gs_pending s = Some (PrizePick p) \<longrightarrow> ps_prizes (player_of s (opponent p)) \<noteq> [])"

lemma choice_ok_shapes:
  "choice_ok s \<Longrightarrow> shapes s t \<Longrightarrow> gs_pending t = gs_pending s \<or> (\<exists>p src. gs_pending t = Some (ManaProduction p src))
    \<Longrightarrow> choice_ok t"
  by (auto simp: choice_ok_def shapes_def same_shape_def)

lemma execute_choice:
  assumes "gs_pending s = None"
  shows "choice_ok (fst (execute s item))"
proof (cases item)
  case (FireTrigger p pos event ability)
  show ?thesis
  proof (cases rule: fire_queued_cases [of s p pos ability event])
    case (immediate effects)
    have "choice_ok s" using assms by (simp add: choice_ok_def)
    then show ?thesis
      using immediate FireTrigger frame.leaves [of s "effect_source.Trigger p pos ability"
          "implicit_targets pos effects" effects]
        shape.leaves [of s "effect_source.Trigger p pos ability" "implicit_targets pos effects" effects]
      by (auto simp: leaf_frame_def intro: choice_ok_shapes)
  qed (use assms FireTrigger in \<open>simp_all add: choice_ok_def\<close>)
next
  case (DiscardDestroyedChain pos)
  then show ?thesis
    using assms by (auto simp: discard_destroyed_chain_def Let_def discover_front_eq choice_ok_def
        split: sum.splits option.splits)
next
  case (PromoteBenchSummon p)
  then show ?thesis
    using assms
    by (auto simp: promote_bench_summon_def promote_from_slot_def choice_ok_def bench_count_def
        occupied_bench_slots_def split: list.splits option.splits)
next
  case (ProduceMana p src)
  then show ?thesis
    using assms by (auto simp: produce_mana_def choice_ok_def split: list.splits)
qed (use assms in \<open>auto simp: frame_simps destruction_check_def record_main_loss_def recover_prize_def
    loss_check_def begin_main_phase_def Let_def resolve_movement_consequences_def movement_trigger_eq
    choice_ok_def\<close>)

interpretation choice: game_invariant choice_ok
proof
  fix s :: game_state and source targets leaf
  assume "choice_ok s"
  then show "choice_ok (fst (apply_leaf s source targets leaf))"
    using leaf_frame_apply_leaf [of s source targets leaf] shapes_leaf [of s source targets leaf]
    by (auto simp: leaf_frame_def intro: choice_ok_shapes)
next
  fix s :: game_state and item rest
  assume "\<not> drain_stops s"
  then show "choice_ok (fst (execute (s\<lparr>gs_work := rest\<rparr>) item))"
    by (intro execute_choice) (simp add: drain_stops_def)
next
  fix s :: game_state
  assume ok: "choice_ok s" and "stack_has_unresolved_items s"
  from this(2) show "choice_ok (fst (resolve_top_stack_item s))"
  proof (rule resolve_top_cases)
    fix below item
    let ?s = "s\<lparr>gs_stack := below\<rparr>"
    assume top': "fst (resolve_top_stack_item s) = close_segment (fst (resolve_item ?s item))"
    have "choice_ok ?s" using ok by (simp add: choice_ok_def)
    then have "choice_ok (fst (resolve_item ?s item))"
      using resolve_item_effects(1,3) [of ?s item] by (rule choice_ok_shapes)
    then show ?thesis by (simp add: top' choice_ok_def)
  qed
next
  fix s :: game_state and action out
  assume "\<not> is_resign action" and "dispatch s action = Inr out"
  then show "choice_ok (ao_state out)"
    using handled_dispatch [of s action out] by (auto simp: handled_def choice_ok_def)
next
  fix s :: game_state and outcome
  assume "choice_ok s"
  then show "choice_ok (s\<lparr>gs_status := game_status.Ended outcome\<rparr>)" by (simp add: choice_ok_def)
qed

lemma parsed_choice: "from_scenario cards sc = Inr s \<Longrightarrow> choice_ok s"
proof -
  assume "from_scenario cards sc = Inr s"
  then have wf: "well_formed cards sc" and s: "gs_players s = pp_new
      (built_player player_id.One (pp_one (sn_players sc))) (built_player player_id.Two (pp_two (sn_players sc)))"
    "gs_pending s = derive_pending (gs_players s)"
    by (auto dest!: from_scenario_Inr simp: Let_def)
  have player: "player_of s p = built_player p (pp_get (sn_players sc) p)" for p
    by (cases p) (simp_all add: player_of_def s(1) pp_get_def pp_new_def)
  have bench: "0 < bench_count (player_of s p)" if "ps_main (player_of s p) = None" for p
  proof -
    have "positioned_summons (pp_get (sn_players sc) p) \<noteq> []" using wf by (simp add: well_formed_def)
    then show ?thesis
      using that by (auto simp: player built_player_def positioned_summons_Nil bench_count_pos)
  qed
  have "ps_main (player_of s p) = None" if "gs_pending s = Some (Promotion p)" for p
    using that unfolding s(2) derive_pending_def
    by (auto simp: player_of_def split: option.splits if_splits)
  moreover have "gs_pending s \<noteq> Some (PrizePick p)" for p
    unfolding s(2) derive_pending_def by (simp split: option.splits)
  ultimately show ?thesis using bench by (simp add: choice_ok_def)
qed

lemma reachable_choice: "reachable cards sc s \<Longrightarrow> choice_ok s"
  by (rule choice.I_reachable) (rule parsed_choice)

end
