(* ===== verification/Losses.thy ===== *)
theory Losses
  imports Invariants
begin

text \<open>
  The count of Main losses as an invariant of the queue: every recorded loss is followed by its
  own loss check before the next loss of the same player, so a third loss always ends the game
  before anybody acts again. A scenario may describe a player with three losses or more; that
  very count alone can stand without a check. The invariant is also what bounds the resolution
  loop.
\<close>

section \<open>Queues in which every loss is checked\<close>

definition settles :: "player_id \<Rightarrow> work_item list \<Rightarrow> bool" where
  "settles p ws \<longleftrightarrow> LossCheck p \<in> set (takeWhile (\<lambda>w. w \<noteq> RecordMainLoss p) ws)"

fun guarded :: "player_id \<Rightarrow> work_item list \<Rightarrow> bool" where
  "guarded p [] = True"
| "guarded p (w # ws) = ((w = RecordMainLoss p \<longrightarrow> settles p ws) \<and> guarded p ws)"

definition plain :: "work_item \<Rightarrow> bool" where
  "plain w \<longleftrightarrow> (\<forall>p. w \<noteq> RecordMainLoss p)"

lemma takeWhile_append_member:
  "x \<in> set (takeWhile P xs) \<Longrightarrow> x \<in> set (takeWhile P (xs @ ys))"
  by (induction xs) (auto split: if_splits)

lemma settles_append: "settles p xs \<Longrightarrow> settles p (xs @ ys)"
  by (simp add: settles_def takeWhile_append_member)

lemma guarded_append: "guarded p xs \<Longrightarrow> guarded p ys \<Longrightarrow> guarded p (xs @ ys)"
  by (induction xs) (auto intro: settles_append)

lemma guarded_plain: "(\<forall>w \<in> set ws. plain w) \<Longrightarrow> guarded p ws"
  by (induction ws) (auto simp: plain_def)

lemma settles_front: "(\<forall>w \<in> set front. plain w) \<Longrightarrow> settles p ws \<Longrightarrow> settles p (front @ ws)"
  by (simp add: settles_def plain_def takeWhile_append2)

lemma settles_Cons:
  "settles p (w # ws) \<longleftrightarrow> w \<noteq> RecordMainLoss p \<and> (w = LossCheck p \<or> settles p ws)"
  by (auto simp: settles_def)

lemma guarded_destruction: "guarded p (destruction_work q pos)"
  by (simp add: destruction_work_def settles_def)

lemma front_plain: "front_work w \<Longrightarrow> plain w"
  by (simp add: front_work_def plain_def split: work_item.splits)

lemma leaf_plain: "leaf_work w \<Longrightarrow> plain w"
  by (simp add: leaf_work_def plain_def split: work_item.splits)

lemma guarded_back: "back_work ws \<Longrightarrow> guarded p ws"
proof (unfold back_work_def, elim disjE exE)
  fix players pos
  assume "ws = concat (map (\<lambda>p. destruction_work p pos) players)"
  then show "guarded p ws"
    by (induction players arbitrary: ws) (auto intro: guarded_append guarded_destruction)
qed (auto intro: guarded_plain leaf_plain)

section \<open>The invariant\<close>

text \<open>A third loss is about to be settled, or is the very count \<open>start\<close> that the match began with;
  and the count never wraps around unless the match began at the largest byte.\<close>

definition losses_ok :: "(player_id \<Rightarrow> u8) \<Rightarrow> game_state \<Rightarrow> bool" where
  "losses_ok start s \<longleftrightarrow> (\<forall>p. guarded p (gs_work s)
     \<and> (gs_status s = game_status.Playing \<longrightarrow> start p \<le> ps_main_losses (player_of s p) \<or> start p = 255)
     \<and> (gs_status s = game_status.Playing \<longrightarrow> 3 \<le> ps_main_losses (player_of s p)
          \<longrightarrow> ps_main_losses (player_of s p) = start p \<or> settles p (gs_work s)))"

lemma execute_losses:
  "ps_main_losses (player_of (fst (execute s item)) p)
    = (if item = RecordMainLoss p then ps_main_losses (player_of s p) + 1 else ps_main_losses (player_of s p))"
proof (cases item)
  case (FireTrigger q pos event ability)
  show ?thesis
  proof (cases rule: fire_queued_cases [of s q pos ability event])
    case (immediate effects)
    then show ?thesis
      using FireTrigger shape.leaves [of s "effect_source.Trigger q pos ability" "implicit_targets pos effects" effects]
      by (simp add: shapes_def same_shape_def)
  qed (use FireTrigger in simp_all)
next
  case (DiscardDestroyedChain pos)
  then show ?thesis
    by (auto simp: discard_destroyed_chain_def Let_def discover_front_eq split: sum.splits option.splits)
next
  case (PromoteBenchSummon q)
  then show ?thesis
    by (auto simp: promote_bench_summon_def promote_from_slot_def split: list.splits option.splits)
next
  case (ProduceMana q src)
  then show ?thesis by (auto simp: produce_mana_def split: list.splits)
next
  case DrawCard
  then show ?thesis by (auto simp: execute_draw_cases Let_def frame_simps split: list.splits)
next
  case (DestructionCheck pos)
  then show ?thesis by (simp add: destruction_check_def frame_simps player_of_def)
qed (auto simp: frame_simps record_main_loss_def recover_prize_def ready_all_def
    loss_check_def begin_main_phase_def Let_def resolve_movement_consequences_def movement_trigger_eq)

lemma unat_numeral_u8: "unat (255 :: u8) = 255"
  by simp

lemma no_wrap:
  fixes n start :: u8
  assumes "start \<le> n \<or> start = 255" and "\<not> 3 \<le> n \<or> n = start"
  shows "start \<le> n + 1 \<or> start = 255"
proof (cases "n = 255")
  case True
  with assms show ?thesis by auto
next
  case False
  then have "unat n \<noteq> 255" by (metis unat_numeral_u8 word_unat_eq_iff)
  then have "unat n < 255" using unsigned_less [of n, where 'a = nat] by simp
  then have "unat (n + 1) = Suc (unat n)" by (simp add: unat_word_ariths)
  with assms(1) show ?thesis by (auto simp: word_le_nat_alt)
qed

lemma execute_losses_ok:
  assumes ok: "losses_ok start s" and work: "gs_work s = item # rest" and playing: "gs_status s = game_status.Playing"
  shows "losses_ok start (fst (execute (s\<lparr>gs_work := rest\<rparr>) item))"
proof -
  let ?t = "fst (execute (s\<lparr>gs_work := rest\<rparr>) item)"
  obtain ahead behind where queue: "gs_work ?t = ahead @ rest @ behind"
    and front: "\<forall>w \<in> set ahead. front_work w" and behind: "back_work behind"
    using execute_work [of "s\<lparr>gs_work := rest\<rparr>" item] by auto
  have guarded: "guarded p (gs_work ?t)" for p
  proof -
    have "guarded p rest" using ok work by (simp add: losses_ok_def)
    moreover have "guarded p ahead" using front by (auto intro: guarded_plain front_plain)
    ultimately show ?thesis
      unfolding queue by (intro guarded_append) (simp_all add: guarded_back [OF behind])
  qed
  have "ps_main_losses (player_of ?t p) = start p \<or> settles p (gs_work ?t)"
    if "gs_status ?t = game_status.Playing" and three: "3 \<le> ps_main_losses (player_of ?t p)" for p
  proof -
    have "ps_main_losses (player_of ?t p) = start p \<or> settles p rest"
    proof (cases "item = RecordMainLoss p")
      case True
      with ok work show ?thesis by (auto simp: losses_ok_def)
    next
      case False
      then have "ps_main_losses (player_of ?t p) = start p \<or> settles p (item # rest)"
        using ok work playing three by (auto simp: losses_ok_def execute_losses)
      moreover have "item \<noteq> LossCheck p"
      proof
        assume "item = LossCheck p"
        with that show False by (auto simp: loss_check_def lose_def Let_def split: if_splits)
      qed
      ultimately show ?thesis by (auto simp: settles_Cons)
    qed
    then show ?thesis
      unfolding queue using front settles_append [of p rest behind]
      by (metis front_plain settles_front)
  qed
  moreover have "start p \<le> ps_main_losses (player_of ?t p) \<or> start p = 255" for p
  proof (cases "item = RecordMainLoss p")
    case True
    with ok work playing have "\<not> 3 \<le> ps_main_losses (player_of s p) \<or> ps_main_losses (player_of s p) = start p"
      "start p \<le> ps_main_losses (player_of s p) \<or> start p = 255"
      by (auto simp: losses_ok_def settles_Cons)
    with True show ?thesis using no_wrap [where n = "ps_main_losses (player_of s p)" and start = "start p"]
      by (simp add: record_main_loss_def)
  next
    case False
    with ok playing show ?thesis by (simp add: losses_ok_def execute_losses)
  qed
  ultimately show ?thesis using guarded by (simp add: losses_ok_def)
qed

lemma losses_ok_append:
  assumes ok: "losses_ok start s" and work: "gs_work t = gs_work s @ ws" and plain: "\<forall>w \<in> set ws. plain w"
    and playing: "gs_status t = game_status.Playing \<Longrightarrow> gs_status s = game_status.Playing"
    and same: "\<And>p. ps_main_losses (player_of t p) = ps_main_losses (player_of s p)"
  shows "losses_ok start t"
proof -
  have "guarded p (gs_work s @ ws)" for p
    using ok by (simp add: losses_ok_def guarded_append guarded_plain [OF plain])
  moreover have "ps_main_losses (player_of s p) = start p \<or> settles p (gs_work s @ ws)"
    if "gs_status t = game_status.Playing" and "3 \<le> ps_main_losses (player_of s p)" for p
    using ok playing [OF that(1)] that(2) by (auto simp: losses_ok_def settles_append)
  moreover have "start p \<le> ps_main_losses (player_of s p) \<or> start p = 255"
    if "gs_status t = game_status.Playing" for p
    using ok playing [OF that] by (simp add: losses_ok_def)
  ultimately show ?thesis by (simp add: losses_ok_def work same)
qed

lemma losses_ok_leaf_work:
  assumes "losses_ok start s" and "queues_leaf_work s t"
    and "gs_status t = game_status.Playing \<Longrightarrow> gs_status s = game_status.Playing"
    and "\<And>p. ps_main_losses (player_of t p) = ps_main_losses (player_of s p)"
  shows "losses_ok start t"
proof -
  obtain ws where "gs_work t = gs_work s @ ws" "\<forall>w \<in> set ws. plain w"
    using assms(2) by (auto simp: queues_leaf_work_def intro: leaf_plain)
  from losses_ok_append [OF assms(1) this assms(3,4)] show ?thesis .
qed

lemma resolve_item_status:
  "gs_status (fst (resolve_item s item)) = game_status.Playing \<Longrightarrow> gs_status s = game_status.Playing"
proof -
  obtain src ts ls where *: "fst (resolve_item s item) = fst (apply_leaves s src ts ls)
    \<or> (\<exists>caster c. fst (resolve_item s item) = update_player (fst (apply_leaves s src ts ls)) caster
          (place_resolved_spell (gs_cards s) c))"
    using resolve_item_leaves by blast
  then show "gs_status (fst (resolve_item s item)) = game_status.Playing \<Longrightarrow> gs_status s = game_status.Playing"
    using frame.leaves [of s src ts ls] by (auto simp: leaf_frame_def)
qed

lemma handled_queue:
  assumes "handled s t"
  obtains ws where "gs_work t = gs_work s @ ws" and "\<forall>w \<in> set ws. plain w"
proof -
  from assms consider "quiet s t" | "pushed s t" | "turned s t" by (auto simp: handled_def)
  then show thesis
  proof cases
    case 1
    then show thesis using that by (auto simp: quiet_def queues_leaf_work_def intro: leaf_plain)
  next
    case 2
    then show thesis using that [of "[]"] by (simp add: pushed_def)
  next
    case 3
    then obtain fires p where "\<forall>w \<in> set fires. front_work w" and "gs_work t = gs_work s @ [ReadyAll] @ fires
          @ [DrawCard, work_item.ProduceMana p mana_source.Player, BeginMainPhase]"
      by (auto simp: turned_def)
    then show thesis
      by (intro that [of "[ReadyAll] @ fires @ [DrawCard, work_item.ProduceMana p mana_source.Player, BeginMainPhase]"])
        (auto intro: front_plain, simp_all add: plain_def)
  qed
qed

interpretation losses: game_invariant "losses_ok start" for start :: "player_id \<Rightarrow> u8"
proof
  fix s :: game_state and source targets leaf
  assume "losses_ok start s"
  then show "losses_ok start (fst (apply_leaf s source targets leaf))"
    using leaf_frame_apply_leaf [of s source targets leaf] shapes_leaf [of s source targets leaf]
      queues_leaf [of s source targets leaf]
    by (auto simp: leaf_frame_def shapes_def same_shape_def intro: losses_ok_leaf_work)
next
  fix s :: game_state and item rest
  assume "losses_ok start s" and "gs_work s = item # rest" and "\<not> drain_stops s"
  then show "losses_ok start (fst (execute (s\<lparr>gs_work := rest\<rparr>) item))"
    by (intro execute_losses_ok) (simp_all add: drain_stops_def is_playing_iff)
next
  fix s :: game_state
  assume ok: "losses_ok start s" and "stack_has_unresolved_items s"
  from this(2) show "losses_ok start (fst (resolve_top_stack_item s))"
  proof (rule resolve_top_cases)
    fix below item
    let ?s = "s\<lparr>gs_stack := below\<rparr>"
    assume top': "fst (resolve_top_stack_item s) = close_segment (fst (resolve_item ?s item))"
    have "losses_ok start ?s" using ok by (simp add: losses_ok_def)
    then have "losses_ok start (fst (resolve_item ?s item))"
      by (rule losses_ok_leaf_work [OF _ resolve_item_effects(2) resolve_item_status])
        (use resolve_item_effects(1) [of ?s item] in \<open>simp_all add: shapes_def same_shape_def\<close>)
    then show ?thesis by (simp add: top' losses_ok_def)
  qed
next
  fix s :: game_state and action out
  assume ok: "losses_ok start s" and "gs_status s = game_status.Playing" and "\<not> is_resign action"
    and "dispatch s action = Inr out"
  have h: "handled s (ao_state out)"
    by (rule handled_dispatch [OF \<open>dispatch s action = Inr out\<close> \<open>\<not> is_resign action\<close>])
  obtain ws where ws: "gs_work (ao_state out) = gs_work s @ ws" "\<forall>w \<in> set ws. plain w"
    using h by (rule handled_queue)
  show "losses_ok start (ao_state out)"
    by (rule losses_ok_append [OF ok ws])
      (use h \<open>gs_status s = game_status.Playing\<close> in \<open>simp_all add: handled_def\<close>)
next
  fix s :: game_state and outcome
  assume "losses_ok start s"
  then show "losses_ok start (s\<lparr>gs_status := game_status.Ended outcome\<rparr>)" by (simp add: losses_ok_def)
qed

text \<open>The counts a scenario starts with.\<close>

definition described_losses :: "scenario \<Rightarrow> player_id \<Rightarrow> u8" where
  "described_losses sc p = sp_main_losses (pp_get (sn_players sc) p)"

lemma parsed_player:
  "from_scenario cards sc = Inr s \<Longrightarrow> player_of s p = built_player p (pp_get (sn_players sc) p)"
  by (drule from_scenario_Inr, cases p) (simp_all add: player_of_def pp_get_def pp_new_def Let_def)

lemma parsed_losses: "from_scenario cards sc = Inr s \<Longrightarrow> losses_ok (described_losses sc) s"
  using from_scenario_Inr [of cards sc s]
  by (simp add: losses_ok_def parsed_player built_player_def described_losses_def Let_def)

lemma reachable_losses: "reachable cards sc s \<Longrightarrow> losses_ok (described_losses sc) s"
  by (rule losses.I_reachable) (rule parsed_losses)

section \<open>The card set of a match\<close>

interpretation same_cards: engine_stable "\<lambda>s t. gs_cards t = gs_cards s"
proof
  show "gs_cards (fst (apply_leaf s source targets leaf)) = gs_cards s" for s source targets leaf
    using leaf_frame_apply_leaf [of s source targets leaf] by (simp add: leaf_frame_def)
  show "gs_cards (fst (execute (s\<lparr>gs_work := rest\<rparr>) item)) = gs_cards s" for s item rest
    by (simp add: frame_simps)
  show "gs_cards (fst (resolve_top_stack_item s)) = gs_cards s" if "stack_has_unresolved_items s" for s
    using that by (rule resolve_top_cases) (simp add: frame_simps)
  show "gs_cards (ao_state out) = gs_cards s"
    if "\<not> is_resign action" "dispatch s action = Inr out" for s action out
    using handled_dispatch [OF that(2,1)] by (simp add: handled_def)
qed simp_all

lemma reachable_cards: "reachable cards sc s \<Longrightarrow> gs_cards s = cards"
  by (drule same_cards.from_start) (auto dest!: from_scenario_Inr simp: Let_def)

end
