(* ===== verification/Chains.thy ===== *)
theory Chains
  imports Losses
begin

text \<open>
  Upgrade chains as an invariant: in every reachable state each Summon's chain is non-empty,
  every card of it prints a Form, and the Forms strictly climb. Only playing and upgrading build
  a chain; everything else moves Summons about or removes them.
\<close>

section \<open>Operations that build no chain\<close>

definition same_chains :: "player_state \<Rightarrow> player_state \<Rightarrow> bool" where
  "same_chains ps ps' \<longleftrightarrow> (\<forall>pos summon'. summon_at ps' pos = Some summon' \<longrightarrow>
     (\<exists>pos0 summon. summon_at ps pos0 = Some summon \<and> si_chain summon' = si_chain summon))"

definition no_new_chain :: "game_state \<Rightarrow> game_state \<Rightarrow> bool" where
  "no_new_chain s t \<longleftrightarrow> gs_cards t = gs_cards s \<and> (\<forall>p. same_chains (player_of s p) (player_of t p))"

lemma same_chains_refl [simp]: "same_chains ps ps"
  by (auto simp: same_chains_def)

lemma same_chains_trans: "same_chains a b \<Longrightarrow> same_chains b c \<Longrightarrow> same_chains a c"
  unfolding same_chains_def by metis

lemma no_new_chain_refl [simp]: "no_new_chain s s"
  by (simp add: no_new_chain_def)

lemma no_new_chain_trans: "no_new_chain s t \<Longrightarrow> no_new_chain t u \<Longrightarrow> no_new_chain s u"
  unfolding no_new_chain_def using same_chains_trans by metis

lemma same_chains_set:
  "(\<And>summon'. v = Some summon' \<Longrightarrow> \<exists>pos0 summon. summon_at ps pos0 = Some summon \<and> si_chain summon' = si_chain summon)
    \<Longrightarrow> same_chains ps (set_summon_at ps pos v)"
  by (auto simp: same_chains_def summon_at_set_summon_at)

lemma same_chains_in_place:
  "summon_at ps pos = Some summon \<Longrightarrow> si_chain summon' = si_chain summon
    \<Longrightarrow> same_chains ps (set_summon_at ps pos (Some summon'))"
  by (rule same_chains_set) auto

lemma same_chains_piles:
  "ps_main ps' = ps_main ps \<Longrightarrow> ps_bench ps' = ps_bench ps \<Longrightarrow> same_chains ps ps'"
  using summon_at_cong [of ps' ps] by (auto simp: same_chains_def)

lemma same_chains_exchange:
  assumes "ps_main ps = Some vacating" and "ps_bench ps slot = Some incoming"
  shows "same_chains ps (exchange slot incoming vacating ps)"
proof -
  have "summon_at ps position.Main = Some vacating" "summon_at ps (position.Bench slot) = Some incoming"
    using assms by simp_all
  then show ?thesis
    unfolding exchange_def same_chains_def by (auto simp: summon_at_set_summon_at simp del: summon_at.simps set_summon_at.simps)
qed

lemma same_chains_move:
  assumes "ps_bench ps from_slot = Some summon"
  shows "same_chains ps (set_summon_at (set_summon_at ps (position.Bench from_slot) None) to_pos (Some summon))"
proof -
  have "summon_at ps (position.Bench from_slot) = Some summon" using assms by simp
  then show ?thesis
    unfolding same_chains_def by (auto simp: summon_at_set_summon_at simp del: summon_at.simps set_summon_at.simps)
qed

lemma same_chains_map_summons:
  "(\<And>summon. si_chain (f summon) = si_chain summon) \<Longrightarrow> same_chains ps (map_summons f ps)"
  by (auto simp: same_chains_def)

lemma no_new_chain_players:
  "gs_cards t = gs_cards s \<Longrightarrow> gs_players t = gs_players s \<Longrightarrow> no_new_chain s t"
  by (simp add: no_new_chain_def player_of_def)

lemma no_new_chain_update:
  "same_chains (player_of s p) (f (player_of s p)) \<Longrightarrow> no_new_chain s (update_player s p f)"
  by (simp add: no_new_chain_def)

lemma no_new_chain_set: "same_chains (player_of s p) ps \<Longrightarrow> no_new_chain s (set_player s p ps)"
  by (simp add: no_new_chain_def)

lemma no_new_chain_after:
  "no_new_chain s t \<Longrightarrow> gs_cards u = gs_cards t \<Longrightarrow> gs_players u = gs_players t \<Longrightarrow> no_new_chain s u"
  by (simp add: no_new_chain_def player_of_def)

lemma no_new_chain_draw_loop: "no_new_chain s (fst (draw_loop n p s))"
proof (induction n arbitrary: s)
  case (Suc n)
  have "no_new_chain s (update_player s p (take_top c r))" for c r
    by (rule no_new_chain_update) (simp add: same_chains_piles)
  with Suc show ?case by (auto simp: split_def Let_def split: list.splits intro: no_new_chain_trans)
qed simp

lemma no_new_chain_produce: "no_new_chain s (fst (produce_mana s p src))"
  by (auto simp: produce_mana_def split: list.splits intro!: no_new_chain_update same_chains_piles)
    (simp_all add: no_new_chain_def)

lemma no_new_chain_leaf: "no_new_chain s (fst (apply_leaf s source targets leaf))"
proof (cases leaf)
  case (DealDamage effect)
  then show ?thesis
    by (auto simp: deal_damage_def commit_def Let_def no_new_chain_def split: option.splits
        intro: same_chains_in_place)
next
  case (DrawCards n)
  then show ?thesis
    using no_new_chain_draw_loop [of s "unat n" "effect_source_controller source"]
    by (auto simp: draw_cards_fst frame_simps intro: no_new_chain_after)
next
  case (ProduceMana target)
  then show ?thesis by (simp add: produce_mana_leaf_def no_new_chain_produce split: option.splits)
next
  case ReturnSpellFromDiscard
  then show ?thesis
    by (auto simp: return_spell_from_discard_def Let_def split: option.splits
        intro!: no_new_chain_set same_chains_piles)
next
  case ReturnSpellToDeckTop
  then show ?thesis
    by (auto simp: return_spell_to_deck_top_def Let_def split: option.splits
        intro!: no_new_chain_set same_chains_piles)
next
  case SwapPositions
  then show ?thesis
    by (auto simp: swap_positions_def Let_def no_new_chain_def split: option.splits position.splits
        intro!: same_chains_exchange)
next
  case SwapOpposingPositions
  then show ?thesis
    by (auto simp: swap_opposing_positions_def Let_def no_new_chain_def split: option.splits position.splits
        intro!: same_chains_exchange)
next
  case MoveSummon
  then show ?thesis
    by (auto simp: move_summon_def Let_def no_new_chain_def simp del: set_summon_at.simps
        split: option.splits position.splits list.splits intro!: same_chains_move)
next
  case (Heal n target)
  then show ?thesis
    by (auto simp: heal_def Let_def split: option.splits intro!: no_new_chain_update same_chains_in_place)
next
  case ReadySummon
  then show ?thesis
    by (auto simp: ready_summon_def split: option.splits intro!: no_new_chain_update same_chains_in_place)
next
  case (CannotBeMovedByOpponent target)
  then show ?thesis
    by (auto simp: cannot_be_moved_by_opponent_def split: option.splits
        intro!: no_new_chain_update same_chains_in_place)
qed (simp_all add: look_at_prizes_def)

interpretation chains: leaf_stable no_new_chain
  by unfold_locales (auto intro: no_new_chain_trans no_new_chain_leaf)

lemma no_new_chain_promote: "no_new_chain s (fst (promote_from_slot s p slot))"
  by (auto simp: promote_from_slot_def simp del: set_summon_at.simps split: option.splits
      intro!: no_new_chain_update same_chains_move)

lemma no_new_chain_discard: "no_new_chain s (fst (discard_destroyed_chain s pos))"
proof (cases "destroyed_controller s pos")
  case (Inl b)
  then show ?thesis by (simp add: discard_destroyed_chain_def no_new_chain_players)
next
  case (Inr found)
  have 1: "no_new_chain t (update_player t p (\<lambda>ps. set_summon_at ps pos None))" for t p
    by (intro no_new_chain_update same_chains_set) simp
  have 2: "no_new_chain t (update_player t p (\<lambda>ps. ps\<lparr>ps_discard := d ps\<rparr>))" for t p d
    by (intro no_new_chain_update same_chains_piles) simp_all
  have 3: "no_new_chain s (discover_front t ps e)" if "no_new_chain s t" for t ps e
    using that by (rule no_new_chain_after) (simp_all add: discover_front_eq)
  show ?thesis
    using Inr by (auto simp: discard_destroyed_chain_def Let_def split: option.splits
        intro!: 3 no_new_chain_trans [OF 1 2])
qed

lemma no_new_chain_execute: "no_new_chain s (fst (execute s item))"
proof (cases item)
  case (FireTrigger p pos event ability)
  show ?thesis
  proof (cases rule: fire_queued_cases [of s p pos ability event])
    case (immediate effects)
    then show ?thesis using FireTrigger chains.leaves by simp
  qed (simp_all add: FireTrigger no_new_chain_players)
next
  case (DestructionCheck pos)
  then show ?thesis by (simp add: destruction_check_def frame_simps no_new_chain_players)
next
  case (PromoteBenchSummon p)
  then show ?thesis
    by (auto simp: promote_bench_summon_def no_new_chain_promote no_new_chain_players split: list.splits)
next
  case (RecordMainLoss p)
  then show ?thesis
    by (auto simp: record_main_loss_def intro!: no_new_chain_update same_chains_piles)
next
  case (MovementTrigger step p pos)
  have mark: "no_new_chain s (update_player s p (\<lambda>ps. ps\<lparr>ps_main := map_option mark_main_entry (ps_main ps)\<rparr>))"
  proof (rule no_new_chain_update)
    let ?ps = "player_of s p"
    show "same_chains ?ps (?ps\<lparr>ps_main := map_option mark_main_entry (ps_main ?ps)\<rparr>)"
    proof (cases "ps_main ?ps")
      case None
      then have "?ps\<lparr>ps_main := map_option mark_main_entry (ps_main ?ps)\<rparr> = ?ps" by simp
      then show ?thesis by simp
    next
      case (Some summon)
      then have "?ps\<lparr>ps_main := map_option mark_main_entry (ps_main ?ps)\<rparr>
          = set_summon_at ?ps position.Main (Some (mark_main_entry summon))" by simp
      then show ?thesis
        using same_chains_in_place [of ?ps position.Main summon "mark_main_entry summon"] Some
        by (simp add: mark_main_entry_def)
    qed
  qed
  show ?thesis
    using no_new_chain_after [OF mark] MovementTrigger
    by (cases "step = EnteringMain \<and> pos = position.Main")
      (auto simp: movement_trigger_eq Let_def intro: no_new_chain_players)
next
  case ReadyAll
  then show ?thesis
    by (auto simp: ready_all_def Let_def intro!: no_new_chain_update same_chains_map_summons)
next
  case DrawCard
  then show ?thesis
    by (auto simp: execute_draw_cases Let_def frame_simps split: list.splits
        intro!: no_new_chain_update same_chains_piles)
      (simp add: no_new_chain_players frame_simps)
next
  case (LossCheck p)
  then show ?thesis by (auto simp: loss_check_def Let_def frame_simps intro: no_new_chain_players)
next
  case (RecoverPrize p)
  then show ?thesis by (auto simp: recover_prize_def intro: no_new_chain_players)
next
  case (ResolveMovementConsequences p)
  then show ?thesis by (auto simp: resolve_movement_consequences_def intro: no_new_chain_players)
next
  case BeginMainPhase
  then show ?thesis by (auto simp: begin_main_phase_def intro: no_new_chain_players)
qed (simp_all add: no_new_chain_discard no_new_chain_produce)

lemma no_new_chain_resolve_item: "no_new_chain s (fst (resolve_item s item))"
proof -
  obtain src ts ls where *: "fst (resolve_item s item) = fst (apply_leaves s src ts ls)
    \<or> (\<exists>caster c. fst (resolve_item s item) = update_player (fst (apply_leaves s src ts ls)) caster
          (place_resolved_spell (gs_cards s) c))"
    using resolve_item_leaves by blast
  have put: "no_new_chain u (update_player u p (place_resolved_spell cs c))" for u p cs c
    by (intro no_new_chain_update same_chains_piles) simp_all
  show ?thesis using * put chains.leaves [of s src ts ls] no_new_chain_trans by metis
qed

section \<open>The invariant\<close>

definition chains_ok :: "game_state \<Rightarrow> bool" where
  "chains_ok s \<longleftrightarrow> (\<forall>p pos summon. summon_at (player_of s p) pos = Some summon \<longrightarrow>
     climbs (gs_cards s) (chain_layers (si_chain summon)))"

lemma chains_ok_no_new: "chains_ok s \<Longrightarrow> no_new_chain s t \<Longrightarrow> chains_ok t"
  unfolding chains_ok_def no_new_chain_def same_chains_def by metis

lemma chains_ok_put:
  assumes "chains_ok s" and "\<And>pos. summon_at ps' pos = summon_at (player_of s p) pos"
    and "climbs (gs_cards s) (chain_layers (si_chain summon))"
  shows "chains_ok (set_player s p (set_summon_at ps' pos (Some summon)))"
  using assms by (auto simp: chains_ok_def summon_at_set_summon_at)

lemma climbs_snoc:
  assumes "climbs cards refs" and "form_in cards c = Some f"
    and "form_in cards (last refs) = Some g" and "g < f"
  shows "climbs cards (refs @ [c])"
proof -
  obtain pre where refs: "refs = pre @ [last refs]"
    using assms(1) by (metis append_butlast_last_id climbs_def)
  then have "sorted_wrt (<) (map (\<lambda>c. the (form_in cards c)) (pre @ [last refs]))"
    using assms(1) by (metis climbs_def)
  then have "the (form_in cards x) < g" if "x \<in> set pre" for x
    using that assms(3) by (simp add: sorted_wrt_append)
  moreover have "x \<in> set pre \<or> x = last refs" if "x \<in> set refs" for x
    using that refs by (metis Un_iff empty_set list.simps(15) set_append singletonD)
  ultimately have "the (form_in cards x) \<le> g" if "x \<in> set refs" for x
    using that assms(3) by fastforce
  with assms show ?thesis
    by (auto simp: climbs_def sorted_wrt_append intro: le_less_trans)
qed

lemma upgraded_layers:
  "chain_layers (si_chain (upgraded_summon c summon)) = chain_layers (si_chain summon) @ [c]"
  by (simp add: upgraded_summon_def Let_def chain_layers_def chain_new_def)

lemma current_form_in:
  "card_set_get cards (cr_def c) = Some e \<Longrightarrow> form_in cards c = current_form e"
  by (simp add: form_in_def current_form_def)

lemma chains_ok_handler:
  assumes ok: "chains_ok s" and acts: "dispatch s action = Inr out" and "\<not> is_resign action"
  shows "chains_ok (ao_state out)"
proof -
  have hand: "summon_at (ps\<lparr>ps_hand := h\<rparr>) pos = summon_at ps pos" for ps h pos
    by (rule summon_at_cong) simp_all
  note quick = chains_ok_no_new [OF ok]
  show ?thesis
  proof (cases action)
    case (PlaySummon player i slot)
    with acts have "play_summon s player i slot = Inr out" by simp
    then show ?thesis
    proof (rule play_summon_cases)
      fix n c e
      assume e: "card_set_get (gs_cards s) (cr_def c) = Some e" "current_form e = Some Base"
        and out: "out = \<lparr>ao_state = set_player s player (set_summon_at
          ((player_of s player)\<lparr>ps_hand := remove_nth n (ps_hand (player_of s player))\<rparr>)
          (position.Bench slot) (Some (played_summon player c))), ao_events = [SummonPlayed player i slot]\<rparr>"
      have "climbs (gs_cards s) [c]"
        using current_form_in [OF e(1)] e(2) by (simp add: climbs_def)
      then show ?thesis
        using ok by (auto simp: out played_summon_def simp del: set_summon_at.simps intro!: chains_ok_put hand)
    qed
  next
    case (UpgradeSummon player i pos)
    with acts have "upgrade_summon s player i pos = Inr out" by simp
    then show ?thesis
    proof (rule upgrade_summon_cases)
      fix summon n c e f top_card g
      assume at: "summon_at (player_of s player) pos = Some summon"
        and e: "card_set_get (gs_cards s) (cr_def c) = Some e" "current_form e = Some f"
        and t: "top_entity (gs_cards s) summon = Some top_card" "current_form top_card = Some g" and less: "g < f"
        and out: "out = \<lparr>ao_state = set_player s player (set_summon_at
          ((player_of s player)\<lparr>ps_hand := remove_nth n (ps_hand (player_of s player))\<rparr>)
          pos (Some (upgraded_summon c summon))), ao_events = [SummonUpgraded player i pos]\<rparr>"
      have "form_in (gs_cards s) (last (chain_layers (si_chain summon))) = Some g"
        using t current_form_in by (simp add: top_entity_def chain_top_last)
      moreover have "climbs (gs_cards s) (chain_layers (si_chain summon))"
        using ok at by (auto simp: chains_ok_def)
      ultimately have "climbs (gs_cards s) (chain_layers (si_chain (upgraded_summon c summon)))"
        using climbs_snoc current_form_in [OF e(1)] e(2) less by (metis upgraded_layers)
      then show ?thesis
        using ok by (auto simp: out simp del: set_summon_at.simps intro!: chains_ok_put hand)
    qed
  next
    case (Retreat player slot hint)
    with acts have "retreat s player slot hint = Inr out" by simp
    then show ?thesis
    proof (rule retreat_cases)
      fix vacating incoming and payment :: payment
      let ?ps = "(player_of s player)\<lparr>ps_mana := pm_bank payment\<rparr>"
      assume on: "ps_main (player_of s player) = Some vacating" "ps_bench (player_of s player) slot = Some incoming"
        and out: "out = \<lparr>ao_state = fold push_back (exchange_work player slot)
          (set_player (s\<lparr>gs_turn := (gs_turn s)\<lparr>ts_normal_retreat_used := True\<rparr>\<rparr>) player
            (exchange slot incoming vacating ?ps)),
          ao_events = deduction_events player payment @ [SummonsSwapped player slot]\<rparr>"
      have "same_chains (player_of s player) (exchange slot incoming vacating ?ps)"
        by (rule same_chains_trans [OF same_chains_piles same_chains_exchange]) (use on in simp_all)
      then show ?thesis by (intro quick) (auto simp: out no_new_chain_def)
    qed
  next
    case (CastSpell player i targets hint)
    with acts have "cast_spell s player i targets hint = Inr out" by simp
    then show ?thesis
      by (rule cast_spell_cases) (auto simp: no_new_chain_def intro!: quick same_chains_piles)
  next
    case (DeclareAttack player target hint)
    with acts have "declare_attack s player target hint = Inr out" by simp
    then show ?thesis
      by (rule declare_attack_cases) (auto simp: no_new_chain_def intro!: quick same_chains_piles)
  next
    case (ActivateSkill player pos ability targets hint)
    with acts have "activate_skill s player pos ability targets hint = Inr out" by simp
    then show ?thesis
    proof (rule activate_skill_cases)
      fix summon skill and payment :: payment
      let ?ps = "(player_of s player)\<lparr>ps_mana := pm_bank payment\<rparr>"
      let ?mid = "set_player s player (set_summon_at ?ps pos (Some (summon\<lparr>si_readiness := Exhausted\<rparr>)))"
      assume at: "summon_at (player_of s player) pos = Some summon"
        and out: "ao_state out = fst (apply_leaves ?mid (effect_source.Skill player pos ability) targets
            (entity_all effect_field skill))"
      have "same_chains (player_of s player) (set_summon_at ?ps pos (Some (summon\<lparr>si_readiness := Exhausted\<rparr>)))"
        by (rule same_chains_trans [OF same_chains_piles same_chains_in_place]) (use at in auto)
      then have "no_new_chain s ?mid" by (rule no_new_chain_set)
      then show ?thesis unfolding out by (intro quick) (rule no_new_chain_trans [OF _ chains.leaves])
    qed
  next
    case (PassPriority player)
    have turned: "no_new_chain s (ao_state (handover (s\<lparr>gs_turn := turn\<rparr>)))" for turn
      by (auto simp: no_new_chain_def frame_simps turned_over_def clear_per_turn_flags_def drop_markers_def
          intro!: same_chains_map_summons)
    from acts PassPriority show ?thesis
      by (auto simp: pass_def Let_def split: if_splits option.splits
          intro: quick [OF turned] quick [OF no_new_chain_players])
  next
    case (ChoosePromotion player slot)
    with acts have "ao_state out = (fst (promote_from_slot s player slot))\<lparr>gs_pending := None\<rparr>"
      by (auto simp: answer_promotion_def split_def Let_def split: if_splits)
    then show ?thesis using no_new_chain_after [OF no_new_chain_promote] by (intro quick) simp
  next
    case (ChoosePrize player n)
    with acts show ?thesis
      by (auto simp: answer_prize_def Let_def no_new_chain_def split: if_splits intro!: quick same_chains_piles)
  next
    case (ChooseManaType player t)
    with acts show ?thesis
      by (auto simp: choose_mana_type_def no_new_chain_def split: if_splits option.splits pending_input.splits
          intro!: quick same_chains_piles)
  next
    case (ConvertCoin player t)
    with acts show ?thesis
      by (auto simp: convert_coin_def no_new_chain_def split: if_splits intro!: quick same_chains_piles)
  next
    case (EndTurn player)
    with acts show ?thesis by (auto simp: end_turn_def split: if_splits intro!: quick no_new_chain_players)
  qed (use assms in \<open>simp add: is_resign_def\<close>)
qed

interpretation climbing: game_invariant chains_ok
proof
  show "chains_ok (fst (apply_leaf s source targets leaf))" if "chains_ok s" for s source targets leaf
    using that no_new_chain_leaf by (rule chains_ok_no_new)
  show "chains_ok (fst (execute (s\<lparr>gs_work := rest\<rparr>) item))" if "chains_ok s" for s item rest
    using that by (rule chains_ok_no_new)
      (rule no_new_chain_trans [OF no_new_chain_players no_new_chain_execute], simp_all)
  show "chains_ok (fst (resolve_top_stack_item s))" if "chains_ok s" "stack_has_unresolved_items s" for s
    using that(2)
  proof (rule resolve_top_cases)
    fix below item
    let ?s = "s\<lparr>gs_stack := below\<rparr>"
    assume top': "fst (resolve_top_stack_item s) = close_segment (fst (resolve_item ?s item))"
    have "no_new_chain s (fst (resolve_item ?s item))"
      by (rule no_new_chain_trans [OF no_new_chain_players no_new_chain_resolve_item]) simp_all
    then have "no_new_chain s (fst (resolve_top_stack_item s))"
      unfolding top' by (rule no_new_chain_after) simp_all
    with that(1) show ?thesis by (rule chains_ok_no_new)
  qed
  show "chains_ok (ao_state out)"
    if "chains_ok s" "\<not> is_resign action" "dispatch s action = Inr out" for s action out
    using that by (intro chains_ok_handler)
  show "chains_ok (s\<lparr>gs_status := game_status.Ended outcome\<rparr>)" if "chains_ok s" for s outcome
    using that by (simp add: chains_ok_def)
qed

lemma parsed_chains:
  assumes "from_scenario cards sc = Inr s" shows "chains_ok s"
proof -
  have "climbs cards (chain_layers (si_chain summon))"
    if at: "summon_at (player_of s p) pos = Some summon" for p pos summon
  proof -
    obtain d where "(pos, d) \<in> set (positioned_summons (pp_get (sn_players sc) p))"
      and summon: "summon = built_summon p d"
      using at by (cases pos) (auto simp: parsed_player [OF assms] built_player_def set_positioned_summons)
    then have "climbs cards (sc_chain d)"
      using from_scenario_Inr [OF assms] by (auto simp: well_formed_def)
    then show ?thesis by (simp add: summon built_summon_def climbs_def)
  qed
  moreover have "gs_cards s = cards" using from_scenario_Inr [OF assms] by (simp add: Let_def)
  ultimately show ?thesis by (simp add: chains_ok_def)
qed

lemma reachable_chains: "reachable cards sc s \<Longrightarrow> chains_ok s"
  by (rule climbing.I_reachable) (rule parsed_chains)

lemma climb_length:
  "sorted_wrt (<) (fs :: form list) \<Longrightarrow> length fs \<le> 3"
proof -
  assume sorted: "sorted_wrt (<) fs"
  then have "distinct fs" by (induction fs) auto
  moreover have "set fs \<subseteq> {Base, Enhanced, Elite}" using form.exhaust by blast
  ultimately have "card (set fs) \<le> card {Base, Enhanced, Elite}" by (intro card_mono) auto
  also have "\<dots> \<le> 3" by simp
  finally show ?thesis using \<open>distinct fs\<close> by (simp add: distinct_card)
qed

text \<open>C21: on every board of every match each Summon's chain climbs strictly in Form from bottom to
  top, all its cards are known, and it holds at most three of them.\<close>

theorem chains_always_climb:
  assumes "reachable cards sc s" and "summon_at (player_of s p) pos = Some summon"
  shows "climbs cards (chain_layers (si_chain summon))
    \<and> top_entity cards summon \<noteq> None
    \<and> length (chain_layers (si_chain summon)) \<le> 3"
proof -
  have climbs: "climbs cards (chain_layers (si_chain summon))"
    using reachable_chains [OF assms(1)] assms(2) reachable_cards [OF assms(1)] by (auto simp: chains_ok_def)
  then have "form_in cards (chain_top (si_chain summon)) \<noteq> None"
    using chain_top_in_layers [of "si_chain summon"] by (auto simp: climbs_def)
  then have "top_entity cards summon \<noteq> None"
    by (auto simp: form_in_def top_entity_def bind_eq_Some_conv)
  moreover have "length (chain_layers (si_chain summon)) \<le> 3"
    using climbs climb_length [of "map (\<lambda>c. the (form_in cards c)) (chain_layers (si_chain summon))"]
    by (simp add: climbs_def)
  ultimately show ?thesis using climbs by blast
qed

end
