(* ===== verification/Termination.thy ===== *)
theory Termination
  imports Losses
begin

text \<open>
  The resolution loop returns, for every card set whose Triggered Abilities do not move Summons.
  The loop has no bound of its own; the proof finds one. Its measure is lexicographic: whether
  the loop still runs, the height of the Stack, the losses and Summons that are left to lose,
  and the weight of the queue up to the next recorded loss.
\<close>

section \<open>Card sets\<close>

definition moves_summons :: "effect_leaf \<Rightarrow> bool" where
  "moves_summons leaf \<longleftrightarrow> leaf = MoveSummon \<or> leaf = SwapPositions \<or> leaf = SwapOpposingPositions"

definition still_triggers :: "entity list \<Rightarrow> bool" where
  "still_triggers es \<longleftrightarrow> (\<forall>e \<in> set es. \<forall>t \<in> set (entity_all trigger_field e).
     \<forall>leaf \<in> set (entity_all effect_field t). \<not> moves_summons leaf)"

text \<open>The number of Triggered Abilities and of their leaves in the whole set bound what one card
  can fire.\<close>

definition trigger_bound :: "entity list \<Rightarrow> nat" where
  "trigger_bound es = (\<Sum>e \<leftarrow> es. length (entity_all trigger_field e))"

definition leaf_bound :: "entity list \<Rightarrow> nat" where
  "leaf_bound es = (\<Sum>e \<leftarrow> es. \<Sum>t \<leftarrow> entity_all trigger_field e. length (entity_all effect_field t))"

lemma sum_list_member: "x \<in> set xs \<Longrightarrow> f x \<le> (\<Sum>x \<leftarrow> xs. f x :: nat)"
  by (induction xs) auto

lemma find_member: "find P xs = Some x \<Longrightarrow> x \<in> set xs"
  by (metis find_Some_iff nth_mem)

lemma card_at_known:
  assumes "gs_cards s = card_set_new es" and "card_at s p pos = Some e"
  shows "e \<in> set es"
  using assms by (auto simp: card_at_def top_entity_def card_set_get_new split: option.splits dest: find_member)

lemma matching_bound:
  assumes "gs_cards s = card_set_new es"
  shows "length (matching_abilities s p pos event) \<le> trigger_bound es"
proof (cases "card_at s p pos")
  case (Some e)
  have "length (matching_abilities s p pos event) \<le> length (entity_all trigger_field e)"
    by (simp add: matching_abilities_def Some)
  also have "\<dots> \<le> trigger_bound es"
    unfolding trigger_bound_def by (rule sum_list_member) (rule card_at_known [OF assms Some])
  finally show ?thesis .
qed (simp add: matching_abilities_def)

lemma ability_bound:
  assumes "gs_cards s = card_set_new es" and "ability_at s p pos ability = Some (r, effects)"
  shows "length effects \<le> leaf_bound es" and "still_triggers es \<Longrightarrow> \<forall>leaf \<in> set effects. \<not> moves_summons leaf"
proof -
  obtain e t where e: "card_at s p pos = Some e" and t: "t \<in> set (entity_all trigger_field e)"
    and effects: "effects = entity_all effect_field t"
    using assms(2) by (auto simp: ability_at_def split: option.splits dest: find_member)
  have "length effects \<le> (\<Sum>t \<leftarrow> entity_all trigger_field e. length (entity_all effect_field t))"
    unfolding effects by (rule sum_list_member [OF t])
  also have "\<dots> \<le> leaf_bound es"
    unfolding leaf_bound_def
    by (rule sum_list_member [of e es "\<lambda>e. \<Sum>t \<leftarrow> entity_all trigger_field e. length (entity_all effect_field t)"])
      (rule card_at_known [OF assms(1) e])
  finally show "length effects \<le> leaf_bound es" .
  show "still_triggers es \<Longrightarrow> \<forall>leaf \<in> set effects. \<not> moves_summons leaf"
    using card_at_known [OF assms(1) e] t by (auto simp: still_triggers_def effects)
qed

section \<open>Weights\<close>

definition fire_weight :: "entity list \<Rightarrow> nat" where
  "fire_weight es = 1 + 5 * leaf_bound es"

definition move_weight :: "entity list \<Rightarrow> nat" where
  "move_weight es = 1 + trigger_bound es * fire_weight es"

definition item_weight :: "entity list \<Rightarrow> work_item \<Rightarrow> nat" where
  "item_weight es w =
     (case w of
        DestructionCheck _ \<Rightarrow> 5
      | FireTrigger _ _ _ _ \<Rightarrow> fire_weight es
      | MovementTrigger _ _ _ \<Rightarrow> move_weight es
      | ResolveMovementConsequences _ \<Rightarrow> 1 + 2 * move_weight es
      | _ \<Rightarrow> 1)"

definition is_loss :: "work_item \<Rightarrow> bool" where
  "is_loss w = (case w of RecordMainLoss _ \<Rightarrow> True | _ \<Rightarrow> False)"

definition queue_weight :: "entity list \<Rightarrow> work_item list \<Rightarrow> nat" where
  "queue_weight es ws = (\<Sum>w \<leftarrow> takeWhile (\<lambda>w. \<not> is_loss w) ws. item_weight es w)"

lemma queue_weight_Nil [simp]: "queue_weight es [] = 0"
  by (simp add: queue_weight_def)

lemma queue_weight_Cons [simp]:
  "queue_weight es (w # ws) = (if is_loss w then 0 else item_weight es w + queue_weight es ws)"
  by (simp add: queue_weight_def)

lemma queue_weight_append: "queue_weight es (xs @ ys) \<le> queue_weight es xs + queue_weight es ys"
  by (induction xs) auto

lemma queue_weight_same: "(\<forall>w \<in> set ws. item_weight es w \<le> k) \<Longrightarrow> queue_weight es ws \<le> length ws * k"
  by (induction ws) (auto intro: add_mono)

lemma queue_weight_destruction: "queue_weight es (destruction_work p pos) \<le> 2"
  by (simp add: destruction_work_def is_loss_def item_weight_def)

section \<open>What a leaf of a still trigger queues\<close>

lemma still_leaf_queue:
  assumes "\<not> moves_summons leaf"
  shows "\<exists>ws. gs_work (fst (apply_leaf s source targets leaf)) = gs_work s @ ws \<and> length ws \<le> 1
    \<and> (\<forall>w \<in> set ws. \<exists>pos. w = DestructionCheck pos)"
proof -
  have same: ?thesis if "gs_work (fst (apply_leaf s source targets leaf)) = gs_work s"
    using that by simp
  show ?thesis
  proof (cases leaf)
    case (DealDamage effect)
    then show ?thesis
      by (auto simp: deal_damage_def commit_def Let_def split: option.splits)
  qed (use assms in \<open>auto intro!: same simp: moves_summons_def leaf_cases Let_def draw_cards_fst frame_simps
        split: option.splits\<close>)
qed

lemma still_leaves_queue:
  assumes "\<forall>leaf \<in> set leaves. \<not> moves_summons leaf"
  shows "\<exists>ws. gs_work (fst (apply_leaves s source targets leaves)) = gs_work s @ ws
    \<and> length ws \<le> length leaves \<and> (\<forall>w \<in> set ws. \<exists>pos. w = DestructionCheck pos)"
  using assms
proof (induction leaves arbitrary: s)
  case (Cons leaf leaves)
  let ?s = "fst (apply_leaf s source targets leaf)"
  obtain ws where ws: "gs_work ?s = gs_work s @ ws" "length ws \<le> 1"
    "\<forall>w \<in> set ws. \<exists>pos. w = DestructionCheck pos"
    using still_leaf_queue [of leaf s source targets] Cons.prems by auto
  obtain ws' where ws': "gs_work (fst (apply_leaves ?s source targets leaves)) = gs_work ?s @ ws'"
    "length ws' \<le> length leaves" "\<forall>w \<in> set ws'. \<exists>pos. w = DestructionCheck pos"
    using Cons.IH [of ?s] Cons.prems by auto
  have "fst (apply_leaves s source targets (leaf # leaves))
      = (if is_playing (gs_status ?s) then fst (apply_leaves ?s source targets leaves) else ?s)"
    by (simp add: split_def Let_def)
  then show ?case
    using ws ws' by (cases "is_playing (gs_status ?s)") (auto intro: exI [of _ "ws @ ws'"] exI [of _ ws])
qed simp

section \<open>What is left to lose\<close>

definition losses_left :: "u8 \<Rightarrow> u8 \<Rightarrow> nat" where
  "losses_left start n = (if n = start \<and> 3 \<le> n then 4 else 3 - unat n)"

definition budget :: "u8 \<Rightarrow> player_state \<Rightarrow> nat" where
  "budget start ps = losses_left start (ps_main_losses ps) + summon_count ps"

definition total_budget :: "(player_id \<Rightarrow> u8) \<Rightarrow> game_state \<Rightarrow> nat" where
  "total_budget start s = budget (start player_id.One) (player_of s player_id.One)
     + budget (start player_id.Two) (player_of s player_id.Two)"

lemma budget_shape: "same_shape ps ps' \<Longrightarrow> budget k ps' = budget k ps"
  by (auto simp: same_shape_def budget_def summon_count_def)

lemma total_budget_shapes: "shapes s t \<Longrightarrow> total_budget start t = total_budget start s"
  unfolding shapes_def total_budget_def using budget_shape by metis

lemma total_budget_mono:
  assumes "\<And>p. budget (start p) (player_of t p) \<le> budget (start p) (player_of s p)"
  shows "total_budget start t \<le> total_budget start s"
  unfolding total_budget_def by (intro add_mono assms)

lemma total_budget_strict:
  assumes "\<And>p. budget (start p) (player_of t p) \<le> budget (start p) (player_of s p)"
    and "budget (start q) (player_of t q) < budget (start q) (player_of s q)"
  shows "total_budget start t < total_budget start s"
  using assms(1) [of player_id.One] assms(1) [of player_id.Two] assms(2)
  by (cases q) (simp_all add: total_budget_def)

lemma summon_count_remove:
  "summon_at ps pos = Some summon \<Longrightarrow> summon_count (set_summon_at ps pos None) < summon_count ps"
proof (cases pos)
  case (Bench slot)
  then show "summon_at ps pos = Some summon \<Longrightarrow> ?thesis"
    by (cases slot) (simp_all add: summon_count_def bench_count_unfold)
qed (simp add: summon_count_def bench_count_unfold)

lemma summon_count_cong:
  "ps_main ps = ps_main ps' \<Longrightarrow> ps_bench ps = ps_bench ps' \<Longrightarrow> summon_count ps = summon_count ps'"
  by (simp add: summon_count_def bench_count_def)

lemma losses_left_Suc:
  assumes "\<not> 3 \<le> n \<or> n = start" and "start \<le> n \<or> start = 255"
  shows "losses_left start (n + 1) < losses_left start n"
proof (cases "3 \<le> n")
  case True
  with assms(1) show ?thesis by (simp add: losses_left_def)
next
  case False
  then have "unat n < 3" by (simp add: word_le_nat_alt)
  then have "unat n = 0 \<or> unat n = 1 \<or> unat n = 2" by linarith
  then have "n = 0 \<or> n = 1 \<or> n = 2" by (simp add: word_unat_eq_iff)
  then show ?thesis using assms(2) by (elim disjE) (auto simp: losses_left_def)
qed

section \<open>One step of the queue\<close>

text \<open>The progress one item makes: the loop stops, or something is lost for good, or nothing is
  gained and the queue gets lighter.\<close>

definition lighter :: "entity list \<Rightarrow> (player_id \<Rightarrow> u8) \<Rightarrow> game_state \<Rightarrow> game_state \<Rightarrow> bool" where
  "lighter es start s t \<longleftrightarrow> drain_stops t \<or> total_budget start t < total_budget start s
     \<or> (total_budget start t \<le> total_budget start s \<and> queue_weight es (gs_work t) < queue_weight es (gs_work s))"

lemma lighterI:
  assumes "gs_work s = item # rest" and "\<not> is_loss item"
    and "gs_work t = front @ rest @ behind"
    and "\<forall>w \<in> set front. \<not> is_loss w"
    and "queue_weight es front + queue_weight es behind < item_weight es item"
    and "total_budget start t \<le> total_budget start s"
  shows "lighter es start s t"
proof -
  have "queue_weight es (gs_work t) \<le> queue_weight es front + (queue_weight es rest + queue_weight es behind)"
    unfolding assms(3) by (metis (no_types) add_left_mono order_trans queue_weight_append)
  then have "queue_weight es (gs_work t) < queue_weight es (gs_work s)"
    using assms(1,2,5) by simp
  with assms(6) show ?thesis by (simp add: lighter_def)
qed

text \<open>An item that queues nothing and costs nobody anything.\<close>

lemma lighter_plain:
  assumes "gs_work s = item # rest" and "\<not> is_loss item" and "gs_work t = rest"
    and "\<And>p. budget (start p) (player_of t p) \<le> budget (start p) (player_of s p)"
  shows "lighter es start s t"
  using assms(1,2,3) total_budget_mono [OF assms(4)]
  by (intro lighterI [of s item rest t "[]" "[]"]) (auto simp: item_weight_def fire_weight_def move_weight_def
      split: work_item.splits)

lemma budget_cong:
  "ps_main_losses a = ps_main_losses b \<Longrightarrow> ps_main a = ps_main b \<Longrightarrow> ps_bench a = ps_bench b
    \<Longrightarrow> budget k a = budget k b"
  by (simp add: budget_def summon_count_def bench_count_def)

lemma budget_map_summons: "budget k (map_summons f ps) = budget k ps"
  by (simp add: budget_def summon_count_def bench_count_def map_summons_def)

lemma budget_promote:
  "ps_bench ps slot = Some summon \<Longrightarrow>
     budget k (set_summon_at (set_summon_at ps (position.Bench slot) None) position.Main (Some summon)) \<le> budget k ps"
  by (cases slot) (simp_all add: budget_def summon_count_def bench_count_unfold)

lemma lighter_record_loss:
  assumes "losses_ok start s" and "gs_status s = game_status.Playing" and "gs_work s = RecordMainLoss p # rest"
  shows "lighter es start s (fst (execute (s\<lparr>gs_work := rest\<rparr>) (RecordMainLoss p)))"
proof -
  let ?t = "fst (execute (s\<lparr>gs_work := rest\<rparr>) (RecordMainLoss p))"
  have "\<not> 3 \<le> ps_main_losses (player_of s p) \<or> ps_main_losses (player_of s p) = start p"
    "start p \<le> ps_main_losses (player_of s p) \<or> start p = 255"
    using assms by (auto simp: losses_ok_def settles_Cons)
  from losses_left_Suc [OF this]
  have "budget (start p) (player_of ?t p) < budget (start p) (player_of s p)"
    by (simp add: record_main_loss_def budget_def summon_count_def bench_count_def)
  then have "total_budget start ?t < total_budget start s"
    by (intro total_budget_strict [where q = p]) (auto simp: record_main_loss_def)
  then show ?thesis by (simp add: lighter_def)
qed

lemma lighter_discard:
  assumes work: "gs_work s = DiscardDestroyedChain pos # rest"
  shows "lighter es start s (fst (execute (s\<lparr>gs_work := rest\<rparr>) (DiscardDestroyedChain pos)))"
proof (cases "destroyed_controller (s\<lparr>gs_work := rest\<rparr>) pos")
  case (Inl b)
  then show ?thesis by (simp add: discard_destroyed_chain_def lighter_def drain_stops_def)
next
  case (Inr found)
  let ?s = "s\<lparr>gs_work := rest\<rparr>"
  show ?thesis
  proof (cases "\<exists>p summon. found = Some p \<and> summon_at (player_of s p) pos = Some summon")
    case False
    then have "fst (execute ?s (DiscardDestroyedChain pos)) = ?s"
      using Inr by (auto simp: discard_destroyed_chain_def split: option.splits)
    then show ?thesis
      by (intro lighter_plain [OF work]) (simp_all add: is_loss_def)
  next
    case True
    then obtain p summon where found: "found = Some p"
      and at: "summon_at (player_of s p) pos = Some summon" by blast
    let ?t = "fst (discard_destroyed_chain ?s pos)"
    have player: "player_of ?t q = (let ps = (if q = p then set_summon_at (player_of s p) pos None else player_of s q)
        in if q = si_owner summon then ps\<lparr>ps_discard := ps_discard ps @ chain_layers (si_chain summon)\<rparr> else ps)" for q
      using Inr found at
      by (simp add: discard_destroyed_chain_def Let_def discover_front_eq)
    have same: "budget k (ps\<lparr>ps_discard := d\<rparr>) = budget k ps" for k ps d by (rule budget_cong) simp_all
    have removed: "budget (start p) (set_summon_at (player_of s p) pos None) < budget (start p) (player_of s p)"
      using summon_count_remove [OF at] by (simp add: budget_def)
    have budgets: "budget (start q) (player_of ?t q)
        = (if q = p then budget (start p) (set_summon_at (player_of s p) pos None) else budget (start q) (player_of s q))" for q
      unfolding player Let_def by (simp add: same)
    have "total_budget start ?t < total_budget start s"
      by (rule total_budget_strict [where q = p]) (use removed in \<open>simp_all add: budgets\<close>)
    then show ?thesis by (simp add: lighter_def)
  qed
qed

lemma lighter_check:
  assumes work: "gs_work s = DestructionCheck pos # rest"
  shows "lighter es start s (fst (execute (s\<lparr>gs_work := rest\<rparr>) (DestructionCheck pos)))"
proof -
  let ?s = "s\<lparr>gs_work := rest\<rparr>" and ?a = "ts_active_player (gs_turn s)"
  let ?t = "fst (execute ?s (DestructionCheck pos))"
  have players: "player_of ?t p = player_of s p" for p
    by (simp add: destruction_check_def player_of_def frame_simps)
  then have budget: "total_budget start ?t \<le> total_budget start s" by (simp add: total_budget_def)
  show ?thesis
  proof (cases "\<exists>d1 d2. is_destroyed ?s (opponent ?a) pos = Inr d1 \<and> is_destroyed ?s ?a pos = Inr d2")
    case True
    then obtain d1 d2 where "is_destroyed ?s (opponent ?a) pos = Inr d1" "is_destroyed ?s ?a pos = Inr d2"
      by blast
    then have t: "gs_work ?t = rest @ (if d1 then destruction_work (opponent ?a) pos else [])
        @ (if d2 then destruction_work ?a pos else [])"
      by (simp add: destruction_check_def ordered_players_def Let_def)
    let ?b = "(if d1 then destruction_work (opponent ?a) pos else []) @ (if d2 then destruction_work ?a pos else [])"
    have "queue_weight es ?b \<le> 4"
      using queue_weight_append [of es "if d1 then destruction_work (opponent ?a) pos else []"
          "if d2 then destruction_work ?a pos else []"]
        queue_weight_destruction [of es "opponent ?a" pos] queue_weight_destruction [of es ?a pos]
      by (auto split: if_splits)
    then show ?thesis
      by (intro lighterI [OF work, where front = "[]" and behind = ?b])
        (use budget t in \<open>simp_all add: is_loss_def item_weight_def\<close>)
  next
    case False
    then have "\<exists>b. gs_status ?t = game_status.Broken b"
      by (auto simp: destruction_check_def ordered_players_def Let_def split: sum.splits)
    then show ?thesis by (auto simp: lighter_def drain_stops_def)
  qed
qed

lemma lighter_fire:
  assumes work: "gs_work s = FireTrigger p pos event ability # rest"
    and cards: "gs_cards s = card_set_new es" and still: "still_triggers es"
  shows "lighter es start s (fst (execute (s\<lparr>gs_work := rest\<rparr>) (FireTrigger p pos event ability)))"
proof -
  let ?s = "s\<lparr>gs_work := rest\<rparr>"
  have cards': "gs_cards ?s = card_set_new es" using cards by simp
  show ?thesis
  proof (cases rule: fire_queued_cases [of ?s p pos ability event])
    case gone
    then show ?thesis by (intro lighter_plain [OF work]) (simp_all add: is_loss_def)
  next
    case (respondable effects)
    then show ?thesis by (simp add: lighter_def drain_stops_def)
  next
    case (immediate effects)
    let ?t = "fst (apply_leaves ?s (effect_source.Trigger p pos ability) (implicit_targets pos effects) effects)"
    note bound = ability_bound [OF cards' immediate(1)]
    obtain ws where ws: "gs_work ?t = rest @ ws" "length ws \<le> length effects"
      "\<forall>w \<in> set ws. \<exists>pos. w = DestructionCheck pos"
      using still_leaves_queue [OF bound(2) [OF still], of ?s "effect_source.Trigger p pos ability"
          "implicit_targets pos effects"] by (simp, blast)
    have "queue_weight es ws \<le> length ws * 5"
      using ws(3) by (intro queue_weight_same) (auto simp: item_weight_def)
    with ws(2) bound(1) have "queue_weight es ws < fire_weight es" by (simp add: fire_weight_def)
    moreover have "total_budget start ?t \<le> total_budget start s"
      using total_budget_shapes [OF shape.leaves, of start ?s "effect_source.Trigger p pos ability"
          "implicit_targets pos effects" effects]
      by (simp add: total_budget_def)
    ultimately show ?thesis
      by (intro lighterI [OF work, where front = "[]" and behind = ws])
        (simp_all add: immediate ws is_loss_def item_weight_def)
  qed
qed

lemma lighter_movement:
  assumes work: "gs_work s = MovementTrigger step p pos # rest" and cards: "gs_cards s = card_set_new es"
  shows "lighter es start s (fst (execute (s\<lparr>gs_work := rest\<rparr>) (MovementTrigger step p pos)))"
proof -
  let ?s = "s\<lparr>gs_work := rest\<rparr>"
  let ?t = "fst (movement_trigger ?s step p pos)"
  define u where "u = (if step = EnteringMain \<and> pos = position.Main
    then update_player ?s p (\<lambda>ps. ps\<lparr>ps_main := map_option mark_main_entry (ps_main ps)\<rparr>) else ?s)"
  let ?f = "map (FireTrigger p pos (movement_event step)) (matching_abilities u p pos (movement_event step))"
  have t: "gs_work ?t = ?f @ rest" "\<And>q. player_of ?t q = player_of u q"
    by (simp_all add: movement_trigger_eq Let_def u_def)
  have "length ?f \<le> trigger_bound es" using matching_bound [of u es] cards by (simp add: u_def)
  moreover have "queue_weight es ?f \<le> length ?f * fire_weight es"
    by (rule queue_weight_same) (simp add: item_weight_def)
  ultimately have "queue_weight es ?f \<le> trigger_bound es * fire_weight es"
    by (meson mult_le_mono1 order_trans)
  then have "queue_weight es ?f < move_weight es" by (simp add: move_weight_def)
  moreover have "budget (start q) (player_of u q) = budget (start q) (player_of s q)" for q
    by (simp add: u_def budget_def summon_count_def bench_count_def)
  ultimately show ?thesis
    by (intro lighterI [OF work, where front = ?f and behind = "[]"])
      (simp_all add: t total_budget_def is_loss_def item_weight_def)
qed

lemma execute_lighter:
  assumes ok: "losses_ok start s" and playing: "gs_status s = game_status.Playing" and work: "gs_work s = item # rest"
    and cards: "gs_cards s = card_set_new es" and still: "still_triggers es"
  shows "lighter es start s (fst (execute (s\<lparr>gs_work := rest\<rparr>) item))"
proof (cases item)
  case (ResolveMovementConsequences p)
  show ?thesis
  proof (cases "ps_main (player_of s p) = None")
    case True
    then show ?thesis
      using ResolveMovementConsequences
      by (intro lighter_plain [OF work]) (simp_all add: resolve_movement_consequences_def is_loss_def)
  next
    case False
    then show ?thesis
      using ResolveMovementConsequences
      by (intro lighterI [OF work, where front = "[MovementTrigger LeavingBench p position.Main,
          MovementTrigger EnteringMain p position.Main]" and behind = "[]"])
        (simp_all add: resolve_movement_consequences_def is_loss_def item_weight_def total_budget_def)
  qed
next
  case (LossCheck p)
  then show ?thesis
    by (intro lighter_plain [OF work])
      (auto simp: loss_check_def Let_def frame_simps is_loss_def)
next
  case (RecoverPrize p)
  then show ?thesis
    by (intro lighter_plain [OF work]) (auto simp: recover_prize_def is_loss_def)
next
  case (PromoteBenchSummon p)
  then show ?thesis
    by (intro lighter_plain [OF work])
      (auto simp: promote_bench_summon_def promote_from_slot_def is_loss_def budget_promote
        simp del: set_summon_at.simps split: list.splits option.splits)
next
  case ReadyAll
  then show ?thesis
    by (intro lighter_plain [OF work]) (auto simp: ready_all_def Let_def budget_map_summons is_loss_def)
next
  case DrawCard
  then show ?thesis
    by (intro lighter_plain [OF work])
      (auto simp: execute_draw_cases Let_def frame_simps is_loss_def split: list.splits
        intro!: eq_refl [OF budget_cong])
next
  case (ProduceMana p src)
  then show ?thesis
    by (intro lighter_plain [OF work])
      (auto simp: frame_simps is_loss_def produce_mana_def split: list.splits intro!: eq_refl [OF budget_cong])
next
  case BeginMainPhase
  then show ?thesis
    by (intro lighter_plain [OF work]) (auto simp: begin_main_phase_def is_loss_def)
qed (use assms in \<open>auto intro: lighter_record_loss lighter_discard lighter_check lighter_fire lighter_movement
      simp del: execute.simps\<close>)

section \<open>The loop returns\<close>

text \<open>The measure of a state: whether the loop still runs, the height of the Stack, what is left
  to lose, and the weight of the queue.\<close>

definition drain_measure :: "entity list \<Rightarrow> (player_id \<Rightarrow> u8) \<Rightarrow> game_state \<Rightarrow> nat \<times> nat \<times> nat \<times> nat" where
  "drain_measure es start s = (if drain_stops s then 0 else 1, length (gs_stack s), total_budget start s,
     queue_weight es (gs_work s))"

definition drain_order :: "((nat \<times> nat \<times> nat \<times> nat) \<times> (nat \<times> nat \<times> nat \<times> nat)) set" where
  "drain_order = less_than <*lex*> less_than <*lex*> less_than <*lex*> less_than"

lemma wf_drain_order: "wf drain_order"
  by (simp add: drain_order_def wf_lex_prod)

lemma drain_step_decreases:
  assumes ok: "losses_ok start s" and cards: "gs_cards s = card_set_new es" and still: "still_triggers es"
    and runs: "\<not> drain_stops s"
  shows "(drain_measure es start (fst (drain_step s)), drain_measure es start s) \<in> drain_order"
proof -
  have playing: "gs_status s = game_status.Playing" and window: "ts_window (gs_turn s) = None"
    using runs by (simp_all add: drain_stops_def is_playing_iff)
  show ?thesis
  proof (cases "stack_has_unresolved_items s")
    case True
    then obtain below item where "gs_stack s = below @ [item]"
      "fst (resolve_top_stack_item s) = close_segment (fst (resolve_item (s\<lparr>gs_stack := below\<rparr>) item))"
      by (rule resolve_top_cases)
    then have "length (gs_stack (fst (drain_step s))) < length (gs_stack s)"
      using True by (simp add: drain_step_def frame_simps)
    then show ?thesis using runs by (simp add: drain_measure_def drain_order_def)
  next
    case False
    with runs obtain item rest where work: "gs_work s = item # rest"
      by (cases "gs_work s") (auto simp: drain_stops_def)
    let ?t = "fst (execute (s\<lparr>gs_work := rest\<rparr>) item)"
    have t: "fst (drain_step s) = ?t" using False work by (simp add: drain_step_def)
    show ?thesis
    proof (cases "drain_stops ?t")
      case True
      then show ?thesis using runs by (simp add: t drain_measure_def drain_order_def)
    next
      case False
      then have "gs_stack ?t = gs_stack s"
        using execute_stack [of "s\<lparr>gs_work := rest\<rparr>" item] window
        by (auto simp: stack_frame_def drain_stops_def)
      moreover have "lighter es start s ?t" by (rule execute_lighter [OF ok playing work cards still])
      ultimately show ?thesis
        using False runs by (auto simp: t lighter_def drain_measure_def drain_order_def)
    qed
  qed
qed

lemma drain_returns:
  assumes "losses_ok start s" and "gs_cards s = card_set_new es" and "still_triggers es"
  shows "\<exists>r. drain s = Some r"
proof -
  define P where "P = (\<lambda>se :: game_state \<times> game_event list.
    losses_ok start (fst se) \<and> gs_cards (fst se) = card_set_new es)"
  have keep: "P (drain_body se)" if "P se" and "\<not> drain_stops (fst se)" for se
    using that losses.step [of "fst se"] same_cards.step [of "fst se"]
    by (simp add: P_def fst_drain_body)
  have "{(t, s). (P s \<and> \<not> drain_stops (fst s)) \<and> t = drain_body s}
      \<subseteq> inv_image drain_order (\<lambda>se. drain_measure es start (fst se))"
    using drain_step_decreases assms(3) by (auto simp: P_def fst_drain_body)
  then have "wf {(t, s). (P s \<and> \<not> drain_stops (fst s)) \<and> t = drain_body s}"
    by (rule wf_subset [OF wf_inv_image [OF wf_drain_order]])
  then show ?thesis
    unfolding drain_def
    by (rule wf_while_option_Some) (use keep assms in \<open>auto simp: P_def\<close>)
qed

text \<open>An action that its handler accepts is answered with a next state, and every other is
  rejected at once.\<close>

lemma accepted_answered:
  assumes "losses_ok start s" and "gs_cards s = card_set_new es" and "still_triggers es"
    and playing: "gs_status s = game_status.Playing" and "\<not> is_resign action"
    and "actor action = required_actor s" and "dispatch s action = Inr mid"
  shows "\<exists>out. apply_action s action = Some (Inr out)"
proof -
  have "losses_ok start (ao_state mid)" by (rule losses.I_handler) (use assms in auto)
  moreover have "gs_cards (ao_state mid) = card_set_new es"
    using handled_dispatch [OF assms(7,5)] assms(2) by (simp add: handled_def)
  ultimately obtain r where "drain (ao_state mid) = Some r" using drain_returns assms(3) by blast
  then show ?thesis using assms by (simp add: apply_action_playing check_actor_def split_def)
qed

lemma always_answered:
  assumes "losses_ok start s" and "gs_cards s = card_set_new es" and "still_triggers es"
  shows "\<exists>answer. apply_action s action = Some answer"
proof (cases "gs_status s = game_status.Playing \<and> \<not> is_resign action \<and> actor action = required_actor s")
  case False
  then show ?thesis
    by (cases "gs_status s"; cases "is_resign action")
      (auto simp: apply_action_playing check_actor_def, auto simp: apply_action_def is_resign_def
        split: game_action.splits)
next
  case True
  then show ?thesis
    using accepted_answered [OF assms]
    by (cases "dispatch s action") (auto simp: apply_action_playing check_actor_def)
qed

text \<open>C2: with a card set whose Triggered Abilities move no Summon, \<open>apply\<close> always returns: from every
  state of every match, whatever its scenario describes, every action is answered, so the
  resolution loop cannot run forever.\<close>

theorem apply_returns:
  assumes "still_triggers es" and "reachable (card_set_new es) sc s"
  shows "\<exists>answer. apply_action s action = Some answer"
  by (rule always_answered [OF reachable_losses [OF assms(2)] reachable_cards [OF assms(2)] assms(1)])

end
