(* ===== verification/Match.thy ===== *)
theory Match
  imports Termination
begin

text \<open>
  What holds of every match: the properties that follow from the invariants once a state is
  reachable from a parsed scenario.
\<close>

section \<open>Rest\<close>

text \<open>C20: between two actions the Stack holds at most one open segment, which starts at the bottom
  and is never empty, so a Stack that has emptied never leaves a segment base behind; and when
  no decision is pending and no window is open, nothing at all is left to resolve.\<close>

theorem stack_segments:
  assumes "reachable cards sc s"
  shows "(gs_stack s = [] \<longrightarrow> gs_stack_segment_bases s = [])
    \<and> gs_stack_segment_bases s \<in> {[], [0]}
    \<and> (gs_status s = game_status.Playing \<and> gs_pending s = None \<and> ts_window (gs_turn s) = None \<longrightarrow>
         gs_stack s = [] \<and> gs_work s = [])"
  using reachable_segments [OF assms] resting_state [OF assms] by (auto simp: segments_ok_def)

text \<open>C19: the third Main loss is decisive. A game that rests with nothing pending and no window open
  has neither player at three or more losses, except a player whom the scenario itself described
  with that very count; and it never rests in Upkeep.\<close>

theorem resting_undecided:
  assumes "reachable cards sc s" and "gs_status s = game_status.Playing"
    and "gs_pending s = None" and "ts_window (gs_turn s) = None"
  shows "(ps_main_losses (player_of s p) < 3
      \<or> ps_main_losses (player_of s p) = sp_main_losses (pp_get (sn_players sc) p))
    \<and> ts_phase (gs_turn s) \<noteq> Upkeep"
proof -
  have "gs_work s = []" using resting_state [OF assms] by blast
  with reachable_losses [OF assms(1)] reachable_upkeep [OF assms(1)] assms(2) show ?thesis
    by (auto simp: losses_ok_def settles_def upkeep_ok_def described_losses_def not_le [symmetric])
qed

section \<open>Progress\<close>

text \<open>The move that is always open to the player the game waits for.\<close>

lemma open_move:
  assumes reach: "reachable cards sc s" and playing: "gs_status s = game_status.Playing"
    and mana: "\<And>p src. gs_pending s = Some (ManaProduction p src)
      \<Longrightarrow> available_types (gs_cards s) (player_of s p) src \<noteq> []"
  shows "\<exists>action out. \<not> is_resign action \<and> actor action = required_actor s \<and> dispatch s action = Inr out"
proof (cases "gs_pending s")
  case None
  show ?thesis
  proof (cases "ts_window (gs_turn s)")
    case (Some w)
    then have "\<exists>out. dispatch s (PassPriority (sw_holder w)) = Inr out"
      using None by (simp add: pass_def Let_def)
    then show ?thesis
      using None Some by (intro exI [of _ "PassPriority (sw_holder w)"]) (simp add: required_actor_def is_resign_def)
  next
    case no_window: None
    let ?a = "EndTurn (ts_active_player (gs_turn s))"
    have "gs_work s = []" using resting_state [OF reach playing None no_window] by blast
    then have "ts_phase (gs_turn s) \<noteq> Upkeep"
      using reachable_upkeep [OF reach] by (auto simp: upkeep_ok_def)
    then have "ts_phase (gs_turn s) = phase.Main \<or> ts_phase (gs_turn s) = Combat"
      by (cases "ts_phase (gs_turn s)") auto
    then have "\<exists>out. dispatch s ?a = Inr out"
      using None no_window by (auto simp: end_turn_def)
    then show ?thesis
      using None no_window by (intro exI [of _ ?a]) (simp add: required_actor_def is_resign_def)
  qed
next
  case (Some pending)
  note choice = reachable_choice [OF reach]
  show ?thesis
  proof (cases pending)
    case (ManaProduction p src)
    then obtain t where "t \<in> set (available_types (gs_cards s) (player_of s p) src)"
      using mana Some by (meson last_in_set)
    then have "\<exists>out. dispatch s (ChooseManaType p t) = Inr out"
      using Some ManaProduction by (simp add: choose_mana_type_def)
    then show ?thesis
      using Some ManaProduction
      by (intro exI [of _ "ChooseManaType p t"]) (simp add: required_actor_def is_resign_def)
  next
    case (Promotion p)
    then obtain slot where "ps_bench (player_of s p) slot \<noteq> None"
      using choice Some by (auto simp: choice_ok_def bench_count_pos)
    then have "\<exists>out. dispatch s (ChoosePromotion p slot) = Inr out"
      using Some Promotion by (simp add: answer_promotion_def split_def Let_def)
    then show ?thesis
      using Some Promotion
      by (intro exI [of _ "ChoosePromotion p slot"]) (simp add: required_actor_def is_resign_def)
  next
    case (PrizePick p)
    then have "ps_prizes (player_of s (opponent p)) \<noteq> []" using choice Some by (simp add: choice_ok_def)
    then have "\<exists>out. dispatch s (ChoosePrize p 0) = Inr out"
      using Some PrizePick by (simp add: answer_prize_def Let_def)
    then show ?thesis
      using Some PrizePick
      by (intro exI [of _ "ChoosePrize p 0"]) (simp add: required_actor_def is_resign_def)
  qed
qed

text \<open>C3: with a card set whose Triggered Abilities move no Summon, a match never gets stuck. While the
  game is playing, and unless it waits for a Mana type that nothing prints, the player it waits
  for has an action other than resigning that \<open>apply\<close> accepts and answers with a next state.\<close>

theorem never_stuck:
  assumes "still_triggers es" and "reachable (card_set_new es) sc s"
    and "gs_status s = game_status.Playing"
    and "\<And>p src. gs_pending s = Some (ManaProduction p src)
      \<Longrightarrow> available_types (gs_cards s) (player_of s p) src \<noteq> []"
  shows "\<exists>action out. \<not> is_resign action \<and> actor action = required_actor s
    \<and> apply_action s action = Some (Inr out)"
proof -
  obtain action mid where move: "\<not> is_resign action" "actor action = required_actor s"
    "dispatch s action = Inr mid"
    using open_move [OF assms(2-4)] by blast
  have "\<exists>out. apply_action s action = Some (Inr out)"
    by (rule accepted_answered [OF reachable_losses [OF assms(2)] reachable_cards [OF assms(2)] assms(1,3) move])
  with move show ?thesis by blast
qed

section \<open>Cards\<close>

lemma climbs_layers: "climbs cards refs \<Longrightarrow> chain_layers (chain_new (hd refs) (tl refs)) = refs"
  by (simp add: climbs_def)

lemma parsed_owned:
  assumes "from_scenario cards sc = Inr s"
  shows "home s" and "owned s p = mset (player_card_refs (pp_get (sn_players sc) p))"
proof -
  note wf = from_scenario_Inr [OF assms, THEN conjunct1]
  note player = parsed_player [OF assms]
  show "home s"
    unfolding home_def at_home_def player
  proof (intro allI impI)
    fix p pos summon
    assume "summon_at (built_player p (pp_get (sn_players sc) p)) pos = Some summon"
    then show "si_owner summon = p \<and> si_controller summon = p"
      by (cases pos) (auto simp: built_player_def built_summon_def)
  qed
  let ?d = "pp_get (sn_players sc) p"
  define chain where "chain so = (case so of None \<Rightarrow> [] | Some summon \<Rightarrow> sc_chain summon)" for so :: "scenario_summon option"
  have built: "chain_cards (map_option (built_summon p) so) = mset (chain so)"
    if "\<And>summon. so = Some summon \<Longrightarrow> climbs cards (sc_chain summon)" for so
    using that by (cases so) (simp_all add: chain_def built_summon_def climbs_layers del: chain_new_layers)
  have climbs: "climbs cards (sc_chain summon)"
    if "sp_main ?d = Some summon \<or> sp_bench ?d slot = Some summon" for summon slot
  proof -
    have "\<exists>pos. (pos, summon) \<in> set (positioned_summons ?d)"
      using that by (auto simp: set_positioned_summons intro: exI [of _ position.Main] exI [of _ "position.Bench slot"])
    then show ?thesis using wf by (auto simp: well_formed_def)
  qed
  have "mset (concat (map (\<lambda>(_, summon). sc_chain summon) (positioned_summons ?d)))
      = mset (chain (sp_main ?d)) + mset (chain (sp_bench ?d bench_slot.First))
        + mset (chain (sp_bench ?d bench_slot.Second)) + mset (chain (sp_bench ?d bench_slot.Third))"
    by (simp add: positioned_summons_def bench_all_def chain_def split: option.splits)
  also have "\<dots> = board_cards (built_player p ?d)"
  proof -
    have "chain_cards (map_option (built_summon p) (sp_bench ?d slot)) = mset (chain (sp_bench ?d slot))" for slot
      by (rule built) (use climbs in blast)
    moreover have "chain_cards (map_option (built_summon p) (sp_main ?d)) = mset (chain (sp_main ?d))"
      by (rule built) (use climbs in blast)
    ultimately show ?thesis by (simp add: board_cards_unfold built_player_def)
  qed
  finally have board: "board_cards (built_player p ?d)
      = mset (concat (map (\<lambda>(_, summon). sc_chain summon) (positioned_summons ?d)))" by simp
  have "gs_stack s = []" using from_scenario_Inr [OF assms] by (simp add: Let_def)
  then show "owned s p = mset (player_card_refs ?d)"
    by (simp add: owned_def player stack_cards_single player_cards_def board pile_cards_def player_card_refs_def)
      (simp add: built_player_def)
qed

text \<open>C4: no card is ever created, duplicated or moved to another player. In every reachable state
  the cards of a player, over all zones, are among the cards the scenario gave that player, every
  Summon sits with its owner, and no card instance occurs twice anywhere.\<close>

theorem cards_never_multiply:
  assumes "reachable cards sc s"
  shows "home s \<and> owned s p \<subseteq># mset (player_card_refs (pp_get (sn_players sc) p))
    \<and> count (image_mset cr_instance (owned s player_id.One + owned s player_id.Two)) i \<le> 1"
proof -
  obtain start where parsed: "from_scenario cards sc = Inr start" and run: "no_gain start s"
    using never_gains.from_start [OF assms] by blast
  note start = parsed_owned [OF parsed]
  have sub: "home s" "owned s q \<subseteq># mset (player_card_refs (pp_get (sn_players sc) q))" for q
    using run start by (auto simp: no_gain_def)
  have "owned s player_id.One + owned s player_id.Two \<subseteq># mset (all_card_refs sc)"
    using sub(2) [of player_id.One] sub(2) [of player_id.Two]
    by (simp add: all_card_refs_def pp_get_def subset_mset.add_mono)
  then have "image_mset cr_instance (owned s player_id.One + owned s player_id.Two)
      \<subseteq># mset (map cr_instance (all_card_refs sc))"
    by (metis image_mset_subseteq_mono mset_map)
  then have "count (image_mset cr_instance (owned s player_id.One + owned s player_id.Two)) i
      \<le> count (mset (map cr_instance (all_card_refs sc))) i"
    by (rule mset_subset_eq_count)
  also have "\<dots> \<le> 1"
    using from_scenario_Inr [OF parsed] by (simp add: well_formed_def distinct_count_atmost_1)
  finally show ?thesis using sub by blast
qed

end
