(* ===== verification/Samples.thy ===== *)
theory Samples
  imports Chains Match
begin

text \<open>
  A small card set and a small match, on which the theorems about whole matches are applied. The
  cards are a Base Summon with an Attack and a Skill, its Enhanced form, a Triggered Ability
  that fires at Upkeep, and a Spell.
\<close>

section \<open>Cards\<close>

definition sample_id :: "u8 \<Rightarrow> entity_id" where
  "sample_id n = EntityId 0 0 0 0 0 0 0 0 0 0 0 0 0 0 0 n"

definition sample_damage :: "u32 \<Rightarrow> effect_leaf" where
  "sample_damage n = DealDamage \<lparr>de_base = n, de_constraints = constraints_new, de_additions = []\<rparr>"

definition sample_cost :: "u32 \<Rightarrow> cost" where
  "sample_cost n = cost_default\<lparr>cost_generic := n\<rparr>"

definition golem :: entity where
  "golem = Entity (sample_id 1)
     [component.Name ''Golem'', component.Form Base, component.Life 50, component.RetreatCost 1,
      component.Produces [Matter],
      component.Attack (Entity (sample_id 11) [component.Cost (sample_cost 1), component.Effect (sample_damage 30)]),
      component.Skill (Entity (sample_id 12)
        [component.Cost (sample_cost 1), component.Effect (Heal 20 effect_target.Source)])]"

definition titan :: entity where
  "titan = Entity (sample_id 2)
     [component.Name ''Titan'', component.Form Enhanced, component.Life 80, component.RetreatCost 2,
      component.Produces [Matter, Mind],
      component.Trigger (Entity (sample_id 21)
        [component.Event YourUpkeep, component.Effect (Heal 10 effect_target.Source)])]"

definition bolt :: entity where
  "bolt = Entity (sample_id 3)
     [component.Name ''Bolt'', component.Tags [''spell''], component.Timing Support,
      component.Cost (sample_cost 1), component.Effect (sample_damage 20)]"

definition sample_list :: "entity list" where
  "sample_list = [golem, titan, bolt]"

definition sample_cards :: card_set where
  "sample_cards = card_set_new sample_list"

section \<open>A match\<close>

definition sample_ref :: "u32 \<Rightarrow> u8 \<Rightarrow> card_ref" where
  "sample_ref i n = \<lparr>cr_instance = CardInstanceId i, cr_def = sample_id n\<rparr>"

definition described :: "card_ref list \<Rightarrow> scenario_summon" where
  "described chain = \<lparr>sc_chain = chain, sc_damage = 0, sc_readiness = Ready\<rparr>"

definition sample_side :: "u32 \<Rightarrow> scenario_player" where
  "sample_side n =
     \<lparr>sp_deck = [sample_ref n 1, sample_ref (n + 1) 1],
      sp_hand = [sample_ref (n + 2) 1, sample_ref (n + 3) 2, sample_ref (n + 4) 3],
      sp_prizes = [sample_ref (n + 5) 1, sample_ref (n + 6) 1], sp_discard = [],
      sp_mana = \<lparr>mb_matter = 2, mb_mind = 1, mb_spirit = 0\<rparr>, sp_main_losses = 0,
      sp_main = Some (described [sample_ref (n + 7) 1]),
      sp_bench = (\<lambda>slot. if slot = bench_slot.First
        then Some (described [sample_ref (n + 8) 1, sample_ref (n + 9) 2]) else None)\<rparr>"

definition sample_match :: scenario where
  "sample_match = \<lparr>sn_players = pp_new (sample_side 0) (sample_side 100),
     sn_active_player = player_id.One, sn_coin = Some Coin\<rparr>"

definition sample_start :: game_state where
  "sample_start = projr (from_scenario sample_cards sample_match)"

lemma sample_parsed: "from_scenario sample_cards sample_match = Inr sample_start"
proof -
  have "\<not> isl (from_scenario sample_cards sample_match)" by code_simp
  then show ?thesis by (simp add: sample_start_def)
qed

lemma sample_reachable: "reachable sample_cards sample_match sample_start"
  by (rule parsed) (rule sample_parsed)

end
