(* ===== verification/Findings.thy ===== *)
theory Findings
  imports Samples
begin

text \<open>
  Where the engine departs from the rules it cites or from its own comments: what it does in
  general, and runs that reach it. Each run is a short scenario, the actions played on it, and
  what the engine answers.
\<close>

section \<open>One destruction, two Main losses\<close>

lemma update_work:
  "update_player (s\<lparr>gs_work := ws\<rparr>) p f = (update_player s p f)\<lparr>gs_work := ws\<rparr>"
  by (simp add: update_player_def set_player_def player_of_def)

lemma drain_item:
  assumes "gs_work u = item # ws" and "\<not> stack_has_unresolved_items u"
    and "gs_status u = game_status.Playing" "gs_pending u = None" "ts_window (gs_turn u) = None"
  shows "drain u = (case execute (u\<lparr>gs_work := ws\<rparr>) item of
    (v, es) \<Rightarrow> map_option (\<lambda>(w, es'). (w, es @ es')) (drain v))"
  using assms by (subst drain_unfold) (simp add: drain_stops_def drain_step_def is_playing_iff)

lemma no_candidates:
  assumes "\<And>q pos. matching_abilities s q pos event = []"
  shows "candidates s players event = []"
  using assms by (simp add: candidates_def)

definition destroy_main :: "game_state \<Rightarrow> player_id \<Rightarrow> summon_instance \<Rightarrow> game_state" where
  "destroy_main s p summon = update_player (update_player s p (\<lambda>ps. set_summon_at ps position.Main None))
     (si_owner summon) (\<lambda>ps. ps\<lparr>ps_discard := ps_discard ps @ chain_layers (si_chain summon)\<rparr>)"

lemma discard_alone:
  assumes "ps_main (player_of s p) = Some summon" and "is_destroyed s p position.Main = Inr True"
    and "is_destroyed s (opponent p) position.Main = Inr False"
    and "\<And>q pos. matching_abilities s q pos AnySummonDestroyed = []"
  shows "discard_destroyed_chain s position.Main
    = (destroy_main s p summon, [SummonDestroyed position.Main (si_owner summon)])"
proof -
  have "is_destroyed s q position.Main = Inr (q = p)" for q
    using assms(2,3) player_cases [of q p] by auto
  then have "destroyed_controller s position.Main = Inr (Some p)"
    using player_cases [of "ts_active_player (gs_turn s)" p]
    by (auto simp: destroyed_controller_def ordered_players_def Let_def)
  moreover have "candidates (destroy_main s p summon) players AnySummonDestroyed = []" for players
  proof (rule no_candidates)
    have "gs_cards (destroy_main s p summon) = gs_cards s" by (simp add: destroy_main_def update_player_def)
    moreover have "summon_at (player_of (destroy_main s p summon) q) pos
        = (if q = p \<and> pos = position.Main then None else summon_at (player_of s q) pos)" for q pos
      by (cases pos) (simp_all add: destroy_main_def)
    ultimately have "card_at (destroy_main s p summon) q pos
        = (if q = p \<and> pos = position.Main then None else card_at s q pos)" for q pos
      by (simp add: card_at_def split: option.split)
    then show "matching_abilities (destroy_main s p summon) q pos AnySummonDestroyed = []" for q pos
      using assms(4) [of q pos] by (simp add: matching_abilities_def)
  qed
  ultimately show ?thesis
    using assms(1) by (simp add: discard_destroyed_chain_def Let_def discover_front_eq destroy_main_def)
qed

lemma same_lookups:
  "is_destroyed (s\<lparr>gs_work := ws\<rparr>) q pos = is_destroyed s q pos"
  "matching_abilities (s\<lparr>gs_work := ws\<rparr>) q pos event = matching_abilities s q pos event"
  "stack_has_unresolved_items (s\<lparr>gs_work := ws\<rparr>) = stack_has_unresolved_items s"
proof -
  show "is_destroyed (s\<lparr>gs_work := ws\<rparr>) q pos = is_destroyed s q pos"
    by (rule is_destroyed_cong) simp_all
  have "card_at (s\<lparr>gs_work := ws\<rparr>) q pos = card_at s q pos"
    by (simp add: card_at_def split: option.split)
  then show "matching_abilities (s\<lparr>gs_work := ws\<rparr>) q pos event = matching_abilities s q pos event"
    by (simp add: matching_abilities_def)
qed (simp add: stack_has_unresolved_items_def current_base_def)

text \<open>The first three steps of one procedure, up to the pause for the Prize.\<close>

lemma drain_destruction:
  assumes running: "gs_status s = game_status.Playing" "gs_pending s = None" "ts_window (gs_turn s) = None"
      "\<not> stack_has_unresolved_items s"
    and main: "ps_main (player_of s p) = Some summon" and hit: "is_destroyed s p position.Main = Inr True"
      "is_destroyed s (opponent p) position.Main = Inr False"
    and quiet: "\<And>q pos. matching_abilities s q pos AnySummonDestroyed = []"
    and prizes: "ps_prizes (player_of s p) \<noteq> []"
  shows "drain (s\<lparr>gs_work := [DiscardDestroyedChain position.Main, RecordMainLoss p, RecoverPrize p] @ ws\<rparr>)
    = Some ((update_player (destroy_main s p summon) p (\<lambda>ps. ps\<lparr>ps_main_losses := ps_main_losses ps + 1\<rparr>))
        \<lparr>gs_work := ws, gs_pending := Some (PrizePick (opponent p))\<rparr>,
       [SummonDestroyed position.Main (si_owner summon)])"
proof -
  let ?s1 = "s\<lparr>gs_work := RecordMainLoss p # RecoverPrize p # ws\<rparr>"
  define s2 where "s2 = destroy_main ?s1 p summon"
  define s3 where "s3 = update_player s2 p (\<lambda>ps. ps\<lparr>ps_main_losses := ps_main_losses ps + 1\<rparr>)"
  let ?t = "s3\<lparr>gs_work := ws, gs_pending := Some (PrizePick (opponent p))\<rparr>"
  have discard: "discard_destroyed_chain ?s1 position.Main = (s2, [SummonDestroyed position.Main (si_owner summon)])"
    unfolding s2_def using main hit quiet by (intro discard_alone) (simp_all only: same_lookups, simp)
  have frame: "gs_work s2 = RecordMainLoss p # RecoverPrize p # ws" "gs_status s2 = gs_status s"
      "gs_pending s2 = gs_pending s" "gs_turn s2 = gs_turn s" "gs_stack s2 = gs_stack s"
      "gs_stack_segment_bases s2 = gs_stack_segment_bases s" "ps_prizes (player_of s2 p) \<noteq> []"
    using prizes by (auto simp: s2_def destroy_main_def)
  have free: "\<not> stack_has_unresolved_items (u\<lparr>gs_work := vs\<rparr>)" if "u \<in> {s, s2, s3}" for u vs
    using that running(4) by (auto simp: s3_def frame same_lookups stack_has_unresolved_items_def current_base_def)
  have "drain (s\<lparr>gs_work := [DiscardDestroyedChain position.Main, RecordMainLoss p, RecoverPrize p] @ ws\<rparr>)
      = map_option (\<lambda>(u, es). (u, SummonDestroyed position.Main (si_owner summon) # es)) (drain s2)"
    using drain_item [of "s\<lparr>gs_work := DiscardDestroyedChain position.Main # gs_work ?s1\<rparr>"] free [of s] running
    by (simp add: discard)
  also have "drain s2 = drain (s3\<lparr>gs_work := RecoverPrize p # ws\<rparr>)"
    using free [of s2, unfolded same_lookups(3)] running
    by (subst drain_item [OF frame(1)]) (simp_all add: frame s3_def record_main_loss_def option.map_id update_work)
  also have "drain (s3\<lparr>gs_work := RecoverPrize p # ws\<rparr>) = drain ?t"
    using free [of s3] running frame(7)
    by (subst drain_item [where item = "RecoverPrize p" and ws = ws]) (simp_all add: frame s3_def recover_prize_def option.map_id)
  also have "drain ?t = Some (?t, [])" by (rule drain_stopped) (simp add: drain_stops_def)
  also have "?t = (update_player (destroy_main s p summon) p (\<lambda>ps. ps\<lparr>ps_main_losses := ps_main_losses ps + 1\<rparr>))
      \<lparr>gs_work := ws, gs_pending := Some (PrizePick (opponent p))\<rparr>"
    by (simp add: s3_def s2_def destroy_main_def update_work)
  finally show ?thesis by simp
qed

text \<open>The checks in front of the queue run first: each queues the whole procedure again, for the one
  Summon that is over-damaged.\<close>

lemma drain_checks:
  assumes running: "gs_status s = game_status.Playing" "gs_pending s = None" "ts_window (gs_turn s) = None"
      "\<not> stack_has_unresolved_items s"
    and hit: "is_destroyed s p position.Main = Inr True" "is_destroyed s (opponent p) position.Main = Inr False"
  shows "drain (s\<lparr>gs_work := replicate n (DestructionCheck position.Main) @ ws\<rparr>)
    = drain (s\<lparr>gs_work := ws @ concat (replicate n (destruction_work p position.Main))\<rparr>)"
proof (induction n arbitrary: ws)
  case (Suc n)
  let ?s = "s\<lparr>gs_work := replicate n (DestructionCheck position.Main) @ ws\<rparr>"
  have "is_destroyed ?s q position.Main = Inr (q = p)" for q
    using hit is_destroyed_cong [of ?s s q position.Main] player_cases [of q p] by auto
  from check_players_queues [of _ ?s, OF this]
  have "destruction_check ?s position.Main = (s\<lparr>gs_work := replicate n (DestructionCheck position.Main)
      @ (ws @ destruction_work p position.Main)\<rparr>, [])"
    using player_cases [of "ts_active_player (gs_turn s)" p]
    by (auto simp: destruction_check_def ordered_players_def Let_def simp del: check_players.simps)
  moreover have "\<not> stack_has_unresolved_items (s\<lparr>gs_work := vs\<rparr>)" for vs
    using running(4) by (simp add: stack_has_unresolved_items_def current_base_def)
  ultimately have "drain (s\<lparr>gs_work := replicate (Suc n) (DestructionCheck position.Main) @ ws\<rparr>)
      = drain (s\<lparr>gs_work := replicate n (DestructionCheck position.Main) @ (ws @ destruction_work p position.Main)\<rparr>)"
    by (subst drain_unfold) (simp add: drain_stops_def drain_step_def running is_playing_iff option.map_id
        del: append_assoc)
  also have "\<dots> = drain (s\<lparr>gs_work := (ws @ destruction_work p position.Main)
      @ concat (replicate n (destruction_work p position.Main))\<rparr>)"
    by (rule Suc.IH)
  finally show ?case by simp
qed simp

text \<open>C37: every destruction check that is queued on one over-damaged Main counts a Main loss of its
  own. Where the loop finds \<open>n + 1\<close> checks of Main and the Main Summon of one player alone is
  over-damaged, with a Prize left to recover and no ability that fires on a destruction, it
  destroys that Summon, once, and stops for the Prize with one loss recorded; and \<open>n\<close> whole
  procedures more, each recording a loss, are still queued behind the rest of the first.\<close>

theorem checks_count_losses:
  assumes "gs_status s = game_status.Playing" and "gs_pending s = None" and "ts_window (gs_turn s) = None"
    and "\<not> stack_has_unresolved_items s" and "gs_work s = replicate (Suc n) (DestructionCheck position.Main)"
    and "ps_main (player_of s p) = Some summon" and "top_entity (gs_cards s) summon = Some e"
    and "entity_get life_field e = Some life" and "life \<le> si_damage summon"
    and "\<And>other. ps_main (player_of s (opponent p)) = Some other
      \<Longrightarrow> \<exists>e life. top_entity (gs_cards s) other = Some e \<and> entity_get life_field e = Some life
        \<and> si_damage other < life"
    and "\<And>q pos. matching_abilities s q pos AnySummonDestroyed = []"
    and "ps_prizes (player_of s p) \<noteq> []"
  shows "\<exists>t. drain s = Some (t, [SummonDestroyed position.Main (si_owner summon)])
    \<and> gs_pending t = Some (PrizePick (opponent p)) \<and> ps_main (player_of t p) = None
    \<and> ps_discard (player_of t (si_owner summon))
        = ps_discard (player_of s (si_owner summon)) @ chain_layers (si_chain summon)
    \<and> ps_main_losses (player_of t p) = ps_main_losses (player_of s p) + 1
    \<and> gs_work t = [PromoteBenchSummon p, ResolveMovementConsequences p, LossCheck p]
        @ concat (replicate n [DiscardDestroyedChain position.Main, RecordMainLoss p, RecoverPrize p,
            PromoteBenchSummon p, ResolveMovementConsequences p, LossCheck p])"
proof -
  have hit: "is_destroyed s p position.Main = Inr True"
    using assms(6-9) by (simp add: is_destroyed_def life_of_spec)
  have miss: "is_destroyed s (opponent p) position.Main = Inr False"
    using assms(10) by (auto simp: is_destroyed_def life_of_spec split: option.split)
  have "s = s\<lparr>gs_work := replicate (Suc n) (DestructionCheck position.Main) @ []\<rparr>"
    using assms(5) by simp
  then have "drain s = drain (s\<lparr>gs_work := [] @ concat (replicate (Suc n) (destruction_work p position.Main))\<rparr>)"
    using drain_checks [OF assms(1-4) hit miss, of "Suc n" "[]"] by (simp only:)
  also have "\<dots> = drain (s\<lparr>gs_work := [DiscardDestroyedChain position.Main, RecordMainLoss p, RecoverPrize p]
      @ [PromoteBenchSummon p, ResolveMovementConsequences p, LossCheck p]
      @ concat (replicate n (destruction_work p position.Main))\<rparr>)"
    by (simp add: destruction_work_def)
  finally show ?thesis
    unfolding drain_destruction [OF assms(1-4,6) hit miss assms(11,12)]
    by (cases "si_owner summon = p") (simp_all add: destroy_main_def destruction_work_def)
qed

text \<open>A Summon whose Attack hits twice, each hit enough on its own.\<close>

definition twin :: entity where
  "twin = Entity (sample_id 4)
     [component.Form Base, component.Life 50,
      component.Attack (Entity (sample_id 41)
        [component.Effect (sample_damage 50), component.Effect (sample_damage 50)])]"

definition twin_cards :: card_set where
  "twin_cards = card_set_new [golem, twin]"

definition twin_side :: "u32 \<Rightarrow> u8 \<Rightarrow> scenario_player" where
  "twin_side n main =
     \<lparr>sp_deck = [sample_ref n 1, sample_ref (n + 1) 1], sp_hand = [],
      sp_prizes = [sample_ref (n + 2) 1, sample_ref (n + 3) 1], sp_discard = [],
      sp_mana = mana_bank_default, sp_main_losses = 0,
      sp_main = Some (described [sample_ref (n + 4) main]),
      sp_bench = (\<lambda>slot. case slot of
          bench_slot.First \<Rightarrow> Some (described [sample_ref (n + 5) 1])
        | bench_slot.Second \<Rightarrow> Some (described [sample_ref (n + 6) 1])
        | bench_slot.Third \<Rightarrow> None)\<rparr>"

definition twin_match :: scenario where
  "twin_match = \<lparr>sn_players = pp_new (twin_side 0 4) (twin_side 100 1),
     sn_active_player = player_id.One, sn_coin = None\<rparr>"

definition twin_start :: game_state where
  "twin_start = projr (from_scenario twin_cards twin_match)"

definition twin_attack :: "game_action list" where
  "twin_attack = [DeclareAttack player_id.One position.Main None, PassPriority player_id.Two,
     PassPriority player_id.One]"

definition twin_answers :: "game_action list" where
  "twin_answers = [ChoosePrize player_id.One 0, ChoosePromotion player_id.Two bench_slot.First]"

lemma twin_parsed: "\<not> isl (from_scenario twin_cards twin_match)"
  by code_simp

lemma twin_reachable: "plays twin_start actions = Some s \<Longrightarrow> reachable twin_cards twin_match s"
proof (rule reachable_plays)
  have "from_scenario twin_cards twin_match = Inr twin_start"
    using twin_parsed by (simp add: twin_start_def)
  then show "reachable twin_cards twin_match twin_start" by (rule parsed)
qed

text \<open>The two hits queue two destruction checks before either destruction runs. Both see the same
  over-damaged Main and both queue its destruction, so in this match one destroyed Summon counts
  as two Main losses and asks for two Prizes.\<close>

lemma one_destruction_two_losses:
  "\<exists>s. reachable twin_cards twin_match s
    \<and> ps_main_losses (player_of s player_id.Two) = 2
    \<and> ps_discard (player_of s player_id.Two) = [sample_ref 104 1]
    \<and> gs_pending s = Some (PrizePick player_id.One)"
proof -
  have "case plays twin_start (twin_attack @ twin_answers) of
      None \<Rightarrow> False
    | Some s \<Rightarrow> ps_main_losses (player_of s player_id.Two) = 2
        \<and> ps_discard (player_of s player_id.Two) = [sample_ref 104 1]
        \<and> gs_pending s = Some (PrizePick player_id.One)"
    by code_simp
  then show ?thesis using twin_reachable by (auto split: option.splits)
qed

text \<open>The second destruction finds the promoted Summon healthy, discards nothing, and promotes the
  last Benched Summon onto the occupied Main: the Summon that was promoted first is in no zone
  any more.\<close>

lemma promotion_loses_a_card:
  "\<exists>s. reachable twin_cards twin_match s
    \<and> sample_ref 105 1 \<in> set (all_card_refs twin_match)
    \<and> sample_ref 105 1 \<notin># owned s player_id.One + owned s player_id.Two"
proof -
  have "case plays twin_start (twin_attack @ twin_answers @ [ChoosePrize player_id.One 0]) of
      None \<Rightarrow> False
    | Some s \<Rightarrow> \<not> (sample_ref 105 1 \<in># owned s player_id.One + owned s player_id.Two)"
    by code_simp
  moreover have "sample_ref 105 1 \<in> set (all_card_refs twin_match)" by code_simp
  ultimately show ?thesis using twin_reachable by (auto split: option.splits)
qed

section \<open>A resolution loop that never ends\<close>

text \<open>A Summon with an immediate ability on entering the Bench that swaps it back.\<close>

definition spinner :: entity where
  "spinner = Entity (sample_id 5)
     [component.Form Base, component.Life 50, component.RetreatCost 0,
      component.Trigger (Entity (sample_id 51)
        [component.Event EntersBench, component.Effect SwapPositions])]"

definition spin_cards :: card_set where
  "spin_cards = card_set_new [golem, spinner]"

definition spin_side :: "u32 \<Rightarrow> u8 \<Rightarrow> scenario_player" where
  "spin_side n kind =
     \<lparr>sp_deck = [], sp_hand = [], sp_prizes = [], sp_discard = [],
      sp_mana = mana_bank_default, sp_main_losses = 0,
      sp_main = Some (described [sample_ref n kind]),
      sp_bench = (\<lambda>slot. if slot = bench_slot.First
        then Some (described [sample_ref (n + 1) kind]) else None)\<rparr>"

definition spin_match :: scenario where
  "spin_match = \<lparr>sn_players = pp_new (spin_side 0 5) (spin_side 100 1),
     sn_active_player = player_id.One, sn_coin = None\<rparr>"

definition spin_start :: game_state where
  "spin_start = projr (from_scenario spin_cards spin_match)"

text \<open>Every state of the loop has the two Summons on the same two positions and one of six queues.\<close>

definition spin_queues :: "work_item list list" where
  "spin_queues =
     (let F = FireTrigger player_id.One (position.Bench bench_slot.First) EntersBench (sample_id 51);
          W = exchange_work player_id.One bench_slot.First
      in [W, drop 1 W, F # drop 2 W, drop 2 W @ W, drop 3 W @ W])"

definition is_spinner :: "summon_instance option \<Rightarrow> bool" where
  "is_spinner m = (case m of None \<Rightarrow> False | Some summon \<Rightarrow> cr_def (chain_top (si_chain summon)) = sample_id 5)"

definition spin_board :: "game_state \<Rightarrow> bool" where
  "spin_board s \<longleftrightarrow> gs_cards s = spin_cards \<and> gs_pending s = None \<and> gs_status s = game_status.Playing
     \<and> ts_window (gs_turn s) = None \<and> gs_stack s = [] \<and> gs_stack_segment_bases s = []
     \<and> is_spinner (ps_main (player_of s player_id.One))
     \<and> is_spinner (ps_bench (player_of s player_id.One) bench_slot.First)"

definition spinning :: "game_state \<Rightarrow> bool" where
  "spinning s \<longleftrightarrow> spin_board s \<and> gs_work s \<in> set spin_queues"

lemma spinner_card: "card_set_get spin_cards (sample_id 5) = Some spinner"
  by (simp add: spin_cards_def card_set_get_new golem_def spinner_def sample_id_def)

lemma spin_card_at:
  assumes "spin_board s" and "pos \<in> {position.Main, position.Bench bench_slot.First}"
  shows "card_at s player_id.One pos = Some spinner"
  using assms
  by (auto simp: spin_board_def is_spinner_def card_at_def top_entity_def spinner_card split: option.splits)

lemma spin_matching:
  "card_at s p pos = Some spinner \<Longrightarrow>
    matching_abilities s p pos event = (if event = EntersBench then [sample_id 51] else [])"
  by (simp add: matching_abilities_def spinner_def read_defs field_defs)

lemma spin_ability:
  "card_at s p pos = Some spinner \<Longrightarrow> ability_at s p pos (sample_id 51) = Some (False, [SwapPositions])"
  by (simp add: ability_at_def spinner_def read_defs field_defs)

lemma spin_move:
  assumes board: "spin_board s" and pos: "pos \<in> {position.Main, position.Bench bench_slot.First}"
  shows "spin_board (fst (movement_trigger s step player_id.One pos))
    \<and> gs_work (fst (movement_trigger s step player_id.One pos))
      = (if step = EnteringBench then [FireTrigger player_id.One pos EntersBench (sample_id 51)] else [])
        @ gs_work s"
proof -
  have marked: "spin_board (update_player s player_id.One (\<lambda>ps. ps\<lparr>ps_main := map_option mark_main_entry (ps_main ps)\<rparr>))"
    using board by (auto simp: spin_board_def is_spinner_def mark_main_entry_def update_player_def
        set_player_def player_of_def pp_get_set split: option.splits)
  show ?thesis
    using board marked spin_matching [OF spin_card_at [OF board pos]]
      spin_matching [OF spin_card_at [OF marked pos]]
    by (cases step) (auto simp: movement_trigger_eq Let_def spin_board_def update_player_def set_player_def)
qed

lemma spin_fire:
  assumes board: "spin_board s"
  shows "spin_board (fst (fire_queued s player_id.One (position.Bench bench_slot.First) EntersBench (sample_id 51)))
    \<and> gs_work (fst (fire_queued s player_id.One (position.Bench bench_slot.First) EntersBench (sample_id 51)))
      = gs_work s @ exchange_work player_id.One bench_slot.First"
  using board spin_ability [OF spin_card_at [OF board, of "position.Bench bench_slot.First"]]
  by (auto simp: fire_queued_def fire_def implicit_targets_def is_deal_damage_def swap_positions_def first_of_def
      exchange_def exchange_work_def push_back_def spin_board_def is_spinner_def Let_def split_def
      set_player_def player_of_def pp_get_set split: option.splits)

lemma spin_step:
  assumes "spinning s"
  shows "\<not> drain_stops s" and "spinning (fst (drain_step s))"
proof -
  have board: "spin_board s" and queue: "gs_work s \<in> set spin_queues"
    using assms by (simp_all add: spinning_def)
  have stack: "\<not> stack_has_unresolved_items s"
    using board by (simp add: spin_board_def stack_has_unresolved_items_def current_base_def)
  show "\<not> drain_stops s"
    using board queue by (auto simp: spin_board_def drain_stops_def spin_queues_def exchange_work_def Let_def)
  have rest: "spin_board (s\<lparr>gs_work := rest\<rparr>)" for rest
    using board by (simp add: spin_board_def)
  show "spinning (fst (drain_step s))"
    using queue stack spin_move [OF rest] spin_fire [OF rest]
    by (auto simp: drain_step_def spinning_def spin_queues_def exchange_work_def Let_def)
qed

lemma spinning_never_returns:
  assumes "spinning s" shows "drain s = None"
proof (rule ccontr)
  assume "drain s \<noteq> None"
  then obtain s' events where run: "drain s = Some (s', events)" by auto
  then have "spinning s'" using assms spin_step(2) by (rule drain_rule)
  then show False using spin_step(1) drain_settles [OF run] by blast
qed

lemma spin_parsed: "from_scenario spin_cards spin_match = Inr spin_start"
proof -
  have "\<not> isl (from_scenario spin_cards spin_match)" by code_simp
  then show ?thesis by (simp add: spin_start_def)
qed

text \<open>C39: the Retreat is legal and free. Its resolution swaps the two Summons for ever, so \<open>apply\<close> does
  not return: the bound on card sets in the termination theorem is needed.\<close>

theorem retreat_never_returns:
  "reachable spin_cards spin_match spin_start
    \<and> apply_action spin_start (Retreat player_id.One bench_slot.First None) = None"
proof -
  let ?a = "Retreat player_id.One bench_slot.First None"
  let ?mid = "projr (dispatch spin_start ?a)"
  have run: "\<not> isl (dispatch spin_start ?a)" "gs_pending (ao_state ?mid) = None"
    "is_playing (gs_status (ao_state ?mid))" "ts_window (gs_turn (ao_state ?mid)) = None"
    "gs_stack (ao_state ?mid) = []" "gs_stack_segment_bases (ao_state ?mid) = []"
    "is_spinner (ps_main (player_of (ao_state ?mid) player_id.One))"
    "is_spinner (ps_bench (player_of (ao_state ?mid) player_id.One) bench_slot.First)"
    "gs_work (ao_state ?mid) = exchange_work player_id.One bench_slot.First"
    "is_playing (gs_status spin_start)" "actor ?a = required_actor spin_start"
    by code_simp+
  then obtain mid where mid: "dispatch spin_start ?a = Inr mid" and eq: "?mid = mid"
    by (cases "dispatch spin_start ?a") simp_all
  have "gs_cards spin_start = spin_cards"
    by (rule reachable_cards [OF parsed [OF spin_parsed]])
  then have "gs_cards (ao_state mid) = spin_cards"
    using handled_dispatch [OF mid] by (simp add: handled_def is_resign_def)
  with run [unfolded eq] have spin: "spinning (ao_state mid)"
    by (simp add: spinning_def spin_board_def spin_queues_def Let_def is_playing_iff)
  have ok: "gs_status spin_start = game_status.Playing" "actor ?a = required_actor spin_start"
    using run by (simp_all add: is_playing_iff)
  have "apply_action spin_start ?a = None"
    using ok mid spinning_never_returns [OF spin]
    by (simp add: apply_action_playing is_resign_def check_actor_def)
  then show ?thesis using parsed [OF spin_parsed] by blast
qed

section \<open>A Mana choice that nothing can answer\<close>

text \<open>A Summon of two Mana types whose Skill produces Mana and then swaps it away.\<close>

definition surge :: entity where
  "surge = Entity (sample_id 6)
     [component.Form Base, component.Life 50, component.Produces [Matter, Mind],
      component.Skill (Entity (sample_id 61)
        [component.Effect (effect_leaf.ProduceMana effect_target.Source), component.Effect SwapPositions])]"

definition inert :: entity where
  "inert = Entity (sample_id 7) [component.Form Base, component.Life 50]"

definition lock_cards :: card_set where
  "lock_cards = card_set_new [surge, inert]"

definition lock_match :: scenario where
  "lock_match = \<lparr>sn_players = pp_new ((spin_side 0 6)\<lparr>sp_bench := (\<lambda>slot.
        if slot = bench_slot.First then Some (described [sample_ref 1 7]) else None)\<rparr>) (spin_side 100 7),
     sn_active_player = player_id.One, sn_coin = None\<rparr>"

definition lock_start :: game_state where
  "lock_start = projr (from_scenario lock_cards lock_match)"

lemma lock_reachable: "plays lock_start actions = Some s \<Longrightarrow> reachable lock_cards lock_match s"
proof (rule reachable_plays)
  have "\<not> isl (from_scenario lock_cards lock_match)" by code_simp
  then have "from_scenario lock_cards lock_match = Inr lock_start" by (simp add: lock_start_def)
  then show "reachable lock_cards lock_match lock_start" by (rule parsed)
qed

text \<open>A pending Mana choice without a type to choose refuses every action but resigning.\<close>

lemma dry_choice_refuses:
  assumes "gs_status s = game_status.Playing" and "gs_pending s = Some (ManaProduction p src)"
    and "available_types (gs_cards s) (player_of s p) src = []" and "\<not> is_resign action"
  shows "\<exists>e. apply_action s action = Some (Inl e)"
proof -
  have "\<exists>e. dispatch s action = Inl e"
    using assms
    by (cases action) (auto simp: play_summon_def upgrade_summon_def cast_spell_def activate_skill_def
        retreat_def require_free_main_phase_def declare_attack_def end_turn_def pass_def convert_coin_def
        answer_promotion_def answer_prize_def choose_mana_type_def is_resign_def and_then_def)
  then show ?thesis
    using assms(1,4) by (auto simp: apply_action_playing check_actor_def)
qed

text \<open>C40: the Skill asks for a type while the Summon is in Main and moves it before the answer, so the
  choice refers to a position that prints nothing: only resigning is left.\<close>

theorem mana_choice_softlock:
  "\<exists>s. reachable lock_cards lock_match s \<and> gs_status s = game_status.Playing
    \<and> gs_pending s = Some (ManaProduction player_id.One (mana_source.Summon position.Main))
    \<and> (\<forall>action. (\<exists>p. action = Resign p) \<or> (\<exists>e. apply_action s action = Some (Inl e)))"
proof -
  let ?skill = "ActivateSkill player_id.One position.Main (sample_id 61) [position.Bench bench_slot.First] None"
  have "case plays lock_start [?skill] of None \<Rightarrow> False
    | Some s \<Rightarrow> is_playing (gs_status s)
        \<and> gs_pending s = Some (ManaProduction player_id.One (mana_source.Summon position.Main))
        \<and> available_types (gs_cards s) (player_of s player_id.One) (mana_source.Summon position.Main) = []"
    by code_simp
  then obtain s where "plays lock_start [?skill] = Some s" and s: "gs_status s = game_status.Playing"
      "gs_pending s = Some (ManaProduction player_id.One (mana_source.Summon position.Main))"
      "available_types (gs_cards s) (player_of s player_id.One) (mana_source.Summon position.Main) = []"
    by (auto simp: is_playing_iff split: option.splits)
  then have "reachable lock_cards lock_match s" by (intro lock_reachable)
  moreover have "(\<exists>p. action = Resign p) \<or> (\<exists>e. apply_action s action = Some (Inl e))" for action
    using dry_choice_refuses [OF s] by (cases action) (simp_all add: is_resign_def)
  ultimately show ?thesis using s by blast
qed

section \<open>A Promotion at the start of a match\<close>

text \<open>A described match with both Mains empty asks player One alone, and the Promotion it asks for
  queues no movement consequences: the promoted Summon never counts as having entered Main, and
  player Two is left without a Main Summon while the game goes on.\<close>

definition empty_mains :: scenario where
  "empty_mains = \<lparr>sn_players = pp_new ((sample_side 0)\<lparr>sp_main := None\<rparr>) ((sample_side 100)\<lparr>sp_main := None\<rparr>),
     sn_active_player = player_id.One, sn_coin = None\<rparr>"

theorem promotion_at_start_is_silent:
  "\<exists>s. reachable sample_cards empty_mains s \<and> gs_status s = game_status.Playing \<and> gs_pending s = None
    \<and> (\<exists>summon. ps_main (player_of s player_id.One) = Some summon \<and> tr_main_entry (si_turn summon) = None)
    \<and> ps_main (player_of s player_id.Two) = None"
proof -
  let ?start = "projr (from_scenario sample_cards empty_mains)"
  let ?s = "plays ?start [ChoosePromotion player_id.One bench_slot.First]"
  have "\<not> isl (from_scenario sample_cards empty_mains)" by code_simp
  then have start: "reachable sample_cards empty_mains ?start" by (intro parsed) simp
  have "case ?s of None \<Rightarrow> False
    | Some s \<Rightarrow> is_playing (gs_status s) \<and> gs_pending s = None
        \<and> map_option (\<lambda>summon. tr_main_entry (si_turn summon)) (ps_main (player_of s player_id.One)) = Some None
        \<and> \<not> isl (from_scenario sample_cards empty_mains) \<and> ps_main (player_of s player_id.Two) = None"
    by code_simp
  then obtain s where "?s = Some s" "gs_status s = game_status.Playing" "gs_pending s = None"
      "map_option (\<lambda>summon. tr_main_entry (si_turn summon)) (ps_main (player_of s player_id.One)) = Some None"
      "ps_main (player_of s player_id.Two) = None"
    by (auto simp: is_playing_iff split: option.splits)
  moreover from this(1) have "reachable sample_cards empty_mains s" by (rule reachable_plays [OF start])
  ultimately show ?thesis by auto
qed

section \<open>A recorded loss that wraps\<close>

text \<open>Parsing accepts any byte of recorded losses, so a decided match can be described as one still
  being played; at 255 one more loss wraps to zero.\<close>

definition decided_match :: scenario where
  "decided_match = sample_match\<lparr>sn_players := pp_new ((sample_side 0)\<lparr>sp_main_losses := 255\<rparr>) (sample_side 100)\<rparr>"

theorem decided_match_is_played:
  "\<exists>s. reachable sample_cards decided_match s \<and> gs_status s = game_status.Playing
    \<and> 3 \<le> ps_main_losses (player_of s player_id.One)
    \<and> ps_main_losses (player_of (fst (record_main_loss s player_id.One)) player_id.One) = 0"
proof -
  let ?s = "projr (from_scenario sample_cards decided_match)"
  have s: "\<not> isl (from_scenario sample_cards decided_match)" "is_playing (gs_status ?s)"
      "3 \<le> ps_main_losses (player_of ?s player_id.One)"
      "ps_main_losses (player_of (fst (record_main_loss ?s player_id.One)) player_id.One) = 0"
    by code_simp+
  from s(1) have "reachable sample_cards decided_match ?s" by (intro parsed) simp
  with s(2-) show ?thesis by (auto simp: is_playing_iff)
qed

end
