(* ===== verification/Applications.thy ===== *)
theory Applications
  imports Findings
begin

text \<open>
  The theorems with hypotheses, applied: one small concrete input for each, at which every
  hypothesis holds. Whole-match theorems are applied to states of the sample match.
\<close>

section \<open>Identities, cards and Mana\<close>

lemma entity_id_parse_normalises_applied:
  "filter (\<lambda>c. c \<noteq> CHR ''-'') (entity_id_display (sample_id 171))
    = map ascii_lower (filter (\<lambda>c. c \<noteq> CHR ''-'') ''00000000-0000-0000-0000-0000000000AB'')"
proof -
  have "entity_id_parse ''00000000-0000-0000-0000-0000000000AB'' = Inr (sample_id 171)" by code_simp
  then show ?thesis using entity_id_parse_normalises by blast
qed

lemma card_set_by_accounting_first_applied:
  "card_set_by_accounting (card_set_new sample_list) ''FND-001'' = find (prints_code ''FND-001'') sample_list"
  by (rule card_set_by_accounting_first) code_simp

definition some_bank :: mana_bank where
  "some_bank = \<lparr>mb_matter = 2, mb_mind = 1, mb_spirit = 0\<rparr>"

lemma deduct_exact_applied:
  "pool_sum (paid (projr (deduct some_bank (sample_cost 2) None))) = 2"
proof -
  have "\<not> isl (deduct some_bank (sample_cost 2) None)" by code_simp
  then have "deduct some_bank (sample_cost 2) None = Inr (projr (deduct some_bank (sample_cost 2) None))"
    by simp
  from deduct_exact [OF this] show ?thesis
    by (simp add: sample_cost_def cost_default_def pool_sum_def cost_array_def)
qed

section \<open>One step of the engine\<close>

definition golem_attack :: damage_intent where
  "golem_attack = \<lparr>dn_context = \<lparr>dc_source = damage_source.Attack player_id.One position.Main (sample_id 11),
     dc_target = \<lparr>bt_controller = player_id.Two, bt_position = position.Main\<rparr>\<rparr>,
     dn_effect = \<lparr>de_base = 30, de_constraints = constraints_new, de_additions = []\<rparr>\<rparr>"

lemma commit_hit_applied:
  "gs_work (fst (commit sample_start (evaluate sample_start golem_attack))) = [DestructionCheck position.Main]"
proof -
  let ?r = "evaluate sample_start golem_attack"
  have t: "bt_controller (dc_target (dr_context ?r)) = player_id.Two"
    "bt_position (dc_target (dr_context ?r)) = position.Main" "gs_work sample_start = []"
    "summon_at (player_of sample_start player_id.Two) position.Main \<noteq> None"
    by code_simp+
  then obtain summon where "summon_at (player_of sample_start (bt_controller (dc_target (dr_context ?r))))
      (bt_position (dc_target (dr_context ?r))) = Some summon" by auto
  from commit_hit [OF this refl] t show ?thesis by simp
qed

definition sample_hurt :: game_state where
  "sample_hurt = update_player sample_start player_id.Two (\<lambda>ps. set_summon_at ps position.Main
     (map_option (\<lambda>summon. summon\<lparr>si_damage := 50\<rparr>) (ps_main ps)))"

lemma destruction_check_queues_applied:
  "gs_work (fst (destruction_check sample_hurt position.Main))
    = [DiscardDestroyedChain position.Main, RecordMainLoss player_id.Two, RecoverPrize player_id.Two,
       PromoteBenchSummon player_id.Two, ResolveMovementConsequences player_id.Two, LossCheck player_id.Two]"
proof -
  let ?read = "\<lambda>p summon. Option.bind (top_entity (gs_cards sample_hurt) summon) (entity_get life_field) = Some 50"
  have lives: "\<forall>summon \<in> set_option (summon_at (player_of sample_hurt player_id.One) position.Main). ?read player_id.One summon"
    "\<forall>summon \<in> set_option (summon_at (player_of sample_hurt player_id.Two) position.Main). ?read player_id.Two summon"
    by code_simp+
  have "\<exists>e. top_entity (gs_cards sample_hurt) summon = Some e \<and> entity_get life_field e = Some 50"
    if "summon_at (player_of sample_hurt p) position.Main = Some summon" for p summon
    using lives that by (cases p) (auto simp: bind_eq_Some_conv)
  then have queued: "destruction_check sample_hurt position.Main = (sample_hurt\<lparr>gs_work := gs_work sample_hurt @ concat (map
      (\<lambda>p. case summon_at (player_of sample_hurt p) position.Main of
          None \<Rightarrow> []
        | Some summon \<Rightarrow>
            if 50 \<le> si_damage summon
            then DiscardDestroyedChain position.Main
              # (if position.Main = position.Main
                 then [RecordMainLoss p, RecoverPrize p, PromoteBenchSummon p, ResolveMovementConsequences p]
                 else [])
              @ [LossCheck p]
            else [])
      [opponent (ts_active_player (gs_turn sample_hurt)), ts_active_player (gs_turn sample_hurt)])\<rparr>, [])"
    by (rule destruction_check_queues [where life = "\<lambda>_. 50"])
  show ?thesis by (subst queued) code_simp
qed

text \<open>The sample match after One attacks, and after Two's first pass and One's second.\<close>

definition sample_attacked :: game_state where
  "sample_attacked = the (plays sample_start [DeclareAttack player_id.One position.Main None])"

lemma sample_attacked_reachable: "reachable sample_cards sample_match sample_attacked"
proof (rule reachable_plays [OF sample_reachable])
  have "plays sample_start [DeclareAttack player_id.One position.Main None] \<noteq> None" by code_simp
  then show "plays sample_start [DeclareAttack player_id.One position.Main None] = Some sample_attacked"
    by (simp add: sample_attacked_def)
qed

lemma drain_settled_applied:
  "\<exists>s' events. drain (sample_attacked\<lparr>gs_turn := (gs_turn sample_attacked)\<lparr>ts_window := None\<rparr>\<rparr>) = Some (s', events)
    \<and> drain_stops s' \<and> drain s' = Some (s', [])"
proof -
  let ?s = "sample_attacked\<lparr>gs_turn := (gs_turn sample_attacked)\<lparr>ts_window := None\<rparr>\<rparr>"
  have "drain ?s \<noteq> None" by code_simp
  then obtain s' events where run: "drain ?s = Some (s', events)" by auto
  with drain_settled [OF run] show ?thesis by blast
qed

lemma activate_skill_accepts_applied:
  "\<exists>out summon. activate_skill sample_start player_id.One position.Main (sample_id 12) [] None = Inr out
    \<and> summon_at (player_of sample_start player_id.One) position.Main = Some summon
    \<and> si_readiness summon = Ready"
proof -
  have "\<not> isl (activate_skill sample_start player_id.One position.Main (sample_id 12) [] None)" by code_simp
  then obtain out where act: "activate_skill sample_start player_id.One position.Main (sample_id 12) [] None = Inr out"
    by (cases "activate_skill sample_start player_id.One position.Main (sample_id 12) [] None") auto
  from activate_skill_accepts [THEN iffD1, OF act] act show ?thesis by blast
qed

lemma handover_upkeep_applied:
  "gs_turn (ao_state (handover sample_start)) = fresh_turn (opponent (ts_active_player (gs_turn sample_start)))"
  using handover_upkeep [of sample_start] by (simp add: Let_def)

lemma apply_action_gate_applied:
  "apply_action (sample_start\<lparr>gs_status := game_status.Ended \<lparr>go_winner = player_id.One, go_reason = Resignation\<rparr>\<rparr>)
      (EndTurn player_id.One) = Some (Inl GameAlreadyOver)"
  using apply_action_gate [where s = "sample_start\<lparr>gs_status := game_status.Ended
      \<lparr>go_winner = player_id.One, go_reason = Resignation\<rparr>\<rparr>" and action = "EndTurn player_id.One"]
  by simp

lemma execute_conserves_applied:
  "owned (fst (execute sample_start DrawCard)) player_id.One = owned sample_start player_id.One"
  using execute_conserves [OF parsed_owned(1) [OF sample_parsed], of DrawCard player_id.One] by simp

text \<open>The doubled destruction: the loop with both checks queued, and the match once the first
  procedure is over.\<close>

definition twin_hit :: game_state where
  "twin_hit = fst (drain_step (ao_state (projr
     (dispatch (the (plays twin_start (butlast twin_attack))) (PassPriority player_id.One)))))"

lemma checks_count_losses_applied:
  "\<exists>t. drain twin_hit = Some (t, [SummonDestroyed position.Main player_id.Two])
    \<and> ps_main_losses (player_of t player_id.Two) = 1
    \<and> length (filter (\<lambda>w. w = RecordMainLoss player_id.Two) (gs_work t)) = 1"
proof -
  have facts: "is_playing (gs_status twin_hit)" "gs_pending twin_hit = None" "ts_window (gs_turn twin_hit) = None"
    "\<not> stack_has_unresolved_items twin_hit"
    "gs_work twin_hit = replicate (Suc 1) (DestructionCheck position.Main)"
    "ps_prizes (player_of twin_hit player_id.Two) \<noteq> []"
    "ps_main_losses (player_of twin_hit player_id.Two) = 0"
    by code_simp+
  have "case ps_main (player_of twin_hit player_id.Two) of None \<Rightarrow> False
    | Some summon \<Rightarrow> si_owner summon = player_id.Two \<and> 50 \<le> si_damage summon
        \<and> Option.bind (top_entity (gs_cards twin_hit) summon) (entity_get life_field) = Some 50"
    by code_simp
  then obtain summon e where hit: "ps_main (player_of twin_hit player_id.Two) = Some summon"
      "top_entity (gs_cards twin_hit) summon = Some e" "entity_get life_field e = Some 50" "50 \<le> si_damage summon"
      "si_owner summon = player_id.Two"
    by (auto simp: bind_eq_Some_conv split: option.splits)
  have "case ps_main (player_of twin_hit player_id.One) of None \<Rightarrow> True
    | Some other \<Rightarrow> si_damage other < 50
        \<and> Option.bind (top_entity (gs_cards twin_hit) other) (entity_get life_field) = Some 50"
    by code_simp
  then have miss: "\<exists>e life. top_entity (gs_cards twin_hit) other = Some e \<and> entity_get life_field e = Some life
      \<and> si_damage other < life"
    if "ps_main (player_of twin_hit (opponent player_id.Two)) = Some other" for other
    using that by (auto simp: bind_eq_Some_conv)
  have "matching_abilities twin_hit q pos AnySummonDestroyed = []" for q pos
  proof -
    have "\<forall>q \<in> set [player_id.One, player_id.Two]. \<forall>pos \<in> set [position.Main, position.Bench bench_slot.First,
        position.Bench bench_slot.Second, position.Bench bench_slot.Third].
        matching_abilities twin_hit q pos AnySummonDestroyed = []"
      by code_simp
    moreover have "pos \<in> set [position.Main, position.Bench bench_slot.First,
        position.Bench bench_slot.Second, position.Bench bench_slot.Third]"
      by (cases pos; simp) (use bench_slot.exhaust in blast)
    moreover have "q \<in> set [player_id.One, player_id.Two]" by (cases q) simp_all
    ultimately show ?thesis by blast
  qed
  from checks_count_losses [OF facts(1) [unfolded is_playing_iff] facts(2-5) hit(1-4) miss this facts(6)]
  show ?thesis using hit(5) facts(7) by auto
qed

definition twin_doubled :: game_state where
  "twin_doubled = the (plays twin_start (twin_attack @ twin_answers))"

lemma promotion_overwrites_applied:
  "\<exists>old. ps_main (player_of twin_doubled player_id.Two) = Some old
    \<and> owned twin_doubled player_id.Two
      = owned (fst (execute twin_doubled (PromoteBenchSummon player_id.Two))) player_id.Two
        + mset (chain_layers (si_chain old))"
proof -
  have "ps_main (player_of twin_doubled player_id.Two) \<noteq> None"
    "ps_bench (player_of twin_doubled player_id.Two) bench_slot.Second \<noteq> None"
    "occupied_bench_slots twin_doubled player_id.Two = [bench_slot.Second]"
    by code_simp+
  then obtain old new where "ps_main (player_of twin_doubled player_id.Two) = Some old"
    "ps_bench (player_of twin_doubled player_id.Two) bench_slot.Second = Some new"
    "occupied_bench_slots twin_doubled player_id.Two = [bench_slot.Second]"
    by blast
  with promotion_overwrites [OF this(1,2), of "fst (execute twin_doubled (PromoteBenchSummon player_id.Two))"]
  show ?thesis by blast
qed

section \<open>Whole matches\<close>

lemma sample_still: "still_triggers sample_list"
  by (simp add: still_triggers_def sample_list_def golem_def titan_def bolt_def read_defs field_defs
      moves_summons_def)

lemma sample_attacked_facts:
  "gs_status sample_attacked = game_status.Playing" "gs_pending sample_attacked = None"
  by code_simp+

lemma apply_returns_applied: "\<exists>answer. apply_action sample_attacked (PassPriority player_id.Two) = Some answer"
  using apply_returns [OF sample_still] sample_attacked_reachable by (simp add: sample_cards_def)

lemma stack_segments_applied: "gs_stack_segment_bases sample_attacked \<in> {[], [0]}"
  using stack_segments [OF sample_attacked_reachable] by blast

lemma resting_undecided_applied: "ps_main_losses (player_of sample_start player_id.Two) < 3"
proof -
  have "gs_status sample_start = game_status.Playing" "gs_pending sample_start = None"
    "ts_window (gs_turn sample_start) = None"
    by code_simp+
  from resting_undecided [OF sample_reachable this, of player_id.Two] show ?thesis
    by (auto simp: sample_match_def pp_new_def pp_get_def sample_side_def)
qed

lemma never_stuck_applied:
  "\<exists>action out. \<not> is_resign action \<and> apply_action sample_attacked action = Some (Inr out)"
  using never_stuck [OF sample_still, of sample_match sample_attacked] sample_attacked_reachable
    sample_attacked_facts
  by (auto simp: sample_cards_def)

lemma cards_never_multiply_applied:
  "home sample_attacked
    \<and> owned sample_attacked player_id.One \<subseteq># mset (player_card_refs (pp_get (sn_players sample_match) player_id.One))"
  using cards_never_multiply [OF sample_attacked_reachable] by blast

lemma chains_always_climb_applied:
  "\<exists>summon. summon_at (player_of sample_attacked player_id.Two) (position.Bench bench_slot.First) = Some summon
    \<and> climbs sample_cards (chain_layers (si_chain summon))"
proof -
  have "summon_at (player_of sample_attacked player_id.Two) (position.Bench bench_slot.First) \<noteq> None"
    by code_simp
  then obtain summon
    where at: "summon_at (player_of sample_attacked player_id.Two) (position.Bench bench_slot.First) = Some summon"
    by blast
  with chains_always_climb [OF sample_attacked_reachable at] show ?thesis by blast
qed

end
