(* ===== verification/Text.thy ===== *)
theory Text
  imports Card_Set
begin

text \<open>
  Text as the loaders and the match log read it: \<open>str::from_utf8\<close> with its error, the whitespace
  of \<open>str::trim\<close>, paths of fields and elements, and the syntax of stable keys. A Rust text is the
  list of its UTF-8 bytes, as characters.
\<close>

section \<open>UTF-8\<close>

definition continuation :: "u8 \<Rightarrow> bool" where
  "continuation b \<longleftrightarrow> 0x80 \<le> b \<and> b \<le> 0xBF"

definition second_byte :: "u8 \<Rightarrow> u8 \<Rightarrow> bool" where
  "second_byte a b \<longleftrightarrow>
     (if a = 0xE0 then 0xA0 \<le> b \<and> b \<le> 0xBF
      else if a = 0xED then 0x80 \<le> b \<and> b \<le> 0x9F
      else if a = 0xF0 then 0x90 \<le> b \<and> b \<le> 0xBF
      else if a = 0xF4 then 0x80 \<le> b \<and> b \<le> 0x8F
      else continuation b)"

text \<open>The bytes after a valid second one.\<close>

fun utf8_tail :: "nat \<Rightarrow> nat \<Rightarrow> u8 list \<Rightarrow> nat option + nat" where
  "utf8_tail seen 0 bs = Inr seen"
| "utf8_tail seen (Suc n) [] = Inl None"
| "utf8_tail seen (Suc n) (b # bs) =
     (if continuation b then utf8_tail (seen + 1) n bs else Inl (Some seen))"

text \<open>One character, from its first byte: its length, or the length of the malformed part (none at
  the end of the input).\<close>

definition utf8_char :: "u8 \<Rightarrow> u8 list \<Rightarrow> nat option + nat" where
  "utf8_char a bs =
     (let width = (if a < 0x80 then 1
        else if 0xC2 \<le> a \<and> a \<le> 0xDF then 2
        else if 0xE0 \<le> a \<and> a \<le> 0xEF then 3
        else if 0xF0 \<le> a \<and> a \<le> 0xF4 then 4 else 0 :: nat) in
      if width = 1 then Inr 1
      else if width = 0 then Inl (Some 1)
      else
        case bs of
          [] \<Rightarrow> Inl None
        | b # cs \<Rightarrow> if second_byte a b then utf8_tail 2 (width - 2) cs else Inl (Some 1))"

fun utf8_scan :: "nat \<Rightarrow> u8 list \<Rightarrow> (nat \<times> nat option) option" where
  "utf8_scan n [] = None"
| "utf8_scan n (a # bs) =
     (case utf8_char a bs of
        Inl error_len \<Rightarrow> Some (n, error_len)
      | Inr k \<Rightarrow> utf8_scan (n + k) (drop (k - 1) bs))"

definition from_utf8 :: "u8 list \<Rightarrow> (nat \<times> nat option) + string" where
  "from_utf8 bytes =
     (case utf8_scan 0 bytes of
        None \<Rightarrow> Inr (map (\<lambda>b. char_of (unat b)) bytes)
      | Some error \<Rightarrow> Inl error)"

section \<open>Whitespace\<close>

text \<open>\<open>text.trim().is_empty()\<close>: nothing but characters of the Unicode property White\_Space, here
  by their UTF-8 bytes.\<close>

fun blank :: "nat list \<Rightarrow> bool" where
  "blank [] = True"
| "blank (a # bs) \<longleftrightarrow>
     (if 9 \<le> a \<and> a \<le> 13 \<or> a = 32 then blank bs
      else if a = 0xC2 then
        (case bs of b # cs \<Rightarrow> b \<in> {0x85, 0xA0} \<and> blank cs | _ \<Rightarrow> False)
      else
        (case bs of
           b # c # ds \<Rightarrow>
             (a = 0xE1 \<and> b = 0x9A \<and> c = 0x80
              \<or> a = 0xE2 \<and> b = 0x80 \<and> (0x80 \<le> c \<and> c \<le> 0x8A \<or> c \<in> {0xA8, 0xA9, 0xAF})
              \<or> a = 0xE2 \<and> b = 0x81 \<and> c = 0x9F
              \<or> a = 0xE3 \<and> b = 0x80 \<and> c = 0x80) \<and> blank ds
         | _ \<Rightarrow> False))"

definition trims_empty :: "string \<Rightarrow> bool" where
  "trims_empty t \<longleftrightarrow> blank (map of_char t)"

section \<open>Paths\<close>

definition index_path :: "string \<Rightarrow> nat \<Rightarrow> string" where
  "index_path path index = path @ ''['' @ dec_digits index @ '']''"

definition field_path :: "string \<Rightarrow> string \<Rightarrow> string" where
  "field_path path field = path @ ''.'' @ field"

section \<open>Stable keys\<close>

definition is_ascii_lowercase :: "char \<Rightarrow> bool" where
  "is_ascii_lowercase c \<longleftrightarrow> (let n = of_char c :: nat in 97 \<le> n \<and> n \<le> 122)"

definition is_ascii_digit :: "char \<Rightarrow> bool" where
  "is_ascii_digit c \<longleftrightarrow> (let n = of_char c :: nat in 48 \<le> n \<and> n \<le> 57)"

text \<open>\<open>bytes.windows(2).any(|pair| pair == b"--")\<close>\<close>

definition double_hyphen :: "string \<Rightarrow> bool" where
  "double_hyphen t \<longleftrightarrow> (CHR ''-'', CHR ''-'') \<in> set (zip t (drop 1 t))"

definition stable_key_syntax :: "string \<Rightarrow> bool" where
  "stable_key_syntax t \<longleftrightarrow>
     1 \<le> length t \<and> length t \<le> 64
     \<and> (case t of c # _ \<Rightarrow> is_ascii_lowercase c | [] \<Rightarrow> False)
     \<and> list_all (\<lambda>c. is_ascii_lowercase c \<or> is_ascii_digit c \<or> c = CHR ''-'') t
     \<and> (t \<noteq> [] \<longrightarrow> last t \<noteq> CHR ''-'')
     \<and> \<not> double_hyphen t"

section \<open>Numbered elements\<close>

text \<open>\<open>into_iter().enumerate().map(..).collect::<Result<Vec<_>, _>>()\<close>, counted from \<open>i\<close>.\<close>

fun try_enumerate :: "(nat \<Rightarrow> 'a \<Rightarrow> 'e + 'b) \<Rightarrow> nat \<Rightarrow> 'a list \<Rightarrow> 'e + 'b list" where
  "try_enumerate f i [] = Inr []"
| "try_enumerate f i (x # xs) =
     and_then (f i x) (\<lambda>y. and_then (try_enumerate f (i + 1) xs) (\<lambda>ys. Inr (y # ys)))"

lemma try_enumerate_member:
  "try_enumerate f i xs = Inr ys \<Longrightarrow> y \<in> set ys \<Longrightarrow> \<exists>j. \<exists>x \<in> set xs. f j x = Inr y"
proof (induction xs arbitrary: i ys)
  case (Cons x xs)
  then obtain z zs where "f i x = Inr z" "try_enumerate f (i + 1) xs = Inr zs" "ys = z # zs"
    by (auto simp: and_then_Inr)
  with Cons.IH [of "i + 1" zs] Cons.prems(2) show ?case by auto
qed simp

lemma try_enumerate_length: "try_enumerate f i xs = Inr ys \<Longrightarrow> length ys = length xs"
  by (induction xs arbitrary: i ys) (auto simp: and_then_Inr)

end
