(* ===== verification/Card_Text.thy ===== *)
theory Card_Text
  imports Text Cards
begin

text \<open>
  \<open>crates/cli/src/terminal.rs\<close> and \<open>card_text.rs\<close>: texts that are safe to print on a terminal, and
  the texts for the components of a card. A text is the list of its UTF-8 bytes, so the control
  characters are the bytes below 32, the byte 127, and 128 to 159 after the byte 194.
\<close>

section \<open>Formatting\<close>

definition number_text :: "'a::len word \<Rightarrow> string" where
  "number_text n = dec_digits (unat n)"

text \<open>The directive \<open>{:+}\<close> on an \<open>i32\<close>.\<close>

definition signed_text :: "i32 \<Rightarrow> string" where
  "signed_text n = (if sint n < 0 then ''-'' @ dec_digits (nat (- sint n)) else ''+'' @ dec_digits (nat (sint n)))"

text \<open>\<open>join\<close> of a slice of texts.\<close>

fun join_text :: "string \<Rightarrow> string list \<Rightarrow> string" where
  "join_text separator [] = []"
| "join_text separator [t] = t"
| "join_text separator (t # ts) = t @ separator @ join_text separator ts"

section \<open>Terminal texts\<close>

definition backslash :: "string \<Rightarrow> string" where
  "backslash t = CHR 0x5C # t"

definition unicode_escape :: "nat \<Rightarrow> string" where
  "unicode_escape n =
     backslash (''u{'' @ map (\<lambda>k. hex_digit (n div 16 ^ k mod 16)) [3, 2, 1, 0] @ ''}'')"

definition is_control :: "nat \<Rightarrow> bool" where
  "is_control n \<longleftrightarrow> n < 32 \<or> 127 \<le> n \<and> n < 160"

fun terminal_text :: "string \<Rightarrow> string" where
  "terminal_text [] = []"
| "terminal_text (c # t) =
     (if c = CHR 0x0A then backslash ''n'' @ terminal_text t
      else if c = CHR 0x0D then backslash ''r'' @ terminal_text t
      else if c = CHR 0x09 then backslash ''t'' @ terminal_text t
      else if c = CHR 0x1B then backslash ''x1b'' @ terminal_text t
      else if of_char c < (128 :: nat) \<and> is_control (of_char c)
      then unicode_escape (of_char c) @ terminal_text t
      else if c = CHR 0xC2 then
        (case t of
           d # u \<Rightarrow>
             if 128 \<le> (of_char d :: nat) \<and> is_control (of_char d)
             then unicode_escape (of_char d) @ terminal_text u
             else c # terminal_text t
         | [] \<Rightarrow> [c])
      else c # terminal_text t)"

section \<open>Texts of components\<close>

definition modifier_text :: "component \<Rightarrow> string option" where
  "modifier_text c =
     (case c of
        component.Passive (OpposingRetreatCostDelta amount) \<Rightarrow>
          Some (''opposing retreat cost '' @ signed_text amount)
      | component.Passive (IncomingAttackDamageReduction amount) \<Rightarrow>
          Some (''reduce incoming attack damage by '' @ number_text amount)
      | _ \<Rightarrow> None)"

definition timing_text :: "component \<Rightarrow> string option" where
  "timing_text c =
     (case c of
        component.Timing spell_timing.Support \<Rightarrow> Some ''support''
      | component.Timing spell_timing.Attack \<Rightarrow> Some ''attack''
      | _ \<Rightarrow> None)"

fun trigger_event_text :: "trigger_event \<Rightarrow> string" where
  "trigger_event_text trigger_event.YourUpkeep = ''your upkeep''"
| "trigger_event_text trigger_event.EntersMain = ''enters Main''"
| "trigger_event_text trigger_event.EntersBench = ''enters Bench''"
| "trigger_event_text trigger_event.LeavesMain = ''leaves Main''"
| "trigger_event_text trigger_event.LeavesBench = ''leaves Bench''"
| "trigger_event_text trigger_event.AnySummonDestroyed = ''any Summon destroyed''"

definition event_text :: "component \<Rightarrow> string option" where
  "event_text c = (case c of component.Event event \<Rightarrow> Some (trigger_event_text event) | _ \<Rightarrow> None)"

definition is_respondable :: "component \<Rightarrow> bool" where
  "is_respondable c \<longleftrightarrow> (case c of component.Respondable \<Rightarrow> True | _ \<Rightarrow> False)"

definition is_persistent :: "component \<Rightarrow> bool" where
  "is_persistent c \<longleftrightarrow> (case c of component.Persistent \<Rightarrow> True | _ \<Rightarrow> False)"

section \<open>What is safe to print\<close>

text \<open>A text without control characters, wherever its bytes come to stand.\<close>

fun clean :: "string \<Rightarrow> bool" where
  "clean [] = True"
| "clean (c # t) \<longleftrightarrow> 32 \<le> (of_char c :: nat) \<and> of_char c \<noteq> (127 :: nat)
     \<and> (c = CHR 0xC2 \<longrightarrow> (case t of [] \<Rightarrow> True | d # _ \<Rightarrow> \<not> (128 \<le> (of_char d :: nat) \<and> of_char d < (160 :: nat))))
     \<and> clean t"

end
