(* ===== verification/Wire.thy ===== *)
theory Wire
  imports Chains Match
begin

text \<open>
  The data of the match log, format version 1: \<open>crates/match-log/src/wire.rs\<close> with its modules
  \<open>action\<close>, \<open>action_error\<close>, \<open>event\<close> and \<open>records\<close>, and \<open>StateProjectionV1\<close> and \<open>StateDigestV1\<close>
  of \<open>state.rs\<close>. The type \<open>FooV1\<close> of the source is \<open>foo_v1\<close>; its constructors keep their names and
  are written with the type in front (\<open>player_id_v1.One\<close>); a field \<open>bar\<close> of a struct is prefixed by
  the initials of the struct and a 1. \<open>Box\<close> is the value it points to. A \<open>[T; 3]\<close> is a value of
  \<open>array3\<close>, which has exactly three places.
\<close>

section \<open>JSON values\<close>

text \<open>
  \<open>serde_json::Value\<close>, as its documentation gives it: a number is an unsigned, a negative or a
  floating-point one (kept by its 64 bits), an object is the list of its entries.
\<close>

datatype json_number = PosInt u64 | NegInt u64 | Float u64

datatype json_value =
  Null
| Bool bool
| Number json_number
| String string
| Array "json_value list"
| Object "(string \<times> json_value) list"

type_synonym header_metadata_v1 = "(string \<times> json_value) list"

datatype 'a array3 = Array3 'a 'a 'a

section \<open>The state on the wire\<close>

datatype entity_id_v1 = EntityIdV1 string

datatype state_digest_v1 = StateDigestV1 (digest_text: string)

datatype player_id_v1 = One | Two

datatype bench_slot_v1 = First | Second | Third

datatype position_v1 = Main | Bench bench_slot_v1

record card_ref_v1 =
  cr1_instance :: u32
  cr1_definition :: entity_id_v1

record upgrade_chain_v1 =
  uc1_layers :: "card_ref_v1 list"

datatype duration_marker_v1 = CannotBeMovedByOpponent

datatype upgrade_activity_v1 = Available | PlayedThisTurn | UpgradedThisTurn

record summon_turn_record_v1 =
  tr1_upgrade :: upgrade_activity_v1
  tr1_entered_main :: bool

datatype readiness_v1 = Ready | Exhausted

record summon_instance_v1 =
  si1_chain :: upgrade_chain_v1
  si1_damage :: u32
  si1_readiness :: readiness_v1
  si1_owner :: player_id_v1
  si1_controller :: player_id_v1
  si1_duration_markers :: "duration_marker_v1 list"
  si1_turn :: summon_turn_record_v1

record mana_bank_v1 =
  mb1_matter :: u32
  mb1_mind :: u32
  mb1_spirit :: u32

record player_state_v1 =
  ps1_main :: "summon_instance_v1 option"
  ps1_bench :: "(summon_instance_v1 option) array3"
  ps1_deck :: "card_ref_v1 list"
  ps1_hand :: "card_ref_v1 list"
  ps1_prizes :: "card_ref_v1 list"
  ps1_discard :: "card_ref_v1 list"
  ps1_mana :: mana_bank_v1
  ps1_main_losses :: u8
  ps1_enchantments :: "card_ref_v1 list"

record players_v1 =
  pl1_one :: player_state_v1
  pl1_two :: player_state_v1

record per_player_bool_v1 =
  pb1_one :: bool
  pb1_two :: bool

record stack_window_v1 =
  sw1_holder :: player_id_v1
  sw1_prior_pass :: bool

datatype phase_v1 = Upkeep | Main | Combat

record turn_state_v1 =
  ts1_active_player :: player_id_v1
  ts1_phase :: phase_v1
  ts1_window :: "stack_window_v1 option"
  ts1_normal_attack_used :: bool
  ts1_normal_retreat_used :: bool
  ts1_spell_played_this_turn :: per_player_bool_v1

datatype mana_source_v1 = Player | Summon position_v1

datatype pending_input_v1 =
  ManaProduction player_id_v1 mana_source_v1
| Promotion player_id_v1
| PrizePick player_id_v1

datatype loss_reason_v1 = ThirdMainLoss | NoPromotionAvailable | EmptyDeckDraw | Resignation

record game_outcome_v1 =
  go1_winner :: player_id_v1
  go1_reason :: loss_reason_v1

datatype component_kind_v1 =
  Name
| AccountingId
| Life
| RetreatCost
| Form
| Produces
| Tags
| Cost
| Skill
| Attack
| Trigger
| Effect
| Passive
| Timing
| Event
| Respondable
| Persistent

record breakage_v1 =
  br1_rule :: string
  br1_entity :: entity_id_v1
  br1_expected :: component_kind_v1

datatype game_status_v1 = Playing | Ended game_outcome_v1 | Broken breakage_v1

datatype trigger_event_v1 =
  YourUpkeep
| EntersMain
| EntersBench
| LeavesMain
| LeavesBench
| AnySummonDestroyed

datatype effect_condition_v1 = DefenderEnteredMainThisTurn | SpellPlayedThisTurn

datatype effect_target_v1 = Selected | Source

record damage_constraints_v1 =
  dc1_unincreasable :: bool
  dc1_unpreventable :: bool

record damage_addition_v1 =
  da1_amount :: u32
  da1_condition :: effect_condition_v1

record damage_effect_v1 =
  de1_base :: u32
  de1_constraints :: damage_constraints_v1
  de1_additions :: "damage_addition_v1 list"

datatype response_block_v1 = AttackSpells

datatype effect_leaf_v1 =
  DealDamage damage_effect_v1
| Heal u32 effect_target_v1
| MoveSummon
| SwapPositions
| BlockResponses effect_condition_v1 response_block_v1
| ReturnSpellFromDiscard
| LookAtPrizes
| DrawCards u32
| ReturnSpellToDeckTop
| ProduceMana effect_target_v1
| CannotBeMovedByOpponent effect_target_v1
| ReadySummon
| SwapOpposingPositions

datatype stack_item_v1 =
  Attack player_id_v1 position_v1
| Spell player_id_v1 card_ref_v1 "position_v1 list"
| Trigger player_id_v1 position_v1 entity_id_v1 trigger_event_v1 "position_v1 list"
    "effect_leaf_v1 list"

datatype movement_step_v1 = LeavingMain | EnteringBench | LeavingBench | EnteringMain

datatype work_item_v1 =
  DestructionCheck position_v1
| DiscardDestroyedChain position_v1
| RecordMainLoss player_id_v1
| RecoverPrize player_id_v1
| PromoteBenchSummon player_id_v1
| ResolveMovementConsequences player_id_v1
| MovementTrigger movement_step_v1 player_id_v1 position_v1
| FireTrigger player_id_v1 position_v1 trigger_event_v1 entity_id_v1
| LossCheck player_id_v1
| ReadyAll
| DrawCard
| ProduceMana player_id_v1 mana_source_v1
| BeginMainPhase

record state_projection_v1 =
  sp1_players :: players_v1
  sp1_coin :: bool
  sp1_turn :: turn_state_v1
  sp1_stack :: "stack_item_v1 list"
  sp1_stack_segment_bases :: "u64 list"
  sp1_work :: "work_item_v1 list"
  sp1_pending :: "pending_input_v1 option"
  sp1_status :: game_status_v1

section \<open>Actions, errors and events on the wire\<close>

datatype mana_type_v1 = Matter | Mind | Spirit

datatype action_v1 =
  PlaySummon player_id_v1 u32 bench_slot_v1
| UpgradeSummon player_id_v1 u32 position_v1
| CastSpell player_id_v1 u32 "position_v1 list" "mana_type_v1 option"
| ActivateSkill player_id_v1 position_v1 entity_id_v1 "position_v1 list" "mana_type_v1 option"
| Retreat player_id_v1 bench_slot_v1 "mana_type_v1 option"
| DeclareAttack player_id_v1 position_v1 "mana_type_v1 option"
| EndTurn player_id_v1
| PassPriority player_id_v1
| ConvertCoin player_id_v1 mana_type_v1
| ChooseManaType player_id_v1 mana_type_v1
| ChoosePromotion player_id_v1 bench_slot_v1
| ChoosePrize player_id_v1 u64
| Resign player_id_v1

datatype error_v1 =
  NotYourDecision
| GameAlreadyOver
| GameBroken
| WrongPhase
| EmptyPosition
| UnknownCard
| InsufficientMana mana_bank_v1
| SummonExhausted
| NormalAttackAlreadyUsed
| NormalRetreatAlreadyUsed
| AlreadyUpgradedThisTurn
| PlayedThisTurn
| IllegalUpgradeTarget
| InvalidTarget
| PendingInputMismatch
| InvalidManaHint

datatype damage_constraint_v1 = Unincreasable | Unpreventable

datatype damage_stage_v1 = Addition | PersistentReduction | Clamp | Commit

datatype damage_operation_v1 = Add u32 | Reduce u32 | ClampToZero

datatype damage_source_v1 =
  Attack player_id_v1 position_v1 entity_id_v1
| Spell player_id_v1 u32 entity_id_v1
| Skill player_id_v1 position_v1 entity_id_v1
| Trigger player_id_v1 position_v1 entity_id_v1

datatype damage_origin_v1 = PrintedAbility entity_id_v1 | PersistentCard u32

record battlefield_target_v1 =
  bt1_controller :: player_id_v1
  bt1_position :: position_v1

record damage_context_v1 =
  cx1_source :: damage_source_v1
  cx1_target :: battlefield_target_v1

datatype event_v1 =
  TurnBegan player_id_v1
| SummonsReadied player_id_v1 "position_v1 list"
| CardDrawn player_id_v1 u32
| ManaProduced player_id_v1 mana_source_v1 mana_type_v1
| SummonPlayed player_id_v1 u32 bench_slot_v1
| SummonUpgraded player_id_v1 u32 position_v1
| SpellCast player_id_v1 u32 "position_v1 list"
| SkillActivated player_id_v1 position_v1 entity_id_v1
| AttackDeclared player_id_v1 position_v1
| PriorityPassed player_id_v1
| StackItemResolved stack_item_v1
| DamageCalculationStarted damage_context_v1 u32 damage_constraints_v1
| DamageAdjustmentApplied damage_context_v1 damage_stage_v1 damage_operation_v1 damage_origin_v1
    u32 u32
| DamageAdjustmentSkipped damage_context_v1 damage_stage_v1 damage_operation_v1 damage_origin_v1
    u32 damage_constraint_v1
| DamageApplied damage_context_v1 u32 u32 u32
| Healed position_v1 u32
| SummonDestroyed position_v1 player_id_v1
| PrizeRecovered player_id_v1 u32
| PrizesViewed player_id_v1 "u32 list"
| SummonPromoted player_id_v1 bench_slot_v1
| SummonsSwapped player_id_v1 bench_slot_v1
| TriggerFired player_id_v1 position_v1 trigger_event_v1 entity_id_v1
| CoinConverted player_id_v1 mana_type_v1
| ManaDeducted player_id_v1 mana_type_v1 u32
| GameEnded player_id_v1 loss_reason_v1

section \<open>Records\<close>

datatype header_record_kind_v1 = Header

datatype match_created_record_kind_v1 = MatchCreated

datatype action_record_kind_v1 = Action

datatype event_record_kind_v1 = Event

datatype step_completed_record_kind_v1 = StepCompleted

datatype step_rejected_record_kind_v1 = StepRejected

datatype final_state_record_kind_v1 = FinalState

datatype match_completed_record_kind_v1 = MatchCompleted

record header_v1 =
  hd1_sequence :: u64
  hd1_record :: header_record_kind_v1
  hd1_format :: string
  hd1_format_version :: u32
  hd1_metadata :: header_metadata_v1

record set_requirement_v1 =
  sq1_set :: string
  sq1_revision :: u32

record match_created_v1 =
  mc1_sequence :: u64
  mc1_record :: match_created_record_kind_v1
  mc1_required_sets :: "set_requirement_v1 list"
  mc1_initial_state :: state_projection_v1
  mc1_state_digest :: state_digest_v1

record action_record_v1 =
  ar1_sequence :: u64
  ar1_record :: action_record_kind_v1
  ar1_step :: u64
  ar1_action :: action_v1

record event_record_v1 =
  er1_sequence :: u64
  er1_record :: event_record_kind_v1
  er1_step :: u64
  er1_index :: u64
  er1_event :: event_v1

record step_completed_v1 =
  sc1_sequence :: u64
  sc1_record :: step_completed_record_kind_v1
  sc1_step :: u64
  sc1_event_count :: u64
  sc1_state_digest :: state_digest_v1

record step_rejected_v1 =
  sr1_sequence :: u64
  sr1_record :: step_rejected_record_kind_v1
  sr1_step :: u64
  sr1_error :: error_v1
  sr1_state_digest :: state_digest_v1

record final_state_v1 =
  fs1_sequence :: u64
  fs1_record :: final_state_record_kind_v1
  fs1_final_state :: state_projection_v1
  fs1_state_digest :: state_digest_v1

record match_completed_v1 =
  md1_sequence :: u64
  md1_record :: match_completed_record_kind_v1
  md1_step_count :: u64
  md1_event_count :: u64
  md1_state_digest :: state_digest_v1
  md1_winner :: player_id_v1
  md1_reason :: loss_reason_v1

datatype record_v1 =
  Header header_v1
| MatchCreated match_created_v1
| Action action_record_v1
| Event event_record_v1
| StepCompleted step_completed_v1
| StepRejected step_rejected_v1
| FinalState final_state_v1
| MatchCompleted match_completed_v1

definition header_new :: "header_metadata_v1 \<Rightarrow> header_v1" where
  "header_new metadata =
     \<lparr>hd1_sequence = 0, hd1_record = header_record_kind_v1.Header, hd1_format = ''summoners_match'',
      hd1_format_version = 1, hd1_metadata = metadata\<rparr>"

definition match_created_new ::
  "set_requirement_v1 list \<Rightarrow> state_projection_v1 \<Rightarrow> state_digest_v1 \<Rightarrow> match_created_v1" where
  "match_created_new required_sets initial_state state_digest =
     \<lparr>mc1_sequence = 1, mc1_record = match_created_record_kind_v1.MatchCreated,
      mc1_required_sets = required_sets, mc1_initial_state = initial_state,
      mc1_state_digest = state_digest\<rparr>"

end
