(* ===== verification/Wire_State.thy ===== *)
theory Wire_State
  imports Wire
begin

text \<open>
  \<open>crates/match-log/src/state.rs\<close> with its module \<open>work\<close>: the projection of a match state to its
  wire form and the way back. \<open>From<T> for TV1\<close> is \<open>t_to_v1\<close>, \<open>From<TV1> for T\<close> is \<open>t_of_v1\<close> and
  \<open>TryFrom<TV1> for T\<close> is \<open>t_try_of_v1\<close>; a fallible conversion reads the fields in the order of the
  source and stops at its first error. The two contracts of a pair of conversions are locales:
  \<open>wire_codec\<close> (what was written is read back) and \<open>wire_iso\<close> (both directions are total and
  inverse), each interpreted for the types that satisfy it.
\<close>

section \<open>Codecs\<close>

locale wire_codec =
  fixes to_v1 :: "'a \<Rightarrow> 'b" and try_of_v1 :: "'b \<Rightarrow> 'e + 'a"
  assumes round: "try_of_v1 (to_v1 a) = Inr a"
begin

lemma list: "try_map try_of_v1 (map to_v1 xs) = Inr xs"
  by (induction xs) (simp_all add: round)

lemma option: "try_option try_of_v1 (map_option to_v1 x) = Inr x"
  by (cases x) (simp_all add: round)

lemma inject: "to_v1 a = to_v1 b \<longleftrightarrow> a = b"
  by (metis round sum.inject(2))

end

locale wire_iso =
  fixes to_v1 :: "'a \<Rightarrow> 'b" and of_v1 :: "'b \<Rightarrow> 'a"
  assumes of_to: "of_v1 (to_v1 a) = a" and to_of: "to_v1 (of_v1 w) = w"
begin

lemma list: "map of_v1 (map to_v1 xs) = xs" "map to_v1 (map of_v1 ws) = ws"
  by (simp_all add: of_to to_of map_idI)

lemma option: "map_option of_v1 (map_option to_v1 x) = x" "map_option to_v1 (map_option of_v1 y) = y"
  by (simp_all add: option.map_comp o_def of_to to_of option.map_ident)

lemma onto: "bij to_v1"
  by (rule bijI') (metis of_to, metis to_of)

end

sublocale wire_iso \<subseteq> codec: wire_codec to_v1 "\<lambda>w. Inr (of_v1 w)"
  by unfold_locales (simp add: of_to)

section \<open>Identifiers\<close>

datatype state_rebuild_error =
  InvalidEntityId string
| EmptyUpgradeChain
| StackSegmentBaseOutOfRange u64
| UnsupportedBreakageRule string

definition entity_id_to_v1 :: "entity_id \<Rightarrow> entity_id_v1" where
  "entity_id_to_v1 e = EntityIdV1 (entity_id_display e)"

definition entity_id_try_of_v1 :: "entity_id_v1 \<Rightarrow> state_rebuild_error + entity_id" where
  "entity_id_try_of_v1 w =
     (case w of EntityIdV1 text \<Rightarrow> map_err (\<lambda>_. InvalidEntityId text) (entity_id_parse text))"

lemma entity_id_v1 [simp]: "entity_id_try_of_v1 (entity_id_to_v1 e) = Inr e"
  by (simp add: entity_id_to_v1_def entity_id_try_of_v1_def parse_displayed)

interpretation entity_id_wire: wire_codec entity_id_to_v1 entity_id_try_of_v1
  by unfold_locales simp

fun player_id_to_v1 :: "player_id \<Rightarrow> player_id_v1" where
  "player_id_to_v1 player_id.One = player_id_v1.One"
| "player_id_to_v1 player_id.Two = player_id_v1.Two"

fun player_id_of_v1 :: "player_id_v1 \<Rightarrow> player_id" where
  "player_id_of_v1 player_id_v1.One = player_id.One"
| "player_id_of_v1 player_id_v1.Two = player_id.Two"

lemma player_id_v1 [simp]:
  "player_id_of_v1 (player_id_to_v1 a) = a" "player_id_to_v1 (player_id_of_v1 w) = w"
  by (cases a; simp) (cases w; simp)

interpretation player_id_wire: wire_iso player_id_to_v1 player_id_of_v1
  by unfold_locales simp_all

fun bench_slot_to_v1 :: "bench_slot \<Rightarrow> bench_slot_v1" where
  "bench_slot_to_v1 bench_slot.First = bench_slot_v1.First"
| "bench_slot_to_v1 bench_slot.Second = bench_slot_v1.Second"
| "bench_slot_to_v1 bench_slot.Third = bench_slot_v1.Third"

fun bench_slot_of_v1 :: "bench_slot_v1 \<Rightarrow> bench_slot" where
  "bench_slot_of_v1 bench_slot_v1.First = bench_slot.First"
| "bench_slot_of_v1 bench_slot_v1.Second = bench_slot.Second"
| "bench_slot_of_v1 bench_slot_v1.Third = bench_slot.Third"

lemma bench_slot_v1 [simp]:
  "bench_slot_of_v1 (bench_slot_to_v1 a) = a" "bench_slot_to_v1 (bench_slot_of_v1 w) = w"
  by (cases a; simp) (cases w; simp)

interpretation bench_slot_wire: wire_iso bench_slot_to_v1 bench_slot_of_v1
  by unfold_locales simp_all

fun position_to_v1 :: "position \<Rightarrow> position_v1" where
  "position_to_v1 position.Main = position_v1.Main"
| "position_to_v1 (position.Bench slot) = position_v1.Bench (bench_slot_to_v1 slot)"

fun position_of_v1 :: "position_v1 \<Rightarrow> position" where
  "position_of_v1 position_v1.Main = position.Main"
| "position_of_v1 (position_v1.Bench slot) = position.Bench (bench_slot_of_v1 slot)"

lemma position_v1 [simp]:
  "position_of_v1 (position_to_v1 a) = a" "position_to_v1 (position_of_v1 w) = w"
  by (cases a; simp) (cases w; simp)

interpretation position_wire: wire_iso position_to_v1 position_of_v1
  by unfold_locales simp_all

section \<open>Cards in play\<close>

definition card_ref_to_v1 :: "card_ref \<Rightarrow> card_ref_v1" where
  "card_ref_to_v1 c =
     \<lparr>cr1_instance = card_number (cr_instance c), cr1_definition = entity_id_to_v1 (cr_def c)\<rparr>"

definition card_ref_try_of_v1 :: "card_ref_v1 \<Rightarrow> state_rebuild_error + card_ref" where
  "card_ref_try_of_v1 w =
     and_then (entity_id_try_of_v1 (cr1_definition w)) (\<lambda>def_id.
     Inr \<lparr>cr_instance = CardInstanceId (cr1_instance w), cr_def = def_id\<rparr>)"

interpretation card_ref_wire: wire_codec card_ref_to_v1 card_ref_try_of_v1
  by unfold_locales (simp add: card_ref_to_v1_def card_ref_try_of_v1_def)

definition upgrade_chain_to_v1 :: "upgrade_chain \<Rightarrow> upgrade_chain_v1" where
  "upgrade_chain_to_v1 chain = \<lparr>uc1_layers = map card_ref_to_v1 (chain_layers chain)\<rparr>"

text \<open>The layers are converted one by one: the base first, and its absence is an error.\<close>

definition upgrade_chain_try_of_v1 :: "upgrade_chain_v1 \<Rightarrow> state_rebuild_error + upgrade_chain" where
  "upgrade_chain_try_of_v1 w =
     (case uc1_layers w of
        [] \<Rightarrow> Inl state_rebuild_error.EmptyUpgradeChain
      | base # layers \<Rightarrow>
          and_then (card_ref_try_of_v1 base) (\<lambda>base.
          and_then (try_map card_ref_try_of_v1 layers) (\<lambda>layers.
          Inr (chain_new base layers))))"

interpretation upgrade_chain_wire: wire_codec upgrade_chain_to_v1 upgrade_chain_try_of_v1
  by unfold_locales (simp add: upgrade_chain_to_v1_def upgrade_chain_try_of_v1_def
      chain_layers_def chain_new_def card_ref_wire.round card_ref_wire.list)

fun duration_marker_to_v1 :: "duration_marker \<Rightarrow> duration_marker_v1" where
  "duration_marker_to_v1 duration_marker.CannotBeMovedByOpponent =
     duration_marker_v1.CannotBeMovedByOpponent"

fun duration_marker_of_v1 :: "duration_marker_v1 \<Rightarrow> duration_marker" where
  "duration_marker_of_v1 duration_marker_v1.CannotBeMovedByOpponent =
     duration_marker.CannotBeMovedByOpponent"

lemma duration_marker_v1 [simp]:
  "duration_marker_of_v1 (duration_marker_to_v1 a) = a" "duration_marker_to_v1 (duration_marker_of_v1 w) = w"
  by (cases a; simp) (cases w; simp)

interpretation duration_marker_wire: wire_iso duration_marker_to_v1 duration_marker_of_v1
  by unfold_locales simp_all

fun upgrade_activity_to_v1 :: "upgrade_activity \<Rightarrow> upgrade_activity_v1" where
  "upgrade_activity_to_v1 upgrade_activity.Available = upgrade_activity_v1.Available"
| "upgrade_activity_to_v1 upgrade_activity.PlayedThisTurn = upgrade_activity_v1.PlayedThisTurn"
| "upgrade_activity_to_v1 upgrade_activity.UpgradedThisTurn =
     upgrade_activity_v1.UpgradedThisTurn"

fun upgrade_activity_of_v1 :: "upgrade_activity_v1 \<Rightarrow> upgrade_activity" where
  "upgrade_activity_of_v1 upgrade_activity_v1.Available = upgrade_activity.Available"
| "upgrade_activity_of_v1 upgrade_activity_v1.PlayedThisTurn = upgrade_activity.PlayedThisTurn"
| "upgrade_activity_of_v1 upgrade_activity_v1.UpgradedThisTurn =
     upgrade_activity.UpgradedThisTurn"

lemma upgrade_activity_v1 [simp]:
  "upgrade_activity_of_v1 (upgrade_activity_to_v1 a) = a" "upgrade_activity_to_v1 (upgrade_activity_of_v1 w) = w"
  by (cases a; simp) (cases w; simp)

interpretation upgrade_activity_wire: wire_iso upgrade_activity_to_v1 upgrade_activity_of_v1
  by unfold_locales simp_all

fun readiness_to_v1 :: "readiness \<Rightarrow> readiness_v1" where
  "readiness_to_v1 readiness.Ready = readiness_v1.Ready"
| "readiness_to_v1 readiness.Exhausted = readiness_v1.Exhausted"

fun readiness_of_v1 :: "readiness_v1 \<Rightarrow> readiness" where
  "readiness_of_v1 readiness_v1.Ready = readiness.Ready"
| "readiness_of_v1 readiness_v1.Exhausted = readiness.Exhausted"

lemma readiness_v1 [simp]:
  "readiness_of_v1 (readiness_to_v1 a) = a" "readiness_to_v1 (readiness_of_v1 w) = w"
  by (cases a; simp) (cases w; simp)

interpretation readiness_wire: wire_iso readiness_to_v1 readiness_of_v1
  by unfold_locales simp_all

definition summon_instance_to_v1 :: "summon_instance \<Rightarrow> summon_instance_v1" where
  "summon_instance_to_v1 x =
     \<lparr>si1_chain = upgrade_chain_to_v1 (si_chain x),
      si1_damage = si_damage x,
      si1_readiness = readiness_to_v1 (si_readiness x),
      si1_owner = player_id_to_v1 (si_owner x),
      si1_controller = player_id_to_v1 (si_controller x),
      si1_duration_markers = map duration_marker_to_v1 (si_duration_markers x),
      si1_turn = \<lparr>tr1_upgrade = upgrade_activity_to_v1 (tr_upgrade (si_turn x)),
                  tr1_entered_main = (tr_main_entry (si_turn x) \<noteq> None)\<rparr>\<rparr>"

definition summon_instance_try_of_v1 ::
  "summon_instance_v1 \<Rightarrow> state_rebuild_error + summon_instance" where
  "summon_instance_try_of_v1 w =
     and_then (upgrade_chain_try_of_v1 (si1_chain w)) (\<lambda>chain.
     Inr \<lparr>si_chain = chain,
      si_damage = si1_damage w,
      si_readiness = readiness_of_v1 (si1_readiness w),
      si_owner = player_id_of_v1 (si1_owner w),
      si_controller = player_id_of_v1 (si1_controller w),
      si_duration_markers = map duration_marker_of_v1 (si1_duration_markers w),
      si_turn = \<lparr>tr_upgrade = upgrade_activity_of_v1 (tr1_upgrade (si1_turn w)),
                 tr_main_entry = then_some (tr1_entered_main (si1_turn w)) EnteredMain\<rparr>\<rparr>)"

lemma then_some_unit:
  "then_some (\<exists>e. x = Some e) EnteredMain = x" "then_some (\<exists>c. y = Some c) Coin = y"
  by (cases x; cases "the x"; simp add: then_some_def) (cases y; cases "the y"; simp add: then_some_def)

interpretation summon_instance_wire: wire_codec summon_instance_to_v1 summon_instance_try_of_v1
  by unfold_locales (simp add: summon_instance_to_v1_def summon_instance_try_of_v1_def
      upgrade_chain_wire.round duration_marker_wire.list then_some_unit del: map_map)

section \<open>Players\<close>

definition mana_bank_to_v1 :: "mana_bank \<Rightarrow> mana_bank_v1" where
  "mana_bank_to_v1 x =
     \<lparr>mb1_matter = mb_matter x,
      mb1_mind = mb_mind x,
      mb1_spirit = mb_spirit x\<rparr>"

definition mana_bank_of_v1 :: "mana_bank_v1 \<Rightarrow> mana_bank" where
  "mana_bank_of_v1 w =
     \<lparr>mb_matter = mb1_matter w,
      mb_mind = mb1_mind w,
      mb_spirit = mb1_spirit w\<rparr>"

lemma mana_bank_v1 [simp]:
  "mana_bank_of_v1 (mana_bank_to_v1 a) = a" "mana_bank_to_v1 (mana_bank_of_v1 w) = w"
  by (simp_all add: mana_bank_to_v1_def mana_bank_of_v1_def)

interpretation mana_bank_wire: wire_iso mana_bank_to_v1 mana_bank_of_v1
  by unfold_locales simp_all

definition card_refs :: "card_ref_v1 list \<Rightarrow> state_rebuild_error + card_ref list" where
  "card_refs values = try_map card_ref_try_of_v1 values"

text \<open>\<open>each_ref().map(..)\<close> on the Bench, and the way back: the three slots are converted in order,
  collected in a vector and turned into an array again.\<close>

definition bench_to_v1 ::
  "(bench_slot \<Rightarrow> summon_instance option) \<Rightarrow> summon_instance_v1 option array3" where
  "bench_to_v1 bench =
     (let place = (\<lambda>slot. map_option summon_instance_to_v1 (bench slot))
      in Array3 (place bench_slot.First) (place bench_slot.Second) (place bench_slot.Third))"

definition bench_try_of_v1 ::
  "summon_instance_v1 option array3
    \<Rightarrow> state_rebuild_error + (bench_slot \<Rightarrow> summon_instance option)" where
  "bench_try_of_v1 w =
     (case w of Array3 a b c \<Rightarrow>
        and_then (try_map (try_option summon_instance_try_of_v1) [a, b, c]) (\<lambda>places.
        if length places = 3 then Inr (\<lambda>slot. places ! bench_index slot)
        else Inl state_rebuild_error.EmptyUpgradeChain))"

interpretation bench_wire: wire_codec bench_to_v1 bench_try_of_v1
proof unfold_locales
  fix bench :: "bench_slot \<Rightarrow> summon_instance option"
  have "[bench bench_slot.First, bench bench_slot.Second, bench bench_slot.Third] ! bench_index slot
      = bench slot" for slot
    by (cases slot) simp_all
  then show "bench_try_of_v1 (bench_to_v1 bench) = Inr bench"
    by (simp add: bench_to_v1_def bench_try_of_v1_def summon_instance_wire.option)
qed

definition player_state_to_v1 :: "player_state \<Rightarrow> player_state_v1" where
  "player_state_to_v1 x =
     \<lparr>ps1_main = map_option summon_instance_to_v1 (ps_main x),
      ps1_bench = bench_to_v1 (ps_bench x),
      ps1_deck = map card_ref_to_v1 (ps_deck x),
      ps1_hand = map card_ref_to_v1 (ps_hand x),
      ps1_prizes = map card_ref_to_v1 (ps_prizes x),
      ps1_discard = map card_ref_to_v1 (ps_discard x),
      ps1_mana = mana_bank_to_v1 (ps_mana x),
      ps1_main_losses = ps_main_losses x,
      ps1_enchantments = map card_ref_to_v1 (ps_enchantments x)\<rparr>"

definition player_state_try_of_v1 :: "player_state_v1 \<Rightarrow> state_rebuild_error + player_state" where
  "player_state_try_of_v1 w =
     and_then (try_option summon_instance_try_of_v1 (ps1_main w)) (\<lambda>main_summon.
     and_then (bench_try_of_v1 (ps1_bench w)) (\<lambda>bench.
     and_then (card_refs (ps1_deck w)) (\<lambda>deck.
     and_then (card_refs (ps1_hand w)) (\<lambda>hand.
     and_then (card_refs (ps1_prizes w)) (\<lambda>prizes.
     and_then (card_refs (ps1_discard w)) (\<lambda>discard.
     and_then (card_refs (ps1_enchantments w)) (\<lambda>enchantments.
     Inr \<lparr>ps_main = main_summon, ps_bench = bench, ps_deck = deck, ps_hand = hand,
      ps_prizes = prizes, ps_discard = discard, ps_mana = mana_bank_of_v1 (ps1_mana w),
      ps_main_losses = ps1_main_losses w, ps_enchantments = enchantments\<rparr>)))))))"

interpretation player_state_wire: wire_codec player_state_to_v1 player_state_try_of_v1
  by unfold_locales (simp add: player_state_to_v1_def player_state_try_of_v1_def card_refs_def
      summon_instance_wire.option bench_wire.round card_ref_wire.list)

section \<open>The turn, decisions and the outcome\<close>

definition stack_window_to_v1 :: "stack_window \<Rightarrow> stack_window_v1" where
  "stack_window_to_v1 x =
     \<lparr>sw1_holder = player_id_to_v1 (sw_holder x),
      sw1_prior_pass = sw_prior_pass x\<rparr>"

definition stack_window_of_v1 :: "stack_window_v1 \<Rightarrow> stack_window" where
  "stack_window_of_v1 w =
     \<lparr>sw_holder = player_id_of_v1 (sw1_holder w),
      sw_prior_pass = sw1_prior_pass w\<rparr>"

lemma stack_window_v1 [simp]:
  "stack_window_of_v1 (stack_window_to_v1 a) = a" "stack_window_to_v1 (stack_window_of_v1 w) = w"
  by (simp_all add: stack_window_to_v1_def stack_window_of_v1_def)

interpretation stack_window_wire: wire_iso stack_window_to_v1 stack_window_of_v1
  by unfold_locales simp_all

fun phase_to_v1 :: "phase \<Rightarrow> phase_v1" where
  "phase_to_v1 phase.Upkeep = phase_v1.Upkeep"
| "phase_to_v1 phase.Main = phase_v1.Main"
| "phase_to_v1 phase.Combat = phase_v1.Combat"

fun phase_of_v1 :: "phase_v1 \<Rightarrow> phase" where
  "phase_of_v1 phase_v1.Upkeep = phase.Upkeep"
| "phase_of_v1 phase_v1.Main = phase.Main"
| "phase_of_v1 phase_v1.Combat = phase.Combat"

lemma phase_v1 [simp]:
  "phase_of_v1 (phase_to_v1 a) = a" "phase_to_v1 (phase_of_v1 w) = w"
  by (cases a; simp) (cases w; simp)

interpretation phase_wire: wire_iso phase_to_v1 phase_of_v1
  by unfold_locales simp_all

definition turn_state_to_v1 :: "turn_state \<Rightarrow> turn_state_v1" where
  "turn_state_to_v1 x =
     \<lparr>ts1_active_player = player_id_to_v1 (ts_active_player x),
      ts1_phase = phase_to_v1 (ts_phase x),
      ts1_window = map_option stack_window_to_v1 (ts_window x),
      ts1_normal_attack_used = ts_normal_attack_used x,
      ts1_normal_retreat_used = ts_normal_retreat_used x,
      ts1_spell_played_this_turn =
        \<lparr>pb1_one = pp_one (ts_spell_played_this_turn x),
         pb1_two = pp_two (ts_spell_played_this_turn x)\<rparr>\<rparr>"

definition turn_state_of_v1 :: "turn_state_v1 \<Rightarrow> turn_state" where
  "turn_state_of_v1 w =
     \<lparr>ts_active_player = player_id_of_v1 (ts1_active_player w),
      ts_phase = phase_of_v1 (ts1_phase w),
      ts_window = map_option stack_window_of_v1 (ts1_window w),
      ts_normal_attack_used = ts1_normal_attack_used w,
      ts_normal_retreat_used = ts1_normal_retreat_used w,
      ts_spell_played_this_turn =
        pp_new (pb1_one (ts1_spell_played_this_turn w)) (pb1_two (ts1_spell_played_this_turn w))\<rparr>"

interpretation turn_state_wire: wire_iso turn_state_to_v1 turn_state_of_v1
  by unfold_locales (simp_all add: turn_state_to_v1_def turn_state_of_v1_def pp_new_def
      stack_window_wire.option del: option.map_comp)

fun mana_source_to_v1 :: "mana_source \<Rightarrow> mana_source_v1" where
  "mana_source_to_v1 mana_source.Player = mana_source_v1.Player"
| "mana_source_to_v1 (mana_source.Summon pos) = mana_source_v1.Summon (position_to_v1 pos)"

fun mana_source_of_v1 :: "mana_source_v1 \<Rightarrow> mana_source" where
  "mana_source_of_v1 mana_source_v1.Player = mana_source.Player"
| "mana_source_of_v1 (mana_source_v1.Summon pos) = mana_source.Summon (position_of_v1 pos)"

lemma mana_source_v1 [simp]:
  "mana_source_of_v1 (mana_source_to_v1 a) = a" "mana_source_to_v1 (mana_source_of_v1 w) = w"
  by (cases a; simp) (cases w; simp)

interpretation mana_source_wire: wire_iso mana_source_to_v1 mana_source_of_v1
  by unfold_locales simp_all

fun pending_input_to_v1 :: "pending_input \<Rightarrow> pending_input_v1" where
  "pending_input_to_v1 (pending_input.ManaProduction p src) =
     pending_input_v1.ManaProduction (player_id_to_v1 p) (mana_source_to_v1 src)"
| "pending_input_to_v1 (pending_input.Promotion p) =
     pending_input_v1.Promotion (player_id_to_v1 p)"
| "pending_input_to_v1 (pending_input.PrizePick p) =
     pending_input_v1.PrizePick (player_id_to_v1 p)"

fun pending_input_of_v1 :: "pending_input_v1 \<Rightarrow> pending_input" where
  "pending_input_of_v1 (pending_input_v1.ManaProduction p src) =
     pending_input.ManaProduction (player_id_of_v1 p) (mana_source_of_v1 src)"
| "pending_input_of_v1 (pending_input_v1.Promotion p) =
     pending_input.Promotion (player_id_of_v1 p)"
| "pending_input_of_v1 (pending_input_v1.PrizePick p) =
     pending_input.PrizePick (player_id_of_v1 p)"

lemma pending_input_v1 [simp]:
  "pending_input_of_v1 (pending_input_to_v1 a) = a" "pending_input_to_v1 (pending_input_of_v1 w) = w"
  by (cases a; simp) (cases w; simp)

interpretation pending_input_wire: wire_iso pending_input_to_v1 pending_input_of_v1
  by unfold_locales simp_all

fun loss_reason_to_v1 :: "loss_reason \<Rightarrow> loss_reason_v1" where
  "loss_reason_to_v1 loss_reason.ThirdMainLoss = loss_reason_v1.ThirdMainLoss"
| "loss_reason_to_v1 loss_reason.NoPromotionAvailable = loss_reason_v1.NoPromotionAvailable"
| "loss_reason_to_v1 loss_reason.EmptyDeckDraw = loss_reason_v1.EmptyDeckDraw"
| "loss_reason_to_v1 loss_reason.Resignation = loss_reason_v1.Resignation"

fun loss_reason_of_v1 :: "loss_reason_v1 \<Rightarrow> loss_reason" where
  "loss_reason_of_v1 loss_reason_v1.ThirdMainLoss = loss_reason.ThirdMainLoss"
| "loss_reason_of_v1 loss_reason_v1.NoPromotionAvailable = loss_reason.NoPromotionAvailable"
| "loss_reason_of_v1 loss_reason_v1.EmptyDeckDraw = loss_reason.EmptyDeckDraw"
| "loss_reason_of_v1 loss_reason_v1.Resignation = loss_reason.Resignation"

lemma loss_reason_v1 [simp]:
  "loss_reason_of_v1 (loss_reason_to_v1 a) = a" "loss_reason_to_v1 (loss_reason_of_v1 w) = w"
  by (cases a; simp) (cases w; simp)

interpretation loss_reason_wire: wire_iso loss_reason_to_v1 loss_reason_of_v1
  by unfold_locales simp_all

definition game_outcome_to_v1 :: "game_outcome \<Rightarrow> game_outcome_v1" where
  "game_outcome_to_v1 x =
     \<lparr>go1_winner = player_id_to_v1 (go_winner x),
      go1_reason = loss_reason_to_v1 (go_reason x)\<rparr>"

definition game_outcome_of_v1 :: "game_outcome_v1 \<Rightarrow> game_outcome" where
  "game_outcome_of_v1 w =
     \<lparr>go_winner = player_id_of_v1 (go1_winner w),
      go_reason = loss_reason_of_v1 (go1_reason w)\<rparr>"

lemma game_outcome_v1 [simp]:
  "game_outcome_of_v1 (game_outcome_to_v1 a) = a" "game_outcome_to_v1 (game_outcome_of_v1 w) = w"
  by (simp_all add: game_outcome_to_v1_def game_outcome_of_v1_def)

interpretation game_outcome_wire: wire_iso game_outcome_to_v1 game_outcome_of_v1
  by unfold_locales simp_all

fun component_kind_to_v1 :: "component_kind \<Rightarrow> component_kind_v1" where
  "component_kind_to_v1 component_kind.Name = component_kind_v1.Name"
| "component_kind_to_v1 component_kind.AccountingId = component_kind_v1.AccountingId"
| "component_kind_to_v1 component_kind.Life = component_kind_v1.Life"
| "component_kind_to_v1 component_kind.RetreatCost = component_kind_v1.RetreatCost"
| "component_kind_to_v1 component_kind.Form = component_kind_v1.Form"
| "component_kind_to_v1 component_kind.Produces = component_kind_v1.Produces"
| "component_kind_to_v1 component_kind.Tags = component_kind_v1.Tags"
| "component_kind_to_v1 component_kind.Cost = component_kind_v1.Cost"
| "component_kind_to_v1 component_kind.Skill = component_kind_v1.Skill"
| "component_kind_to_v1 component_kind.Attack = component_kind_v1.Attack"
| "component_kind_to_v1 component_kind.Trigger = component_kind_v1.Trigger"
| "component_kind_to_v1 component_kind.Effect = component_kind_v1.Effect"
| "component_kind_to_v1 component_kind.Passive = component_kind_v1.Passive"
| "component_kind_to_v1 component_kind.Timing = component_kind_v1.Timing"
| "component_kind_to_v1 component_kind.Event = component_kind_v1.Event"
| "component_kind_to_v1 component_kind.Respondable = component_kind_v1.Respondable"
| "component_kind_to_v1 component_kind.Persistent = component_kind_v1.Persistent"

fun component_kind_of_v1 :: "component_kind_v1 \<Rightarrow> component_kind" where
  "component_kind_of_v1 component_kind_v1.Name = component_kind.Name"
| "component_kind_of_v1 component_kind_v1.AccountingId = component_kind.AccountingId"
| "component_kind_of_v1 component_kind_v1.Life = component_kind.Life"
| "component_kind_of_v1 component_kind_v1.RetreatCost = component_kind.RetreatCost"
| "component_kind_of_v1 component_kind_v1.Form = component_kind.Form"
| "component_kind_of_v1 component_kind_v1.Produces = component_kind.Produces"
| "component_kind_of_v1 component_kind_v1.Tags = component_kind.Tags"
| "component_kind_of_v1 component_kind_v1.Cost = component_kind.Cost"
| "component_kind_of_v1 component_kind_v1.Skill = component_kind.Skill"
| "component_kind_of_v1 component_kind_v1.Attack = component_kind.Attack"
| "component_kind_of_v1 component_kind_v1.Trigger = component_kind.Trigger"
| "component_kind_of_v1 component_kind_v1.Effect = component_kind.Effect"
| "component_kind_of_v1 component_kind_v1.Passive = component_kind.Passive"
| "component_kind_of_v1 component_kind_v1.Timing = component_kind.Timing"
| "component_kind_of_v1 component_kind_v1.Event = component_kind.Event"
| "component_kind_of_v1 component_kind_v1.Respondable = component_kind.Respondable"
| "component_kind_of_v1 component_kind_v1.Persistent = component_kind.Persistent"

lemma component_kind_v1 [simp]:
  "component_kind_of_v1 (component_kind_to_v1 a) = a" "component_kind_to_v1 (component_kind_of_v1 w) = w"
  by (cases a; simp) (cases w; simp)

interpretation component_kind_wire: wire_iso component_kind_to_v1 component_kind_of_v1
  by unfold_locales simp_all

fun game_status_to_v1 :: "game_status \<Rightarrow> game_status_v1" where
  "game_status_to_v1 game_status.Playing = game_status_v1.Playing"
| "game_status_to_v1 (game_status.Ended o') = game_status_v1.Ended (game_outcome_to_v1 o')"
| "game_status_to_v1 (game_status.Broken b) =
     game_status_v1.Broken
       \<lparr>br1_rule = br_rule b, br1_entity = entity_id_to_v1 (br_entity b),
        br1_expected = component_kind_to_v1 (br_expected b)\<rparr>"

text \<open>The \<open>&'static str\<close> of a breakage is rebuilt from the two rules that can break a game.\<close>

fun game_status_try_of_v1 :: "game_status_v1 \<Rightarrow> state_rebuild_error + game_status" where
  "game_status_try_of_v1 game_status_v1.Playing = Inr game_status.Playing"
| "game_status_try_of_v1 (game_status_v1.Ended o') = Inr (game_status.Ended (game_outcome_of_v1 o'))"
| "game_status_try_of_v1 (game_status_v1.Broken b) =
     (if br1_rule b \<notin> {''destruction'', ''retreat''}
      then Inl (UnsupportedBreakageRule (br1_rule b))
      else and_then (entity_id_try_of_v1 (br1_entity b)) (\<lambda>entity.
        Inr (game_status.Broken
          \<lparr>br_rule = br1_rule b, br_entity = entity,
           br_expected = component_kind_of_v1 (br1_expected b)\<rparr>)))"

section \<open>Effects\<close>

fun trigger_event_to_v1 :: "trigger_event \<Rightarrow> trigger_event_v1" where
  "trigger_event_to_v1 trigger_event.YourUpkeep = trigger_event_v1.YourUpkeep"
| "trigger_event_to_v1 trigger_event.EntersMain = trigger_event_v1.EntersMain"
| "trigger_event_to_v1 trigger_event.EntersBench = trigger_event_v1.EntersBench"
| "trigger_event_to_v1 trigger_event.LeavesMain = trigger_event_v1.LeavesMain"
| "trigger_event_to_v1 trigger_event.LeavesBench = trigger_event_v1.LeavesBench"
| "trigger_event_to_v1 trigger_event.AnySummonDestroyed = trigger_event_v1.AnySummonDestroyed"

fun trigger_event_of_v1 :: "trigger_event_v1 \<Rightarrow> trigger_event" where
  "trigger_event_of_v1 trigger_event_v1.YourUpkeep = trigger_event.YourUpkeep"
| "trigger_event_of_v1 trigger_event_v1.EntersMain = trigger_event.EntersMain"
| "trigger_event_of_v1 trigger_event_v1.EntersBench = trigger_event.EntersBench"
| "trigger_event_of_v1 trigger_event_v1.LeavesMain = trigger_event.LeavesMain"
| "trigger_event_of_v1 trigger_event_v1.LeavesBench = trigger_event.LeavesBench"
| "trigger_event_of_v1 trigger_event_v1.AnySummonDestroyed = trigger_event.AnySummonDestroyed"

lemma trigger_event_v1 [simp]:
  "trigger_event_of_v1 (trigger_event_to_v1 a) = a" "trigger_event_to_v1 (trigger_event_of_v1 w) = w"
  by (cases a; simp) (cases w; simp)

interpretation trigger_event_wire: wire_iso trigger_event_to_v1 trigger_event_of_v1
  by unfold_locales simp_all

fun effect_condition_to_v1 :: "effect_condition \<Rightarrow> effect_condition_v1" where
  "effect_condition_to_v1 effect_condition.DefenderEnteredMainThisTurn =
     effect_condition_v1.DefenderEnteredMainThisTurn"
| "effect_condition_to_v1 effect_condition.SpellPlayedThisTurn =
     effect_condition_v1.SpellPlayedThisTurn"

fun effect_condition_of_v1 :: "effect_condition_v1 \<Rightarrow> effect_condition" where
  "effect_condition_of_v1 effect_condition_v1.DefenderEnteredMainThisTurn =
     effect_condition.DefenderEnteredMainThisTurn"
| "effect_condition_of_v1 effect_condition_v1.SpellPlayedThisTurn =
     effect_condition.SpellPlayedThisTurn"

lemma effect_condition_v1 [simp]:
  "effect_condition_of_v1 (effect_condition_to_v1 a) = a" "effect_condition_to_v1 (effect_condition_of_v1 w) = w"
  by (cases a; simp) (cases w; simp)

interpretation effect_condition_wire: wire_iso effect_condition_to_v1 effect_condition_of_v1
  by unfold_locales simp_all

fun effect_target_to_v1 :: "effect_target \<Rightarrow> effect_target_v1" where
  "effect_target_to_v1 effect_target.Selected = effect_target_v1.Selected"
| "effect_target_to_v1 effect_target.Source = effect_target_v1.Source"

fun effect_target_of_v1 :: "effect_target_v1 \<Rightarrow> effect_target" where
  "effect_target_of_v1 effect_target_v1.Selected = effect_target.Selected"
| "effect_target_of_v1 effect_target_v1.Source = effect_target.Source"

lemma effect_target_v1 [simp]:
  "effect_target_of_v1 (effect_target_to_v1 a) = a" "effect_target_to_v1 (effect_target_of_v1 w) = w"
  by (cases a; simp) (cases w; simp)

interpretation effect_target_wire: wire_iso effect_target_to_v1 effect_target_of_v1
  by unfold_locales simp_all

fun response_block_to_v1 :: "response_block \<Rightarrow> response_block_v1" where
  "response_block_to_v1 response_block.AttackSpells = response_block_v1.AttackSpells"

fun response_block_of_v1 :: "response_block_v1 \<Rightarrow> response_block" where
  "response_block_of_v1 response_block_v1.AttackSpells = response_block.AttackSpells"

lemma response_block_v1 [simp]:
  "response_block_of_v1 (response_block_to_v1 a) = a" "response_block_to_v1 (response_block_of_v1 w) = w"
  by (cases a; simp) (cases w; simp)

interpretation response_block_wire: wire_iso response_block_to_v1 response_block_of_v1
  by unfold_locales simp_all

text \<open>\<open>constraints_v1\<close> and \<open>constraints_core\<close> of \<open>wire/event.rs\<close>; the conversions of a damage
  effect in \<open>state.rs\<close> do the same.\<close>

definition damage_constraints_to_v1 :: "damage_constraints \<Rightarrow> damage_constraints_v1" where
  "damage_constraints_to_v1 d =
     \<lparr>dc1_unincreasable = constraints_contains d damage_constraint.Unincreasable,
      dc1_unpreventable = constraints_contains d damage_constraint.Unpreventable\<rparr>"

definition damage_constraints_of_v1 :: "damage_constraints_v1 \<Rightarrow> damage_constraints" where
  "damage_constraints_of_v1 w =
     (let d = constraints_new;
          d = (if dc1_unincreasable w then constraints_insert damage_constraint.Unincreasable d else d)
      in if dc1_unpreventable w then constraints_insert damage_constraint.Unpreventable d else d)"

lemma damage_constraints_v1 [simp]:
  "damage_constraints_of_v1 (damage_constraints_to_v1 d) = d"
  "damage_constraints_to_v1 (damage_constraints_of_v1 w) = w"
proof -
  show "damage_constraints_of_v1 (damage_constraints_to_v1 d) = d"
  proof (rule constraints_eqI)
    show "constraints_contains (damage_constraints_of_v1 (damage_constraints_to_v1 d)) c
        = constraints_contains d c" for c
      by (cases c) (simp_all add: damage_constraints_of_v1_def damage_constraints_to_v1_def Let_def
          constraints_contains_insert constraints_contains_new)
  qed
  show "damage_constraints_to_v1 (damage_constraints_of_v1 w) = w"
    by (simp add: damage_constraints_of_v1_def damage_constraints_to_v1_def Let_def
        constraints_contains_insert constraints_contains_new)
qed

definition damage_effect_to_v1 :: "damage_effect \<Rightarrow> damage_effect_v1" where
  "damage_effect_to_v1 d =
     \<lparr>de1_base = de_base d,
      de1_constraints = damage_constraints_to_v1 (de_constraints d),
      de1_additions = map (\<lambda>a. \<lparr>da1_amount = da_amount a,
        da1_condition = effect_condition_to_v1 (da_condition a)\<rparr>) (de_additions d)\<rparr>"

definition damage_effect_of_v1 :: "damage_effect_v1 \<Rightarrow> damage_effect" where
  "damage_effect_of_v1 w =
     \<lparr>de_base = de1_base w,
      de_constraints = damage_constraints_of_v1 (de1_constraints w),
      de_additions = map (\<lambda>a. \<lparr>da_amount = da1_amount a,
        da_condition = effect_condition_of_v1 (da1_condition a)\<rparr>) (de1_additions w)\<rparr>"

lemma damage_effect_v1 [simp]:
  "damage_effect_of_v1 (damage_effect_to_v1 d) = d" "damage_effect_to_v1 (damage_effect_of_v1 w) = w"
  by (simp_all add: damage_effect_to_v1_def damage_effect_of_v1_def o_def map_idI)

interpretation damage_effect_wire: wire_iso damage_effect_to_v1 damage_effect_of_v1
  by unfold_locales simp_all

fun effect_leaf_to_v1 :: "effect_leaf \<Rightarrow> effect_leaf_v1" where
  "effect_leaf_to_v1 (effect_leaf.DealDamage d) =
     effect_leaf_v1.DealDamage (damage_effect_to_v1 d)"
| "effect_leaf_to_v1 (effect_leaf.Heal n target) =
     effect_leaf_v1.Heal n (effect_target_to_v1 target)"
| "effect_leaf_to_v1 effect_leaf.MoveSummon = effect_leaf_v1.MoveSummon"
| "effect_leaf_to_v1 effect_leaf.SwapPositions = effect_leaf_v1.SwapPositions"
| "effect_leaf_to_v1 (effect_leaf.BlockResponses cond block) =
     effect_leaf_v1.BlockResponses (effect_condition_to_v1 cond) (response_block_to_v1 block)"
| "effect_leaf_to_v1 effect_leaf.ReturnSpellFromDiscard = effect_leaf_v1.ReturnSpellFromDiscard"
| "effect_leaf_to_v1 effect_leaf.LookAtPrizes = effect_leaf_v1.LookAtPrizes"
| "effect_leaf_to_v1 (effect_leaf.DrawCards n) = effect_leaf_v1.DrawCards n"
| "effect_leaf_to_v1 effect_leaf.ReturnSpellToDeckTop = effect_leaf_v1.ReturnSpellToDeckTop"
| "effect_leaf_to_v1 (effect_leaf.ProduceMana target) =
     effect_leaf_v1.ProduceMana (effect_target_to_v1 target)"
| "effect_leaf_to_v1 (effect_leaf.CannotBeMovedByOpponent target) =
     effect_leaf_v1.CannotBeMovedByOpponent (effect_target_to_v1 target)"
| "effect_leaf_to_v1 effect_leaf.ReadySummon = effect_leaf_v1.ReadySummon"
| "effect_leaf_to_v1 effect_leaf.SwapOpposingPositions = effect_leaf_v1.SwapOpposingPositions"

fun effect_leaf_of_v1 :: "effect_leaf_v1 \<Rightarrow> effect_leaf" where
  "effect_leaf_of_v1 (effect_leaf_v1.DealDamage d) =
     effect_leaf.DealDamage (damage_effect_of_v1 d)"
| "effect_leaf_of_v1 (effect_leaf_v1.Heal n target) =
     effect_leaf.Heal n (effect_target_of_v1 target)"
| "effect_leaf_of_v1 effect_leaf_v1.MoveSummon = effect_leaf.MoveSummon"
| "effect_leaf_of_v1 effect_leaf_v1.SwapPositions = effect_leaf.SwapPositions"
| "effect_leaf_of_v1 (effect_leaf_v1.BlockResponses cond block) =
     effect_leaf.BlockResponses (effect_condition_of_v1 cond) (response_block_of_v1 block)"
| "effect_leaf_of_v1 effect_leaf_v1.ReturnSpellFromDiscard = effect_leaf.ReturnSpellFromDiscard"
| "effect_leaf_of_v1 effect_leaf_v1.LookAtPrizes = effect_leaf.LookAtPrizes"
| "effect_leaf_of_v1 (effect_leaf_v1.DrawCards n) = effect_leaf.DrawCards n"
| "effect_leaf_of_v1 effect_leaf_v1.ReturnSpellToDeckTop = effect_leaf.ReturnSpellToDeckTop"
| "effect_leaf_of_v1 (effect_leaf_v1.ProduceMana target) =
     effect_leaf.ProduceMana (effect_target_of_v1 target)"
| "effect_leaf_of_v1 (effect_leaf_v1.CannotBeMovedByOpponent target) =
     effect_leaf.CannotBeMovedByOpponent (effect_target_of_v1 target)"
| "effect_leaf_of_v1 effect_leaf_v1.ReadySummon = effect_leaf.ReadySummon"
| "effect_leaf_of_v1 effect_leaf_v1.SwapOpposingPositions = effect_leaf.SwapOpposingPositions"

lemma effect_leaf_v1 [simp]:
  "effect_leaf_of_v1 (effect_leaf_to_v1 a) = a" "effect_leaf_to_v1 (effect_leaf_of_v1 w) = w"
  by (cases a; simp) (cases w; simp)

interpretation effect_leaf_wire: wire_iso effect_leaf_to_v1 effect_leaf_of_v1
  by unfold_locales simp_all

section \<open>The Stack and the work queue\<close>

fun stack_item_to_v1 :: "stack_item \<Rightarrow> stack_item_v1" where
  "stack_item_to_v1 (stack_item.Attack p pos) =
     stack_item_v1.Attack (player_id_to_v1 p) (position_to_v1 pos)"
| "stack_item_to_v1 (stack_item.Spell p c targets) =
     stack_item_v1.Spell (player_id_to_v1 p) (card_ref_to_v1 c) (map position_to_v1 targets)"
| "stack_item_to_v1 (stack_item.Trigger p pos e ev targets effects) =
     stack_item_v1.Trigger (player_id_to_v1 p) (position_to_v1 pos) (entity_id_to_v1 e)
       (trigger_event_to_v1 ev) (map position_to_v1 targets) (map effect_leaf_to_v1 effects)"

fun stack_item_try_of_v1 :: "stack_item_v1 \<Rightarrow> state_rebuild_error + stack_item" where
  "stack_item_try_of_v1 (stack_item_v1.Attack p pos) =
     Inr (stack_item.Attack (player_id_of_v1 p) (position_of_v1 pos))"
| "stack_item_try_of_v1 (stack_item_v1.Spell p c targets) =
     and_then (card_ref_try_of_v1 c) (\<lambda>c'. Inr (stack_item.Spell (player_id_of_v1 p) c'
       (map position_of_v1 targets)))"
| "stack_item_try_of_v1 (stack_item_v1.Trigger p pos e ev targets effects) =
     and_then (entity_id_try_of_v1 e) (\<lambda>e'. Inr (stack_item.Trigger (player_id_of_v1 p)
       (position_of_v1 pos) e' (trigger_event_of_v1 ev) (map position_of_v1 targets)
       (map effect_leaf_of_v1 effects)))"

lemma stack_item_v1 [simp]: "stack_item_try_of_v1 (stack_item_to_v1 item) = Inr item"
  by (cases item) (simp_all add: card_ref_wire.round position_wire.list effect_leaf_wire.list del: map_map)

interpretation stack_item_wire: wire_codec stack_item_to_v1 stack_item_try_of_v1
  by unfold_locales simp

fun movement_step_to_v1 :: "movement_step \<Rightarrow> movement_step_v1" where
  "movement_step_to_v1 movement_step.LeavingMain = movement_step_v1.LeavingMain"
| "movement_step_to_v1 movement_step.EnteringBench = movement_step_v1.EnteringBench"
| "movement_step_to_v1 movement_step.LeavingBench = movement_step_v1.LeavingBench"
| "movement_step_to_v1 movement_step.EnteringMain = movement_step_v1.EnteringMain"

fun movement_step_of_v1 :: "movement_step_v1 \<Rightarrow> movement_step" where
  "movement_step_of_v1 movement_step_v1.LeavingMain = movement_step.LeavingMain"
| "movement_step_of_v1 movement_step_v1.EnteringBench = movement_step.EnteringBench"
| "movement_step_of_v1 movement_step_v1.LeavingBench = movement_step.LeavingBench"
| "movement_step_of_v1 movement_step_v1.EnteringMain = movement_step.EnteringMain"

lemma movement_step_v1 [simp]:
  "movement_step_of_v1 (movement_step_to_v1 a) = a" "movement_step_to_v1 (movement_step_of_v1 w) = w"
  by (cases a; simp) (cases w; simp)

interpretation movement_step_wire: wire_iso movement_step_to_v1 movement_step_of_v1
  by unfold_locales simp_all

fun work_item_to_v1 :: "work_item \<Rightarrow> work_item_v1" where
  "work_item_to_v1 (work_item.DestructionCheck pos) =
     work_item_v1.DestructionCheck (position_to_v1 pos)"
| "work_item_to_v1 (work_item.DiscardDestroyedChain pos) =
     work_item_v1.DiscardDestroyedChain (position_to_v1 pos)"
| "work_item_to_v1 (work_item.RecordMainLoss p) = work_item_v1.RecordMainLoss (player_id_to_v1 p)"
| "work_item_to_v1 (work_item.RecoverPrize p) = work_item_v1.RecoverPrize (player_id_to_v1 p)"
| "work_item_to_v1 (work_item.PromoteBenchSummon p) =
     work_item_v1.PromoteBenchSummon (player_id_to_v1 p)"
| "work_item_to_v1 (work_item.ResolveMovementConsequences p) =
     work_item_v1.ResolveMovementConsequences (player_id_to_v1 p)"
| "work_item_to_v1 (work_item.MovementTrigger step p pos) =
     work_item_v1.MovementTrigger (movement_step_to_v1 step) (player_id_to_v1 p)
       (position_to_v1 pos)"
| "work_item_to_v1 (work_item.FireTrigger p pos ev e) =
     work_item_v1.FireTrigger (player_id_to_v1 p) (position_to_v1 pos) (trigger_event_to_v1 ev)
       (entity_id_to_v1 e)"
| "work_item_to_v1 (work_item.LossCheck p) = work_item_v1.LossCheck (player_id_to_v1 p)"
| "work_item_to_v1 work_item.ReadyAll = work_item_v1.ReadyAll"
| "work_item_to_v1 work_item.DrawCard = work_item_v1.DrawCard"
| "work_item_to_v1 (work_item.ProduceMana p src) =
     work_item_v1.ProduceMana (player_id_to_v1 p) (mana_source_to_v1 src)"
| "work_item_to_v1 work_item.BeginMainPhase = work_item_v1.BeginMainPhase"

fun work_item_try_of_v1 :: "work_item_v1 \<Rightarrow> state_rebuild_error + work_item" where
  "work_item_try_of_v1 (work_item_v1.DestructionCheck pos) =
     Inr (work_item.DestructionCheck (position_of_v1 pos))"
| "work_item_try_of_v1 (work_item_v1.DiscardDestroyedChain pos) =
     Inr (work_item.DiscardDestroyedChain (position_of_v1 pos))"
| "work_item_try_of_v1 (work_item_v1.RecordMainLoss p) =
     Inr (work_item.RecordMainLoss (player_id_of_v1 p))"
| "work_item_try_of_v1 (work_item_v1.RecoverPrize p) =
     Inr (work_item.RecoverPrize (player_id_of_v1 p))"
| "work_item_try_of_v1 (work_item_v1.PromoteBenchSummon p) =
     Inr (work_item.PromoteBenchSummon (player_id_of_v1 p))"
| "work_item_try_of_v1 (work_item_v1.ResolveMovementConsequences p) =
     Inr (work_item.ResolveMovementConsequences (player_id_of_v1 p))"
| "work_item_try_of_v1 (work_item_v1.MovementTrigger step p pos) =
     Inr (work_item.MovementTrigger (movement_step_of_v1 step) (player_id_of_v1 p)
       (position_of_v1 pos))"
| "work_item_try_of_v1 (work_item_v1.FireTrigger p pos ev e) =
     and_then (entity_id_try_of_v1 e) (\<lambda>e'. Inr (work_item.FireTrigger
       (player_id_of_v1 p) (position_of_v1 pos) (trigger_event_of_v1 ev) e'))"
| "work_item_try_of_v1 (work_item_v1.LossCheck p) = Inr (work_item.LossCheck (player_id_of_v1 p))"
| "work_item_try_of_v1 work_item_v1.ReadyAll = Inr work_item.ReadyAll"
| "work_item_try_of_v1 work_item_v1.DrawCard = Inr work_item.DrawCard"
| "work_item_try_of_v1 (work_item_v1.ProduceMana p src) =
     Inr (work_item.ProduceMana (player_id_of_v1 p) (mana_source_of_v1 src))"
| "work_item_try_of_v1 work_item_v1.BeginMainPhase = Inr work_item.BeginMainPhase"

lemma work_item_v1 [simp]: "work_item_try_of_v1 (work_item_to_v1 item) = Inr item"
  by (cases item) simp_all

interpretation work_item_wire: wire_codec work_item_to_v1 work_item_try_of_v1
  by unfold_locales simp

section \<open>The whole state\<close>

text \<open>\<open>usize::try_from\<close> on a 64-bit target.\<close>

definition usize_try_from :: "u64 \<Rightarrow> nat option" where
  "usize_try_from n = (if unat n < 2 ^ 64 then Some (unat n) else None)"

lemma usize_try_from: "usize_try_from n = Some (unat n)"
  using unsigned_less [of n, where ?'a = nat] by (simp add: usize_try_from_def)

lemma usize_round: "n < 2 ^ 64 \<Longrightarrow> usize_try_from (of_nat n) = Some n"
  by (simp add: usize_try_from unat_of_nat take_bit_eq_mod)

definition projection_from_state :: "game_state \<Rightarrow> state_projection_v1" where
  "projection_from_state s =
     \<lparr>sp1_players = \<lparr>pl1_one = player_state_to_v1 (pp_one (gs_players s)),
                    pl1_two = player_state_to_v1 (pp_two (gs_players s))\<rparr>,
      sp1_coin = (gs_coin s \<noteq> None),
      sp1_turn = turn_state_to_v1 (gs_turn s),
      sp1_stack = map stack_item_to_v1 (gs_stack s),
      sp1_stack_segment_bases = map of_nat (gs_stack_segment_bases s),
      sp1_work = map work_item_to_v1 (gs_work s),
      sp1_pending = map_option pending_input_to_v1 (gs_pending s),
      sp1_status = game_status_to_v1 (gs_status s)\<rparr>"

definition into_game_state :: "state_projection_v1 \<Rightarrow> card_set \<Rightarrow> state_rebuild_error + game_state" where
  "into_game_state w cards =
     and_then (player_state_try_of_v1 (pl1_one (sp1_players w))) (\<lambda>one.
     and_then (player_state_try_of_v1 (pl1_two (sp1_players w))) (\<lambda>two.
     and_then (try_map stack_item_try_of_v1 (sp1_stack w)) (\<lambda>stack.
     and_then (try_map (\<lambda>base. ok_or (StackSegmentBaseOutOfRange base) (usize_try_from base))
       (sp1_stack_segment_bases w)) (\<lambda>bases.
     and_then (try_map work_item_try_of_v1 (sp1_work w)) (\<lambda>work.
     and_then (game_status_try_of_v1 (sp1_status w)) (\<lambda>status.
     Inr \<lparr>gs_players = pp_new one two,
      gs_coin = then_some (sp1_coin w) Coin,
      gs_turn = turn_state_of_v1 (sp1_turn w),
      gs_stack = stack,
      gs_stack_segment_bases = bases,
      gs_work = work,
      gs_pending = map_option pending_input_of_v1 (sp1_pending w),
      gs_status = status,
      gs_cards = cards\<rparr>))))))"

text \<open>
  The values a running match can hold: a segment base is a \<open>usize\<close>, and a broken game was broken by
  one of the two rules that call \<open>demand\<close>.
\<close>

definition projectable :: "game_state \<Rightarrow> bool" where
  "projectable s \<longleftrightarrow>
     (\<forall>base \<in> set (gs_stack_segment_bases s). base < 2 ^ 64)
     \<and> (case gs_status s of game_status.Broken b \<Rightarrow> br_rule b \<in> {''destruction'', ''retreat''} | _ \<Rightarrow> True)"

lemma game_status_v1:
  "(case st of game_status.Broken b \<Rightarrow> br_rule b \<in> {''destruction'', ''retreat''} | _ \<Rightarrow> True)
    \<Longrightarrow> game_status_try_of_v1 (game_status_to_v1 st) = Inr st"
  by (cases st) auto

lemma bases_v1:
  "\<forall>base \<in> set bases. base < 2 ^ 64 \<Longrightarrow>
    try_map (\<lambda>base. ok_or (StackSegmentBaseOutOfRange base) (usize_try_from base)) (map of_nat bases)
      = Inr bases"
  by (induction bases) (simp_all add: usize_round)

lemma projection_round_trip:
  "projectable s \<Longrightarrow> into_game_state (projection_from_state s) (gs_cards s) = Inr s"
  by (simp add: projectable_def into_game_state_def projection_from_state_def player_state_wire.round
      stack_item_wire.list bases_v1 work_item_wire.list game_status_v1 turn_state_wire.of_to
      pending_input_wire.option then_some_unit pp_new_def del: option.map_comp)

end
