(* ===== verification/Wire_Events.thy ===== *)
theory Wire_Events
  imports Wire_State
begin

text \<open>
  The conversions of \<open>crates/match-log/src/wire/action.rs\<close>, \<open>action_error.rs\<close> and \<open>event.rs\<close>: the
  actions, rejections and events of the engine in their wire form, and back.
\<close>

datatype wire_conversion_error =
  InvalidEntityId string
| IntegerOutOfRange string u64
| StateRebuild state_rebuild_error

definition parse_entity_id :: "entity_id_v1 \<Rightarrow> wire_conversion_error + entity_id" where
  "parse_entity_id w =
     (case w of EntityIdV1 text \<Rightarrow>
        map_err (\<lambda>_. wire_conversion_error.InvalidEntityId text) (entity_id_parse text))"

lemma parse_entity_id_v1 [simp]: "parse_entity_id (entity_id_to_v1 e) = Inr e"
  by (simp add: entity_id_to_v1_def parse_entity_id_def parse_displayed)

interpretation id_wire: wire_codec entity_id_to_v1 parse_entity_id
  by unfold_locales simp

section \<open>Actions and rejections\<close>

fun mana_type_to_v1 :: "mana_type \<Rightarrow> mana_type_v1" where
  "mana_type_to_v1 mana_type.Matter = mana_type_v1.Matter"
| "mana_type_to_v1 mana_type.Mind = mana_type_v1.Mind"
| "mana_type_to_v1 mana_type.Spirit = mana_type_v1.Spirit"

fun mana_type_of_v1 :: "mana_type_v1 \<Rightarrow> mana_type" where
  "mana_type_of_v1 mana_type_v1.Matter = mana_type.Matter"
| "mana_type_of_v1 mana_type_v1.Mind = mana_type.Mind"
| "mana_type_of_v1 mana_type_v1.Spirit = mana_type.Spirit"

lemma mana_type_v1 [simp]:
  "mana_type_of_v1 (mana_type_to_v1 a) = a" "mana_type_to_v1 (mana_type_of_v1 w) = w"
  by (cases a; simp) (cases w; simp)

interpretation mana_type_wire: wire_iso mana_type_to_v1 mana_type_of_v1
  by unfold_locales simp_all

fun action_to_v1 :: "game_action \<Rightarrow> action_v1" where
  "action_to_v1 (game_action.PlaySummon p n slot) =
     action_v1.PlaySummon (player_id_to_v1 p) (card_number n) (bench_slot_to_v1 slot)"
| "action_to_v1 (game_action.UpgradeSummon p n pos) =
     action_v1.UpgradeSummon (player_id_to_v1 p) (card_number n) (position_to_v1 pos)"
| "action_to_v1 (game_action.CastSpell p n targets hint) =
     action_v1.CastSpell (player_id_to_v1 p) (card_number n) (map position_to_v1 targets)
       (map_option mana_type_to_v1 hint)"
| "action_to_v1 (game_action.ActivateSkill p pos e targets hint) =
     action_v1.ActivateSkill (player_id_to_v1 p) (position_to_v1 pos) (entity_id_to_v1 e)
       (map position_to_v1 targets) (map_option mana_type_to_v1 hint)"
| "action_to_v1 (game_action.Retreat p slot hint) =
     action_v1.Retreat (player_id_to_v1 p) (bench_slot_to_v1 slot)
       (map_option mana_type_to_v1 hint)"
| "action_to_v1 (game_action.DeclareAttack p pos hint) =
     action_v1.DeclareAttack (player_id_to_v1 p) (position_to_v1 pos)
       (map_option mana_type_to_v1 hint)"
| "action_to_v1 (game_action.EndTurn p) = action_v1.EndTurn (player_id_to_v1 p)"
| "action_to_v1 (game_action.PassPriority p) = action_v1.PassPriority (player_id_to_v1 p)"
| "action_to_v1 (game_action.ConvertCoin p t) =
     action_v1.ConvertCoin (player_id_to_v1 p) (mana_type_to_v1 t)"
| "action_to_v1 (game_action.ChooseManaType p t) =
     action_v1.ChooseManaType (player_id_to_v1 p) (mana_type_to_v1 t)"
| "action_to_v1 (game_action.ChoosePromotion p slot) =
     action_v1.ChoosePromotion (player_id_to_v1 p) (bench_slot_to_v1 slot)"
| "action_to_v1 (game_action.ChoosePrize p n) =
     action_v1.ChoosePrize (player_id_to_v1 p) (of_nat n)"
| "action_to_v1 (game_action.Resign p) = action_v1.Resign (player_id_to_v1 p)"

fun action_try_of_v1 :: "action_v1 \<Rightarrow> wire_conversion_error + game_action" where
  "action_try_of_v1 (action_v1.PlaySummon p n slot) =
     Inr (game_action.PlaySummon (player_id_of_v1 p) (CardInstanceId n) (bench_slot_of_v1 slot))"
| "action_try_of_v1 (action_v1.UpgradeSummon p n pos) =
     Inr (game_action.UpgradeSummon (player_id_of_v1 p) (CardInstanceId n) (position_of_v1 pos))"
| "action_try_of_v1 (action_v1.CastSpell p n targets hint) =
     Inr (game_action.CastSpell (player_id_of_v1 p) (CardInstanceId n)
       (map position_of_v1 targets) (map_option mana_type_of_v1 hint))"
| "action_try_of_v1 (action_v1.ActivateSkill p pos e targets hint) =
     and_then (parse_entity_id e) (\<lambda>e'. Inr (game_action.ActivateSkill
       (player_id_of_v1 p) (position_of_v1 pos) e' (map position_of_v1 targets)
       (map_option mana_type_of_v1 hint)))"
| "action_try_of_v1 (action_v1.Retreat p slot hint) =
     Inr (game_action.Retreat (player_id_of_v1 p) (bench_slot_of_v1 slot)
       (map_option mana_type_of_v1 hint))"
| "action_try_of_v1 (action_v1.DeclareAttack p pos hint) =
     Inr (game_action.DeclareAttack (player_id_of_v1 p) (position_of_v1 pos)
       (map_option mana_type_of_v1 hint))"
| "action_try_of_v1 (action_v1.EndTurn p) = Inr (game_action.EndTurn (player_id_of_v1 p))"
| "action_try_of_v1 (action_v1.PassPriority p) =
     Inr (game_action.PassPriority (player_id_of_v1 p))"
| "action_try_of_v1 (action_v1.ConvertCoin p t) =
     Inr (game_action.ConvertCoin (player_id_of_v1 p) (mana_type_of_v1 t))"
| "action_try_of_v1 (action_v1.ChooseManaType p t) =
     Inr (game_action.ChooseManaType (player_id_of_v1 p) (mana_type_of_v1 t))"
| "action_try_of_v1 (action_v1.ChoosePromotion p slot) =
     Inr (game_action.ChoosePromotion (player_id_of_v1 p) (bench_slot_of_v1 slot))"
| "action_try_of_v1 (action_v1.ChoosePrize p n) =
     and_then (ok_or (IntegerOutOfRange ''prize_index'' n) (usize_try_from n)) (\<lambda>n'. Inr
       (game_action.ChoosePrize (player_id_of_v1 p) n'))"
| "action_try_of_v1 (action_v1.Resign p) = Inr (game_action.Resign (player_id_of_v1 p))"

text \<open>A Prize index is a \<open>usize\<close>; every other action is read back whatever it holds.\<close>

lemma action_round_trip:
  assumes "\<And>p n. action = game_action.ChoosePrize p n \<Longrightarrow> n < 2 ^ 64"
  shows "action_try_of_v1 (action_to_v1 action) = Inr action"
  using assms
  by (cases action) (simp_all add: position_wire.list mana_type_wire.option usize_round
      del: map_map option.map_comp)

fun error_to_v1 :: "action_error \<Rightarrow> error_v1" where
  "error_to_v1 action_error.NotYourDecision = error_v1.NotYourDecision"
| "error_to_v1 action_error.GameAlreadyOver = error_v1.GameAlreadyOver"
| "error_to_v1 action_error.GameBroken = error_v1.GameBroken"
| "error_to_v1 action_error.WrongPhase = error_v1.WrongPhase"
| "error_to_v1 action_error.EmptyPosition = error_v1.EmptyPosition"
| "error_to_v1 action_error.UnknownCard = error_v1.UnknownCard"
| "error_to_v1 (action_error.InsufficientMana short) =
     error_v1.InsufficientMana (mana_bank_to_v1 short)"
| "error_to_v1 action_error.SummonExhausted = error_v1.SummonExhausted"
| "error_to_v1 action_error.NormalAttackAlreadyUsed = error_v1.NormalAttackAlreadyUsed"
| "error_to_v1 action_error.NormalRetreatAlreadyUsed = error_v1.NormalRetreatAlreadyUsed"
| "error_to_v1 action_error.AlreadyUpgradedThisTurn = error_v1.AlreadyUpgradedThisTurn"
| "error_to_v1 action_error.PlayedThisTurn = error_v1.PlayedThisTurn"
| "error_to_v1 action_error.IllegalUpgradeTarget = error_v1.IllegalUpgradeTarget"
| "error_to_v1 action_error.InvalidTarget = error_v1.InvalidTarget"
| "error_to_v1 action_error.PendingInputMismatch = error_v1.PendingInputMismatch"
| "error_to_v1 action_error.InvalidManaHint = error_v1.InvalidManaHint"

fun error_of_v1 :: "error_v1 \<Rightarrow> action_error" where
  "error_of_v1 error_v1.NotYourDecision = action_error.NotYourDecision"
| "error_of_v1 error_v1.GameAlreadyOver = action_error.GameAlreadyOver"
| "error_of_v1 error_v1.GameBroken = action_error.GameBroken"
| "error_of_v1 error_v1.WrongPhase = action_error.WrongPhase"
| "error_of_v1 error_v1.EmptyPosition = action_error.EmptyPosition"
| "error_of_v1 error_v1.UnknownCard = action_error.UnknownCard"
| "error_of_v1 (error_v1.InsufficientMana short) =
     action_error.InsufficientMana (mana_bank_of_v1 short)"
| "error_of_v1 error_v1.SummonExhausted = action_error.SummonExhausted"
| "error_of_v1 error_v1.NormalAttackAlreadyUsed = action_error.NormalAttackAlreadyUsed"
| "error_of_v1 error_v1.NormalRetreatAlreadyUsed = action_error.NormalRetreatAlreadyUsed"
| "error_of_v1 error_v1.AlreadyUpgradedThisTurn = action_error.AlreadyUpgradedThisTurn"
| "error_of_v1 error_v1.PlayedThisTurn = action_error.PlayedThisTurn"
| "error_of_v1 error_v1.IllegalUpgradeTarget = action_error.IllegalUpgradeTarget"
| "error_of_v1 error_v1.InvalidTarget = action_error.InvalidTarget"
| "error_of_v1 error_v1.PendingInputMismatch = action_error.PendingInputMismatch"
| "error_of_v1 error_v1.InvalidManaHint = action_error.InvalidManaHint"

lemma error_v1 [simp]:
  "error_of_v1 (error_to_v1 a) = a" "error_to_v1 (error_of_v1 w) = w"
  by (cases a; simp) (cases w; simp)

interpretation error_wire: wire_iso error_to_v1 error_of_v1
  by unfold_locales simp_all

section \<open>Damage\<close>

fun damage_constraint_to_v1 :: "damage_constraint \<Rightarrow> damage_constraint_v1" where
  "damage_constraint_to_v1 damage_constraint.Unincreasable = damage_constraint_v1.Unincreasable"
| "damage_constraint_to_v1 damage_constraint.Unpreventable = damage_constraint_v1.Unpreventable"

fun damage_constraint_of_v1 :: "damage_constraint_v1 \<Rightarrow> damage_constraint" where
  "damage_constraint_of_v1 damage_constraint_v1.Unincreasable = damage_constraint.Unincreasable"
| "damage_constraint_of_v1 damage_constraint_v1.Unpreventable = damage_constraint.Unpreventable"

lemma damage_constraint_v1 [simp]:
  "damage_constraint_of_v1 (damage_constraint_to_v1 a) = a" "damage_constraint_to_v1 (damage_constraint_of_v1 w) = w"
  by (cases a; simp) (cases w; simp)

interpretation damage_constraint_wire: wire_iso damage_constraint_to_v1 damage_constraint_of_v1
  by unfold_locales simp_all

fun damage_stage_to_v1 :: "damage_stage \<Rightarrow> damage_stage_v1" where
  "damage_stage_to_v1 damage_stage.Addition = damage_stage_v1.Addition"
| "damage_stage_to_v1 damage_stage.PersistentReduction = damage_stage_v1.PersistentReduction"
| "damage_stage_to_v1 damage_stage.Clamp = damage_stage_v1.Clamp"
| "damage_stage_to_v1 damage_stage.Commit = damage_stage_v1.Commit"

fun damage_stage_of_v1 :: "damage_stage_v1 \<Rightarrow> damage_stage" where
  "damage_stage_of_v1 damage_stage_v1.Addition = damage_stage.Addition"
| "damage_stage_of_v1 damage_stage_v1.PersistentReduction = damage_stage.PersistentReduction"
| "damage_stage_of_v1 damage_stage_v1.Clamp = damage_stage.Clamp"
| "damage_stage_of_v1 damage_stage_v1.Commit = damage_stage.Commit"

lemma damage_stage_v1 [simp]:
  "damage_stage_of_v1 (damage_stage_to_v1 a) = a" "damage_stage_to_v1 (damage_stage_of_v1 w) = w"
  by (cases a; simp) (cases w; simp)

interpretation damage_stage_wire: wire_iso damage_stage_to_v1 damage_stage_of_v1
  by unfold_locales simp_all

fun damage_operation_to_v1 :: "damage_operation \<Rightarrow> damage_operation_v1" where
  "damage_operation_to_v1 (damage_operation.Add n) = damage_operation_v1.Add n"
| "damage_operation_to_v1 (damage_operation.Reduce n) = damage_operation_v1.Reduce n"
| "damage_operation_to_v1 damage_operation.ClampToZero = damage_operation_v1.ClampToZero"

fun damage_operation_of_v1 :: "damage_operation_v1 \<Rightarrow> damage_operation" where
  "damage_operation_of_v1 (damage_operation_v1.Add n) = damage_operation.Add n"
| "damage_operation_of_v1 (damage_operation_v1.Reduce n) = damage_operation.Reduce n"
| "damage_operation_of_v1 damage_operation_v1.ClampToZero = damage_operation.ClampToZero"

lemma damage_operation_v1 [simp]:
  "damage_operation_of_v1 (damage_operation_to_v1 a) = a" "damage_operation_to_v1 (damage_operation_of_v1 w) = w"
  by (cases a; simp) (cases w; simp)

interpretation damage_operation_wire: wire_iso damage_operation_to_v1 damage_operation_of_v1
  by unfold_locales simp_all

fun damage_source_to_v1 :: "damage_source \<Rightarrow> damage_source_v1" where
  "damage_source_to_v1 (damage_source.Attack p pos e) =
     damage_source_v1.Attack (player_id_to_v1 p) (position_to_v1 pos) (entity_id_to_v1 e)"
| "damage_source_to_v1 (damage_source.Spell p n e) =
     damage_source_v1.Spell (player_id_to_v1 p) (card_number n) (entity_id_to_v1 e)"
| "damage_source_to_v1 (damage_source.Skill p pos e) =
     damage_source_v1.Skill (player_id_to_v1 p) (position_to_v1 pos) (entity_id_to_v1 e)"
| "damage_source_to_v1 (damage_source.Trigger p pos e) =
     damage_source_v1.Trigger (player_id_to_v1 p) (position_to_v1 pos) (entity_id_to_v1 e)"

fun damage_source_try_of_v1 :: "damage_source_v1 \<Rightarrow> wire_conversion_error + damage_source" where
  "damage_source_try_of_v1 (damage_source_v1.Attack p pos e) =
     and_then (parse_entity_id e) (\<lambda>e'. Inr (damage_source.Attack (player_id_of_v1 p)
       (position_of_v1 pos) e'))"
| "damage_source_try_of_v1 (damage_source_v1.Spell p n e) =
     and_then (parse_entity_id e) (\<lambda>e'. Inr (damage_source.Spell (player_id_of_v1 p)
       (CardInstanceId n) e'))"
| "damage_source_try_of_v1 (damage_source_v1.Skill p pos e) =
     and_then (parse_entity_id e) (\<lambda>e'. Inr (damage_source.Skill (player_id_of_v1 p)
       (position_of_v1 pos) e'))"
| "damage_source_try_of_v1 (damage_source_v1.Trigger p pos e) =
     and_then (parse_entity_id e) (\<lambda>e'. Inr (damage_source.Trigger (player_id_of_v1 p)
       (position_of_v1 pos) e'))"

lemma damage_source_v1 [simp]: "damage_source_try_of_v1 (damage_source_to_v1 x) = Inr x"
  by (cases x) simp_all

interpretation damage_source_wire: wire_codec damage_source_to_v1 damage_source_try_of_v1
  by unfold_locales simp

fun damage_origin_to_v1 :: "damage_origin \<Rightarrow> damage_origin_v1" where
  "damage_origin_to_v1 (damage_origin.PrintedAbility e) =
     damage_origin_v1.PrintedAbility (entity_id_to_v1 e)"
| "damage_origin_to_v1 (damage_origin.PersistentCard n) =
     damage_origin_v1.PersistentCard (card_number n)"

fun damage_origin_try_of_v1 :: "damage_origin_v1 \<Rightarrow> wire_conversion_error + damage_origin" where
  "damage_origin_try_of_v1 (damage_origin_v1.PrintedAbility e) =
     and_then (parse_entity_id e) (\<lambda>e'. Inr (damage_origin.PrintedAbility e'))"
| "damage_origin_try_of_v1 (damage_origin_v1.PersistentCard n) =
     Inr (damage_origin.PersistentCard (CardInstanceId n))"

lemma damage_origin_v1 [simp]: "damage_origin_try_of_v1 (damage_origin_to_v1 x) = Inr x"
  by (cases x) simp_all

interpretation damage_origin_wire: wire_codec damage_origin_to_v1 damage_origin_try_of_v1
  by unfold_locales simp

definition battlefield_target_to_v1 :: "battlefield_target \<Rightarrow> battlefield_target_v1" where
  "battlefield_target_to_v1 x =
     \<lparr>bt1_controller = player_id_to_v1 (bt_controller x),
      bt1_position = position_to_v1 (bt_position x)\<rparr>"

definition battlefield_target_of_v1 :: "battlefield_target_v1 \<Rightarrow> battlefield_target" where
  "battlefield_target_of_v1 w =
     \<lparr>bt_controller = player_id_of_v1 (bt1_controller w),
      bt_position = position_of_v1 (bt1_position w)\<rparr>"

lemma battlefield_target_v1 [simp]:
  "battlefield_target_of_v1 (battlefield_target_to_v1 a) = a" "battlefield_target_to_v1 (battlefield_target_of_v1 w) = w"
  by (simp_all add: battlefield_target_to_v1_def battlefield_target_of_v1_def)

interpretation battlefield_target_wire: wire_iso battlefield_target_to_v1 battlefield_target_of_v1
  by unfold_locales simp_all

definition damage_context_to_v1 :: "damage_context \<Rightarrow> damage_context_v1" where
  "damage_context_to_v1 x =
     \<lparr>cx1_source = damage_source_to_v1 (dc_source x),
      cx1_target = battlefield_target_to_v1 (dc_target x)\<rparr>"

definition damage_context_try_of_v1 :: "damage_context_v1 \<Rightarrow> wire_conversion_error + damage_context" where
  "damage_context_try_of_v1 w =
     and_then (damage_source_try_of_v1 (cx1_source w)) (\<lambda>source.
     Inr \<lparr>dc_source = source, dc_target = battlefield_target_of_v1 (cx1_target w)\<rparr>)"

lemma damage_context_v1 [simp]: "damage_context_try_of_v1 (damage_context_to_v1 x) = Inr x"
  by (simp add: damage_context_to_v1_def damage_context_try_of_v1_def)

interpretation damage_context_wire: wire_codec damage_context_to_v1 damage_context_try_of_v1
  by unfold_locales simp

section \<open>Events\<close>

fun event_to_v1 :: "game_event \<Rightarrow> event_v1" where
  "event_to_v1 (game_event.TurnBegan p) = event_v1.TurnBegan (player_id_to_v1 p)"
| "event_to_v1 (game_event.SummonsReadied p targets) =
     event_v1.SummonsReadied (player_id_to_v1 p) (map position_to_v1 targets)"
| "event_to_v1 (game_event.CardDrawn p n) =
     event_v1.CardDrawn (player_id_to_v1 p) (card_number n)"
| "event_to_v1 (game_event.ManaProduced p src t) =
     event_v1.ManaProduced (player_id_to_v1 p) (mana_source_to_v1 src) (mana_type_to_v1 t)"
| "event_to_v1 (game_event.SummonPlayed p n slot) =
     event_v1.SummonPlayed (player_id_to_v1 p) (card_number n) (bench_slot_to_v1 slot)"
| "event_to_v1 (game_event.SummonUpgraded p n pos) =
     event_v1.SummonUpgraded (player_id_to_v1 p) (card_number n) (position_to_v1 pos)"
| "event_to_v1 (game_event.SpellCast p n targets) =
     event_v1.SpellCast (player_id_to_v1 p) (card_number n) (map position_to_v1 targets)"
| "event_to_v1 (game_event.SkillActivated p pos e) =
     event_v1.SkillActivated (player_id_to_v1 p) (position_to_v1 pos) (entity_id_to_v1 e)"
| "event_to_v1 (game_event.AttackDeclared p pos) =
     event_v1.AttackDeclared (player_id_to_v1 p) (position_to_v1 pos)"
| "event_to_v1 (game_event.PriorityPassed p) = event_v1.PriorityPassed (player_id_to_v1 p)"
| "event_to_v1 (game_event.StackItemResolved item) =
     event_v1.StackItemResolved (stack_item_to_v1 item)"
| "event_to_v1 (game_event.DamageCalculationStarted cx n dcs) =
     event_v1.DamageCalculationStarted (damage_context_to_v1 cx) n (damage_constraints_to_v1 dcs)"
| "event_to_v1 (game_event.DamageAdjustmentApplied cx stage op origin n n2) =
     event_v1.DamageAdjustmentApplied (damage_context_to_v1 cx) (damage_stage_to_v1 stage)
       (damage_operation_to_v1 op) (damage_origin_to_v1 origin) n n2"
| "event_to_v1 (game_event.DamageAdjustmentSkipped cx stage op origin n dc) =
     event_v1.DamageAdjustmentSkipped (damage_context_to_v1 cx) (damage_stage_to_v1 stage)
       (damage_operation_to_v1 op) (damage_origin_to_v1 origin) n (damage_constraint_to_v1 dc)"
| "event_to_v1 (game_event.DamageApplied cx n n2 n3) =
     event_v1.DamageApplied (damage_context_to_v1 cx) n n2 n3"
| "event_to_v1 (game_event.Healed pos n) = event_v1.Healed (position_to_v1 pos) n"
| "event_to_v1 (game_event.SummonDestroyed pos p) =
     event_v1.SummonDestroyed (position_to_v1 pos) (player_id_to_v1 p)"
| "event_to_v1 (game_event.PrizeRecovered p n) =
     event_v1.PrizeRecovered (player_id_to_v1 p) (card_number n)"
| "event_to_v1 (game_event.PrizesViewed p cards) =
     event_v1.PrizesViewed (player_id_to_v1 p) (map card_number cards)"
| "event_to_v1 (game_event.SummonPromoted p slot) =
     event_v1.SummonPromoted (player_id_to_v1 p) (bench_slot_to_v1 slot)"
| "event_to_v1 (game_event.SummonsSwapped p slot) =
     event_v1.SummonsSwapped (player_id_to_v1 p) (bench_slot_to_v1 slot)"
| "event_to_v1 (game_event.TriggerFired p pos ev e) =
     event_v1.TriggerFired (player_id_to_v1 p) (position_to_v1 pos) (trigger_event_to_v1 ev)
       (entity_id_to_v1 e)"
| "event_to_v1 (game_event.CoinConverted p t) =
     event_v1.CoinConverted (player_id_to_v1 p) (mana_type_to_v1 t)"
| "event_to_v1 (game_event.ManaDeducted p t n) =
     event_v1.ManaDeducted (player_id_to_v1 p) (mana_type_to_v1 t) n"
| "event_to_v1 (game_event.GameEnded p reason) =
     event_v1.GameEnded (player_id_to_v1 p) (loss_reason_to_v1 reason)"

fun event_try_of_v1 :: "event_v1 \<Rightarrow> wire_conversion_error + game_event" where
  "event_try_of_v1 (event_v1.TurnBegan p) = Inr (game_event.TurnBegan (player_id_of_v1 p))"
| "event_try_of_v1 (event_v1.SummonsReadied p targets) =
     Inr (game_event.SummonsReadied (player_id_of_v1 p) (map position_of_v1 targets))"
| "event_try_of_v1 (event_v1.CardDrawn p n) =
     Inr (game_event.CardDrawn (player_id_of_v1 p) (CardInstanceId n))"
| "event_try_of_v1 (event_v1.ManaProduced p src t) =
     Inr (game_event.ManaProduced (player_id_of_v1 p) (mana_source_of_v1 src) (mana_type_of_v1 t))"
| "event_try_of_v1 (event_v1.SummonPlayed p n slot) =
     Inr (game_event.SummonPlayed (player_id_of_v1 p) (CardInstanceId n) (bench_slot_of_v1 slot))"
| "event_try_of_v1 (event_v1.SummonUpgraded p n pos) =
     Inr (game_event.SummonUpgraded (player_id_of_v1 p) (CardInstanceId n) (position_of_v1 pos))"
| "event_try_of_v1 (event_v1.SpellCast p n targets) =
     Inr (game_event.SpellCast (player_id_of_v1 p) (CardInstanceId n) (map position_of_v1 targets))"
| "event_try_of_v1 (event_v1.SkillActivated p pos e) =
     and_then (parse_entity_id e) (\<lambda>e'. Inr (game_event.SkillActivated
       (player_id_of_v1 p) (position_of_v1 pos) e'))"
| "event_try_of_v1 (event_v1.AttackDeclared p pos) =
     Inr (game_event.AttackDeclared (player_id_of_v1 p) (position_of_v1 pos))"
| "event_try_of_v1 (event_v1.PriorityPassed p) =
     Inr (game_event.PriorityPassed (player_id_of_v1 p))"
| "event_try_of_v1 (event_v1.StackItemResolved item) =
     and_then (map_err StateRebuild (stack_item_try_of_v1 item)) (\<lambda>item'. Inr
       (game_event.StackItemResolved item'))"
| "event_try_of_v1 (event_v1.DamageCalculationStarted cx n dcs) =
     and_then (damage_context_try_of_v1 cx) (\<lambda>cx'. Inr
       (game_event.DamageCalculationStarted cx' n (damage_constraints_of_v1 dcs)))"
| "event_try_of_v1 (event_v1.DamageAdjustmentApplied cx stage op origin n n2) =
     and_then (damage_context_try_of_v1 cx) (\<lambda>cx'. and_then
       (damage_origin_try_of_v1 origin) (\<lambda>origin'. Inr
       (game_event.DamageAdjustmentApplied cx' (damage_stage_of_v1 stage)
       (damage_operation_of_v1 op) origin' n n2)))"
| "event_try_of_v1 (event_v1.DamageAdjustmentSkipped cx stage op origin n dc) =
     and_then (damage_context_try_of_v1 cx) (\<lambda>cx'. and_then
       (damage_origin_try_of_v1 origin) (\<lambda>origin'. Inr
       (game_event.DamageAdjustmentSkipped cx' (damage_stage_of_v1 stage)
       (damage_operation_of_v1 op) origin' n (damage_constraint_of_v1 dc))))"
| "event_try_of_v1 (event_v1.DamageApplied cx n n2 n3) =
     and_then (damage_context_try_of_v1 cx) (\<lambda>cx'. Inr
       (game_event.DamageApplied cx' n n2 n3))"
| "event_try_of_v1 (event_v1.Healed pos n) = Inr (game_event.Healed (position_of_v1 pos) n)"
| "event_try_of_v1 (event_v1.SummonDestroyed pos p) =
     Inr (game_event.SummonDestroyed (position_of_v1 pos) (player_id_of_v1 p))"
| "event_try_of_v1 (event_v1.PrizeRecovered p n) =
     Inr (game_event.PrizeRecovered (player_id_of_v1 p) (CardInstanceId n))"
| "event_try_of_v1 (event_v1.PrizesViewed p cards) =
     Inr (game_event.PrizesViewed (player_id_of_v1 p) (map CardInstanceId cards))"
| "event_try_of_v1 (event_v1.SummonPromoted p slot) =
     Inr (game_event.SummonPromoted (player_id_of_v1 p) (bench_slot_of_v1 slot))"
| "event_try_of_v1 (event_v1.SummonsSwapped p slot) =
     Inr (game_event.SummonsSwapped (player_id_of_v1 p) (bench_slot_of_v1 slot))"
| "event_try_of_v1 (event_v1.TriggerFired p pos ev e) =
     and_then (parse_entity_id e) (\<lambda>e'. Inr (game_event.TriggerFired (player_id_of_v1 p)
       (position_of_v1 pos) (trigger_event_of_v1 ev) e'))"
| "event_try_of_v1 (event_v1.CoinConverted p t) =
     Inr (game_event.CoinConverted (player_id_of_v1 p) (mana_type_of_v1 t))"
| "event_try_of_v1 (event_v1.ManaDeducted p t n) =
     Inr (game_event.ManaDeducted (player_id_of_v1 p) (mana_type_of_v1 t) n)"
| "event_try_of_v1 (event_v1.GameEnded p reason) =
     Inr (game_event.GameEnded (player_id_of_v1 p) (loss_reason_of_v1 reason))"

lemma card_numbers [simp]: "map CardInstanceId (map card_number cards) = cards"
  by (simp add: map_idI)

lemma event_v1 [simp]: "event_try_of_v1 (event_to_v1 x) = Inr x"
  by (cases x) (simp_all add: position_wire.list del: map_map)

interpretation event_wire: wire_codec event_to_v1 event_try_of_v1
  by unfold_locales simp

end
