(* ===== verification/Protocol.thy ===== *)
theory Protocol
  imports Card_Text Wire_Events
begin

text \<open>
  \<open>crates/cli/src/protocol.rs\<close>: what server and client say to each other, and what of a match a
  player is shown. A \<open>HashMap\<close> is a map; the fields of a struct carry its initials (\<open>PlayerView.hand\<close>
  is \<open>pv_hand\<close>). \<open>usize\<close> counts are \<open>nat\<close>s. The array \<open>bench\<close> has three places.
\<close>

section \<open>Seats and envelopes\<close>

definition protocol_version :: u32 where
  "protocol_version = 1"

datatype seat = One | Two

fun player_id_of_seat :: "seat \<Rightarrow> player_id" where
  "player_id_of_seat seat.One = player_id.One"
| "player_id_of_seat seat.Two = player_id.Two"

fun seat_of_player_id :: "player_id \<Rightarrow> seat" where
  "seat_of_player_id player_id.One = seat.One"
| "seat_of_player_id player_id.Two = seat.Two"

datatype client_envelope =
  Join u32 seat
| Submit u32 u64 u64 action_v1

datatype submission_result = Accepted | Rejected string

datatype ability_kind = Skill | Attack | Trigger

record ability_description =
  ad_kind :: ability_kind
  ad_id :: entity_id_v1
  ad_name :: string
  ad_cost :: "string option"
  ad_effects :: "string list"
  ad_trigger_event :: "string option"
  ad_timing :: "string option"
  ad_respondable :: bool
  ad_persistent :: bool
  ad_modifiers :: "string list"

record card_description =
  cd_name :: string
  cd_life :: "u32 option"
  cd_retreat_cost :: "u32 option"
  cd_mana_types :: "string list"
  cd_cost :: "string option"
  cd_abilities :: "ability_description list"
  cd_effects :: "string list"
  cd_modifiers :: "string list"
  cd_timing :: "string option"
  cd_persistent :: bool

record notice =
  no_text :: string

record hand_card_view =
  hc_instance :: u32
  hc_card :: card_description

record public_card_view =
  pc_card :: card_description

datatype readiness_view = Ready | Exhausted

record summon_view =
  sv_chain :: "card_description list"
  sv_damage :: u32
  sv_readiness :: readiness_view
  sv_owner :: seat
  sv_controller :: seat

record board_view =
  bv_main :: "summon_view option"
  bv_bench :: "summon_view option array3"

record mana_view =
  mv_matter :: u32
  mv_mind :: u32
  mv_spirit :: u32

record player_public_view =
  pu_board :: board_view
  pu_mana :: mana_view
  pu_main_losses :: u8
  pu_discard :: "public_card_view list"
  pu_persistent :: "public_card_view list"
  pu_deck_count :: nat
  pu_prize_count :: nat
  pu_hand_count :: nat

record 'a seats_view =
  sv_one :: 'a
  sv_two :: 'a

datatype phase_view = Upkeep | Main | Combat

datatype stack_view =
  Attack seat string
| Spell seat card_description "string list"
| Trigger seat string string "string list" "string list"

datatype pending_kind_view = ManaProduction | Promotion | PrizePick

record pending_view =
  pw_kind :: pending_kind_view
  pw_owner :: seat

datatype outcome_reason_view = ThirdMainLoss | NoPromotionAvailable | EmptyDeckDraw | Resignation

record outcome_view =
  ov_winner :: seat
  ov_reason :: outcome_reason_view

record player_view_data =
  pv_you :: seat
  pv_hand :: "hand_card_view list"
  pv_players :: "player_public_view seats_view"
  pv_coin :: bool
  pv_stack :: "stack_view list"
  pv_phase :: phase_view
  pv_active_player :: seat
  pv_priority_holder :: "seat option"
  pv_pending :: "pending_view option"
  pv_outcome :: "outcome_view option"

datatype server_envelope =
  Waiting seat
| Update u64 player_view_data "notice list" "u64 option" "submission_result option"
| Finished outcome_view player_view_data "notice list" "u64 option"
| Stopped string
| Rejected "u64 option" string

datatype protocol_error = Actor | Conversion string

section \<open>Texts\<close>

fun player_text :: "player_id \<Rightarrow> string" where
  "player_text player_id.One = ''Player One''"
| "player_text player_id.Two = ''Player Two''"

fun bench_text :: "bench_slot \<Rightarrow> string" where
  "bench_text bench_slot.First = ''Bench 1''"
| "bench_text bench_slot.Second = ''Bench 2''"
| "bench_text bench_slot.Third = ''Bench 3''"

fun mana_text :: "mana_type \<Rightarrow> string" where
  "mana_text mana_type.Matter = ''Matter''"
| "mana_text mana_type.Mind = ''Mind''"
| "mana_text mana_type.Spirit = ''Spirit''"

fun position_text :: "position \<Rightarrow> string" where
  "position_text position.Main = ''Main''"
| "position_text (position.Bench slot) = bench_text slot"

definition cost_text :: "cost \<Rightarrow> string" where
  "cost_text c =
     ''matter '' @ number_text (cost_matter c) @ '' mind '' @ number_text (cost_mind c)
     @ '' spirit '' @ number_text (cost_spirit c) @ '' generic '' @ number_text (cost_generic c)"

fun effect_text :: "effect_leaf \<Rightarrow> string" where
  "effect_text (effect_leaf.DealDamage damage) = ''deal '' @ number_text (de_base damage) @ '' damage''"
| "effect_text (effect_leaf.Heal amount _) = ''heal '' @ number_text amount"
| "effect_text effect_leaf.MoveSummon = ''move a Summon''"
| "effect_text effect_leaf.SwapPositions = ''swap positions''"
| "effect_text (effect_leaf.BlockResponses _ _) = ''block responses''"
| "effect_text effect_leaf.ReturnSpellFromDiscard = ''return a Spell from discard''"
| "effect_text effect_leaf.LookAtPrizes = ''look at Prizes''"
| "effect_text (effect_leaf.DrawCards amount) = ''draw '' @ number_text amount @ '' cards''"
| "effect_text effect_leaf.ReturnSpellToDeckTop = ''return a Spell to deck top''"
| "effect_text (effect_leaf.ProduceMana _) = ''produce Mana''"
| "effect_text (effect_leaf.CannotBeMovedByOpponent _) = ''prevent opponent movement''"
| "effect_text effect_leaf.ReadySummon = ''ready a Summon''"
| "effect_text effect_leaf.SwapOpposingPositions = ''swap opposing positions''"

section \<open>Descriptions of cards\<close>

definition describe_ability :: "ability_kind \<Rightarrow> entity \<Rightarrow> ability_description" where
  "describe_ability kind ability =
     \<lparr>ad_kind = kind,
      ad_id = EntityIdV1 (entity_id_display (entity_id ability)),
      ad_name = (case entity_get name_field ability of
        None \<Rightarrow> ''Unnamed ability'' | Some name \<Rightarrow> terminal_text name),
      ad_cost = map_option cost_text (entity_get cost_field ability),
      ad_effects = map effect_text (entity_all effect_field ability),
      ad_trigger_event = find_map event_text (entity_components ability),
      ad_timing = find_map timing_text (entity_components ability),
      ad_respondable = list_ex is_respondable (entity_components ability),
      ad_persistent = list_ex is_persistent (entity_components ability),
      ad_modifiers = filter_map modifier_text (entity_components ability)\<rparr>"

definition describe_card :: "entity \<Rightarrow> card_description" where
  "describe_card c =
     \<lparr>cd_name = (case entity_get name_field c of
        None \<Rightarrow> ''Unnamed card'' | Some name \<Rightarrow> terminal_text name),
      cd_life = entity_get life_field c,
      cd_retreat_cost = entity_get retreat_cost_field c,
      cd_mana_types = (case entity_get mana_types_field c of
        None \<Rightarrow> [] | Some types \<Rightarrow> map mana_text types),
      cd_cost = map_option cost_text (entity_get cost_field c),
      cd_abilities =
        map (describe_ability ability_kind.Skill) (entity_all skill_field c)
        @ map (describe_ability ability_kind.Attack) (entity_all attack_field c)
        @ map (describe_ability ability_kind.Trigger) (entity_all trigger_field c),
      cd_effects = map effect_text (entity_all effect_field c),
      cd_modifiers = filter_map modifier_text (entity_components c),
      cd_timing = find_map timing_text (entity_components c),
      cd_persistent = list_ex is_persistent (entity_components c)\<rparr>"

type_synonym card_descriptions = "entity_id \<Rightarrow> card_description option"

text \<open>A later card replaces an earlier one of the same identity.\<close>

definition from_card_set :: "card_set \<Rightarrow> card_descriptions" where
  "from_card_set cards =
     fold (\<lambda>c m. m(entity_id c \<mapsto> describe_card c)) (cs_entities cards) Map.empty"

definition unknown_card :: card_description where
  "unknown_card =
     \<lparr>cd_name = ''Unknown card'', cd_life = None, cd_retreat_cost = None, cd_mana_types = [], cd_cost = None,
      cd_abilities = [], cd_effects = [], cd_modifiers = [], cd_timing = None, cd_persistent = False\<rparr>"

definition description_of :: "card_descriptions \<Rightarrow> entity_id \<Rightarrow> card_description" where
  "description_of descriptions definition' =
     (case descriptions definition' of Some d \<Rightarrow> d | None \<Rightarrow> unknown_card)"

type_synonym card_identity_map = "card_instance_id \<Rightarrow> card_description option"

definition identify ::
  "card_descriptions \<Rightarrow> card_ref list \<Rightarrow> card_identity_map \<Rightarrow> card_identity_map" where
  "identify descriptions =
     fold (\<lambda>c m. m(cr_instance c \<mapsto> description_of descriptions (cr_def c)))"

definition summons_of :: "player_state \<Rightarrow> summon_instance list" where
  "summons_of ps = list_of_option (ps_main ps) @ filter_map (ps_bench ps) bench_all"

definition identify_player ::
  "card_descriptions \<Rightarrow> player_state \<Rightarrow> card_identity_map \<Rightarrow> card_identity_map" where
  "identify_player descriptions ps m =
     fold (\<lambda>summon. identify descriptions (chain_layers (si_chain summon))) (summons_of ps)
       (identify descriptions (ps_deck ps @ ps_hand ps @ ps_prizes ps @ ps_discard ps @ ps_enchantments ps) m)"

definition from_initial_state :: "game_state \<Rightarrow> card_descriptions \<Rightarrow> card_identity_map" where
  "from_initial_state s descriptions =
     identify_player descriptions (pp_two (gs_players s))
       (identify_player descriptions (pp_one (gs_players s)) Map.empty)"

definition card_name_in :: "card_identity_map \<Rightarrow> card_instance_id \<Rightarrow> string" where
  "card_name_in identities c =
     (case identities c of Some d \<Rightarrow> cd_name d | None \<Rightarrow> ''Unknown card'')"

section \<open>Notices\<close>

definition private_card_notice ::
  "string \<Rightarrow> player_id \<Rightarrow> card_instance_id \<Rightarrow> card_identity_map \<Rightarrow> player_id \<Rightarrow> string" where
  "private_card_notice action player c identities viewer =
     (if player = viewer
      then player_text player @ '' '' @ action @ '' '' @ card_name_in identities c
      else player_text player @ '' '' @ action @ '' a card'')"

fun notice_text :: "game_event \<Rightarrow> card_identity_map \<Rightarrow> player_id \<Rightarrow> string" where
  "notice_text (game_event.TurnBegan player) ids viewer = player_text player @ '' began a turn''"
| "notice_text (game_event.SummonsReadied player positions) ids viewer =
     player_text player @ '' readied '' @ join_text '', '' (map position_text positions)"
| "notice_text (game_event.CardDrawn player c) ids viewer = private_card_notice ''drew'' player c ids viewer"
| "notice_text (game_event.ManaProduced player _ mana_type) ids viewer =
     player_text player @ '' produced '' @ mana_text mana_type @ '' Mana''"
| "notice_text (game_event.SummonPlayed player c slot) ids viewer =
     player_text player @ '' played '' @ card_name_in ids c @ '' to '' @ bench_text slot"
| "notice_text (game_event.SummonUpgraded player c position) ids viewer =
     player_text player @ '' upgraded '' @ position_text position @ '' with '' @ card_name_in ids c"
| "notice_text (game_event.SpellCast player c _) ids viewer = player_text player @ '' cast '' @ card_name_in ids c"
| "notice_text (game_event.SkillActivated player position _) ids viewer =
     player_text player @ '' activated a Skill at '' @ position_text position"
| "notice_text (game_event.AttackDeclared player target) ids viewer =
     player_text player @ '' declared an attack at '' @ position_text target"
| "notice_text (game_event.PriorityPassed player) ids viewer = player_text player @ '' passed Priority''"
| "notice_text (game_event.StackItemResolved _) ids viewer = ''A Stack item resolved''"
| "notice_text (game_event.DamageCalculationStarted _ base _) ids viewer = ''Damage calculation began at '' @ number_text base"
| "notice_text (game_event.DamageAdjustmentApplied _ _ _ _ _ output) ids viewer = ''Damage adjusted to '' @ number_text output"
| "notice_text (game_event.DamageAdjustmentSkipped _ _ _ _ _ _) ids viewer = ''A damage adjustment was skipped''"
| "notice_text (game_event.DamageApplied _ amount before after) ids viewer =
     ''Damage '' @ number_text amount @ '' applied: '' @ number_text before @ '' to '' @ number_text after"
| "notice_text (game_event.Healed position amount) ids viewer = position_text position @ '' healed for '' @ number_text amount"
| "notice_text (game_event.SummonDestroyed position _) ids viewer = position_text position @ '' was destroyed''"
| "notice_text (game_event.PrizeRecovered player c) ids viewer =
     private_card_notice ''recovered a Prize'' player c ids viewer"
| "notice_text (game_event.PrizesViewed player prizes) ids viewer =
     (if player = viewer
      then player_text player @ '' viewed Prizes: '' @ join_text '', '' (map (card_name_in ids) prizes)
      else player_text player @ '' viewed '' @ dec_digits (length prizes) @ '' Prizes'')"
| "notice_text (game_event.SummonPromoted player from') ids viewer = player_text player @ '' promoted '' @ bench_text from'"
| "notice_text (game_event.SummonsSwapped player main) ids viewer =
     player_text player @ '' swapped Main with '' @ bench_text main"
| "notice_text (game_event.TriggerFired controller position _ _) ids viewer =
     player_text controller @ '' triggered an ability at '' @ position_text position"
| "notice_text (game_event.CoinConverted player mana_type) ids viewer =
     player_text player @ '' converted Coin to '' @ mana_text mana_type @ '' Mana''"
| "notice_text (game_event.ManaDeducted player mana_type amount) ids viewer =
     player_text player @ '' spent '' @ number_text amount @ '' '' @ mana_text mana_type @ '' Mana''"
| "notice_text (game_event.GameEnded winner _) ids viewer = player_text winner @ '' won the game''"

definition player_notices :: "game_event list \<Rightarrow> card_identity_map \<Rightarrow> player_id \<Rightarrow> notice list" where
  "player_notices events identities viewer =
     map (\<lambda>event. \<lparr>no_text = notice_text event identities viewer\<rparr>) events"

section \<open>What a player sees\<close>

fun readiness_to_view :: "readiness \<Rightarrow> readiness_view" where
  "readiness_to_view readiness.Ready = readiness_view.Ready"
| "readiness_to_view readiness.Exhausted = readiness_view.Exhausted"

fun phase_to_view :: "phase \<Rightarrow> phase_view" where
  "phase_to_view phase.Upkeep = phase_view.Upkeep"
| "phase_to_view phase.Main = phase_view.Main"
| "phase_to_view phase.Combat = phase_view.Combat"

fun pending_to_view :: "pending_input \<Rightarrow> pending_view" where
  "pending_to_view (pending_input.ManaProduction player _) =
     \<lparr>pw_kind = pending_kind_view.ManaProduction, pw_owner = seat_of_player_id player\<rparr>"
| "pending_to_view (pending_input.Promotion player) =
     \<lparr>pw_kind = pending_kind_view.Promotion, pw_owner = seat_of_player_id player\<rparr>"
| "pending_to_view (pending_input.PrizePick chooser) =
     \<lparr>pw_kind = pending_kind_view.PrizePick, pw_owner = seat_of_player_id chooser\<rparr>"

definition outcome_to_view :: "game_outcome \<Rightarrow> outcome_view" where
  "outcome_to_view outcome =
     \<lparr>ov_winner = seat_of_player_id (go_winner outcome),
      ov_reason = (case go_reason outcome of
        loss_reason.ThirdMainLoss \<Rightarrow> outcome_reason_view.ThirdMainLoss
      | loss_reason.NoPromotionAvailable \<Rightarrow> outcome_reason_view.NoPromotionAvailable
      | loss_reason.EmptyDeckDraw \<Rightarrow> outcome_reason_view.EmptyDeckDraw
      | loss_reason.Resignation \<Rightarrow> outcome_reason_view.Resignation)\<rparr>"

definition summon_to_view :: "card_descriptions \<Rightarrow> summon_instance \<Rightarrow> summon_view" where
  "summon_to_view descriptions summon =
     \<lparr>sv_chain = map (\<lambda>c. description_of descriptions (cr_def c)) (chain_layers (si_chain summon)),
      sv_damage = si_damage summon,
      sv_readiness = readiness_to_view (si_readiness summon),
      sv_owner = seat_of_player_id (si_owner summon),
      sv_controller = seat_of_player_id (si_controller summon)\<rparr>"

fun stack_to_view :: "card_descriptions \<Rightarrow> stack_item \<Rightarrow> stack_view" where
  "stack_to_view descriptions (stack_item.Attack attacker target) =
     stack_view.Attack (seat_of_player_id attacker) (position_text target)"
| "stack_to_view descriptions (stack_item.Spell caster c targets) =
     stack_view.Spell (seat_of_player_id caster) (description_of descriptions (cr_def c))
       (map position_text targets)"
| "stack_to_view descriptions (stack_item.Trigger controller source _ event targets effects) =
     stack_view.Trigger (seat_of_player_id controller) (position_text source) (trigger_event_text event)
       (map position_text targets) (map effect_text effects)"

definition public_card :: "card_descriptions \<Rightarrow> card_ref \<Rightarrow> public_card_view" where
  "public_card descriptions c = \<lparr>pc_card = description_of descriptions (cr_def c)\<rparr>"

definition public_player :: "player_state \<Rightarrow> card_descriptions \<Rightarrow> player_public_view" where
  "public_player ps descriptions =
     \<lparr>pu_board =
        \<lparr>bv_main = map_option (summon_to_view descriptions) (ps_main ps),
         bv_bench = Array3
           (map_option (summon_to_view descriptions) (ps_bench ps bench_slot.First))
           (map_option (summon_to_view descriptions) (ps_bench ps bench_slot.Second))
           (map_option (summon_to_view descriptions) (ps_bench ps bench_slot.Third))\<rparr>,
      pu_mana =
        \<lparr>mv_matter = mb_matter (ps_mana ps), mv_mind = mb_mind (ps_mana ps),
         mv_spirit = mb_spirit (ps_mana ps)\<rparr>,
      pu_main_losses = ps_main_losses ps,
      pu_discard = map (public_card descriptions) (ps_discard ps),
      pu_persistent = map (public_card descriptions) (ps_enchantments ps),
      pu_deck_count = length (ps_deck ps),
      pu_prize_count = length (ps_prizes ps),
      pu_hand_count = length (ps_hand ps)\<rparr>"

definition player_view :: "game_state \<Rightarrow> player_id \<Rightarrow> card_descriptions \<Rightarrow> player_view_data" where
  "player_view s viewer descriptions =
     \<lparr>pv_you = seat_of_player_id viewer,
      pv_hand = map (\<lambda>c. \<lparr>hc_instance = card_number (cr_instance c),
          hc_card = description_of descriptions (cr_def c)\<rparr>) (ps_hand (player_of s viewer)),
      pv_players =
        \<lparr>sv_one = public_player (pp_one (gs_players s)) descriptions,
         sv_two = public_player (pp_two (gs_players s)) descriptions\<rparr>,
      pv_coin = (gs_coin s \<noteq> None),
      pv_stack = map (stack_to_view descriptions) (gs_stack s),
      pv_phase = phase_to_view (ts_phase (gs_turn s)),
      pv_active_player = seat_of_player_id (ts_active_player (gs_turn s)),
      pv_priority_holder = map_option (\<lambda>window. seat_of_player_id (sw_holder window)) (ts_window (gs_turn s)),
      pv_pending = map_option pending_to_view (gs_pending s),
      pv_outcome = (case gs_status s of
        game_status.Ended outcome \<Rightarrow> Some (outcome_to_view outcome)
      | game_status.Playing \<Rightarrow> None
      | game_status.Broken _ \<Rightarrow> None)\<rparr>"

section \<open>Submitted actions\<close>

text \<open>The \<open>Display\<close> texts of \<open>crates/match-log/src/error.rs\<close> for a failed conversion.\<close>

fun state_rebuild_text :: "state_rebuild_error \<Rightarrow> string" where
  "state_rebuild_text (state_rebuild_error.InvalidEntityId v) = ''the entity ID is not valid: '' @ v"
| "state_rebuild_text EmptyUpgradeChain = ''the upgrade chain has no layers''"
| "state_rebuild_text (StackSegmentBaseOutOfRange v) = ''the Stack segment base is too large: '' @ number_text v"
| "state_rebuild_text (UnsupportedBreakageRule rule) = ''the breakage rule is not supported: '' @ rule"

fun wire_conversion_text :: "wire_conversion_error \<Rightarrow> string" where
  "wire_conversion_text (wire_conversion_error.InvalidEntityId v) = ''the entity ID is not valid: '' @ v"
| "wire_conversion_text (IntegerOutOfRange field v) = field @ '' is too large: '' @ number_text v"
| "wire_conversion_text (StateRebuild error) = state_rebuild_text error"

definition normalize_action :: "player_id \<Rightarrow> action_v1 \<Rightarrow> protocol_error + game_action" where
  "normalize_action seat action =
     and_then (map_err (\<lambda>error. Conversion (wire_conversion_text error)) (action_try_of_v1 action)) (\<lambda>action.
     if actor action = seat then Inr action else Inl Actor)"

end
