(* ===== verification/Digest.thy ===== *)
theory Digest
  imports Wire_Events
begin

text \<open>
  \<open>StateDigestV1::compute\<close> of \<open>crates/match-log/src/state.rs\<close> and \<open>codec.rs\<close>. The two library
  calls they make are parameters, the fields of \<open>serialization\<close>: \<open>serde_json::to_vec\<close> on the
  canonical state and on a record (it answers bytes or an error, kept as its text) and the
  SHA-256 function.
\<close>

record serialization =
  sz_state :: "u32 \<Rightarrow> state_projection_v1 \<Rightarrow> string + u8 list"
  sz_record :: "record_v1 \<Rightarrow> string + u8 list"
  sz_sha256 :: "u8 list \<Rightarrow> u8 list"

definition state_projection_version :: u32 where
  "state_projection_version = 1"

datatype canonical_state_error = CanonicalStateError (canonical_source: string)

datatype encode_error = EncodeError (encode_source: string)

definition canonical_bytes ::
  "serialization \<Rightarrow> state_projection_v1 \<Rightarrow> canonical_state_error + u8 list" where
  "canonical_bytes sz p = map_err CanonicalStateError (sz_state sz state_projection_version p)"

definition digest_compute ::
  "serialization \<Rightarrow> state_projection_v1 \<Rightarrow> canonical_state_error + state_digest_v1" where
  "digest_compute sz p =
     and_then (canonical_bytes sz p) (\<lambda>bytes.
     let digest = sz_sha256 sz bytes;
         hex = concat (map lower_hex digest)
     in Inr (StateDigestV1 (''sha256:'' @ hex)))"

text \<open>The bytes of one line: the record and a line feed.\<close>

definition encode_record :: "serialization \<Rightarrow> record_v1 \<Rightarrow> encode_error + u8 list" where
  "encode_record sz r =
     and_then (map_err EncodeError (sz_record sz r)) (\<lambda>bytes. Inr (bytes @ [10]))"

end
