(* ===== verification/Endings.thy ===== *)
theory Endings
  imports Chains Match
begin

text \<open>
  What the events of a transition say about the end of the game. \<open>announced\<close> relates a state to
  a result of an engine operation: from a playing state, the operation reports exactly one
  \<open>GameEnded\<close> with the outcome of the new status if the game ended, and none otherwise; and a
  game is only broken by the rule of destruction. It holds of every leaf, every work item, the
  Stack and every action, hence of \<open>apply\<close>.
\<close>

section \<open>The contract\<close>

definition ended_outcome :: "game_event \<Rightarrow> game_outcome option" where
  "ended_outcome event =
     (case event of
        game_event.GameEnded winner reason \<Rightarrow> Some \<lparr>go_winner = winner, go_reason = reason\<rparr>
      | _ \<Rightarrow> None)"

definition endings :: "game_event list \<Rightarrow> game_outcome list" where
  "endings events = filter_map ended_outcome events"

definition status_endings :: "game_status \<Rightarrow> game_outcome list" where
  "status_endings st = (case st of game_status.Ended o' \<Rightarrow> [o'] | _ \<Rightarrow> [])"

definition announced :: "game_state \<Rightarrow> game_state \<times> game_event list \<Rightarrow> bool" where
  "announced s r \<longleftrightarrow>
     (gs_status s = game_status.Playing \<longrightarrow>
       endings (snd r) = status_endings (gs_status (fst r))
       \<and> (\<forall>b. gs_status (fst r) = game_status.Broken b \<longrightarrow> br_rule b = ''destruction''))"

lemma endings_simps [simp]:
  "endings [] = []" "endings (xs @ ys) = endings xs @ endings ys"
  "endings (x # xs) = (case ended_outcome x of None \<Rightarrow> endings xs | Some o' \<Rightarrow> o' # endings xs)"
  by (simp_all add: endings_def split: option.split)

lemma endings_none: "(\<And>e. e \<in> set es \<Longrightarrow> ended_outcome e = None) \<Longrightarrow> endings es = []"
  by (induction es) simp_all

lemma status_endings_simps [simp]:
  "status_endings game_status.Playing = []" "status_endings (game_status.Ended o') = [o']"
  "status_endings (game_status.Broken b) = []"
  by (simp_all add: status_endings_def)

lemma announced_quiet: "gs_status (fst r) = gs_status s \<Longrightarrow> endings (snd r) = [] \<Longrightarrow> announced s r"
  by (simp add: announced_def)

lemma announced_lose: "announced s (lose t p reason)"
  by (simp add: announced_def lose_def ended_outcome_def)

lemma announced_from: "gs_status t = gs_status s \<Longrightarrow> announced t r \<Longrightarrow> announced s r"
  by (simp add: announced_def)

text \<open>Two operations in a row, the second one only from a playing state.\<close>

lemma announced_trans:
  assumes "announced s (t, es)" and "gs_status t = game_status.Playing \<Longrightarrow> announced t (u, fs)"
    and "gs_status t \<noteq> game_status.Playing \<Longrightarrow> u = t \<and> fs = []"
  shows "announced s (u, es @ fs)"
  using assms by (cases "gs_status t = game_status.Playing") (auto simp: announced_def)

section \<open>The leaves\<close>

lemma ended_line_event [simp]: "ended_outcome (line_event c l) = None"
  by (cases l) (simp_all add: ended_outcome_def)

lemma endings_draw_loop [simp]: "endings (snd (draw_loop n p s)) = []"
  by (induction n arbitrary: s) (simp_all add: split_def Let_def ended_outcome_def split: list.splits)

lemma announced_leaf: "announced s (apply_leaf s source targets leaf)"
proof (cases leaf)
  case (DealDamage effect)
  have "endings (map (line_event c) ls) = []" for c ls
    by (rule endings_none) auto
  then show ?thesis
    by (intro announced_quiet)
      (simp_all add: DealDamage deal_damage_def Let_def commit_def ended_outcome_def frame_simps
        split: option.splits)
next
  case (DrawCards n)
  let ?p = "effect_source_controller source"
  show ?thesis
  proof (cases "length (ps_deck (player_of s ?p)) < unat n")
    case True
    then show ?thesis
      by (simp add: DrawCards draw_cards_def split_def Let_def draw_failure_def announced_def lose_def
          ended_outcome_def)
  next
    case False
    then show ?thesis
      by (intro announced_quiet) (simp_all add: DrawCards draw_cards_def split_def Let_def frame_simps)
  qed
next
  case (ProduceMana target)
  then show ?thesis
    by (intro announced_quiet)
      (simp_all add: produce_mana_leaf_def produce_mana_def ended_outcome_def frame_simps
        split: option.splits list.splits)
qed (intro announced_quiet; simp add: leaf_cases Let_def ended_outcome_def
    split: option.splits list.splits position.splits)+

lemma announced_leaves: "announced s (apply_leaves s source targets leaves)"
proof (induction leaves arbitrary: s)
  case Nil
  show ?case by (intro announced_quiet) simp_all
next
  case (Cons leaf leaves)
  obtain t es where t: "apply_leaf s source targets leaf = (t, es)" by force
  obtain u fs where u: "apply_leaves t source targets leaves = (u, fs)" by force
  have leaf: "announced s (t, es)" using announced_leaf [of s source targets leaf] t by simp
  show ?case
  proof (cases "gs_status t = game_status.Playing")
    case True
    have "announced s (u, es @ fs)"
      by (rule announced_trans [OF leaf]) (use Cons.IH [of t] True in \<open>simp_all add: u\<close>)
    with True t u show ?thesis by (simp add: is_playing_iff)
  next
    case False
    with t leaf show ?thesis by (simp add: is_playing_iff)
  qed
qed

section \<open>Work items and the Stack\<close>

lemma is_destroyed_rule: "is_destroyed s p pos = Inl b \<Longrightarrow> br_rule b = ''destruction''"
  by (auto simp: is_destroyed_def life_of_spec and_then_def split: option.splits sum.splits)

lemma find_destroyed_rule: "find_destroyed s pos ps = Inl b \<Longrightarrow> br_rule b = ''destruction''"
  by (induction s pos ps rule: find_destroyed.induct)
    (auto simp: and_then_def is_destroyed_rule split: sum.splits if_splits)

lemma check_players_status:
  "gs_status (check_players s pos ps) = gs_status s
    \<or> (\<exists>b. gs_status (check_players s pos ps) = game_status.Broken b \<and> br_rule b = ''destruction'')"
  by (induction s pos ps rule: check_players.induct) (auto simp: is_destroyed_rule split: sum.splits)

lemma announced_fire: "announced s (fire s player pos event ability trigger)"
proof (cases trigger)
  case (Pair respondable effects)
  have "announced s (fst r, es @ snd r)" if "announced s r" "endings es = []" for r es
    using that by (simp add: announced_def)
  from this [OF announced_leaves, of "[TriggerFired player pos event ability]"] show ?thesis
    by (auto simp: Pair fire_def Let_def split_def ended_outcome_def announced_def)
qed

lemma announced_execute: "announced s (execute s item)"
proof (cases item)
  case (FireTrigger p pos event ability)
  then show ?thesis
    by (auto simp: fire_queued_def announced_fire intro: announced_quiet split: option.splits)
next
  case (DestructionCheck pos)
  then show ?thesis
    using check_players_status [of s pos "ordered_players s"]
    by (auto simp: destruction_check_def announced_def)
next
  case (DiscardDestroyedChain pos)
  then show ?thesis
    by (auto simp: discard_destroyed_chain_def destroyed_controller_def announced_def Let_def
        discover_front_eq ended_outcome_def dest!: find_destroyed_rule split: sum.splits option.splits)
next
  case (LossCheck p)
  then show ?thesis by (auto simp: loss_check_def Let_def announced_lose intro: announced_quiet)
next
  case DrawCard
  then show ?thesis
    by (auto simp: execute_draw_cases Let_def announced_lose ended_outcome_def intro: announced_quiet
        split: list.splits)
next
  case (PromoteBenchSummon p)
  then show ?thesis
    by (auto simp: promote_bench_summon_def promote_from_slot_def ended_outcome_def intro!: announced_quiet
        split: list.splits option.splits)
next
  case (ProduceMana p src)
  then show ?thesis
    by (auto simp: produce_mana_def ended_outcome_def intro!: announced_quiet split: list.splits)
qed (auto simp: frame_simps ready_all_def record_main_loss_def recover_prize_def begin_main_phase_def
    Let_def resolve_movement_consequences_def movement_trigger_eq movement_trigger_def ended_outcome_def
    intro!: announced_quiet)

lemma announced_item: "announced s (resolve_item s item)"
proof (cases item)
  case (Attack p pos)
  then show ?thesis
    by (auto simp: resolve_attack_def announced_leaves intro: announced_quiet split: option.splits)
next
  case (Spell p c targets)
  let ?r = "apply_leaves s (effect_source.Spell p (cr_instance c) (cr_def c)) targets
    (spell_effects (gs_cards s) (cr_def c))"
  have "announced s ?r" by (rule announced_leaves)
  then show ?thesis by (simp add: Spell resolve_spell_def split_def Let_def announced_def)
qed (simp add: announced_leaves)

lemma announced_resolve: "announced s (resolve_top_stack_item s)"
proof (cases "last_of (gs_stack s)")
  case None
  then show ?thesis by (intro announced_quiet) (simp_all add: resolve_top_stack_item_def)
next
  case (Some item)
  let ?s = "s\<lparr>gs_stack := butlast (gs_stack s)\<rparr>"
  have "announced ?s (resolve_item ?s item)" by (rule announced_item)
  then show ?thesis
    by (simp add: resolve_top_stack_item_def Some split_def Let_def announced_def close_segment_def
        ended_outcome_def)
qed

section \<open>The loop and the actions\<close>

lemma announced_step: "announced s (drain_step s)"
proof -
  have "announced s (execute (s\<lparr>gs_work := rest\<rparr>) item)" for item rest
    by (rule announced_from [OF _ announced_execute]) simp
  then show ?thesis
    by (auto simp: drain_step_def announced_resolve intro: announced_quiet split: list.splits)
qed

lemma announced_body:
  assumes "announced s se" and "\<not> drain_stops (fst se)" shows "announced s (drain_body se)"
proof -
  obtain t es where se: "se = (t, es)" by force
  obtain u fs where step: "drain_step t = (u, fs)" by force
  have "announced s (u, es @ fs)"
    using assms announced_step [of t] step
    by (intro announced_trans) (auto simp: se drain_stops_def is_playing_iff)
  then show ?thesis by (simp add: se drain_body_def step)
qed

lemma announced_drain:
  assumes "drain s = Some r" shows "announced s r"
proof (rule while_option_rule [where P = "announced s"])
  show "while_option (\<lambda>se. \<not> drain_stops (fst se)) drain_body (s, []) = Some r"
    using assms by (simp add: drain_def)
qed (auto intro: announced_body announced_quiet)

lemma ended_deductions [simp]: "endings (deduction_events p payment) = []"
  by (rule endings_none) (auto simp: deduction_events_def ended_outcome_def)

lemma announced_skill:
  assumes "activate_skill s player pos ability targets hint = Inr out"
  shows "announced s (ao_state out, ao_events out)"
proof -
  have run: "announced s (fst (apply_leaves t source targets leaves), deduction_events player payment
      @ SkillActivated player pos ability # snd (apply_leaves t source targets leaves))"
    if "gs_status t = gs_status s" for t source leaves payment
    using announced_leaves [of t source targets leaves] that by (simp add: announced_def ended_outcome_def)
  show ?thesis
    using assms by (auto simp: activate_skill_def and_then_Inr Let_def split_def intro!: run split: if_splits)
qed

lemma announced_dispatch:
  assumes "dispatch s action = Inr out" and "\<not> is_resign action"
  shows "announced s (ao_state out, ao_events out)"
proof (cases action)
  case (PlaySummon player i slot)
  then show ?thesis
    using assms by (auto simp: play_summon_def and_then_Inr ended_outcome_def Let_def
        intro!: announced_quiet split: if_splits)
next
  case (UpgradeSummon player i pos)
  then show ?thesis
    using assms by (auto simp: upgrade_summon_def and_then_Inr ended_outcome_def Let_def
        intro!: announced_quiet split: if_splits)
next
  case (CastSpell player i targets hint)
  then show ?thesis
    using assms by (auto simp: cast_spell_def and_then_Inr ended_outcome_def Let_def
        intro!: announced_quiet split: if_splits)
next
  case (ActivateSkill player pos ability targets hint)
  with assms show ?thesis by (auto intro: announced_skill)
next
  case (Retreat player slot hint)
  then show ?thesis
    using assms by (auto simp: retreat_def and_then_Inr ended_outcome_def Let_def
        intro!: announced_quiet split: if_splits)
next
  case (DeclareAttack player target hint)
  then show ?thesis
    using assms by (auto simp: declare_attack_def and_then_Inr ended_outcome_def Let_def
        intro!: announced_quiet split: if_splits)
next
  case (EndTurn p)
  then show ?thesis
    using assms by (auto simp: end_turn_def intro!: announced_quiet split: if_splits)
next
  case (PassPriority p)
  then show ?thesis
    using assms by (auto simp: pass_def Let_def handover_def discover_back_eq ended_outcome_def
        intro!: announced_quiet split: if_splits option.splits)
next
  case (ConvertCoin p t)
  then show ?thesis
    using assms by (auto simp: convert_coin_def ended_outcome_def intro!: announced_quiet split: if_splits)
next
  case (ChooseManaType p t)
  then show ?thesis
    using assms by (auto simp: choose_mana_type_def ended_outcome_def intro!: announced_quiet
        split: if_splits option.splits pending_input.splits)
next
  case (ChoosePromotion p slot)
  then show ?thesis
    using assms by (auto simp: answer_promotion_def promote_from_slot_def split_def Let_def
        ended_outcome_def intro!: announced_quiet split: if_splits option.splits)
next
  case (ChoosePrize p n)
  then show ?thesis
    using assms by (auto simp: answer_prize_def Let_def ended_outcome_def intro!: announced_quiet
        split: if_splits)
qed (use assms in \<open>simp add: is_resign_def\<close>)

text \<open>Every accepted action of a playing game announces its ending: one \<open>GameEnded\<close> with the
  outcome of the status when the game has ended, none otherwise.\<close>

lemma apply_announces:
  assumes "apply_action s action = Some (Inr out)"
  shows "endings (ao_events out) = status_endings (gs_status (ao_state out))"
    and "gs_status (ao_state out) = game_status.Broken b \<Longrightarrow> br_rule b = ''destruction''"
proof -
  have "gs_status s = game_status.Playing \<and> announced s (ao_state out, ao_events out)"
    using assms
  proof (cases rule: apply_action_accepted)
    case (resigned p)
    then show ?thesis by (simp add: announced_def resign_def ended_outcome_def Let_def)
  next
    case (drained mid es)
    have "announced s (ao_state out, ao_events mid @ es)"
    proof (rule announced_trans)
      show "announced s (ao_state mid, ao_events mid)"
        by (rule announced_dispatch) (use drained in simp_all)
      show "announced (ao_state mid) (ao_state out, es)"
        by (rule announced_drain) (use drained in simp)
      show "ao_state out = ao_state mid \<and> es = []" if "gs_status (ao_state mid) \<noteq> game_status.Playing"
        using drained(5) that drain_stopped [of "ao_state mid"] by (simp add: drain_stops_def is_playing_iff)
    qed
    with drained show ?thesis by simp
  qed
  then show "endings (ao_events out) = status_endings (gs_status (ao_state out))"
    and "gs_status (ao_state out) = game_status.Broken b \<Longrightarrow> br_rule b = ''destruction''"
    by (auto simp: announced_def)
qed

end
