(* ===== verification/Recorder.thy ===== *)
theory Recorder
  imports Digest Endings
begin

text \<open>
  \<open>crates/match-log/src/record.rs\<close>: the append-only, fail-closed recording of a match. A method
  that takes \<open>&mut self\<close> maps the recording to its result and the recording after the call; the
  caller's \<open>Write\<close> is the pair of functions \<open>wr_write_all\<close> and \<open>wr_flush\<close> on a writer state. The
  counters are \<open>u64\<close>, whose additions wrap as in a release build. Since \<open>apply\<close> may run forever,
  \<open>submit\<close> answers \<open>None\<close> then.
\<close>

section \<open>Errors and the handle\<close>

datatype terminal_event_error =
  MissingGameEnded | MultipleGameEnded | UnexpectedGameEnded | OutcomeMismatch

datatype recording_stopped =
  MatchCompleted
| RecordingFailed
| GameAlreadyEnded
| GameBroken
| InvalidTerminalEvents terminal_event_error

datatype recording_error =
  CanonicalState canonical_state_error
| Encode encode_error
| Write string
| Flush string
| Stopped recording_stopped

datatype recorded_step = Accepted "game_event list" | Rejected action_error

datatype lifecycle = Active | Stopped recording_stopped

record 'w write_ops =
  wr_write_all :: "'w \<Rightarrow> u8 list \<Rightarrow> (string + unit) \<times> 'w"
  wr_flush :: "'w \<Rightarrow> (string + unit) \<times> 'w"

record 'w recorded_match =
  rm_writer :: 'w
  rm_state :: game_state
  rm_next_sequence :: u64
  rm_next_step :: u64
  rm_total_events :: u64
  rm_lifecycle :: lifecycle

section \<open>Checks\<close>

definition check_initial_status :: "game_state \<Rightarrow> recording_stopped + unit" where
  "check_initial_status s =
     (case gs_status s of
        game_status.Playing \<Rightarrow> Inr ()
      | game_status.Ended _ \<Rightarrow> Inl GameAlreadyEnded
      | game_status.Broken _ \<Rightarrow> Inl GameBroken)"

definition check_terminal_events ::
  "game_status \<Rightarrow> game_event list \<Rightarrow> terminal_event_error + game_outcome option" where
  "check_terminal_events status events =
     (case status of
        game_status.Broken _ \<Rightarrow> Inr None
      | _ \<Rightarrow>
          (let ended_events = filter_map (\<lambda>event. case event of
                 game_event.GameEnded winner reason \<Rightarrow> Some \<lparr>go_winner = winner, go_reason = reason\<rparr>
               | _ \<Rightarrow> None) events
           in if first_of (drop 1 ended_events) \<noteq> None then Inl MultipleGameEnded
              else
                (case (status, first_of ended_events) of
                   (game_status.Playing, None) \<Rightarrow> Inr None
                 | (game_status.Playing, Some _) \<Rightarrow> Inl UnexpectedGameEnded
                 | (game_status.Ended _, None) \<Rightarrow> Inl MissingGameEnded
                 | (game_status.Ended expected, Some recorded) \<Rightarrow>
                     if expected = recorded then Inr (Some expected) else Inl OutcomeMismatch
                 | (game_status.Broken _, _) \<Rightarrow> Inr None)))"

section \<open>Preparing records\<close>

definition prepare_start ::
  "serialization \<Rightarrow> header_metadata_v1 \<Rightarrow> set_requirement_v1 list \<Rightarrow> game_state
    \<Rightarrow> recording_error + record_v1 \<times> record_v1" where
  "prepare_start sz metadata required_sets s =
     (let projection = projection_from_state s in
      and_then (map_err CanonicalState (digest_compute sz projection)) (\<lambda>digest.
      Inr (record_v1.Header (header_new metadata),
           record_v1.MatchCreated (match_created_new required_sets projection digest))))"

definition prepare_action :: "u64 \<Rightarrow> u64 \<Rightarrow> game_action \<Rightarrow> record_v1" where
  "prepare_action sequence step action =
     record_v1.Action
       \<lparr>ar1_sequence = sequence, ar1_record = action_record_kind_v1.Action, ar1_step = step,
        ar1_action = action_to_v1 action\<rparr>"

definition prepare_event :: "u64 \<Rightarrow> u64 \<Rightarrow> nat \<times> game_event \<Rightarrow> event_record_v1" where
  "prepare_event sequence step ie =
     \<lparr>er1_sequence = sequence + of_nat (fst ie), er1_record = event_record_kind_v1.Event,
      er1_step = step, er1_index = of_nat (fst ie), er1_event = event_to_v1 (snd ie)\<rparr>"

definition prepare_step_completed ::
  "u64 \<Rightarrow> u64 \<Rightarrow> game_event list \<Rightarrow> state_digest_v1 \<Rightarrow> step_completed_v1" where
  "prepare_step_completed sequence step events digest =
     \<lparr>sc1_sequence = sequence + of_nat (length events),
      sc1_record = step_completed_record_kind_v1.StepCompleted, sc1_step = step,
      sc1_event_count = of_nat (length events), sc1_state_digest = digest\<rparr>"

definition prepare_accepted_step ::
  "u64 \<Rightarrow> u64 \<Rightarrow> game_event list \<Rightarrow> state_digest_v1 \<Rightarrow> record_v1 list" where
  "prepare_accepted_step sequence step events digest =
     map (\<lambda>ie. record_v1.Event (prepare_event sequence step ie)) (enumerate 0 events)
     @ [record_v1.StepCompleted (prepare_step_completed sequence step events digest)]"

definition prepare_rejected_step :: "u64 \<Rightarrow> u64 \<Rightarrow> action_error \<Rightarrow> state_digest_v1 \<Rightarrow> record_v1" where
  "prepare_rejected_step sequence step error digest =
     record_v1.StepRejected
       \<lparr>sr1_sequence = sequence, sr1_record = step_rejected_record_kind_v1.StepRejected,
        sr1_step = step, sr1_error = error_to_v1 error, sr1_state_digest = digest\<rparr>"

record completion_counts =
  cc_sequence :: u64
  cc_steps :: u64
  cc_events :: u64

definition prepare_completion ::
  "completion_counts \<Rightarrow> game_outcome \<Rightarrow> state_projection_v1 \<Rightarrow> state_digest_v1 \<Rightarrow> record_v1 list" where
  "prepare_completion counts outcome projection digest =
     [record_v1.FinalState
        \<lparr>fs1_sequence = cc_sequence counts, fs1_record = final_state_record_kind_v1.FinalState,
         fs1_final_state = projection, fs1_state_digest = digest\<rparr>,
      record_v1.MatchCompleted
        \<lparr>md1_sequence = cc_sequence counts + 1,
         md1_record = match_completed_record_kind_v1.MatchCompleted,
         md1_step_count = cc_steps counts, md1_event_count = cc_events counts,
         md1_state_digest = digest, md1_winner = player_id_to_v1 (go_winner outcome),
         md1_reason = loss_reason_to_v1 (go_reason outcome)\<rparr>]"

section \<open>Writing\<close>

definition write_record ::
  "'w write_ops \<Rightarrow> 'w \<Rightarrow> u8 list \<Rightarrow> (recording_error + unit) \<times> 'w" where
  "write_record ops writer bytes = apfst (map_err Write) (wr_write_all ops writer bytes)"

definition flush_checkpoint :: "'w write_ops \<Rightarrow> 'w \<Rightarrow> (recording_error + unit) \<times> 'w" where
  "flush_checkpoint ops writer = apfst (map_err Flush) (wr_flush ops writer)"

text \<open>\<open>stop\<close>: any failure closes the recording.\<close>

definition stop :: "recording_error \<Rightarrow> 'w recorded_match \<Rightarrow> (recording_error + 'a) \<times> 'w recorded_match" where
  "stop error m = (Inl error, m\<lparr>rm_lifecycle := Stopped RecordingFailed\<rparr>)"

definition compute_digest ::
  "serialization \<Rightarrow> state_projection_v1 \<Rightarrow> 'w recorded_match
    \<Rightarrow> (recording_error + state_digest_v1) \<times> 'w recorded_match" where
  "compute_digest sz projection m =
     (case digest_compute sz projection of
        Inl error \<Rightarrow> stop (CanonicalState error) m
      | Inr digest \<Rightarrow> (Inr digest, m))"

definition append_record ::
  "serialization \<Rightarrow> 'w write_ops \<Rightarrow> record_v1 \<Rightarrow> 'w recorded_match
    \<Rightarrow> (recording_error + unit) \<times> 'w recorded_match" where
  "append_record sz ops r m =
     (case encode_record sz r of
        Inl error \<Rightarrow> stop (Encode error) m
      | Inr bytes \<Rightarrow>
          (case write_record ops (rm_writer m) bytes of
             (Inl error, writer) \<Rightarrow> stop error (m\<lparr>rm_writer := writer\<rparr>)
           | (Inr _, writer) \<Rightarrow>
               (Inr (), m\<lparr>rm_writer := writer, rm_next_sequence := rm_next_sequence m + 1\<rparr>)))"

fun append_records ::
  "serialization \<Rightarrow> 'w write_ops \<Rightarrow> record_v1 list \<Rightarrow> 'w recorded_match
    \<Rightarrow> (recording_error + unit) \<times> 'w recorded_match" where
  "append_records sz ops [] m = (Inr (), m)"
| "append_records sz ops (r # rs) m =
     try_then (append_record sz ops r m) (\<lambda>_ m. append_records sz ops rs m)"

definition flush ::
  "'w write_ops \<Rightarrow> 'w recorded_match \<Rightarrow> (recording_error + unit) \<times> 'w recorded_match" where
  "flush ops m =
     (case flush_checkpoint ops (rm_writer m) of
        (Inl error, writer) \<Rightarrow> stop error (m\<lparr>rm_writer := writer\<rparr>)
      | (Inr _, writer) \<Rightarrow> (Inr (), m\<lparr>rm_writer := writer\<rparr>))"

section \<open>Recording\<close>

definition record_start ::
  "serialization \<Rightarrow> 'w write_ops \<Rightarrow> 'w \<Rightarrow> header_metadata_v1 \<Rightarrow> set_requirement_v1 list
    \<Rightarrow> game_state \<Rightarrow> recording_error + 'w recorded_match" where
  "record_start sz ops writer metadata required_sets initial_state =
     and_then (map_err recording_error.Stopped (check_initial_status initial_state)) (\<lambda>_.
     and_then (prepare_start sz metadata required_sets initial_state)
       (\<lambda>(header_record, match_created_record).
     and_then (map_err Encode (encode_record sz header_record)) (\<lambda>header.
     and_then (map_err Encode (encode_record sz match_created_record)) (\<lambda>created.
     fst (try_then (write_record ops writer header) (\<lambda>_ writer.
          try_then (write_record ops writer created) (\<lambda>_ writer.
          try_then (flush_checkpoint ops writer) (\<lambda>_ writer.
            (Inr \<lparr>rm_writer = writer, rm_state = initial_state, rm_next_sequence = 2,
                  rm_next_step = 1, rm_total_events = 0, rm_lifecycle = Active\<rparr>, writer)))))))))"

definition ensure_active :: "'w recorded_match \<Rightarrow> recording_error + unit" where
  "ensure_active m =
     (case rm_lifecycle m of
        Active \<Rightarrow> Inr ()
      | Stopped reason \<Rightarrow> Inl (recording_error.Stopped reason))"

definition complete_ended_match ::
  "serialization \<Rightarrow> 'w write_ops \<Rightarrow> game_outcome \<Rightarrow> state_projection_v1 \<Rightarrow> state_digest_v1
    \<Rightarrow> 'w recorded_match \<Rightarrow> (recording_error + unit) \<times> 'w recorded_match" where
  "complete_ended_match sz ops outcome projection digest m =
     (let records = prepare_completion
            \<lparr>cc_sequence = rm_next_sequence m, cc_steps = rm_next_step m - 1,
             cc_events = rm_total_events m\<rparr> outcome projection digest in
      try_then (append_records sz ops records m) (\<lambda>_ m.
      try_then (flush ops m) (\<lambda>_ m.
      (Inr (), m\<lparr>rm_lifecycle := Stopped MatchCompleted\<rparr>))))"

text \<open>The end of \<open>record_accepted_step\<close>, once the step is on disk.\<close>

definition settle_step ::
  "serialization \<Rightarrow> 'w write_ops \<Rightarrow> game_event list \<Rightarrow> state_projection_v1 \<Rightarrow> state_digest_v1
    \<Rightarrow> 'w recorded_match \<Rightarrow> (recording_error + recorded_step) \<times> 'w recorded_match" where
  "settle_step sz ops events projection digest m =
     (let status = gs_status (rm_state m) in
      case check_terminal_events status events of
        Inl error \<Rightarrow>
          (let reason = InvalidTerminalEvents error
           in (Inl (recording_error.Stopped reason), m\<lparr>rm_lifecycle := Stopped reason\<rparr>))
      | Inr (Some outcome) \<Rightarrow>
          try_then (complete_ended_match sz ops outcome projection digest m) (\<lambda>_ m.
          (Inr (Accepted events), m))
      | Inr None \<Rightarrow>
          (case status of
             game_status.Broken _ \<Rightarrow>
               (Inl (recording_error.Stopped GameBroken), m\<lparr>rm_lifecycle := Stopped GameBroken\<rparr>)
           | _ \<Rightarrow> (Inr (Accepted events), m)))"

definition record_accepted_step ::
  "serialization \<Rightarrow> 'w write_ops \<Rightarrow> u64 \<Rightarrow> action_outcome \<Rightarrow> 'w recorded_match
    \<Rightarrow> (recording_error + recorded_step) \<times> 'w recorded_match" where
  "record_accepted_step sz ops step outcome m =
     (let m = m\<lparr>rm_state := ao_state outcome\<rparr>;
          projection = projection_from_state (rm_state m);
          events = ao_events outcome in
      try_then (compute_digest sz projection m) (\<lambda>digest m.
      let records = prepare_accepted_step (rm_next_sequence m) step events digest in
      try_then (append_records sz ops records m) (\<lambda>_ m.
      try_then (flush ops m) (\<lambda>_ m.
      settle_step sz ops events projection digest
        (m\<lparr>rm_total_events := rm_total_events m + of_nat (length events)\<rparr>)))))"

definition record_rejected_step ::
  "serialization \<Rightarrow> 'w write_ops \<Rightarrow> u64 \<Rightarrow> action_error \<Rightarrow> 'w recorded_match
    \<Rightarrow> (recording_error + recorded_step) \<times> 'w recorded_match" where
  "record_rejected_step sz ops step error m =
     (let projection = projection_from_state (rm_state m) in
      try_then (compute_digest sz projection m) (\<lambda>digest m.
      try_then (append_record sz ops (prepare_rejected_step (rm_next_sequence m) step error digest) m) (\<lambda>_ m.
      try_then (flush ops m) (\<lambda>_ m.
      (Inr (Rejected error), m)))))"

text \<open>\<open>submit_with\<close>, with the engine transition as an argument.\<close>

definition submit_with ::
  "serialization \<Rightarrow> 'w write_ops \<Rightarrow> (game_state \<Rightarrow> game_action \<Rightarrow> (action_error + action_outcome) option)
    \<Rightarrow> 'w recorded_match \<Rightarrow> game_action
    \<Rightarrow> ((recording_error + recorded_step) \<times> 'w recorded_match) option" where
  "submit_with sz ops apply_fn m action =
     (case ensure_active m of
        Inl error \<Rightarrow> Some (Inl error, m)
      | Inr _ \<Rightarrow>
          (let step = rm_next_step m;
               action_record = prepare_action (rm_next_sequence m) step action in
           case append_record sz ops action_record m of
             (Inl error, m) \<Rightarrow> Some (Inl error, m)
           | (Inr _, m) \<Rightarrow>
               (let m = m\<lparr>rm_next_step := rm_next_step m + 1\<rparr> in
                case apply_fn (rm_state m) action of
                  None \<Rightarrow> None
                | Some (Inr outcome) \<Rightarrow> Some (record_accepted_step sz ops step outcome m)
                | Some (Inl error) \<Rightarrow> Some (record_rejected_step sz ops step error m))))"

definition submit ::
  "serialization \<Rightarrow> 'w write_ops \<Rightarrow> 'w recorded_match \<Rightarrow> game_action
    \<Rightarrow> ((recording_error + recorded_step) \<times> 'w recorded_match) option" where
  "submit sz ops m action = submit_with sz ops apply_action m action"

end
