(* ===== verification/Authoring.thy ===== *)
theory Authoring
  imports Text
begin

text \<open>
  The shape of authored card documents: \<open>crates/cards/src/error.rs\<close>, \<open>v1/dto.rs\<close> and
  \<open>document.rs\<close>. What the TOML reader makes of a text is a parameter, the fields of
  \<open>toml_reader\<close>: the \<open>schema_version\<close> entry of the table (or the text of the syntax error), which
  is an integer or a value of another named type, and the document that serde decodes (or the
  text of a syntax error, or the path and text of a decoding error).
\<close>

section \<open>Errors\<close>

datatype document_kind = Set | Deck

datatype load_phase = Utf8 | Version | Decode | Semantics | Identity | Conversion

datatype stable_key_kind = Set | Card | Ability

datatype semantic_rule =
  SetMustContainCards
| RevisionMustBePositive
| NameMustNotBeEmpty
| SummonRequiresStatistics
| NonSummonForbidsStatistics
| SummonRequiresOneAttack
| ManaTypesMustBeUnique
| AbilityShape
| SpellShape
| EnchantmentShape
| EffectTarget
| EffectCombination
| AmountMustBePositive
| ModifierAmountOutOfRange

datatype set_load_cause =
  InvalidUtf8 nat "nat option"
| TomlSyntax string
| MissingSchemaVersion
| InvalidSchemaVersion string
| UnsupportedSchemaVersion int
| SchemaDecode string
| InvalidStableKey stable_key_kind string
| DuplicateStableKey stable_key_kind string string
| DuplicateGeneratedId entity_id string
| GeneratedIdRejected string
| MissingRequiredField string
| ForbiddenField string
| DuplicateValue string string
| InvalidSemantics semantic_rule

record set_load_error =
  le_document :: document_kind
  le_phase :: load_phase
  le_schema_version :: "int option"
  le_path :: string
  le_cause :: set_load_cause

definition set_load_error_new ::
  "load_phase \<Rightarrow> int option \<Rightarrow> string \<Rightarrow> set_load_cause \<Rightarrow> set_load_error" where
  "set_load_error_new phase schema_version path cause =
     \<lparr>le_document = document_kind.Set, le_phase = phase, le_schema_version = schema_version,
      le_path = path, le_cause = cause\<rparr>"

section \<open>Documents\<close>

datatype dto_form = Base | Enhanced | Elite
datatype dto_mana_type = Matter | Mind | Spirit
datatype dto_mana_symbol = Matter | Mind | Spirit | Generic
datatype dto_spell_timing = Support | Attack
datatype persistence = Discard | Persistent
datatype dto_trigger_event =
  YourUpkeep | EntersMain | EntersBench | LeavesMain | LeavesBench | AnySummonDestroyed
datatype response_mode = Immediate | Respondable
datatype dto_damage_constraint = Unincreasable | Unpreventable
datatype target =
  DefendingMain | SelectedOpposingPosition | Source | SelectedOwnSummon | SelectedOwnBenchedSummon
| OwnMainWithSelectedBench | OpposingMainWithSelectedBench
datatype destination = EmptyOwnBench
datatype duration = UntilYourNextTurn
datatype dto_response_block = AttackSpells
datatype relative_player = Controller
datatype dto_condition =
  DefenderEnteredMainThisTurn relative_player | SpellPlayedThisTurn relative_player
datatype dto_modifier = OpposingRetreatCost u32 | IncomingAttackDamageReduction u32

record dto_damage_addition =
  dd_amount :: u32
  dd_condition :: dto_condition

datatype dto_effect =
  Damage target u32 "dto_damage_constraint list" "dto_damage_addition list"
| Heal target u32
| MoveSummon target destination
| SwapPositions target
| BlockResponses dto_condition dto_response_block
| ReturnSpellFromDiscard
| LookAtPrizes
| DrawCards u32
| ReturnSpellToDeckTop
| ProduceMana target
| CannotBeMovedByOpponent target duration
| ReadySummon target

datatype dto_card_kind = Summon | Spell | Enchantment
datatype dto_ability_kind = Attack | Skill | Passive | Trigger

record dto_ability =
  da_code :: string
  da_name :: string
  da_text :: string
  da_kind :: dto_ability_kind
  da_cost :: "dto_mana_symbol list option"
  da_event :: "dto_trigger_event option"
  da_response :: "response_mode option"
  da_effects :: "dto_effect list"
  da_modifier :: "dto_modifier option"

record dto_card =
  dc_code :: string
  dc_name :: string
  dc_text :: string
  dc_kind :: dto_card_kind
  dc_form :: "dto_form option"
  dc_life :: "u32 option"
  dc_types :: "dto_mana_type list option"
  dc_retreat :: "u32 option"
  dc_timing :: "dto_spell_timing option"
  dc_persistence :: "persistence option"
  dc_cost :: "dto_mana_symbol list option"
  dc_abilities :: "dto_ability list"
  dc_effects :: "dto_effect list"
  dc_modifiers :: "dto_modifier list"

record dto_set =
  ds_schema_version :: u32
  ds_id :: string
  ds_revision :: u32
  ds_name :: string
  ds_cards :: "dto_card list"

section \<open>Decoding\<close>

record 'd toml_reader =
  tm_schema_version :: "string \<Rightarrow> string + (string + int) option"
  tm_document :: "string \<Rightarrow> string + (string \<times> string) + 'd"

definition decode_utf8 :: "u8 list \<Rightarrow> set_load_error + string" where
  "decode_utf8 bytes =
     map_err (\<lambda>(valid_up_to, error_len).
       set_load_error_new Utf8 None ''$'' (InvalidUtf8 valid_up_to error_len)) (from_utf8 bytes)"

definition read_version :: "'d toml_reader \<Rightarrow> string \<Rightarrow> set_load_error + int" where
  "read_version toml source =
     (case tm_schema_version toml source of
        Inl message \<Rightarrow> Inl (set_load_error_new Version None ''$'' (TomlSyntax message))
      | Inr None \<Rightarrow> Inl (set_load_error_new Version None ''schema_version'' MissingSchemaVersion)
      | Inr (Some (Inl type_str)) \<Rightarrow>
          Inl (set_load_error_new Version None ''schema_version'' (InvalidSchemaVersion type_str))
      | Inr (Some (Inr version)) \<Rightarrow> Inr version)"

definition decode_v1 :: "dto_set toml_reader \<Rightarrow> string \<Rightarrow> set_load_error + dto_set" where
  "decode_v1 toml source =
     (case tm_document toml source of
        Inl message \<Rightarrow> Inl (set_load_error_new Decode (Some 1) ''$'' (SchemaDecode message))
      | Inr (Inl (path, message)) \<Rightarrow>
          Inl (set_load_error_new Decode (Some 1) (if path = [] then ''$'' else path) (SchemaDecode message))
      | Inr (Inr decoded) \<Rightarrow> Inr decoded)"

definition decode_set :: "dto_set toml_reader \<Rightarrow> u8 list \<Rightarrow> set_load_error + dto_set" where
  "decode_set toml bytes =
     and_then (decode_utf8 bytes) (\<lambda>source.
     and_then (read_version toml source) (\<lambda>version.
     if version = 1 then decode_v1 toml source
     else Inl (set_load_error_new Version (Some version) ''schema_version''
       (UnsupportedSchemaVersion version))))"

end
