(* ===== verification/Set_Model.thy ===== *)
theory Set_Model
  imports Authoring
begin

text \<open>
  \<open>crates/cards/src/v1/model.rs\<close>: the semantic parser of a decoded Set document. Every check is made
  in the order of the source and names the path of the field it rejects. A \<open>HashMap\<close> from values
  to the path of their first occurrence is a map.
\<close>

section \<open>The model\<close>

datatype stable_code = StableCode (stable_code_text: string)

datatype ability_role = Attack | Skill | Passive | Trigger

fun identity_name :: "ability_role \<Rightarrow> string" where
  "identity_name Attack = ''attack''"
| "identity_name Skill = ''skill''"
| "identity_name Passive = ''passive''"
| "identity_name Trigger = ''trigger''"

datatype damage_target = DefendingMain | SelectedOpposingPosition
datatype own_target = Source | Selected
datatype swap_side = Own | Opposing

record model_damage_addition =
  md_amount :: u32
  md_condition :: dto_condition

datatype model_effect =
  Damage damage_target u32 "dto_damage_constraint list" "model_damage_addition list"
| Heal own_target u32
| MoveOwnBenchedToEmptyBench
| SwapPositions swap_side
| BlockAttackSpells dto_condition
| ReturnSpellFromDiscard
| LookAtPrizes
| DrawCards u32
| ReturnSpellToDeckTop
| ProduceMana own_target
| ProtectFromOpposingMovement own_target
| ReadyOwnSummon

datatype model_ability_kind =
  Attack "dto_mana_symbol list" "model_effect list"
| Skill "dto_mana_symbol list" "model_effect list"
| Passive dto_modifier
| Trigger dto_trigger_event response_mode "model_effect list"

record model_ability =
  ma_code :: stable_code
  ma_name :: string
  ma_text :: string
  ma_kind :: model_ability_kind

fun kind_role :: "model_ability_kind \<Rightarrow> ability_role" where
  "kind_role (model_ability_kind.Attack _ _) = ability_role.Attack"
| "kind_role (model_ability_kind.Skill _ _) = ability_role.Skill"
| "kind_role (model_ability_kind.Passive _) = ability_role.Passive"
| "kind_role (model_ability_kind.Trigger _ _ _) = ability_role.Trigger"

definition ability_role_of :: "model_ability \<Rightarrow> ability_role" where
  "ability_role_of ability = kind_role (ma_kind ability)"

datatype model_card_kind =
  Summon dto_form u32 "dto_mana_type list" u32 "model_ability list"
| Spell dto_spell_timing "dto_mana_symbol list" "model_effect list"
| Enchantment "dto_mana_symbol list" "model_effect list" "dto_modifier list"

record model_card =
  mk_code :: stable_code
  mk_name :: string
  mk_text :: string
  mk_kind :: model_card_kind

record model_set =
  ms_code :: stable_code
  ms_revision :: u32
  ms_name :: string
  ms_cards :: "model_card list"

datatype effect_context = Attack | Skill | Trigger | AttackSpell | SupportSpell | Enchantment

section \<open>Errors and small checks\<close>

definition semantic_error :: "string \<Rightarrow> set_load_cause \<Rightarrow> set_load_error" where
  "semantic_error path cause = set_load_error_new Semantics (Some 1) path cause"

definition rule_error :: "string \<Rightarrow> semantic_rule \<Rightarrow> set_load_error" where
  "rule_error path rule = semantic_error path (InvalidSemantics rule)"

definition stable_code_parse :: "string \<Rightarrow> stable_key_kind \<Rightarrow> string \<Rightarrow> set_load_error + stable_code" where
  "stable_code_parse text kind path =
     (if stable_key_syntax text then Inr (StableCode text)
      else Inl (semantic_error path (InvalidStableKey kind text)))"

definition required :: "'a option \<Rightarrow> string \<Rightarrow> string \<Rightarrow> set_load_error + 'a" where
  "required v path field =
     ok_or (semantic_error (field_path path field) (MissingRequiredField field)) v"

definition forbid_option :: "'a option \<Rightarrow> string \<Rightarrow> string \<Rightarrow> set_load_error + unit" where
  "forbid_option v path field =
     (if v \<noteq> None then Inl (semantic_error (field_path path field) (ForbiddenField field)) else Inr ())"

definition forbid_list :: "'a list \<Rightarrow> string \<Rightarrow> string \<Rightarrow> set_load_error + unit" where
  "forbid_list v path field =
     (if v = [] then Inr () else Inl (semantic_error (field_path path field) (ForbiddenField field)))"

definition require_name :: "string \<Rightarrow> string \<Rightarrow> set_load_error + unit" where
  "require_name text path =
     (if trims_empty text then Inl (rule_error path NameMustNotBeEmpty) else Inr ())"

definition require_positive :: "u32 \<Rightarrow> string \<Rightarrow> semantic_rule \<Rightarrow> set_load_error + unit" where
  "require_positive v path rule = (if v = 0 then Inl (rule_error path rule) else Inr ())"

definition reject_duplicate ::
  "(string \<rightharpoonup> string) \<Rightarrow> string \<Rightarrow> string \<Rightarrow> stable_key_kind \<Rightarrow> set_load_error + (string \<rightharpoonup> string)" where
  "reject_duplicate seen v path kind =
     (case seen v of
        Some first_path \<Rightarrow> Inl (semantic_error path (DuplicateStableKey kind v first_path))
      | None \<Rightarrow> Inr (seen(v \<mapsto> path)))"

definition forbid_summon_fields ::
  "dto_form option \<Rightarrow> u32 option \<Rightarrow> dto_mana_type list option \<Rightarrow> u32 option \<Rightarrow> string
    \<Rightarrow> set_load_error + unit" where
  "forbid_summon_fields form life types retreat path =
     and_then (forbid_option form path ''form'') (\<lambda>_.
     and_then (forbid_option life path ''life'') (\<lambda>_.
     and_then (forbid_option types path ''types'') (\<lambda>_.
     forbid_option retreat path ''retreat'')))"

section \<open>Lists without duplicates\<close>

text \<open>The \<open>Debug\<close> names of the values.\<close>

fun mana_debug :: "dto_mana_type \<Rightarrow> string" where
  "mana_debug dto_mana_type.Matter = ''Matter''"
| "mana_debug dto_mana_type.Mind = ''Mind''"
| "mana_debug dto_mana_type.Spirit = ''Spirit''"

fun constraint_debug :: "dto_damage_constraint \<Rightarrow> string" where
  "constraint_debug dto_damage_constraint.Unincreasable = ''Unincreasable''"
| "constraint_debug dto_damage_constraint.Unpreventable = ''Unpreventable''"

fun reject_repeated_types :: "string list \<Rightarrow> nat \<Rightarrow> dto_mana_type list \<Rightarrow> string \<Rightarrow> set_load_error + unit" where
  "reject_repeated_types seen index [] path = Inr ()"
| "reject_repeated_types seen index (mana # rest) path =
     (let name = mana_debug mana in
      if name \<in> set seen
      then Inl (semantic_error (index_path path index) (DuplicateValue name path))
      else reject_repeated_types (name # seen) (index + 1) rest path)"

definition parse_mana_types :: "dto_mana_type list \<Rightarrow> string \<Rightarrow> set_load_error + dto_mana_type list" where
  "parse_mana_types raw path =
     (if raw = [] then Inl (rule_error path SummonRequiresStatistics)
      else and_then (reject_repeated_types [] 0 raw path) (\<lambda>_. Inr raw))"

fun reject_repeated_constraints ::
  "(string \<rightharpoonup> string) \<Rightarrow> nat \<Rightarrow> dto_damage_constraint list \<Rightarrow> string \<Rightarrow> set_load_error + unit" where
  "reject_repeated_constraints seen index [] path = Inr ()"
| "reject_repeated_constraints seen index (constraint # rest) path =
     (let v = constraint_debug constraint; item_path = index_path path index in
      case seen v of
        Some first_path \<Rightarrow> Inl (semantic_error item_path (DuplicateValue v first_path))
      | None \<Rightarrow> reject_repeated_constraints (seen(v \<mapsto> item_path)) (index + 1) rest path)"

definition reject_duplicate_constraints :: "dto_damage_constraint list \<Rightarrow> string \<Rightarrow> set_load_error + unit" where
  "reject_duplicate_constraints raw path = reject_repeated_constraints Map.empty 0 raw path"

section \<open>Modifiers\<close>

fun dto_modifier_amount :: "dto_modifier \<Rightarrow> u32" where
  "dto_modifier_amount (dto_modifier.OpposingRetreatCost amount) = amount"
| "dto_modifier_amount (dto_modifier.IncomingAttackDamageReduction amount) = amount"

definition fits_i32 :: "u32 \<Rightarrow> bool" where
  "fits_i32 n \<longleftrightarrow> unat n < 2 ^ 31"

definition parse_modifier :: "dto_modifier \<Rightarrow> string \<Rightarrow> set_load_error + unit" where
  "parse_modifier modifier path =
     (let amount = dto_modifier_amount modifier in
      and_then (require_positive amount (field_path path ''amount'') AmountMustBePositive) (\<lambda>_.
      if (case modifier of dto_modifier.OpposingRetreatCost _ \<Rightarrow> True | _ \<Rightarrow> False) \<and> \<not> fits_i32 amount
      then Inl (rule_error (field_path path ''amount'') ModifierAmountOutOfRange)
      else Inr ()))"

definition parse_modifiers :: "dto_modifier list \<Rightarrow> string \<Rightarrow> set_load_error + dto_modifier list" where
  "parse_modifiers raw path =
     try_enumerate (\<lambda>index modifier.
       and_then (parse_modifier modifier (index_path path index)) (\<lambda>_. Inr modifier)) 0 raw"

section \<open>Effects\<close>

fun effect_selector :: "dto_effect \<Rightarrow> target option" where
  "effect_selector (dto_effect.Damage target _ _ _) = Some target"
| "effect_selector (dto_effect.Heal target _) = Some target"
| "effect_selector (dto_effect.MoveSummon target _) = Some target"
| "effect_selector (dto_effect.SwapPositions target) = Some target"
| "effect_selector (dto_effect.ProduceMana target) = Some target"
| "effect_selector (dto_effect.CannotBeMovedByOpponent target _) = Some target"
| "effect_selector (dto_effect.ReadySummon target) = Some target"
| "effect_selector (dto_effect.BlockResponses _ _) = None"
| "effect_selector dto_effect.ReturnSpellFromDiscard = None"
| "effect_selector dto_effect.LookAtPrizes = None"
| "effect_selector (dto_effect.DrawCards _) = None"
| "effect_selector dto_effect.ReturnSpellToDeckTop = None"

definition reject_source_without_position ::
  "dto_effect \<Rightarrow> effect_context \<Rightarrow> string \<Rightarrow> set_load_error + unit" where
  "reject_source_without_position effect context path =
     (if context \<notin> {AttackSpell, SupportSpell, effect_context.Enchantment} then Inr ()
      else if effect_selector effect = Some target.Source
      then Inl (rule_error (field_path path ''target'') EffectTarget)
      else Inr ())"

definition parse_addition :: "string \<Rightarrow> nat \<Rightarrow> dto_damage_addition \<Rightarrow> set_load_error + model_damage_addition" where
  "parse_addition path index addition =
     and_then (require_positive (dd_amount addition)
       (field_path (index_path (field_path path ''additions'') index) ''amount'') AmountMustBePositive) (\<lambda>_.
     Inr \<lparr>md_amount = dd_amount addition, md_condition = dd_condition addition\<rparr>)"

definition parse_damage ::
  "target \<Rightarrow> u32 \<Rightarrow> dto_damage_constraint list \<Rightarrow> dto_damage_addition list \<Rightarrow> effect_context \<Rightarrow> string
    \<Rightarrow> set_load_error + model_effect" where
  "parse_damage target base constraints additions context path =
     and_then (require_positive base (field_path path ''base'') AmountMustBePositive) (\<lambda>_.
     and_then (case (context, target) of
         (effect_context.Attack, target.DefendingMain) \<Rightarrow> Inr damage_target.DefendingMain
       | (AttackSpell, target.SelectedOpposingPosition) \<Rightarrow> Inr damage_target.SelectedOpposingPosition
       | _ \<Rightarrow> Inl (rule_error (field_path path ''target'') EffectTarget)) (\<lambda>target.
     and_then (reject_duplicate_constraints constraints (field_path path ''constraints'')) (\<lambda>_.
     and_then (try_enumerate (parse_addition path) 0 additions) (\<lambda>additions.
     Inr (model_effect.Damage target base constraints additions)))))"

definition parse_heal :: "target \<Rightarrow> u32 \<Rightarrow> effect_context \<Rightarrow> string \<Rightarrow> set_load_error + model_effect" where
  "parse_heal target amount context path =
     and_then (require_positive amount (field_path path ''amount'') AmountMustBePositive) (\<lambda>_.
     if context \<in> {effect_context.Skill, effect_context.Trigger} \<and> target = target.Source
     then Inr (model_effect.Heal own_target.Source amount)
     else if context \<in> {SupportSpell, effect_context.Enchantment} \<and> target = target.SelectedOwnSummon
     then Inr (model_effect.Heal own_target.Selected amount)
     else Inl (rule_error (field_path path ''target'') EffectTarget))"

definition parse_effect :: "dto_effect \<Rightarrow> effect_context \<Rightarrow> string \<Rightarrow> set_load_error + model_effect" where
  "parse_effect raw context path =
     and_then (reject_source_without_position raw context path) (\<lambda>_.
     let combination = Inl (rule_error path EffectCombination);
         wrong_target = Inl (rule_error (field_path path ''target'') EffectTarget) in
     case raw of
       dto_effect.Damage target base constraints additions \<Rightarrow>
         parse_damage target base constraints additions context path
     | dto_effect.Heal target amount \<Rightarrow> parse_heal target amount context path
     | dto_effect.MoveSummon target destination \<Rightarrow>
         if context = effect_context.Skill \<and> target = target.SelectedOwnBenchedSummon
           \<and> destination = EmptyOwnBench
         then Inr model_effect.MoveOwnBenchedToEmptyBench else combination
     | dto_effect.SwapPositions target \<Rightarrow>
         (case (context, target) of
            (effect_context.Skill, target.OwnMainWithSelectedBench) \<Rightarrow> Inr (model_effect.SwapPositions Own)
          | (effect_context.Skill, target.OpposingMainWithSelectedBench) \<Rightarrow>
              Inr (model_effect.SwapPositions Opposing)
          | _ \<Rightarrow> wrong_target)
     | dto_effect.BlockResponses condition response \<Rightarrow>
         if context = effect_context.Attack \<and> response = dto_response_block.AttackSpells
         then Inr (model_effect.BlockAttackSpells condition) else combination
     | dto_effect.ReturnSpellFromDiscard \<Rightarrow>
         if context = effect_context.Trigger then Inr model_effect.ReturnSpellFromDiscard else combination
     | dto_effect.LookAtPrizes \<Rightarrow>
         if context = effect_context.Skill then Inr model_effect.LookAtPrizes else combination
     | dto_effect.DrawCards amount \<Rightarrow>
         if context = effect_context.Skill \<or> context = SupportSpell
         then and_then (require_positive amount (field_path path ''amount'') AmountMustBePositive)
           (\<lambda>_. Inr (model_effect.DrawCards amount))
         else combination
     | dto_effect.ReturnSpellToDeckTop \<Rightarrow>
         if context = effect_context.Skill then Inr model_effect.ReturnSpellToDeckTop else combination
     | dto_effect.ProduceMana target \<Rightarrow>
         (case (context, target) of
            (effect_context.Skill, target.SelectedOwnSummon) \<Rightarrow>
              Inr (model_effect.ProduceMana own_target.Selected)
          | (effect_context.Trigger, target.Source) \<Rightarrow> Inr (model_effect.ProduceMana own_target.Source)
          | _ \<Rightarrow> wrong_target)
     | dto_effect.CannotBeMovedByOpponent target duration \<Rightarrow>
         if context = effect_context.Skill \<and> target = target.Source \<and> duration = UntilYourNextTurn
         then Inr (model_effect.ProtectFromOpposingMovement own_target.Source) else combination
     | dto_effect.ReadySummon target \<Rightarrow>
         if context = SupportSpell \<and> target = target.SelectedOwnSummon
         then Inr model_effect.ReadyOwnSummon else combination)"

definition parse_effects ::
  "dto_effect list \<Rightarrow> effect_context \<Rightarrow> string \<Rightarrow> set_load_error + model_effect list" where
  "parse_effects raw context path =
     (if raw = [] then Inl (rule_error path AbilityShape)
      else try_enumerate (\<lambda>index effect. parse_effect effect context (index_path path index)) 0 raw)"

section \<open>Abilities\<close>

definition parse_ability ::
  "dto_ability \<Rightarrow> stable_code \<Rightarrow> string \<Rightarrow> set_load_error + model_ability" where
  "parse_ability raw code path =
     and_then
       (case da_kind raw of
          dto_ability_kind.Passive \<Rightarrow>
            and_then (forbid_option (da_cost raw) path ''cost'') (\<lambda>_.
            and_then (forbid_option (da_event raw) path ''event'') (\<lambda>_.
            and_then (forbid_option (da_response raw) path ''response'') (\<lambda>_.
            and_then (forbid_list (da_effects raw) path ''effects'') (\<lambda>_.
            and_then (required (da_modifier raw) path ''modifier'') (\<lambda>modifier.
            and_then (parse_modifier modifier (field_path path ''modifier'')) (\<lambda>_.
            Inr (model_ability_kind.Passive modifier)))))))
        | dto_ability_kind.Trigger \<Rightarrow>
            and_then (forbid_option (da_cost raw) path ''cost'') (\<lambda>_.
            and_then (forbid_option (da_modifier raw) path ''modifier'') (\<lambda>_.
            and_then (required (da_event raw) path ''event'') (\<lambda>event.
            and_then (required (da_response raw) path ''response'') (\<lambda>response.
            and_then (parse_effects (da_effects raw) effect_context.Trigger (field_path path ''effects'')) (\<lambda>effects.
            Inr (model_ability_kind.Trigger event response effects))))))
        | kind \<Rightarrow>
            and_then (forbid_option (da_event raw) path ''event'') (\<lambda>_.
            and_then (forbid_option (da_response raw) path ''response'') (\<lambda>_.
            and_then (forbid_option (da_modifier raw) path ''modifier'') (\<lambda>_.
            and_then (required (da_cost raw) path ''cost'') (\<lambda>cost.
            let context = (if kind = dto_ability_kind.Attack then effect_context.Attack
              else effect_context.Skill) in
            and_then (parse_effects (da_effects raw) context (field_path path ''effects'')) (\<lambda>effects.
            Inr (if kind = dto_ability_kind.Attack then model_ability_kind.Attack cost effects
              else model_ability_kind.Skill cost effects)))))))
       (\<lambda>kind. Inr \<lparr>ma_code = code, ma_name = da_name raw, ma_text = da_text raw, ma_kind = kind\<rparr>)"

fun parse_ability_list ::
  "(string \<rightharpoonup> string) \<Rightarrow> nat \<Rightarrow> dto_ability list \<Rightarrow> string \<Rightarrow> set_load_error + model_ability list" where
  "parse_ability_list seen index [] card_path = Inr []"
| "parse_ability_list seen index (ability # rest) card_path =
     (let path = index_path (field_path card_path ''abilities'') index in
      and_then (stable_code_parse (da_code ability) stable_key_kind.Ability (field_path path ''code'')) (\<lambda>code.
      and_then (reject_duplicate seen (stable_code_text code) (field_path path ''code'')
        stable_key_kind.Ability) (\<lambda>seen.
      and_then (parse_ability ability code path) (\<lambda>parsed.
      and_then (parse_ability_list seen (index + 1) rest card_path) (\<lambda>parsed_rest.
      Inr (parsed # parsed_rest))))))"

definition parse_abilities :: "dto_ability list \<Rightarrow> string \<Rightarrow> set_load_error + model_ability list" where
  "parse_abilities raw card_path =
     (if raw = [] then Inl (rule_error (field_path card_path ''abilities'') SummonRequiresOneAttack)
      else parse_ability_list Map.empty 0 raw card_path)"

section \<open>Cards\<close>

definition is_attack :: "model_ability \<Rightarrow> bool" where
  "is_attack ability \<longleftrightarrow> (case ma_kind ability of model_ability_kind.Attack _ _ \<Rightarrow> True | _ \<Rightarrow> False)"

definition parse_summon :: "dto_card \<Rightarrow> string \<Rightarrow> set_load_error + model_card_kind" where
  "parse_summon raw path =
     and_then (forbid_option (dc_timing raw) path ''timing'') (\<lambda>_.
     and_then (forbid_option (dc_persistence raw) path ''persistence'') (\<lambda>_.
     and_then (forbid_option (dc_cost raw) path ''cost'') (\<lambda>_.
     and_then (forbid_list (dc_effects raw) path ''effects'') (\<lambda>_.
     and_then (forbid_list (dc_modifiers raw) path ''modifiers'') (\<lambda>_.
     and_then (required (dc_form raw) path ''form'') (\<lambda>form.
     and_then (required (dc_life raw) path ''life'') (\<lambda>life.
     and_then (require_positive life (field_path path ''life'') SummonRequiresStatistics) (\<lambda>_.
     and_then (required (dc_types raw) path ''types'') (\<lambda>types.
     and_then (parse_mana_types types (field_path path ''types'')) (\<lambda>types.
     and_then (required (dc_retreat raw) path ''retreat'') (\<lambda>retreat.
     and_then (parse_abilities (dc_abilities raw) path) (\<lambda>abilities.
     if length (filter is_attack abilities) \<noteq> 1
     then Inl (rule_error (field_path path ''abilities'') SummonRequiresOneAttack)
     else Inr (model_card_kind.Summon form life types retreat abilities)))))))))))))"

definition parse_spell :: "dto_card \<Rightarrow> string \<Rightarrow> set_load_error + model_card_kind" where
  "parse_spell raw path =
     and_then (forbid_summon_fields (dc_form raw) (dc_life raw) (dc_types raw) (dc_retreat raw) path) (\<lambda>_.
     and_then (forbid_list (dc_abilities raw) path ''abilities'') (\<lambda>_.
     and_then (forbid_list (dc_modifiers raw) path ''modifiers'') (\<lambda>_.
     and_then (required (dc_timing raw) path ''timing'') (\<lambda>timing.
     and_then (required (dc_persistence raw) path ''persistence'') (\<lambda>persistence.
     if persistence \<noteq> Discard then Inl (rule_error (field_path path ''persistence'') SpellShape)
     else
     and_then (required (dc_cost raw) path ''cost'') (\<lambda>cost.
     let context = (case timing of dto_spell_timing.Attack \<Rightarrow> AttackSpell | dto_spell_timing.Support \<Rightarrow> SupportSpell) in
     and_then (parse_effects (dc_effects raw) context (field_path path ''effects'')) (\<lambda>effects.
     Inr (model_card_kind.Spell timing cost effects))))))))"

definition parse_enchantment :: "dto_card \<Rightarrow> string \<Rightarrow> set_load_error + model_card_kind" where
  "parse_enchantment raw path =
     and_then (forbid_summon_fields (dc_form raw) (dc_life raw) (dc_types raw) (dc_retreat raw) path) (\<lambda>_.
     and_then (forbid_list (dc_abilities raw) path ''abilities'') (\<lambda>_.
     and_then (required (dc_timing raw) path ''timing'') (\<lambda>timing.
     and_then (required (dc_persistence raw) path ''persistence'') (\<lambda>persistence.
     if timing \<noteq> dto_spell_timing.Support \<or> persistence \<noteq> persistence.Persistent
     then Inl (rule_error path EnchantmentShape)
     else
     and_then (required (dc_cost raw) path ''cost'') (\<lambda>cost.
     and_then (parse_effects (dc_effects raw) effect_context.Enchantment (field_path path ''effects'')) (\<lambda>effects.
     and_then (parse_modifiers (dc_modifiers raw) (field_path path ''modifiers'')) (\<lambda>modifiers.
     Inr (model_card_kind.Enchantment cost effects modifiers))))))))"

definition parse_card :: "dto_card \<Rightarrow> stable_code \<Rightarrow> string \<Rightarrow> set_load_error + model_card" where
  "parse_card raw code path =
     and_then (require_name (dc_name raw) (field_path path ''name'')) (\<lambda>_.
     and_then
       (case dc_kind raw of
          dto_card_kind.Summon \<Rightarrow> parse_summon raw path
        | dto_card_kind.Spell \<Rightarrow> parse_spell raw path
        | dto_card_kind.Enchantment \<Rightarrow> parse_enchantment raw path) (\<lambda>kind.
     Inr \<lparr>mk_code = code, mk_name = dc_name raw, mk_text = dc_text raw, mk_kind = kind\<rparr>))"

fun parse_cards :: "(string \<rightharpoonup> string) \<Rightarrow> nat \<Rightarrow> dto_card list \<Rightarrow> set_load_error + model_card list" where
  "parse_cards seen index [] = Inr []"
| "parse_cards seen index (raw # rest) =
     (let path = index_path ''cards'' index in
      and_then (stable_code_parse (dc_code raw) stable_key_kind.Card (field_path path ''code'')) (\<lambda>code.
      and_then (reject_duplicate seen (stable_code_text code) (field_path path ''code'')
        stable_key_kind.Card) (\<lambda>seen.
      and_then (parse_card raw code path) (\<lambda>parsed.
      and_then (parse_cards seen (index + 1) rest) (\<lambda>parsed_rest.
      Inr (parsed # parsed_rest))))))"

definition parse_set_model :: "dto_set \<Rightarrow> set_load_error + model_set" where
  "parse_set_model decoded =
     (if ds_schema_version decoded \<noteq> 1
      then Inl (set_load_error_new Version (Some (uint (ds_schema_version decoded))) ''schema_version''
        (UnsupportedSchemaVersion (uint (ds_schema_version decoded))))
      else
        and_then (stable_code_parse (ds_id decoded) stable_key_kind.Set ''id'') (\<lambda>code.
        and_then (require_positive (ds_revision decoded) ''revision'' RevisionMustBePositive) (\<lambda>_.
        and_then (require_name (ds_name decoded) ''name'') (\<lambda>_.
        if ds_cards decoded = [] then Inl (rule_error ''cards'' SetMustContainCards)
        else
        and_then (parse_cards Map.empty 0 (ds_cards decoded)) (\<lambda>cards.
        Inr \<lparr>ms_code = code, ms_revision = ds_revision decoded, ms_name = ds_name decoded,
             ms_cards = cards\<rparr>)))))"

end
