(* ===== verification/Ordered_Map.thy ===== *)
theory Ordered_Map
  imports Prelude "HOL-Library.Char_ord" "HOL-Library.List_Lexorder" "HOL-Library.Product_Lexorder"
begin

text \<open>
  \<open>std::collections::BTreeMap\<close>: the entries in ascending order of their keys. Texts are ordered by
  their bytes. The locale \<open>dictionary\<close> is what the loaders rely on from \<open>BTreeMap\<close> and \<open>HashMap\<close>
  alike: what a lookup answers after an insertion.
\<close>

type_synonym ('k, 'v) btree_map = "('k \<times> 'v) list"

fun btree_insert :: "'k :: linorder \<Rightarrow> 'v \<Rightarrow> ('k, 'v) btree_map \<Rightarrow> ('k, 'v) btree_map" where
  "btree_insert k v [] = [(k, v)]"
| "btree_insert k v ((k', v') # m) =
     (if k < k' then (k, v) # (k', v') # m
      else if k = k' then (k, v) # m
      else (k', v') # btree_insert k v m)"

definition btree_get :: "('k, 'v) btree_map \<Rightarrow> 'k \<Rightarrow> 'v option" where
  "btree_get m k = map_of m k"

text \<open>Collecting an iterator: later entries replace earlier ones.\<close>

definition btree_collect :: "('k :: linorder \<times> 'v) list \<Rightarrow> ('k, 'v) btree_map" where
  "btree_collect kvs = fold (\<lambda>(k, v) m. btree_insert k v m) kvs []"

locale dictionary =
  fixes get :: "'m \<Rightarrow> 'k \<Rightarrow> 'v option" and insert_at :: "'k \<Rightarrow> 'v \<Rightarrow> 'm \<Rightarrow> 'm"
  assumes get_insert: "get (insert_at k v m) k' = (if k' = k then Some v else get m k')"
begin

definition insert_all :: "('k \<times> 'v) list \<Rightarrow> 'm \<Rightarrow> 'm" where
  "insert_all kvs m = fold (\<lambda>(k, v) m. insert_at k v m) kvs m"

lemma get_insert_all: "get (insert_all kvs m) k = (case map_of (rev kvs) k of None \<Rightarrow> get m k | v \<Rightarrow> v)"
  by (induction kvs arbitrary: m)
    (auto simp: insert_all_def get_insert map_add_def split: option.splits)

end

lemma btree_get_insert: "btree_get (btree_insert k v m) k' = (if k' = k then Some v else btree_get m k')"
  unfolding btree_get_def by (induction k v m rule: btree_insert.induct) auto

interpretation btree: dictionary btree_get btree_insert
  by unfold_locales (rule btree_get_insert)

interpretation hash: dictionary "\<lambda>m. m" "\<lambda>k v m. m(k \<mapsto> v)"
  by unfold_locales simp

lemma btree_collect_get: "btree_get (btree_collect kvs) k = map_of (rev kvs) k"
  using btree.get_insert_all [of kvs "[]" k]
  by (simp add: btree_collect_def btree.insert_all_def btree_get_def split: option.splits)

text \<open>The keys stay in strictly ascending order.\<close>

lemma btree_keys: "set (map fst (btree_insert k v m)) = insert k (set (map fst m))"
  by (induction k v m rule: btree_insert.induct) auto

lemma btree_sorted:
  "sorted_wrt (<) (map fst m) \<Longrightarrow> sorted_wrt (<) (map fst (btree_insert k v m))"
proof (induction k v m rule: btree_insert.induct)
  case (2 k v k' v' m)
  then show ?case using btree_keys [of k v m] by auto
qed simp

end
