(* ===== verification/Set_Convert.thy ===== *)
theory Set_Convert
  imports Set_Model Ordered_Map
begin

text \<open>
  \<open>crates/cards/src/v1/convert.rs\<close>, \<open>identity.rs\<close> and \<open>parse_set\<close> of \<open>lib.rs\<close>: a parsed Set becomes
  core entities with minted identities. \<open>Uuid::new_v5\<close>, printed with hyphens, is the parameter
  \<open>uuid_v5\<close> of the namespace and the name. The two mutable maps of the registry are passed and
  returned; after an error they are dropped.
\<close>

section \<open>Identities\<close>

type_synonym uuid_v5 = "u8 list \<Rightarrow> string \<Rightarrow> string"

definition id_namespace :: "u8 list" where
  "id_namespace =
     [0x7d, 0x15, 0xee, 0x70, 0x92, 0x65, 0x4d, 0x4b, 0xa2, 0x58, 0x98, 0x3d, 0x27, 0xc5, 0x1f, 0x35]"

definition mint :: "uuid_v5 \<Rightarrow> string \<Rightarrow> string \<Rightarrow> set_load_error + entity_id" where
  "mint uuid input path =
     (let canonical = uuid id_namespace input in
      map_err (\<lambda>_. set_load_error_new Identity (Some 1) path (GeneratedIdRejected canonical))
        (entity_id_parse canonical))"

definition mint_set_id :: "uuid_v5 \<Rightarrow> stable_code \<Rightarrow> set_load_error + entity_id" where
  "mint_set_id uuid code = mint uuid (''set:'' @ stable_code_text code) ''id''"

definition mint_card_id :: "uuid_v5 \<Rightarrow> stable_code \<Rightarrow> stable_code \<Rightarrow> string \<Rightarrow> set_load_error + entity_id" where
  "mint_card_id uuid set_code card_code path =
     mint uuid (''set:'' @ stable_code_text set_code @ ''/card:'' @ stable_code_text card_code) path"

definition mint_ability_id ::
  "uuid_v5 \<Rightarrow> stable_code \<Rightarrow> stable_code \<Rightarrow> ability_role \<Rightarrow> stable_code \<Rightarrow> string
    \<Rightarrow> set_load_error + entity_id" where
  "mint_ability_id uuid set_code card_code role ability path =
     mint uuid (''set:'' @ stable_code_text set_code @ ''/card:'' @ stable_code_text card_code
       @ ''/ability:'' @ identity_name role @ '':'' @ stable_code_text ability) path"

section \<open>Leaf conversions\<close>

fun convert_form :: "dto_form \<Rightarrow> form" where
  "convert_form dto_form.Base = form.Base"
| "convert_form dto_form.Enhanced = form.Enhanced"
| "convert_form dto_form.Elite = form.Elite"

fun convert_mana_type :: "dto_mana_type \<Rightarrow> mana_type" where
  "convert_mana_type dto_mana_type.Matter = mana_type.Matter"
| "convert_mana_type dto_mana_type.Mind = mana_type.Mind"
| "convert_mana_type dto_mana_type.Spirit = mana_type.Spirit"

definition convert_cost :: "dto_mana_symbol list \<Rightarrow> cost" where
  "convert_cost symbols =
     fold (\<lambda>symbol c. case symbol of
         dto_mana_symbol.Matter \<Rightarrow> c\<lparr>cost_matter := cost_matter c + 1\<rparr>
       | dto_mana_symbol.Mind \<Rightarrow> c\<lparr>cost_mind := cost_mind c + 1\<rparr>
       | dto_mana_symbol.Spirit \<Rightarrow> c\<lparr>cost_spirit := cost_spirit c + 1\<rparr>
       | dto_mana_symbol.Generic \<Rightarrow> c\<lparr>cost_generic := cost_generic c + 1\<rparr>) symbols cost_default"

fun convert_timing :: "dto_spell_timing \<Rightarrow> spell_timing" where
  "convert_timing dto_spell_timing.Support = spell_timing.Support"
| "convert_timing dto_spell_timing.Attack = spell_timing.Attack"

fun convert_trigger_event :: "dto_trigger_event \<Rightarrow> trigger_event" where
  "convert_trigger_event dto_trigger_event.YourUpkeep = trigger_event.YourUpkeep"
| "convert_trigger_event dto_trigger_event.EntersMain = trigger_event.EntersMain"
| "convert_trigger_event dto_trigger_event.EntersBench = trigger_event.EntersBench"
| "convert_trigger_event dto_trigger_event.LeavesMain = trigger_event.LeavesMain"
| "convert_trigger_event dto_trigger_event.LeavesBench = trigger_event.LeavesBench"
| "convert_trigger_event dto_trigger_event.AnySummonDestroyed = trigger_event.AnySummonDestroyed"

fun convert_condition :: "dto_condition \<Rightarrow> effect_condition" where
  "convert_condition (dto_condition.DefenderEnteredMainThisTurn Controller) =
     effect_condition.DefenderEnteredMainThisTurn"
| "convert_condition (dto_condition.SpellPlayedThisTurn Controller) = effect_condition.SpellPlayedThisTurn"

fun convert_damage_constraint :: "dto_damage_constraint \<Rightarrow> damage_constraint" where
  "convert_damage_constraint dto_damage_constraint.Unincreasable = damage_constraint.Unincreasable"
| "convert_damage_constraint dto_damage_constraint.Unpreventable = damage_constraint.Unpreventable"

definition convert_damage_constraints :: "dto_damage_constraint list \<Rightarrow> damage_constraints" where
  "convert_damage_constraints constraints =
     fold (\<lambda>c converted. constraints_insert c converted) (map convert_damage_constraint constraints)
       constraints_new"

fun convert_own_target :: "own_target \<Rightarrow> effect_target" where
  "convert_own_target own_target.Source = effect_target.Source"
| "convert_own_target own_target.Selected = effect_target.Selected"

definition convert_modifier :: "dto_modifier \<Rightarrow> string \<Rightarrow> set_load_error + modifier" where
  "convert_modifier modifier path =
     (case modifier of
        dto_modifier.OpposingRetreatCost amount \<Rightarrow>
          if fits_i32 amount then Inr (OpposingRetreatCostDelta amount)
          else Inl (set_load_error_new Conversion (Some 1) (field_path path ''amount'')
            (InvalidSemantics ModifierAmountOutOfRange))
      | dto_modifier.IncomingAttackDamageReduction amount \<Rightarrow>
          Inr (modifier.IncomingAttackDamageReduction amount))"

fun convert_effect :: "model_effect \<Rightarrow> effect_leaf" where
  "convert_effect (model_effect.Damage _ base constraints additions) =
     DealDamage \<lparr>de_base = base, de_constraints = convert_damage_constraints constraints,
       de_additions = map (\<lambda>addition. \<lparr>da_amount = md_amount addition,
         da_condition = convert_condition (md_condition addition)\<rparr>) additions\<rparr>"
| "convert_effect (model_effect.Heal target amount) = effect_leaf.Heal amount (convert_own_target target)"
| "convert_effect model_effect.MoveOwnBenchedToEmptyBench = effect_leaf.MoveSummon"
| "convert_effect (model_effect.SwapPositions Own) = effect_leaf.SwapPositions"
| "convert_effect (model_effect.SwapPositions Opposing) = effect_leaf.SwapOpposingPositions"
| "convert_effect (model_effect.BlockAttackSpells condition) =
     effect_leaf.BlockResponses (convert_condition condition) response_block.AttackSpells"
| "convert_effect model_effect.ReturnSpellFromDiscard = effect_leaf.ReturnSpellFromDiscard"
| "convert_effect model_effect.LookAtPrizes = effect_leaf.LookAtPrizes"
| "convert_effect (model_effect.DrawCards amount) = effect_leaf.DrawCards amount"
| "convert_effect model_effect.ReturnSpellToDeckTop = effect_leaf.ReturnSpellToDeckTop"
| "convert_effect (model_effect.ProduceMana target) = effect_leaf.ProduceMana (convert_own_target target)"
| "convert_effect (model_effect.ProtectFromOpposingMovement target) =
     effect_leaf.CannotBeMovedByOpponent (convert_own_target target)"
| "convert_effect model_effect.ReadyOwnSummon = effect_leaf.ReadySummon"

section \<open>Cards\<close>

record identity_registry =
  ir_seen_ids :: "entity_id \<rightharpoonup> string"
  ir_ability_ids :: "(string \<times> string, entity_id) btree_map"

definition reject_duplicate_id ::
  "(entity_id \<rightharpoonup> string) \<Rightarrow> entity_id \<Rightarrow> string \<Rightarrow> set_load_error + (entity_id \<rightharpoonup> string)" where
  "reject_duplicate_id seen i path =
     (case seen i of
        Some first_path \<Rightarrow>
          Inl (set_load_error_new Identity (Some 1) path (DuplicateGeneratedId i first_path))
      | None \<Rightarrow> Inr (seen(i \<mapsto> path)))"

definition ability_components ::
  "string \<Rightarrow> dto_mana_symbol list option \<Rightarrow> model_effect list \<Rightarrow> component list" where
  "ability_components name cost effects =
     (if name \<noteq> [] then [component.Name name] else [])
     @ (case cost of Some cost \<Rightarrow> [component.Cost (convert_cost cost)] | None \<Rightarrow> [])
     @ map (\<lambda>effect. component.Effect (convert_effect effect)) effects"

definition convert_ability_kind ::
  "model_ability_kind \<Rightarrow> entity_id \<Rightarrow> string \<Rightarrow> string \<Rightarrow> set_load_error + component" where
  "convert_ability_kind kind i name path =
     (case kind of
        model_ability_kind.Attack cost effects \<Rightarrow>
          Inr (component.Attack (Entity i (ability_components name (Some cost) effects)))
      | model_ability_kind.Skill cost effects \<Rightarrow>
          Inr (component.Skill (Entity i (ability_components name (Some cost) effects)))
      | model_ability_kind.Passive modifier \<Rightarrow>
          and_then (convert_modifier modifier (field_path path ''modifier'')) (\<lambda>modifier.
          Inr (component.Passive modifier))
      | model_ability_kind.Trigger event response effects \<Rightarrow>
          Inr (component.Trigger (Entity i
            (ability_components name None effects
             @ [component.Event (convert_trigger_event event)]
             @ (if response = Respondable then [component.Respondable] else [])))))"

definition convert_ability ::
  "uuid_v5 \<Rightarrow> stable_code \<Rightarrow> stable_code \<Rightarrow> nat \<Rightarrow> model_ability \<Rightarrow> nat \<Rightarrow> identity_registry
    \<Rightarrow> set_load_error + component \<times> identity_registry" where
  "convert_ability uuid set_code card_code card_index ability ability_index ids =
     (let path = index_path (field_path (index_path ''cards'' card_index) ''abilities'') ability_index in
      and_then (mint_ability_id uuid set_code card_code (ability_role_of ability) (ma_code ability)
        (field_path path ''code'')) (\<lambda>i.
      and_then (reject_duplicate_id (ir_seen_ids ids) i (field_path path ''code'')) (\<lambda>seen.
      let ids = ids\<lparr>ir_seen_ids := seen,
            ir_ability_ids := btree_insert (stable_code_text card_code, stable_code_text (ma_code ability)) i
              (ir_ability_ids ids)\<rparr> in
      and_then (convert_ability_kind (ma_kind ability) i (ma_name ability) path) (\<lambda>c. Inr (c, ids)))))"

fun convert_abilities ::
  "uuid_v5 \<Rightarrow> stable_code \<Rightarrow> stable_code \<Rightarrow> nat \<Rightarrow> model_ability list \<Rightarrow> nat \<Rightarrow> identity_registry
    \<Rightarrow> set_load_error + component list \<times> identity_registry" where
  "convert_abilities uuid set_code card_code card_index [] ability_index ids = Inr ([], ids)"
| "convert_abilities uuid set_code card_code card_index (ability # rest) ability_index ids =
     and_then (convert_ability uuid set_code card_code card_index ability ability_index ids) (\<lambda>(c, ids).
     and_then (convert_abilities uuid set_code card_code card_index rest (ability_index + 1) ids) (\<lambda>(cs, ids).
     Inr (c # cs, ids)))"

definition convert_card ::
  "uuid_v5 \<Rightarrow> stable_code \<Rightarrow> model_card \<Rightarrow> entity_id \<Rightarrow> nat \<Rightarrow> identity_registry
    \<Rightarrow> set_load_error + entity \<times> identity_registry" where
  "convert_card uuid set_code raw card_id card_index ids =
     (let name = component.Name (mk_name raw);
          entity = (\<lambda>components. Entity card_id (name # components)) in
      case mk_kind raw of
        model_card_kind.Summon form life types retreat abilities \<Rightarrow>
          and_then (convert_abilities uuid set_code (mk_code raw) card_index abilities 0 ids) (\<lambda>(cs, ids).
          Inr (entity ([component.Form (convert_form form), component.Life life,
              component.Produces (map convert_mana_type types), component.RetreatCost retreat] @ cs), ids))
      | model_card_kind.Spell timing cost effects \<Rightarrow>
          Inr (entity ([component.Tags [''spell''], component.Timing (convert_timing timing),
              component.Cost (convert_cost cost)]
            @ map (\<lambda>effect. component.Effect (convert_effect effect)) effects), ids)
      | model_card_kind.Enchantment cost effects modifiers \<Rightarrow>
          and_then (try_enumerate (\<lambda>index modifier.
            and_then (convert_modifier modifier
              (index_path (field_path (index_path ''cards'' card_index) ''modifiers'') index)) (\<lambda>m.
            Inr (component.Passive m))) 0 modifiers) (\<lambda>passives.
          Inr (entity ([component.Tags [''enchantment''], component.Timing spell_timing.Support,
              component.Cost (convert_cost cost)]
            @ map (\<lambda>effect. component.Effect (convert_effect effect)) effects
            @ passives @ [component.Persistent]), ids)))"

section \<open>Sets\<close>

record loaded_set =
  st_id :: entity_id
  st_code :: string
  st_revision :: u32
  st_name :: string
  st_cards :: card_set
  st_card_ids :: "(string, entity_id) btree_map"
  st_ability_ids :: "(string \<times> string, entity_id) btree_map"

definition loaded_card_id :: "loaded_set \<Rightarrow> string \<Rightarrow> entity_id option" where
  "loaded_card_id s code = btree_get (st_card_ids s) code"

definition loaded_ability_id :: "loaded_set \<Rightarrow> string \<Rightarrow> string \<Rightarrow> entity_id option" where
  "loaded_ability_id s card_code ability_code = btree_get (st_ability_ids s) (card_code, ability_code)"

fun convert_cards ::
  "uuid_v5 \<Rightarrow> stable_code \<Rightarrow> model_card list \<Rightarrow> nat \<Rightarrow> (string, entity_id) btree_map \<Rightarrow> identity_registry
    \<Rightarrow> set_load_error + entity list \<times> (string, entity_id) btree_map \<times> identity_registry" where
  "convert_cards uuid code [] card_index card_ids ids = Inr ([], card_ids, ids)"
| "convert_cards uuid code (raw # rest) card_index card_ids ids =
     (let code_path = field_path (index_path ''cards'' card_index) ''code'' in
      and_then (mint_card_id uuid code (mk_code raw) code_path) (\<lambda>card_id.
      and_then (reject_duplicate_id (ir_seen_ids ids) card_id code_path) (\<lambda>seen.
      let card_ids = btree_insert (stable_code_text (mk_code raw)) card_id card_ids in
      and_then (convert_card uuid code raw card_id card_index (ids\<lparr>ir_seen_ids := seen\<rparr>)) (\<lambda>(entity, ids).
      and_then (convert_cards uuid code rest (card_index + 1) card_ids ids) (\<lambda>(entities, card_ids, ids).
      Inr (entity # entities, card_ids, ids))))))"

definition convert_set :: "uuid_v5 \<Rightarrow> model_set \<Rightarrow> set_load_error + loaded_set" where
  "convert_set uuid s =
     and_then (mint_set_id uuid (ms_code s)) (\<lambda>set_id.
     and_then (convert_cards uuid (ms_code s) (ms_cards s) 0 []
       \<lparr>ir_seen_ids = [set_id \<mapsto> ''id''], ir_ability_ids = []\<rparr>) (\<lambda>(entities, card_ids, ids).
     Inr \<lparr>st_id = set_id, st_code = stable_code_text (ms_code s), st_revision = ms_revision s,
          st_name = ms_name s, st_cards = card_set_new entities, st_card_ids = card_ids,
          st_ability_ids = ir_ability_ids ids\<rparr>))"

definition load_v1 :: "uuid_v5 \<Rightarrow> dto_set \<Rightarrow> set_load_error + loaded_set" where
  "load_v1 uuid decoded = and_then (parse_set_model decoded) (convert_set uuid)"

definition parse_set :: "uuid_v5 \<Rightarrow> dto_set toml_reader \<Rightarrow> u8 list \<Rightarrow> set_load_error + loaded_set" where
  "parse_set uuid toml bytes = and_then (decode_set toml bytes) (load_v1 uuid)"

end
