(* ===== verification/Library.thy ===== *)
theory Library
  imports Set_Convert
begin

text \<open>
  \<open>crates/cards/src/library.rs\<close>: loaded Sets are assembled into one index of qualified keys and one
  card pool, unless a key or an identity occurs twice. The shared pool \<open>Arc<CardSet>\<close> is its value.
\<close>

section \<open>Assembly\<close>

datatype library_error =
  DuplicateQualifiedKey string string string
| DuplicateId entity_id string string

record card_library =
  cl_sets :: "(string, u32) btree_map"
  cl_cards :: "(string, entity_id) btree_map"
  cl_core_cards :: card_set

definition qualified_key :: "string \<Rightarrow> string \<Rightarrow> string" where
  "qualified_key set_code code = set_code @ ''/'' @ code"

fun qualify_set ::
  "string \<Rightarrow> (string, entity_id) btree_map
    \<Rightarrow> (string, entity_id) btree_map \<times> (string, string) btree_map
    \<Rightarrow> library_error + (string, entity_id) btree_map \<times> (string, string) btree_map" where
  "qualify_set set_code [] maps = Inr maps"
| "qualify_set set_code ((code, i) # rest) (cards, owners) =
     (let key = qualified_key set_code code in
      case btree_get owners key of
        Some first_set \<Rightarrow> Inl (DuplicateQualifiedKey key first_set set_code)
      | None \<Rightarrow> qualify_set set_code rest (btree_insert key i cards, btree_insert key set_code owners))"

fun qualify_sets ::
  "loaded_set list \<Rightarrow> (string, entity_id) btree_map \<times> (string, string) btree_map
    \<Rightarrow> library_error + (string, entity_id) btree_map \<times> (string, string) btree_map" where
  "qualify_sets [] maps = Inr maps"
| "qualify_sets (s # sets) maps =
     and_then (qualify_set (st_code s) (st_card_ids s) maps) (qualify_sets sets)"

definition qualified_cards :: "loaded_set list \<Rightarrow> library_error + (string, entity_id) btree_map" where
  "qualified_cards sets = and_then (qualify_sets sets ([], [])) (\<lambda>(cards, _). Inr cards)"

definition insert_unique_id ::
  "(entity_id \<rightharpoonup> string) \<Rightarrow> entity_id \<Rightarrow> string \<Rightarrow> library_error + (entity_id \<rightharpoonup> string)" where
  "insert_unique_id ids i key =
     (case ids i of
        Some first_key \<Rightarrow> Inl (DuplicateId i first_key key)
      | None \<Rightarrow> Inr (ids(i \<mapsto> key)))"

fun insert_unique_ids ::
  "(entity_id \<times> string) list \<Rightarrow> (entity_id \<rightharpoonup> string) \<Rightarrow> library_error + (entity_id \<rightharpoonup> string)" where
  "insert_unique_ids [] ids = Inr ids"
| "insert_unique_ids ((i, key) # rest) ids = and_then (insert_unique_id ids i key) (insert_unique_ids rest)"

text \<open>The identities of one Set in the order they are inserted, each with its key.\<close>

definition set_identities :: "loaded_set \<Rightarrow> (entity_id \<times> string) list" where
  "set_identities s =
     (st_id s, ''set:'' @ st_code s)
     # map (\<lambda>(code, i). (i, qualified_key (st_code s) code)) (st_card_ids s)
     @ map (\<lambda>((code, ability), i). (i, qualified_key (st_code s) code @ ''#'' @ ability)) (st_ability_ids s)"

definition reject_duplicate_ids :: "loaded_set list \<Rightarrow> library_error + unit" where
  "reject_duplicate_ids sets =
     and_then (insert_unique_ids (concat (map set_identities sets)) Map.empty) (\<lambda>_. Inr ())"

definition from_sets :: "loaded_set list \<Rightarrow> library_error + card_library" where
  "from_sets sets =
     and_then (qualified_cards sets) (\<lambda>cards.
     and_then (reject_duplicate_ids sets) (\<lambda>_.
     Inr \<lparr>cl_sets = btree_collect (map (\<lambda>s. (st_code s, st_revision s)) sets),
          cl_cards = cards,
          cl_core_cards = card_set_new (concat (map (\<lambda>s. cs_entities (st_cards s)) sets))\<rparr>))"

definition set_revision :: "card_library \<Rightarrow> string \<Rightarrow> u32 option" where
  "set_revision library set_code = btree_get (cl_sets library) set_code"

definition library_card_id :: "card_library \<Rightarrow> string \<Rightarrow> entity_id option" where
  "library_card_id library key = btree_get (cl_cards library) key"

section \<open>What assembly accepts\<close>

definition set_keys :: "loaded_set \<Rightarrow> (string \<times> entity_id) list" where
  "set_keys s = map (\<lambda>(code, i). (qualified_key (st_code s) code, i)) (st_card_ids s)"

lemma insert_unique_ids_Inr:
  "(\<exists>ids'. insert_unique_ids kvs ids = Inr ids') \<longleftrightarrow>
    distinct (map fst kvs) \<and> (\<forall>i \<in> set (map fst kvs). ids i = None)"
proof (induction kvs arbitrary: ids)
  case Nil
  then show ?case by simp
next
  case (Cons kv kvs)
  obtain i key where kv: "kv = (i, key)" by fastforce
  show ?case
  proof (cases "ids i")
    case None
    then have "insert_unique_ids (kv # kvs) ids = insert_unique_ids kvs (ids(i \<mapsto> key))"
      by (simp add: kv insert_unique_id_def)
    moreover have "(\<forall>j \<in> set (map fst kvs). (ids(i \<mapsto> key)) j = None) \<longleftrightarrow>
        i \<notin> set (map fst kvs) \<and> (\<forall>j \<in> set (map fst kvs). ids j = None)"
      by (auto split: if_splits)
    ultimately show ?thesis
      using None by (simp only: Cons.IH) (auto simp: kv)
  qed (simp add: kv insert_unique_id_def)
qed

lemma reject_duplicate_ids_Inr:
  "reject_duplicate_ids sets = Inr () \<longleftrightarrow> distinct (map fst (concat (map set_identities sets)))"
  using insert_unique_ids_Inr [of "concat (map set_identities sets)" Map.empty]
  by (auto simp: reject_duplicate_ids_def and_then_Inr)

text \<open>The loop over all Sets as one loop over their keys, each with its identity and its Set.\<close>

fun insert_new ::
  "(string \<times> entity_id \<times> string) list
    \<Rightarrow> (string, entity_id) btree_map \<times> (string, string) btree_map
    \<Rightarrow> library_error + (string, entity_id) btree_map \<times> (string, string) btree_map" where
  "insert_new [] maps = Inr maps"
| "insert_new ((key, i, c) # rest) (cards, owners) =
     (case btree_get owners key of
        Some first_set \<Rightarrow> Inl (DuplicateQualifiedKey key first_set c)
      | None \<Rightarrow> insert_new rest (btree_insert key i cards, btree_insert key c owners))"

definition owned_keys :: "loaded_set \<Rightarrow> (string \<times> entity_id \<times> string) list" where
  "owned_keys s = map (\<lambda>(code, i). (qualified_key (st_code s) code, i, st_code s)) (st_card_ids s)"

lemma owned_keys: "map (\<lambda>(k, i, c). (k, i)) (owned_keys s) = set_keys s"
  by (simp add: owned_keys_def set_keys_def split_def comp_def)

lemma insert_new_append: "insert_new (xs @ ys) maps = and_then (insert_new xs maps) (insert_new ys)"
  by (induction xs maps rule: insert_new.induct) (simp_all split: option.split)

lemma qualify_set_new:
  "qualify_set c kvs maps = insert_new (map (\<lambda>(code, i). (qualified_key c code, i, c)) kvs) maps"
  by (induction c kvs maps rule: qualify_set.induct) (simp_all add: Let_def split: option.split)

lemma qualify_sets_new: "qualify_sets sets maps = insert_new (concat (map owned_keys sets)) maps"
proof (induction sets arbitrary: maps)
  case (Cons s sets)
  have "qualify_sets sets = insert_new (concat (map owned_keys sets))" using Cons.IH by (rule ext)
  then show ?case by (simp add: insert_new_append qualify_set_new owned_keys_def [symmetric])
qed simp

lemma insert_new_Inr:
  "insert_new xs (cards, owners) = Inr (cards', owners') \<longleftrightarrow>
    distinct (map fst xs) \<and> (\<forall>k \<in> set (map fst xs). btree_get owners k = None)
    \<and> cards' = btree.insert_all (map (\<lambda>(k, i, c). (k, i)) xs) cards
    \<and> owners' = btree.insert_all (map (\<lambda>(k, i, c). (k, c)) xs) owners"
proof (induction xs arbitrary: cards owners)
  case Nil
  then show ?case by (auto simp: btree.insert_all_def)
next
  case (Cons x xs)
  obtain k i c where x: "x = (k, i, c)" by (cases x)
  from Cons.IH [of "btree_insert k i cards" "btree_insert k c owners"] show ?case
    by (cases "btree_get owners k") (auto simp: x btree_get_insert btree.insert_all_def split: if_splits)
qed

definition all_keys :: "loaded_set list \<Rightarrow> (string \<times> entity_id) list" where
  "all_keys sets = concat (map set_keys sets)"

lemma all_keys: "map (\<lambda>(k, i, c). (k, i)) (concat (map owned_keys sets)) = all_keys sets"
  by (simp add: all_keys_def map_concat comp_def owned_keys)

lemma qualified_cards_Inr:
  "qualified_cards sets = Inr cards \<longleftrightarrow>
    distinct (map fst (all_keys sets)) \<and> cards = btree.insert_all (all_keys sets) []"
proof -
  have "map fst (concat (map owned_keys sets)) = map fst (all_keys sets)"
    unfolding all_keys [symmetric] by (simp add: split_def comp_def)
  then show ?thesis
    using insert_new_Inr [of "concat (map owned_keys sets)" "[]" "[]"]
    by (auto simp: qualified_cards_def and_then_Inr qualify_sets_new all_keys btree_get_def)
qed

lemma map_of_rev: "distinct (map fst xs) \<Longrightarrow> map_of (rev xs) = map_of xs"
  by (rule map_of_inject_set [THEN iffD2]) (simp_all add: rev_map [symmetric])

lemma insert_all_lookup:
  "distinct (map fst xs) \<Longrightarrow> btree_get (btree.insert_all xs []) k = map_of xs k"
  using btree.get_insert_all [of xs "[]" k]
  by (simp add: map_of_rev) (simp add: btree_get_def split: option.split)

lemma from_sets_Inr:
  "from_sets sets = Inr library \<longleftrightarrow>
    distinct (map fst (all_keys sets)) \<and> distinct (map fst (concat (map set_identities sets)))
    \<and> library = \<lparr>cl_sets = btree_collect (map (\<lambda>s. (st_code s, st_revision s)) sets),
          cl_cards = btree.insert_all (all_keys sets) [],
          cl_core_cards = card_set_new (concat (map (\<lambda>s. cs_entities (st_cards s)) sets))\<rparr>"
  by (auto simp: from_sets_def and_then_Inr qualified_cards_Inr reject_duplicate_ids_Inr)

lemma library_card_id_Some:
  assumes "from_sets sets = Inr library"
  shows "library_card_id library key = Some i \<longleftrightarrow> (key, i) \<in> set (all_keys sets)"
proof -
  from assms have "distinct (map fst (all_keys sets))" and "cl_cards library = btree.insert_all (all_keys sets) []"
    by (simp_all add: from_sets_Inr)
  then show ?thesis by (simp add: library_card_id_def insert_all_lookup)
qed

end
