(* ===== verification/Deck.thy ===== *)
theory Deck
  imports Library
begin

text \<open>
  \<open>crates/cards/src/deck.rs\<close>: a Deck document is decoded and resolved against a card library. The
  decoded document comes from a \<open>toml_reader\<close>, as for Sets; the two maps of the resolution are
  ordered maps.
\<close>

section \<open>Errors and documents\<close>

datatype deck_stable_key_kind = Deck | Set | Card | QualifiedCard

datatype deck_load_cause =
  InvalidUtf8 nat "nat option"
| TomlSyntax string
| MissingSchemaVersion
| InvalidSchemaVersion string
| UnsupportedSchemaVersion int
| SchemaDecode string
| InvalidStableKey deck_stable_key_kind string
| NameMustNotBeEmpty
| DuplicateSetRequirement string string
| RequiredSetUnavailable string
| SetRevisionMismatch string u32 u32
| MissingSetRequirement string
| UnresolvedCard string
| StarterMustBeBase string
| StarterInBody string
| QuantityMustBePositive
| CopyLimitExceeded string u32 u32
| BodyCardCount u32 u32

record deck_load_error =
  ke_document :: document_kind
  ke_phase :: load_phase
  ke_schema_version :: "int option"
  ke_path :: string
  ke_cause :: deck_load_cause

definition deck_load_error_new ::
  "load_phase \<Rightarrow> int option \<Rightarrow> string \<Rightarrow> deck_load_cause \<Rightarrow> deck_load_error" where
  "deck_load_error_new phase schema_version path cause =
     \<lparr>ke_document = document_kind.Deck, ke_phase = phase, ke_schema_version = schema_version,
      ke_path = path, ke_cause = cause\<rparr>"

record deck =
  dk_id :: string
  dk_name :: string
  dk_starter :: entity_id
  dk_body :: "entity_id list"

record set_requirement_dto =
  sr_set :: string
  sr_revision :: u32

record card_quantity_dto =
  cq_card :: string
  cq_quantity :: u32

record deck_dto =
  kd_schema_version :: u32
  kd_id :: string
  kd_name :: string
  kd_starter :: string
  kd_requires :: "set_requirement_dto list"
  kd_cards :: "card_quantity_dto list"

record qualified_card =
  qc_key :: string
  qc_set :: string

definition deck_semantic_error :: "string \<Rightarrow> deck_load_cause \<Rightarrow> deck_load_error" where
  "deck_semantic_error path cause = deck_load_error_new Semantics (Some 1) path cause"

section \<open>Decoding\<close>

definition deck_decode_utf8 :: "u8 list \<Rightarrow> deck_load_error + string" where
  "deck_decode_utf8 bytes =
     map_err (\<lambda>(valid_up_to, error_len).
       deck_load_error_new Utf8 None ''$'' (deck_load_cause.InvalidUtf8 valid_up_to error_len))
       (from_utf8 bytes)"

definition deck_read_version :: "'d toml_reader \<Rightarrow> string \<Rightarrow> deck_load_error + int" where
  "deck_read_version toml source =
     (case tm_schema_version toml source of
        Inl message \<Rightarrow> Inl (deck_load_error_new Version None ''$'' (deck_load_cause.TomlSyntax message))
      | Inr None \<Rightarrow>
          Inl (deck_load_error_new Version None ''schema_version'' deck_load_cause.MissingSchemaVersion)
      | Inr (Some (Inl type_str)) \<Rightarrow>
          Inl (deck_load_error_new Version None ''schema_version''
            (deck_load_cause.InvalidSchemaVersion type_str))
      | Inr (Some (Inr version)) \<Rightarrow> Inr version)"

definition deck_decode_v1 :: "deck_dto toml_reader \<Rightarrow> string \<Rightarrow> deck_load_error + deck_dto" where
  "deck_decode_v1 toml source =
     (case tm_document toml source of
        Inl message \<Rightarrow>
          Inl (deck_load_error_new Decode (Some 1) ''$'' (deck_load_cause.SchemaDecode message))
      | Inr (Inl (path, message)) \<Rightarrow>
          Inl (deck_load_error_new Decode (Some 1) (if path = [] then ''$'' else path)
            (deck_load_cause.SchemaDecode message))
      | Inr (Inr decoded) \<Rightarrow> Inr decoded)"

section \<open>References\<close>

text \<open>\<open>bytes.windows(2)\<close> and the rest of the check, as the Deck loader writes it.\<close>

definition deck_key_syntax :: "string \<Rightarrow> bool" where
  "deck_key_syntax t \<longleftrightarrow>
     1 \<le> length t \<and> length t \<le> 64
     \<and> (case t of c # _ \<Rightarrow> is_ascii_lowercase c | [] \<Rightarrow> False)
     \<and> list_all (\<lambda>c. is_ascii_lowercase c \<or> is_ascii_digit c \<or> c = CHR ''-'') t
     \<and> last_of t \<noteq> Some (CHR ''-'')
     \<and> \<not> double_hyphen t"

definition require_stable_key ::
  "string \<Rightarrow> deck_stable_key_kind \<Rightarrow> string \<Rightarrow> deck_load_error + unit" where
  "require_stable_key v kind path =
     (if deck_key_syntax v then Inr ()
      else Inl (deck_semantic_error path (deck_load_cause.InvalidStableKey kind v)))"

definition invalid_qualified :: "string \<Rightarrow> string \<Rightarrow> deck_load_error" where
  "invalid_qualified v path =
     deck_semantic_error path (deck_load_cause.InvalidStableKey QualifiedCard v)"

text \<open>\<open>str::split\<close> on one character.\<close>

fun split_char :: "char \<Rightarrow> string \<Rightarrow> string list" where
  "split_char c [] = [[]]"
| "split_char c (x # xs) =
     (if x = c then [] # split_char c xs
      else case split_char c xs of p # ps \<Rightarrow> (x # p) # ps | [] \<Rightarrow> [[x]])"

definition parse_qualified :: "string \<Rightarrow> string \<Rightarrow> deck_load_error + qualified_card" where
  "parse_qualified v path =
     (case split_char CHR ''/'' v of
        set_code # code # rest \<Rightarrow>
          if rest \<noteq> [] \<or> \<not> deck_key_syntax set_code \<or> \<not> deck_key_syntax code
          then Inl (invalid_qualified v path)
          else Inr \<lparr>qc_key = v, qc_set = set_code\<rparr>
      | _ \<Rightarrow> Inl (invalid_qualified v path))"

definition require_bound ::
  "qualified_card \<Rightarrow> (string, u32) btree_map \<Rightarrow> string \<Rightarrow> deck_load_error + unit" where
  "require_bound c requirements path =
     (if btree_get requirements (qc_set c) \<noteq> None then Inr ()
      else Inl (deck_semantic_error path (MissingSetRequirement (qc_set c))))"

definition resolve_card ::
  "card_library \<Rightarrow> qualified_card \<Rightarrow> string \<Rightarrow> deck_load_error + entity_id" where
  "resolve_card library c path =
     ok_or (deck_semantic_error path (UnresolvedCard (qc_key c))) (library_card_id library (qc_key c))"

definition require_base_starter ::
  "card_library \<Rightarrow> entity_id \<Rightarrow> string \<Rightarrow> deck_load_error + unit" where
  "require_base_starter library i key =
     (if Option.bind (card_set_get (cl_core_cards library) i) (entity_get form_field) = Some form.Base
      then Inr ()
      else Inl (deck_semantic_error ''starter'' (StarterMustBeBase key)))"

section \<open>Requirements\<close>

fun resolve_requirements_from ::
  "nat \<Rightarrow> set_requirement_dto list \<Rightarrow> card_library \<Rightarrow> (string, u32) btree_map
    \<Rightarrow> (string, string) btree_map \<Rightarrow> deck_load_error + (string, u32) btree_map" where
  "resolve_requirements_from index [] library requirements paths = Inr requirements"
| "resolve_requirements_from index (r # rest) library requirements paths =
     (let path = index_path ''requires'' index in
      and_then (require_stable_key (sr_set r) deck_stable_key_kind.Set (field_path path ''set'')) (\<lambda>_.
      case btree_get paths (sr_set r) of
        Some first_path \<Rightarrow>
          Inl (deck_semantic_error (field_path path ''set'') (DuplicateSetRequirement (sr_set r) first_path))
      | None \<Rightarrow>
          (case set_revision library (sr_set r) of
             None \<Rightarrow>
               Inl (deck_semantic_error (field_path path ''set'') (RequiredSetUnavailable (sr_set r)))
           | Some available \<Rightarrow>
               if available \<noteq> sr_revision r
               then Inl (deck_semantic_error (field_path path ''revision'')
                 (SetRevisionMismatch (sr_set r) (sr_revision r) available))
               else
                 resolve_requirements_from (index + 1) rest library
                   (btree_insert (sr_set r) (sr_revision r) requirements)
                   (btree_insert (sr_set r) path paths))))"

definition resolve_requirements ::
  "set_requirement_dto list \<Rightarrow> card_library \<Rightarrow> deck_load_error + (string, u32) btree_map" where
  "resolve_requirements raw library = resolve_requirements_from 0 raw library [] []"

section \<open>The body\<close>

definition copy_limit :: u32 where "copy_limit = 2"

definition body_size :: u32 where "body_size = 20"

fun resolve_items ::
  "nat \<Rightarrow> card_quantity_dto list \<Rightarrow> card_library \<Rightarrow> (string, u32) btree_map \<Rightarrow> string
    \<Rightarrow> entity_id list \<Rightarrow> (string, u32) btree_map \<Rightarrow> deck_load_error + entity_id list" where
  "resolve_items index [] library requirements starter body copies = Inr body"
| "resolve_items index (item # rest) library requirements starter body copies =
     (let path = index_path ''cards'' index in
      and_then (parse_qualified (cq_card item) (field_path path ''card'')) (\<lambda>c.
      and_then (require_bound c requirements (field_path path ''card'')) (\<lambda>_.
      if cq_quantity item = 0
      then Inl (deck_semantic_error (field_path path ''quantity'') QuantityMustBePositive)
      else if qc_key c = starter
      then Inl (deck_semantic_error (field_path path ''card'') (StarterInBody (qc_key c)))
      else
      and_then (resolve_card library c (field_path path ''card'')) (\<lambda>i.
      let count = saturating_add (case btree_get copies (qc_key c) of Some n \<Rightarrow> n | None \<Rightarrow> 0)
            (cq_quantity item) in
      if count > copy_limit
      then Inl (deck_semantic_error (field_path path ''quantity'')
        (CopyLimitExceeded (qc_key c) count copy_limit))
      else
        resolve_items (index + 1) rest library requirements starter
          (body @ replicate (unat (cq_quantity item)) i) (btree_insert (qc_key c) count copies)))))"

definition u32_try_from_usize :: "nat \<Rightarrow> u32 option" where
  "u32_try_from_usize n = (if n < 2 ^ 32 then Some (of_nat n) else None)"

definition resolve_body ::
  "card_quantity_dto list \<Rightarrow> card_library \<Rightarrow> (string, u32) btree_map \<Rightarrow> string
    \<Rightarrow> deck_load_error + entity_id list" where
  "resolve_body raw library requirements starter =
     and_then (resolve_items 0 raw library requirements starter [] []) (\<lambda>body.
     if length body \<noteq> unat body_size
     then Inl (deck_semantic_error ''cards'' (BodyCardCount body_size
       (case u32_try_from_usize (length body) of Some n \<Rightarrow> n | None \<Rightarrow> u32_max)))
     else Inr body)"

section \<open>Decks\<close>

definition resolve :: "deck_dto \<Rightarrow> card_library \<Rightarrow> deck_load_error + deck" where
  "resolve raw library =
     (if uint (kd_schema_version raw) \<noteq> 1
      then Inl (deck_load_error_new Version (Some (uint (kd_schema_version raw))) ''schema_version''
        (deck_load_cause.UnsupportedSchemaVersion (uint (kd_schema_version raw))))
      else
        and_then (require_stable_key (kd_id raw) deck_stable_key_kind.Deck ''id'') (\<lambda>_.
        if trims_empty (kd_name raw)
        then Inl (deck_semantic_error ''name'' deck_load_cause.NameMustNotBeEmpty)
        else
        and_then (resolve_requirements (kd_requires raw) library) (\<lambda>requirements.
        and_then (parse_qualified (kd_starter raw) ''starter'') (\<lambda>starter_ref.
        and_then (require_bound starter_ref requirements ''starter'') (\<lambda>_.
        and_then (resolve_card library starter_ref ''starter'') (\<lambda>starter_id.
        and_then (require_base_starter library starter_id (qc_key starter_ref)) (\<lambda>_.
        and_then (resolve_body (kd_cards raw) library requirements (qc_key starter_ref)) (\<lambda>body.
        Inr \<lparr>dk_id = kd_id raw, dk_name = kd_name raw, dk_starter = starter_id, dk_body = body\<rparr>))))))))"

definition parse_deck ::
  "deck_dto toml_reader \<Rightarrow> u8 list \<Rightarrow> card_library \<Rightarrow> deck_load_error + deck" where
  "parse_deck toml bytes library =
     and_then (deck_decode_utf8 bytes) (\<lambda>source.
     and_then (deck_read_version toml source) (\<lambda>version.
     if version \<noteq> 1
     then Inl (deck_load_error_new Version (Some version) ''schema_version''
       (deck_load_cause.UnsupportedSchemaVersion version))
     else and_then (deck_decode_v1 toml source) (\<lambda>decoded. resolve decoded library)))"

end
