(* ===== verification/Catalog.thy ===== *)
theory Catalog
  imports Deck
begin

text \<open>
  \<open>crates/cards/src/built_in.rs\<close>: the embedded catalog, one Set and two Decks through the public
  loaders. The bytes of the three embedded documents are arguments.
\<close>

datatype built_in_error =
  Foundations set_load_error
| LibraryError library_error
| SetPaths deck_load_error
| BarrowHerd deck_load_error

record built_in_catalog =
  bc_library :: card_library
  bc_set_paths :: deck
  bc_barrow_herd :: deck

definition load_catalog ::
  "uuid_v5 \<Rightarrow> dto_set toml_reader \<Rightarrow> deck_dto toml_reader \<Rightarrow> u8 list \<Rightarrow> u8 list \<Rightarrow> u8 list
    \<Rightarrow> built_in_error + built_in_catalog" where
  "load_catalog uuid set_toml deck_toml foundations_bytes set_paths_bytes barrow_herd_bytes =
     and_then (map_err Foundations (parse_set uuid set_toml foundations_bytes)) (\<lambda>foundations.
     and_then (map_err LibraryError (from_sets [foundations])) (\<lambda>library.
     and_then (map_err SetPaths (parse_deck deck_toml set_paths_bytes library)) (\<lambda>set_paths.
     and_then (map_err BarrowHerd (parse_deck deck_toml barrow_herd_bytes library)) (\<lambda>barrow_herd.
     Inr \<lparr>bc_library = library, bc_set_paths = set_paths, bc_barrow_herd = barrow_herd\<rparr>))))"

end
