(* ===== verification/Setup.thy ===== *)
theory Setup
  imports Catalog Scenario
begin

text \<open>
  \<open>crates/cli/src/setup.rs\<close>: the opening of a match from two Decks and a seed. The random
  generator is a parameter: \<open>StdRng::seed_from_u64\<close> and \<open>SliceRandom::shuffle\<close>, which reorders the
  cards and moves the generator on. \<open>split_at\<close> panics past the end, so dealing answers an option.
\<close>

record 'g generator =
  rg_seed_from :: "u64 \<Rightarrow> 'g"
  rg_shuffle :: "entity_id list \<Rightarrow> 'g \<Rightarrow> entity_id list \<times> 'g"

text \<open>What \<open>shuffle\<close> documents: the same cards, in some order.\<close>

definition shuffles :: "'g generator \<Rightarrow> bool" where
  "shuffles rng \<longleftrightarrow> (\<forall>cards g. mset (fst (rg_shuffle rng cards g)) = mset cards)"

datatype setup_error = Scenario invalid_scenario

definition hand_size :: nat where "hand_size = 5"

definition prize_count :: nat where "prize_count = 2"

definition split_at :: "nat \<Rightarrow> 'a list \<Rightarrow> ('a list \<times> 'a list) option" where
  "split_at n xs = (if n \<le> length xs then Some (take n xs, drop n xs) else None)"

definition mint_instance :: "u32 \<Rightarrow> card_instance_id \<times> u32" where
  "mint_instance next_instance = (CardInstanceId next_instance, next_instance + 1)"

fun mint_cards :: "u32 \<Rightarrow> entity_id list \<Rightarrow> card_ref list \<times> u32" where
  "mint_cards next_instance [] = ([], next_instance)"
| "mint_cards next_instance (def # defs) =
     (let (i, next_instance) = mint_instance next_instance;
          (refs, next_instance) = mint_cards next_instance defs
      in (\<lparr>cr_instance = i, cr_def = def\<rparr> # refs, next_instance))"

definition deal ::
  "'g generator \<Rightarrow> deck \<Rightarrow> u32 \<Rightarrow> 'g \<Rightarrow> (scenario_player \<times> u32 \<times> 'g) option" where
  "deal rng deck next_instance shuffler =
     (let (starter_instance, next_instance) = mint_instance next_instance;
          starter = \<lparr>cr_instance = starter_instance, cr_def = dk_starter deck\<rparr>;
          (shuffled, shuffler) = rg_shuffle rng (dk_body deck) shuffler;
          (body, next_instance) = mint_cards next_instance shuffled in
      case split_at hand_size body of
        None \<Rightarrow> None
      | Some (hand, rest) \<Rightarrow>
          (case split_at prize_count rest of
             None \<Rightarrow> None
           | Some (prizes, deck) \<Rightarrow>
               Some (\<lparr>sp_deck = deck, sp_hand = hand, sp_prizes = prizes, sp_discard = [],
                 sp_mana = mana_bank_default, sp_main_losses = 0,
                 sp_main = Some \<lparr>sc_chain = [starter], sc_damage = 0, sc_readiness = Exhausted\<rparr>,
                 sp_bench = (\<lambda>_. None)\<rparr>, next_instance, shuffler)))"

definition initial_scenario :: "'g generator \<Rightarrow> deck \<Rightarrow> deck \<Rightarrow> u64 \<Rightarrow> scenario option" where
  "initial_scenario rng deck_one deck_two seed =
     (case deal rng deck_one 1 (rg_seed_from rng seed) of
        None \<Rightarrow> None
      | Some (one, next_instance, shuffler) \<Rightarrow>
          (case deal rng deck_two next_instance shuffler of
             None \<Rightarrow> None
           | Some (two, _, _) \<Rightarrow>
               Some \<lparr>sn_players = pp_new one two, sn_active_player = player_id.One, sn_coin = Some Coin\<rparr>))"

definition initial_state ::
  "'g generator \<Rightarrow> card_library \<Rightarrow> deck \<Rightarrow> deck \<Rightarrow> u64 \<Rightarrow> (setup_error + game_state) option" where
  "initial_state rng library deck_one deck_two seed =
     map_option (\<lambda>scenario. map_err Scenario (from_scenario (cl_core_cards library) scenario))
       (initial_scenario rng deck_one deck_two seed)"

end
