(* ===== verification/Server.thy ===== *)
theory Server
  imports Protocol Recorder Setup
begin

text \<open>
  \<open>crates/cli/src/server.rs\<close>: the server of one match. The select loop is a step function on the
  state of the session, one event at a time; the accept branch and the tasks that it spawns only turn
  connections into these events. Sockets, channels and timers are the parameter \<open>channel_ops\<close>, a
  handle of type \<open>'c\<close> for each connection and a network state of type \<open>'n\<close>; files are \<open>file_ops\<close>.
  \<open>thiserror\<close>'s \<open>Display\<close> texts are not modelled.
\<close>

section \<open>Errors\<close>

datatype error_kind = AlreadyExists | TimedOut | BrokenPipe | UnexpectedEof | InvalidData | Other

datatype io_error = IoError (io_kind: error_kind) string

datatype serve_error =
  ReadDeck string io_error
| DeckTooLarge string
| ParseDeck string deck_load_error
| Catalog built_in_error
| Setup setup_error
| MissingFoundations
| Bind string io_error
| Output string io_error
| Recording recording_error
| Interrupt io_error
| Delivery io_error

section \<open>Frames\<close>

definition max_client_line :: nat where
  "max_client_line = 64 * 1024"

definition max_server_line :: nat where
  "max_server_line = 1024 * 1024"

text \<open>The loop of \<open>read_frame\<close> over the bytes that arrive before the connection is closed: the frame
  without its newline, and what is left to read.\<close>

function read_frame_from :: "nat \<Rightarrow> u8 list \<Rightarrow> u8 list \<Rightarrow> io_error + (u8 list \<times> u8 list)" where
  "read_frame_from limit bytes input =
     (if length bytes = limit then Inl (IoError Other ''frame limit'')
      else
        (case input of
           [] \<Rightarrow> Inl (IoError Other ''closed'')
         | byte # rest \<Rightarrow>
             if byte = 10 then Inr (bytes, rest) else read_frame_from limit (bytes @ [byte]) rest))"
  by pat_completeness auto

termination read_frame_from
  by (relation "measure (\<lambda>(_, _, input). length input)") simp_all

declare read_frame_from.simps [simp del]

definition read_frame :: "u8 list \<Rightarrow> io_error + (u8 list \<times> u8 list)" where
  "read_frame input = read_frame_from max_client_line [] input"

text \<open>\<open>serde_json::to_vec\<close> of an envelope is an argument.\<close>

definition server_frame ::
  "(server_envelope \<Rightarrow> string + u8 list) \<Rightarrow> server_envelope \<Rightarrow> io_error + u8 list" where
  "server_frame to_vec envelope =
     and_then (map_err (IoError Other) (to_vec envelope)) (\<lambda>bytes.
     if length bytes \<ge> max_server_line then Inl (IoError Other ''frame limit'')
     else Inr (bytes @ [10]))"

section \<open>Rules\<close>

definition rejection :: "u64 \<Rightarrow> string \<Rightarrow> server_envelope" where
  "rejection request_id reason = server_envelope.Rejected (Some request_id) reason"

fun rejection_reason :: "action_error \<Rightarrow> string" where
  "rejection_reason action_error.NotYourDecision = ''not your decision''"
| "rejection_reason action_error.GameAlreadyOver = ''game already over''"
| "rejection_reason action_error.GameBroken = ''game is broken''"
| "rejection_reason action_error.WrongPhase = ''wrong phase''"
| "rejection_reason action_error.EmptyPosition = ''empty position''"
| "rejection_reason action_error.UnknownCard = ''unknown card''"
| "rejection_reason (action_error.InsufficientMana short) =
     ''insufficient mana: matter '' @ number_text (mb_matter short) @ '' mind '' @ number_text (mb_mind short)
     @ '' spirit '' @ number_text (mb_spirit short)"
| "rejection_reason action_error.SummonExhausted = ''summon exhausted''"
| "rejection_reason action_error.NormalAttackAlreadyUsed = ''normal attack already used''"
| "rejection_reason action_error.NormalRetreatAlreadyUsed = ''normal retreat already used''"
| "rejection_reason action_error.AlreadyUpgradedThisTurn = ''already upgraded this turn''"
| "rejection_reason action_error.PlayedThisTurn = ''played this turn''"
| "rejection_reason action_error.IllegalUpgradeTarget = ''illegal upgrade target''"
| "rejection_reason action_error.InvalidTarget = ''invalid target''"
| "rejection_reason action_error.PendingInputMismatch = ''pending input mismatch''"
| "rejection_reason action_error.InvalidManaHint = ''invalid mana hint''"

definition request_is_next :: "u64 \<Rightarrow> u64 \<Rightarrow> bool" where
  "request_is_next last_request request \<longleftrightarrow> request > last_request"

definition accepts_revision :: "u64 \<Rightarrow> u64 \<Rightarrow> game_action \<Rightarrow> game_status \<Rightarrow> bool" where
  "accepts_revision revision based_on_revision action status \<longleftrightarrow>
     (case status of game_status.Playing \<Rightarrow> True | _ \<Rightarrow> False)
     \<and> (based_on_revision = revision \<or> (case action of game_action.Resign _ \<Rightarrow> True | _ \<Rightarrow> False))"

fun join_decision :: "string + client_envelope \<Rightarrow> string + seat" where
  "join_decision (Inr (client_envelope.Join version seat)) =
     (if version = protocol_version then Inr seat else Inl ''unsupported version'')"
| "join_decision (Inr (client_envelope.Submit version _ _ _)) =
     (if version \<noteq> protocol_version then Inl ''unsupported version'' else Inl ''join required'')"
| "join_decision (Inl _) = Inl ''join required''"

section \<open>Events\<close>

text \<open>\<open>Interrupted\<close> is the interrupt branch of the select, \<open>AcceptFailed\<close> an error of the listener.\<close>

datatype 'c session_event =
  Joined seat 'c
| Submit seat u64 u64 action_v1
| UnsupportedVersion seat u64
| Gone seat
| Interrupted "io_error + unit"
| AcceptFailed io_error

text \<open>The loop of an admitted connection, over the frames it reads, each decoded or not: the events it
  sends, until the first that ends it or the end of the frames.\<close>

fun connection_events :: "seat \<Rightarrow> (string + client_envelope) list \<Rightarrow> 'c session_event list" where
  "connection_events seat [] = [Gone seat]"
| "connection_events seat (Inr (client_envelope.Submit version request_id based_on_revision action) # frames) =
     (if version = protocol_version
      then session_event.Submit seat request_id based_on_revision action # connection_events seat frames
      else [UnsupportedVersion seat request_id])"
| "connection_events seat (_ # frames) = [Gone seat]"

section \<open>Deliveries\<close>

datatype send_outcome =
  QueueTimeout
| QueueClosed
| WriterStopped
| Answered "io_error + unit"

record ('c, 'n) channel_ops =
  ch_send :: "'c \<Rightarrow> server_envelope \<Rightarrow> 'n \<Rightarrow> send_outcome \<times> 'n"
  ch_admit :: "'c \<Rightarrow> bool \<Rightarrow> 'n \<Rightarrow> 'n"

definition deliver ::
  "('c, 'n) channel_ops \<Rightarrow> 'c \<Rightarrow> server_envelope \<Rightarrow> 'n \<Rightarrow> (serve_error + unit) \<times> 'n" where
  "deliver ops client envelope n =
     (let (outcome, n) = ch_send ops client envelope n in
      (case outcome of
         QueueTimeout \<Rightarrow> Inl (Delivery (IoError TimedOut ''queue timeout''))
       | QueueClosed \<Rightarrow> Inl (Delivery (IoError BrokenPipe ''connection closed''))
       | WriterStopped \<Rightarrow> Inl (Delivery (IoError BrokenPipe ''writer stopped''))
       | Answered result \<Rightarrow> map_err Delivery result, n))"

definition seats :: "seat list" where
  "seats = [seat.One, seat.Two]"

text \<open>The clients are the array of two that \<open>seat_index\<close> indexes, a function of the seat.\<close>

definition stop_all ::
  "('c, 'n) channel_ops \<Rightarrow> (seat \<Rightarrow> 'c option) \<Rightarrow> string \<Rightarrow> 'n \<Rightarrow> 'n" where
  "stop_all ops clients reason n =
     fold (\<lambda>client n. snd (deliver ops client (server_envelope.Stopped reason) n)) (filter_map clients seats) n"

record broadcast_input =
  bc_state :: game_state
  bc_descriptions :: card_descriptions
  bc_identities :: card_identity_map
  bc_events :: "game_event list"
  bc_revision :: u64
  bc_reply :: "u64 option"
  bc_requester :: "seat option"
  bc_result :: "submission_result option"

definition broadcast_envelope :: "broadcast_input \<Rightarrow> seat \<Rightarrow> server_envelope" where
  "broadcast_envelope input seat =
     (let view = player_view (bc_state input) (player_id_of_seat seat) (bc_descriptions input);
          notices = player_notices (bc_events input) (bc_identities input) (player_id_of_seat seat);
          mine = (bc_requester input = Some seat) in
      case pv_outcome view of
        Some outcome \<Rightarrow> Finished outcome view notices (if mine then bc_reply input else None)
      | None \<Rightarrow> Update (bc_revision input) view notices (if mine then bc_reply input else None)
          (if mine then bc_result input else None))"

definition broadcast_to ::
  "('c, 'n) channel_ops \<Rightarrow> (seat \<Rightarrow> 'c option) \<Rightarrow> broadcast_input \<Rightarrow> seat
    \<Rightarrow> serve_error option \<times> 'n \<Rightarrow> serve_error option \<times> 'n" where
  "broadcast_to ops clients input seat acc =
     (let (failure, n) = acc in
      case clients seat of
        None \<Rightarrow> (failure, n)
      | Some client \<Rightarrow>
          (case deliver ops client (broadcast_envelope input seat) n of
             (Inr _, n) \<Rightarrow> (failure, n)
           | (Inl error, n) \<Rightarrow> (case failure of None \<Rightarrow> (Some error, n) | Some e \<Rightarrow> (Some e, n))))"

definition broadcast ::
  "('c, 'n) channel_ops \<Rightarrow> (seat \<Rightarrow> 'c option) \<Rightarrow> broadcast_input \<Rightarrow> 'n \<Rightarrow> (serve_error + unit) \<times> 'n" where
  "broadcast ops clients input n =
     (let (failure, n) = fold (broadcast_to ops clients input) seats (None, n) in
      (case failure of None \<Rightarrow> Inr () | Some error \<Rightarrow> Inl error, n))"

section \<open>The session\<close>

record ('c, 'w, 'n) session =
  se_clients :: "seat \<Rightarrow> 'c option"
  se_revision :: u64
  se_requests :: "seat \<Rightarrow> u64"
  se_recorder :: "'w recorded_match"
  se_network :: 'n

text \<open>What a session is served with: its connections, the descriptions and identities of the cards,
  and what the recording writes with.\<close>

record ('c, 'w, 'n) service =
  sr_channels :: "('c, 'n) channel_ops"
  sr_descriptions :: card_descriptions
  sr_identities :: card_identity_map
  sr_serialization :: serialization
  sr_writer :: "'w write_ops"

datatype 's turn_result = Continue 's | Return "serve_error + unit" 's

definition session_start :: "'w recorded_match \<Rightarrow> 'n \<Rightarrow> ('c, 'w, 'n) session" where
  "session_start recorder n =
     \<lparr>se_clients = (\<lambda>_. None), se_revision = 0, se_requests = (\<lambda>_. 0), se_recorder = recorder,
      se_network = n\<rparr>"

definition both_seated :: "(seat \<Rightarrow> 'c option) \<Rightarrow> bool" where
  "both_seated clients \<longleftrightarrow> list_all (\<lambda>seat. clients seat \<noteq> None) seats"

text \<open>\<open>stop_all\<close>, and then a return.\<close>

definition stop_session ::
  "('c, 'w, 'n) service \<Rightarrow> string \<Rightarrow> serve_error + unit \<Rightarrow> ('c, 'w, 'n) session
    \<Rightarrow> ('c, 'w, 'n) session turn_result" where
  "stop_session sr reason result s =
     Return result (s\<lparr>se_network := stop_all (sr_channels sr) (se_clients s) reason (se_network s)\<rparr>)"

text \<open>\<open>deliver(...).await?\<close>: a failed delivery returns from the session.\<close>

definition deliver_or_return ::
  "('c, 'w, 'n) service \<Rightarrow> 'c \<Rightarrow> server_envelope \<Rightarrow> ('c, 'w, 'n) session
    \<Rightarrow> (('c, 'w, 'n) session \<Rightarrow> ('c, 'w, 'n) session turn_result) \<Rightarrow> ('c, 'w, 'n) session turn_result" where
  "deliver_or_return sr client envelope s k =
     (case deliver (sr_channels sr) client envelope (se_network s) of
        (Inl error, n) \<Rightarrow> Return (Inl error) (s\<lparr>se_network := n\<rparr>)
      | (Inr _, n) \<Rightarrow> k (s\<lparr>se_network := n\<rparr>))"

definition broadcast_state ::
  "('c, 'w, 'n) service \<Rightarrow> ('c, 'w, 'n) session \<Rightarrow> game_event list \<Rightarrow> u64 option \<Rightarrow> seat option
    \<Rightarrow> submission_result option \<Rightarrow> broadcast_input" where
  "broadcast_state sr s events reply requester result =
     \<lparr>bc_state = rm_state (se_recorder s), bc_descriptions = sr_descriptions sr,
      bc_identities = sr_identities sr, bc_events = events, bc_revision = se_revision s, bc_reply = reply,
      bc_requester = requester, bc_result = result\<rparr>"

text \<open>A broadcast, whose failure stops the session.\<close>

definition broadcast_or_stop ::
  "('c, 'w, 'n) service \<Rightarrow> broadcast_input \<Rightarrow> ('c, 'w, 'n) session
    \<Rightarrow> (('c, 'w, 'n) session \<Rightarrow> ('c, 'w, 'n) session turn_result) \<Rightarrow> ('c, 'w, 'n) session turn_result" where
  "broadcast_or_stop sr input s k =
     (case broadcast (sr_channels sr) (se_clients s) input (se_network s) of
        (Inl error, n) \<Rightarrow> stop_session sr ''connection closed'' (Inl error) (s\<lparr>se_network := n\<rparr>)
      | (Inr _, n) \<Rightarrow> k (s\<lparr>se_network := n\<rparr>))"

definition on_joined ::
  "('c, 'w, 'n) service \<Rightarrow> seat \<Rightarrow> 'c \<Rightarrow> ('c, 'w, 'n) session \<Rightarrow> ('c, 'w, 'n) session turn_result" where
  "on_joined sr seat client s =
     (let ops = sr_channels sr in
      if se_clients s seat \<noteq> None \<or> both_seated (se_clients s) then
        (let n = snd (deliver ops client (server_envelope.Rejected None ''seat is occupied'') (se_network s)) in
         Continue (s\<lparr>se_network := ch_admit ops client False n\<rparr>))
      else
        (case deliver ops client (Waiting seat) (se_network s) of
           (Inl error, n) \<Rightarrow> stop_session sr ''connection closed'' (Inl error) (s\<lparr>se_network := n\<rparr>)
         | (Inr _, n) \<Rightarrow>
             (let s = s\<lparr>se_clients := (se_clients s)(seat \<mapsto> client), se_network := ch_admit ops client True n\<rparr> in
              if both_seated (se_clients s)
              then broadcast_or_stop sr (broadcast_state sr s [] None None None) s Continue
              else Continue s)))"

definition on_gone ::
  "('c, 'w, 'n) service \<Rightarrow> seat \<Rightarrow> ('c, 'w, 'n) session \<Rightarrow> ('c, 'w, 'n) session turn_result" where
  "on_gone sr seat s =
     (if se_clients s seat \<noteq> None then stop_session sr ''connection closed'' (Inr ()) s else Continue s)"

definition on_unsupported_version ::
  "('c, 'w, 'n) service \<Rightarrow> seat \<Rightarrow> u64 \<Rightarrow> ('c, 'w, 'n) session \<Rightarrow> ('c, 'w, 'n) session turn_result" where
  "on_unsupported_version sr seat request_id s =
     (case se_clients s seat of
        Some client \<Rightarrow>
          deliver_or_return sr client (rejection request_id ''unsupported version'') s
            (stop_session sr ''protocol error'' (Inr ()))
      | None \<Rightarrow> stop_session sr ''protocol error'' (Inr ()) s)"

text \<open>The rest of a submission, once its action is admitted.\<close>

definition record_submission ::
  "('c, 'w, 'n) service \<Rightarrow> seat \<Rightarrow> u64 \<Rightarrow> game_action \<Rightarrow> ('c, 'w, 'n) session
    \<Rightarrow> ('c, 'w, 'n) session turn_result option" where
  "record_submission sr seat request_id action s =
     (case submit (sr_serialization sr) (sr_writer sr) (se_recorder s) action of
        None \<Rightarrow> None
      | Some (Inl error, recorder) \<Rightarrow>
          Some (stop_session sr ''recording failed'' (Inl (Recording error)) (s\<lparr>se_recorder := recorder\<rparr>))
      | Some (Inr step, recorder) \<Rightarrow>
          (let (result, events) = (case step of
                 recorded_step.Accepted events \<Rightarrow> (submission_result.Accepted, events)
               | recorded_step.Rejected error \<Rightarrow> (submission_result.Rejected (rejection_reason error), []));
               s = s\<lparr>se_recorder := recorder, se_revision := se_revision s + 1\<rparr>;
               terminal = (case gs_status (rm_state recorder) of game_status.Ended _ \<Rightarrow> True | _ \<Rightarrow> False) in
           Some (broadcast_or_stop sr
             (broadcast_state sr s events (Some request_id) (Some seat) (Some result)) s
             (\<lambda>s. if terminal then Return (Inr ()) s else Continue s))))"

definition on_submit ::
  "('c, 'w, 'n) service \<Rightarrow> seat \<Rightarrow> u64 \<Rightarrow> u64 \<Rightarrow> action_v1 \<Rightarrow> ('c, 'w, 'n) session
    \<Rightarrow> ('c, 'w, 'n) session turn_result option" where
  "on_submit sr seat request_id based_on_revision action s =
     (case se_clients s seat of
        None \<Rightarrow> Some (Continue s)
      | Some client \<Rightarrow>
          if \<not> request_is_next (se_requests s seat) request_id then
            Some (deliver_or_return sr client (rejection request_id ''request id must increase'') s Continue)
          else
            (let s = s\<lparr>se_requests := (se_requests s)(seat := request_id)\<rparr> in
             if \<not> both_seated (se_clients s) then
               Some (deliver_or_return sr client (rejection request_id ''waiting for opponent'') s Continue)
             else
               (case normalize_action (player_id_of_seat seat) action of
                  Inl protocol_error.Actor \<Rightarrow>
                    Some (deliver_or_return sr client
                      (rejection request_id ''actor does not own this connection'') s Continue)
                | Inl (protocol_error.Conversion reason) \<Rightarrow>
                    Some (deliver_or_return sr client (rejection request_id reason) s Continue)
                | Inr action \<Rightarrow>
                    if \<not> accepts_revision (se_revision s) based_on_revision action
                         (gs_status (rm_state (se_recorder s)))
                    then Some (deliver_or_return sr client (rejection request_id ''stale revision'') s Continue)
                    else record_submission sr seat request_id action s)))"

fun session_step ::
  "('c, 'w, 'n) service \<Rightarrow> 'c session_event \<Rightarrow> ('c, 'w, 'n) session
    \<Rightarrow> ('c, 'w, 'n) session turn_result option" where
  "session_step sr (Joined seat client) s = Some (on_joined sr seat client s)"
| "session_step sr (Gone seat) s = Some (on_gone sr seat s)"
| "session_step sr (UnsupportedVersion seat request_id) s = Some (on_unsupported_version sr seat request_id s)"
| "session_step sr (session_event.Submit seat request_id based_on_revision action) s =
     on_submit sr seat request_id based_on_revision action s"
| "session_step sr (Interrupted (Inl error)) s = Some (Return (Inl (Interrupt error)) s)"
| "session_step sr (AcceptFailed error) s = Some (Return (Inl (Interrupt error)) s)"
| "session_step sr (Interrupted (Inr _)) s = Some (stop_session sr ''interrupted'' (Inr ()) s)"

text \<open>The loop, over the events that come; after the last one it goes on waiting.\<close>

fun serve_session ::
  "('c, 'w, 'n) service \<Rightarrow> 'c session_event list \<Rightarrow> ('c, 'w, 'n) session
    \<Rightarrow> ('c, 'w, 'n) session turn_result option" where
  "serve_session sr [] s = Some (Continue s)"
| "serve_session sr (event # events) s =
     (case session_step sr event s of
        None \<Rightarrow> None
      | Some (Continue s) \<Rightarrow> serve_session sr events s
      | Some (Return result s) \<Rightarrow> Some (Return result s))"

section \<open>Decks, the output and the recording\<close>

text \<open>Files: an opened file has type \<open>'f\<close>, a created one is a writer of type \<open>'w\<close>, and the file system
  has type \<open>'fs\<close>. \<open>fo_read_up_to n\<close> is \<open>take(n).read_to_end\<close>. Reading changes no files.\<close>

record ('f, 'w, 'fs) file_ops =
  fo_metadata_len :: "string \<Rightarrow> 'fs \<Rightarrow> io_error + u64"
  fo_open :: "string \<Rightarrow> 'fs \<Rightarrow> io_error + 'f"
  fo_read_up_to :: "nat \<Rightarrow> 'f \<Rightarrow> io_error + u8 list"
  fo_create_new :: "string \<Rightarrow> 'fs \<Rightarrow> (io_error + 'w) \<times> 'fs"
  fo_create_dir_all :: "string \<Rightarrow> 'fs \<Rightarrow> (io_error + unit) \<times> 'fs"
  fo_epoch_seconds :: "string + u64"

definition max_deck_bytes :: u64 where
  "max_deck_bytes = 1024 * 1024"

definition shuffle_version :: string where
  "shuffle_version = ''std_rng_v1''"

definition read_deck :: "('f, 'w, 'fs) file_ops \<Rightarrow> 'fs \<Rightarrow> string \<Rightarrow> serve_error + u8 list" where
  "read_deck files fs path =
     and_then (map_err (ReadDeck path) (fo_metadata_len files path fs)) (\<lambda>size.
     if size > max_deck_bytes then Inl (DeckTooLarge path)
     else
       and_then (map_err (ReadDeck path) (fo_open files path fs)) (\<lambda>file.
       and_then (map_err (ReadDeck path) (fo_read_up_to files (unat (max_deck_bytes + 1)) file)) (\<lambda>bytes.
       if (of_nat (length bytes) :: u64) > max_deck_bytes then Inl (DeckTooLarge path) else Inr bytes)))"

definition load_deck ::
  "('f, 'w, 'fs) file_ops \<Rightarrow> 'fs \<Rightarrow> deck_dto toml_reader \<Rightarrow> card_library \<Rightarrow> string \<Rightarrow> serve_error + deck" where
  "load_deck files fs toml library path =
     and_then (read_deck files fs path) (\<lambda>bytes.
     map_err (ParseDeck path) (parse_deck toml bytes library))"

text \<open>The command line takes exactly two Deck paths.\<close>

definition load_decks ::
  "('f, 'w, 'fs) file_ops \<Rightarrow> 'fs \<Rightarrow> deck_dto toml_reader \<Rightarrow> card_library \<Rightarrow> string \<times> string
    \<Rightarrow> serve_error + deck \<times> deck" where
  "load_decks files fs toml library paths =
     (let (one, two) = paths in
      and_then (load_deck files fs toml library one) (\<lambda>one.
      and_then (load_deck files fs toml library two) (\<lambda>two. Inr (one, two))))"

definition required_sets :: "card_library \<Rightarrow> serve_error + set_requirement_v1 list" where
  "required_sets library =
     (case set_revision library ''foundations'' of
        None \<Rightarrow> Inl MissingFoundations
      | Some revision \<Rightarrow> Inr [\<lparr>sq1_set = ''foundations'', sq1_revision = revision\<rparr>])"

definition start_recording ::
  "serialization \<Rightarrow> 'w write_ops \<Rightarrow> 'w \<Rightarrow> header_metadata_v1 \<Rightarrow> set_requirement_v1 list \<Rightarrow> game_state
    \<Rightarrow> serve_error + 'w recorded_match" where
  "start_recording sz ops writer metadata sets s =
     map_err Recording (record_start sz ops writer metadata sets s)"

definition create_explicit_output ::
  "('f, 'w, 'fs) file_ops \<Rightarrow> string \<Rightarrow> 'fs \<Rightarrow> (serve_error + 'w \<times> string) \<times> 'fs" where
  "create_explicit_output files path fs =
     (case fo_create_new files path fs of
        (Inl error, fs) \<Rightarrow> (Inl (Output path error), fs)
      | (Inr file, fs) \<Rightarrow> (Inr (file, path), fs))"

definition default_output_path :: "string \<Rightarrow> u64 \<Rightarrow> nat \<Rightarrow> string" where
  "default_output_path directory seconds k =
     directory @ ''/'' @ number_text seconds @ ''-'' @ dec_digits k @ ''.ndjson''"

fun create_default_output_from ::
  "('f, 'w, 'fs) file_ops \<Rightarrow> string \<Rightarrow> u64 \<Rightarrow> nat list \<Rightarrow> 'fs \<Rightarrow> (serve_error + 'w \<times> string) \<times> 'fs" where
  "create_default_output_from files directory seconds [] fs =
     (Inl (Output directory (IoError AlreadyExists ''no unique transcript output name'')), fs)"
| "create_default_output_from files directory seconds (k # ks) fs =
     (case create_explicit_output files (default_output_path directory seconds k) fs of
        (Inr output, fs) \<Rightarrow> (Inr output, fs)
      | (Inl (Output path (IoError AlreadyExists message)), fs) \<Rightarrow>
          create_default_output_from files directory seconds ks fs
      | (Inl error, fs) \<Rightarrow> (Inl error, fs))"

definition create_default_output_at ::
  "('f, 'w, 'fs) file_ops \<Rightarrow> string \<Rightarrow> u64 \<Rightarrow> 'fs \<Rightarrow> (serve_error + 'w \<times> string) \<times> 'fs" where
  "create_default_output_at files directory seconds =
     create_default_output_from files directory seconds [0..<1000]"

definition create_default_output ::
  "('f, 'w, 'fs) file_ops \<Rightarrow> 'fs \<Rightarrow> (serve_error + 'w \<times> string) \<times> 'fs" where
  "create_default_output files fs =
     (case fo_create_dir_all files ''matches'' fs of
        (Inl error, fs) \<Rightarrow> (Inl (Output ''matches'' error), fs)
      | (Inr _, fs) \<Rightarrow>
          (case fo_epoch_seconds files of
             Inl message \<Rightarrow> (Inl (Output ''matches'' (IoError Other message)), fs)
           | Inr seconds \<Rightarrow> create_default_output_at files ''matches'' seconds fs))"

fun create_output ::
  "('f, 'w, 'fs) file_ops \<Rightarrow> string option \<Rightarrow> 'fs \<Rightarrow> (serve_error + 'w \<times> string) \<times> 'fs" where
  "create_output files (Some path) fs = create_explicit_output files path fs"
| "create_output files None fs = create_default_output files fs"

section \<open>The command\<close>

text \<open>What \<open>serve\<close> takes from outside: the catalog, the TOML reader of Decks, the random generator, the
  files, the serialization, the writer, the channels, what binding the address and asking for it
  answer, and the seed that is drawn when none is given.\<close>

record ('g, 'f, 'w, 'fs, 'c, 'n) host =
  ho_catalog :: "built_in_error + built_in_catalog"
  ho_toml :: "deck_dto toml_reader"
  ho_generator :: "'g generator"
  ho_files :: "('f, 'w, 'fs) file_ops"
  ho_serialization :: serialization
  ho_writer :: "'w write_ops"
  ho_channels :: "('c, 'n) channel_ops"
  ho_bind :: "io_error + unit"
  ho_local_addr :: "io_error + unit"
  ho_json_seed :: "u64 \<Rightarrow> json_value"
  ho_drawn_seed :: u64

record serve_args =
  sa_decks :: "string \<times> string"
  sa_seed :: "u64 option"
  sa_address :: string
  sa_output :: "string option"

text \<open>From the arguments to the session that the loop starts in. The answer \<open>None\<close> is a panic of the
  deal. Everything after the output is created fails in the same file system.\<close>

definition open_session ::
  "('g, 'f, 'w, 'fs, 'c, 'n) host \<Rightarrow> serve_args \<Rightarrow> 'fs \<Rightarrow> 'n
    \<Rightarrow> ((serve_error + ('c, 'w, 'n) service \<times> ('c, 'w, 'n) session) \<times> 'fs) option" where
  "open_session host args fs n =
     (case and_then (map_err Catalog (ho_catalog host)) (\<lambda>catalog.
           and_then (load_decks (ho_files host) fs (ho_toml host) (bc_library catalog) (sa_decks args)) (\<lambda>decks.
           Inr (bc_library catalog, decks))) of
        Inl error \<Rightarrow> Some (Inl error, fs)
      | Inr (library, one, two) \<Rightarrow>
          (let seed = (case sa_seed args of Some seed \<Rightarrow> seed | None \<Rightarrow> ho_drawn_seed host) in
           case initial_state (ho_generator host) library one two seed of
             None \<Rightarrow> None
           | Some (Inl error) \<Rightarrow> Some (Inl (Setup error), fs)
           | Some (Inr s) \<Rightarrow>
               (case map_err (Bind (sa_address args)) (ho_bind host) of
                  Inl error \<Rightarrow> Some (Inl error, fs)
                | Inr _ \<Rightarrow>
                    (case create_output (ho_files host) (sa_output args) fs of
                       (Inl error, fs) \<Rightarrow> Some (Inl error, fs)
                     | (Inr (output, path), fs) \<Rightarrow>
                         Some (and_then (required_sets library) (\<lambda>sets.
                           let metadata = [(''seed'', ho_json_seed host seed),
                                 (''shuffle_version'', String shuffle_version)];
                               descriptions = from_card_set (gs_cards s);
                               identities = from_initial_state s descriptions in
                           and_then (start_recording (ho_serialization host) (ho_writer host) output metadata
                             sets s) (\<lambda>recorder.
                           and_then (map_err (Bind (sa_address args)) (ho_local_addr host)) (\<lambda>_.
                           Inr (\<lparr>sr_channels = ho_channels host, sr_descriptions = descriptions,
                                 sr_identities = identities, sr_serialization = ho_serialization host,
                                 sr_writer = ho_writer host\<rparr>,
                               session_start recorder n)))), fs)))))"

definition serve ::
  "('g, 'f, 'w, 'fs, 'c, 'n) host \<Rightarrow> serve_args \<Rightarrow> 'fs \<Rightarrow> 'n \<Rightarrow> 'c session_event list
    \<Rightarrow> (serve_error + ('c, 'w, 'n) session turn_result) option" where
  "serve host args fs n events =
     (case open_session host args fs n of
        None \<Rightarrow> None
      | Some (Inl error, fs) \<Rightarrow> Some (Inl error)
      | Some (Inr (sr, s), fs) \<Rightarrow> map_option Inr (serve_session sr events s))"

end
