(* ===== verification/Privacy.thy ===== *)
theory Privacy
  imports Protocol
begin

text \<open>
  What a player may learn of a match: the relation \<open>looks_alike\<close> of two states that differ only in
  what is hidden from a player, and the redaction of an event. Views and notices are functions of
  these.
\<close>

section \<open>States that look alike\<close>

text \<open>Of the other zones of a player everyone sees the size.\<close>

definition same_table :: "player_state \<Rightarrow> player_state \<Rightarrow> bool" where
  "same_table ps qs \<longleftrightarrow>
     ps_main ps = ps_main qs \<and> ps_bench ps = ps_bench qs \<and> ps_mana ps = ps_mana qs
     \<and> ps_main_losses ps = ps_main_losses qs \<and> ps_discard ps = ps_discard qs
     \<and> ps_enchantments ps = ps_enchantments qs \<and> length (ps_deck ps) = length (ps_deck qs)
     \<and> length (ps_prizes ps) = length (ps_prizes qs) \<and> length (ps_hand ps) = length (ps_hand qs)"

definition same_course :: "game_state \<Rightarrow> game_state \<Rightarrow> bool" where
  "same_course s t \<longleftrightarrow>
     gs_coin s = gs_coin t \<and> gs_stack s = gs_stack t \<and> gs_pending s = gs_pending t \<and> gs_status s = gs_status t
     \<and> ts_phase (gs_turn s) = ts_phase (gs_turn t) \<and> ts_window (gs_turn s) = ts_window (gs_turn t)
     \<and> ts_active_player (gs_turn s) = ts_active_player (gs_turn t)"

definition looks_alike :: "player_id \<Rightarrow> game_state \<Rightarrow> game_state \<Rightarrow> bool" where
  "looks_alike viewer s t \<longleftrightarrow>
     ps_hand (player_of s viewer) = ps_hand (player_of t viewer)
     \<and> (\<forall>p. same_table (player_of s p) (player_of t p)) \<and> same_course s t"

lemma looks_alike_equivalence:
  shows looks_alike_refl [simp]: "looks_alike v s s"
    and looks_alike_sym: "looks_alike v s t \<Longrightarrow> looks_alike v t s"
    and looks_alike_trans: "looks_alike v s t \<Longrightarrow> looks_alike v t u \<Longrightarrow> looks_alike v s u"
  by (simp_all add: looks_alike_def same_table_def same_course_def)

text \<open>Hidden cards can be others, and in another order.\<close>

lemma looks_alike_hidden:
  assumes "length deck = length (ps_deck (player_of s p))" "length prizes = length (ps_prizes (player_of s p))"
    and "length hand = length (ps_hand (player_of s p))" "p = v \<longrightarrow> hand = ps_hand (player_of s p)"
  shows "looks_alike v s (update_player s p (\<lambda>ps. ps\<lparr>ps_deck := deck, ps_prizes := prizes, ps_hand := hand\<rparr>))"
  using assms by (auto simp: looks_alike_def same_table_def same_course_def)

lemma player_ends: "pp_one (gs_players s) = player_of s player_id.One" "pp_two (gs_players s) = player_of s player_id.Two"
  by (simp_all add: player_of_def pp_get_def)

lemma public_player_same: "same_table ps qs \<Longrightarrow> public_player ps d = public_player qs d"
  by (simp add: same_table_def public_player_def)

lemma view_alike:
  "looks_alike v s t \<Longrightarrow> player_view s v d = player_view t v d"
  using public_player_same [of "player_of s p" "player_of t p" d for p]
  by (simp add: looks_alike_def same_course_def player_view_def player_ends)

section \<open>Events as a player sees them\<close>

fun redact :: "player_id \<Rightarrow> game_event \<Rightarrow> game_event" where
  "redact viewer (game_event.CardDrawn p c) =
     game_event.CardDrawn p (if p = viewer then c else CardInstanceId 0)"
| "redact viewer (game_event.PrizeRecovered p c) =
     game_event.PrizeRecovered p (if p = viewer then c else CardInstanceId 0)"
| "redact viewer (game_event.PrizesViewed p cs) =
     game_event.PrizesViewed p (if p = viewer then cs else map (\<lambda>_. CardInstanceId 0) cs)"
| "redact viewer event = event"

text \<open>The cards that the notice of an event names.\<close>

fun named :: "player_id \<Rightarrow> game_event \<Rightarrow> card_instance_id set" where
  "named viewer (game_event.CardDrawn p c) = (if p = viewer then {c} else {})"
| "named viewer (game_event.PrizeRecovered p c) = (if p = viewer then {c} else {})"
| "named viewer (game_event.PrizesViewed p cs) = (if p = viewer then set cs else {})"
| "named viewer (game_event.SummonPlayed _ c _) = {c}"
| "named viewer (game_event.SummonUpgraded _ c _) = {c}"
| "named viewer (game_event.SpellCast _ c _) = {c}"
| "named viewer event = {}"

lemma notice_redact: "notice_text (redact v e) ids v = notice_text e ids v"
  by (cases e) (auto simp: private_card_notice_def)

lemma named_redact: "named v (redact v e) = named v e"
  by (cases e) auto

lemma notice_names:
  "\<forall>c \<in> named v e. card_name_in ids c = card_name_in ids' c
    \<Longrightarrow> notice_text e ids v = notice_text e ids' v"
  by (cases e) (auto simp: private_card_notice_def intro: arg_cong [where f = "join_text _"])

lemma notices_alike:
  assumes "map (redact v) es = map (redact v) fs"
    and "\<forall>e \<in> set es. \<forall>c \<in> named v e. card_name_in ids c = card_name_in ids' c"
  shows "player_notices es ids v = player_notices fs ids' v"
  using assms
proof (induction es arbitrary: fs)
  case Nil
  then show ?case by (simp add: player_notices_def)
next
  case (Cons e es)
  then obtain f gs where fs: "fs = f # gs" "redact v e = redact v f" "map (redact v) es = map (redact v) gs"
    by auto
  have "notice_text e ids v = notice_text f ids v" using notice_redact fs(2) by metis
  also have "\<dots> = notice_text f ids' v"
    using Cons.prems(2) named_redact fs(2) by (intro notice_names) (metis list.set_intros(1))
  finally show ?case using Cons.IH [of gs] Cons.prems(2) fs(1,3) by (simp add: player_notices_def)
qed

end
