(* ===== verification/Transcript.thy ===== *)
theory Transcript
  imports Digest
begin

text \<open>
  \<open>crates/match-log/src/parse_error.rs\<close> and the cross-record rules of \<open>parse.rs\<close>: decoded records
  are folded, in order and without gaps in their sequence numbers, through the phases of a
  transcript. \<open>advance\<close> is one row of that state machine per row of the source's \<open>match\<close>. The
  builder that \<open>advance\<close> mutates is passed and returned; after an error it is dropped.
\<close>

section \<open>Errors\<close>

record parse_context =
  pc_line :: "nat option"
  pc_sequence :: "u64 option"
  pc_step :: "u64 option"
  pc_event_index :: "u64 option"
  pc_path :: "string option"

definition parse_context_default :: parse_context where
  "parse_context_default =
     \<lparr>pc_line = None, pc_sequence = None, pc_step = None, pc_event_index = None, pc_path = None\<rparr>"

datatype lifecycle_error =
  UnexpectedRecord string string
| Sequence u64 u64
| Step u64 u64
| EventIndex u64 u64
| EventCount u64 u64
| EventWithoutAction
| ActionBeforeStepResult
| RejectedStepHasEvents
| RejectedDigestMismatch
| InitialStateDigestMismatch
| InvalidInitialStatus
| MissingGameEnded
| MultipleGameEnded
| RecordAfterTerminalStep
| FinalStateDigestMismatch
| FinalStateNotEnded
| OutcomeMismatch
| CompletionStepCount u64 u64
| CompletionEventCount u64 u64
| CompletionDigestMismatch
| RecordAfterCompletion
| Incomplete string

datatype parse_error_kind =
  Read string
| InvalidUtf8
| MalformedJson string
| InvalidRecord string
| InvalidEntityId string
| InvalidStateDigest string
| UnsupportedFormat string
| UnsupportedVersion u32
| Lifecycle lifecycle_error

record parse_error =
  pe_kind :: parse_error_kind
  pe_context :: parse_context

section \<open>Transcripts\<close>

datatype transcript_step_result_v1 =
  Accepted "event_record_v1 list" step_completed_v1
| Rejected step_rejected_v1

record transcript_step_v1 =
  tt_action :: action_record_v1
  tt_result :: transcript_step_result_v1

record transcript_v1 =
  tv_header :: header_v1
  tv_match_created :: match_created_v1
  tv_steps :: "transcript_step_v1 list"
  tv_final_state :: final_state_v1
  tv_match_completed :: match_completed_v1

record decoded_record =
  dec_line :: nat
  dec_record :: record_v1

record pending_step =
  pd_action :: action_record_v1
  pd_events :: "event_record_v1 list"
  pd_game_ended :: "game_outcome_v1 option"

datatype parse_phase =
  Header
| MatchCreated
| Ready
| Pending pending_step
| Terminal game_outcome_v1
| Final game_outcome_v1
| Complete

record transcript_builder =
  tb_header :: "header_v1 option"
  tb_match_created :: "match_created_v1 option"
  tb_steps :: "transcript_step_v1 list"
  tb_final_state :: "final_state_v1 option"
  tb_match_completed :: "match_completed_v1 option"
  tb_next_step :: u64
  tb_event_count :: u64
  tb_digest :: "state_digest_v1 option"

definition builder_start :: transcript_builder where
  "builder_start =
     \<lparr>tb_header = None, tb_match_created = None, tb_steps = [], tb_final_state = None,
      tb_match_completed = None, tb_next_step = 1, tb_event_count = 0, tb_digest = None\<rparr>"

section \<open>Contexts\<close>

fun record_sequence :: "record_v1 \<Rightarrow> u64" where
  "record_sequence (record_v1.Header v) = hd1_sequence v"
| "record_sequence (record_v1.MatchCreated v) = mc1_sequence v"
| "record_sequence (record_v1.Action v) = ar1_sequence v"
| "record_sequence (record_v1.Event v) = er1_sequence v"
| "record_sequence (record_v1.StepCompleted v) = sc1_sequence v"
| "record_sequence (record_v1.StepRejected v) = sr1_sequence v"
| "record_sequence (record_v1.FinalState v) = fs1_sequence v"
| "record_sequence (record_v1.MatchCompleted v) = md1_sequence v"

fun record_step :: "record_v1 \<Rightarrow> u64 option" where
  "record_step (record_v1.Action v) = Some (ar1_step v)"
| "record_step (record_v1.Event v) = Some (er1_step v)"
| "record_step (record_v1.StepCompleted v) = Some (sc1_step v)"
| "record_step (record_v1.StepRejected v) = Some (sr1_step v)"
| "record_step _ = None"

fun record_name :: "record_v1 \<Rightarrow> string" where
  "record_name (record_v1.Header _) = ''header''"
| "record_name (record_v1.MatchCreated _) = ''match_created''"
| "record_name (record_v1.Action _) = ''action''"
| "record_name (record_v1.Event _) = ''event''"
| "record_name (record_v1.StepCompleted _) = ''step_completed''"
| "record_name (record_v1.StepRejected _) = ''step_rejected''"
| "record_name (record_v1.FinalState _) = ''final_state''"
| "record_name (record_v1.MatchCompleted _) = ''match_completed''"

definition record_context :: "decoded_record \<Rightarrow> string option \<Rightarrow> parse_context" where
  "record_context decoded path =
     \<lparr>pc_line = Some (dec_line decoded),
      pc_sequence = Some (record_sequence (dec_record decoded)),
      pc_step = record_step (dec_record decoded),
      pc_event_index = (case dec_record decoded of
          record_v1.Event event \<Rightarrow> Some (er1_index event) | _ \<Rightarrow> None),
      pc_path = path\<rparr>"

definition with_path :: "parse_context \<Rightarrow> string \<Rightarrow> parse_context" where
  "with_path context path = context\<lparr>pc_path := Some (dropWhile (\<lambda>c. c = CHR ''.'') path)\<rparr>"

definition invalid_record :: "parse_context \<Rightarrow> string \<Rightarrow> string \<Rightarrow> parse_error" where
  "invalid_record context path message =
     \<lparr>pe_kind = InvalidRecord message, pe_context = with_path context path\<rparr>"

definition lifecycle_failure :: "decoded_record \<Rightarrow> string \<Rightarrow> lifecycle_error \<Rightarrow> parse_error" where
  "lifecycle_failure decoded path error =
     \<lparr>pe_kind = Lifecycle error, pe_context = record_context decoded (Some path)\<rparr>"

definition unexpected :: "decoded_record \<Rightarrow> string \<Rightarrow> parse_error" where
  "unexpected decoded expected =
     lifecycle_failure decoded ''record'' (UnexpectedRecord expected (record_name (dec_record decoded)))"

text \<open>The check \<open>if !condition { return Err(lifecycle_error(..)) }\<close>.\<close>

definition demand_that :: "bool \<Rightarrow> parse_error \<Rightarrow> parse_error + unit" where
  "demand_that condition error = (if condition then Inr () else Inl error)"

section \<open>The checks\<close>

definition validate_step :: "decoded_record \<Rightarrow> u64 \<Rightarrow> u64 \<Rightarrow> parse_error + unit" where
  "validate_step decoded expected found =
     demand_that (found = expected) (lifecycle_failure decoded ''step'' (Step expected found))"

text \<open>\<open>StateDigestV1::compute\<close> with its error turned into an invalid record.\<close>

definition computed_digest ::
  "serialization \<Rightarrow> decoded_record \<Rightarrow> string \<Rightarrow> state_projection_v1 \<Rightarrow> parse_error + state_digest_v1" where
  "computed_digest sz decoded path projection =
     map_err (\<lambda>error. invalid_record (record_context decoded None) path
         (''canonical state encoding failed: '' @ canonical_source error))
       (digest_compute sz projection)"

definition validate_initial_state ::
  "serialization \<Rightarrow> decoded_record \<Rightarrow> match_created_v1 \<Rightarrow> parse_error + unit" where
  "validate_initial_state sz decoded created =
     and_then (demand_that (sp1_status (mc1_initial_state created) = game_status_v1.Playing)
       (lifecycle_failure decoded ''initial_state.status'' InvalidInitialStatus)) (\<lambda>_.
     and_then (computed_digest sz decoded ''initial_state'' (mc1_initial_state created)) (\<lambda>computed.
     demand_that (computed = mc1_state_digest created)
       (lifecycle_failure decoded ''state_digest'' InitialStateDigestMismatch)))"

definition validate_final_state ::
  "serialization \<Rightarrow> decoded_record \<Rightarrow> final_state_v1 \<Rightarrow> game_outcome_v1 \<Rightarrow> state_digest_v1 option
    \<Rightarrow> parse_error + unit" where
  "validate_final_state sz decoded final_state terminal_outcome authoritative_digest =
     (case sp1_status (fs1_final_state final_state) of
        game_status_v1.Ended final_outcome \<Rightarrow>
          and_then (demand_that (final_outcome = terminal_outcome)
            (lifecycle_failure decoded ''final_state.status.outcome'' OutcomeMismatch)) (\<lambda>_.
          and_then (computed_digest sz decoded ''final_state'' (fs1_final_state final_state)) (\<lambda>computed.
          demand_that (authoritative_digest = Some (fs1_state_digest final_state)
              \<and> computed = fs1_state_digest final_state)
            (lifecycle_failure decoded ''state_digest'' FinalStateDigestMismatch)))
      | _ \<Rightarrow> Inl (lifecycle_failure decoded ''final_state.status'' FinalStateNotEnded))"

definition validate_completion ::
  "decoded_record \<Rightarrow> match_completed_v1 \<Rightarrow> game_outcome_v1 \<Rightarrow> transcript_builder
    \<Rightarrow> parse_error + unit" where
  "validate_completion decoded completed terminal_outcome builder =
     (let expected_steps = of_nat (length (tb_steps builder)) in
      and_then (demand_that (md1_step_count completed = expected_steps)
        (lifecycle_failure decoded ''step_count''
          (CompletionStepCount expected_steps (md1_step_count completed)))) (\<lambda>_.
      and_then (demand_that (md1_event_count completed = tb_event_count builder)
        (lifecycle_failure decoded ''event_count''
          (CompletionEventCount (tb_event_count builder) (md1_event_count completed)))) (\<lambda>_.
      and_then (demand_that (tb_digest builder = Some (md1_state_digest completed))
        (lifecycle_failure decoded ''state_digest'' CompletionDigestMismatch)) (\<lambda>_.
      and_then (demand_that (md1_winner completed = go1_winner terminal_outcome)
        (lifecycle_failure decoded ''winner'' OutcomeMismatch)) (\<lambda>_.
      demand_that (md1_reason completed = go1_reason terminal_outcome)
        (lifecycle_failure decoded ''reason'' OutcomeMismatch))))))"

section \<open>The state machine\<close>

text \<open>The rows of \<open>advance\<close> with a pending step.\<close>

definition advance_event ::
  "decoded_record \<Rightarrow> pending_step \<Rightarrow> event_record_v1 \<Rightarrow> parse_error + parse_phase" where
  "advance_event decoded pending event =
     and_then (validate_step decoded (ar1_step (pd_action pending)) (er1_step event)) (\<lambda>_.
     let expected_index = of_nat (length (pd_events pending)) in
     and_then (demand_that (er1_index event = expected_index)
       (lifecycle_failure decoded ''index'' (EventIndex expected_index (er1_index event)))) (\<lambda>_.
     and_then
       (case er1_event event of
          event_v1.GameEnded winner reason \<Rightarrow>
            and_then (demand_that (pd_game_ended pending = None)
              (lifecycle_failure decoded ''event.kind'' MultipleGameEnded)) (\<lambda>_.
            Inr (pending\<lparr>pd_game_ended := Some \<lparr>go1_winner = winner, go1_reason = reason\<rparr>\<rparr>))
        | _ \<Rightarrow> Inr pending)
       (\<lambda>pending. Inr (Pending (pending\<lparr>pd_events := pd_events pending @ [event]\<rparr>)))))"

definition advance_completed ::
  "decoded_record \<Rightarrow> pending_step \<Rightarrow> step_completed_v1 \<Rightarrow> transcript_builder
    \<Rightarrow> parse_error + parse_phase \<times> transcript_builder" where
  "advance_completed decoded pending completion builder =
     and_then (validate_step decoded (ar1_step (pd_action pending)) (sc1_step completion)) (\<lambda>_.
     let expected_count = of_nat (length (pd_events pending)) in
     and_then (demand_that (sc1_event_count completion = expected_count)
       (lifecycle_failure decoded ''event_count''
         (EventCount expected_count (sc1_event_count completion)))) (\<lambda>_.
     Inr (case pd_game_ended pending of Some outcome \<Rightarrow> Terminal outcome | None \<Rightarrow> Ready,
          builder\<lparr>tb_event_count := tb_event_count builder + expected_count,
            tb_digest := Some (sc1_state_digest completion),
            tb_steps := tb_steps builder @
              [\<lparr>tt_action = pd_action pending, tt_result = Accepted (pd_events pending) completion\<rparr>],
            tb_next_step := tb_next_step builder + 1\<rparr>)))"

definition advance_rejected ::
  "decoded_record \<Rightarrow> pending_step \<Rightarrow> step_rejected_v1 \<Rightarrow> transcript_builder
    \<Rightarrow> parse_error + parse_phase \<times> transcript_builder" where
  "advance_rejected decoded pending rejection builder =
     and_then (validate_step decoded (ar1_step (pd_action pending)) (sr1_step rejection)) (\<lambda>_.
     and_then (demand_that (pd_events pending = [])
       (lifecycle_failure decoded ''record'' RejectedStepHasEvents)) (\<lambda>_.
     and_then (demand_that (tb_digest builder = Some (sr1_state_digest rejection))
       (lifecycle_failure decoded ''state_digest'' RejectedDigestMismatch)) (\<lambda>_.
     Inr (Ready,
          builder\<lparr>tb_steps := tb_steps builder @
              [\<lparr>tt_action = pd_action pending, tt_result = Rejected rejection\<rparr>],
            tb_next_step := tb_next_step builder + 1\<rparr>))))"

fun advance ::
  "serialization \<Rightarrow> parse_phase \<Rightarrow> decoded_record \<Rightarrow> transcript_builder
    \<Rightarrow> parse_error + parse_phase \<times> transcript_builder" where
  "advance sz Header decoded builder =
     (case dec_record decoded of
        record_v1.Header header \<Rightarrow> Inr (MatchCreated, builder\<lparr>tb_header := Some header\<rparr>)
      | _ \<Rightarrow> Inl (unexpected decoded ''header''))"
| "advance sz MatchCreated decoded builder =
     (case dec_record decoded of
        record_v1.MatchCreated created \<Rightarrow>
          and_then (validate_initial_state sz decoded created) (\<lambda>_.
          Inr (Ready, builder\<lparr>tb_digest := Some (mc1_state_digest created),
                             tb_match_created := Some created\<rparr>))
      | _ \<Rightarrow> Inl (unexpected decoded ''match_created''))"
| "advance sz Ready decoded builder =
     (case dec_record decoded of
        record_v1.Action action \<Rightarrow>
          and_then (validate_step decoded (tb_next_step builder) (ar1_step action)) (\<lambda>_.
          Inr (Pending \<lparr>pd_action = action, pd_events = [], pd_game_ended = None\<rparr>, builder))
      | record_v1.Event _ \<Rightarrow> Inl (lifecycle_failure decoded ''record'' EventWithoutAction)
      | record_v1.FinalState _ \<Rightarrow> Inl (lifecycle_failure decoded ''record'' MissingGameEnded)
      | _ \<Rightarrow> Inl (unexpected decoded ''action''))"
| "advance sz (Pending pending) decoded builder =
     (case dec_record decoded of
        record_v1.Event event \<Rightarrow>
          and_then (advance_event decoded pending event) (\<lambda>phase. Inr (phase, builder))
      | record_v1.StepCompleted completion \<Rightarrow> advance_completed decoded pending completion builder
      | record_v1.StepRejected rejection \<Rightarrow> advance_rejected decoded pending rejection builder
      | record_v1.Action _ \<Rightarrow> Inl (lifecycle_failure decoded ''record'' ActionBeforeStepResult)
      | _ \<Rightarrow> Inl (unexpected decoded ''event or step result''))"
| "advance sz (Terminal outcome) decoded builder =
     (case dec_record decoded of
        record_v1.FinalState final_state \<Rightarrow>
          and_then (validate_final_state sz decoded final_state outcome (tb_digest builder)) (\<lambda>_.
          Inr (Final outcome, builder\<lparr>tb_final_state := Some final_state\<rparr>))
      | _ \<Rightarrow> Inl (lifecycle_failure decoded ''record'' RecordAfterTerminalStep))"
| "advance sz (Final outcome) decoded builder =
     (case dec_record decoded of
        record_v1.MatchCompleted completed \<Rightarrow>
          and_then (validate_completion decoded completed outcome builder) (\<lambda>_.
          Inr (Complete, builder\<lparr>tb_match_completed := Some completed\<rparr>))
      | _ \<Rightarrow> Inl (unexpected decoded ''match_completed''))"
| "advance sz Complete decoded builder =
     Inl (lifecycle_failure decoded ''record'' RecordAfterCompletion)"

fun expected_after :: "parse_phase \<Rightarrow> string" where
  "expected_after Header = ''header''"
| "expected_after MatchCreated = ''match_created''"
| "expected_after Ready = ''the next action and terminal step''"
| "expected_after (Pending pending) =
     (if pd_events pending = [] then ''the step result'' else ''the remaining events or step result'')"
| "expected_after (Terminal _) = ''final_state''"
| "expected_after (Final _) = ''match_completed''"
| "expected_after Complete = ''no more records''"

definition incomplete :: "string \<Rightarrow> parse_error" where
  "incomplete expected =
     \<lparr>pe_kind = Lifecycle (Incomplete expected), pe_context = parse_context_default\<rparr>"

definition finish :: "parse_phase \<Rightarrow> transcript_builder \<Rightarrow> parse_error + transcript_v1" where
  "finish phase builder =
     (if phase \<noteq> Complete then Inl (incomplete (expected_after phase))
      else
        (case (tb_header builder, tb_match_created builder, tb_final_state builder,
               tb_match_completed builder) of
           (Some header, Some match_created, Some final_state, Some match_completed) \<Rightarrow>
             Inr \<lparr>tv_header = header, tv_match_created = match_created, tv_steps = tb_steps builder,
                  tv_final_state = final_state, tv_match_completed = match_completed\<rparr>
         | _ \<Rightarrow> Inl (incomplete ''all required records'')))"

text \<open>The loop of \<open>fold_records\<close>, from an expected sequence number on.\<close>

fun fold_from ::
  "serialization \<Rightarrow> u64 \<Rightarrow> parse_phase \<times> transcript_builder \<Rightarrow> decoded_record list
    \<Rightarrow> parse_error + parse_phase \<times> transcript_builder" where
  "fold_from sz expected pb [] = Inr pb"
| "fold_from sz expected pb (decoded # rest) =
     and_then (demand_that (record_sequence (dec_record decoded) = expected)
       (lifecycle_failure decoded ''sequence''
         (Sequence expected (record_sequence (dec_record decoded))))) (\<lambda>_.
     and_then (advance sz (fst pb) decoded (snd pb)) (\<lambda>pb.
     fold_from sz (expected + 1) pb rest))"

definition fold_records :: "serialization \<Rightarrow> decoded_record list \<Rightarrow> parse_error + transcript_v1" where
  "fold_records sz records =
     and_then (fold_from sz 0 (Header, builder_start) records) (\<lambda>pb. finish (fst pb) (snd pb))"

section \<open>Lemmas\<close>

lemma demand_that_Inr [simp]: "demand_that c e = Inr u \<longleftrightarrow> c"
  by (simp add: demand_that_def)

lemma demand_that_True [simp]: "demand_that True e = Inr ()"
  by (simp add: demand_that_def)

lemma fold_from_append:
  "fold_from sz n pb (xs @ ys) =
    and_then (fold_from sz n pb xs) (\<lambda>pb. fold_from sz (n + of_nat (length xs)) pb ys)"
proof (induction xs arbitrary: n pb)
  case Nil
  then show ?case by simp
next
  case (Cons x xs)
  show ?case by (simp add: Cons and_then_def add.assoc split: sum.splits)
qed

end
