(* ===== verification/Decode.thy ===== *)
theory Decode
  imports Transcript Text
begin

text \<open>
  The reading half of \<open>crates/match-log/src/parse.rs\<close>: lines are split off a reader and decoded,
  one record each. What serde makes of
  a text is a parameter, the fields of \<open>decoders\<close>: \<open>serde_json::from_str\<close> to a \<open>Value\<close> (or the
  text of the error) and, for each record type, \<open>serde_path_to_error::deserialize\<close> (or the path and
  the text of the error). The reader is a parameter too: \<open>read_until(b'\n')\<close> answers an error
  or the bytes it appended. Reading goes on until a read is empty, which need never happen, so
  \<open>parse_reader\<close> is a \<open>partial_function\<close>; a slice of bytes, the reader \<open>slice_read_until\<close>, always
  ends it.
\<close>

section \<open>Values\<close>

record decoders =
  jd_value :: "string \<Rightarrow> string + json_value"
  jd_header :: "string \<Rightarrow> (string \<times> string) + header_v1"
  jd_match_created :: "string \<Rightarrow> (string \<times> string) + match_created_v1"
  jd_action :: "string \<Rightarrow> (string \<times> string) + action_record_v1"
  jd_event :: "string \<Rightarrow> (string \<times> string) + event_record_v1"
  jd_step_completed :: "string \<Rightarrow> (string \<times> string) + step_completed_v1"
  jd_step_rejected :: "string \<Rightarrow> (string \<times> string) + step_rejected_v1"
  jd_final_state :: "string \<Rightarrow> (string \<times> string) + final_state_v1"
  jd_match_completed :: "string \<Rightarrow> (string \<times> string) + match_completed_v1"

text \<open>\<open>Value::get\<close>, \<open>Value::as_str\<close> and \<open>Value::as_u64\<close>.\<close>

fun value_get :: "json_value \<Rightarrow> string \<Rightarrow> json_value option" where
  "value_get (Object members) key = map_of members key"
| "value_get _ key = None"

fun as_str :: "json_value \<Rightarrow> string option" where
  "as_str (String text) = Some text"
| "as_str _ = None"

fun as_u64 :: "json_value \<Rightarrow> u64 option" where
  "as_u64 (Number (PosInt n)) = Some n"
| "as_u64 _ = None"

definition get_with :: "(json_value \<Rightarrow> 'a option) \<Rightarrow> json_value \<Rightarrow> string \<Rightarrow> 'a option" where
  "get_with read_value v key = Option.bind (value_get v key) read_value"

definition context_from_value :: "nat \<Rightarrow> json_value \<Rightarrow> parse_context" where
  "context_from_value line v =
     \<lparr>pc_line = Some line, pc_sequence = get_with as_u64 v ''sequence'',
      pc_step = get_with as_u64 v ''step'', pc_event_index = get_with as_u64 v ''index'',
      pc_path = None\<rparr>"

section \<open>Canonical values\<close>

definition join_path :: "string \<Rightarrow> string \<Rightarrow> string" where
  "join_path parent child = (if parent = [] then child else parent @ ''.'' @ child)"

definition validate_entity_id :: "string \<Rightarrow> string \<Rightarrow> parse_context \<Rightarrow> parse_error + unit" where
  "validate_entity_id text path context =
     (let canonical = (case entity_id_parse text of
            Inr e \<Rightarrow> entity_id_display e = text | Inl _ \<Rightarrow> False) in
      if canonical then Inr ()
      else Inl \<lparr>pe_kind = parse_error_kind.InvalidEntityId text, pe_context = with_path context path\<rparr>)"

definition digest_digit :: "char \<Rightarrow> bool" where
  "digest_digit c \<longleftrightarrow> (let n = of_char c :: nat in 48 \<le> n \<and> n \<le> 57 \<or> 97 \<le> n \<and> n \<le> 102)"

definition validate_digest :: "string \<Rightarrow> string \<Rightarrow> parse_context \<Rightarrow> parse_error + unit" where
  "validate_digest text path context =
     (let valid = length text = 71 \<and> take 7 text = ''sha256:'' \<and> list_all digest_digit (drop 7 text) in
      if valid then Inr ()
      else Inl \<lparr>pe_kind = InvalidStateDigest text, pe_context = with_path context path\<rparr>)"

definition validate_field :: "string \<Rightarrow> json_value \<Rightarrow> string \<Rightarrow> parse_context \<Rightarrow> parse_error + unit" where
  "validate_field field child child_path context =
     (if field \<in> {''ability'', ''definition'', ''entity''}
      then (case as_str child of
          Some text \<Rightarrow> validate_entity_id text child_path context | None \<Rightarrow> Inr ())
      else if field = ''state_digest''
      then (case as_str child of
          Some text \<Rightarrow> validate_digest text child_path context | None \<Rightarrow> Inr ())
      else Inr ())"

fun validate_canonical_values :: "json_value \<Rightarrow> string \<Rightarrow> parse_context \<Rightarrow> parse_error + unit"
  and validate_fields :: "(string \<times> json_value) list \<Rightarrow> string \<Rightarrow> parse_context \<Rightarrow> parse_error + unit"
  and validate_elements :: "json_value list \<Rightarrow> nat \<Rightarrow> string \<Rightarrow> parse_context \<Rightarrow> parse_error + unit" where
  "validate_canonical_values (Object members) path context = validate_fields members path context"
| "validate_canonical_values (Array vs) path context = validate_elements vs 0 path context"
| "validate_canonical_values Null path context = Inr ()"
| "validate_canonical_values (Bool _) path context = Inr ()"
| "validate_canonical_values (Number _) path context = Inr ()"
| "validate_canonical_values (String _) path context = Inr ()"
| "validate_fields [] path context = Inr ()"
| "validate_fields ((field, child) # members) path context =
     (let child_path = join_path path field in
      and_then (validate_field field child child_path context) (\<lambda>_.
      and_then (validate_canonical_values child child_path context) (\<lambda>_.
      validate_fields members path context)))"
| "validate_elements [] index path context = Inr ()"
| "validate_elements (v # vs) index path context =
     and_then (validate_canonical_values v (index_path path index) context) (\<lambda>_.
     validate_elements vs (index + 1) path context)"

section \<open>One record\<close>

definition decode_typed ::
  "(string \<Rightarrow> (string \<times> string) + 'a) \<Rightarrow> string \<Rightarrow> parse_context \<Rightarrow> parse_error + 'a" where
  "decode_typed deserialize text context =
     map_err (\<lambda>(path, message).
       \<lparr>pe_kind = InvalidRecord message,
        pe_context = (if path = ''.'' then context else with_path context path)\<rparr>) (deserialize text)"

definition decode_header :: "decoders \<Rightarrow> string \<Rightarrow> parse_context \<Rightarrow> parse_error + record_v1" where
  "decode_header jd text context =
     and_then (decode_typed (jd_header jd) text context) (\<lambda>header.
     if hd1_format header \<noteq> ''summoners_match''
     then Inl \<lparr>pe_kind = UnsupportedFormat (hd1_format header), pe_context = with_path context ''format''\<rparr>
     else if hd1_format_version header \<noteq> 1
     then Inl \<lparr>pe_kind = UnsupportedVersion (hd1_format_version header),
               pe_context = with_path context ''format_version''\<rparr>
     else Inr (record_v1.Header header))"

definition decode_variant ::
  "decoders \<Rightarrow> string \<Rightarrow> string \<Rightarrow> parse_context \<Rightarrow> parse_error + record_v1" where
  "decode_variant jd tag text context =
     (if tag = ''header'' then decode_header jd text context
      else if tag = ''match_created''
      then and_then (decode_typed (jd_match_created jd) text context) (\<lambda>v. Inr (record_v1.MatchCreated v))
      else if tag = ''action''
      then and_then (decode_typed (jd_action jd) text context) (\<lambda>v. Inr (record_v1.Action v))
      else if tag = ''event''
      then and_then (decode_typed (jd_event jd) text context) (\<lambda>v. Inr (record_v1.Event v))
      else if tag = ''step_completed''
      then and_then (decode_typed (jd_step_completed jd) text context) (\<lambda>v. Inr (record_v1.StepCompleted v))
      else if tag = ''step_rejected''
      then and_then (decode_typed (jd_step_rejected jd) text context) (\<lambda>v. Inr (record_v1.StepRejected v))
      else if tag = ''final_state''
      then and_then (decode_typed (jd_final_state jd) text context) (\<lambda>v. Inr (record_v1.FinalState v))
      else if tag = ''match_completed''
      then and_then (decode_typed (jd_match_completed jd) text context) (\<lambda>v. Inr (record_v1.MatchCompleted v))
      else Inl (invalid_record context ''record'' (''unknown record variant `'' @ tag @ ''`'')))"

definition line_context :: "nat \<Rightarrow> parse_context" where
  "line_context line = parse_context_default\<lparr>pc_line := Some line\<rparr>"

definition decode_record :: "decoders \<Rightarrow> u8 list \<Rightarrow> nat \<Rightarrow> parse_error + decoded_record" where
  "decode_record jd bytes line =
     and_then (map_err (\<lambda>_. \<lparr>pe_kind = InvalidUtf8, pe_context = line_context line\<rparr>) (from_utf8 bytes)) (\<lambda>text.
     and_then (map_err (\<lambda>message. \<lparr>pe_kind = MalformedJson message, pe_context = line_context line\<rparr>)
       (jd_value jd text)) (\<lambda>v.
     let base_context = context_from_value line v in
     and_then (ok_or (invalid_record base_context ''record'' ''missing or invalid record field'')
       (get_with as_str v ''record'')) (\<lambda>tag.
     and_then (if tag \<noteq> ''header'' then validate_canonical_values v [] base_context else Inr ()) (\<lambda>_.
     and_then (decode_variant jd tag text base_context) (\<lambda>r.
     Inr \<lparr>dec_line = line, dec_record = r\<rparr>)))))"

section \<open>The reader\<close>

text \<open>\<open>read_until(b'\n')\<close> into an empty buffer; an empty answer is the end of the input.\<close>

type_synonym 'r reader = "'r \<Rightarrow> (string + u8 list) \<times> 'r"

definition strip_line_end :: "u8 list \<Rightarrow> u8 list" where
  "strip_line_end bytes =
     (if bytes \<noteq> [] \<and> last bytes = 10
      then let bytes = butlast bytes in
        if bytes \<noteq> [] \<and> last bytes = 13 then butlast bytes else bytes
      else bytes)"

partial_function (option) parse_lines ::
  "'r reader \<Rightarrow> decoders \<Rightarrow> 'r \<Rightarrow> nat \<Rightarrow> decoded_record list \<Rightarrow> (parse_error + decoded_record list) option" where
  "parse_lines read_until jd reader line_number records =
     (case read_until reader of
        (Inl message, reader) \<Rightarrow>
          Some (Inl \<lparr>pe_kind = Read message, pe_context = line_context line_number\<rparr>)
      | (Inr bytes, reader) \<Rightarrow>
          if bytes = [] then Some (Inr records)
          else
            case decode_record jd (strip_line_end bytes) line_number of
              Inl error \<Rightarrow> Some (Inl error)
            | Inr decoded \<Rightarrow> parse_lines read_until jd reader (line_number + 1) (records @ [decoded]))"

definition parse_reader ::
  "serialization \<Rightarrow> 'r reader \<Rightarrow> decoders \<Rightarrow> 'r \<Rightarrow> (parse_error + transcript_v1) option" where
  "parse_reader sz read_until jd reader =
     map_option (\<lambda>r. and_then r (fold_records sz)) (parse_lines read_until jd reader 1 [])"

end
