(* ===== verification/Parsing.thy ===== *)
theory Parsing
  imports Transcript
begin

text \<open>
  What the fold of \<open>parse.rs\<close> accepts. \<open>records_in\<close> lists the records of a transcript in
  order, \<open>transcript_ok\<close> says when a transcript is complete and consistent, and the fold accepts
  exactly the numbered records of consistent transcripts.
\<close>

section \<open>The records of a transcript\<close>

fun result_records :: "transcript_step_result_v1 \<Rightarrow> record_v1 list" where
  "result_records (transcript_step_result_v1.Accepted events completion) =
     map record_v1.Event events @ [record_v1.StepCompleted completion]"
| "result_records (transcript_step_result_v1.Rejected rejection) = [record_v1.StepRejected rejection]"

definition step_records :: "transcript_step_v1 \<Rightarrow> record_v1 list" where
  "step_records st = record_v1.Action (tt_action st) # result_records (tt_result st)"

definition records_in :: "transcript_v1 \<Rightarrow> record_v1 list" where
  "records_in t =
     [record_v1.Header (tv_header t), record_v1.MatchCreated (tv_match_created t)]
     @ concat (map step_records (tv_steps t))
     @ [record_v1.FinalState (tv_final_state t), record_v1.MatchCompleted (tv_match_completed t)]"

fun numbered :: "u64 \<Rightarrow> record_v1 list \<Rightarrow> bool" where
  "numbered n [] = True"
| "numbered n (r # rs) = (record_sequence r = n \<and> numbered (n + 1) rs)"

section \<open>Consistent steps\<close>

fun result_events :: "transcript_step_result_v1 \<Rightarrow> event_record_v1 list" where
  "result_events (transcript_step_result_v1.Accepted events _) = events"
| "result_events (transcript_step_result_v1.Rejected _) = []"

definition wire_ending :: "event_v1 \<Rightarrow> game_outcome_v1 option" where
  "wire_ending event =
     (case event of
        event_v1.GameEnded winner reason \<Rightarrow> Some \<lparr>go1_winner = winner, go1_reason = reason\<rparr>
      | _ \<Rightarrow> None)"

definition wire_endings :: "event_record_v1 list \<Rightarrow> game_outcome_v1 list" where
  "wire_endings events = filter_map (\<lambda>r. wire_ending (er1_event r)) events"

definition step_endings :: "transcript_step_v1 \<Rightarrow> game_outcome_v1 list" where
  "step_endings st = wire_endings (result_events (tt_result st))"

definition events_ok :: "u64 \<Rightarrow> event_record_v1 list \<Rightarrow> bool" where
  "events_ok n events \<longleftrightarrow>
     map (\<lambda>r. (er1_step r, er1_index r)) events = map (\<lambda>i. (n, of_nat i)) [0..<length events]"

definition step_ok :: "u64 \<Rightarrow> state_digest_v1 \<Rightarrow> transcript_step_v1 \<Rightarrow> bool" where
  "step_ok n digest st \<longleftrightarrow>
     ar1_step (tt_action st) = n \<and>
     (case tt_result st of
        transcript_step_result_v1.Accepted events completion \<Rightarrow>
          events_ok n events \<and> sc1_step completion = n
          \<and> sc1_event_count completion = of_nat (length events)
      | transcript_step_result_v1.Rejected rejection \<Rightarrow>
          sr1_step rejection = n \<and> sr1_state_digest rejection = digest)"

definition step_digest :: "transcript_step_v1 \<Rightarrow> state_digest_v1 \<Rightarrow> state_digest_v1" where
  "step_digest st digest =
     (case tt_result st of
        transcript_step_result_v1.Accepted _ completion \<Rightarrow> sc1_state_digest completion
      | transcript_step_result_v1.Rejected _ \<Rightarrow> digest)"

definition digest_after :: "transcript_step_v1 list \<Rightarrow> state_digest_v1 \<Rightarrow> state_digest_v1" where
  "digest_after steps digest = fold step_digest steps digest"

text \<open>Steps that have not ended the game, numbered from \<open>n\<close> on.\<close>

fun open_steps :: "u64 \<Rightarrow> state_digest_v1 \<Rightarrow> transcript_step_v1 list \<Rightarrow> bool" where
  "open_steps n digest [] = True"
| "open_steps n digest (st # steps) \<longleftrightarrow>
     step_ok n digest st \<and> step_endings st = [] \<and> open_steps (n + 1) (step_digest st digest) steps"

definition total_events :: "transcript_step_v1 list \<Rightarrow> u64" where
  "total_events steps = (\<Sum>st \<leftarrow> steps. of_nat (length (result_events (tt_result st))))"

text \<open>Steps whose last one, and no other, ends the game, once.\<close>

definition terminal_steps ::
  "state_digest_v1 \<Rightarrow> transcript_step_v1 list \<Rightarrow> game_outcome_v1 \<Rightarrow> bool" where
  "terminal_steps digest steps outcome \<longleftrightarrow>
     steps \<noteq> [] \<and> open_steps 1 digest (butlast steps)
     \<and> step_ok (of_nat (length steps)) (digest_after (butlast steps) digest) (last steps)
     \<and> step_endings (last steps) = [outcome]"

definition created_ok :: "serialization \<Rightarrow> match_created_v1 \<Rightarrow> bool" where
  "created_ok sz created \<longleftrightarrow>
     sp1_status (mc1_initial_state created) = game_status_v1.Playing
     \<and> digest_compute sz (mc1_initial_state created) = Inr (mc1_state_digest created)"

definition final_ok ::
  "serialization \<Rightarrow> state_digest_v1 \<Rightarrow> game_outcome_v1 \<Rightarrow> final_state_v1 \<Rightarrow> bool" where
  "final_ok sz digest outcome final_state \<longleftrightarrow>
     sp1_status (fs1_final_state final_state) = game_status_v1.Ended outcome
     \<and> fs1_state_digest final_state = digest
     \<and> digest_compute sz (fs1_final_state final_state) = Inr digest"

definition completed_ok ::
  "state_digest_v1 \<Rightarrow> transcript_step_v1 list \<Rightarrow> game_outcome_v1 \<Rightarrow> match_completed_v1 \<Rightarrow> bool" where
  "completed_ok digest steps outcome completed \<longleftrightarrow>
     md1_step_count completed = of_nat (length steps)
     \<and> md1_event_count completed = total_events steps
     \<and> md1_state_digest completed = digest
     \<and> md1_winner completed = go1_winner outcome \<and> md1_reason completed = go1_reason outcome"

definition transcript_ok :: "serialization \<Rightarrow> transcript_v1 \<Rightarrow> bool" where
  "transcript_ok sz t \<longleftrightarrow>
     (let d0 = mc1_state_digest (tv_match_created t); steps = tv_steps t;
          digest = digest_after steps d0
      in created_ok sz (tv_match_created t) \<and>
         (case step_endings (last steps) of
            [outcome] \<Rightarrow>
              terminal_steps d0 steps outcome
              \<and> final_ok sz digest outcome (tv_final_state t)
              \<and> completed_ok digest steps outcome (tv_match_completed t)
          | _ \<Rightarrow> False))"

lemma numbered_append: "numbered n (xs @ ys) \<longleftrightarrow> numbered n xs \<and> numbered (n + of_nat (length xs)) ys"
  by (induction xs arbitrary: n) (simp_all add: add.assoc)

lemma events_ok_snoc:
  "events_ok n (events @ [r]) \<longleftrightarrow>
    events_ok n events \<and> er1_step r = n \<and> er1_index r = of_nat (length events)"
  by (auto simp: events_ok_def)

lemma wire_endings_append [simp]: "wire_endings (xs @ ys) = wire_endings xs @ wire_endings ys"
  by (simp add: wire_endings_def)

lemma wire_endings_simps [simp]:
  "wire_endings [] = []"
  "wire_endings [r] = (case wire_ending (er1_event r) of None \<Rightarrow> [] | Some o' \<Rightarrow> [o'])"
  by (simp_all add: wire_endings_def split: option.split)

lemma open_steps_append:
  "open_steps n d (xs @ ys) \<longleftrightarrow> open_steps n d xs \<and> open_steps (n + of_nat (length xs)) (digest_after xs d) ys"
  by (induction xs arbitrary: n d) (simp_all add: digest_after_def add.assoc)

lemma digest_after_snoc [simp]: "digest_after (xs @ [st]) d = step_digest st (digest_after xs d)"
  by (simp add: digest_after_def)

lemma total_events_simps [simp]:
  "total_events [] = 0"
  "total_events (xs @ [st]) = total_events xs + of_nat (length (result_events (tt_result st)))"
  by (simp_all add: total_events_def)

section \<open>The fold without its numbering\<close>

fun advance_all ::
  "serialization \<Rightarrow> parse_phase \<times> transcript_builder \<Rightarrow> decoded_record list
    \<Rightarrow> parse_error + parse_phase \<times> transcript_builder" where
  "advance_all sz pb [] = Inr pb"
| "advance_all sz pb (d # ds) = and_then (advance sz (fst pb) d (snd pb)) (\<lambda>pb. advance_all sz pb ds)"

lemma fold_from_split:
  "fold_from sz n pb ds = Inr pb' \<longleftrightarrow> numbered n (map dec_record ds) \<and> advance_all sz pb ds = Inr pb'"
  by (induction ds arbitrary: n pb) (auto simp: and_then_Inr)

lemma advance_all_append:
  "advance_all sz pb (xs @ ys) = and_then (advance_all sz pb xs) (\<lambda>pb. advance_all sz pb ys)"
  by (induction xs arbitrary: pb) (simp_all add: and_then_def split: sum.splits)

lemma advance_all_join:
  "advance_all sz pb xs = Inr pb' \<Longrightarrow> advance_all sz pb' ys = Inr pb'' \<Longrightarrow>
    advance_all sz pb (xs @ ys) = Inr pb''"
  by (simp add: advance_all_append)

section \<open>What has been read so far\<close>

definition read_so_far :: "parse_phase \<Rightarrow> transcript_builder \<Rightarrow> record_v1 list" where
  "read_so_far phase b =
     map record_v1.Header (list_of_option (tb_header b))
     @ map record_v1.MatchCreated (list_of_option (tb_match_created b))
     @ concat (map step_records (tb_steps b))
     @ (case phase of
          Pending pending \<Rightarrow> record_v1.Action (pd_action pending) # map record_v1.Event (pd_events pending)
        | _ \<Rightarrow> [])
     @ map record_v1.FinalState (list_of_option (tb_final_state b))
     @ map record_v1.MatchCompleted (list_of_option (tb_match_completed b))"

definition pending_ok :: "u64 \<Rightarrow> pending_step \<Rightarrow> bool" where
  "pending_ok n pending \<longleftrightarrow>
     ar1_step (pd_action pending) = n \<and> events_ok n (pd_events pending)
     \<and> wire_endings (pd_events pending) = list_of_option (pd_game_ended pending)"

text \<open>A builder with a created match.\<close>

definition building :: "serialization \<Rightarrow> state_digest_v1 \<Rightarrow> transcript_builder \<Rightarrow> bool" where
  "building sz d0 b \<longleftrightarrow>
     tb_header b \<noteq> None
     \<and> (\<exists>created. tb_match_created b = Some created \<and> created_ok sz created
          \<and> mc1_state_digest created = d0)
     \<and> tb_next_step b = of_nat (length (tb_steps b)) + 1
     \<and> tb_event_count b = total_events (tb_steps b)
     \<and> tb_digest b = Some (digest_after (tb_steps b) d0)"

definition reading :: "serialization \<Rightarrow> parse_phase \<Rightarrow> transcript_builder \<Rightarrow> bool" where
  "reading sz phase b \<longleftrightarrow>
     (case phase of
        Header \<Rightarrow> b = builder_start
      | MatchCreated \<Rightarrow> \<exists>h. b = builder_start\<lparr>tb_header := Some h\<rparr>
      | Ready \<Rightarrow> tb_final_state b = None \<and> tb_match_completed b = None \<and>
          (\<exists>d0. building sz d0 b \<and> open_steps 1 d0 (tb_steps b))
      | Pending pending \<Rightarrow> tb_final_state b = None \<and> tb_match_completed b = None \<and>
          (\<exists>d0. building sz d0 b \<and> open_steps 1 d0 (tb_steps b) \<and> pending_ok (tb_next_step b) pending)
      | Terminal outcome \<Rightarrow> tb_final_state b = None \<and> tb_match_completed b = None \<and>
          (\<exists>d0. building sz d0 b \<and> terminal_steps d0 (tb_steps b) outcome)
      | Final outcome \<Rightarrow> tb_match_completed b = None \<and>
          (\<exists>d0 f. building sz d0 b \<and> terminal_steps d0 (tb_steps b) outcome
            \<and> tb_final_state b = Some f \<and> final_ok sz (digest_after (tb_steps b) d0) outcome f)
      | Complete \<Rightarrow>
          (\<exists>d0 f c outcome. building sz d0 b \<and> terminal_steps d0 (tb_steps b) outcome
            \<and> tb_final_state b = Some f \<and> final_ok sz (digest_after (tb_steps b) d0) outcome f
            \<and> tb_match_completed b = Some c
            \<and> completed_ok (digest_after (tb_steps b) d0) (tb_steps b) outcome c))"


section \<open>Everything accepted is consistent\<close>

lemma wire_ending_GameEnded [simp]:
  "wire_ending (event_v1.GameEnded w r) = Some \<lparr>go1_winner = w, go1_reason = r\<rparr>"
  by (simp add: wire_ending_def)

lemma advance_event_ok:
  assumes "advance_event d pending event = Inr phase" and "pending_ok n pending"
  shows "\<exists>pending'. phase = Pending pending' \<and> pending_ok n pending'
    \<and> pd_action pending' = pd_action pending \<and> pd_events pending' = pd_events pending @ [event]"
proof -
  have "er1_step event = n" "er1_index event = of_nat (length (pd_events pending))"
    using assms by (auto simp: advance_event_def validate_step_def and_then_Inr pending_ok_def Let_def)
  moreover have "wire_ending (er1_event event) = None" if "\<And>w r. er1_event event \<noteq> event_v1.GameEnded w r"
    using that by (auto simp: wire_ending_def split: event_v1.splits)
  ultimately show ?thesis
    using assms
    by (cases "\<exists>w r. er1_event event = event_v1.GameEnded w r")
      (auto simp: advance_event_def and_then_Inr pending_ok_def events_ok_snoc Let_def
        split: event_v1.splits)
qed

lemma advance_completed_ok:
  assumes "advance_completed d pending completion b = Inr (phase', b')"
    and "reading sz (Pending pending) b"
  shows "reading sz phase' b'
    \<and> read_so_far phase' b' = read_so_far (Pending pending) b @ [record_v1.StepCompleted completion]"
proof -
  let ?st = "\<lparr>tt_action = pd_action pending,
    tt_result = transcript_step_result_v1.Accepted (pd_events pending) completion\<rparr>"
  obtain d0 where b: "building sz d0 b" and steps: "open_steps 1 d0 (tb_steps b)"
    and pending: "pending_ok (tb_next_step b) pending"
    and tail: "tb_final_state b = None" "tb_match_completed b = None"
    using assms(2) by (auto simp: reading_def)
  have next_step: "tb_next_step b = 1 + of_nat (length (tb_steps b))"
    using b by (simp add: building_def add.commute)
  have ok: "step_ok (1 + of_nat (length (tb_steps b))) digest ?st" for digest
    using assms(1) pending next_step
    by (auto simp: advance_completed_def validate_step_def and_then_Inr step_ok_def pending_ok_def Let_def)
  have ended: "step_endings ?st = list_of_option (pd_game_ended pending)"
    using pending by (simp add: pending_ok_def step_endings_def)
  have "building sz d0 b'" "tb_steps b' = tb_steps b @ [?st]"
    and "phase' = (case pd_game_ended pending of Some o' \<Rightarrow> Terminal o' | None \<Rightarrow> Ready)"
    and "tb_header b' = tb_header b" "tb_match_created b' = tb_match_created b"
    and "tb_final_state b' = None" "tb_match_completed b' = None"
    using assms(1) b tail
    by (auto simp: advance_completed_def and_then_Inr Let_def building_def step_digest_def)
  then show ?thesis
    using ok ended steps tail
    by (cases "pd_game_ended pending")
      (auto simp: reading_def open_steps_append terminal_steps_def read_so_far_def step_records_def)
qed

lemma advance_rejected_ok:
  assumes "advance_rejected d pending rejection b = Inr (phase', b')"
    and "reading sz (Pending pending) b"
  shows "reading sz phase' b'
    \<and> read_so_far phase' b' = read_so_far (Pending pending) b @ [record_v1.StepRejected rejection]"
proof -
  let ?st = "\<lparr>tt_action = pd_action pending, tt_result = transcript_step_result_v1.Rejected rejection\<rparr>"
  obtain d0 where b: "building sz d0 b" and steps: "open_steps 1 d0 (tb_steps b)"
    and pending: "pending_ok (tb_next_step b) pending"
    and tail: "tb_final_state b = None" "tb_match_completed b = None"
    using assms(2) by (auto simp: reading_def)
  have next_step: "tb_next_step b = 1 + of_nat (length (tb_steps b))"
    using b by (simp add: building_def add.commute)
  have ok: "step_ok (1 + of_nat (length (tb_steps b))) (digest_after (tb_steps b) d0) ?st"
    and none: "pd_events pending = []"
    using assms(1) pending next_step b
    by (auto simp: advance_rejected_def validate_step_def and_then_Inr step_ok_def pending_ok_def
        building_def)
  have "building sz d0 b'" "tb_steps b' = tb_steps b @ [?st]" "phase' = Ready"
    and "tb_header b' = tb_header b" "tb_match_created b' = tb_match_created b"
    and "tb_final_state b' = None" "tb_match_completed b' = None"
    using assms(1) b tail by (auto simp: advance_rejected_def and_then_Inr building_def step_digest_def)
  then show ?thesis
    using ok none steps tail
    by (auto simp: reading_def open_steps_append read_so_far_def step_records_def step_endings_def)
qed

lemma advance_reads:
  assumes "advance sz phase d b = Inr (phase', b')" and "reading sz phase b"
  shows "reading sz phase' b' \<and> read_so_far phase' b' = read_so_far phase b @ [dec_record d]"
proof (cases phase)
  case Header
  then show ?thesis
    using assms by (cases "dec_record d") (auto simp: reading_def read_so_far_def builder_start_def)
next
  case MatchCreated
  then show ?thesis
    using assms
    by (cases "dec_record d")
      (auto simp: reading_def read_so_far_def builder_start_def and_then_Inr validate_initial_state_def
        computed_digest_def map_err_def building_def created_ok_def digest_after_def total_events_def
        split: sum.splits)
next
  case Ready
  then show ?thesis
    using assms
    by (cases "dec_record d")
      (auto simp: reading_def read_so_far_def and_then_Inr validate_step_def pending_ok_def events_ok_def)
next
  case (Terminal o')
  then show ?thesis
    using assms
    by (cases "dec_record d")
      (auto simp: reading_def read_so_far_def and_then_Inr validate_final_state_def computed_digest_def
        map_err_def final_ok_def building_def split: sum.splits game_status_v1.splits)
next
  case (Final o')
  then show ?thesis
    using assms
    by (cases "dec_record d")
      (auto simp: reading_def read_so_far_def and_then_Inr validate_completion_def completed_ok_def
        building_def Let_def)
next
  case (Pending pending)
  show ?thesis
  proof (cases "dec_record d")
    case (Event event)
    then show ?thesis
      using assms Pending
      by (auto simp: reading_def read_so_far_def and_then_Inr dest!: advance_event_ok)
  qed (use assms Pending in \<open>simp_all add: advance_completed_ok advance_rejected_ok\<close>)
qed (use assms in simp_all)

lemma advance_all_reads:
  assumes "advance_all sz pb ds = Inr pb'" and "reading sz (fst pb) (snd pb)"
  shows "reading sz (fst pb') (snd pb')
    \<and> read_so_far (fst pb') (snd pb') = read_so_far (fst pb) (snd pb) @ map dec_record ds"
  using assms
proof (induction ds arbitrary: pb)
  case Nil
  then show ?case by simp
next
  case (Cons d ds)
  then obtain phase b where step: "advance sz (fst pb) d (snd pb) = Inr (phase, b)"
    and rest: "advance_all sz (phase, b) ds = Inr pb'"
    by (auto simp: and_then_Inr)
  from advance_reads [OF step Cons.prems(2)] Cons.IH [OF rest] show ?case by simp
qed

lemma reading_finish:
  assumes "finish phase b = Inr t" and "reading sz phase b"
  shows "transcript_ok sz t \<and> records_in t = read_so_far phase b"
proof -
  have "phase = Complete" using assms(1) by (simp add: finish_def split: if_splits)
  with assms obtain d0 f c outcome h created where
    "building sz d0 b" "terminal_steps d0 (tb_steps b) outcome"
    "final_ok sz (digest_after (tb_steps b) d0) outcome f"
    "completed_ok (digest_after (tb_steps b) d0) (tb_steps b) outcome c"
    "tb_header b = Some h" "tb_match_created b = Some created" "tb_final_state b = Some f"
    "tb_match_completed b = Some c" "created_ok sz created" "mc1_state_digest created = d0"
    by (auto simp: reading_def building_def)
  moreover from this have "t = \<lparr>tv_header = h, tv_match_created = created, tv_steps = tb_steps b,
      tv_final_state = f, tv_match_completed = c\<rparr>"
    using assms(1) by (simp add: finish_def split: if_splits)
  ultimately show ?thesis
    using \<open>phase = Complete\<close>
    by (simp add: transcript_ok_def terminal_steps_def records_in_def read_so_far_def Let_def)
qed

section \<open>Everything consistent is accepted\<close>

lemma map_dec_Cons: "map dec_record ds = r # rs \<longleftrightarrow> (\<exists>d ds'. ds = d # ds' \<and> dec_record d = r \<and> map dec_record ds' = rs)"
  by (cases ds) auto

lemma map_dec_append:
  "map dec_record ds = xs @ ys \<longleftrightarrow>
    (\<exists>as bs. ds = as @ bs \<and> map dec_record as = xs \<and> map dec_record bs = ys)"
  by (auto simp: map_eq_append_conv)

lemma advance_event_accepts:
  assumes "pending_ok n pending" and "er1_step event = n"
    and "er1_index event = of_nat (length (pd_events pending))"
    and "length (wire_endings (pd_events pending @ [event])) \<le> 1"
  shows "\<exists>phase. advance_event d pending event = Inr phase"
  using assms
  by (cases "pd_game_ended pending")
    (auto simp: advance_event_def validate_step_def pending_ok_def Let_def wire_ending_def
      split: event_v1.splits)

lemma events_ok_prefix: "events_ok n (xs @ ys) \<Longrightarrow> events_ok n xs"
  by (induction ys arbitrary: xs rule: rev_induct) (auto simp: events_ok_snoc simp flip: append_assoc)

lemma complete_events:
  assumes "pending_ok n pending" and "events_ok n (pd_events pending @ events)"
    and "length (wire_endings (pd_events pending @ events)) \<le> 1"
    and "map dec_record ds = map record_v1.Event events"
  shows "\<exists>pending'. advance_all sz (Pending pending, b) ds = Inr (Pending pending', b)
    \<and> pd_action pending' = pd_action pending \<and> pd_events pending' = pd_events pending @ events
    \<and> pending_ok n pending'"
  using assms
proof (induction events arbitrary: pending ds)
  case Nil
  then show ?case by simp
next
  case (Cons event events)
  then obtain d ds' where ds: "ds = d # ds'" "dec_record d = record_v1.Event event"
    "map dec_record ds' = map record_v1.Event events"
    by (auto simp: map_dec_Cons)
  have "events_ok n (pd_events pending @ [event])"
    using Cons.prems(2) events_ok_prefix [of n "pd_events pending @ [event]" events] by simp
  moreover have "length (wire_endings (pd_events pending @ [event])) \<le> 1"
    using Cons.prems(3) wire_endings_append [of "pd_events pending @ [event]" events] by simp
  ultimately obtain phase where step: "advance_event d pending event = Inr phase"
    using advance_event_accepts [OF Cons.prems(1)] by (auto simp: events_ok_snoc)
  from advance_event_ok [OF this Cons.prems(1)] obtain mid where mid:
    "phase = Pending mid" "pending_ok n mid" "pd_action mid = pd_action pending"
    "pd_events mid = pd_events pending @ [event]"
    by auto
  from Cons.IH [OF mid(2) _ _ ds(3)] Cons.prems(2,3) mid
  obtain pending' where "advance_all sz (Pending mid, b) ds' = Inr (Pending pending', b)"
    "pd_action pending' = pd_action pending" "pd_events pending' = pd_events pending @ event # events"
    "pending_ok n pending'"
    by auto
  then show ?case by (auto simp: ds step mid)
qed

text \<open>One consistent step takes a ready builder on, to the terminal phase if it ends the game.\<close>

definition same_frame :: "transcript_builder \<Rightarrow> transcript_builder \<Rightarrow> bool" where
  "same_frame b b' \<longleftrightarrow> tb_header b' = tb_header b \<and> tb_match_created b' = tb_match_created b
     \<and> tb_final_state b' = tb_final_state b \<and> tb_match_completed b' = tb_match_completed b"

lemma complete_step:
  assumes "tb_digest b = Some digest" and "step_ok (tb_next_step b) digest st"
    and "length (step_endings st) \<le> 1" and "map dec_record ds = step_records st"
  shows "\<exists>b'. advance_all sz (Ready, b) ds
      = Inr (case step_endings st of [] \<Rightarrow> Ready | outcome # _ \<Rightarrow> Terminal outcome, b')
    \<and> tb_steps b' = tb_steps b @ [st] \<and> same_frame b b'"
proof -
  obtain d ds' where ds: "ds = d # ds'" "dec_record d = record_v1.Action (tt_action st)"
    "map dec_record ds' = result_records (tt_result st)"
    using assms(4) by (auto simp: step_records_def map_dec_Cons)
  let ?p = "\<lparr>pd_action = tt_action st, pd_events = [], pd_game_ended = None\<rparr>"
  have pending: "pending_ok (tb_next_step b) ?p"
    using assms(2) by (simp add: pending_ok_def step_ok_def events_ok_def)
  have begin_step: "advance sz Ready d b = Inr (Pending ?p, b)"
    using assms(2) by (simp add: ds validate_step_def step_ok_def)
  show ?thesis
  proof (cases "tt_result st")
    case (Accepted events completion)
    then obtain es e where ds': "ds' = es @ [e]" "map dec_record es = map record_v1.Event events"
      "dec_record e = record_v1.StepCompleted completion"
      using ds(3) by (auto simp: map_dec_append map_dec_Cons)
    have "events_ok (tb_next_step b) events" "length (wire_endings events) \<le> 1"
      using assms(2,3) Accepted by (simp_all add: step_ok_def step_endings_def)
    then obtain p' where p': "advance_all sz (Pending ?p, b) es = Inr (Pending p', b)"
      "pd_action p' = tt_action st" "pd_events p' = events" "pending_ok (tb_next_step b) p'"
      using complete_events [OF pending _ _ ds'(2), of sz b] by auto
    then have "wire_endings events = list_of_option (pd_game_ended p')"
      by (simp add: pending_ok_def)
    then show ?thesis
      using assms(2) Accepted p'
      by (cases "pd_game_ended p'")
        (auto simp: ds ds' begin_step advance_all_append advance_completed_def validate_step_def
          step_ok_def Let_def step_endings_def same_frame_def)
  next
    case (Rejected rejection)
    then obtain e where "ds' = [e]" "dec_record e = record_v1.StepRejected rejection"
      using ds(3) by (auto simp: map_dec_Cons)
    then show ?thesis
      using assms(1,2) Rejected
      by (auto simp: ds begin_step advance_rejected_def validate_step_def step_ok_def step_endings_def
          same_frame_def)
  qed
qed

lemma complete_open:
  assumes "reading sz Ready b" and "building sz d0 b"
    and "open_steps (tb_next_step b) (digest_after (tb_steps b) d0) steps"
    and "map dec_record ds = concat (map step_records steps)"
  shows "\<exists>b'. advance_all sz (Ready, b) ds = Inr (Ready, b') \<and> tb_steps b' = tb_steps b @ steps
    \<and> same_frame b b' \<and> building sz d0 b'"
  using assms
proof (induction steps arbitrary: b ds)
  case Nil
  then show ?case by (simp add: same_frame_def)
next
  case (Cons st steps)
  then obtain xs ys where ds: "ds = xs @ ys" "map dec_record xs = step_records st"
    "map dec_record ys = concat (map step_records steps)"
    by (auto simp: map_dec_append)
  have digest: "tb_digest b = Some (digest_after (tb_steps b) d0)"
    using Cons.prems(2) by (simp add: building_def)
  have st: "step_ok (tb_next_step b) (digest_after (tb_steps b) d0) st" "step_endings st = []"
    using Cons.prems(3) by simp_all
  from complete_step [OF digest st(1) _ ds(2), of sz] st(2)
  obtain mid where mid: "advance_all sz (Ready, b) xs = Inr (Ready, mid)"
    "tb_steps mid = tb_steps b @ [st]" "same_frame b mid"
    by auto
  have ready: "reading sz Ready mid"
    using advance_all_reads [OF mid(1)] Cons.prems(1) by simp
  then have built: "building sz d0 mid"
    using mid(3) Cons.prems(2) by (auto simp: reading_def building_def same_frame_def)
  have "open_steps (tb_next_step mid) (digest_after (tb_steps mid) d0) steps"
    using Cons.prems(2,3) built mid(2) by (simp add: building_def)
  from Cons.IH [OF ready built this ds(3)] mid obtain b' where
    "advance_all sz (Ready, mid) ys = Inr (Ready, b')" "tb_steps b' = tb_steps b @ st # steps"
    "same_frame mid b'" "building sz d0 b'"
    by auto
  then show ?case using mid by (auto simp: ds advance_all_append same_frame_def)
qed

lemma complete_all:
  assumes "transcript_ok sz t" and "map dec_record ds = records_in t"
  shows "\<exists>b. advance_all sz (Header, builder_start) ds = Inr (Complete, b) \<and> finish Complete b = Inr t"
proof -
  let ?d0 = "mc1_state_digest (tv_match_created t)" and ?steps = "tv_steps t"
  let ?digest = "digest_after ?steps ?d0"
  obtain outcome where created: "created_ok sz (tv_match_created t)"
    and terminal: "terminal_steps ?d0 ?steps outcome"
    and final: "final_ok sz ?digest outcome (tv_final_state t)"
    and completed: "completed_ok ?digest ?steps outcome (tv_match_completed t)"
    using assms(1) by (auto simp: transcript_ok_def Let_def split: list.splits)
  obtain before st where steps: "?steps = before @ [st]"
    using terminal by (cases ?steps rule: rev_cases) (auto simp: terminal_steps_def)
  have st: "open_steps 1 ?d0 before" "step_ok (of_nat (length ?steps)) (digest_after before ?d0) st"
    "step_endings st = [outcome]"
    using terminal by (simp_all add: terminal_steps_def steps)
  from assms(2) obtain h c xs ys f m where ds: "ds = h # c # xs @ ys @ [f, m]"
    "dec_record h = record_v1.Header (tv_header t)"
    "dec_record c = record_v1.MatchCreated (tv_match_created t)"
    "map dec_record xs = concat (map step_records before)" "map dec_record ys = step_records st"
    "dec_record f = record_v1.FinalState (tv_final_state t)"
    "dec_record m = record_v1.MatchCompleted (tv_match_completed t)"
    by (auto simp: records_in_def steps map_dec_append map_dec_Cons)
  let ?b = "builder_start\<lparr>tb_header := Some (tv_header t), tb_digest := Some ?d0,
    tb_match_created := Some (tv_match_created t)\<rparr>"
  have start: "advance_all sz (Header, builder_start) [h, c] = Inr (Ready, ?b)"
    using created ds(2,3)
    by (simp add: validate_initial_state_def computed_digest_def created_ok_def builder_start_def)
  have built: "building sz ?d0 ?b"
    using created by (simp add: building_def builder_start_def digest_after_def)
  then have ready: "reading sz Ready ?b" by (auto simp: reading_def builder_start_def)
  have "open_steps (tb_next_step ?b) (digest_after (tb_steps ?b) ?d0) before"
    using st(1) by (simp add: builder_start_def digest_after_def)
  from complete_open [OF ready built this ds(4)] obtain mid where
    mid: "advance_all sz (Ready, ?b) xs = Inr (Ready, mid)" "tb_steps mid = before" "same_frame ?b mid"
      "building sz ?d0 mid"
    by (auto simp: builder_start_def)
  have "tb_next_step mid = of_nat (length ?steps)" "tb_digest mid = Some (digest_after before ?d0)"
    using mid(2,4) by (simp_all add: building_def steps)
  with st(2) have "step_ok (tb_next_step mid) (digest_after before ?d0) st" by simp
  from complete_step [OF \<open>tb_digest mid = _\<close> this _ ds(5), of sz] st(3) obtain b where
    b: "advance_all sz (Ready, mid) ys = Inr (Terminal outcome, b)" "tb_steps b = ?steps" "same_frame mid b"
    using mid(2) steps by auto
  have "reading sz Ready mid" using advance_all_reads [OF mid(1)] ready by simp
  then have "reading sz (Terminal outcome) b" using advance_all_reads [OF b(1)] by simp
  then have "building sz ?d0 b"
    using b(3) mid(3) by (auto simp: reading_def building_def same_frame_def)
  then have facts: "tb_digest b = Some ?digest" "tb_event_count b = total_events ?steps"
    using b(2) by (simp_all add: building_def)
  let ?e = "b\<lparr>tb_final_state := Some (tv_final_state t),
    tb_match_completed := Some (tv_match_completed t)\<rparr>"
  have last: "advance_all sz (Terminal outcome, b) [f, m] = Inr (Complete, ?e)"
    using final completed facts b(2) ds(6,7)
    by (simp add: validate_final_state_def computed_digest_def final_ok_def validate_completion_def
        completed_ok_def Let_def)
  have "advance_all sz (Header, builder_start) ds = Inr (Complete, ?e)"
    using advance_all_join [OF start advance_all_join [OF mid(1) advance_all_join [OF b(1) last]]]
    by (simp only: ds(1) append_Cons append_Nil)
  moreover have "finish Complete ?e = Inr t"
    using b mid(3) by (simp add: finish_def same_frame_def)
  ultimately show ?thesis by blast
qed

lemma fold_sound:
  assumes "fold_records sz ds = Inr t"
  shows "map dec_record ds = records_in t \<and> numbered 0 (records_in t) \<and> transcript_ok sz t"
proof -
  from assms obtain phase b where "fold_from sz 0 (Header, builder_start) ds = Inr (phase, b)"
    and fin: "finish phase b = Inr t"
    by (auto simp: fold_records_def and_then_Inr)
  then have "numbered 0 (map dec_record ds)"
    and all: "advance_all sz (Header, builder_start) ds = Inr (phase, b)"
    by (simp_all add: fold_from_split)
  moreover have "reading sz phase b" "read_so_far phase b = map dec_record ds"
    using advance_all_reads [OF all] by (simp_all add: reading_def read_so_far_def builder_start_def)
  ultimately show ?thesis using reading_finish [OF fin] by simp
qed

lemma fold_accepts:
  "map dec_record ds = records_in t \<Longrightarrow> numbered 0 (records_in t) \<Longrightarrow>
    transcript_ok sz t \<Longrightarrow> fold_records sz ds = Inr t"
  using complete_all [of sz t ds] by (auto simp: fold_records_def and_then_Inr fold_from_split)

text \<open>C22: the fold over the records of a transcript accepts exactly the complete and consistent
  transcripts: the records must be numbered from zero without a gap, the match must start playing
  with the digest of its initial state, every step must carry its own number and the events of a
  step their indexes, a rejected step must repeat the digest, exactly the last step may end the
  game, and the final state, the counts, the digest and the outcome must agree with the steps.
  What is accepted is returned unchanged.\<close>

theorem fold_records_accepts:
  "fold_records sz ds = Inr t \<longleftrightarrow>
    map dec_record ds = records_in t \<and> numbered 0 (records_in t) \<and> transcript_ok sz t"
  using fold_sound [of sz ds t] fold_accepts [of ds t sz] by blast

end
