(* ===== verification/Recording.thy ===== *)
theory Recording
  imports Recorder Parsing
begin

text \<open>
  What a recording writes. The locale \<open>log_writer\<close> is what the recorder relies on from the
  caller's \<open>Write\<close>: a successful \<open>write_all\<close> adds exactly its bytes, \<open>flush\<close> adds none. A recording
  of a match in which nothing failed has written the lines of a numbered, consistent
  transcript whose steps are exactly what \<open>apply\<close> answered.
\<close>

section \<open>Writers\<close>

definition same_match :: "'w recorded_match \<Rightarrow> 'w recorded_match \<Rightarrow> bool" where
  "same_match m m' \<longleftrightarrow> rm_state m' = rm_state m \<and> rm_next_step m' = rm_next_step m
     \<and> rm_total_events m' = rm_total_events m \<and> rm_lifecycle m' = rm_lifecycle m"

lemma try_map_append:
  "try_map f (xs @ ys) = Inr zs \<longleftrightarrow> (\<exists>as bs. try_map f xs = Inr as \<and> try_map f ys = Inr bs \<and> zs = as @ bs)"
  by (induction xs arbitrary: zs) (auto simp: and_then_Inr)

locale log_writer =
  fixes ops :: "'w write_ops" and contents :: "'w \<Rightarrow> u8 list"
  assumes written: "wr_write_all ops w bytes = (Inr (), w') \<Longrightarrow> contents w' = contents w @ bytes"
    and flushed: "wr_flush ops w = (Inr (), w') \<Longrightarrow> contents w' = contents w"
begin

text \<open>\<open>wrote sz m rs m'\<close>: between \<open>m\<close> and \<open>m'\<close> exactly the lines of \<open>rs\<close> were written; \<open>writes\<close>:
  and nothing else happened to the recording.\<close>

definition wrote :: "serialization \<Rightarrow> 'w recorded_match \<Rightarrow> record_v1 list \<Rightarrow> 'w recorded_match \<Rightarrow> bool" where
  "wrote sz m rs m' \<longleftrightarrow>
     rm_next_sequence m' = rm_next_sequence m + of_nat (length rs)
     \<and> (\<exists>ls. try_map (encode_record sz) rs = Inr ls
          \<and> contents (rm_writer m') = contents (rm_writer m) @ concat ls)"

definition writes :: "serialization \<Rightarrow> 'w recorded_match \<Rightarrow> record_v1 list \<Rightarrow> 'w recorded_match \<Rightarrow> bool" where
  "writes sz m rs m' \<longleftrightarrow> same_match m m' \<and> wrote sz m rs m'"

lemma wrote_trans: "wrote sz m xs m' \<Longrightarrow> wrote sz m' ys m'' \<Longrightarrow> wrote sz m (xs @ ys) m''"
  by (auto simp: wrote_def try_map_append add.assoc)

lemma writes_trans: "writes sz m xs m' \<Longrightarrow> writes sz m' ys m'' \<Longrightarrow> writes sz m (xs @ ys) m''"
  by (auto simp: writes_def same_match_def intro: wrote_trans)

lemma wrote_update [simp]:
  "wrote sz (m\<lparr>rm_state := s\<rparr>) rs m' = wrote sz m rs m'"
  "wrote sz (m\<lparr>rm_next_step := n\<rparr>) rs m' = wrote sz m rs m'"
  "wrote sz (m\<lparr>rm_total_events := k\<rparr>) rs m' = wrote sz m rs m'"
  "wrote sz m rs (m'\<lparr>rm_total_events := k\<rparr>) = wrote sz m rs m'"
  "wrote sz m rs (m'\<lparr>rm_lifecycle := l\<rparr>) = wrote sz m rs m'"
  by (simp_all add: wrote_def)

lemma write_record_Inr:
  "write_record ops w bytes = (Inr (), w') \<Longrightarrow> contents w' = contents w @ bytes"
  using written
  by (auto simp: write_record_def apfst_def map_prod_def map_err_def split: sum.splits prod.splits)

lemma flush_checkpoint_Inr: "flush_checkpoint ops w = (Inr (), w') \<Longrightarrow> contents w' = contents w"
  using flushed
  by (auto simp: flush_checkpoint_def apfst_def map_prod_def map_err_def split: sum.splits prod.splits)

lemma append_record_Inr: "append_record sz ops r m = (Inr (), m') \<Longrightarrow> writes sz m [r] m'"
  by (auto simp: append_record_def stop_def writes_def wrote_def same_match_def dest: write_record_Inr
      split: sum.splits prod.splits)

lemma flush_Inr: "flush ops m = (Inr (), m') \<Longrightarrow> writes sz m [] m'"
  by (auto simp: flush_def stop_def writes_def wrote_def same_match_def dest: flush_checkpoint_Inr
      split: sum.splits prod.splits)

lemma append_records_Inr: "append_records sz ops rs m = (Inr (), m') \<Longrightarrow> writes sz m rs m'"
proof (induction rs arbitrary: m)
  case Nil
  then show ?case by (simp add: writes_def wrote_def same_match_def)
next
  case (Cons r rs)
  then obtain mid where "append_record sz ops r m = (Inr (), mid)"
    and "append_records sz ops rs mid = (Inr (), m')"
    by (auto simp: try_then_Inr)
  then show ?case
    using writes_trans [of sz m "[r]" mid rs m'] append_record_Inr Cons.IH by auto
qed

end

section \<open>The steps of a match\<close>

text \<open>\<open>faithful sz s steps s'\<close>: the steps are what \<open>apply\<close> answered, one after the other, from \<open>s\<close>
  to \<open>s'\<close>: each holds the submitted action and either exactly the events and the digest of the
  next state or exactly the error.\<close>

definition faithful_step ::
  "serialization \<Rightarrow> game_state \<Rightarrow> transcript_step_v1 \<Rightarrow> game_state \<Rightarrow> bool" where
  "faithful_step sz s st t \<longleftrightarrow>
     (\<exists>action. action_try_of_v1 (ar1_action (tt_action st)) = Inr action \<and>
       (case tt_result st of
          transcript_step_result_v1.Accepted events completion \<Rightarrow>
            (\<exists>out. apply_action s action = Some (Inr out)
              \<and> map er1_event events = map event_to_v1 (ao_events out)
              \<and> digest_compute sz (projection_from_state (ao_state out)) = Inr (sc1_state_digest completion)
              \<and> t = ao_state out)
        | transcript_step_result_v1.Rejected rejection \<Rightarrow>
            (\<exists>error. apply_action s action = Some (Inl error)
              \<and> sr1_error rejection = error_to_v1 error \<and> t = s)))"

fun faithful :: "serialization \<Rightarrow> game_state \<Rightarrow> transcript_step_v1 list \<Rightarrow> game_state \<Rightarrow> bool" where
  "faithful sz s [] s' \<longleftrightarrow> s' = s"
| "faithful sz s (st # steps) s' \<longleftrightarrow> (\<exists>t. faithful_step sz s st t \<and> faithful sz t steps s')"

lemma faithful_append:
  "faithful sz s (xs @ ys) u \<longleftrightarrow> (\<exists>t. faithful sz s xs t \<and> faithful sz t ys u)"
  by (induction xs arbitrary: s) auto

section \<open>The records of one accepted step\<close>

definition step_events :: "u64 \<Rightarrow> u64 \<Rightarrow> game_event list \<Rightarrow> event_record_v1 list" where
  "step_events sequence step events = map (prepare_event sequence step) (enumerate 0 events)"

lemma prepare_accepted_step_eq:
  "prepare_accepted_step sequence step events digest =
    result_records (transcript_step_result_v1.Accepted (step_events sequence step events)
      (prepare_step_completed sequence step events digest))"
  by (simp add: prepare_accepted_step_def step_events_def)

lemma numbered_step_events:
  "numbered (sequence + of_nat k)
    (map (\<lambda>ie. record_v1.Event (prepare_event sequence step ie)) (enumerate k events))"
proof (induction events arbitrary: k)
  case Nil
  then show ?case by simp
next
  case (Cons e es)
  have "sequence + of_nat k + 1 = sequence + of_nat (Suc k)" by simp
  with Cons.IH [of "Suc k"] show ?case by (simp add: prepare_event_def add.assoc del: of_nat_Suc)
qed

lemma numbered_accepted [simp]: "numbered sequence (prepare_accepted_step sequence step events digest)"
  using numbered_step_events [of sequence 0 step events]
  by (simp add: prepare_accepted_step_def numbered_append prepare_step_completed_def)

lemma events_ok_step_events: "events_ok step (step_events sequence step events)"
  unfolding events_ok_def
  by (rule nth_equalityI) (simp_all add: step_events_def prepare_event_def nth_enumerate_eq)

lemma event_step_events: "map er1_event (step_events sequence step events) = map event_to_v1 events"
  by (rule nth_equalityI) (simp_all add: step_events_def prepare_event_def nth_enumerate_eq)

lemma length_step_events [simp]: "length (step_events sequence step events) = length events"
  by (simp add: step_events_def)

lemma wire_endings_faithful:
  "map er1_event evs = map event_to_v1 events \<Longrightarrow> wire_endings evs = map game_outcome_to_v1 (endings events)"
proof (induction events arbitrary: evs)
  case Nil
  then show ?case by simp
next
  case (Cons e es)
  then obtain r rs where evs: "evs = r # rs" "er1_event r = event_to_v1 e"
    "map er1_event rs = map event_to_v1 es"
    by (cases evs) auto
  with Cons.IH [OF evs(3)] show ?case
    by (cases e) (simp_all add: wire_endings_def wire_ending_def ended_outcome_def game_outcome_to_v1_def)
qed

lemma check_terminal_apply:
  assumes "endings events = status_endings status"
  shows "check_terminal_events status events
    = Inr (case status of game_status.Ended o' \<Rightarrow> Some o' | _ \<Rightarrow> None)"
proof -
  have "filter_map (\<lambda>event. case event of
      game_event.GameEnded winner reason \<Rightarrow> Some \<lparr>go_winner = winner, go_reason = reason\<rparr>
    | _ \<Rightarrow> None) events = endings events"
    by (simp add: endings_def ended_outcome_def [abs_def])
  with assms show ?thesis
    by (cases status) (simp_all add: check_terminal_events_def Let_def)
qed

section \<open>The recording of a match\<close>

text \<open>An index that fits the machine, as every \<open>usize\<close> does.\<close>

definition recordable :: "game_action \<Rightarrow> bool" where
  "recordable action \<longleftrightarrow> (case action of game_action.ChoosePrize _ n \<Rightarrow> n < 2 ^ 64 | _ \<Rightarrow> True)"

lemma recordable_round_trip: "recordable action \<Longrightarrow> action_try_of_v1 (action_to_v1 action) = Inr action"
  by (rule action_round_trip) (simp add: recordable_def)

fun submit_all ::
  "serialization \<Rightarrow> 'w write_ops \<Rightarrow> 'w recorded_match \<Rightarrow> game_action list \<Rightarrow> 'w recorded_match option" where
  "submit_all sz ops m [] = Some m"
| "submit_all sz ops m (action # actions) =
     (case submit sz ops m action of
        Some (Inr _, m) \<Rightarrow> submit_all sz ops m actions
      | _ \<Rightarrow> None)"

definition opening_records :: "header_v1 \<Rightarrow> match_created_v1 \<Rightarrow> record_v1 list" where
  "opening_records header created = [record_v1.Header header, record_v1.MatchCreated created]"

lemma step_ok_first: "step_ok n d st \<Longrightarrow> ar1_step (tt_action st) = n"
  by (simp add: step_ok_def)

lemma prepared_sequence [simp]:
  "record_sequence (prepare_action n k action) = n"
  "record_sequence (prepare_rejected_step n k error digest) = n"
  by (simp_all add: prepare_action_def prepare_rejected_step_def)

text \<open>The step a submission records, when the engine answers \<open>result\<close>.\<close>

definition recorded_action :: "u64 \<Rightarrow> u64 \<Rightarrow> game_action \<Rightarrow> action_record_v1" where
  "recorded_action sequence step action =
     \<lparr>ar1_sequence = sequence, ar1_record = action_record_kind_v1.Action, ar1_step = step,
      ar1_action = action_to_v1 action\<rparr>"

definition accepted_step ::
  "u64 \<Rightarrow> u64 \<Rightarrow> game_action \<Rightarrow> game_event list \<Rightarrow> state_digest_v1 \<Rightarrow> transcript_step_v1" where
  "accepted_step sequence step action events digest =
     \<lparr>tt_action = recorded_action sequence step action,
      tt_result = transcript_step_result_v1.Accepted (step_events (sequence + 1) step events)
        (prepare_step_completed (sequence + 1) step events digest)\<rparr>"

definition rejected_step ::
  "u64 \<Rightarrow> u64 \<Rightarrow> game_action \<Rightarrow> action_error \<Rightarrow> state_digest_v1 \<Rightarrow> transcript_step_v1" where
  "rejected_step sequence step action error digest =
     \<lparr>tt_action = recorded_action sequence step action,
      tt_result = transcript_step_result_v1.Rejected
        \<lparr>sr1_sequence = sequence + 1, sr1_record = step_rejected_record_kind_v1.StepRejected,
         sr1_step = step, sr1_error = error_to_v1 error, sr1_state_digest = digest\<rparr>\<rparr>"

lemma accepted_step_facts:
  "step_records (accepted_step n k action events digest) =
    prepare_action n k action # prepare_accepted_step (n + 1) k events digest"
  "numbered n (step_records (accepted_step n k action events digest))"
  "step_ok k d (accepted_step n k action events digest)"
  "step_digest (accepted_step n k action events digest) d = digest"
  "step_endings (accepted_step n k action events digest) = map game_outcome_to_v1 (endings events)"
  "result_events (tt_result (accepted_step n k action events digest)) = step_events (n + 1) k events"
proof -
  show *: "step_records (accepted_step n k action events digest) =
      prepare_action n k action # prepare_accepted_step (n + 1) k events digest"
    by (simp add: step_records_def accepted_step_def recorded_action_def prepare_action_def
        prepare_accepted_step_eq)
  show "numbered n (step_records (accepted_step n k action events digest))"
    unfolding * by simp
qed (simp_all add: step_ok_def accepted_step_def recorded_action_def events_ok_step_events step_digest_def
    step_endings_def wire_endings_faithful event_step_events prepare_step_completed_def)

lemma rejected_step_facts:
  "step_records (rejected_step n k action error digest) =
    [prepare_action n k action, prepare_rejected_step (n + 1) k error digest]"
  "numbered n (step_records (rejected_step n k action error digest))"
  "step_ok k d (rejected_step n k action error digest) = (digest = d)"
  "step_digest (rejected_step n k action error digest) d = d"
  "step_endings (rejected_step n k action error digest) = []"
  "result_events (tt_result (rejected_step n k action error digest)) = []"
  by (simp_all add: step_records_def rejected_step_def recorded_action_def prepare_action_def
      prepare_rejected_step_def step_ok_def step_digest_def step_endings_def)

lemma accepted_facts:
  assumes "record_accepted_step sz ops step out m = (Inr r, m')"
  obtains digest m1 m2 where
    "digest_compute sz (projection_from_state (ao_state out)) = Inr digest"
    "append_records sz ops (prepare_accepted_step (rm_next_sequence m) step (ao_events out) digest)
      (m\<lparr>rm_state := ao_state out\<rparr>) = (Inr (), m1)"
    "flush ops m1 = (Inr (), m2)"
    "settle_step sz ops (ao_events out) (projection_from_state (ao_state out)) digest
      (m2\<lparr>rm_total_events := rm_total_events m2 + of_nat (length (ao_events out))\<rparr>) = (Inr r, m')"
  using assms
  by (auto simp: record_accepted_step_def Let_def try_then_Inr compute_digest_def stop_def
      split: sum.splits)

lemma settle_step_cases:
  assumes "settle_step sz ops events projection digest m = (Inr r, m')"
    and "endings events = status_endings (gs_status (rm_state m))"
  obtains (playing) "gs_status (rm_state m) = game_status.Playing" and "m' = m"
  | (ended) outcome where "gs_status (rm_state m) = game_status.Ended outcome"
      and "complete_ended_match sz ops outcome projection digest m = (Inr (), m')"
  using assms(1) check_terminal_apply [OF assms(2)]
  by (cases "gs_status (rm_state m)") (auto simp: settle_step_def Let_def try_then_Inr)

lemma faithful_rejected:
  "recordable action \<Longrightarrow> apply_action s action = Some (Inl error) \<Longrightarrow>
    faithful_step sz s (rejected_step n k action error digest) s"
  by (simp add: faithful_step_def rejected_step_def recorded_action_def recordable_round_trip)

lemma faithful_accepted:
  "recordable action \<Longrightarrow> apply_action s action = Some (Inr out) \<Longrightarrow>
    digest_compute sz (projection_from_state (ao_state out)) = Inr digest \<Longrightarrow>
    faithful_step sz s (accepted_step n k action (ao_events out) digest) (ao_state out)"
  by (simp add: faithful_step_def accepted_step_def recorded_action_def recordable_round_trip
      event_step_events prepare_step_completed_def)

context log_writer
begin

definition log_holds :: "serialization \<Rightarrow> u8 list \<Rightarrow> record_v1 list \<Rightarrow> 'w recorded_match \<Rightarrow> bool" where
  "log_holds sz start rs m \<longleftrightarrow>
     rm_next_sequence m = of_nat (length rs) \<and> numbered 0 rs
     \<and> (\<exists>ls. try_map (encode_record sz) rs = Inr ls \<and> contents (rm_writer m) = start @ concat ls)"

lemma log_holds_wrote:
  assumes "log_holds sz start rs m" and "wrote sz m xs m'" and "numbered (rm_next_sequence m) xs"
  shows "log_holds sz start (rs @ xs) m'"
  using assms by (auto simp: log_holds_def wrote_def numbered_append try_map_append)

definition recording ::
  "serialization \<Rightarrow> game_state \<Rightarrow> u8 list \<Rightarrow> header_v1 \<Rightarrow> match_created_v1
    \<Rightarrow> transcript_step_v1 list \<Rightarrow> 'w recorded_match \<Rightarrow> bool" where
  "recording sz s0 start header created steps m \<longleftrightarrow>
     log_holds sz start (opening_records header created @ concat (map step_records steps)) m
     \<and> rm_next_step m = of_nat (length steps) + 1 \<and> rm_total_events m = total_events steps
     \<and> created_ok sz created \<and> open_steps 1 (mc1_state_digest created) steps
     \<and> digest_compute sz (projection_from_state (rm_state m))
         = Inr (digest_after steps (mc1_state_digest created))
     \<and> faithful sz s0 steps (rm_state m)
     \<and> gs_status (rm_state m) = game_status.Playing \<and> rm_lifecycle m = Active"

definition completed ::
  "serialization \<Rightarrow> game_state \<Rightarrow> u8 list \<Rightarrow> transcript_v1 \<Rightarrow> 'w recorded_match \<Rightarrow> bool" where
  "completed sz s0 start t m \<longleftrightarrow>
     log_holds sz start (records_in t) m \<and> transcript_ok sz t
     \<and> faithful sz s0 (tv_steps t) (rm_state m)
     \<and> fs1_final_state (tv_final_state t) = projection_from_state (rm_state m)
     \<and> rm_lifecycle m = Stopped MatchCompleted"

text \<open>One more step on disk.\<close>

lemma log_holds_step:
  assumes "log_holds sz start (opening_records header created @ concat (map step_records steps)) m"
    and "wrote sz m (step_records st) m'" and "numbered (rm_next_sequence m) (step_records st)"
  shows "log_holds sz start (opening_records header created @ concat (map step_records (steps @ [st]))) m'"
  using log_holds_wrote [OF assms] by simp

lemma recording_step:
  assumes rec: "recording sz s0 start header created steps m"
    and disk: "wrote sz m (step_records st) m'" "numbered (rm_next_sequence m) (step_records st)"
    and ok: "step_ok (rm_next_step m) (digest_after steps (mc1_state_digest created)) st"
      "step_endings st = []"
    and counts: "rm_next_step m' = rm_next_step m + 1"
      "rm_total_events m' = rm_total_events m + of_nat (length (result_events (tt_result st)))"
    and state: "digest_compute sz (projection_from_state (rm_state m'))
        = Inr (step_digest st (digest_after steps (mc1_state_digest created)))"
      "faithful_step sz (rm_state m) st (rm_state m')"
      "gs_status (rm_state m') = game_status.Playing" "rm_lifecycle m' = Active"
  shows "recording sz s0 start header created (steps @ [st]) m'"
proof -
  have "log_holds sz start (opening_records header created @ concat (map step_records (steps @ [st]))) m'"
    using rec disk by (intro log_holds_step) (simp_all add: recording_def)
  moreover have "open_steps 1 (mc1_state_digest created) (steps @ [st])"
    using rec ok by (simp add: recording_def open_steps_append add.commute)
  moreover have "faithful sz s0 (steps @ [st]) (rm_state m')"
    using rec state by (auto simp: recording_def faithful_append)
  ultimately show ?thesis using rec counts state by (simp add: recording_def)
qed

lemma recording_completed:
  assumes rec: "recording sz s0 start header created steps m"
    and disk: "wrote sz m (step_records st) m1" "numbered (rm_next_sequence m) (step_records st)"
      "wrote sz m1 [record_v1.FinalState f, record_v1.MatchCompleted c] m'"
      "fs1_sequence f = rm_next_sequence m1" "md1_sequence c = rm_next_sequence m1 + 1"
    and ok: "step_ok (rm_next_step m) (digest_after steps (mc1_state_digest created)) st"
      "step_endings st = [outcome]"
      "final_ok sz (step_digest st (digest_after steps (mc1_state_digest created))) outcome f"
      "completed_ok (step_digest st (digest_after steps (mc1_state_digest created))) (steps @ [st]) outcome c"
    and state: "faithful_step sz (rm_state m) st (rm_state m')"
      "fs1_final_state f = projection_from_state (rm_state m')" "rm_lifecycle m' = Stopped MatchCompleted"
  shows "\<exists>t. tv_header t = header \<and> tv_match_created t = created \<and> completed sz s0 start t m'"
proof -
  let ?t = "\<lparr>tv_header = header, tv_match_created = created, tv_steps = steps @ [st],
    tv_final_state = f, tv_match_completed = c\<rparr>"
  have "log_holds sz start (opening_records header created @ concat (map step_records (steps @ [st]))) m1"
    using rec disk by (intro log_holds_step) (simp_all add: recording_def)
  from log_holds_wrote [OF this disk(3)] disk(4,5)
  have "log_holds sz start (records_in ?t) m'"
    by (simp add: records_in_def opening_records_def)
  moreover have "terminal_steps (mc1_state_digest created) (steps @ [st]) outcome"
    using rec ok by (simp add: terminal_steps_def recording_def add.commute)
  then have "transcript_ok sz ?t" using rec ok by (simp add: transcript_ok_def recording_def)
  moreover have "faithful sz s0 (steps @ [st]) (rm_state m')"
    using rec state by (auto simp: recording_def faithful_append)
  ultimately show ?thesis using state by (intro exI [of _ ?t]) (simp add: completed_def)
qed

lemma recording_rejected:
  assumes rec: "recording sz s0 start header created steps m"
    and m1: "append_record sz ops (prepare_action (rm_next_sequence m) (rm_next_step m) action) m = (Inr (), m1)"
    and err: "apply_action (rm_state m) action = Some (Inl error)"
    and step: "record_rejected_step sz ops (rm_next_step m) error
      (m1\<lparr>rm_next_step := rm_next_step m1 + 1\<rparr>) = (Inr r, m')"
    and recordable: "recordable action"
  shows "\<exists>st. recording sz s0 start header created (steps @ [st]) m'"
proof -
  let ?d0 = "mc1_state_digest created"
  let ?a = "prepare_action (rm_next_sequence m) (rm_next_step m) action"
  let ?m = "m1\<lparr>rm_next_step := rm_next_step m1 + 1\<rparr>"
  have w1: "writes sz m [?a] m1" by (rule append_record_Inr) (rule m1)
  then have seq: "rm_next_sequence m1 = rm_next_sequence m + 1" and same: "same_match m m1"
    by (simp_all add: writes_def wrote_def)
  from step obtain digest m2 where
    digest: "digest_compute sz (projection_from_state (rm_state m1)) = Inr digest"
    and m2: "append_record sz ops (prepare_rejected_step (rm_next_sequence m1) (rm_next_step m) error digest)
      ?m = (Inr (), m2)"
    and m3: "flush ops m2 = (Inr (), m')"
    by (auto simp: record_rejected_step_def Let_def try_then_Inr compute_digest_def stop_def
        split: sum.splits)
  let ?st = "rejected_step (rm_next_sequence m) (rm_next_step m) action error digest"
  have w2: "writes sz ?m [prepare_rejected_step (rm_next_sequence m1) (rm_next_step m) error digest] m'"
    using writes_trans [OF append_record_Inr [OF m2] flush_Inr [OF m3]] by simp
  have "digest = digest_after steps ?d0"
    using rec digest same by (simp add: recording_def same_match_def)
  moreover have "wrote sz m (step_records ?st) m'"
    using wrote_trans [of sz m "[?a]" m1] w1 w2 by (simp add: writes_def rejected_step_facts seq)
  moreover have "faithful_step sz (rm_state m) ?st (rm_state m')"
    using faithful_rejected [OF recordable err] w2 same by (simp add: writes_def same_match_def)
  ultimately have "recording sz s0 start header created (steps @ [?st]) m'"
    using rec w2 same
    by (intro recording_step [OF rec])
      (simp_all add: rejected_step_facts recording_def writes_def same_match_def)
  then show ?thesis by blast
qed

lemma complete_ended_Inr:
  assumes "complete_ended_match sz ops outcome projection digest m = (Inr (), m')"
  shows "wrote sz m (prepare_completion \<lparr>cc_sequence = rm_next_sequence m,
      cc_steps = rm_next_step m - 1, cc_events = rm_total_events m\<rparr> outcome projection digest) m'
    \<and> rm_lifecycle m' = Stopped MatchCompleted \<and> rm_state m' = rm_state m"
proof -
  from assms obtain m1 m2 where
    m1: "append_records sz ops (prepare_completion \<lparr>cc_sequence = rm_next_sequence m,
      cc_steps = rm_next_step m - 1, cc_events = rm_total_events m\<rparr> outcome projection digest) m = (Inr (), m1)"
    and m2: "flush ops m1 = (Inr (), m2)" and m': "m' = m2\<lparr>rm_lifecycle := Stopped MatchCompleted\<rparr>"
    by (auto simp: complete_ended_match_def Let_def try_then_Inr)
  from writes_trans [OF append_records_Inr [OF m1] flush_Inr [OF m2]] show ?thesis
    by (simp add: m' writes_def same_match_def)
qed

lemma recording_accepted:
  assumes rec: "recording sz s0 start header created steps m"
    and m1: "append_record sz ops (prepare_action (rm_next_sequence m) (rm_next_step m) action) m = (Inr (), m1)"
    and ok: "apply_action (rm_state m) action = Some (Inr out)"
    and step: "record_accepted_step sz ops (rm_next_step m) out
      (m1\<lparr>rm_next_step := rm_next_step m1 + 1\<rparr>) = (Inr r, m')"
    and recordable: "recordable action"
  shows "(\<exists>st. recording sz s0 start header created (steps @ [st]) m')
    \<or> (\<exists>t. tv_header t = header \<and> tv_match_created t = created \<and> completed sz s0 start t m')"
proof -
  let ?d0 = "mc1_state_digest created"
  let ?a = "prepare_action (rm_next_sequence m) (rm_next_step m) action"
  let ?m = "m1\<lparr>rm_next_step := rm_next_step m1 + 1\<rparr>" and ?events = "ao_events out"
  have w1: "writes sz m [?a] m1" by (rule append_record_Inr) (rule m1)
  then have seq: "rm_next_sequence m1 = rm_next_sequence m + 1" and same: "same_match m m1"
    by (simp_all add: writes_def wrote_def)
  from step obtain digest m2 m3 where
    digest: "digest_compute sz (projection_from_state (ao_state out)) = Inr digest"
    and m2: "append_records sz ops (prepare_accepted_step (rm_next_sequence m1) (rm_next_step m) ?events digest)
      (?m\<lparr>rm_state := ao_state out\<rparr>) = (Inr (), m2)"
    and m3: "flush ops m2 = (Inr (), m3)"
    and settle: "settle_step sz ops ?events (projection_from_state (ao_state out)) digest
      (m3\<lparr>rm_total_events := rm_total_events m3 + of_nat (length ?events)\<rparr>) = (Inr r, m')"
    by (rule accepted_facts) simp
  let ?m3 = "m3\<lparr>rm_total_events := rm_total_events m3 + of_nat (length ?events)\<rparr>"
  let ?st = "accepted_step (rm_next_sequence m) (rm_next_step m) action ?events digest"
  have w2: "writes sz (?m\<lparr>rm_state := ao_state out\<rparr>)
      (prepare_accepted_step (rm_next_sequence m1) (rm_next_step m) ?events digest) m3"
    using writes_trans [OF append_records_Inr [OF m2] flush_Inr [OF m3]] by simp
  then have state: "rm_state m3 = ao_state out" "rm_lifecycle m3 = Active"
    "rm_next_step m3 = rm_next_step m + 1" "rm_total_events m3 = rm_total_events m"
    using rec same by (simp_all add: writes_def same_match_def recording_def)
  have disk: "wrote sz m (step_records ?st) ?m3"
    using wrote_trans [of sz m "[?a]" m1] w1 w2
    by (simp add: writes_def accepted_step_facts seq)
  have faith: "faithful_step sz (rm_state m) ?st (ao_state out)"
    by (rule faithful_accepted [OF recordable ok digest])
  have announced: "endings ?events = status_endings (gs_status (rm_state ?m3))"
    using apply_announces(1) [OF ok] by (simp add: state)
  from settle announced show ?thesis
  proof (cases rule: settle_step_cases)
    case playing
    have "recording sz s0 start header created (steps @ [?st]) m'"
      using playing disk faith state digest announced
      by (intro recording_step [OF rec]) (simp_all add: accepted_step_facts step_events_def)
    then show ?thesis by blast
  next
    case (ended outcome)
    note fin = complete_ended_Inr [OF ended(2)]
    let ?o = "game_outcome_to_v1 outcome"
    have "\<exists>t. tv_header t = header \<and> tv_match_created t = created \<and> completed sz s0 start t m'"
    proof (rule recording_completed [OF rec disk])
      show "wrote sz ?m3
        [record_v1.FinalState \<lparr>fs1_sequence = rm_next_sequence m3,
           fs1_record = final_state_record_kind_v1.FinalState,
           fs1_final_state = projection_from_state (ao_state out), fs1_state_digest = digest\<rparr>,
         record_v1.MatchCompleted \<lparr>md1_sequence = rm_next_sequence m3 + 1,
           md1_record = match_completed_record_kind_v1.MatchCompleted,
           md1_step_count = rm_next_step m, md1_event_count = rm_total_events ?m3,
           md1_state_digest = digest, md1_winner = player_id_to_v1 (go_winner outcome),
           md1_reason = loss_reason_to_v1 (go_reason outcome)\<rparr>] m'"
        using fin state by (simp add: prepare_completion_def)
      show "step_endings ?st = [?o]" using ended announced by (simp add: accepted_step_facts)
    qed (use rec ended fin faith digest state in
        \<open>simp_all add: accepted_step_facts final_ok_def completed_ok_def projection_from_state_def
          recording_def game_outcome_to_v1_def step_events_def\<close>)
    then show ?thesis by blast
  qed
qed

lemma recording_submit:
  assumes rec: "recording sz s0 start header created steps m"
    and "submit sz ops m action = Some (Inr r, m')" and "recordable action"
  shows "(\<exists>steps'. recording sz s0 start header created steps' m')
    \<or> (\<exists>t. tv_header t = header \<and> tv_match_created t = created \<and> completed sz s0 start t m')"
proof -
  have "ensure_active m = Inr ()" using rec by (simp add: recording_def ensure_active_def)
  with assms(2) obtain m1 where m1: "append_record sz ops
      (prepare_action (rm_next_sequence m) (rm_next_step m) action) m = (Inr (), m1)"
    and tail: "(case apply_action (rm_state m1) action of
        None \<Rightarrow> None
      | Some (Inr out) \<Rightarrow>
          Some (record_accepted_step sz ops (rm_next_step m) out (m1\<lparr>rm_next_step := rm_next_step m1 + 1\<rparr>))
      | Some (Inl error) \<Rightarrow>
          Some (record_rejected_step sz ops (rm_next_step m) error (m1\<lparr>rm_next_step := rm_next_step m1 + 1\<rparr>)))
      = Some (Inr r, m')"
    by (auto simp: submit_def submit_with_def Let_def split: prod.splits sum.splits)
  have "rm_state m1 = rm_state m"
    using append_record_Inr [OF m1] by (simp add: writes_def same_match_def)
  with tail consider error where "apply_action (rm_state m) action = Some (Inl error)"
      "record_rejected_step sz ops (rm_next_step m) error (m1\<lparr>rm_next_step := rm_next_step m1 + 1\<rparr>)
        = (Inr r, m')"
    | out where "apply_action (rm_state m) action = Some (Inr out)"
      "record_accepted_step sz ops (rm_next_step m) out (m1\<lparr>rm_next_step := rm_next_step m1 + 1\<rparr>)
        = (Inr r, m')"
    by (auto split: option.splits sum.splits)
  then show ?thesis
  proof cases
    case 1
    from recording_rejected [OF rec m1 1 assms(3)] show ?thesis by blast
  next
    case 2
    from recording_accepted [OF rec m1 2 assms(3)] show ?thesis by blast
  qed
qed

lemma completed_stops:
  "completed sz s0 start t m \<Longrightarrow> submit sz ops m action
    = Some (Inl (recording_error.Stopped recording_stopped.MatchCompleted), m)"
  by (simp add: completed_def submit_def submit_with_def ensure_active_def)

lemma recording_all:
  assumes "recording sz s0 start header created steps m"
    and "submit_all sz ops m actions = Some m'" and "\<forall>action \<in> set actions. recordable action"
  shows "(\<exists>steps'. recording sz s0 start header created steps' m')
    \<or> (\<exists>t. tv_header t = header \<and> tv_match_created t = created \<and> completed sz s0 start t m')"
  using assms
proof (induction actions arbitrary: steps m)
  case Nil
  then show ?case by auto
next
  case (Cons action actions)
  then obtain r mid where mid: "submit sz ops m action = Some (Inr r, mid)"
    and rest: "submit_all sz ops mid actions = Some m'"
    by (auto split: option.splits sum.splits prod.splits)
  from recording_submit [OF Cons.prems(1) mid] Cons.prems(3)
  consider steps' where "recording sz s0 start header created steps' mid"
    | t where "tv_header t = header" "tv_match_created t = created" "completed sz s0 start t mid"
    by auto
  then show ?case
  proof cases
    case 1
    with Cons.IH [OF this rest] Cons.prems(3) show ?thesis by simp
  next
    case 2
    with rest show ?thesis by (cases actions) (auto simp: completed_stops)
  qed
qed

lemma recording_start:
  assumes "record_start sz ops w metadata sets s = Inr m"
  shows "\<exists>digest. digest_compute sz (projection_from_state s) = Inr digest
    \<and> recording sz s (contents w) (header_new metadata)
        (match_created_new sets (projection_from_state s) digest) [] m"
proof -
  from assms obtain digest header created w1 w2 w3 where
    status: "gs_status s = game_status.Playing"
    and digest: "digest_compute sz (projection_from_state s) = Inr digest"
    and lines: "encode_record sz (record_v1.Header (header_new metadata)) = Inr header"
      "encode_record sz (record_v1.MatchCreated
        (match_created_new sets (projection_from_state s) digest)) = Inr created"
    and disk: "write_record ops w header = (Inr (), w1)" "write_record ops w1 created = (Inr (), w2)"
      "flush_checkpoint ops w2 = (Inr (), w3)"
    and m: "m = \<lparr>rm_writer = w3, rm_state = s, rm_next_sequence = 2, rm_next_step = 1,
      rm_total_events = 0, rm_lifecycle = Active\<rparr>"
    by (auto simp: record_start_def and_then_Inr map_err_def check_initial_status_def prepare_start_def
        Let_def try_then_def split: sum.splits prod.splits game_status.splits)
  have "contents w3 = contents w @ header @ created"
    using write_record_Inr [OF disk(1)] write_record_Inr [OF disk(2)] flush_checkpoint_Inr [OF disk(3)]
    by simp
  with status digest lines show ?thesis
    by (intro exI [of _ digest])
      (simp add: recording_def log_holds_def opening_records_def m header_new_def match_created_new_def
        created_ok_def projection_from_state_def digest_after_def total_events_def)
qed

end

end
