(* ===== verification/Replay.thy ===== *)
theory Replay
  imports Recording
begin

text \<open>
  \<open>crates/match-log/src/replay.rs\<close>: a parsed transcript is replayed through the engine and every
  difference is an error with its place. The card library is what the code reads of it: the
  revision of a set and the set of cards. \<open>&mut GameState\<close> of the engine closure is a state it
  returns; \<open>None\<close> is an engine that does not return. \<open>Arc::ptr_eq\<close> of the two card sets of a
  rejected step is their equality: the closure of \<open>verify_parsed_transcript\<close> leaves the state,
  handle included, alone.
\<close>

section \<open>Locations and errors\<close>

datatype replay_phase = Requirements | InitialState | Step | Completion

record replay_location =
  rl_phase :: replay_phase
  rl_step :: "u64 option"
  rl_event_index :: "u64 option"
  rl_path :: string

definition at_requirements :: "string \<Rightarrow> replay_location" where
  "at_requirements path =
     \<lparr>rl_phase = Requirements, rl_step = None, rl_event_index = None, rl_path = path\<rparr>"

definition at_initial :: "string \<Rightarrow> replay_location" where
  "at_initial path =
     \<lparr>rl_phase = InitialState, rl_step = None, rl_event_index = None, rl_path = path\<rparr>"

definition at_step :: "u64 \<Rightarrow> u64 option \<Rightarrow> string \<Rightarrow> replay_location" where
  "at_step step event_index path =
     \<lparr>rl_phase = Step, rl_step = Some step, rl_event_index = event_index, rl_path = path\<rparr>"

definition at_completion :: "string \<Rightarrow> replay_location" where
  "at_completion path =
     \<lparr>rl_phase = Completion, rl_step = None, rl_event_index = None, rl_path = path\<rparr>"

datatype replay_step_result = Accepted | Rejected error_v1

datatype replay_divergence_kind =
  SetRevision string u32 "u32 option"
| InitialProjection state_projection_v1 state_projection_v1
| StepResult replay_step_result replay_step_result
| Event "event_v1 option" "event_v1 option"
| RejectedError error_v1 error_v1
| RejectedState state_projection_v1 state_projection_v1
| CardSetIdentity
| StateDigest state_digest_v1 state_digest_v1
| FinalState state_projection_v1 state_projection_v1
| GameEndedCount u64 u64
| GameEndedOutcome game_outcome_v1 game_outcome_v1
| Winner player_id_v1 player_id_v1
| LossReason loss_reason_v1 loss_reason_v1
| StepCount u64 u64
| EventCount u64 u64

record replay_divergence =
  rd_location :: replay_location
  rd_kind :: replay_divergence_kind

datatype replay_error =
  Parse parse_error
| StateRebuild replay_location state_rebuild_error
| WireConversion replay_location wire_conversion_error
| CanonicalState replay_location canonical_state_error
| Divergence replay_divergence

fun error_location :: "replay_error \<Rightarrow> replay_location option" where
  "error_location (Parse _) = None"
| "error_location (StateRebuild location _) = Some location"
| "error_location (WireConversion location _) = Some location"
| "error_location (CanonicalState location _) = Some location"
| "error_location (Divergence d) = Some (rd_location d)"

definition divergence :: "replay_location \<Rightarrow> replay_divergence_kind \<Rightarrow> replay_error" where
  "divergence location kind = Divergence \<lparr>rd_location = location, rd_kind = kind\<rparr>"

section \<open>Digests\<close>

definition replay_digest ::
  "serialization \<Rightarrow> state_projection_v1 \<Rightarrow> replay_location \<Rightarrow> replay_error + state_digest_v1" where
  "replay_digest sz projection location = map_err (CanonicalState location) (digest_compute sz projection)"

definition verify_digest ::
  "serialization \<Rightarrow> state_digest_v1 \<Rightarrow> state_projection_v1 \<Rightarrow> replay_location \<Rightarrow> replay_error + unit" where
  "verify_digest sz expected projection location =
     and_then (replay_digest sz projection location) (\<lambda>actual.
     if actual = expected then Inr ()
     else Inl (divergence location (StateDigest expected actual)))"

section \<open>The initial state\<close>

fun validate_required_sets ::
  "(string \<Rightarrow> u32 option) \<Rightarrow> set_requirement_v1 list \<Rightarrow> replay_error + unit" where
  "validate_required_sets set_revision [] = Inr ()"
| "validate_required_sets set_revision (requirement # requirements) =
     (let actual = set_revision (sq1_set requirement) in
      if actual \<noteq> Some (sq1_revision requirement)
      then Inl (divergence (at_requirements ''match_created.required_sets.revision'')
        (SetRevision (sq1_set requirement) (sq1_revision requirement) actual))
      else validate_required_sets set_revision requirements)"

definition verify_initial_state ::
  "serialization \<Rightarrow> state_projection_v1 \<Rightarrow> state_digest_v1 \<Rightarrow> game_state \<Rightarrow> replay_error + unit" where
  "verify_initial_state sz expected_projection expected_digest s =
     (let actual_projection = projection_from_state s in
      if actual_projection \<noteq> expected_projection
      then Inl (divergence (at_initial ''match_created.initial_state'')
        (InitialProjection expected_projection actual_projection))
      else verify_digest sz expected_digest actual_projection (at_initial ''match_created.state_digest''))"

definition prepare_initial_state ::
  "serialization \<Rightarrow> (string \<Rightarrow> u32 option) \<Rightarrow> card_set \<Rightarrow> match_created_v1 \<Rightarrow> replay_error + game_state" where
  "prepare_initial_state sz set_revision core_cards created =
     and_then (validate_required_sets set_revision (mc1_required_sets created)) (\<lambda>_.
     and_then (map_err (StateRebuild (at_initial ''match_created.initial_state''))
       (into_game_state (mc1_initial_state created) core_cards)) (\<lambda>s.
     and_then (verify_initial_state sz (mc1_initial_state created) (mc1_state_digest created) s) (\<lambda>_.
     Inr s)))"

section \<open>Steps\<close>

record replay_facts =
  rf_step_count :: u64
  rf_event_count :: u64
  rf_game_ended :: "game_outcome_v1 list"

definition facts_start :: replay_facts where
  "facts_start = \<lparr>rf_step_count = 0, rf_event_count = 0, rf_game_ended = []\<rparr>"

definition record_events :: "replay_facts \<Rightarrow> game_event list \<Rightarrow> replay_facts" where
  "record_events facts events =
     facts\<lparr>rf_event_count := rf_event_count facts + of_nat (length events),
           rf_game_ended := rf_game_ended facts @
             filter_map (\<lambda>event. case event of
                 game_event.GameEnded winner reason \<Rightarrow>
                   Some \<lparr>go1_winner = player_id_to_v1 winner, go1_reason = loss_reason_to_v1 reason\<rparr>
               | _ \<Rightarrow> None) events\<rparr>"

text \<open>The loop of \<open>verify_accepted_step\<close> over both lists, with the missing end of the shorter one.\<close>

fun verify_events ::
  "u64 \<Rightarrow> u64 \<Rightarrow> event_record_v1 list \<Rightarrow> game_event list \<Rightarrow> replay_error + unit" where
  "verify_events step index [] [] = Inr ()"
| "verify_events step index [] (actual # _) =
     Inl (divergence (at_step step (Some index) ''events.event'') (Event None (Some (event_to_v1 actual))))"
| "verify_events step index (expected # expecteds) actuals =
     and_then (map_err (WireConversion (at_step step (Some index) ''events.event''))
       (event_try_of_v1 (er1_event expected))) (\<lambda>expected_core.
     if first_of actuals \<noteq> Some expected_core
     then Inl (divergence (at_step step (Some index) ''events.event'')
       (Event (Some (er1_event expected)) (map_option event_to_v1 (first_of actuals))))
     else verify_events step (index + 1) expecteds (drop 1 actuals))"

definition verify_accepted_step ::
  "serialization \<Rightarrow> u64 \<Rightarrow> event_record_v1 list \<Rightarrow> state_digest_v1 \<Rightarrow> action_outcome
    \<Rightarrow> replay_error + state_digest_v1" where
  "verify_accepted_step sz step expected_events expected_digest outcome =
     and_then (verify_events step 0 expected_events (ao_events outcome)) (\<lambda>_.
     let projection = projection_from_state (ao_state outcome);
         location = at_step step None ''state_digest'' in
     and_then (verify_digest sz expected_digest projection location) (\<lambda>_.
     replay_digest sz projection location))"

definition verify_rejected_step ::
  "serialization \<Rightarrow> u64 \<Rightarrow> step_rejected_v1 \<Rightarrow> action_error \<Rightarrow> game_state \<Rightarrow> game_state
    \<Rightarrow> state_digest_v1 \<Rightarrow> replay_error + unit" where
  "verify_rejected_step sz step_number rejection actual_error before after before_digest =
     (let expected_error = error_of_v1 (sr1_error rejection);
          expected_projection = projection_from_state before;
          actual_projection = projection_from_state after in
      if actual_error \<noteq> expected_error
      then Inl (divergence (at_step step_number None ''error'')
        (RejectedError (sr1_error rejection) (error_to_v1 actual_error)))
      else if actual_projection \<noteq> expected_projection
      then Inl (divergence (at_step step_number None ''state'')
        (RejectedState expected_projection actual_projection))
      else if gs_cards before \<noteq> gs_cards after
      then Inl (divergence (at_step step_number None ''state.cards'') CardSetIdentity)
      else and_then (verify_digest sz before_digest (projection_from_state after)
          (at_step step_number None ''state'')) (\<lambda>_.
        if sr1_state_digest rejection \<noteq> before_digest
        then Inl (divergence (at_step step_number None ''state_digest'')
          (StateDigest (sr1_state_digest rejection) before_digest))
        else Inr ()))"

type_synonym engine = "game_state \<Rightarrow> game_action \<Rightarrow> ((action_error + action_outcome) \<times> game_state) option"

text \<open>One iteration of the loop of \<open>replay_steps_with\<close>, over the state, the facts and the digest.\<close>

definition replay_step ::
  "serialization \<Rightarrow> engine \<Rightarrow> transcript_step_v1 \<Rightarrow> game_state \<times> replay_facts \<times> state_digest_v1
    \<Rightarrow> (replay_error + game_state \<times> replay_facts \<times> state_digest_v1) option" where
  "replay_step sz engine st sfd =
     (let (s, facts, digest) = sfd; step_number = ar1_step (tt_action st) in
      case map_err (WireConversion (at_step step_number None ''action''))
             (action_try_of_v1 (ar1_action (tt_action st))) of
        Inl error \<Rightarrow> Some (Inl error)
      | Inr action \<Rightarrow>
          (case engine s action of
             None \<Rightarrow> None
           | Some (result, after) \<Rightarrow>
               Some (and_then
                 (case (tt_result st, result) of
                    (transcript_step_result_v1.Accepted events completion, Inr outcome) \<Rightarrow>
                      and_then (verify_accepted_step sz step_number events
                        (sc1_state_digest completion) outcome) (\<lambda>digest.
                      Inr (ao_state outcome, record_events facts (ao_events outcome), digest))
                  | (transcript_step_result_v1.Accepted _ _, Inl error) \<Rightarrow>
                      Inl (divergence (at_step step_number None ''result'')
                        (StepResult Accepted (Rejected (error_to_v1 error))))
                  | (transcript_step_result_v1.Rejected rejection, Inl error) \<Rightarrow>
                      and_then (verify_rejected_step sz step_number rejection error s after digest)
                        (\<lambda>_. Inr (after, facts, digest))
                  | (transcript_step_result_v1.Rejected rejection, Inr _) \<Rightarrow>
                      Inl (divergence (at_step step_number None ''result'')
                        (StepResult (Rejected (sr1_error rejection)) Accepted)))
                 (\<lambda>(s, facts, digest).
                   Inr (s, facts\<lparr>rf_step_count := rf_step_count facts + 1\<rparr>, digest)))))"

fun replay_loop ::
  "serialization \<Rightarrow> engine \<Rightarrow> transcript_step_v1 list \<Rightarrow> game_state \<times> replay_facts \<times> state_digest_v1
    \<Rightarrow> (replay_error + game_state \<times> replay_facts \<times> state_digest_v1) option" where
  "replay_loop sz engine [] sfd = Some (Inr sfd)"
| "replay_loop sz engine (st # steps) sfd =
     (case replay_step sz engine st sfd of
        Some (Inr sfd) \<Rightarrow> replay_loop sz engine steps sfd
      | r \<Rightarrow> r)"

definition replay_steps ::
  "serialization \<Rightarrow> engine \<Rightarrow> transcript_step_v1 list \<Rightarrow> game_state
    \<Rightarrow> (replay_error + game_state \<times> replay_facts) option" where
  "replay_steps sz engine steps s =
     (case replay_digest sz (projection_from_state s) (at_initial ''match_created.state_digest'') of
        Inl error \<Rightarrow> Some (Inl error)
      | Inr digest \<Rightarrow>
          map_option (\<lambda>r. and_then r (\<lambda>(s, facts, _). Inr (s, facts)))
            (replay_loop sz engine steps (s, facts_start, digest)))"

section \<open>Completion\<close>

definition verify_winner_and_reason :: "match_completed_v1 \<Rightarrow> game_outcome_v1 \<Rightarrow> replay_error + unit" where
  "verify_winner_and_reason completion actual =
     (if md1_winner completion \<noteq> go1_winner actual
      then Inl (divergence (at_completion ''match_completed.winner'')
        (Winner (md1_winner completion) (go1_winner actual)))
      else if md1_reason completion \<noteq> go1_reason actual
      then Inl (divergence (at_completion ''match_completed.reason'')
        (LossReason (md1_reason completion) (go1_reason actual)))
      else Inr ())"

definition verify_completion ::
  "serialization \<Rightarrow> transcript_v1 \<Rightarrow> game_state \<Rightarrow> replay_facts \<Rightarrow> replay_error + unit" where
  "verify_completion sz t s facts =
     (let actual_projection = projection_from_state s;
          final_projection = fs1_final_state (tv_final_state t);
          game_ended_count = of_nat (length (rf_game_ended facts));
          completion = tv_match_completed t in
      if actual_projection \<noteq> final_projection
      then Inl (divergence (at_completion ''final_state.final_state'')
        (FinalState final_projection actual_projection))
      else if game_ended_count \<noteq> 1
      then Inl (divergence (at_completion ''events.game_ended'') (GameEndedCount 1 game_ended_count))
      else
        let actual_outcome = rf_game_ended facts ! 0 in
        case gs_status s of
          game_status.Ended outcome \<Rightarrow>
            (let final_outcome = game_outcome_to_v1 outcome in
             if final_outcome \<noteq> actual_outcome
             then Inl (divergence (at_completion ''final_state.final_state.status.outcome'')
               (GameEndedOutcome final_outcome actual_outcome))
             else
               and_then (verify_winner_and_reason completion actual_outcome) (\<lambda>_.
               if md1_step_count completion \<noteq> rf_step_count facts
               then Inl (divergence (at_completion ''match_completed.step_count'')
                 (StepCount (md1_step_count completion) (rf_step_count facts)))
               else if md1_event_count completion \<noteq> rf_event_count facts
               then Inl (divergence (at_completion ''match_completed.event_count'')
                 (EventCount (md1_event_count completion) (rf_event_count facts)))
               else
                 and_then (verify_digest sz (fs1_state_digest (tv_final_state t)) (projection_from_state s)
                   (at_completion ''final_state.state_digest'')) (\<lambda>_.
                 verify_digest sz (md1_state_digest completion) (projection_from_state s)
                   (at_completion ''match_completed.state_digest''))))
        | _ \<Rightarrow> Inl (divergence (at_completion ''final_state.final_state.status'') (GameEndedCount 1 0)))"

definition apply_engine :: engine where
  "apply_engine s action = map_option (\<lambda>result. (result, s)) (apply_action s action)"

definition verify_parsed_transcript ::
  "serialization \<Rightarrow> (string \<Rightarrow> u32 option) \<Rightarrow> card_set \<Rightarrow> transcript_v1
    \<Rightarrow> (replay_error + unit) option" where
  "verify_parsed_transcript sz set_revision core_cards t =
     (case prepare_initial_state sz set_revision core_cards (tv_match_created t) of
        Inl error \<Rightarrow> Some (Inl error)
      | Inr initial_state \<Rightarrow>
          map_option (\<lambda>r. and_then r (\<lambda>(s, facts). verify_completion sz t s facts))
            (replay_steps sz apply_engine (tv_steps t) initial_state))"

end
