(* ===== verification/Replaying.thy ===== *)
theory Replaying
  imports Replay
begin

text \<open>
  What \<open>verify_parsed_transcript\<close> accepts: exactly the transcripts whose steps are what the engine
  answers from the rebuilt initial state, and whose completion is the end the engine reaches.
\<close>

section \<open>One step\<close>

definition verified_step ::
  "serialization \<Rightarrow> state_digest_v1 \<Rightarrow> game_state \<Rightarrow> transcript_step_v1 \<Rightarrow> game_state \<Rightarrow> bool" where
  "verified_step sz digest s st t \<longleftrightarrow>
     (\<exists>action. action_try_of_v1 (ar1_action (tt_action st)) = Inr action \<and>
       (case tt_result st of
          transcript_step_result_v1.Accepted events completion \<Rightarrow>
            (\<exists>out. apply_action s action = Some (Inr out)
              \<and> map (\<lambda>r. event_try_of_v1 (er1_event r)) events = map Inr (ao_events out)
              \<and> digest_compute sz (projection_from_state (ao_state out)) = Inr (sc1_state_digest completion)
              \<and> t = ao_state out)
        | transcript_step_result_v1.Rejected rejection \<Rightarrow>
            apply_action s action = Some (Inl (error_of_v1 (sr1_error rejection)))
            \<and> digest_compute sz (projection_from_state s) = Inr digest
            \<and> sr1_state_digest rejection = digest \<and> t = s))"

fun verified ::
  "serialization \<Rightarrow> state_digest_v1 \<Rightarrow> game_state \<Rightarrow> transcript_step_v1 list \<Rightarrow> game_state \<Rightarrow> bool" where
  "verified sz digest s [] s' \<longleftrightarrow> s' = s"
| "verified sz digest s (st # steps) s' \<longleftrightarrow>
     (\<exists>t. verified_step sz digest s st t \<and> verified sz (step_digest st digest) t steps s')"

definition facts_after :: "replay_facts \<Rightarrow> transcript_step_v1 list \<Rightarrow> replay_facts" where
  "facts_after facts steps =
     \<lparr>rf_step_count = rf_step_count facts + of_nat (length steps),
      rf_event_count = rf_event_count facts + total_events steps,
      rf_game_ended = rf_game_ended facts @ concat (map step_endings steps)\<rparr>"

lemma facts_after_simps [simp]:
  "facts_after facts [] = facts"
  "facts_after (facts_after facts [st]) steps = facts_after facts (st # steps)"
  by (simp_all add: facts_after_def total_events_def add.assoc)

lemma verify_events_Inr:
  "verify_events step i evs es = Inr () \<longleftrightarrow> map (\<lambda>r. event_try_of_v1 (er1_event r)) evs = map Inr es"
proof (induction step i evs es rule: verify_events.induct)
  case (3 step i r rs es)
  then show ?case by (cases es) (auto simp: and_then_Inr map_err_def split: sum.splits)
qed simp_all

lemma wire_ending_event:
  "event_try_of_v1 w = Inr e \<Longrightarrow> wire_ending w = map_option game_outcome_to_v1 (ended_outcome e)"
  by (cases w) (auto simp: wire_ending_def ended_outcome_def game_outcome_to_v1_def and_then_Inr
      player_id_wire.to_of loss_reason_wire.to_of)

lemma wire_endings_events:
  "map (\<lambda>r. event_try_of_v1 (er1_event r)) evs = map Inr es \<Longrightarrow>
    wire_endings evs = map game_outcome_to_v1 (endings es)"
proof (induction es arbitrary: evs)
  case Nil
  then show ?case by (simp add: wire_endings_def)
next
  case (Cons e es)
  then obtain r rs where evs: "evs = r # rs" "event_try_of_v1 (er1_event r) = Inr e"
    "map (\<lambda>r. event_try_of_v1 (er1_event r)) rs = map Inr es"
    by (cases evs) auto
  with Cons.IH [OF evs(3)] wire_ending_event [OF evs(2)] show ?case
    by (simp add: wire_endings_def split: option.splits)
qed

lemma game_ended_endings:
  "filter_map (\<lambda>event. case event of
      game_event.GameEnded winner reason \<Rightarrow>
        Some \<lparr>go1_winner = player_id_to_v1 winner, go1_reason = loss_reason_to_v1 reason\<rparr>
    | _ \<Rightarrow> None) events = map game_outcome_to_v1 (endings events)"
proof (induction events)
  case Nil
  then show ?case by simp
next
  case (Cons e es)
  then show ?case by (cases e) (simp_all add: ended_outcome_def game_outcome_to_v1_def)
qed

lemma verify_digest_Inr:
  "verify_digest sz expected p location = Inr () \<longleftrightarrow> digest_compute sz p = Inr expected"
  "replay_digest sz p location = Inr digest \<longleftrightarrow> digest_compute sz p = Inr digest"
  by (auto simp: verify_digest_def replay_digest_def map_err_def and_then_Inr split: sum.splits)

lemma replay_step_Inr:
  "replay_step sz apply_engine st (s, facts, digest) = Some (Inr (t, facts', digest')) \<longleftrightarrow>
    verified_step sz digest s st t \<and> facts' = facts_after facts [st] \<and> digest' = step_digest st digest"
proof (cases "action_try_of_v1 (ar1_action (tt_action st))")
  case (Inl e)
  then show ?thesis by (simp add: replay_step_def verified_step_def map_err_def)
next
  case action: (Inr action)
  show ?thesis
  proof (cases "tt_result st")
    case (Accepted events completion)
    have "length events = length es \<and> wire_endings events = map game_outcome_to_v1 (endings es)"
      if "map (\<lambda>r. event_try_of_v1 (er1_event r)) events = map Inr es" for es
      using that wire_endings_events map_eq_imp_length_eq by blast
    with Accepted action show ?thesis
      by (auto simp: replay_step_def apply_engine_def verified_step_def verify_accepted_step_def Let_def
          and_then_Inr verify_events_Inr verify_digest_Inr facts_after_def record_events_def
          game_ended_endings step_endings_def step_digest_def total_events_def
          split: option.splits sum.splits)
  next
    case (Rejected rejection)
    with action show ?thesis
      by (auto simp: replay_step_def apply_engine_def verified_step_def verify_rejected_step_def Let_def
          and_then_Inr verify_digest_Inr facts_after_def step_endings_def step_digest_def total_events_def
          split: option.splits sum.splits)
  qed
qed

section \<open>All steps\<close>

lemma replay_loop_Inr:
  "replay_loop sz apply_engine steps (s, facts, digest) = Some (Inr (s', facts', digest')) \<longleftrightarrow>
    verified sz digest s steps s' \<and> facts' = facts_after facts steps \<and> digest' = digest_after steps digest"
proof (induction steps arbitrary: s facts digest)
  case Nil
  then show ?case by (auto simp: digest_after_def)
next
  case (Cons st steps)
  have "replay_loop sz apply_engine (st # steps) (s, facts, digest) = Some (Inr (s', facts', digest')) \<longleftrightarrow>
      (\<exists>t f d. replay_step sz apply_engine st (s, facts, digest) = Some (Inr (t, f, d))
        \<and> replay_loop sz apply_engine steps (t, f, d) = Some (Inr (s', facts', digest')))"
    by (auto split: option.splits sum.splits)
  also have "\<dots> \<longleftrightarrow> verified sz digest s (st # steps) s' \<and> facts' = facts_after facts (st # steps)
      \<and> digest' = digest_after (st # steps) digest"
    by (auto simp: replay_step_Inr Cons.IH digest_after_def)
  finally show ?case .
qed

text \<open>From a playing state, the steps announce exactly the end that they reach.\<close>

lemma verified_step_endings:
  assumes "verified_step sz digest s st t"
  shows "(gs_status s = game_status.Playing \<longrightarrow>
      step_endings st = map game_outcome_to_v1 (status_endings (gs_status t)))
    \<and> (gs_status s \<noteq> game_status.Playing \<longrightarrow> t = s \<and> step_endings st = [])"
proof (cases "tt_result st")
  case (Accepted events completion)
  with assms obtain action out where out: "apply_action s action = Some (Inr out)" "t = ao_state out"
    and events: "map (\<lambda>r. event_try_of_v1 (er1_event r)) events = map Inr (ao_events out)"
    by (auto simp: verified_step_def)
  moreover have "gs_status s = game_status.Playing" using out(1) by (rule apply_action_accepted) simp_all
  ultimately show ?thesis
    using Accepted apply_announces(1) [OF out(1)] by (simp add: step_endings_def wire_endings_events)
next
  case (Rejected rejection)
  with assms show ?thesis
    by (auto simp: verified_step_def step_endings_def wire_endings_def)
qed

lemma verified_endings:
  "verified sz digest s steps s' \<Longrightarrow>
    concat (map step_endings steps) =
      (if gs_status s = game_status.Playing then map game_outcome_to_v1 (status_endings (gs_status s')) else [])
    \<and> (gs_status s \<noteq> game_status.Playing \<longrightarrow> s' = s)"
proof (induction steps arbitrary: s digest)
  case Nil
  then show ?case by simp
next
  case (Cons st steps)
  then obtain t where t: "verified_step sz digest s st t" "verified sz (step_digest st digest) t steps s'"
    by auto
  from verified_step_endings [OF t(1)] Cons.IH [OF t(2)] show ?case
    by (cases "gs_status s"; cases "gs_status t") auto
qed

section \<open>The whole transcript\<close>

definition requirements_met :: "(string \<Rightarrow> u32 option) \<Rightarrow> set_requirement_v1 list \<Rightarrow> bool" where
  "requirements_met set_revision sets \<longleftrightarrow>
     list_all (\<lambda>requirement. set_revision (sq1_set requirement) = Some (sq1_revision requirement)) sets"

lemma validate_required_sets_Inr:
  "validate_required_sets set_revision sets = Inr () \<longleftrightarrow> requirements_met set_revision sets"
  unfolding requirements_met_def by (induction sets) (auto simp: Let_def)

text \<open>The match a transcript describes starts in \<open>s\<close>.\<close>

definition starts_from ::
  "serialization \<Rightarrow> (string \<Rightarrow> u32 option) \<Rightarrow> card_set \<Rightarrow> match_created_v1 \<Rightarrow> game_state \<Rightarrow> bool" where
  "starts_from sz set_revision core_cards created s \<longleftrightarrow>
     requirements_met set_revision (mc1_required_sets created)
     \<and> into_game_state (mc1_initial_state created) core_cards = Inr s
     \<and> projection_from_state s = mc1_initial_state created
     \<and> digest_compute sz (projection_from_state s) = Inr (mc1_state_digest created)"

lemma prepare_initial_state_Inr:
  "prepare_initial_state sz set_revision core_cards created = Inr s \<longleftrightarrow>
    starts_from sz set_revision core_cards created s"
  by (auto simp: prepare_initial_state_def starts_from_def verify_initial_state_def Let_def and_then_Inr
      map_err_def validate_required_sets_Inr verify_digest_Inr split: sum.splits)

text \<open>The completion records describe the end that the engine reached in \<open>s'\<close>.\<close>

definition ends_in :: "serialization \<Rightarrow> transcript_v1 \<Rightarrow> game_state \<Rightarrow> bool" where
  "ends_in sz t s' \<longleftrightarrow>
     (case gs_status s' of
        game_status.Ended outcome \<Rightarrow>
          projection_from_state s' = fs1_final_state (tv_final_state t)
          \<and> digest_compute sz (projection_from_state s') = Inr (fs1_state_digest (tv_final_state t))
          \<and> md1_state_digest (tv_match_completed t) = fs1_state_digest (tv_final_state t)
          \<and> md1_winner (tv_match_completed t) = player_id_to_v1 (go_winner outcome)
          \<and> md1_reason (tv_match_completed t) = loss_reason_to_v1 (go_reason outcome)
          \<and> md1_step_count (tv_match_completed t) = of_nat (length (tv_steps t))
          \<and> md1_event_count (tv_match_completed t) = total_events (tv_steps t)
      | _ \<Rightarrow> False)"

lemma verify_completion_Inr:
  assumes "verified sz digest s (tv_steps t) s'"
  shows "verify_completion sz t s' (facts_after facts_start (tv_steps t)) = Inr () \<longleftrightarrow>
    gs_status s = game_status.Playing \<and> ends_in sz t s'"
proof -
  let ?facts = "facts_after facts_start (tv_steps t)"
  have ended: "rf_game_ended ?facts =
      (if gs_status s = game_status.Playing then map game_outcome_to_v1 (status_endings (gs_status s')) else [])"
    using verified_endings [OF assms] by (simp only: facts_after_def facts_start_def) simp
  have counts: "rf_step_count ?facts = of_nat (length (tv_steps t))"
    "rf_event_count ?facts = total_events (tv_steps t)"
    by (simp_all add: facts_after_def facts_start_def)
  show ?thesis
    by (cases "gs_status s = game_status.Playing"; cases "gs_status s'")
      (auto simp: verify_completion_def ended counts ends_in_def Let_def and_then_Inr verify_digest_Inr
        verify_winner_and_reason_def game_outcome_to_v1_def)
qed

lemma verify_accepts:
  "verify_parsed_transcript sz set_revision core_cards t = Some (Inr ()) \<longleftrightarrow>
    (\<exists>s s'. starts_from sz set_revision core_cards (tv_match_created t) s
      \<and> gs_status s = game_status.Playing
      \<and> verified sz (mc1_state_digest (tv_match_created t)) s (tv_steps t) s'
      \<and> ends_in sz t s')"
proof (cases "prepare_initial_state sz set_revision core_cards (tv_match_created t)")
  case (Inl e)
  with prepare_initial_state_Inr [of sz set_revision core_cards "tv_match_created t"] show ?thesis
    by (simp add: verify_parsed_transcript_def)
next
  case (Inr s)
  let ?d = "mc1_state_digest (tv_match_created t)" and ?steps = "tv_steps t"
  have start: "starts_from sz set_revision core_cards (tv_match_created t) u \<longleftrightarrow> u = s" for u
    using Inr by (auto simp: prepare_initial_state_Inr [symmetric])
  then have "replay_digest sz (projection_from_state s) (at_initial ''match_created.state_digest'') = Inr ?d"
    by (auto simp: starts_from_def verify_digest_Inr)
  then have "verify_parsed_transcript sz set_revision core_cards t = Some (Inr ()) \<longleftrightarrow>
      (\<exists>s' facts digest. replay_loop sz apply_engine ?steps (s, facts_start, ?d) = Some (Inr (s', facts, digest))
        \<and> verify_completion sz t s' facts = Inr ())"
    by (auto simp: verify_parsed_transcript_def Inr replay_steps_def and_then_Inr)
  also have "\<dots> \<longleftrightarrow> (\<exists>s'. verified sz ?d s ?steps s'
        \<and> verify_completion sz t s' (facts_after facts_start ?steps) = Inr ())"
    by (auto simp: replay_loop_Inr)
  also have "\<dots> \<longleftrightarrow> (\<exists>s'. verified sz ?d s ?steps s' \<and> gs_status s = game_status.Playing \<and> ends_in sz t s')"
    using verify_completion_Inr by blast
  finally show ?thesis by (auto simp: start)
qed

text \<open>C13: replay verification accepts exactly the real matches. \<open>verify_parsed_transcript\<close> answers
  \<open>Ok\<close> for a transcript if and only if the library holds the required sets, the recorded initial
  state rebuilds to a playing state that projects to it with its digest, every step holds what the
  engine answers there (the same events and the digest of the next state, or the same error and
  the unchanged digest), and the engine ends in a state with the recorded final projection,
  digest, winner, reason, step and event counts.\<close>

theorem verification_accepts:
  "verify_parsed_transcript sz set_revision core_cards t = Some (Inr ()) \<longleftrightarrow>
    (\<exists>s s'. starts_from sz set_revision core_cards (tv_match_created t) s
      \<and> gs_status s = game_status.Playing
      \<and> verified sz (mc1_state_digest (tv_match_created t)) s (tv_steps t) s'
      \<and> ends_in sz t s')"
  by (rule verify_accepts)

end
