(* ===== verification/Match_Log.thy ===== *)
theory Match_Log
  imports Replaying
begin

text \<open>
  The match log as a whole: what was recorded to the end parses and verifies, and what verifies is
  a real match of the engine.
\<close>

section \<open>Replaying faithful steps\<close>

fun chained :: "u64 \<Rightarrow> state_digest_v1 \<Rightarrow> transcript_step_v1 list \<Rightarrow> bool" where
  "chained n digest [] = True"
| "chained n digest (st # steps) \<longleftrightarrow> step_ok n digest st \<and> chained (n + 1) (step_digest st digest) steps"

lemma chained_snoc:
  "chained n d (steps @ [st]) \<longleftrightarrow>
    chained n d steps \<and> step_ok (n + of_nat (length steps)) (digest_after steps d) st"
  by (induction steps arbitrary: n d) (auto simp: digest_after_def add.assoc)

lemma open_chained: "open_steps n d steps \<Longrightarrow> chained n d steps"
  by (induction steps arbitrary: n d) simp_all

lemma terminal_chained:
  assumes "terminal_steps d steps outcome"
  shows "chained 1 d steps"
proof -
  obtain before st where steps: "steps = before @ [st]"
    using assms by (cases steps rule: rev_cases) (auto simp: terminal_steps_def)
  with assms have "open_steps 1 d before" "step_ok (of_nat (length before) + 1) (digest_after before d) st"
    by (simp_all add: terminal_steps_def add.commute)
  with steps open_chained show ?thesis by (simp add: chained_snoc add.commute)
qed

lemma faithful_verified_step:
  assumes "faithful_step sz s st t" and "step_ok n digest st"
    and "digest_compute sz (projection_from_state s) = Inr digest"
  shows "verified_step sz digest s st t"
    and "digest_compute sz (projection_from_state t) = Inr (step_digest st digest)"
proof -
  have events: "map (\<lambda>r. event_try_of_v1 (er1_event r)) evs = map Inr es"
    if "map er1_event evs = map event_to_v1 es" for evs es
  proof -
    have "map (\<lambda>r. event_try_of_v1 (er1_event r)) evs = map event_try_of_v1 (map er1_event evs)" by simp
    then show ?thesis by (simp add: that)
  qed
  show "verified_step sz digest s st t"
    using assms events
    by (cases "tt_result st") (auto simp: faithful_step_def verified_step_def step_ok_def)
  show "digest_compute sz (projection_from_state t) = Inr (step_digest st digest)"
    using assms by (cases "tt_result st") (auto simp: faithful_step_def step_digest_def)
qed

lemma faithful_verified:
  "faithful sz s steps s' \<Longrightarrow> chained n digest steps \<Longrightarrow>
    digest_compute sz (projection_from_state s) = Inr digest \<Longrightarrow>
    verified sz digest s steps s'
    \<and> digest_compute sz (projection_from_state s') = Inr (digest_after steps digest)"
proof (induction steps arbitrary: s n digest)
  case Nil
  then show ?case by (simp add: digest_after_def)
next
  case (Cons st steps)
  then obtain t where t: "faithful_step sz s st t" "faithful sz t steps s'" by auto
  have ok: "step_ok n digest st" "chained (n + 1) (step_digest st digest) steps"
    using Cons.prems(2) by simp_all
  note step = faithful_verified_step [OF t(1) ok(1) Cons.prems(3)]
  from Cons.IH [OF t(2) ok(2) step(2)] step(1) show ?case by (auto simp: digest_after_def)
qed

section \<open>What is recorded verifies\<close>

lemma faithful_verifies:
  assumes ok: "transcript_ok sz t" and faith: "faithful sz s (tv_steps t) s'"
    and initial: "mc1_initial_state (tv_match_created t) = projection_from_state s"
    and final: "fs1_final_state (tv_final_state t) = projection_from_state s'"
    and s: "projectable s" "requirements_met set_revision (mc1_required_sets (tv_match_created t))"
  shows "verify_parsed_transcript sz set_revision (gs_cards s) t = Some (Inr ())"
proof -
  let ?d = "mc1_state_digest (tv_match_created t)"
  obtain outcome where created: "created_ok sz (tv_match_created t)"
    and terminal: "terminal_steps ?d (tv_steps t) outcome"
    and fin: "final_ok sz (digest_after (tv_steps t) ?d) outcome (tv_final_state t)"
    and completed: "completed_ok (digest_after (tv_steps t) ?d) (tv_steps t) outcome (tv_match_completed t)"
    using ok by (auto simp: transcript_ok_def Let_def split: list.splits)
  have start: "starts_from sz set_revision (gs_cards s) (tv_match_created t) s"
    using created initial s by (simp add: starts_from_def created_ok_def projection_round_trip)
  have "gs_status s = game_status.Playing"
    using created initial by (cases "gs_status s") (simp_all add: created_ok_def projection_from_state_def)
  moreover have "verified sz ?d s (tv_steps t) s'"
    using faithful_verified [OF faith terminal_chained [OF terminal]] created initial
    by (simp add: created_ok_def)
  moreover have "ends_in sz t s'"
    using fin final completed
    by (cases "gs_status s'")
      (auto simp: ends_in_def final_ok_def completed_ok_def projection_from_state_def game_outcome_to_v1_def)
  ultimately show ?thesis using start verify_accepts by blast
qed

text \<open>A recording from an empty writer that reached its end has written a transcript that the fold
  accepts and that verifies.\<close>

context log_writer
begin

lemma recorded_transcript:
  assumes start: "contents w = []" "record_start sz ops w metadata sets s = Inr m"
    and all: "submit_all sz ops m actions = Some m'" "\<forall>action \<in> set actions. recordable action"
    and ended: "rm_lifecycle m' = Stopped recording_stopped.MatchCompleted"
    and s: "projectable s" "requirements_met set_revision sets"
  shows "\<exists>t ls. try_map (encode_record sz) (records_in t) = Inr ls
    \<and> contents (rm_writer m') = concat ls
    \<and> (\<forall>ds. map dec_record ds = records_in t \<longrightarrow> fold_records sz ds = Inr t)
    \<and> verify_parsed_transcript sz set_revision (gs_cards s) t = Some (Inr ())
    \<and> mc1_required_sets (tv_match_created t) = sets"
proof -
  obtain digest where rec: "recording sz s [] (header_new metadata)
      (match_created_new sets (projection_from_state s) digest) [] m"
    using recording_start [OF start(2)] start(1) by auto
  from recording_all [OF rec all] ended obtain t where
    created: "tv_match_created t = match_created_new sets (projection_from_state s) digest"
    and t: "completed sz s [] t m'"
    by (auto simp: recording_def)
  from t obtain ls where "try_map (encode_record sz) (records_in t) = Inr ls"
    "contents (rm_writer m') = concat ls" "numbered 0 (records_in t)" "transcript_ok sz t"
    "faithful sz s (tv_steps t) (rm_state m')"
    "fs1_final_state (tv_final_state t) = projection_from_state (rm_state m')"
    by (auto simp: completed_def log_holds_def)
  moreover from this have "\<forall>ds. map dec_record ds = records_in t \<longrightarrow> fold_records sz ds = Inr t"
    "verify_parsed_transcript sz set_revision (gs_cards s) t = Some (Inr ())"
    using s fold_accepts [of _ t sz] faithful_verifies [of sz t s "rm_state m'" set_revision]
    by (simp_all add: created match_created_new_def)
  moreover have "mc1_required_sets (tv_match_created t) = sets" by (simp add: created match_created_new_def)
  ultimately show ?thesis by blast
qed

end

section \<open>Recording into memory\<close>

text \<open>\<open>impl Write for Vec<u8>\<close>.\<close>

definition vec_write_ops :: "u8 list write_ops" where
  "vec_write_ops = \<lparr>wr_write_all = (\<lambda>w bytes. (Inr (), w @ bytes)), wr_flush = (\<lambda>w. (Inr (), w))\<rparr>"

interpretation vec: log_writer vec_write_ops "\<lambda>bytes. bytes"
  by unfold_locales (auto simp: vec_write_ops_def)

end
