(* ===== verification/Reading.thy ===== *)
theory Reading
  imports Decode Match_Log
begin

text \<open>
  What \<open>parse_reader\<close> reads. The locale \<open>line_reader\<close> is a reader that holds bytes and does not
  fail; it is interpreted for a slice of bytes. The parse of such a reader is one decode per line
  and the fold, and what a recording has written is read back.
\<close>

section \<open>Lines\<close>

definition first_line :: "u8 list \<Rightarrow> u8 list" where
  "first_line bytes = takeWhile (\<lambda>b. b \<noteq> 10) bytes @ take 1 (dropWhile (\<lambda>b. b \<noteq> 10) bytes)"

definition after_line :: "u8 list \<Rightarrow> u8 list" where
  "after_line bytes = drop 1 (dropWhile (\<lambda>b. b \<noteq> 10) bytes)"

lemma first_line_Nil [simp]: "first_line bytes = [] \<longleftrightarrow> bytes = []"
  by (cases bytes) (auto simp: first_line_def)

lemma after_line_shorter: "bytes \<noteq> [] \<Longrightarrow> length (after_line bytes) < length bytes"
  using length_dropWhile_le [of "\<lambda>b. b \<noteq> 10" bytes] by (cases bytes) (auto simp: after_line_def)

lemma first_line_append:
  "10 \<notin> set b \<Longrightarrow> first_line (b @ 10 # rest) = b @ [10]"
  "10 \<notin> set b \<Longrightarrow> after_line (b @ 10 # rest) = rest"
  by (induction b) (auto simp: first_line_def after_line_def)

function split_lines :: "u8 list \<Rightarrow> u8 list list" where
  "split_lines bytes = (if bytes = [] then [] else first_line bytes # split_lines (after_line bytes))"
  by pat_completeness auto
termination by (relation "measure length") (simp_all add: after_line_shorter)

declare split_lines.simps [simp del]

lemma split_lines_concat:
  "\<forall>l \<in> set ls. 10 \<notin> set l \<Longrightarrow> split_lines (concat (map (\<lambda>l. l @ [10]) ls)) = map (\<lambda>l. l @ [10]) ls"
  by (induction ls) (simp_all add: split_lines.simps first_line_append)

section \<open>Readers\<close>

definition decode_lines :: "decoders \<Rightarrow> nat \<Rightarrow> u8 list list \<Rightarrow> parse_error + decoded_record list" where
  "decode_lines jd n ls = try_map (\<lambda>(line, l). decode_record jd (strip_line_end l) line) (enumerate n ls)"

lemma decode_lines_simps [simp]:
  "decode_lines jd n [] = Inr []"
  "decode_lines jd n (l # ls) =
    and_then (decode_record jd (strip_line_end l) n) (\<lambda>d.
    and_then (decode_lines jd (Suc n) ls) (\<lambda>ds. Inr (d # ds)))"
  by (simp_all add: decode_lines_def)

locale line_reader =
  fixes read_until :: "'r reader" and remaining :: "'r \<Rightarrow> u8 list"
  assumes reads: "fst (read_until r) = Inr (first_line (remaining r))"
    and leaves: "remaining (snd (read_until r)) = after_line (remaining r)"
begin

lemma parse_lines_split:
  "parse_lines read_until jd r n records =
    Some (and_then (decode_lines jd n (split_lines (remaining r))) (\<lambda>ds. Inr (records @ ds)))"
proof (induction "remaining r" arbitrary: r n records rule: split_lines.induct)
  case 1
  obtain r' where r: "read_until r = (Inr (first_line (remaining r)), r')"
    and r': "remaining r' = after_line (remaining r)"
    using reads [of r] leaves [of r] by (cases "read_until r") simp
  show ?case
  proof (cases "remaining r = []")
    case True
    then show ?thesis by (subst parse_lines.simps) (simp add: r split_lines.simps first_line_def)
  next
    case False
    note IH = 1 [OF False, of r']
    have split: "split_lines (remaining r) = first_line (remaining r) # split_lines (remaining r')"
      using False by (subst split_lines.simps) (simp add: r')
    show ?thesis
      using False
      by (subst parse_lines.simps, cases "decode_record jd (strip_line_end (first_line (remaining r))) n";
          cases "decode_lines jd (Suc n) (split_lines (remaining r'))")
        (simp_all add: r split IH r')
  qed
qed

lemma parse_reader_split:
  "parse_reader sz read_until jd r =
    Some (and_then (decode_lines jd 1 (split_lines (remaining r))) (fold_records sz))"
  by (cases "decode_lines jd 1 (split_lines (remaining r))") (simp_all add: parse_reader_def parse_lines_split)

end

text \<open>\<open>impl BufRead for &[u8]\<close>.\<close>

definition slice_read_until :: "u8 list reader" where
  "slice_read_until bytes = (Inr (first_line bytes), after_line bytes)"

interpretation slice: line_reader slice_read_until "\<lambda>bytes. bytes"
  by unfold_locales (simp_all add: slice_read_until_def)

text \<open>C27: parsing bytes is reading them line by line. \<open>parse_reader\<close> on a slice of bytes always
  returns; it decodes each line, up to and with its line feed if it has one, without its line
  end and with its number counted from one, stops at the first line that does not decode, and
  answers the fold of the records.\<close>

theorem parse_reader_reads_lines:
  "parse_reader sz slice_read_until jd bytes =
    Some (and_then (decode_lines jd 1 (split_lines bytes)) (fold_records sz))"
  by (rule slice.parse_reader_split)

section \<open>Reading a recording back\<close>

definition verify_transcript ::
  "serialization \<Rightarrow> 'r reader \<Rightarrow> decoders \<Rightarrow> (string \<Rightarrow> u32 option) \<Rightarrow> card_set \<Rightarrow> 'r
    \<Rightarrow> (replay_error + unit) option" where
  "verify_transcript sz read_until jd set_revision core_cards reader =
     (case parse_reader sz read_until jd reader of
        None \<Rightarrow> None
      | Some (Inl error) \<Rightarrow> Some (Inl (Parse error))
      | Some (Inr t) \<Rightarrow> verify_parsed_transcript sz set_revision core_cards t)"

fun typed_reads :: "decoders \<Rightarrow> string \<Rightarrow> record_v1 \<Rightarrow> bool" where
  "typed_reads jd text (record_v1.Header v) \<longleftrightarrow>
     jd_header jd text = Inr v \<and> hd1_format v = ''summoners_match'' \<and> hd1_format_version v = 1"
| "typed_reads jd text (record_v1.MatchCreated v) \<longleftrightarrow> jd_match_created jd text = Inr v"
| "typed_reads jd text (record_v1.Action v) \<longleftrightarrow> jd_action jd text = Inr v"
| "typed_reads jd text (record_v1.Event v) \<longleftrightarrow> jd_event jd text = Inr v"
| "typed_reads jd text (record_v1.StepCompleted v) \<longleftrightarrow> jd_step_completed jd text = Inr v"
| "typed_reads jd text (record_v1.StepRejected v) \<longleftrightarrow> jd_step_rejected jd text = Inr v"
| "typed_reads jd text (record_v1.FinalState v) \<longleftrightarrow> jd_final_state jd text = Inr v"
| "typed_reads jd text (record_v1.MatchCompleted v) \<longleftrightarrow> jd_match_completed jd text = Inr v"

text \<open>What serde documents of a record it wrote: one line of UTF-8 text that is a JSON object tagged
  with the record's name, which holds canonical identities and digests and is read back as the
  same record.\<close>

definition reads_back :: "serialization \<Rightarrow> decoders \<Rightarrow> record_v1 \<Rightarrow> bool" where
  "reads_back sz jd r \<longleftrightarrow>
     (\<forall>bytes. sz_record sz r = Inr bytes \<longrightarrow>
       10 \<notin> set bytes \<and> (bytes \<noteq> [] \<longrightarrow> last bytes \<noteq> 13) \<and>
       (\<exists>text v. from_utf8 bytes = Inr text \<and> jd_value jd text = Inr v
         \<and> get_with as_str v ''record'' = Some (record_name r) \<and> typed_reads jd text r
         \<and> (\<forall>context. validate_canonical_values v [] context = Inr ())))"

lemma decode_variant_record:
  "typed_reads jd text r \<Longrightarrow> decode_variant jd (record_name r) text context = Inr r"
  by (cases r) (simp_all add: decode_variant_def decode_header_def decode_typed_def map_err_def)

lemma decode_record_reads_back:
  assumes "reads_back sz jd r" and "sz_record sz r = Inr bytes"
  shows "decode_record jd (strip_line_end (bytes @ [10])) line = Inr \<lparr>dec_line = line, dec_record = r\<rparr>"
proof -
  have "strip_line_end (bytes @ [10]) = bytes"
    using assms by (auto simp: reads_back_def strip_line_end_def Let_def)
  moreover obtain line_text v where "from_utf8 bytes = Inr line_text" "jd_value jd line_text = Inr v"
    "get_with as_str v ''record'' = Some (record_name r)" "typed_reads jd line_text r"
    "\<forall>context. validate_canonical_values v [] context = Inr ()"
    using assms by (auto simp: reads_back_def)
  ultimately show ?thesis by (simp add: decode_record_def map_err_def Let_def decode_variant_record)
qed

lemma encode_record_Inr: "encode_record sz r = Inr l \<longleftrightarrow> (\<exists>b. sz_record sz r = Inr b \<and> l = b @ [10])"
  by (auto simp: encode_record_def map_err_def and_then_Inr split: sum.splits)

lemma encoded_bytes:
  "try_map (encode_record sz) rs = Inr ls \<Longrightarrow>
    \<exists>bs. ls = map (\<lambda>b. b @ [10]) bs \<and> list_all2 (\<lambda>r b. sz_record sz r = Inr b) rs bs"
proof (induction rs arbitrary: ls)
  case Nil
  then show ?case by simp
next
  case (Cons r rs)
  then obtain b ls' where b: "sz_record sz r = Inr b" "ls = (b @ [10]) # ls'"
    and rest: "try_map (encode_record sz) rs = Inr ls'"
    by (auto simp: and_then_Inr encode_record_Inr)
  from Cons.IH [OF rest] obtain bs where
    "ls' = map (\<lambda>b. b @ [10]) bs" "list_all2 (\<lambda>r b. sz_record sz r = Inr b) rs bs" by auto
  with b show ?case by (intro exI [of _ "b # bs"]) simp
qed

lemma encoded_lines:
  assumes rs: "try_map (encode_record sz) rs = Inr ls" and readable: "\<forall>r \<in> set rs. reads_back sz jd r"
  shows "\<exists>ds. decode_lines jd n (split_lines (concat ls)) = Inr ds \<and> map dec_record ds = rs"
proof -
  obtain bs where ls: "ls = map (\<lambda>b. b @ [10]) bs" and bs: "list_all2 (\<lambda>r b. sz_record sz r = Inr b) rs bs"
    using encoded_bytes [OF rs] by blast
  have "\<forall>b \<in> set bs. 10 \<notin> set b"
    using bs readable by (induction rs bs rule: list_all2_induct) (auto simp: reads_back_def)
  then have "split_lines (concat ls) = ls" unfolding ls by (rule split_lines_concat)
  moreover have "\<exists>ds. decode_lines jd n (map (\<lambda>b. b @ [10]) bs) = Inr ds \<and> map dec_record ds = rs"
    using bs readable
  proof (induction rs bs arbitrary: n rule: list_all2_induct)
    case Nil
    then show ?case by simp
  next
    case (Cons r rs b bs)
    then obtain ds where "decode_lines jd (Suc n) (map (\<lambda>b. b @ [10]) bs) = Inr ds" "map dec_record ds = rs"
      by fastforce
    moreover have "decode_record jd (strip_line_end (b @ [10])) n = Inr \<lparr>dec_line = n, dec_record = r\<rparr>"
      using Cons by (intro decode_record_reads_back) auto
    ultimately show ?case by simp
  qed
  ultimately show ?thesis by (simp add: ls)
qed

text \<open>The log of a completed recording, which the properties of recordings and sessions rest on.\<close>

lemma recorded_verifies:
  assumes "\<And>w bytes w'. wr_write_all ops w bytes = (Inr (), w') \<Longrightarrow> contents w' = contents w @ bytes"
    and "\<And>w w'. wr_flush ops w = (Inr (), w') \<Longrightarrow> contents w' = contents w"
    and "contents w = []"
    and "record_start sz ops w metadata sets s = Inr m"
    and "submit_all sz ops m actions = Some m'"
    and "\<forall>action \<in> set actions. recordable action"
    and "rm_lifecycle m' = Stopped recording_stopped.MatchCompleted"
    and "projectable s"
    and "requirements_met set_revision sets"
  shows "\<exists>t ls. try_map (encode_record sz) (records_in t) = Inr ls
    \<and> contents (rm_writer m') = concat ls
    \<and> verify_parsed_transcript sz set_revision (gs_cards s) t = Some (Inr ())
    \<and> mc1_required_sets (tv_match_created t) = sets
    \<and> ((\<forall>r \<in> set (records_in t). reads_back sz jd r) \<longrightarrow>
         parse_reader sz slice_read_until jd (contents (rm_writer m')) = Some (Inr t)
         \<and> verify_transcript sz slice_read_until jd set_revision (gs_cards s) (contents (rm_writer m'))
             = Some (Inr ()))"
proof -
  have writer: "log_writer ops contents" by (rule log_writer.intro) (fact assms)+
  from log_writer.recorded_transcript [OF writer assms(3-9)] obtain t ls where
    t: "try_map (encode_record sz) (records_in t) = Inr ls" "contents (rm_writer m') = concat ls"
      "\<forall>ds. map dec_record ds = records_in t \<longrightarrow> fold_records sz ds = Inr t"
      "verify_parsed_transcript sz set_revision (gs_cards s) t = Some (Inr ())"
      "mc1_required_sets (tv_match_created t) = sets"
    by blast
  have "parse_reader sz slice_read_until jd (contents (rm_writer m')) = Some (Inr t)"
    if "\<forall>r \<in> set (records_in t). reads_back sz jd r"
    using encoded_lines [OF t(1) that, of 1] t(2,3) by (auto simp: slice.parse_reader_split)
  with t show ?thesis by (intro exI [of _ t] exI [of _ ls]) (simp add: verify_transcript_def)
qed

text \<open>C5: a match recorded to its end is a log that reads back and verifies. If a recording starts
  on an empty writer that keeps what is written to it, no submission fails and the match is
  completed, then the writer holds exactly the lines of one transcript, which replays without any
  divergence against a library with the required sets and the same cards; and if serde reads
  back the records it wrote, then parsing the written bytes answers that transcript and
  \<open>verify_transcript\<close> accepts them.\<close>

theorem recorded_match_verifies:
  assumes "\<And>w bytes w'. wr_write_all ops w bytes = (Inr (), w') \<Longrightarrow> contents w' = contents w @ bytes"
    and "\<And>w w'. wr_flush ops w = (Inr (), w') \<Longrightarrow> contents w' = contents w"
    and "contents w = []"
    and "record_start sz ops w metadata sets s = Inr m"
    and "submit_all sz ops m actions = Some m'"
    and "\<forall>action \<in> set actions. recordable action"
    and "rm_lifecycle m' = Stopped recording_stopped.MatchCompleted"
    and "projectable s"
    and "requirements_met set_revision sets"
  shows "\<exists>t ls. try_map (encode_record sz) (records_in t) = Inr ls
    \<and> contents (rm_writer m') = concat ls
    \<and> verify_parsed_transcript sz set_revision (gs_cards s) t = Some (Inr ())
    \<and> ((\<forall>r \<in> set (records_in t). reads_back sz jd r) \<longrightarrow>
         parse_reader sz slice_read_until jd (contents (rm_writer m')) = Some (Inr t)
         \<and> verify_transcript sz slice_read_until jd set_revision (gs_cards s) (contents (rm_writer m'))
             = Some (Inr ()))"
  using recorded_verifies [where contents = contents, OF assms] by blast

end
