(* ===== verification/Log_Safety.thy ===== *)
theory Log_Safety
  imports Reading
begin

text \<open>
  What the match log promises on its own: every match state survives its projection, what the log
  writes is canonical, and a recording closes for good at its first failure.
\<close>

section \<open>Projections of match states\<close>

lemma reachable_rule:
  assumes "reachable cards sc s" and "gs_status s = game_status.Broken b"
  shows "br_rule b = ''destruction''"
  using assms(1)
proof (cases rule: reachable.cases)
  case parsed
  from from_scenario_Inr [OF this] assms(2) show ?thesis by (simp add: Let_def)
next
  case (played t action out)
  then show ?thesis using assms(2) apply_announces(2) by simp
qed

lemma reachable_projectable: "reachable cards sc s \<Longrightarrow> projectable s"
  using reachable_segments [of cards sc s] reachable_rule [of cards sc s]
  by (cases "gs_status s") (auto simp: projectable_def segments_ok_def)

text \<open>C24: every state of every match survives the wire. Projecting a reachable state and rebuilding
  it with the match's card set gives back the same state, and never one of the rebuild errors.\<close>

theorem reachable_state_rebuilds:
  "reachable cards sc s \<Longrightarrow> into_game_state (projection_from_state s) cards = Inr s"
  using projection_round_trip [OF reachable_projectable] reachable_cards by metis

section \<open>Canonical digests\<close>

lemma digest_digit_lower_hex: "list_all digest_digit (lower_hex b)"
proof -
  have "digest_digit (hex_digit n)" if "n < 16" for n
    using that by (simp add: digest_digit_def of_char_hex_digit Let_def)
  then show ?thesis by (simp add: lower_hex_def unat_u8_div_mod)
qed

lemma hex_text: "list_all digest_digit (concat (map lower_hex bs)) \<and> length (concat (map lower_hex bs)) = 2 * length bs"
  by (induction bs) (simp_all add: digest_digit_lower_hex)

text \<open>The parser accepts every digest the log computes. If the hash has its 32 bytes, the text of
  a computed digest is canonical: \<open>sha256:\<close> and 64 lower case hexadecimal digits.\<close>

lemma computed_digest_canonical:
  assumes "\<And>bytes. length (sz_sha256 sz bytes) = 32" and "digest_compute sz p = Inr digest"
  shows "validate_digest (digest_text digest) path context = Inr ()"
proof -
  obtain bytes where "digest = StateDigestV1 (''sha256:'' @ concat (map lower_hex (sz_sha256 sz bytes)))"
    using assms(2) by (auto simp: digest_compute_def and_then_Inr Let_def)
  then show ?thesis
    using hex_text [of "sz_sha256 sz bytes"] assms(1) by (simp add: validate_digest_def Let_def)
qed

section \<open>Failing closed\<close>

definition closed :: "'w recorded_match \<Rightarrow> bool" where
  "closed m \<longleftrightarrow> rm_lifecycle m \<noteq> Active"

lemma try_then_Inl:
  "try_then r f = (Inl e, t) \<longleftrightarrow> r = (Inl e, t) \<or> (\<exists>a s. r = (Inr a, s) \<and> f a s = (Inl e, t))"
  by (cases r; cases "fst r") auto

lemma stop_closed: "stop error m = (Inl e, m') \<Longrightarrow> closed m'"
  by (auto simp: stop_def closed_def)

lemma append_record_closed: "append_record sz ops r m = (Inl e, m') \<Longrightarrow> closed m'"
  by (auto simp: append_record_def split: sum.splits prod.splits dest: stop_closed)

lemma append_records_closed: "append_records sz ops rs m = (Inl e, m') \<Longrightarrow> closed m'"
  by (induction rs arbitrary: m) (auto simp: try_then_Inl dest: append_record_closed)

lemma flush_closed: "flush ops m = (Inl e, m') \<Longrightarrow> closed m'"
  by (auto simp: flush_def split: sum.splits prod.splits dest: stop_closed)

lemma compute_digest_closed: "compute_digest sz p m = (Inl e, m') \<Longrightarrow> closed m'"
  by (auto simp: compute_digest_def split: sum.splits dest: stop_closed)

lemmas write_closed = append_record_closed append_records_closed flush_closed compute_digest_closed

lemma settle_step_closed: "settle_step sz ops events p digest m = (Inl e, m') \<Longrightarrow> closed m'"
  by (auto simp: settle_step_def complete_ended_match_def Let_def closed_def try_then_Inl
      split: sum.splits option.splits game_status.splits dest: write_closed [unfolded closed_def])

lemma submit_closed: "submit sz ops m action = Some (Inl e, m') \<Longrightarrow> closed m'"
  by (auto simp: submit_def submit_with_def ensure_active_def record_accepted_step_def
      record_rejected_step_def Let_def try_then_Inl closed_def
      split: lifecycle.splits sum.splits option.splits prod.splits
      dest: write_closed [unfolded closed_def] settle_step_closed [unfolded closed_def])

text \<open>C23: recording fails closed. Once a submission has answered an error, every later submission
  answers that the recording has stopped, and changes nothing: not the state, not the counters
  and not the writer.\<close>

theorem submit_fails_closed:
  assumes "submit sz ops m action = Some (Inl e, m')"
  shows "\<exists>reason. rm_lifecycle m' = Stopped reason
    \<and> (\<forall>later. submit sz ops m' later = Some (Inl (recording_error.Stopped reason), m'))"
  using submit_closed [OF assms]
  by (cases "rm_lifecycle m'") (auto simp: closed_def submit_def submit_with_def ensure_active_def)

section \<open>When a recording stops\<close>

text \<open>Writing leaves the state alone and can only fail the recording.\<close>

definition undisturbed :: "'w recorded_match \<Rightarrow> 'w recorded_match \<Rightarrow> bool" where
  "undisturbed m m' \<longleftrightarrow> rm_state m' = rm_state m \<and> rm_lifecycle m' \<in> {rm_lifecycle m, Stopped RecordingFailed}"

lemma undisturbed_trans: "undisturbed m m' \<Longrightarrow> undisturbed m' m'' \<Longrightarrow> undisturbed m m''"
  by (auto simp: undisturbed_def)

lemma undisturbed_append_record: "append_record sz ops r m = (x, m') \<Longrightarrow> undisturbed m m'"
  by (auto simp: append_record_def stop_def undisturbed_def split: sum.splits prod.splits)

lemma undisturbed_append_records: "append_records sz ops rs m = (x, m') \<Longrightarrow> undisturbed m m'"
proof (induction rs arbitrary: m)
  case Nil
  then show ?case by (simp add: undisturbed_def)
next
  case (Cons r rs)
  then show ?case
    by (cases "append_record sz ops r m"; cases "fst (append_record sz ops r m)")
      (auto dest: undisturbed_append_record intro: undisturbed_trans)
qed

lemma undisturbed_flush: "flush ops m = (x, m') \<Longrightarrow> undisturbed m m'"
  by (auto simp: flush_def stop_def undisturbed_def split: sum.splits prod.splits)

lemma undisturbed_compute_digest: "compute_digest sz p m = (x, m') \<Longrightarrow> undisturbed m m'"
  by (auto simp: compute_digest_def stop_def undisturbed_def split: sum.splits)

lemmas undisturbed_writes =
  undisturbed_append_record undisturbed_append_records undisturbed_flush undisturbed_compute_digest

text \<open>A recording is in order when its lifecycle tells the status of its match.\<close>

definition in_order :: "'w recorded_match \<Rightarrow> bool" where
  "in_order m \<longleftrightarrow>
     (case rm_lifecycle m of
        Active \<Rightarrow> gs_status (rm_state m) = game_status.Playing
      | Stopped RecordingFailed \<Rightarrow> True
      | Stopped recording_stopped.MatchCompleted \<Rightarrow> (\<exists>outcome. gs_status (rm_state m) = game_status.Ended outcome)
      | Stopped GameBroken \<Rightarrow> (\<exists>breakage. gs_status (rm_state m) = game_status.Broken breakage)
      | Stopped _ \<Rightarrow> False)"

definition writable :: "'w recorded_match \<Rightarrow> bool" where
  "writable m \<longleftrightarrow> rm_lifecycle m \<in> {Active, Stopped RecordingFailed}"

lemma undisturbed_writable: "undisturbed m m' \<Longrightarrow> writable m \<Longrightarrow> writable m'"
  by (auto simp: undisturbed_def writable_def)

lemma failed_in_order: "undisturbed m m' \<Longrightarrow> closed m' \<Longrightarrow> writable m \<Longrightarrow> in_order m'"
  by (auto simp: undisturbed_def writable_def closed_def in_order_def)

text \<open>A chain of writes: it is in order if what follows the first one is.\<close>

lemma try_then_in_order:
  assumes "try_then r f = (x, m')" and "writable m"
    and "\<And>y n. r = (y, n) \<Longrightarrow> undisturbed m n" and "\<And>e n. r = (Inl e, n) \<Longrightarrow> closed n"
    and "\<And>a n. f a n = (x, m') \<Longrightarrow> undisturbed m n \<Longrightarrow> writable n \<Longrightarrow> in_order m'"
  shows "in_order m'"
proof (cases r)
  case (Pair y n)
  have "undisturbed m n" using assms(3) Pair by blast
  with Pair assms show ?thesis
    by (cases y) (auto intro: failed_in_order undisturbed_writable)
qed

lemma complete_in_order:
  assumes "complete_ended_match sz ops outcome p digest m = (x, m')"
    and "gs_status (rm_state m) = game_status.Ended outcome" and "writable m"
  shows "in_order m'"
  using assms(1) unfolding complete_ended_match_def Let_def
proof (rule try_then_in_order [OF _ assms(3)])
  fix n
  assume rest: "try_then (flush ops n) (\<lambda>_ m. (Inr (), m\<lparr>rm_lifecycle := Stopped recording_stopped.MatchCompleted\<rparr>))
      = (x, m')"
    and n: "undisturbed m n" "writable n"
  from rest show "in_order m'"
    by (rule try_then_in_order [OF _ n(2)])
      (use assms(2) n(1) in \<open>auto simp: undisturbed_def in_order_def dest: undisturbed_flush flush_closed\<close>)
qed (auto dest: undisturbed_append_records append_records_closed)

lemma settle_in_order:
  assumes "settle_step sz ops events p digest m = (x, m')"
    and "endings events = status_endings (gs_status (rm_state m))" and "writable m"
  shows "in_order m'"
  using assms(1,3) check_terminal_apply [OF assms(2)]
proof (cases "gs_status (rm_state m)")
  case (Ended outcome)
  with assms(1) check_terminal_apply [OF assms(2)] obtain y where
    "complete_ended_match sz ops outcome p digest m = (y, m')"
    by (cases "complete_ended_match sz ops outcome p digest m";
        cases "fst (complete_ended_match sz ops outcome p digest m)")
      (auto simp: settle_step_def Let_def)
  then show ?thesis using Ended assms(3) by (rule complete_in_order)
qed (auto simp: settle_step_def Let_def in_order_def writable_def)

lemma accepted_in_order:
  assumes "record_accepted_step sz ops step out m = (x, m')"
    and "endings (ao_events out) = status_endings (gs_status (ao_state out))" and "writable m"
  shows "in_order m'"
proof -
  let ?m = "m\<lparr>rm_state := ao_state out\<rparr>"
  have ready: "writable ?m" using assms(3) by (simp add: writable_def)
  show ?thesis
    using assms(1) unfolding record_accepted_step_def Let_def
  proof (rule try_then_in_order [OF _ ready], goal_cases)
    case (3 digest n)
    note n = 3(2,3)
    from 3(1) show ?case
    proof (rule try_then_in_order [OF _ n(2)], goal_cases)
      case (3 _ n2)
      note n2 = 3(2,3)
      from 3(1) show ?case
      proof (rule try_then_in_order [OF _ n2(2)], goal_cases)
        case (3 _ n3)
        have "rm_state n3 = ao_state out" using n n2 3 by (simp add: undisturbed_def)
        with assms(2) 3(3) show ?case
          by (intro settle_in_order [OF 3(1)]) (simp_all add: writable_def)
      qed (auto dest: undisturbed_flush flush_closed)
    qed (auto dest: undisturbed_append_records append_records_closed)
  qed (auto dest: undisturbed_compute_digest compute_digest_closed)
qed

lemma rejected_in_order:
  assumes "record_rejected_step sz ops step error m = (x, m')"
    and "gs_status (rm_state m) = game_status.Playing" and "writable m"
  shows "in_order m'"
  using assms(1) unfolding record_rejected_step_def Let_def
proof (rule try_then_in_order [OF _ assms(3)], goal_cases)
  case (3 digest n)
  note n = 3(2,3)
  from 3(1) show ?case
  proof (rule try_then_in_order [OF _ n(2)], goal_cases)
    case (3 _ n2)
    note n2 = 3(2,3)
    from 3(1) show ?case
    proof (rule try_then_in_order [OF _ n2(2)], goal_cases)
      case (3 _ n3)
      with assms(2) n n2 show ?case by (auto simp: undisturbed_def in_order_def writable_def)
    qed (auto dest: undisturbed_flush flush_closed)
  qed (auto dest: undisturbed_append_record append_record_closed)
qed (auto dest: undisturbed_compute_digest compute_digest_closed)

text \<open>A recording stops exactly when its match does. The lifecycle of a recording in order tells
  the status of its match, and every submission keeps that: as long as it is active the game is
  playing, it is completed only when the game has ended, stopped as broken only when the game is
  broken, and it never reports invalid terminal events: the events of \<open>apply\<close> always hold
  exactly the one \<open>GameEnded\<close> that the next state asks for.\<close>

lemma submit_keeps_order:
  assumes "in_order m" and "submit sz ops m action = Some (r, m')"
  shows "in_order m'"
proof (cases "rm_lifecycle m")
  case (Stopped reason)
  with assms show ?thesis by (simp add: submit_def submit_with_def ensure_active_def)
next
  case Active
  let ?a = "prepare_action (rm_next_sequence m) (rm_next_step m) action"
  have m: "writable m" "gs_status (rm_state m) = game_status.Playing"
    using Active assms(1) by (simp_all add: writable_def in_order_def)
  obtain x m1 where first: "append_record sz ops ?a m = (x, m1)" by fastforce
  note m1 = undisturbed_append_record [OF first]
  show ?thesis
  proof (cases x)
    case (Inl e)
    with assms(2) Active first have "m' = m1"
      by (simp add: submit_def submit_with_def ensure_active_def Let_def)
    with first Inl m1 m show ?thesis by (auto intro: failed_in_order dest: append_record_closed)
  next
    case (Inr u)
    let ?m = "m1\<lparr>rm_next_step := rm_next_step m1 + 1\<rparr>"
    have m2: "writable ?m" "gs_status (rm_state ?m) = game_status.Playing"
      using undisturbed_writable [OF m1 m(1)] m1 m(2) by (simp_all add: writable_def undisturbed_def)
    from assms(2) Active first Inr consider
      error where "record_rejected_step sz ops (rm_next_step m) error ?m = (r, m')"
      | out where "apply_action (rm_state m1) action = Some (Inr out)"
        "record_accepted_step sz ops (rm_next_step m) out ?m = (r, m')"
      by (auto simp: submit_def submit_with_def ensure_active_def Let_def split: option.splits sum.splits)
    then show ?thesis
    proof cases
      case 1
      then show ?thesis using m2 by (intro rejected_in_order)
    next
      case 2
      from accepted_in_order [OF 2(2) apply_announces(1) [OF 2(1)] m2(1)] show ?thesis .
    qed
  qed
qed

end
