(* ===== verification/Serving.thy ===== *)
theory Serving
  imports Server Privacy Log_Safety Reading
begin

text \<open>
  What a session of the server does to the recording and to its clients.
\<close>

section \<open>A submission that succeeds\<close>

lemma kept_lifecycle:
  shows "append_record sz ops r m = (Inr x, m') \<Longrightarrow> rm_lifecycle m' = rm_lifecycle m"
    and "flush ops m = (Inr x, m') \<Longrightarrow> rm_lifecycle m' = rm_lifecycle m"
    and "compute_digest sz p m = (Inr d, m') \<Longrightarrow> rm_lifecycle m' = rm_lifecycle m"
  by (auto simp: append_record_def flush_def compute_digest_def stop_def split: sum.splits prod.splits)

lemma append_records_lifecycle:
  "append_records sz ops rs m = (Inr x, m') \<Longrightarrow> rm_lifecycle m' = rm_lifecycle m"
  by (induction rs arbitrary: m) (auto simp: try_then_Inr dest: kept_lifecycle(1))

lemma settle_lifecycle:
  "settle_step sz ops events p d m = (Inr step, m')
    \<Longrightarrow> rm_lifecycle m' \<in> {rm_lifecycle m, Stopped recording_stopped.MatchCompleted}"
  by (auto simp: settle_step_def complete_ended_match_def Let_def try_then_Inr
      dest!: append_records_lifecycle kept_lifecycle(2) split: sum.splits option.splits game_status.splits)

lemma submit_lifecycle:
  assumes "submit sz ops m action = Some (Inr step, m')"
  shows "rm_lifecycle m' \<in> {Active, Stopped recording_stopped.MatchCompleted}"
proof -
  have active: "rm_lifecycle m = Active"
    using assms by (auto simp: submit_def submit_with_def ensure_active_def split: lifecycle.splits)
  obtain x m1 where m1: "append_record sz ops (prepare_action (rm_next_sequence m) (rm_next_step m) action) m = (Inr x, m1)"
    using assms active by (auto simp: submit_def submit_with_def ensure_active_def Let_def split: prod.splits sum.splits)
  let ?m = "m1\<lparr>rm_next_step := rm_next_step m1 + 1\<rparr>"
  have "rm_lifecycle ?m = Active" using kept_lifecycle(1) [OF m1] active by simp
  moreover obtain out where "record_accepted_step sz ops (rm_next_step m) out ?m = (Inr step, m')
      \<or> (\<exists>e. record_rejected_step sz ops (rm_next_step m) e ?m = (Inr step, m'))"
    using assms active m1
    by (auto simp: submit_def submit_with_def ensure_active_def Let_def split: option.splits sum.splits)
  ultimately show ?thesis
    by (auto simp: record_accepted_step_def record_rejected_step_def Let_def try_then_Inr
        dest!: append_records_lifecycle kept_lifecycle settle_lifecycle)
qed

lemma submit_all_append:
  "submit_all sz ops m (as @ bs) = Option.bind (submit_all sz ops m as) (\<lambda>m. submit_all sz ops m bs)"
  by (induction as arbitrary: m) (auto split: option.splits sum.splits)

section \<open>What a session executes\<close>

text \<open>The action that a submission is admitted for, if it is.\<close>

definition admitted :: "('c, 'w, 'n) session \<Rightarrow> 'c session_event \<Rightarrow> (seat \<times> u64 \<times> game_action) option" where
  "admitted s event =
     (case event of
        session_event.Submit seat request_id based_on_revision action \<Rightarrow>
          (if se_clients s seat \<noteq> None \<and> request_is_next (se_requests s seat) request_id
               \<and> both_seated (se_clients s)
           then
             (case normalize_action (player_id_of_seat seat) action of
                Inr action \<Rightarrow>
                  if accepts_revision (se_revision s) based_on_revision action (gs_status (rm_state (se_recorder s)))
                  then Some (seat, request_id, action) else None
              | Inl _ \<Rightarrow> None)
           else None)
      | _ \<Rightarrow> None)"

fun executed ::
  "('c, 'w, 'n) service \<Rightarrow> 'c session_event list \<Rightarrow> ('c, 'w, 'n) session \<Rightarrow> (seat \<times> u64 \<times> game_action) list" where
  "executed sr [] s = []"
| "executed sr (event # events) s =
     list_of_option (admitted s event)
     @ (case session_step sr event s of Some (Continue s) \<Rightarrow> executed sr events s | _ \<Rightarrow> [])"

definition result_session :: "('c, 'w, 'n) session turn_result \<Rightarrow> ('c, 'w, 'n) session" where
  "result_session r = (case r of Continue s \<Rightarrow> s | Return _ s \<Rightarrow> s)"

lemma result_session_simps [simp]: "result_session (Continue s) = s" "result_session (Return x s) = s"
  by (simp_all add: result_session_def)

lemma se_frame [simp]:
  "result_session (stop_session sr reason x s)
    = s\<lparr>se_network := stop_all (sr_channels sr) (se_clients s) reason (se_network s)\<rparr>"
  by (simp add: stop_session_def)

text \<open>Deliveries change nothing but the network.\<close>

definition same_but_network :: "('c, 'w, 'n) session \<Rightarrow> ('c, 'w, 'n) session \<Rightarrow> bool" where
  "same_but_network s t \<longleftrightarrow>
     se_clients s = se_clients t \<and> se_revision s = se_revision t \<and> se_requests s = se_requests t
     \<and> se_recorder s = se_recorder t"

lemma same_but_network_simps [simp]: "same_but_network s s" "same_but_network s (s\<lparr>se_network := n\<rparr>)"
  by (simp_all add: same_but_network_def)

lemma same_but_network_trans [trans]: "same_but_network s t \<Longrightarrow> same_but_network t u \<Longrightarrow> same_but_network s u"
  by (simp add: same_but_network_def)

lemma deliver_or_return_frame:
  assumes "\<And>n. same_but_network s (result_session (k (s\<lparr>se_network := n\<rparr>)))"
  shows "same_but_network s (result_session (deliver_or_return sr client envelope s k))"
  using assms by (simp add: deliver_or_return_def split: prod.split sum.split)

lemma broadcast_or_stop_frame:
  assumes "\<And>n. same_but_network s (result_session (k (s\<lparr>se_network := n\<rparr>)))"
  shows "same_but_network s (result_session (broadcast_or_stop sr input s k))"
  using assms by (simp add: broadcast_or_stop_def same_but_network_def split: prod.split sum.split)

lemma stop_frame [simp]: "same_but_network s (result_session (stop_session sr reason x s))"
  by (simp add: same_but_network_def)

text \<open>An event for which no action is admitted leaves the recording alone, and request ids never fall.\<close>

definition idle_step :: "('c, 'w, 'n) session \<Rightarrow> ('c, 'w, 'n) session \<Rightarrow> bool" where
  "idle_step s t \<longleftrightarrow>
     se_recorder t = se_recorder s \<and> se_revision t = se_revision s
     \<and> (\<forall>seat. se_requests s seat \<le> se_requests t seat)"

lemma idle_same: "same_but_network s t \<Longrightarrow> idle_step s t"
  by (simp add: same_but_network_def idle_step_def)

lemma idle_trans: "idle_step s t \<Longrightarrow> idle_step t u \<Longrightarrow> idle_step s u"
  by (auto simp: idle_step_def intro: order_trans)

lemma idle_joined: "idle_step s (result_session (on_joined sr seat client s))"
proof -
  have seated: "idle_step s (s\<lparr>se_clients := c, se_network := n\<rparr>)" for c n
    by (simp add: idle_step_def)
  have "idle_step s (result_session (broadcast_or_stop sr input (s\<lparr>se_clients := c, se_network := n\<rparr>) Continue))"
    for input c n
    by (rule idle_trans [OF seated idle_same]) (rule broadcast_or_stop_frame, simp add: same_but_network_def)
  then show ?thesis
    by (auto simp: on_joined_def Let_def seated idle_same idle_step_def split: prod.split sum.split)
qed

lemma idle_submit:
  assumes "admitted s (session_event.Submit seat request_id based_on action) = None"
  shows "\<exists>r. on_submit sr seat request_id based_on action s = Some r \<and> idle_step s (result_session r)"
proof (cases "se_clients s seat")
  case None
  then show ?thesis by (simp add: on_submit_def idle_same)
next
  case (Some client)
  let ?s = "s\<lparr>se_requests := (se_requests s)(seat := request_id)\<rparr>"
  have reply: "idle_step t (result_session (deliver_or_return sr client envelope t Continue))" for t envelope
    by (rule idle_same, rule deliver_or_return_frame) simp
  have "idle_step s (result_session (deliver_or_return sr client envelope ?s Continue))"
    if "request_is_next (se_requests s seat) request_id" for envelope
    by (rule idle_trans [OF _ reply]) (use that in \<open>simp add: idle_step_def request_is_next_def\<close>)
  then show ?thesis
    using assms Some reply
    by (auto simp: on_submit_def admitted_def Let_def split: sum.split protocol_error.split sum.splits if_splits)
qed

lemma idle_event:
  assumes "admitted s event = None"
  shows "\<exists>r. session_step sr event s = Some r \<and> idle_step s (result_session r)"
proof (cases event)
  case (UnsupportedVersion seat request_id)
  then show ?thesis
    by (auto simp: on_unsupported_version_def intro!: idle_same deliver_or_return_frame
        simp: same_but_network_def split: option.split)
next
  case (Interrupted x)
  then show ?thesis by (cases x) (auto intro: idle_same)
qed (use assms idle_submit idle_joined in \<open>auto simp: on_gone_def intro: idle_same\<close>)

lemma normalize_Inr:
  "normalize_action p wire = Inr action \<longleftrightarrow> action_try_of_v1 wire = Inr action \<and> actor action = p"
  by (cases "action_try_of_v1 wire") (auto simp: normalize_action_def)

lemma converted_recordable: "action_try_of_v1 wire = Inr action \<Longrightarrow> recordable action"
  using unsigned_less [where ?'a = nat and w = "n :: u64" for n]
  by (cases wire) (auto simp: and_then_Inr recordable_def usize_try_from)

lemma admitted_Some:
  assumes "admitted s event = Some (seat, request_id, action)"
  obtains client where "se_clients s seat = Some client" "both_seated (se_clients s)"
    "se_requests s seat < request_id" "actor action = player_id_of_seat seat" "recordable action"
    "session_step sr event s
      = record_submission sr seat request_id action (s\<lparr>se_requests := (se_requests s)(seat := request_id)\<rparr>)"
proof -
  obtain based_on wire where event: "event = session_event.Submit seat request_id based_on wire"
    and ok: "normalize_action (player_id_of_seat seat) wire = Inr action"
    using assms by (auto simp: admitted_def split: session_event.splits if_splits sum.splits)
  obtain client where "se_clients s seat = Some client"
    using assms event by (auto simp: admitted_def split: if_splits)
  moreover have "recordable action" "actor action = player_id_of_seat seat"
    using ok by (auto simp: normalize_Inr intro: converted_recordable)
  ultimately show thesis
    using that assms event
    by (auto simp: admitted_def on_submit_def request_is_next_def split: if_splits sum.splits)
qed


lemma record_submission_Some:
  assumes "record_submission sr seat request_id action s = Some r"
  obtains out where
    "submit (sr_serialization sr) (sr_writer sr) (se_recorder s) action = Some (out, se_recorder (result_session r))"
    "se_requests (result_session r) = se_requests s" "se_clients (result_session r) = se_clients s"
    "\<forall>error. out = Inl error \<longrightarrow> (\<exists>t. r = Return (Inl (Recording error)) t)"
    "\<forall>step. out = Inr step \<longrightarrow> se_revision (result_session r) = se_revision s + 1"
proof -
  obtain out recorder where sub:
    "submit (sr_serialization sr) (sr_writer sr) (se_recorder s) action = Some (out, recorder)"
    using assms by (auto simp: record_submission_def split: option.splits)
  show thesis
  proof (cases out)
    case (Inl error)
    with sub assms have "r = stop_session sr ''recording failed'' (Inl (Recording error)) (s\<lparr>se_recorder := recorder\<rparr>)"
      by (simp add: record_submission_def)
    with sub Inl show thesis by (intro that [of out]) (simp_all, simp add: stop_session_def)
  next
    case (Inr step)
    let ?s = "s\<lparr>se_recorder := recorder, se_revision := se_revision s + 1\<rparr>"
    have "\<exists>input k. r = broadcast_or_stop sr input ?s k \<and> (\<forall>n. same_but_network ?s (result_session (k (?s\<lparr>se_network := n\<rparr>))))"
      using sub assms Inr by (force simp: record_submission_def Let_def split: recorded_step.splits)
    then have "same_but_network ?s (result_session r)" using broadcast_or_stop_frame by blast
    with sub Inr show thesis by (intro that [of out]) (simp_all add: same_but_network_def)
  qed
qed

section \<open>Whole sessions\<close>

definition ids_of :: "seat \<Rightarrow> (seat \<times> u64 \<times> game_action) list \<Rightarrow> u64 list" where
  "ids_of seat xs = map (\<lambda>(_, request_id, _). request_id) (filter (\<lambda>(owner, _). owner = seat) xs)"

lemma ids_of_simps [simp]:
  "ids_of seat [] = []"
  "ids_of seat ((owner, request_id, action) # xs) =
     (if owner = seat then request_id # ids_of seat xs else ids_of seat xs)"
  by (simp_all add: ids_of_def)

text \<open>The ids executed for a seat climb, from above the last one it has seen.\<close>

definition ids_climb :: "('c, 'w, 'n) session \<Rightarrow> (seat \<times> u64 \<times> game_action) list \<Rightarrow> bool" where
  "ids_climb s xs \<longleftrightarrow> (\<forall>seat. sorted_wrt (<) (ids_of seat xs) \<and> (\<forall>i \<in> set (ids_of seat xs). se_requests s seat < i))"

lemma ids_climb_idle: "idle_step s t \<Longrightarrow> ids_climb t xs \<Longrightarrow> ids_climb s xs"
  unfolding ids_climb_def idle_step_def by (meson order_le_less_trans)

definition own_actions :: "(seat \<times> u64 \<times> game_action) list \<Rightarrow> bool" where
  "own_actions xs \<longleftrightarrow> (\<forall>(seat, _, action) \<in> set xs. actor action = player_id_of_seat seat \<and> recordable action)"

lemma no_ids [simp]: "ids_climb s []" "own_actions []"
  by (simp_all add: ids_climb_def own_actions_def)

lemma ids_climb_Cons:
  assumes "ids_climb t xs" "se_requests t = (se_requests s)(seat := request_id)" "se_requests s seat < request_id"
  shows "ids_climb s ((seat, request_id, action) # xs)"
  unfolding ids_climb_def
proof
  fix owner
  have climb: "sorted_wrt (<) (ids_of owner xs)" "\<forall>i \<in> set (ids_of owner xs). se_requests t owner < i"
    using assms(1) by (simp_all add: ids_climb_def)
  show "sorted_wrt (<) (ids_of owner ((seat, request_id, action) # xs))
      \<and> (\<forall>i \<in> set (ids_of owner ((seat, request_id, action) # xs)). se_requests s owner < i)"
  proof (cases "owner = seat")
    case True
    then show ?thesis using climb assms(2,3) by (auto intro: less_trans)
  next
    case False
    then show ?thesis using climb assms(2) by simp
  qed
qed

lemma own_actions_Cons: "own_actions ((seat, request_id, action) # xs) \<longleftrightarrow>
    actor action = player_id_of_seat seat \<and> recordable action \<and> own_actions xs"
  by (simp add: own_actions_def)

lemma executed_climb: "ids_climb s (executed sr events s) \<and> own_actions (executed sr events s)"
proof (induction events arbitrary: s)
  case Nil
  then show ?case by simp
next
  case (Cons event events)
  show ?case
  proof (cases "admitted s event")
    case None
    then obtain r where "session_step sr event s = Some r" "idle_step s (result_session r)"
      using idle_event by metis
    then show ?thesis
      using Cons.IH ids_climb_idle None by (cases r) auto
  next
    case (Some x)
    obtain seat request_id action where x: "x = (seat, request_id, action)" by (cases x)
    obtain client where *: "se_requests s seat < request_id" "actor action = player_id_of_seat seat" "recordable action"
      and step: "session_step sr event s
        = record_submission sr seat request_id action (s\<lparr>se_requests := (se_requests s)(seat := request_id)\<rparr>)"
      using admitted_Some [OF Some [unfolded x]] by metis
    show ?thesis
    proof (cases "\<exists>t. session_step sr event s = Some (Continue t)")
      case True
      then obtain t where t: "session_step sr event s = Some (Continue t)" by blast
      have "se_requests t = (se_requests s)(seat := request_id)"
        by (rule record_submission_Some [OF t [unfolded step]]) simp
      then show ?thesis
        using Cons.IH [of t] * by (auto simp: t Some x own_actions_Cons intro: ids_climb_Cons)
    next
      case False
      then have "executed sr (event # events) s = [(seat, request_id, action)]"
        by (auto simp: Some x split: option.split turn_result.split)
      moreover have "ids_climb s [(seat, request_id, action)]"
        by (rule ids_climb_Cons [OF no_ids(1), where t = "s\<lparr>se_requests := (se_requests s)(seat := request_id)\<rparr>"])
          (use * in simp_all)
      ultimately show ?thesis using * by (simp add: own_actions_Cons)
    qed
  qed
qed


definition recording_failed :: "('c, 'w, 'n) session turn_result \<Rightarrow> bool" where
  "recording_failed r \<longleftrightarrow> (\<exists>error s. r = Return (Inl (Recording error)) s)"

definition actions_of :: "(seat \<times> u64 \<times> game_action) list \<Rightarrow> game_action list" where
  "actions_of xs = map (\<lambda>(_, _, action). action) xs"

lemma actions_of_simps [simp]:
  "actions_of [] = []" "actions_of ((seat, request_id, action) # xs) = action # actions_of xs"
  by (simp_all add: actions_of_def)

lemma serve_records:
  assumes "serve_session sr events s = Some r" and "\<not> recording_failed r"
  shows "submit_all (sr_serialization sr) (sr_writer sr) (se_recorder s) (actions_of (executed sr events s))
    = Some (se_recorder (result_session r))"
  using assms
proof (induction events arbitrary: s)
  case (Cons event events)
  then obtain r1 where r1: "session_step sr event s = Some r1" by (auto split: option.splits)
  show ?case
  proof (cases "admitted s event")
    case None
    then have "se_recorder (result_session r1) = se_recorder s"
      using idle_event [OF None, of sr] r1 by (auto simp: idle_step_def)
    then show ?thesis
      using Cons.prems r1 None Cons.IH [of "result_session r1"] by (cases r1) auto
  next
    case (Some x)
    obtain seat request_id action where x: "x = (seat, request_id, action)" by (cases x)
    have step: "record_submission sr seat request_id action (s\<lparr>se_requests := (se_requests s)(seat := request_id)\<rparr>) = Some r1"
      using admitted_Some [OF Some [unfolded x], of sr] r1 by metis
    then obtain out where
      out: "submit (sr_serialization sr) (sr_writer sr) (se_recorder s) action = Some (out, se_recorder (result_session r1))"
      and failed: "\<forall>error. out = Inl error \<longrightarrow> (\<exists>t. r1 = Return (Inl (Recording error)) t)"
      by (rule record_submission_Some) simp
    obtain y where "out = Inr y"
    proof (cases out)
      case (Inl error)
      then obtain t where "r1 = Return (Inl (Recording error)) t" using failed by blast
      then show thesis using Cons.prems r1 by (auto simp: recording_failed_def)
    qed (rule that)
    then show ?thesis
      using Cons.prems r1 Some x out Cons.IH [of "result_session r1"] by (cases r1) auto
  qed
qed auto

text \<open>C7: what a session does to the recording. Over any events, on any network, the recording is what
  submitting the executed actions one by one makes of it; each of them is an action of the player
  whose seat it came from; and the request ids executed for a seat strictly increase, so that no
  request is ever executed twice.\<close>
theorem session_executes_once:
  assumes "serve_session sr events (session_start m n) = Some r" and "\<not> recording_failed r"
  shows "submit_all (sr_serialization sr) (sr_writer sr) m (actions_of (executed sr events (session_start m n)))
      = Some (se_recorder (result_session r))
    \<and> (\<forall>(seat, request_id, action) \<in> set (executed sr events (session_start m n)).
        actor action = player_id_of_seat seat)
    \<and> (\<forall>seat. sorted_wrt (<) (ids_of seat (executed sr events (session_start m n))))"
  using serve_records [OF assms] executed_climb [of "session_start m n" sr events]
  by (auto simp: session_start_def ids_climb_def own_actions_def)


section \<open>The transcript of a finished session\<close>

lemma start_in_order:
  assumes "record_start sz ops w metadata sets s = Inr m"
  shows "in_order m" and "rm_lifecycle m = Active"
proof -
  from assms obtain n where "gs_status s = game_status.Playing"
    and "m = \<lparr>rm_writer = n, rm_state = s, rm_next_sequence = 2, rm_next_step = 1,
      rm_total_events = 0, rm_lifecycle = Active\<rparr>"
    by (auto simp: record_start_def and_then_Inr map_err_def check_initial_status_def prepare_start_def
        Let_def try_then_def split: sum.splits prod.splits game_status.splits)
  then show "in_order m" and "rm_lifecycle m = Active" by (simp_all add: in_order_def)
qed

lemma submit_all_in_order:
  "submit_all sz ops m actions = Some m' \<Longrightarrow> in_order m
    \<Longrightarrow> rm_lifecycle m \<in> {Active, Stopped recording_stopped.MatchCompleted}
    \<Longrightarrow> in_order m' \<and> rm_lifecycle m' \<in> {Active, Stopped recording_stopped.MatchCompleted}"
proof (induction actions arbitrary: m)
  case (Cons action actions)
  then obtain step m1 where "submit sz ops m action = Some (Inr step, m1)" "submit_all sz ops m1 actions = Some m'"
    by (auto split: option.splits sum.splits)
  then show ?case
    using Cons.IH [of m1] Cons.prems(2) submit_lifecycle submit_keeps_order by blast
qed simp

lemma finished_recording_verifies:
  assumes "\<And>w bytes w'. wr_write_all (sr_writer sr) w bytes = (Inr (), w') \<Longrightarrow> contents w' = contents w @ bytes"
    and "\<And>w w'. wr_flush (sr_writer sr) w = (Inr (), w') \<Longrightarrow> contents w' = contents w"
    and "contents w = []"
    and "record_start (sr_serialization sr) (sr_writer sr) w metadata sets s = Inr m"
    and "projectable s" and "requirements_met revisions sets"
    and "serve_session sr events (session_start m n) = Some r" and "\<not> recording_failed r"
    and "gs_status (rm_state (se_recorder (result_session r))) = game_status.Ended outcome"
  shows "\<exists>t ls. try_map (encode_record (sr_serialization sr)) (records_in t) = Inr ls
    \<and> contents (rm_writer (se_recorder (result_session r))) = concat ls
    \<and> verify_parsed_transcript (sr_serialization sr) revisions (gs_cards s) t = Some (Inr ())
    \<and> mc1_required_sets (tv_match_created t) = sets
    \<and> ((\<forall>r \<in> set (records_in t). reads_back (sr_serialization sr) jd r) \<longrightarrow>
         verify_transcript (sr_serialization sr) slice_read_until jd revisions (gs_cards s)
           (contents (rm_writer (se_recorder (result_session r)))) = Some (Inr ()))"
proof -
  let ?xs = "executed sr events (session_start m n)" and ?m = "se_recorder (result_session r)"
  have all: "submit_all (sr_serialization sr) (sr_writer sr) m (actions_of ?xs) = Some ?m"
    using serve_records [OF assms(7,8)] by (simp add: session_start_def)
  moreover have "\<forall>action \<in> set (actions_of ?xs). recordable action"
    using executed_climb [of "session_start m n" sr events] by (auto simp: own_actions_def actions_of_def)
  moreover have "rm_lifecycle ?m = Stopped recording_stopped.MatchCompleted"
    using submit_all_in_order [OF all] start_in_order [OF assms(4)] assms(9) by (auto simp: in_order_def)
  ultimately show ?thesis
    using recorded_verifies [where contents = contents and ops = "sr_writer sr" and jd = jd, OF assms(1-4)]
      assms(5,6) by blast
qed

section \<open>What a broadcast tells a player\<close>

text \<open>C8: no message to a player depends on what is hidden from the player. If two matches differ only
  in hidden cards (the Decks, the Prizes and the opponent's hand, whose sizes agree), in drawn or
  revealed cards of the opponent, in the identity of cards that the player is not shown, and in what
  the other seat is answered, then the player is sent the same message.\<close>
theorem broadcast_private:
  assumes "looks_alike (player_id_of_seat v) (bc_state i) (bc_state j)"
    and "map (redact (player_id_of_seat v)) (bc_events i) = map (redact (player_id_of_seat v)) (bc_events j)"
    and "\<forall>e \<in> set (bc_events i). \<forall>c \<in> named (player_id_of_seat v) e.
      card_name_in (bc_identities i) c = card_name_in (bc_identities j) c"
    and "bc_descriptions i = bc_descriptions j" and "bc_revision i = bc_revision j"
    and "bc_requester i = Some v \<longleftrightarrow> bc_requester j = Some v"
    and "bc_requester i = Some v \<Longrightarrow> bc_reply i = bc_reply j \<and> bc_result i = bc_result j"
  shows "broadcast_envelope i v = broadcast_envelope j v"
  using view_alike [OF assms(1)] notices_alike [OF assms(2,3)] assms(4-7)
  by (simp add: broadcast_envelope_def Let_def split: option.split)

end
