(* ===== verification/Compare.thy ===== *)
theory Compare
  imports Decode Ordered_Map
begin

text \<open>
  \<open>crates/match-log/src/compare.rs\<close>: the semantic comparison of two transcripts. The records of both
  are read back as ordered values and compared pairwise, down to the first difference. What
  serde_json does is a parameter, the fields of \<open>value_codec\<close>: the bytes of a record (or the text of
  the error), the JSON tree it reads from bytes, and the text of an error that a visitor raises.
  A \<open>RecordValue\<close> is the record it refers to.
\<close>

section \<open>Ordered values\<close>

datatype ordered_value =
  Null
| Bool bool
| Number json_number
| String string
| Sequence "ordered_value list"
| Mapping "(string \<times> ordered_value) list"

text \<open>What a self-describing reader hands to a visitor: one call, or its elements or entries in
  order. An integer or a float is its 64 bits.\<close>

datatype visited =
  VisitUnit
| VisitBool bool
| VisitI64 u64
| VisitU64 u64
| VisitF64 u64
| VisitStr string
| VisitSeq "visited list"
| VisitMap "(string \<times> visited) list"

record value_codec =
  vc_bytes :: "record_v1 \<Rightarrow> string + u8 list"
  vc_read :: "u8 list \<Rightarrow> string + visited"
  vc_custom :: "string \<Rightarrow> string"

definition finite_bits :: "u64 \<Rightarrow> bool" where
  "finite_bits b \<longleftrightarrow> (uint b div 2 ^ 52) mod 2 ^ 11 \<noteq> 2047"

lemma try_map_cong [fundef_cong]:
  "xs = ys \<Longrightarrow> (\<And>x. x \<in> set ys \<Longrightarrow> f x = g x) \<Longrightarrow> try_map f xs = try_map g ys"
  by (induction xs arbitrary: ys) auto

fun visit_value :: "visited \<Rightarrow> string + ordered_value" where
  "visit_value VisitUnit = Inr Null"
| "visit_value (VisitBool b) = Inr (Bool b)"
| "visit_value (VisitI64 n) = Inr (Number (if sint n < 0 then NegInt n else PosInt n))"
| "visit_value (VisitU64 n) = Inr (Number (PosInt n))"
| "visit_value (VisitF64 b) =
     (if finite_bits b then Inr (Number (Float b)) else Inl ''a non-finite number is not a JSON value'')"
| "visit_value (VisitStr t) = Inr (String t)"
| "visit_value (VisitSeq vs) = and_then (try_map visit_value vs) (\<lambda>vs. Inr (Sequence vs))"
| "visit_value (VisitMap es) =
     and_then (try_map (\<lambda>(name, v). and_then (visit_value v) (\<lambda>v. Inr (name, v))) es) (\<lambda>es. Inr (Mapping es))"

fun remove_mapping_field :: "ordered_value \<Rightarrow> string \<Rightarrow> ordered_value" where
  "remove_mapping_field (Mapping es) field = Mapping (filter (\<lambda>(name, _). name \<noteq> field) es)"
| "remove_mapping_field v field = v"

fun into_json :: "ordered_value \<Rightarrow> json_value" where
  "into_json Null = json_value.Null"
| "into_json (Bool b) = json_value.Bool b"
| "into_json (Number n) = json_value.Number n"
| "into_json (String t) = json_value.String t"
| "into_json (Sequence vs) = Array (map into_json vs)"
| "into_json (Mapping es) = Object (btree_collect (map (\<lambda>(name, v). (name, into_json v)) es))"

section \<open>The first difference of two values\<close>

record value_difference =
  vd_path :: string
  vd_expected :: "json_value option"
  vd_actual :: "json_value option"

text \<open>Equality of numbers compares floats as floats: the two zeros are equal. Two values of which at
  most one is a container of a kind are compared here.\<close>

definition number_eq :: "json_number \<Rightarrow> json_number \<Rightarrow> bool" where
  "number_eq m n \<longleftrightarrow> m = n \<or> (\<exists>a b. m = Float a \<and> n = Float b \<and> {a, b} \<subseteq> {0, 0x8000000000000000})"

fun scalar_eq :: "ordered_value \<Rightarrow> ordered_value \<Rightarrow> bool" where
  "scalar_eq Null Null = True"
| "scalar_eq (Bool a) (Bool b) = (a = b)"
| "scalar_eq (Number a) (Number b) = number_eq a b"
| "scalar_eq (String a) (String b) = (a = b)"
| "scalar_eq _ _ = False"

lemma find_map_cong [fundef_cong]:
  "xs = ys \<Longrightarrow> (\<And>x. x \<in> set ys \<Longrightarrow> f x = g x) \<Longrightarrow> find_map f xs = find_map g ys"
  by (induction xs arbitrary: ys) (auto split: option.splits)

text \<open>A field of the actual value that the expected one does not have.\<close>

definition missing_field ::
  "(string \<times> ordered_value) list \<Rightarrow> string \<Rightarrow> string \<times> ordered_value \<Rightarrow> value_difference option" where
  "missing_field xs path entry =
     (case entry of (name, v) \<Rightarrow>
        if list_all (\<lambda>(expected_name, _). expected_name \<noteq> name) xs
        then Some \<lparr>vd_path = join_path path name, vd_expected = None, vd_actual = Some (into_json v)\<rparr>
        else None)"

function first_value_difference ::
  "ordered_value option \<Rightarrow> ordered_value option \<Rightarrow> string \<Rightarrow> value_difference option" where
  "first_value_difference expected actual path =
     (case (expected, actual) of
        (Some (Sequence xs), Some (Sequence ys)) \<Rightarrow>
          find_map (\<lambda>index. first_value_difference (nth_of xs index) (nth_of ys index) (index_path path index))
            [0..<max (length xs) (length ys)]
      | (Some (Mapping xs), Some (Mapping ys)) \<Rightarrow>
          (case find_map (\<lambda>(name, v).
                  first_value_difference (Some v) (map_of ys name) (join_path path name)) xs of
             Some difference \<Rightarrow> Some difference
           | None \<Rightarrow> find_map (missing_field xs path) ys)
      | _ \<Rightarrow>
          if (case (expected, actual) of (Some v, Some w) \<Rightarrow> scalar_eq v w | _ \<Rightarrow> False) then None
          else Some \<lparr>vd_path = path, vd_expected = map_option into_json expected,
            vd_actual = map_option into_json actual\<rparr>)"
  by pat_completeness auto

lemma nth_of_size: "size_option size (nth_of xs i) \<le> Suc (size_list size xs)"
proof (cases "i < length xs")
  case True
  then have "xs ! i \<in> set xs" by simp
  then have "size (xs ! i) \<le> size_list size xs" by (rule size_list_estimation') simp
  with True show ?thesis by (simp add: nth_of_def)
qed (simp add: nth_of_def)

lemma member_size: "(name, v) \<in> set xs \<Longrightarrow> size v \<le> size_list (size_prod (\<lambda>_. 0) size) xs"
  by (induction xs) auto

lemma map_of_size: "size_option size (map_of xs name) \<le> Suc (size_list (size_prod (\<lambda>_. 0) size) xs)"
  by (induction xs) auto

lemma element_sizes:
  "size_option size (nth_of xs i) + size_option size (nth_of ys i)
    < size_option size (Some (Sequence xs)) + size_option size (Some (Sequence ys))"
  using nth_of_size [of xs i] nth_of_size [of ys i] by simp

lemma entry_sizes:
  "(name, v) \<in> set xs \<Longrightarrow> size_option size (Some v) + size_option size (map_of ys name)
    < size_option size (Some (Mapping xs)) + size_option size (Some (Mapping ys))"
  using member_size [of name v xs] map_of_size [of ys name] by simp

termination first_value_difference
proof (relation "measure (\<lambda>(e, a, _). size_option size e + size_option size a)", goal_cases)
  case 1
  then show ?case by simp
next
  case 2
  then show ?case by (auto simp del: option.size prod.size simp: element_sizes)
next
  case 3
  then show ?case by (auto simp del: option.size simp: entry_sizes)
qed

declare first_value_difference.simps [simp del]

section \<open>Records\<close>

record comparison_options =
  co_include_header_metadata :: bool

record transcript_difference =
  td_sequence :: u64
  td_step :: "u64 option"
  td_event_index :: "u64 option"
  td_path :: string
  td_expected :: "json_value option"
  td_actual :: "json_value option"

datatype transcript_comparison = Equal | Different transcript_difference

datatype transcript_comparison_error =
  ExpectedParse parse_error
| ActualParse parse_error
| ValueEncoding string

record record_view =
  rv_sequence :: u64
  rv_step :: "u64 option"
  rv_event_index :: "u64 option"
  rv_path :: string
  rv_value :: record_v1

definition ordered_value_of ::
  "value_codec \<Rightarrow> record_v1 \<Rightarrow> transcript_comparison_error + ordered_value" where
  "ordered_value_of vc r =
     and_then (map_err ValueEncoding (vc_bytes vc r)) (\<lambda>bytes.
     and_then (map_err ValueEncoding (vc_read vc bytes)) (\<lambda>v.
     map_err (\<lambda>message. ValueEncoding (vc_custom vc message)) (visit_value v)))"

definition is_header :: "record_v1 \<Rightarrow> bool" where
  "is_header r \<longleftrightarrow> (case r of record_v1.Header _ \<Rightarrow> True | _ \<Rightarrow> False)"

definition view_value ::
  "value_codec \<Rightarrow> comparison_options \<Rightarrow> record_view \<Rightarrow> transcript_comparison_error + ordered_value" where
  "view_value vc options view =
     and_then (ordered_value_of vc (rv_value view)) (\<lambda>v.
     Inr (if \<not> co_include_header_metadata options \<and> is_header (rv_value view)
          then remove_mapping_field v ''metadata'' else v))"

definition plain_view :: "u64 \<Rightarrow> u64 option \<Rightarrow> string \<Rightarrow> record_v1 \<Rightarrow> record_view" where
  "plain_view sequence step path r =
     \<lparr>rv_sequence = sequence, rv_step = step, rv_event_index = None, rv_path = path, rv_value = r\<rparr>"

definition event_view :: "string \<Rightarrow> nat \<times> event_record_v1 \<Rightarrow> record_view" where
  "event_view path entry =
     (let (event_position, event) = entry in
      \<lparr>rv_sequence = er1_sequence event, rv_step = Some (er1_step event),
       rv_event_index = Some (er1_index event),
       rv_path = index_path (path @ ''.result.events'') event_position, rv_value = record_v1.Event event\<rparr>)"

definition step_views :: "nat \<times> transcript_step_v1 \<Rightarrow> record_view list" where
  "step_views entry =
     (let (step_index, step) = entry; path = index_path ''steps'' step_index in
      plain_view (ar1_sequence (tt_action step)) (Some (ar1_step (tt_action step))) (path @ ''.action'')
        (record_v1.Action (tt_action step))
      # (case tt_result step of
           transcript_step_result_v1.Accepted events completion \<Rightarrow>
             map (event_view path) (enumerate 0 events)
             @ [plain_view (sc1_sequence completion) (Some (sc1_step completion))
                  (path @ ''.result.completion'') (record_v1.StepCompleted completion)]
         | transcript_step_result_v1.Rejected rejection \<Rightarrow>
             [plain_view (sr1_sequence rejection) (Some (sr1_step rejection))
                (path @ ''.result.rejection'') (record_v1.StepRejected rejection)]))"

definition transcript_records :: "transcript_v1 \<Rightarrow> record_view list" where
  "transcript_records t =
     [plain_view (hd1_sequence (tv_header t)) None ''header'' (record_v1.Header (tv_header t)),
      plain_view (mc1_sequence (tv_match_created t)) None ''match_created''
        (record_v1.MatchCreated (tv_match_created t))]
     @ concat (map step_views (enumerate 0 (tv_steps t)))
     @ [plain_view (fs1_sequence (tv_final_state t)) None ''final_state''
          (record_v1.FinalState (tv_final_state t)),
        plain_view (md1_sequence (tv_match_completed t)) None ''match_completed''
          (record_v1.MatchCompleted (tv_match_completed t))]"

section \<open>The comparison\<close>

definition option_or :: "'a option \<Rightarrow> 'a option \<Rightarrow> 'a option" where
  "option_or a b = (case a of Some x \<Rightarrow> Some x | None \<Rightarrow> b)"

definition record_difference ::
  "record_view \<Rightarrow> record_view \<Rightarrow> value_difference \<Rightarrow> transcript_difference" where
  "record_difference expected actual difference =
     \<lparr>td_sequence = min (rv_sequence expected) (rv_sequence actual),
      td_step = option_or (rv_step expected) (rv_step actual),
      td_event_index = option_or (rv_event_index expected) (rv_event_index actual),
      td_path = vd_path difference, td_expected = vd_expected difference, td_actual = vd_actual difference\<rparr>"

fun compare_pairs ::
  "value_codec \<Rightarrow> comparison_options \<Rightarrow> (record_view \<times> record_view) list
    \<Rightarrow> transcript_comparison_error + transcript_difference option" where
  "compare_pairs vc options [] = Inr None"
| "compare_pairs vc options ((expected, actual) # rest) =
     and_then (view_value vc options expected) (\<lambda>v.
     and_then (view_value vc options actual) (\<lambda>w.
     case first_value_difference (Some v) (Some w) (rv_path expected) of
       Some difference \<Rightarrow> Inr (Some (record_difference expected actual difference))
     | None \<Rightarrow> compare_pairs vc options rest))"

definition compare_lengths ::
  "value_codec \<Rightarrow> comparison_options \<Rightarrow> record_view list \<Rightarrow> record_view list
    \<Rightarrow> transcript_comparison_error + transcript_comparison" where
  "compare_lengths vc options expected_records actual_records =
     (case (nth_of expected_records (length actual_records), nth_of actual_records (length expected_records)) of
        (None, None) \<Rightarrow> Inr Equal
      | (expected, actual) \<Rightarrow>
          and_then (ok_or (ValueEncoding ''a transcript length difference had no record context'')
            (option_or expected actual)) (\<lambda>context.
          and_then (try_option (view_value vc options) expected) (\<lambda>v.
          and_then (try_option (view_value vc options) actual) (\<lambda>w.
          Inr (Different (record_difference
            (case expected of Some r \<Rightarrow> r | None \<Rightarrow> context)
            (case actual of Some r \<Rightarrow> r | None \<Rightarrow> context)
            \<lparr>vd_path = rv_path context, vd_expected = map_option into_json v,
             vd_actual = map_option into_json w\<rparr>))))))"

definition compare_parsed_transcripts ::
  "value_codec \<Rightarrow> transcript_v1 \<Rightarrow> transcript_v1 \<Rightarrow> comparison_options
    \<Rightarrow> transcript_comparison_error + transcript_comparison" where
  "compare_parsed_transcripts vc expected actual options =
     (let expected_records = transcript_records expected; actual_records = transcript_records actual in
      and_then (compare_pairs vc options (zip expected_records actual_records)) (\<lambda>found.
      case found of
        Some difference \<Rightarrow> Inr (Different difference)
      | None \<Rightarrow> compare_lengths vc options expected_records actual_records))"

definition compare_transcripts ::
  "value_codec \<Rightarrow> serialization \<Rightarrow> 'r reader \<Rightarrow> decoders \<Rightarrow> 'r \<Rightarrow> 'r \<Rightarrow> comparison_options
    \<Rightarrow> (transcript_comparison_error + transcript_comparison) option" where
  "compare_transcripts vc sz read_until jd expected actual options =
     (case parse_reader sz read_until jd expected of
        None \<Rightarrow> None
      | Some (Inl error) \<Rightarrow> Some (Inl (ExpectedParse error))
      | Some (Inr expected) \<Rightarrow>
          (case parse_reader sz read_until jd actual of
             None \<Rightarrow> None
           | Some (Inl error) \<Rightarrow> Some (Inl (ActualParse error))
           | Some (Inr actual) \<Rightarrow> Some (compare_parsed_transcripts vc expected actual options)))"

end
