(* ===== verification/Log_Text.thy ===== *)
theory Log_Text
  imports Protocol Replay Compare
begin

text \<open>
  The texts of the match log's errors: \<open>impl Display\<close> of \<open>error.rs\<close>, \<open>parse_error.rs\<close>, \<open>replay.rs\<close> and
  \<open>compare.rs\<close>. Those of the conversions are in \<open>Protocol\<close>, which sends them to clients.
\<close>

section \<open>Recording\<close>

fun terminal_event_text :: "terminal_event_error \<Rightarrow> string" where
  "terminal_event_text terminal_event_error.MissingGameEnded = ''the terminal step has no GameEnded event''"
| "terminal_event_text terminal_event_error.MultipleGameEnded = ''the terminal step has multiple GameEnded events''"
| "terminal_event_text terminal_event_error.UnexpectedGameEnded = ''a playing step has a GameEnded event''"
| "terminal_event_text terminal_event_error.OutcomeMismatch = ''the GameEnded event does not match the final state''"

fun canonical_state_text :: "canonical_state_error \<Rightarrow> string" where
  "canonical_state_text (CanonicalStateError source) = ''canonical state encoding failed: '' @ source"

fun encode_text :: "encode_error \<Rightarrow> string" where
  "encode_text (EncodeError source) = ''record encoding failed: '' @ source"

fun recording_stopped_text :: "recording_stopped \<Rightarrow> string" where
  "recording_stopped_text recording_stopped.MatchCompleted = ''the match recording is complete''"
| "recording_stopped_text recording_stopped.RecordingFailed = ''the match recording previously failed''"
| "recording_stopped_text recording_stopped.GameAlreadyEnded = ''the game is already ended''"
| "recording_stopped_text recording_stopped.GameBroken = ''the game entered a broken state''"
| "recording_stopped_text (recording_stopped.InvalidTerminalEvents error) = terminal_event_text error"

fun recording_text :: "recording_error \<Rightarrow> string" where
  "recording_text (recording_error.CanonicalState error) = canonical_state_text error"
| "recording_text (recording_error.Encode error) = encode_text error"
| "recording_text (recording_error.Write error) = ''record write failed: '' @ error"
| "recording_text (recording_error.Flush error) = ''record flush failed: '' @ error"
| "recording_text (recording_error.Stopped error) = recording_stopped_text error"

section \<open>Parsing\<close>

definition expected_found :: "string \<Rightarrow> u64 \<Rightarrow> u64 \<Rightarrow> string" where
  "expected_found what expected found =
     ''expected '' @ what @ '' '' @ number_text expected @ '', found '' @ number_text found"

fun lifecycle_text :: "lifecycle_error \<Rightarrow> string" where
  "lifecycle_text (lifecycle_error.UnexpectedRecord expected found) = ''expected '' @ expected @ '', found '' @ found"
| "lifecycle_text (lifecycle_error.Sequence expected found) = expected_found ''sequence'' expected found"
| "lifecycle_text (lifecycle_error.Step expected found) = expected_found ''step'' expected found"
| "lifecycle_text (lifecycle_error.EventIndex expected found) = expected_found ''event index'' expected found"
| "lifecycle_text (lifecycle_error.EventCount expected found) = expected_found ''event count'' expected found"
| "lifecycle_text lifecycle_error.EventWithoutAction = ''an event has no preceding action''"
| "lifecycle_text lifecycle_error.ActionBeforeStepResult = ''an action appears before the prior step result''"
| "lifecycle_text lifecycle_error.RejectedStepHasEvents = ''a rejected step has events''"
| "lifecycle_text lifecycle_error.RejectedDigestMismatch = ''a rejected step changed the authoritative digest''"
| "lifecycle_text lifecycle_error.InitialStateDigestMismatch = ''the initial state digest does not match the initial state''"
| "lifecycle_text lifecycle_error.InvalidInitialStatus = ''the initial state is not playing''"
| "lifecycle_text lifecycle_error.MissingGameEnded = ''the transcript has no GameEnded event''"
| "lifecycle_text lifecycle_error.MultipleGameEnded = ''the transcript has more than one GameEnded event''"
| "lifecycle_text lifecycle_error.RecordAfterTerminalStep = ''a record appears after the terminal accepted step''"
| "lifecycle_text lifecycle_error.FinalStateDigestMismatch = ''the final state digest is inconsistent''"
| "lifecycle_text lifecycle_error.FinalStateNotEnded = ''the final state is not ended''"
| "lifecycle_text lifecycle_error.OutcomeMismatch = ''the recorded outcomes do not match''"
| "lifecycle_text (lifecycle_error.CompletionStepCount expected found) = expected_found ''completion step count'' expected found"
| "lifecycle_text (lifecycle_error.CompletionEventCount expected found) = expected_found ''completion event count'' expected found"
| "lifecycle_text lifecycle_error.CompletionDigestMismatch = ''the completion digest does not match the final state''"
| "lifecycle_text lifecycle_error.RecordAfterCompletion = ''a record appears after match completion''"
| "lifecycle_text (lifecycle_error.Incomplete expected) = ''the transcript ended before '' @ expected"

fun parse_error_kind_text :: "parse_error_kind \<Rightarrow> string" where
  "parse_error_kind_text (parse_error_kind.Read message) = ''transcript read failed: '' @ message"
| "parse_error_kind_text parse_error_kind.InvalidUtf8 = ''the record is not valid UTF-8''"
| "parse_error_kind_text (parse_error_kind.MalformedJson message) = ''malformed JSON: '' @ message"
| "parse_error_kind_text (parse_error_kind.InvalidRecord message) = ''invalid record: '' @ message"
| "parse_error_kind_text (parse_error_kind.InvalidEntityId v) = ''entity ID is not canonical UUID text: '' @ v"
| "parse_error_kind_text (parse_error_kind.InvalidStateDigest v) = ''state digest is not canonical SHA-256 text: '' @ v"
| "parse_error_kind_text (parse_error_kind.UnsupportedFormat found) = ''unsupported transcript format: '' @ found"
| "parse_error_kind_text (parse_error_kind.UnsupportedVersion found) = ''unsupported transcript version: '' @ number_text found"
| "parse_error_kind_text (parse_error_kind.Lifecycle error) = lifecycle_text error"

definition context_parts :: "parse_context \<Rightarrow> string list" where
  "context_parts context =
     filter_map (\<lambda>part. part)
       [map_option (\<lambda>line. ''line '' @ dec_digits line) (pc_line context),
        map_option (\<lambda>sequence. ''sequence '' @ number_text sequence) (pc_sequence context),
        map_option (\<lambda>step. ''step '' @ number_text step) (pc_step context),
        map_option (\<lambda>index. ''event index '' @ number_text index) (pc_event_index context),
        map_option (\<lambda>path. ''path '' @ path) (pc_path context)]"

definition parse_error_text :: "parse_error \<Rightarrow> string" where
  "parse_error_text error =
     (let parts = context_parts (pe_context error) in
      if parts = [] then parse_error_kind_text (pe_kind error)
      else join_text '', '' parts @ '': '' @ parse_error_kind_text (pe_kind error))"

fun comparison_error_text :: "transcript_comparison_error \<Rightarrow> string" where
  "comparison_error_text (ExpectedParse error) = ''the expected transcript is invalid: '' @ parse_error_text error"
| "comparison_error_text (ActualParse error) = ''the actual transcript is invalid: '' @ parse_error_text error"
| "comparison_error_text (ValueEncoding message) = ''a typed transcript value could not be compared: '' @ message"

section \<open>Replay\<close>

fun replay_phase_text :: "replay_phase \<Rightarrow> string" where
  "replay_phase_text replay_phase.Requirements = ''requirements''"
| "replay_phase_text replay_phase.InitialState = ''initial state''"
| "replay_phase_text replay_phase.Step = ''step''"
| "replay_phase_text replay_phase.Completion = ''completion''"

definition replay_location_text :: "replay_location \<Rightarrow> string" where
  "replay_location_text location =
     replay_phase_text (rl_phase location)
     @ (case rl_step location of None \<Rightarrow> [] | Some step \<Rightarrow> '' '' @ number_text step)
     @ (case rl_event_index location of None \<Rightarrow> [] | Some event_index \<Rightarrow> '', event '' @ number_text event_index)
     @ '', path '' @ rl_path location"

fun replay_step_result_text :: "replay_step_result \<Rightarrow> string" where
  "replay_step_result_text replay_step_result.Accepted = ''accepted''"
| "replay_step_result_text (replay_step_result.Rejected _) = ''rejected''"

fun player_name :: "player_id_v1 \<Rightarrow> string" where
  "player_name player_id_v1.One = ''one''"
| "player_name player_id_v1.Two = ''two''"

fun reason_name :: "loss_reason_v1 \<Rightarrow> string" where
  "reason_name loss_reason_v1.ThirdMainLoss = ''third_main_loss''"
| "reason_name loss_reason_v1.NoPromotionAvailable = ''no_promotion_available''"
| "reason_name loss_reason_v1.EmptyDeckDraw = ''empty_deck_draw''"
| "reason_name loss_reason_v1.Resignation = ''resignation''"

fun divergence_kind_text :: "replay_divergence_kind \<Rightarrow> string" where
  "divergence_kind_text (replay_divergence_kind.SetRevision set_code expected (Some actual)) =
     ''Set '' @ set_code @ '' requires revision '' @ number_text expected @ '', but revision ''
     @ number_text actual @ '' is loaded''"
| "divergence_kind_text (replay_divergence_kind.SetRevision set_code expected None) =
     ''Set '' @ set_code @ '' requires revision '' @ number_text expected @ '', but it is not loaded''"
| "divergence_kind_text (replay_divergence_kind.InitialProjection _ _) = ''the rebuilt initial state differs from the transcript''"
| "divergence_kind_text (replay_divergence_kind.StepResult expected actual) =
     ''expected '' @ replay_step_result_text expected @ '', found '' @ replay_step_result_text actual"
| "divergence_kind_text (replay_divergence_kind.Event _ _) = ''the ordered event differs''"
| "divergence_kind_text (replay_divergence_kind.RejectedError _ _) = ''the rejection error differs''"
| "divergence_kind_text (replay_divergence_kind.RejectedState _ _) = ''the rejected action changed the state''"
| "divergence_kind_text replay_divergence_kind.CardSetIdentity = ''the rejected action changed the shared card pool''"
| "divergence_kind_text (replay_divergence_kind.StateDigest expected actual) =
     ''expected state digest '' @ digest_text expected @ '', found '' @ digest_text actual"
| "divergence_kind_text (replay_divergence_kind.FinalState _ _) = ''the final state differs''"
| "divergence_kind_text (replay_divergence_kind.GameEndedCount expected actual) =
     ''expected '' @ number_text expected @ '' GameEnded event, found '' @ number_text actual"
| "divergence_kind_text (replay_divergence_kind.GameEndedOutcome _ _) = ''the GameEnded outcome differs''"
| "divergence_kind_text (replay_divergence_kind.Winner expected actual) =
     ''expected winner '' @ player_name expected @ '', found '' @ player_name actual"
| "divergence_kind_text (replay_divergence_kind.LossReason expected actual) =
     ''expected loss reason '' @ reason_name expected @ '', found '' @ reason_name actual"
| "divergence_kind_text (replay_divergence_kind.StepCount expected actual) =
     ''expected '' @ number_text expected @ '' steps, found '' @ number_text actual"
| "divergence_kind_text (replay_divergence_kind.EventCount expected actual) =
     ''expected '' @ number_text expected @ '' events, found '' @ number_text actual"

definition divergence_text :: "replay_divergence \<Rightarrow> string" where
  "divergence_text d = replay_location_text (rd_location d) @ '': '' @ divergence_kind_text (rd_kind d)"

fun replay_error_text :: "replay_error \<Rightarrow> string" where
  "replay_error_text (Parse error) = ''transcript parse failed: '' @ parse_error_text error"
| "replay_error_text (replay_error.StateRebuild location error) =
     replay_location_text location @ '': state rebuild failed: '' @ state_rebuild_text error"
| "replay_error_text (replay_error.WireConversion location error) =
     replay_location_text location @ '': wire conversion failed: '' @ wire_conversion_text error"
| "replay_error_text (replay_error.CanonicalState location error) =
     replay_location_text location @ '': '' @ canonical_state_text error"
| "replay_error_text (replay_error.Divergence d) = divergence_text d"

end
