(* ===== verification/Replay_Command.thy ===== *)
theory Replay_Command
  imports Reading Server Log_Text
begin

text \<open>
  \<open>crates/cli/src/replay.rs\<close>: the \<open>replay\<close> command verifies a transcript file against the built-in
  catalog and confirms it. An opened file is a reader of type \<open>'r\<close>; rewinding one answers a reader at
  its start. The loop that looks for the summary is bounded by nothing but the file, so it answers an
  option.
\<close>

record verification_summary =
  vs_path :: string
  vs_required_sets :: "set_requirement_v1 list"

datatype replay_cli_error =
  Open string io_error
| Catalog built_in_error
| Verify replay_error
| Summarize io_error

text \<open>\<open>path_text\<close> of \<open>terminal.rs\<close>, on the displayed path.\<close>

definition path_text :: "string \<Rightarrow> string" where
  "path_text path = terminal_text path"

definition confirmation_line :: "verification_summary \<Rightarrow> string" where
  "confirmation_line summary =
     (let revisions = map (\<lambda>requirement. sq1_set requirement @ '' revision '' @ number_text (sq1_revision requirement))
            (vs_required_sets summary);
          details = (if revisions = [] then ''no required sets'' else join_text '', '' revisions)
      in ''OK '' @ path_text (vs_path summary) @ '': transcript verified ('' @ details @ '')'')"

text \<open>\<open>Display\<close>, whose sources print with the functions given.\<close>

fun replay_cli_error_text ::
  "(io_error \<Rightarrow> string) \<Rightarrow> (built_in_error \<Rightarrow> string) \<Rightarrow> replay_cli_error \<Rightarrow> string" where
  "replay_cli_error_text io_text catalog_text (Open path source) =
     ''cannot open transcript '' @ path_text path @ '': '' @ io_text source"
| "replay_cli_error_text io_text catalog_text (replay_cli_error.Catalog source) =
     ''card catalog failed to load: '' @ catalog_text source"
| "replay_cli_error_text io_text catalog_text (Verify source) =
     ''transcript is invalid: '' @ replay_error_text source"
| "replay_cli_error_text io_text catalog_text (Summarize source) =
     ''cannot summarize the verified transcript: '' @ io_text source"

record 'r transcript_files =
  tf_open :: "string \<Rightarrow> io_error + 'r"
  tf_rewind :: "'r \<Rightarrow> io_error + 'r"
  tf_read_until :: "'r reader"
  tf_read_line :: "'r \<Rightarrow> (io_error + string) \<times> 'r"

text \<open>\<open>serde_json::from_str\<close> of a \<open>MatchCreatedV1\<close> is an argument.\<close>

partial_function (option) recorded_match_created ::
  "('r \<Rightarrow> (io_error + string) \<times> 'r) \<Rightarrow> (string \<Rightarrow> string + match_created_v1) \<Rightarrow> 'r
    \<Rightarrow> (replay_cli_error + match_created_v1) option" where
  "recorded_match_created read_line from_str reader =
     (case read_line reader of
        (Inl error, reader) \<Rightarrow> Some (Inl (Summarize error))
      | (Inr line, reader) \<Rightarrow>
          if line = [] then
            Some (Inl (Summarize (IoError Other ''the verified transcript holds no match_created record'')))
          else
            case from_str line of
              Inr created \<Rightarrow> Some (Inr created)
            | Inl _ \<Rightarrow> recorded_match_created read_line from_str reader)"

definition run_replay ::
  "'r transcript_files \<Rightarrow> built_in_error + built_in_catalog \<Rightarrow> serialization \<Rightarrow> decoders
    \<Rightarrow> (string \<Rightarrow> string + match_created_v1) \<Rightarrow> string \<Rightarrow> (replay_cli_error + verification_summary) option" where
  "run_replay files built_in sz jd from_str path =
     (case and_then (map_err (Open path) (tf_open files path)) (\<lambda>file.
           and_then (map_err replay_cli_error.Catalog built_in) (\<lambda>catalog. Inr (file, catalog))) of
        Inl error \<Rightarrow> Some (Inl error)
      | Inr (file, catalog) \<Rightarrow>
          (case verify_transcript sz (tf_read_until files) jd (set_revision (bc_library catalog))
                  (cl_core_cards (bc_library catalog)) file of
             None \<Rightarrow> None
           | Some (Inl error) \<Rightarrow> Some (Inl (Verify error))
           | Some (Inr _) \<Rightarrow>
               (case tf_rewind files file of
                  Inl error \<Rightarrow> Some (Inl (Summarize error))
                | Inr file \<Rightarrow>
                    map_option (\<lambda>created. and_then created (\<lambda>created.
                        Inr \<lparr>vs_path = path, vs_required_sets = mc1_required_sets created\<rparr>))
                      (recorded_match_created (tf_read_line files) from_str file))))"

end
