(* ===== verification/Deck_Rules.thy ===== *)
theory Deck_Rules
  imports Catalog
begin

text \<open>
  What \<open>parse_deck\<close> accepts: the rules of a legal Deck as one predicate, and the loops of the loader
  as that predicate.
\<close>

section \<open>Legal Decks\<close>

definition legal_reference :: "card_library \<Rightarrow> set_requirement_dto list \<Rightarrow> string \<Rightarrow> bool" where
  "legal_reference library requires key \<longleftrightarrow>
     (\<exists>set_code code. key = qualified_key set_code code \<and> stable_key_syntax set_code
        \<and> stable_key_syntax code \<and> set_code \<in> sr_set ` set requires)
     \<and> library_card_id library key \<noteq> None"

definition prints_base :: "card_library \<Rightarrow> entity_id \<Rightarrow> bool" where
  "prints_base library i \<longleftrightarrow>
     Option.bind (card_set_get (cl_core_cards library) i) (entity_get form_field) = Some form.Base"

definition copies_in :: "string \<Rightarrow> card_quantity_dto list \<Rightarrow> nat" where
  "copies_in key items = (\<Sum>item \<leftarrow> filter (\<lambda>item. cq_card item = key) items. unat (cq_quantity item))"

definition expanded :: "card_library \<Rightarrow> card_quantity_dto list \<Rightarrow> entity_id list" where
  "expanded library items = concat (map (\<lambda>item.
     replicate (unat (cq_quantity item)) (the (library_card_id library (cq_card item)))) items)"

definition legal_deck :: "card_library \<Rightarrow> deck_dto \<Rightarrow> deck \<Rightarrow> bool" where
  "legal_deck library raw d \<longleftrightarrow>
     kd_schema_version raw = 1 \<and> stable_key_syntax (kd_id raw) \<and> \<not> trims_empty (kd_name raw)
     \<and> distinct (map sr_set (kd_requires raw))
     \<and> (\<forall>r \<in> set (kd_requires raw). stable_key_syntax (sr_set r)
          \<and> set_revision library (sr_set r) = Some (sr_revision r))
     \<and> legal_reference library (kd_requires raw) (kd_starter raw)
     \<and> prints_base library (the (library_card_id library (kd_starter raw)))
     \<and> (\<forall>item \<in> set (kd_cards raw). legal_reference library (kd_requires raw) (cq_card item)
          \<and> cq_quantity item \<noteq> 0 \<and> cq_card item \<noteq> kd_starter raw
          \<and> copies_in (cq_card item) (kd_cards raw) \<le> 2)
     \<and> length (expanded library (kd_cards raw)) = 20
     \<and> d = \<lparr>dk_id = kd_id raw, dk_name = kd_name raw,
         dk_starter = the (library_card_id library (kd_starter raw)),
         dk_body = expanded library (kd_cards raw)\<rparr>"

section \<open>References\<close>

lemma deck_key_syntax_eq: "deck_key_syntax t = stable_key_syntax t"
  by (auto simp: deck_key_syntax_def stable_key_syntax_def last_of_def)

lemma stable_key_no_slash:
  assumes "stable_key_syntax t" shows "CHR ''/'' \<notin> set t"
proof
  assume "CHR ''/'' \<in> set t"
  then have "is_ascii_lowercase CHR ''/'' \<or> is_ascii_digit CHR ''/'' \<or> CHR ''/'' = CHR ''-''"
    using assms by (auto simp: stable_key_syntax_def list_all_iff)
  then show False by (simp add: is_ascii_lowercase_def is_ascii_digit_def Let_def)
qed

lemma split_char_plain: "c \<notin> set xs \<Longrightarrow> split_char c xs = [xs]"
  by (induction xs) auto

lemma split_char_append: "c \<notin> set xs \<Longrightarrow> split_char c (xs @ c # ys) = xs # split_char c ys"
  by (induction xs) auto

lemma split_char_parts:
  "split_char c xs = p # ps \<Longrightarrow>
    c \<notin> set p \<and> (if ps = [] then xs = p else \<exists>ys. xs = p @ c # ys \<and> split_char c ys = ps)"
proof (induction xs arbitrary: p ps)
  case (Cons x xs)
  show ?case
  proof (cases "x = c")
    case True
    with Cons.prems have "p = [] \<and> ps = split_char c xs" by auto
    moreover have "split_char c xs \<noteq> []" by (cases xs) (auto split: list.split)
    ultimately show ?thesis using True by auto
  next
    case False
    have "split_char c xs \<noteq> []" by (cases xs) (auto split: list.split)
    then obtain q qs where q: "split_char c xs = q # qs" by (cases "split_char c xs") auto
    with Cons.prems False have "p = x # q \<and> ps = qs" by simp
    with Cons.IH [OF q] False show ?thesis by (auto split: if_splits)
  qed
qed simp

lemma split_char_two:
  "split_char c xs = [p, q] \<longleftrightarrow> xs = p @ c # q \<and> c \<notin> set p \<and> c \<notin> set q"
proof
  assume two: "split_char c xs = [p, q]"
  from split_char_parts [OF two] obtain ys where "c \<notin> set p" "xs = p @ c # ys" "split_char c ys = [q]"
    by auto
  moreover from split_char_parts [OF this(3)] have "c \<notin> set q" "ys = q" by auto
  ultimately show "xs = p @ c # q \<and> c \<notin> set p \<and> c \<notin> set q" by simp
qed (auto simp: split_char_append split_char_plain)

lemma parse_qualified_Inr:
  "parse_qualified v path = Inr c \<longleftrightarrow> (\<exists>set_code code. v = qualified_key set_code code
     \<and> stable_key_syntax set_code \<and> stable_key_syntax code \<and> c = \<lparr>qc_key = v, qc_set = set_code\<rparr>)"
proof -
  have "parse_qualified v path = Inr c \<longleftrightarrow> (\<exists>set_code code. split_char CHR ''/'' v = [set_code, code]
     \<and> stable_key_syntax set_code \<and> stable_key_syntax code \<and> c = \<lparr>qc_key = v, qc_set = set_code\<rparr>)"
    by (auto simp: parse_qualified_def deck_key_syntax_eq split: list.splits)
  then show ?thesis
    using stable_key_no_slash by (auto simp: split_char_two qualified_key_def)
qed

section \<open>The loops\<close>

lemma resolve_requirements_from_Inr:
  "resolve_requirements_from n rs library requirements paths = Inr requirements' \<longleftrightarrow>
     distinct (map sr_set rs) \<and> (\<forall>r \<in> set rs. stable_key_syntax (sr_set r)
       \<and> set_revision library (sr_set r) = Some (sr_revision r) \<and> btree_get paths (sr_set r) = None)
     \<and> requirements' = btree.insert_all (map (\<lambda>r. (sr_set r, sr_revision r)) rs) requirements"
proof (induction rs arbitrary: n requirements paths)
  case Nil
  then show ?case by (auto simp: btree.insert_all_def)
next
  case (Cons r rs)
  let ?p = "btree_insert (sr_set r) (index_path ''requires'' n) paths"
  have fresh: "(\<forall>r' \<in> set rs. P r' \<and> Q r' \<and> btree_get ?p (sr_set r') = None) \<longleftrightarrow>
      sr_set r \<notin> sr_set ` set rs \<and> (\<forall>r' \<in> set rs. P r' \<and> Q r' \<and> btree_get paths (sr_set r') = None)" for P Q
    by (auto simp: btree_get_insert image_iff)
  show ?case
    by (auto simp: Let_def and_then_Inr require_stable_key_def deck_key_syntax_eq Cons.IH fresh
        btree.insert_all_def simp del: image_iff split: option.splits if_splits)
qed

lemma resolve_requirements_Inr:
  assumes "resolve_requirements rs library = Inr requirements"
  shows "btree_get requirements s \<noteq> None \<longleftrightarrow> s \<in> sr_set ` set rs"
proof -
  let ?kvs = "map (\<lambda>r. (sr_set r, sr_revision r)) rs"
  have "distinct (map sr_set rs)" and "requirements = btree.insert_all ?kvs []"
    using assms by (auto simp: resolve_requirements_def resolve_requirements_from_Inr)
  then have "btree_get requirements s = map_of ?kvs s"
    using insert_all_lookup [of ?kvs s] by (simp add: comp_def)
  then show ?thesis by (simp add: map_of_eq_None_iff image_image)
qed

lemma resolve_requirements_ok:
  "(\<exists>requirements. resolve_requirements rs library = Inr requirements) \<longleftrightarrow>
    distinct (map sr_set rs) \<and> (\<forall>r \<in> set rs. stable_key_syntax (sr_set r)
       \<and> set_revision library (sr_set r) = Some (sr_revision r))"
  by (auto simp: resolve_requirements_def resolve_requirements_from_Inr btree_get_def)

text \<open>The copies counted so far.\<close>

definition counted :: "(string, u32) btree_map \<Rightarrow> string \<Rightarrow> u32" where
  "counted copies key = (case btree_get copies key of Some n \<Rightarrow> n | None \<Rightarrow> 0)"

lemma counted_insert: "counted (btree_insert key n copies) k = (if k = key then n else counted copies k)"
  by (simp add: counted_def btree_get_insert)

lemma copies_in_Cons:
  "copies_in key (item # items) = (if cq_card item = key then unat (cq_quantity item) else 0) + copies_in key items"
  by (simp add: copies_in_def)

lemma copies_in_none: "key \<notin> cq_card ` set items \<Longrightarrow> copies_in key items = 0"
  by (induction items) (auto simp: copies_in_def)

lemma saturating_add_limit:
  "saturating_add n q > copy_limit \<longleftrightarrow> \<not> unat n + unat q \<le> 2"
  by (auto simp: word_less_nat_alt unat_saturating_add copy_limit_def min_def)

definition bound_key :: "(string, u32) btree_map \<Rightarrow> string \<Rightarrow> bool" where
  "bound_key requirements key \<longleftrightarrow>
     (\<exists>set_code code. key = qualified_key set_code code \<and> stable_key_syntax set_code
        \<and> stable_key_syntax code \<and> btree_get requirements set_code \<noteq> None)"

lemma bound_reference:
  assumes "\<And>s. f \<lparr>qc_key = v, qc_set = s\<rparr> = f \<lparr>qc_key = v, qc_set = []\<rparr>"
  shows "and_then (parse_qualified v path) (\<lambda>c. and_then (require_bound c requirements path') (\<lambda>_. f c)) = Inr r
    \<longleftrightarrow> bound_key requirements v \<and> f \<lparr>qc_key = v, qc_set = []\<rparr> = Inr r"
proof -
  have "and_then (parse_qualified v path) (\<lambda>c. and_then (require_bound c requirements path') (\<lambda>_. f c)) = Inr r
    \<longleftrightarrow> (\<exists>c. parse_qualified v path = Inr c \<and> btree_get requirements (qc_set c) \<noteq> None \<and> f c = Inr r)"
    by (auto simp: and_then_Inr require_bound_def split: if_splits)
  also have "\<dots> \<longleftrightarrow> (\<exists>set_code code. v = qualified_key set_code code \<and> stable_key_syntax set_code
      \<and> stable_key_syntax code \<and> btree_get requirements set_code \<noteq> None
      \<and> f \<lparr>qc_key = v, qc_set = set_code\<rparr> = Inr r)"
    unfolding parse_qualified_Inr by (auto 0 3)
  also have "\<dots> \<longleftrightarrow> bound_key requirements v \<and> f \<lparr>qc_key = v, qc_set = []\<rparr> = Inr r"
    unfolding bound_key_def using assms by metis
  finally show ?thesis .
qed

definition legal_item ::
  "card_library \<Rightarrow> (string, u32) btree_map \<Rightarrow> string \<Rightarrow> card_quantity_dto \<Rightarrow> bool" where
  "legal_item library requirements starter item \<longleftrightarrow> bound_key requirements (cq_card item)
     \<and> cq_quantity item \<noteq> 0 \<and> cq_card item \<noteq> starter \<and> library_card_id library (cq_card item) \<noteq> None"

lemma resolve_items_step:
  "resolve_items n (item # items) library requirements starter body copies = Inr body' \<longleftrightarrow>
     legal_item library requirements starter item
     \<and> unat (counted copies (cq_card item)) + unat (cq_quantity item) \<le> 2
     \<and> resolve_items (n + 1) items library requirements starter
         (body @ replicate (unat (cq_quantity item)) (the (library_card_id library (cq_card item))))
         (btree_insert (cq_card item)
           (saturating_add (counted copies (cq_card item)) (cq_quantity item)) copies) = Inr body'"
  unfolding resolve_items.simps Let_def
  by (subst bound_reference, simp add: resolve_card_def)
    (auto simp: resolve_card_def ok_or_def legal_item_def counted_def [symmetric] saturating_add_limit
      split: if_splits option.splits)

lemma resolve_items_Inr:
  "resolve_items n items library requirements starter body copies = Inr body' \<longleftrightarrow>
     (\<forall>item \<in> set items. legal_item library requirements starter item
        \<and> unat (counted copies (cq_card item)) + copies_in (cq_card item) items \<le> 2)
     \<and> body' = body @ expanded library items"
proof (induction items arbitrary: n body copies)
  case Nil
  then show ?case by (auto simp: expanded_def)
next
  case (Cons item items)
  let ?k = "cq_card item" and ?q = "cq_quantity item"
  let ?c = "btree_insert ?k (saturating_add (counted copies ?k) ?q) copies"
  have step: "unat (counted ?c k) + copies_in k items
      = unat (counted copies k) + copies_in k (item # items)"
    if "unat (counted copies ?k) + unat ?q \<le> 2" for k
    using that by (auto simp: counted_insert copies_in_Cons unat_saturating_add min_def)
  show ?case
  proof (cases "unat (counted copies ?k) + unat ?q \<le> 2")
    case True
    have "(\<forall>k \<in> set (item # items). unat (counted copies (cq_card k)) + copies_in (cq_card k) (item # items) \<le> 2)
      \<longleftrightarrow> (\<forall>k \<in> set items. unat (counted ?c (cq_card k)) + copies_in (cq_card k) items \<le> 2)"
    proof (cases "?k \<in> cq_card ` set items")
      case True
      then obtain k where "k \<in> set items" "cq_card k = ?k" by auto
      with step [OF \<open>unat (counted copies ?k) + unat ?q \<le> 2\<close>] show ?thesis by (metis set_ConsD list.set_intros)
    next
      case False
      then have "copies_in ?k items = 0" by (rule copies_in_none)
      then show ?thesis using step [OF True] True by (auto simp: copies_in_Cons)
    qed
    with True show ?thesis
      unfolding resolve_items_step Cons.IH by (auto simp: expanded_def)
  next
    case False
    then have "\<not> unat (counted copies ?k) + copies_in ?k (item # items) \<le> 2" by (simp add: copies_in_Cons)
    with False show ?thesis unfolding resolve_items_step by auto
  qed
qed

section \<open>What the loader accepts\<close>

lemma require_base_starter_Inr:
  "require_base_starter library i key = Inr u \<longleftrightarrow> prints_base library i"
  by (simp add: require_base_starter_def prints_base_def)

lemma resolve_body_Inr:
  "resolve_body items library requirements starter = Inr body \<longleftrightarrow>
     (\<forall>item \<in> set items. legal_item library requirements starter item
        \<and> copies_in (cq_card item) items \<le> 2)
     \<and> length (expanded library items) = 20 \<and> body = expanded library items"
  by (auto simp: resolve_body_def and_then_Inr resolve_items_Inr counted_def btree_get_def body_size_def
      split: if_splits)

lemma bound_key_requires:
  assumes "resolve_requirements rs library = Inr requirements"
  shows "legal_reference library rs key \<longleftrightarrow> bound_key requirements key \<and> library_card_id library key \<noteq> None"
  unfolding legal_reference_def bound_key_def resolve_requirements_Inr [OF assms] by (rule refl)

definition resolve_rest ::
  "deck_dto \<Rightarrow> card_library \<Rightarrow> (string, u32) btree_map \<Rightarrow> qualified_card \<Rightarrow> deck_load_error + deck" where
  "resolve_rest raw library requirements starter_ref =
     and_then (resolve_card library starter_ref ''starter'') (\<lambda>starter_id.
     and_then (require_base_starter library starter_id (qc_key starter_ref)) (\<lambda>_.
     and_then (resolve_body (kd_cards raw) library requirements (qc_key starter_ref)) (\<lambda>body.
     Inr \<lparr>dk_id = kd_id raw, dk_name = kd_name raw, dk_starter = starter_id, dk_body = body\<rparr>)))"

lemma resolve_Inr: "resolve raw library = Inr d \<longleftrightarrow> legal_deck library raw d"
proof -
  have rest: "and_then (parse_qualified (kd_starter raw) ''starter'') (\<lambda>c.
        and_then (require_bound c requirements ''starter'') (\<lambda>_. resolve_rest raw library requirements c)) = Inr d
      \<longleftrightarrow> bound_key requirements (kd_starter raw)
        \<and> resolve_rest raw library requirements \<lparr>qc_key = kd_starter raw, qc_set = []\<rparr> = Inr d" for requirements
    by (rule bound_reference) (simp add: resolve_rest_def resolve_card_def)
  have "resolve raw library = Inr d \<longleftrightarrow> kd_schema_version raw = 1 \<and> stable_key_syntax (kd_id raw)
      \<and> \<not> trims_empty (kd_name raw)
      \<and> (\<exists>requirements. resolve_requirements (kd_requires raw) library = Inr requirements
        \<and> bound_key requirements (kd_starter raw)
        \<and> resolve_rest raw library requirements \<lparr>qc_key = kd_starter raw, qc_set = []\<rparr> = Inr d)"
    unfolding rest [symmetric]
    by (auto simp: resolve_def resolve_rest_def and_then_Inr require_stable_key_def deck_key_syntax_eq
        uint_1_eq word_uint_eq_iff split: if_splits)
  also have "\<dots> \<longleftrightarrow> kd_schema_version raw = 1 \<and> stable_key_syntax (kd_id raw)
      \<and> \<not> trims_empty (kd_name raw)
      \<and> (\<exists>requirements. resolve_requirements (kd_requires raw) library = Inr requirements
        \<and> legal_reference library (kd_requires raw) (kd_starter raw)
        \<and> prints_base library (the (library_card_id library (kd_starter raw)))
        \<and> (\<forall>item \<in> set (kd_cards raw). legal_reference library (kd_requires raw) (cq_card item)
            \<and> cq_quantity item \<noteq> 0 \<and> cq_card item \<noteq> kd_starter raw
            \<and> copies_in (cq_card item) (kd_cards raw) \<le> 2)
        \<and> length (expanded library (kd_cards raw)) = 20
        \<and> d = \<lparr>dk_id = kd_id raw, dk_name = kd_name raw,
            dk_starter = the (library_card_id library (kd_starter raw)),
            dk_body = expanded library (kd_cards raw)\<rparr>)"
    by (auto simp: bound_key_requires resolve_rest_def and_then_Inr resolve_card_def require_base_starter_Inr
        resolve_body_Inr legal_item_def ok_or_def split: option.splits)
  also have "\<dots> \<longleftrightarrow> legal_deck library raw d"
    unfolding legal_deck_def using resolve_requirements_ok [of "kd_requires raw" library] by blast
  finally show ?thesis .
qed

text \<open>C14: a Deck document is accepted exactly when its bytes are UTF-8, its schema version is 1, it
  decodes, and the decoded Deck is legal: distinct required Sets at the revision the library
  holds, a Base Starter, and twenty further cards, all of required Sets, with at most two copies of
  each and none of the Starter. The Deck built lists them in authored order.\<close>

theorem parse_deck_accepts:
  "parse_deck toml bytes library = Inr d \<longleftrightarrow>
     (\<exists>source raw. from_utf8 bytes = Inr source \<and> tm_schema_version toml source = Inr (Some (Inr 1))
        \<and> tm_document toml source = Inr (Inr raw) \<and> legal_deck library raw d)"
  by (auto simp: parse_deck_def and_then_Inr deck_decode_utf8_def map_err_def deck_read_version_def
      deck_decode_v1_def resolve_Inr split: sum.splits option.splits if_splits)

end
