(* ===== verification/Authored.thy ===== *)
theory Authored
  imports Library
begin

text \<open>
  What the loader of \<open>crates/cards\<close> promises of every Set it accepts: the authoring rules as a
  table of what each context allows, and the shape of the entities the conversion makes of a
  parsed card.
\<close>

section \<open>The authoring rules\<close>

fun allowed :: "effect_context \<Rightarrow> model_effect \<Rightarrow> bool" where
  "allowed context (model_effect.Damage target base constraints additions) \<longleftrightarrow>
     (context = effect_context.Attack \<and> target = damage_target.DefendingMain
      \<or> context = AttackSpell \<and> target = damage_target.SelectedOpposingPosition)
     \<and> base \<noteq> 0 \<and> distinct constraints \<and> (\<forall>addition \<in> set additions. md_amount addition \<noteq> 0)"
| "allowed context (model_effect.Heal target amount) \<longleftrightarrow> amount \<noteq> 0
     \<and> (context \<in> {effect_context.Skill, effect_context.Trigger} \<and> target = own_target.Source
        \<or> context \<in> {SupportSpell, effect_context.Enchantment} \<and> target = own_target.Selected)"
| "allowed context model_effect.MoveOwnBenchedToEmptyBench \<longleftrightarrow> context = effect_context.Skill"
| "allowed context (model_effect.SwapPositions side) \<longleftrightarrow> context = effect_context.Skill"
| "allowed context (model_effect.BlockAttackSpells condition) \<longleftrightarrow> context = effect_context.Attack"
| "allowed context model_effect.ReturnSpellFromDiscard \<longleftrightarrow> context = effect_context.Trigger"
| "allowed context model_effect.LookAtPrizes \<longleftrightarrow> context = effect_context.Skill"
| "allowed context (model_effect.DrawCards amount) \<longleftrightarrow>
     amount \<noteq> 0 \<and> context \<in> {effect_context.Skill, SupportSpell}"
| "allowed context model_effect.ReturnSpellToDeckTop \<longleftrightarrow> context = effect_context.Skill"
| "allowed context (model_effect.ProduceMana target) \<longleftrightarrow>
     context = effect_context.Skill \<and> target = own_target.Selected
     \<or> context = effect_context.Trigger \<and> target = own_target.Source"
| "allowed context (model_effect.ProtectFromOpposingMovement target) \<longleftrightarrow>
     context = effect_context.Skill \<and> target = own_target.Source"
| "allowed context model_effect.ReadyOwnSummon \<longleftrightarrow> context = SupportSpell"

definition effects_ok :: "effect_context \<Rightarrow> model_effect list \<Rightarrow> bool" where
  "effects_ok context effects \<longleftrightarrow> effects \<noteq> [] \<and> list_all (allowed context) effects"

definition modifier_ok :: "dto_modifier \<Rightarrow> bool" where
  "modifier_ok m \<longleftrightarrow> dto_modifier_amount m \<noteq> 0
     \<and> (case m of dto_modifier.OpposingRetreatCost amount \<Rightarrow> fits_i32 amount | _ \<Rightarrow> True)"

fun ability_ok :: "model_ability_kind \<Rightarrow> bool" where
  "ability_ok (model_ability_kind.Attack cost effects) \<longleftrightarrow> effects_ok effect_context.Attack effects"
| "ability_ok (model_ability_kind.Skill cost effects) \<longleftrightarrow> effects_ok effect_context.Skill effects"
| "ability_ok (model_ability_kind.Passive m) \<longleftrightarrow> modifier_ok m"
| "ability_ok (model_ability_kind.Trigger event response effects) \<longleftrightarrow>
     effects_ok effect_context.Trigger effects"

fun spell_context :: "dto_spell_timing \<Rightarrow> effect_context" where
  "spell_context dto_spell_timing.Attack = AttackSpell"
| "spell_context dto_spell_timing.Support = SupportSpell"

fun card_ok :: "model_card_kind \<Rightarrow> bool" where
  "card_ok (model_card_kind.Summon form life types retreat abilities) \<longleftrightarrow>
     life \<noteq> 0 \<and> types \<noteq> [] \<and> distinct types \<and> distinct (map ma_code abilities)
     \<and> list_all (\<lambda>a. ability_ok (ma_kind a)) abilities \<and> length (filter is_attack abilities) = 1"
| "card_ok (model_card_kind.Spell timing cost effects) \<longleftrightarrow> effects_ok (spell_context timing) effects"
| "card_ok (model_card_kind.Enchantment cost effects modifiers) \<longleftrightarrow>
     effects_ok effect_context.Enchantment effects \<and> list_all modifier_ok modifiers"

definition model_ok :: "model_set \<Rightarrow> bool" where
  "model_ok s \<longleftrightarrow> stable_key_syntax (stable_code_text (ms_code s)) \<and> ms_revision s \<noteq> 0
     \<and> \<not> trims_empty (ms_name s) \<and> ms_cards s \<noteq> [] \<and> distinct (map mk_code (ms_cards s))
     \<and> list_all (\<lambda>c. stable_key_syntax (stable_code_text (mk_code c)) \<and> \<not> trims_empty (mk_name c)
          \<and> card_ok (mk_kind c)) (ms_cards s)"

section \<open>The parser enforces them\<close>

lemmas check_defs = require_positive_def forbid_option_def forbid_list_def required_def require_name_def
  stable_code_parse_def

lemma reject_duplicate_Inr:
  "reject_duplicate seen v path kind = Inr seen' \<longleftrightarrow> seen v = None \<and> seen' = seen(v \<mapsto> path)"
  by (auto simp: reject_duplicate_def split: option.splits)

lemma stable_code_eq: "StableCode t = code \<longleftrightarrow> stable_code_text code = t"
  by (cases code) auto

lemma mana_debug_inj [simp]: "mana_debug a = mana_debug b \<longleftrightarrow> a = b"
  by (cases a; cases b) simp_all

lemma constraint_debug_inj [simp]: "constraint_debug a = constraint_debug b \<longleftrightarrow> a = b"
  by (cases a; cases b) simp_all

lemma reject_repeated_types_Inr:
  "reject_repeated_types seen index raw path = Inr () \<Longrightarrow>
    distinct raw \<and> (\<forall>mana \<in> set raw. mana_debug mana \<notin> set seen)"
proof (induction raw arbitrary: seen index)
  case (Cons mana rest)
  from Cons.IH [of "mana_debug mana # seen" "index + 1"] Cons.prems show ?case
    by (auto simp: Let_def split: if_splits)
qed simp

lemma reject_repeated_constraints_Inr:
  "reject_repeated_constraints seen index raw path = Inr () \<Longrightarrow>
    distinct raw \<and> (\<forall>c \<in> set raw. seen (constraint_debug c) = None)"
proof (induction raw arbitrary: seen index)
  case (Cons c rest)
  define seen' where "seen' = seen(constraint_debug c \<mapsto> index_path path index)"
  from Cons.prems have "seen (constraint_debug c) = None"
    and rest: "reject_repeated_constraints seen' (index + 1) rest path = Inr ()"
    by (auto simp: Let_def seen'_def split: option.splits)
  with Cons.IH [OF rest] show ?case by (auto simp: seen'_def split: if_splits)
qed simp

lemma parse_damage_allowed:
  assumes "parse_damage target base constraints additions context path = Inr e"
  shows "allowed context e"
proof -
  obtain t adds where target: "(context = effect_context.Attack \<and> t = damage_target.DefendingMain
      \<or> context = AttackSpell \<and> t = damage_target.SelectedOpposingPosition)"
    and "base \<noteq> 0" and "reject_duplicate_constraints constraints (field_path path ''constraints'') = Inr ()"
    and adds: "try_enumerate (parse_addition path) 0 additions = Inr adds"
    and e: "e = model_effect.Damage t base constraints adds"
    using assms by (auto simp: parse_damage_def and_then_Inr require_positive_def
        split: if_splits effect_context.splits target.splits)
  moreover have "\<forall>a \<in> set adds. md_amount a \<noteq> 0"
    using try_enumerate_member [OF adds]
    by (fastforce simp: parse_addition_def and_then_Inr require_positive_def split: if_splits)
  ultimately show ?thesis
    by (auto simp: reject_duplicate_constraints_def dest: reject_repeated_constraints_Inr)
qed

lemma parse_effect_allowed:
  assumes "parse_effect raw context path = Inr e"
  shows "allowed context e"
proof (cases raw)
  case (Damage target base constraints additions)
  then show ?thesis using assms by (auto simp: parse_effect_def and_then_Inr Let_def dest: parse_damage_allowed)
next
  case (Heal target amount)
  then show ?thesis
    using assms by (auto simp: parse_effect_def parse_heal_def and_then_Inr Let_def require_positive_def
        split: if_splits)
qed (use assms in \<open>auto simp: parse_effect_def and_then_Inr Let_def require_positive_def
      split: if_splits effect_context.splits target.splits\<close>)

lemma parse_effects_ok:
  assumes "parse_effects raw context path = Inr effects"
  shows "effects_ok context effects"
proof -
  have parsed: "raw \<noteq> []"
    "try_enumerate (\<lambda>index effect. parse_effect effect context (index_path path index)) 0 raw = Inr effects"
    using assms by (auto simp: parse_effects_def split: if_splits)
  have "allowed context e" if "e \<in> set effects" for e
    using try_enumerate_member [OF parsed(2) that] parse_effect_allowed by blast
  with try_enumerate_length [OF parsed(2)] parsed(1) show ?thesis
    by (auto simp: effects_ok_def list_all_iff)
qed

lemma parse_modifier_ok: "parse_modifier m path = Inr () \<Longrightarrow> modifier_ok m"
  by (auto simp: parse_modifier_def modifier_ok_def require_positive_def Let_def and_then_Inr
      split: if_splits dto_modifier.splits)

lemma parse_modifiers_ok:
  assumes "parse_modifiers raw path = Inr ms" shows "list_all modifier_ok ms"
proof -
  have "modifier_ok m" if "m \<in> set ms" for m
    using try_enumerate_member [OF assms [unfolded parse_modifiers_def] that]
    by (auto simp: and_then_Inr intro: parse_modifier_ok)
  then show ?thesis by (simp add: list_all_iff)
qed

lemma parse_ability_ok:
  "parse_ability raw code path = Inr a \<Longrightarrow> ability_ok (ma_kind a) \<and> ma_code a = code"
  by (auto simp: parse_ability_def and_then_Inr Let_def parse_effects_ok parse_modifier_ok
      split: dto_ability_kind.splits if_splits)

lemma parse_ability_list_ok:
  "parse_ability_list seen index raw path = Inr as \<Longrightarrow>
    list_all (\<lambda>a. ability_ok (ma_kind a)) as \<and> distinct (map ma_code as)
    \<and> (\<forall>a \<in> set as. seen (stable_code_text (ma_code a)) = None)"
proof (induction raw arbitrary: seen index as)
  case (Cons ability rest)
  define at where "at = index_path (field_path path ''abilities'') index"
  define seen' where "seen' = seen(da_code ability \<mapsto> field_path at ''code'')"
  from Cons.prems obtain a "as'" where seen: "seen (da_code ability) = None"
    and a: "parse_ability ability (StableCode (da_code ability)) at = Inr a" and "as": "as = a # as'"
    and rest: "parse_ability_list seen' (index + 1) rest path = Inr as'"
    by (auto simp: Let_def and_then_Inr reject_duplicate_Inr stable_code_parse_def at_def seen'_def
        split: if_splits)
  from parse_ability_ok [OF a] seen Cons.IH [OF rest] show ?case
    by (auto simp: "as" seen'_def stable_code_eq split: if_splits)
qed simp

lemma parse_card_kind_ok:
  "parse_summon raw path = Inr kind \<Longrightarrow> card_ok kind"
  "parse_spell raw path = Inr kind \<Longrightarrow> card_ok kind"
  "parse_enchantment raw path = Inr kind \<Longrightarrow> card_ok kind"
proof -
  show "parse_summon raw path = Inr kind \<Longrightarrow> card_ok kind"
    by (auto simp: parse_summon_def and_then_Inr require_positive_def parse_mana_types_def parse_abilities_def
        split: if_splits dest: reject_repeated_types_Inr parse_ability_list_ok)
  show "parse_spell raw path = Inr kind \<Longrightarrow> card_ok kind"
    by (auto simp: parse_spell_def and_then_Inr Let_def split: if_splits dto_spell_timing.splits
        dest: parse_effects_ok)
  show "parse_enchantment raw path = Inr kind \<Longrightarrow> card_ok kind"
    by (auto simp: parse_enchantment_def and_then_Inr split: if_splits
        dest: parse_effects_ok parse_modifiers_ok)
qed

lemma parse_card_ok:
  "parse_card raw code path = Inr c \<Longrightarrow> mk_code c = code \<and> \<not> trims_empty (mk_name c) \<and> card_ok (mk_kind c)"
  by (auto simp: parse_card_def and_then_Inr require_name_def parse_card_kind_ok
      split: if_splits dto_card_kind.splits)

lemma parse_cards_ok:
  "parse_cards seen index raw = Inr cs \<Longrightarrow>
    list_all (\<lambda>c. stable_key_syntax (stable_code_text (mk_code c)) \<and> \<not> trims_empty (mk_name c)
      \<and> card_ok (mk_kind c)) cs
    \<and> distinct (map mk_code cs) \<and> (\<forall>c \<in> set cs. seen (stable_code_text (mk_code c)) = None)
    \<and> length cs = length raw"
proof (induction raw arbitrary: seen index cs)
  case (Cons raw rest)
  define at where "at = index_path ''cards'' index"
  define seen' where "seen' = seen(dc_code raw \<mapsto> field_path at ''code'')"
  from Cons.prems obtain c "cs'" where key: "stable_key_syntax (dc_code raw)"
    and seen: "seen (dc_code raw) = None"
    and c: "parse_card raw (StableCode (dc_code raw)) at = Inr c" and cs: "cs = c # cs'"
    and rest: "parse_cards seen' (index + 1) rest = Inr cs'"
    by (auto simp: Let_def and_then_Inr reject_duplicate_Inr stable_code_parse_def at_def seen'_def
        split: if_splits)
  from parse_card_ok [OF c] seen key Cons.IH [OF rest] show ?case
    by (auto simp: cs seen'_def stable_code_eq split: if_splits)
qed simp

lemma parse_set_model_ok: "parse_set_model decoded = Inr s \<Longrightarrow> model_ok s"
  by (auto simp: parse_set_model_def model_ok_def and_then_Inr stable_code_parse_def require_positive_def
      require_name_def split: if_splits dest: parse_cards_ok)

section \<open>The parser keeps what is authored\<close>

fun kind_family :: "model_card_kind \<Rightarrow> card_kind" where
  "kind_family (model_card_kind.Summon _ _ _ _ _) = card_kind.Summon"
| "kind_family (model_card_kind.Spell _ _ _) = card_kind.Spell"
| "kind_family (model_card_kind.Enchantment _ _ _) = card_kind.Enchantment"

fun authored_family :: "dto_card_kind \<Rightarrow> card_kind" where
  "authored_family dto_card_kind.Summon = card_kind.Summon"
| "authored_family dto_card_kind.Spell = card_kind.Spell"
| "authored_family dto_card_kind.Enchantment = card_kind.Enchantment"

definition authored_as :: "dto_card \<Rightarrow> model_card \<Rightarrow> bool" where
  "authored_as raw c \<longleftrightarrow> mk_code c = StableCode (dc_code raw) \<and> mk_name c = dc_name raw
     \<and> kind_family (mk_kind c) = authored_family (dc_kind raw)"

lemma parse_card_as: "parse_card raw (StableCode (dc_code raw)) path = Inr c \<Longrightarrow> authored_as raw c"
  by (auto simp: parse_card_def parse_summon_def parse_spell_def parse_enchantment_def and_then_Inr Let_def
      authored_as_def split: if_splits dto_card_kind.splits)

lemma parse_cards_as: "parse_cards seen index raw = Inr cs \<Longrightarrow> list_all2 authored_as raw cs"
  by (induction raw arbitrary: seen index cs)
    (auto simp: Let_def and_then_Inr stable_code_parse_def parse_card_as split: if_splits)

end
