(* ===== verification/Loaded.thy ===== *)
theory Loaded
  imports Authored Termination
begin

text \<open>
  The entities of a loaded Set: what the conversion makes of a card that obeys the authoring
  rules, under which identities, and that a Set keeps to one identity for one card.
\<close>

section \<open>Well-printed cards\<close>

definition paid_ability :: "entity \<Rightarrow> bool" where
  "paid_ability a \<longleftrightarrow> entity_get cost_field a \<noteq> None \<and> entity_all effect_field a \<noteq> []"

definition still_trigger :: "entity \<Rightarrow> bool" where
  "still_trigger t \<longleftrightarrow> entity_get event_field t \<noteq> None \<and> entity_all effect_field t \<noteq> []
     \<and> (\<forall>leaf \<in> set (entity_all effect_field t). \<not> moves_summons leaf)"

definition printed_summon :: "entity \<Rightarrow> bool" where
  "printed_summon e \<longleftrightarrow> entity_get form_field e \<noteq> None
     \<and> (\<exists>life. entity_get life_field e = Some life \<and> life \<noteq> 0)
     \<and> (\<exists>types. entity_get mana_types_field e = Some types \<and> types \<noteq> [] \<and> distinct types)
     \<and> entity_get retreat_cost_field e \<noteq> None \<and> length (entity_all attack_field e) = 1
     \<and> list_all paid_ability (entity_all attack_field e) \<and> list_all paid_ability (entity_all skill_field e)
     \<and> list_all still_trigger (entity_all trigger_field e)"

definition printed_spell :: "entity \<Rightarrow> bool" where
  "printed_spell e \<longleftrightarrow> entity_get timing_field e \<noteq> None \<and> paid_ability e
     \<and> entity_get form_field e = None \<and> entity_get persistent_field e = None
     \<and> entity_all trigger_field e = [] \<and> entity_all modifier_field e = []"

definition printed_enchantment :: "entity \<Rightarrow> bool" where
  "printed_enchantment e \<longleftrightarrow> entity_get timing_field e = Some spell_timing.Support \<and> paid_ability e
     \<and> entity_get form_field e = None \<and> entity_get persistent_field e = Some ()
     \<and> entity_all trigger_field e = []"

definition well_printed :: "entity \<Rightarrow> bool" where
  "well_printed e \<longleftrightarrow>
     (case family e of
        card_kind.Summon \<Rightarrow> printed_summon e
      | card_kind.Spell \<Rightarrow> printed_spell e
      | card_kind.Enchantment \<Rightarrow> printed_enchantment e)"

section \<open>Converted abilities\<close>

lemma find_map_append: "find_map f (xs @ ys) = (case find_map f xs of None \<Rightarrow> find_map f ys | v \<Rightarrow> v)"
  by (induction xs) (auto split: option.splits)

lemma filter_map_map_effect [simp]:
  "filter_map effect_field (map (\<lambda>effect. component.Effect (g effect)) es) = map g es"
  by (induction es) (simp_all add: effect_field_def)

lemma no_effect_field:
  assumes "\<And>leaf. f (component.Effect leaf) = None"
  shows "find_map f (map (\<lambda>effect. component.Effect (g effect)) es) = None"
    and "filter_map f (map (\<lambda>effect. component.Effect (g effect)) es) = []"
  by (induction es) (simp_all add: assms)

lemma ability_components_fields:
  "entity_all effect_field (Entity i (ability_components name c effects @ cs))
    = map convert_effect effects @ filter_map effect_field cs"
  "entity_get event_field (Entity i (ability_components name None effects @ cs)) = find_map event_field cs"
  "entity_get cost_field (Entity i (ability_components name (Some cost) effects @ cs)) = Some (convert_cost cost)"
  by (auto simp: entity_all_def entity_get_def ability_components_def find_map_append no_effect_field
      event_field_def effect_field_def cost_field_def split: option.split)

lemmas ability_fields = ability_components_fields [where cs = "[]", simplified]

lemma allowed_trigger_still: "allowed effect_context.Trigger e \<Longrightarrow> \<not> moves_summons (convert_effect e)"
  by (cases e) (auto simp: moves_summons_def)

text \<open>What an ability becomes.\<close>

fun shaped :: "model_ability_kind \<Rightarrow> component \<Rightarrow> bool" where
  "shaped (model_ability_kind.Attack cost effects) c \<longleftrightarrow> (\<exists>a. c = component.Attack a \<and> paid_ability a)"
| "shaped (model_ability_kind.Skill cost effects) c \<longleftrightarrow> (\<exists>a. c = component.Skill a \<and> paid_ability a)"
| "shaped (model_ability_kind.Passive m) c \<longleftrightarrow> (\<exists>p. c = component.Passive p)"
| "shaped (model_ability_kind.Trigger event response effects) c \<longleftrightarrow>
     (\<exists>t. c = component.Trigger t \<and> still_trigger t)"

lemma convert_ability_kind_shaped:
  assumes "convert_ability_kind kind i name path = Inr c" and "ability_ok kind"
  shows "shaped kind c"
proof (cases kind)
  case (Trigger event response effects)
  let ?rest = "[component.Event (convert_trigger_event event)]
    @ (if response = Respondable then [component.Respondable] else [])"
  have "filter_map effect_field ?rest = []" and "find_map event_field ?rest = Some (convert_trigger_event event)"
    by (simp_all add: effect_field_def event_field_def)
  then have "still_trigger (Entity i (ability_components name None effects @ ?rest))"
    using assms(2) Trigger
    by (auto simp: still_trigger_def ability_components_fields effects_ok_def list_all_iff
        dest: allowed_trigger_still)
  then show ?thesis using assms(1) Trigger by (auto simp: convert_ability_kind_def)
next
  case (Attack cost effects)
  then show ?thesis
    using assms by (auto simp: convert_ability_kind_def paid_ability_def effects_ok_def ability_fields)
next
  case (Skill cost effects)
  then show ?thesis
    using assms by (auto simp: convert_ability_kind_def paid_ability_def effects_ok_def ability_fields)
qed (use assms in \<open>auto simp: convert_ability_kind_def and_then_Inr\<close>)

lemma reject_duplicate_id_Inr:
  "reject_duplicate_id seen i path = Inr seen' \<longleftrightarrow> seen i = None \<and> seen' = seen(i \<mapsto> path)"
  by (auto simp: reject_duplicate_id_def split: option.splits)

lemma map_le_fresh: "m i = None \<Longrightarrow> m \<subseteq>\<^sub>m m(i \<mapsto> v)"
  by (auto simp: map_le_def)

lemma convert_ability_Inr:
  assumes "convert_ability uuid sc cc n a k ids = Inr (c, ids')" and "ability_ok (ma_kind a)"
  shows "shaped (ma_kind a) c" and "ir_seen_ids ids \<subseteq>\<^sub>m ir_seen_ids ids'"
  using assms by (auto simp: convert_ability_def and_then_Inr Let_def reject_duplicate_id_Inr
      intro: convert_ability_kind_shaped map_le_fresh)

lemma convert_abilities_Inr:
  "convert_abilities uuid sc cc n as k ids = Inr (cs, ids') \<Longrightarrow> list_all (\<lambda>a. ability_ok (ma_kind a)) as
    \<Longrightarrow> list_all2 (\<lambda>a c. shaped (ma_kind a) c) as cs \<and> ir_seen_ids ids \<subseteq>\<^sub>m ir_seen_ids ids'"
proof (induction as arbitrary: k ids cs)
  case (Cons a as)
  then obtain c ids1 "cs'" where a: "convert_ability uuid sc cc n a k ids = Inr (c, ids1)"
    and rest: "convert_abilities uuid sc cc n as (k + 1) ids1 = Inr (cs', ids')" and cs: "cs = c # cs'"
    by (auto simp: and_then_Inr)
  from Cons.IH [OF rest] convert_ability_Inr [OF a] Cons.prems(2) show ?case
    by (auto simp: cs intro: map_le_trans)
qed simp

lemma shaped_fields:
  "list_all2 (\<lambda>a c. shaped (ma_kind a) c) as cs \<Longrightarrow>
    length (filter_map attack_field cs) = length (filter is_attack as)
    \<and> list_all paid_ability (filter_map attack_field cs) \<and> list_all paid_ability (filter_map skill_field cs)
    \<and> list_all still_trigger (filter_map trigger_field cs) \<and> find_map tags_field cs = None"
proof (induction rule: list_all2_induct)
  case (Cons a as c cs)
  then show ?case by (cases "ma_kind a") (auto simp: field_defs is_attack_def)
qed simp

section \<open>Converted cards\<close>

lemma convert_mana_type_inj: "inj convert_mana_type"
proof (rule injI)
  fix x y show "convert_mana_type x = convert_mana_type y \<Longrightarrow> x = y" by (cases x; cases y) simp_all
qed

lemma passives_fields:
  assumes "try_enumerate f i ms = Inr ps" and "\<And>j m c. f j m = Inr c \<Longrightarrow> \<exists>p. c = component.Passive p"
  shows "find_map persistent_field ps = None" and "filter_map trigger_field ps = []"
    and "find_map form_field ps = None"
proof -
  have "find_map persistent_field ps = None \<and> filter_map trigger_field ps = [] \<and> find_map form_field ps = None"
    using assms(1)
  proof (induction ms arbitrary: i ps)
    case (Cons m ms)
    then obtain c cs where c: "f i m = Inr c" and cs: "try_enumerate f (i + 1) ms = Inr cs" "ps = c # cs"
      by (auto simp: and_then_Inr)
    from assms(2) [OF c] Cons.IH [OF cs(1)] show ?case by (auto simp: cs(2) field_defs)
  qed simp
  then show "find_map persistent_field ps = None" and "filter_map trigger_field ps = []"
    and "find_map form_field ps = None" by blast+
qed

lemma convert_card_printed:
  assumes card: "convert_card uuid sc raw i n ids = Inr (e, ids')" and ok: "card_ok (mk_kind raw)"
  shows "entity_id e = i" and "entity_get name_field e = Some (mk_name raw)" and "well_printed e"
    and "family e = kind_family (mk_kind raw)" and "ir_seen_ids ids \<subseteq>\<^sub>m ir_seen_ids ids'"
proof -
  have "entity_id e = i \<and> entity_get name_field e = Some (mk_name raw) \<and> well_printed e
    \<and> family e = kind_family (mk_kind raw) \<and> ir_seen_ids ids \<subseteq>\<^sub>m ir_seen_ids ids'"
  proof (cases "mk_kind raw")
    case (Summon form life types retreat abilities)
    from card obtain cs where cs: "convert_abilities uuid sc (mk_code raw) n abilities 0 ids = Inr (cs, ids')"
      and e: "e = Entity i (component.Name (mk_name raw) # [component.Form (convert_form form),
        component.Life life, component.Produces (map convert_mana_type types),
        component.RetreatCost retreat] @ cs)"
      by (auto simp: convert_card_def Summon and_then_Inr Let_def)
    from convert_abilities_Inr [OF cs] ok Summon
    have le: "ir_seen_ids ids \<subseteq>\<^sub>m ir_seen_ids ids'" and fields:
      "length (filter_map attack_field cs) = 1" "list_all paid_ability (filter_map attack_field cs)"
      "list_all paid_ability (filter_map skill_field cs)"
      "list_all still_trigger (filter_map trigger_field cs)" "find_map tags_field cs = None"
      using shaped_fields by fastforce+
    have "family e = card_kind.Summon" using fields by (simp add: family_def e read_defs field_defs)
    moreover have "printed_summon e"
      using fields ok Summon inj_on_subset [OF convert_mana_type_inj]
      by (auto simp: printed_summon_def e read_defs field_defs distinct_map)
    ultimately show ?thesis using le Summon by (simp add: well_printed_def e read_defs field_defs)
  next
    case (Spell timing cost effects)
    then show ?thesis
      using card ok
      by (auto simp: convert_card_def Let_def well_printed_def family_def printed_spell_def paid_ability_def
          read_defs effects_ok_def no_effect_field field_defs)
  next
    case (Enchantment cost effects modifiers)
    from card obtain ps where ps: "try_enumerate (\<lambda>index modifier.
            and_then (convert_modifier modifier
              (index_path (field_path (index_path ''cards'' n) ''modifiers'') index)) (\<lambda>m.
            Inr (component.Passive m))) 0 modifiers = Inr ps"
      and e: "e = Entity i (component.Name (mk_name raw) # [component.Tags [''enchantment''],
        component.Timing spell_timing.Support, component.Cost (convert_cost cost)]
        @ map (\<lambda>effect. component.Effect (convert_effect effect)) effects @ ps @ [component.Persistent])"
      and ids: "ids' = ids"
      by (auto simp: convert_card_def Enchantment and_then_Inr Let_def)
    have "find_map persistent_field ps = None" "filter_map trigger_field ps = []"
      "find_map form_field ps = None"
      by (rule passives_fields [OF ps]; auto simp: and_then_Inr)+
    then show ?thesis
      using ok Enchantment
      by (auto simp: well_printed_def family_def printed_enchantment_def paid_ability_def e ids
          read_defs effects_ok_def no_effect_field find_map_append field_defs)
  qed
  then show "entity_id e = i" and "entity_get name_field e = Some (mk_name raw)" and "well_printed e"
    and "family e = kind_family (mk_kind raw)" and "ir_seen_ids ids \<subseteq>\<^sub>m ir_seen_ids ids'"
    by blast+
qed

section \<open>Loaded Sets\<close>

definition card_input :: "stable_code \<Rightarrow> stable_code \<Rightarrow> string" where
  "card_input set_code code = ''set:'' @ stable_code_text set_code @ ''/card:'' @ stable_code_text code"

text \<open>What a card becomes, and under which identity.\<close>

definition minted_card :: "uuid_v5 \<Rightarrow> stable_code \<Rightarrow> model_card \<Rightarrow> entity \<Rightarrow> bool" where
  "minted_card uuid code raw e \<longleftrightarrow>
     entity_id_parse (uuid id_namespace (card_input code (mk_code raw))) = Inr (entity_id e)
     \<and> entity_get name_field e = Some (mk_name raw) \<and> well_printed e
     \<and> family e = kind_family (mk_kind raw)"

lemma mint_Inr: "mint uuid input path = Inr i \<longleftrightarrow> entity_id_parse (uuid id_namespace input) = Inr i"
  by (cases "entity_id_parse (uuid id_namespace input)") (auto simp: mint_def Let_def)

lemma convert_cards_Inr:
  assumes "convert_cards uuid code raws n card_ids ids = Inr (es, card_ids', ids')"
    and "list_all (\<lambda>c. card_ok (mk_kind c)) raws"
  shows "list_all2 (minted_card uuid code) raws es
    \<and> card_ids' = btree.insert_all (zip (map (\<lambda>c. stable_code_text (mk_code c)) raws) (map entity_id es)) card_ids
    \<and> distinct (map entity_id es) \<and> (\<forall>e \<in> set es. ir_seen_ids ids (entity_id e) = None)"
  using assms
proof (induction raws arbitrary: n card_ids ids es)
  case Nil
  then show ?case by (auto simp: btree.insert_all_def)
next
  case (Cons raw raws)
  define path where "path = field_path (index_path ''cards'' n) ''code''"
  from Cons.prems(1) obtain i seen e ids1 "es'" where
    i: "mint_card_id uuid code (mk_code raw) path = Inr i"
    and seen: "reject_duplicate_id (ir_seen_ids ids) i path = Inr seen"
    and e: "convert_card uuid code raw i n (ids\<lparr>ir_seen_ids := seen\<rparr>) = Inr (e, ids1)"
    and rest: "convert_cards uuid code raws (n + 1)
      (btree_insert (stable_code_text (mk_code raw)) i card_ids) ids1 = Inr (es', card_ids', ids')"
    and es: "es = e # es'"
    by (auto simp: Let_def and_then_Inr path_def)
  from Cons.prems(2) have ok: "card_ok (mk_kind raw)" by simp
  note made = convert_card_printed [OF e ok]
  have i': "entity_id_parse (uuid id_namespace (card_input code (mk_code raw))) = Inr i"
    using i by (simp add: mint_card_id_def mint_Inr card_input_def)
  have le: "(ir_seen_ids ids)(i \<mapsto> path) \<subseteq>\<^sub>m ir_seen_ids ids1" and fresh: "ir_seen_ids ids i = None"
    using made(5) seen by (auto simp: reject_duplicate_id_Inr)
  have later: "ir_seen_ids ids x = None \<and> x \<noteq> i" if "ir_seen_ids ids1 x = None" for x
  proof -
    have "x \<notin> dom ((ir_seen_ids ids)(i \<mapsto> path))" using le that map_le_implies_dom_le by fastforce
    then show ?thesis by (auto split: if_splits)
  qed
  have IH: "list_all2 (minted_card uuid code) raws es'"
    "card_ids' = btree.insert_all (zip (map (\<lambda>c. stable_code_text (mk_code c)) raws) (map entity_id es'))
      (btree_insert (stable_code_text (mk_code raw)) i card_ids)"
    "distinct (map entity_id es')" "\<forall>x \<in> set es'. ir_seen_ids ids1 (entity_id x) = None"
    using Cons.IH [OF rest] Cons.prems(2) by simp_all
  have "\<forall>x \<in> set es'. ir_seen_ids ids (entity_id x) = None \<and> entity_id x \<noteq> i" using IH(4) later by blast
  moreover have "minted_card uuid code raw e" using made(1-4) i' by (simp add: minted_card_def)
  ultimately show ?case using IH(1-3) made(1) fresh by (auto simp: es btree.insert_all_def)
qed

lemma convert_set_Inr:
  assumes "convert_set uuid m = Inr s" and "model_ok m"
  shows "list_all2 (minted_card uuid (ms_code m)) (ms_cards m) (cs_entities (st_cards s))"
    and "st_card_ids s = btree_collect (zip (map (\<lambda>c. stable_code_text (mk_code c)) (ms_cards m))
      (map entity_id (cs_entities (st_cards s))))"
    and "distinct (map entity_id (cs_entities (st_cards s)))"
    and "st_code s = stable_code_text (ms_code m)" and "st_revision s = ms_revision m"
proof -
  have "list_all (\<lambda>c. card_ok (mk_kind c)) (ms_cards m)"
    using assms(2) by (auto simp: model_ok_def list_all_iff)
  with assms(1) convert_cards_Inr show
    "list_all2 (minted_card uuid (ms_code m)) (ms_cards m) (cs_entities (st_cards s))"
    and "st_card_ids s = btree_collect (zip (map (\<lambda>c. stable_code_text (mk_code c)) (ms_cards m))
      (map entity_id (cs_entities (st_cards s))))"
    and "distinct (map entity_id (cs_entities (st_cards s)))"
    and "st_code s = stable_code_text (ms_code m)" and "st_revision s = ms_revision m"
    by (fastforce simp: convert_set_def and_then_Inr card_set_new_simps btree_collect_def
        btree.insert_all_def)+
qed

section \<open>Libraries\<close>

definition load_library ::
  "uuid_v5 \<Rightarrow> dto_set toml_reader \<Rightarrow> u8 list list \<Rightarrow> (set_load_error + library_error) + card_library" where
  "load_library uuid toml documents =
     and_then (map_err Inl (try_map (parse_set uuid toml) documents)) (\<lambda>sets.
     map_err Inr (from_sets sets))"

lemma map_err_Inr: "map_err f r = Inr a \<longleftrightarrow> r = Inr a"
  by (cases r) simp_all

lemma try_map_Inr: "try_map f xs = Inr ys \<longleftrightarrow> list_all2 (\<lambda>x y. f x = Inr y) xs ys"
  by (induction xs arbitrary: ys) (auto simp: and_then_Inr list_all2_Cons1)

lemma load_library_Inr:
  "load_library uuid toml documents = Inr library \<longleftrightarrow>
    (\<exists>sets. list_all2 (\<lambda>bytes s. parse_set uuid toml bytes = Inr s) documents sets \<and> from_sets sets = Inr library)"
  by (auto simp: load_library_def and_then_Inr map_err_Inr try_map_Inr)

lemma load_v1_Inr:
  "load_v1 uuid decoded = Inr s \<Longrightarrow>
    \<exists>m. parse_set_model decoded = Inr m \<and> model_ok m \<and> convert_set uuid m = Inr s"
  by (auto simp: load_v1_def and_then_Inr parse_set_model_ok)

text \<open>The entries of a collected map with distinct keys.\<close>

lemma btree_collect_set:
  assumes "distinct (map fst kvs)" shows "set (btree_collect kvs) = set kvs"
proof -
  have sorted: "sorted_wrt (<) (map fst (fold (\<lambda>(k, v) m. btree_insert k v m) xs m))"
    if "sorted_wrt (<) (map fst m)" for xs :: "('a \<times> 'b) list" and m
    using that by (induction xs arbitrary: m) (auto intro!: btree_sorted)
  have "sorted_wrt (<) (map fst (btree_collect kvs))"
    unfolding btree_collect_def by (rule sorted) simp
  then have "distinct (map fst (btree_collect kvs))" by (simp add: strict_sorted_iff)
  moreover have "map_of (btree_collect kvs) = map_of kvs"
    using btree_collect_get [of kvs] map_of_rev [OF assms] by (auto simp: btree_get_def)
  ultimately have "(x \<in> set (btree_collect kvs)) = (x \<in> set kvs)" for x
    using map_of_eq_Some_iff [of "btree_collect kvs" "fst x" "snd x"]
      map_of_eq_Some_iff [OF assms, of "fst x" "snd x"] by simp
  then show ?thesis by blast
qed

lemma list_all2_member2: "list_all2 P xs ys \<Longrightarrow> y \<in> set ys \<Longrightarrow> \<exists>x \<in> set xs. P x y"
  by (induction rule: list_all2_induct) auto

lemma list_all2_member1: "list_all2 P xs ys \<Longrightarrow> x \<in> set xs \<Longrightarrow> \<exists>y \<in> set ys. P x y"
  by (induction rule: list_all2_induct) auto

lemma loaded_set_facts:
  assumes "load_v1 uuid decoded = Inr s"
  shows "st_code s = ds_id decoded"
    and "set (map snd (st_card_ids s)) = entity_id ` set (cs_entities (st_cards s))"
    and "\<forall>e \<in> set (cs_entities (st_cards s)). well_printed e"
    and "distinct (map entity_id (cs_entities (st_cards s)))"
    and "\<forall>raw \<in> set (ds_cards decoded). \<exists>e \<in> set (cs_entities (st_cards s)).
      (dc_code raw, entity_id e) \<in> set (st_card_ids s) \<and> entity_get name_field e = Some (dc_name raw)
      \<and> family e = authored_family (dc_kind raw)"
proof -
  let ?es = "cs_entities (st_cards s)"
  obtain m where parsed: "parse_set_model decoded = Inr m" and m: "model_ok m" "convert_set uuid m = Inr s"
    using load_v1_Inr [OF assms] by blast
  note made = convert_set_Inr [OF m(2,1)]
  have cards: "list_all2 authored_as (ds_cards decoded) (ms_cards m)" and "ms_code m = StableCode (ds_id decoded)"
    using parsed by (auto simp: parse_set_model_def and_then_Inr stable_code_parse_def
        dest: parse_cards_as split: if_splits)
  then show "st_code s = ds_id decoded" using made(4) by simp
  show "distinct (map entity_id ?es)" by (rule made(3))
  have len: "length (ms_cards m) = length ?es" using made(1) by (rule list_all2_lengthD)
  have "distinct (map stable_code_text (map mk_code (ms_cards m)))"
    using m(1) unfolding model_ok_def distinct_map [of stable_code_text]
    by (auto simp: inj_on_def intro: stable_code.expand)
  then have ids: "set (st_card_ids s)
      = set (zip (map (\<lambda>c. stable_code_text (mk_code c)) (ms_cards m)) (map entity_id ?es))"
    unfolding made(2) by (intro btree_collect_set) (use len in \<open>simp add: comp_def\<close>)
  have "set (map snd (st_card_ids s)) = snd ` set (st_card_ids s)" by simp
  also have "\<dots> = set (map snd (zip (map (\<lambda>c. stable_code_text (mk_code c)) (ms_cards m)) (map entity_id ?es)))"
    unfolding ids by simp
  also have "\<dots> = entity_id ` set ?es" using len by (simp add: map_snd_zip)
  finally show "set (map snd (st_card_ids s)) = entity_id ` set ?es" .
  show "\<forall>e \<in> set ?es. well_printed e"
    using list_all2_member2 [OF made(1)] by (auto simp: minted_card_def)
  show "\<forall>raw \<in> set (ds_cards decoded). \<exists>e \<in> set ?es. (dc_code raw, entity_id e) \<in> set (st_card_ids s)
      \<and> entity_get name_field e = Some (dc_name raw) \<and> family e = authored_family (dc_kind raw)"
  proof
    fix raw assume "raw \<in> set (ds_cards decoded)"
    then obtain n where n: "n < length (ds_cards decoded)" "raw = ds_cards decoded ! n"
      by (auto simp: in_set_conv_nth)
    then have as: "n < length (ms_cards m)" "authored_as raw (ms_cards m ! n)"
      using cards by (auto simp: list_all2_conv_all_nth)
    then have "minted_card uuid (ms_code m) (ms_cards m ! n) (?es ! n)" "n < length ?es"
      using made(1) len by (auto simp: list_all2_conv_all_nth)
    moreover have "(stable_code_text (mk_code (ms_cards m ! n)), entity_id (?es ! n)) \<in> set (st_card_ids s)"
      unfolding ids set_zip using as(1) len by (simp, intro exI [of _ n], simp)
    ultimately show "\<exists>e \<in> set ?es. (dc_code raw, entity_id e) \<in> set (st_card_ids s)
        \<and> entity_get name_field e = Some (dc_name raw) \<and> family e = authored_family (dc_kind raw)"
      using as(2) by (intro bexI [of _ "?es ! n"]) (auto simp: authored_as_def minted_card_def)
  qed
qed

lemma distinct_concat_sub:
  assumes "distinct (concat (map g xs))" and "\<And>x. x \<in> set xs \<Longrightarrow> distinct (h x) \<and> set (h x) \<subseteq> set (g x)"
  shows "distinct (concat (map h xs))"
  using assms
proof (induction xs)
  case (Cons x xs)
  have "set (concat (map h xs)) \<subseteq> set (concat (map g xs))" using Cons.prems(2) by fastforce
  moreover have "set (h x) \<subseteq> set (g x)" "distinct (h x)" using Cons.prems(2) by auto
  moreover have "distinct (concat (map h xs))" using Cons by simp
  moreover have "set (g x) \<inter> set (concat (map g xs)) = {}" using Cons.prems(1) by simp
  ultimately have "set (h x) \<inter> set (concat (map h xs)) = {}" by blast
  with \<open>distinct (h x)\<close> \<open>distinct (concat (map h xs))\<close> show ?case by simp
qed simp

lemma loaded_set: "parse_set uuid toml bytes = Inr s \<Longrightarrow> \<exists>decoded. load_v1 uuid decoded = Inr s"
  by (auto simp: parse_set_def and_then_Inr)

lemma loaded_library:
  assumes "load_library uuid toml documents = Inr library"
  shows "cl_core_cards library = card_set_new (cs_entities (cl_core_cards library))"
    and "\<forall>e \<in> set (cs_entities (cl_core_cards library)). well_printed e"
    and "distinct (map entity_id (cs_entities (cl_core_cards library)))"
    and "library_card_id library key = Some i \<Longrightarrow> i \<in> entity_id ` set (cs_entities (cl_core_cards library))"
proof -
  obtain sets where sets: "list_all2 (\<lambda>bytes s. parse_set uuid toml bytes = Inr s) documents sets"
    and library: "from_sets sets = Inr library"
    using assms by (auto simp: load_library_Inr)
  have es: "cs_entities (cl_core_cards library) = concat (map (\<lambda>s. cs_entities (st_cards s)) sets)"
    and "cl_core_cards library = card_set_new (concat (map (\<lambda>s. cs_entities (st_cards s)) sets))"
    and ids: "distinct (map fst (concat (map set_identities sets)))"
    using library by (auto simp: from_sets_Inr card_set_new_simps)
  then show "cl_core_cards library = card_set_new (cs_entities (cl_core_cards library))" by simp
  have loaded: "\<exists>decoded. load_v1 uuid decoded = Inr s" if "s \<in> set sets" for s
    using list_all2_member2 [OF sets that] loaded_set by blast
  show "\<forall>e \<in> set (cs_entities (cl_core_cards library)). well_printed e"
    unfolding es using loaded loaded_set_facts(3) by fastforce
  have "distinct (map entity_id (cs_entities (st_cards s)))
      \<and> set (map entity_id (cs_entities (st_cards s))) \<subseteq> set (map fst (set_identities s))"
    if "s \<in> set sets" for s
  proof -
    from loaded [OF that] obtain decoded where d: "load_v1 uuid decoded = Inr s" by blast
    have "set (map entity_id (cs_entities (st_cards s))) = set (map snd (st_card_ids s))"
      unfolding loaded_set_facts(2) [OF d] by simp
    also have "\<dots> = fst ` set (map (\<lambda>(code, i). (i, qualified_key (st_code s) code)) (st_card_ids s))"
      by (simp add: image_image split_def)
    also have "\<dots> \<subseteq> set (map fst (set_identities s))"
      by (simp only: set_identities_def list.set list.map map_append set_append set_map) blast
    finally show ?thesis using loaded_set_facts(4) [OF d] by blast
  qed
  moreover have "distinct (concat (map (\<lambda>s. map fst (set_identities s)) sets))"
    using ids by (simp add: map_concat comp_def)
  ultimately have "distinct (concat (map (\<lambda>s. map entity_id (cs_entities (st_cards s))) sets))"
    by (rule distinct_concat_sub [rotated])
  then show "distinct (map entity_id (cs_entities (cl_core_cards library)))"
    unfolding es by (simp add: map_concat comp_def)
  show "i \<in> entity_id ` set (cs_entities (cl_core_cards library))" if "library_card_id library key = Some i"
  proof -
    have "(key, i) \<in> set (all_keys sets)" using that library_card_id_Some [OF library] by blast
    then obtain s where s: "s \<in> set sets" "(key, i) \<in> set (set_keys s)" by (auto simp: all_keys_def)
    then have "i \<in> set (map snd (st_card_ids s))" by (force simp: set_keys_def)
    moreover from loaded [OF s(1)] obtain decoded where "load_v1 uuid decoded = Inr s" by blast
    ultimately show ?thesis using loaded_set_facts(2) s(1) by (auto simp: es)
  qed
qed

lemma library_entity:
  assumes "load_library uuid toml documents = Inr library"
    and "e \<in> set (cs_entities (cl_core_cards library))"
  shows "card_set_get (cl_core_cards library) (entity_id e) = Some e"
proof -
  have "card_set_get (card_set_new (cs_entities (cl_core_cards library))) (entity_id e) = Some e"
    unfolding card_set_get_new using find_distinct_key loaded_library(3) [OF assms(1)] assms(2) by fast
  then show ?thesis using loaded_library(1) [OF assms(1)] by simp
qed

text \<open>C17: every card that is authored in a loaded document is found in the library under its
  qualified key, and the card found prints the authored name, is of the authored family and is
  well printed: a Summon has a positive Life, a Form, Mana types and exactly one attack, and no
  Triggered Ability moves a Summon.\<close>

theorem authored_cards_resolve:
  assumes "load_library uuid toml documents = Inr library" and "bytes \<in> set documents"
    and "decode_set toml bytes = Inr decoded" and "raw \<in> set (ds_cards decoded)"
  shows "\<exists>e. library_card_id library (qualified_key (ds_id decoded) (dc_code raw)) = Some (entity_id e)
    \<and> card_set_get (cl_core_cards library) (entity_id e) = Some e
    \<and> entity_get name_field e = Some (dc_name raw) \<and> family e = authored_family (dc_kind raw)
    \<and> well_printed e"
proof -
  obtain sets where sets: "list_all2 (\<lambda>bytes s. parse_set uuid toml bytes = Inr s) documents sets"
    and library: "from_sets sets = Inr library"
    using assms(1) by (auto simp: load_library_Inr)
  obtain s where s: "s \<in> set sets" "parse_set uuid toml bytes = Inr s"
    using list_all2_member1 [OF sets assms(2)] by blast
  then have "load_v1 uuid decoded = Inr s" using assms(3) by (simp add: parse_set_def)
  note facts = loaded_set_facts [OF this]
  obtain e where e: "e \<in> set (cs_entities (st_cards s))" "(dc_code raw, entity_id e) \<in> set (st_card_ids s)"
    "entity_get name_field e = Some (dc_name raw)" "family e = authored_family (dc_kind raw)"
    using facts(5) assms(4) by blast
  have mem: "e \<in> set (cs_entities (cl_core_cards library))"
    using library s(1) e(1) by (auto simp: from_sets_Inr card_set_new_simps)
  have "(qualified_key (ds_id decoded) (dc_code raw), entity_id e) \<in> set (all_keys sets)"
    using s(1) e(2) facts(1) by (force simp: all_keys_def set_keys_def)
  then have "library_card_id library (qualified_key (ds_id decoded) (dc_code raw)) = Some (entity_id e)"
    by (simp add: library_card_id_Some [OF library])
  then show ?thesis
    using e library_entity [OF assms(1) mem] mem loaded_library(2) [OF assms(1)] by blast
qed

end
