(* ===== verification/Unbroken.thy ===== *)
theory Unbroken
  imports Chains Termination
begin

text \<open>
  A breakage is the engine's answer to a card that does not print what a rule needs. With cards that
  print a Life wherever they print a Form, no match ever meets one: only the destruction rules
  demand a component, and every Summon's topmost card prints a Form.
\<close>

definition lives_printed :: "entity list \<Rightarrow> bool" where
  "lives_printed es \<longleftrightarrow>
     (\<forall>e \<in> set es. entity_get form_field e \<noteq> None \<longrightarrow> entity_get life_field e \<noteq> None)"

definition unbroken :: "entity list \<Rightarrow> game_state \<Rightarrow> bool" where
  "unbroken es s \<longleftrightarrow> lives_printed es \<and> gs_cards s = card_set_new es \<and> chains_ok s
     \<and> (\<forall>b. gs_status s \<noteq> game_status.Broken b)"

definition no_breakage :: "game_state \<Rightarrow> game_state \<Rightarrow> bool" where
  "no_breakage s t \<longleftrightarrow> gs_status t = gs_status s \<or> (\<exists>out. gs_status t = game_status.Ended out)"

lemma no_breakage_refl [simp]: "no_breakage s s"
  by (simp add: no_breakage_def)

lemma no_breakage_trans: "no_breakage s t \<Longrightarrow> no_breakage t u \<Longrightarrow> no_breakage s u"
  by (auto simp: no_breakage_def)

lemma no_breakage_after: "no_breakage s t \<Longrightarrow> gs_status u = gs_status t \<Longrightarrow> no_breakage s u"
  by (simp add: no_breakage_def)

lemma no_breakage_leaf: "no_breakage s (fst (apply_leaf s source targets leaf))"
  using leaf_frame_apply_leaf by (auto simp: no_breakage_def leaf_frame_def)

interpretation whole: leaf_stable no_breakage
  by unfold_locales (auto intro: no_breakage_trans no_breakage_leaf)

section \<open>The destruction rules\<close>

lemma life_known:
  assumes "unbroken es s" and "summon_at (player_of s p) pos = Some summon"
  shows "\<exists>life. life_of (gs_cards s) summon = Inr life"
proof -
  have "form_in (gs_cards s) (chain_top (si_chain summon)) \<noteq> None"
    using assms chain_top_in_layers [of "si_chain summon"] by (auto simp: unbroken_def chains_ok_def climbs_def)
  then obtain e where e: "card_set_get (gs_cards s) (cr_def (chain_top (si_chain summon))) = Some e"
    and form: "entity_get form_field e \<noteq> None"
    by (auto simp: form_in_def bind_eq_Some_conv)
  then have "e \<in> set es" using assms(1) by (auto simp: unbroken_def card_set_get_new dest: find_member)
  with form assms(1) obtain life where "entity_get life_field e = Some life"
    by (auto simp: unbroken_def lives_printed_def)
  with e show ?thesis by (simp add: life_of_def entity_demand_def Let_def)
qed

lemma is_destroyed_known: "unbroken es s \<Longrightarrow> \<exists>d. is_destroyed s p pos = Inr d"
  using life_known by (fastforce simp: is_destroyed_def split: option.split)

lemma find_destroyed_known: "unbroken es s \<Longrightarrow> \<exists>d. find_destroyed s pos ps = Inr d"
proof (induction ps)
  case (Cons p ps)
  then show ?case using is_destroyed_known [OF Cons.prems, of p pos] by (auto split: if_splits)
qed simp

lemma unbroken_queued: "unbroken es s \<Longrightarrow> unbroken es (enqueue_destruction p pos s)"
  by (auto simp: unbroken_def chains_ok_def)

lemma check_players_whole: "unbroken es s \<Longrightarrow> gs_status (check_players s pos ps) = gs_status s"
proof (induction ps arbitrary: s)
  case (Cons p ps)
  obtain d where "is_destroyed s p pos = Inr d" using is_destroyed_known [OF Cons.prems] by blast
  with Cons.IH [OF Cons.prems] Cons.IH [OF unbroken_queued [OF Cons.prems]] show ?case
    by (simp add: enqueue_destruction_def frame_simps)
qed simp

section \<open>Steps\<close>

lemma execute_whole:
  assumes "unbroken es s" shows "no_breakage s (fst (execute s item))"
proof (cases item)
  case (FireTrigger p pos event ability)
  show ?thesis
  proof (cases rule: fire_queued_cases [of s p pos ability event])
    case (immediate effects)
    then show ?thesis using FireTrigger whole.leaves by simp
  qed (simp_all add: FireTrigger no_breakage_def)
next
  case (DestructionCheck pos)
  then show ?thesis using check_players_whole [OF assms] by (simp add: destruction_check_def no_breakage_def)
next
  case (DiscardDestroyedChain pos)
  obtain d where "destroyed_controller s pos = Inr d"
    using find_destroyed_known [OF assms] by (auto simp: destroyed_controller_def)
  then show ?thesis
    using DiscardDestroyedChain
    by (auto simp: discard_destroyed_chain_def no_breakage_def Let_def discover_front_eq split: option.splits)
next
  case DrawCard
  then show ?thesis
    by (auto simp: execute_draw_cases Let_def frame_simps no_breakage_def split: list.splits)
next
  case (PromoteBenchSummon p)
  then show ?thesis
    by (auto simp: promote_bench_summon_def promote_from_slot_def no_breakage_def
        split: list.splits option.splits)
next
  case (ProduceMana p src)
  then show ?thesis by (auto simp: produce_mana_def no_breakage_def split: list.splits)
qed (auto simp: frame_simps ready_all_def record_main_loss_def recover_prize_def begin_main_phase_def
    loss_check_def Let_def resolve_movement_consequences_def movement_trigger_eq no_breakage_def)

lemma resolve_item_whole: "no_breakage s (fst (resolve_item s item))"
proof -
  obtain src ts ls where *: "fst (resolve_item s item) = fst (apply_leaves s src ts ls)
    \<or> (\<exists>caster c. fst (resolve_item s item) = update_player (fst (apply_leaves s src ts ls)) caster
          (place_resolved_spell (gs_cards s) c))"
    using resolve_item_leaves by blast
  then show ?thesis using whole.leaves [of s src ts ls] by (auto intro: no_breakage_after)
qed

lemma dispatch_whole:
  assumes "dispatch s action = Inr out" and "\<not> is_resign action"
  shows "no_breakage s (ao_state out)"
proof (cases action)
  case (PlaySummon player i slot)
  with assms have "play_summon s player i slot = Inr out" by simp
  then show ?thesis by (rule play_summon_cases) (simp add: no_breakage_def)
next
  case (UpgradeSummon player i pos)
  with assms have "upgrade_summon s player i pos = Inr out" by simp
  then show ?thesis by (rule upgrade_summon_cases) (simp add: no_breakage_def)
next
  case (Retreat player slot hint)
  with assms have "retreat s player slot hint = Inr out" by simp
  then show ?thesis by (rule retreat_cases) (simp add: no_breakage_def frame_simps)
next
  case (CastSpell player i targets hint)
  with assms have "cast_spell s player i targets hint = Inr out" by simp
  then show ?thesis by (rule cast_spell_cases) (simp add: no_breakage_def)
next
  case (DeclareAttack player target hint)
  with assms have "declare_attack s player target hint = Inr out" by simp
  then show ?thesis by (rule declare_attack_cases) (simp add: no_breakage_def)
next
  case (ActivateSkill player pos ability targets hint)
  with assms have "activate_skill s player pos ability targets hint = Inr out" by simp
  then show ?thesis
  proof (rule activate_skill_cases)
    fix summon skill and payment :: payment
    let ?mid = "set_player s player (set_summon_at ((player_of s player)\<lparr>ps_mana := pm_bank payment\<rparr>) pos
      (Some (summon\<lparr>si_readiness := Exhausted\<rparr>)))"
    assume out: "ao_state out = fst (apply_leaves ?mid (effect_source.Skill player pos ability) targets
            (entity_all effect_field skill))"
    have "no_breakage s ?mid" by (simp add: no_breakage_def)
    then show ?thesis unfolding out by (rule no_breakage_trans [OF _ whole.leaves])
  qed
next
  case (PassPriority player)
  with assms show ?thesis
    by (auto simp: pass_def Let_def no_breakage_def handover_state frame_simps split: if_splits option.splits)
next
  case (ChooseManaType p t)
  then show ?thesis
    using assms by (auto simp: choose_mana_type_def no_breakage_def
        split: if_splits option.splits pending_input.splits)
next
  case (ChoosePromotion p slot)
  then show ?thesis
    using assms by (auto simp: answer_promotion_def promote_from_slot_def split_def Let_def no_breakage_def
        split: if_splits option.splits)
next
  case (ChoosePrize p n)
  then show ?thesis
    using assms by (auto simp: answer_prize_def Let_def no_breakage_def split: if_splits)
next
  case (EndTurn p)
  then show ?thesis
    using assms by (auto simp: end_turn_def no_breakage_def split: if_splits)
next
  case (ConvertCoin p t)
  then show ?thesis
    using assms by (auto simp: convert_coin_def no_breakage_def split: if_splits)
qed (use assms in \<open>simp add: is_resign_def\<close>)

section \<open>The invariant\<close>

lemma unbroken_step:
  assumes "unbroken es s" and "no_breakage s t" and "chains_ok t" and "gs_cards t = gs_cards s"
  shows "unbroken es t"
  using assms by (auto simp: unbroken_def no_breakage_def)

interpretation unbroken: game_invariant "unbroken es" for es
proof
  fix s :: game_state and source targets leaf
  assume ok: "unbroken es s"
  then have "chains_ok (fst (apply_leaf s source targets leaf))"
    by (intro climbing.I_leaf) (simp add: unbroken_def)
  then show "unbroken es (fst (apply_leaf s source targets leaf))"
    by (rule unbroken_step [OF ok no_breakage_leaf])
      (use leaf_frame_apply_leaf [of s source targets leaf] in \<open>simp add: leaf_frame_def\<close>)
next
  fix s :: game_state and item rest
  let ?s = "s\<lparr>gs_work := rest\<rparr>"
  assume "unbroken es s"
  then have ok: "unbroken es ?s" by (auto simp: unbroken_def chains_ok_def)
  have "no_new_chain ?s (fst (execute ?s item))" by (rule no_new_chain_execute)
  then show "unbroken es (fst (execute ?s item))"
    using ok chains_ok_no_new [of ?s]
    by (intro unbroken_step [OF ok execute_whole [OF ok]]) (simp_all add: unbroken_def no_new_chain_def)
next
  fix s :: game_state
  assume ok: "unbroken es s" and runs: "\<not> drain_stops s" and unresolved: "stack_has_unresolved_items s"
  have chains: "chains_ok (fst (resolve_top_stack_item s))"
    by (rule climbing.I_resolve) (use ok runs unresolved in \<open>simp_all add: unbroken_def\<close>)
  from unresolved show "unbroken es (fst (resolve_top_stack_item s))"
  proof (rule resolve_top_cases)
    fix below item
    let ?s = "s\<lparr>gs_stack := below\<rparr>"
    assume top': "fst (resolve_top_stack_item s) = close_segment (fst (resolve_item ?s item))"
    have "no_new_chain ?s (fst (resolve_item ?s item))" by (rule no_new_chain_resolve_item)
    moreover have "no_breakage s (fst (resolve_top_stack_item s))"
      using resolve_item_whole [of ?s item] by (simp add: top' no_breakage_def)
    ultimately show ?thesis
      by (intro unbroken_step [OF ok _ chains]) (simp_all add: top' no_new_chain_def)
  qed
next
  fix s :: game_state and action out
  assume ok: "unbroken es s" and acts: "\<not> is_resign action" "dispatch s action = Inr out"
  have "chains_ok (ao_state out)"
    by (rule chains_ok_handler) (use ok acts in \<open>simp_all add: unbroken_def\<close>)
  moreover have "gs_cards (ao_state out) = gs_cards s"
    using handled_dispatch [OF acts(2,1)] by (simp add: handled_def)
  ultimately show "unbroken es (ao_state out)"
    by (intro unbroken_step [OF ok dispatch_whole [OF acts(2,1)]])
next
  fix s :: game_state and outcome
  assume "unbroken es s"
  then show "unbroken es (s\<lparr>gs_status := game_status.Ended outcome\<rparr>)" by (auto simp: unbroken_def chains_ok_def)
qed

lemma reachable_unbroken:
  assumes "lives_printed es" and "reachable (card_set_new es) sc s"
  shows "unbroken es s"
proof (rule unbroken.I_reachable [OF _ assms(2)])
  fix start assume start: "from_scenario (card_set_new es) sc = Inr start"
  then show "unbroken es start"
    using from_scenario_Inr [OF start] parsed_chains [OF start] assms(1) by (simp add: unbroken_def Let_def)
qed

end
