(* ===== verification/Opening.thy ===== *)
theory Opening
  imports Setup Deck_Rules Loaded Unbroken Match
begin

text \<open>
  The parts together: documents are loaded into a library, Decks are resolved against it, two of
  them open a match, and the engine plays it.
\<close>

section \<open>Dealing\<close>

lemma mint_cards_spec:
  "mint_cards n defs = (refs, m) \<Longrightarrow> map cr_def refs = defs \<and> m = n + of_nat (length defs)
    \<and> map cr_instance refs = map (\<lambda>k. CardInstanceId (n + of_nat k)) [0..<length defs]"
proof (induction defs arbitrary: n refs m)
  case (Cons def defs)
  then obtain rest where rest: "mint_cards (n + 1) defs = (rest, m)"
    and refs: "refs = \<lparr>cr_instance = CardInstanceId n, cr_def = def\<rparr> # rest"
    by (auto simp: mint_instance_def Let_def split: prod.splits)
  have "map (\<lambda>k. CardInstanceId (n + of_nat k)) [0..<length (def # defs)]
      = CardInstanceId n # map (\<lambda>k. CardInstanceId (n + 1 + of_nat k)) [0..<length defs]"
    using map_upt_Suc [of "\<lambda>k. CardInstanceId (n + of_nat k)" "length defs"]
    by (simp add: add.assoc del: upt_Suc)
  with Cons.IH [OF rest] show ?case by (simp add: refs add.assoc)
qed simp

text \<open>A dealt player: five cards in hand, two Prizes, thirteen in the Deck, and the Starter on Main.\<close>

definition dealt :: "deck \<Rightarrow> u32 \<Rightarrow> scenario_player \<Rightarrow> bool" where
  "dealt d n sp \<longleftrightarrow>
     length (sp_hand sp) = 5 \<and> length (sp_prizes sp) = 2 \<and> length (sp_deck sp) = 13
     \<and> mset (map cr_def (sp_hand sp @ sp_prizes sp @ sp_deck sp)) = mset (dk_body d)
     \<and> sp_discard sp = [] \<and> sp_mana sp = mana_bank_default \<and> sp_main_losses sp = 0
     \<and> sp_bench sp = (\<lambda>_. None)
     \<and> sp_main sp = Some \<lparr>sc_chain = [\<lparr>cr_instance = CardInstanceId n, cr_def = dk_starter d\<rparr>],
         sc_damage = 0, sc_readiness = Exhausted\<rparr>
     \<and> mset (map cr_instance (player_card_refs sp))
         = mset (map (\<lambda>k. CardInstanceId (n + of_nat k)) [0..<21])"

lemma split_cards: "xs = take a xs @ take b (drop a xs) @ drop b (drop a xs)"
  by (simp only: append_take_drop_id)

lemma deal_spec:
  assumes "shuffles rng" and body: "length (dk_body d) = 20"
  shows "\<exists>sp g'. deal rng d n g = Some (sp, n + 21, g') \<and> dealt d n sp"
proof -
  obtain cards g' where shuffled: "rg_shuffle rng (dk_body d) g = (cards, g')" by force
  have cards: "mset cards = mset (dk_body d)"
    using assms(1) shuffled unfolding shuffles_def by (metis fst_conv)
  then have len: "length cards = 20" using body by (metis size_mset)
  obtain refs m where refs: "mint_cards (n + 1) cards = (refs, m)" by force
  note minted = mint_cards_spec [OF refs]
  have lenr: "length refs = 20" using minted len by (metis length_map)
  let ?hand = "take 5 refs" and ?prizes = "take 2 (drop 5 refs)" and ?deck = "drop 2 (drop 5 refs)"
  let ?sp = "\<lparr>sp_deck = ?deck, sp_hand = ?hand, sp_prizes = ?prizes, sp_discard = [],
    sp_mana = mana_bank_default, sp_main_losses = 0,
    sp_main = Some \<lparr>sc_chain = [\<lparr>cr_instance = CardInstanceId n, cr_def = dk_starter d\<rparr>], sc_damage = 0,
      sc_readiness = Exhausted\<rparr>, sp_bench = (\<lambda>_. None)\<rparr>"
  have parts: "refs = ?hand @ ?prizes @ ?deck" by (rule split_cards)
  have inst: "map (\<lambda>k. CardInstanceId (n + of_nat k)) [0..<21]
      = CardInstanceId n # map (\<lambda>k. CardInstanceId (n + 1 + of_nat k)) [0..<20]"
    using map_upt_Suc [of "\<lambda>k. CardInstanceId (n + of_nat k)" 20] by (simp add: add.assoc del: upt_rec_numeral)
  have "mset (map cr_def refs) = mset (dk_body d)" using minted cards by simp
  then have defs: "mset (map cr_def (?hand @ ?prizes @ ?deck)) = mset (dk_body d)" using parts by simp
  have "mset (map cr_instance (?hand @ ?prizes @ ?deck))
      = mset (map (\<lambda>k. CardInstanceId (n + 1 + of_nat k)) [0..<20])"
    using minted len parts by simp
  then have "mset (map cr_instance (player_card_refs ?sp))
      = mset (map (\<lambda>k. CardInstanceId (n + of_nat k)) [0..<21])"
    unfolding inst by (simp add: player_card_refs_def positioned_summons_def bench_all_def ac_simps del: upt_rec_numeral)
  then have "dealt d n ?sp" using defs lenr by (simp add: dealt_def del: upt_rec_numeral)
  moreover have "deal rng d n g = Some (?sp, n + 21, g')"
    using minted len lenr by (simp add: deal_def mint_instance_def shuffled refs split_at_def hand_size_def
        prize_count_def Let_def)
  ultimately show ?thesis by blast
qed

section \<open>Loaded card sets\<close>

definition library_entities :: "card_library \<Rightarrow> entity list" where
  "library_entities library = cs_entities (cl_core_cards library)"

lemma loaded_still:
  assumes "load_library uuid toml documents = Inr library"
  shows "still_triggers (library_entities library)" and "lives_printed (library_entities library)"
proof -
  have printed: "well_printed e" if "e \<in> set (library_entities library)" for e
    using loaded_library(2) [OF assms] that by (simp add: library_entities_def)
  show "still_triggers (library_entities library)"
    unfolding still_triggers_def
  proof (intro ballI)
    fix e t leaf
    assume e: "e \<in> set (library_entities library)" and t: "t \<in> set (entity_all trigger_field e)"
      and leaf: "leaf \<in> set (entity_all effect_field t)"
    from printed [OF e] t have "still_trigger t"
      by (cases "family e")
        (auto simp: well_printed_def printed_summon_def printed_spell_def printed_enchantment_def list_all_iff)
    then show "\<not> moves_summons leaf" using leaf by (simp add: still_trigger_def)
  qed
  show "lives_printed (library_entities library)"
    unfolding lives_printed_def
  proof (intro ballI impI)
    fix e assume "e \<in> set (library_entities library)" and "entity_get form_field e \<noteq> None"
    with printed [of e] show "entity_get life_field e \<noteq> None"
      by (cases "family e")
        (auto simp: well_printed_def printed_summon_def printed_spell_def printed_enchantment_def)
  qed
qed

lemma resolved_known:
  assumes "load_library uuid toml documents = Inr library" and "library_card_id library key \<noteq> None"
  shows "card_set_get (cl_core_cards library) (the (library_card_id library key)) \<noteq> None"
proof -
  obtain i where i: "library_card_id library key = Some i" using assms(2) by blast
  from loaded_library(4) [OF assms(1) i] obtain e
    where "e \<in> set (cs_entities (cl_core_cards library))" "entity_id e = i" by auto
  with library_entity [OF assms(1)] i show ?thesis by fastforce
qed

lemma parsed_deck:
  assumes "load_library uuid set_toml documents = Inr library" and "parse_deck toml bytes library = Inr d"
  shows "length (dk_body d) = 20"
    and "form_in (cl_core_cards library) \<lparr>cr_instance = i, cr_def = dk_starter d\<rparr> = Some form.Base"
    and "c \<in> set (dk_body d) \<Longrightarrow> card_set_get (cl_core_cards library) c \<noteq> None"
proof -
  obtain raw where "resolve raw library = Inr d"
    using assms(2) by (auto simp: parse_deck_def and_then_Inr split: if_splits)
  then have legal: "legal_deck library raw d" by (simp add: resolve_Inr)
  then show "length (dk_body d) = 20"
    and "form_in (cl_core_cards library) \<lparr>cr_instance = i, cr_def = dk_starter d\<rparr> = Some form.Base"
    by (auto simp: legal_deck_def prints_base_def form_in_def)
  show "card_set_get (cl_core_cards library) c \<noteq> None" if "c \<in> set (dk_body d)"
    using that legal resolved_known [OF assms(1)] by (auto simp: legal_deck_def expanded_def legal_reference_def)
qed

section \<open>The opening\<close>

lemma dealt_refs:
  assumes "dealt d n sp"
  shows "player_card_refs sp = sp_deck sp @ sp_hand sp @ sp_prizes sp
      @ [\<lparr>cr_instance = CardInstanceId n, cr_def = dk_starter d\<rparr>]"
    and "positioned_summons sp = [(position.Main, \<lparr>sc_chain = [\<lparr>cr_instance = CardInstanceId n,
      cr_def = dk_starter d\<rparr>], sc_damage = 0, sc_readiness = Exhausted\<rparr>)]"
    and "cr_def ` set (player_card_refs sp) = insert (dk_starter d) (set (dk_body d))"
proof -
  show pos: "positioned_summons sp = [(position.Main, \<lparr>sc_chain = [\<lparr>cr_instance = CardInstanceId n,
      cr_def = dk_starter d\<rparr>], sc_damage = 0, sc_readiness = Exhausted\<rparr>)]"
    using assms by (simp add: dealt_def positioned_summons_def bench_all_def)
  show refs: "player_card_refs sp = sp_deck sp @ sp_hand sp @ sp_prizes sp
      @ [\<lparr>cr_instance = CardInstanceId n, cr_def = dk_starter d\<rparr>]"
    using assms by (simp add: player_card_refs_def pos dealt_def)
  have "set (map cr_def (sp_hand sp @ sp_prizes sp @ sp_deck sp)) = set (dk_body d)"
    using assms unfolding dealt_def by (metis set_mset_mset)
  then show "cr_def ` set (player_card_refs sp) = insert (dk_starter d) (set (dk_body d))"
    by (auto simp: refs)
qed

lemma instances_distinct: "distinct (map (\<lambda>k. CardInstanceId (1 + of_nat k)) [0..<21]
    @ map (\<lambda>k. CardInstanceId (22 + of_nat k)) [0..<21])"
  by code_simp

text \<open>The well-formed opening that two legal Decks make.\<close>

lemma opening_well_formed:
  assumes library: "load_library uuid set_toml documents = Inr library"
    and decks: "parse_deck toml bytes1 library = Inr d1" "parse_deck toml bytes2 library = Inr d2"
    and dealt: "dealt d1 1 sp1" "dealt d2 22 sp2"
  shows "well_formed (cl_core_cards library)
    \<lparr>sn_players = pp_new sp1 sp2, sn_active_player = player_id.One, sn_coin = Some Coin\<rparr>"
proof -
  have "mset (map cr_instance (player_card_refs sp1 @ player_card_refs sp2))
      = mset (map (\<lambda>k. CardInstanceId (1 + of_nat k)) [0..<21]
          @ map (\<lambda>k. CardInstanceId (22 + of_nat k)) [0..<21])"
    using dealt unfolding dealt_def map_append mset_append by metis
  then have "distinct (map cr_instance (player_card_refs sp1 @ player_card_refs sp2))"
    using instances_distinct mset_eq_imp_distinct_iff by blast
  moreover have "card_set_get (cl_core_cards library) (cr_def c) \<noteq> None"
    if "c \<in> set (player_card_refs sp)" and "dealt d n sp" and "parse_deck toml bytes library = Inr d"
    for c sp d n bytes
  proof -
    have "cr_def c = dk_starter d \<or> cr_def c \<in> set (dk_body d)" using dealt_refs(3) [OF that(2)] that(1) by blast
    then show ?thesis
      using parsed_deck(2,3) [OF library that(3)] by (auto simp: form_in_def bind_eq_Some_conv)
  qed
  moreover have "climbs (cl_core_cards library) [\<lparr>cr_instance = i, cr_def = dk_starter d\<rparr>]"
    if "parse_deck toml bytes library = Inr d" for d i bytes
    using parsed_deck(2) [OF library that] by (simp add: climbs_def)
  ultimately show ?thesis
    using decks dealt
    by (auto simp: well_formed_def all_card_refs_def all_player pp_get_def pp_new_def
        dealt_refs(2) [OF dealt(1)] dealt_refs(2) [OF dealt(2)])
qed

lemma opening_state:
  assumes library: "load_library uuid set_toml documents = Inr library"
    and decks: "parse_deck toml bytes1 library = Inr d1" "parse_deck toml bytes2 library = Inr d2"
    and "shuffles rng"
  shows "\<exists>sp1 sp2 sc s. dealt d1 1 sp1 \<and> dealt d2 22 sp2
    \<and> sc = \<lparr>sn_players = pp_new sp1 sp2, sn_active_player = player_id.One, sn_coin = Some Coin\<rparr>
    \<and> initial_scenario rng d1 d2 seed = Some sc
    \<and> from_scenario (cl_core_cards library) sc = Inr s \<and> initial_state rng library d1 d2 seed = Some (Inr s)"
proof -
  have "(1 :: u32) + 21 = 22" by simp
  then obtain sp1 g1 where one: "deal rng d1 1 (rg_seed_from rng seed) = Some (sp1, 22, g1)" "dealt d1 1 sp1"
    using deal_spec [OF assms(4) parsed_deck(1) [OF library decks(1)], of 1 "rg_seed_from rng seed"] by metis
  obtain sp2 m g2 where two: "deal rng d2 22 g1 = Some (sp2, m, g2)" "dealt d2 22 sp2"
    using deal_spec [OF assms(4) parsed_deck(1) [OF library decks(2)], of 22] by blast
  let ?sc = "\<lparr>sn_players = pp_new sp1 sp2, sn_active_player = player_id.One, sn_coin = Some Coin\<rparr>"
  have "\<exists>s. from_scenario (cl_core_cards library) ?sc = Inr s"
    unfolding from_scenario_iff by (rule opening_well_formed [OF library decks one(2) two(2)])
  then obtain s where "from_scenario (cl_core_cards library) ?sc = Inr s" by blast
  then have "dealt d1 1 sp1 \<and> dealt d2 22 sp2 \<and> ?sc = ?sc \<and> initial_scenario rng d1 d2 seed = Some ?sc
    \<and> from_scenario (cl_core_cards library) ?sc = Inr s \<and> initial_state rng library d1 d2 seed = Some (Inr s)"
    using one two by (simp add: initial_scenario_def initial_state_def)
  then show ?thesis by blast
qed

lemma opened_facts:
  assumes "from_scenario cards
      \<lparr>sn_players = pp_new sp1 sp2, sn_active_player = player_id.One, sn_coin = Some Coin\<rparr> = Inr s"
    and "dealt d1 1 sp1" "dealt d2 22 sp2"
  shows "gs_players s = pp_new (built_player player_id.One sp1) (built_player player_id.Two sp2)"
    "gs_status s = game_status.Playing" "gs_coin s = Some Coin" "gs_stack s = []" "gs_work s = []"
    "gs_pending s = None" "ts_active_player (gs_turn s) = player_id.One" "ts_window (gs_turn s) = None"
  using from_scenario_Inr [OF assms(1)] assms(2,3)
  by (simp_all add: pp_new_def pp_get_def Let_def derive_pending_def built_player_def dealt_def)

text \<open>C15: two Decks accepted against a loaded library always open a match, whatever the seed: nothing
  panics and the scenario is never rejected. Player One is active and holds the Coin, nothing is
  pending, and each player has the exhausted Starter on Main, an empty Bench, five cards in hand,
  two Prizes and thirteen in the Deck, which together are exactly the twenty cards of the body.\<close>

theorem decks_open:
  assumes "load_library uuid set_toml documents = Inr library"
    and "parse_deck toml bytes1 library = Inr d1" and "parse_deck toml bytes2 library = Inr d2"
    and "shuffles rng"
  shows "\<exists>s. initial_state rng library d1 d2 seed = Some (Inr s)
    \<and> gs_status s = game_status.Playing \<and> required_actor s = player_id.One \<and> gs_coin s = Some Coin
    \<and> gs_pending s = None \<and> gs_stack s = [] \<and> gs_work s = []
    \<and> (\<forall>p. let ps = player_of s p; d = (case p of player_id.One \<Rightarrow> d1 | player_id.Two \<Rightarrow> d2) in
         length (ps_hand ps) = 5 \<and> length (ps_prizes ps) = 2 \<and> length (ps_deck ps) = 13
         \<and> mset (map cr_def (ps_hand ps @ ps_prizes ps @ ps_deck ps)) = mset (dk_body d)
         \<and> ps_discard ps = [] \<and> ps_main_losses ps = 0 \<and> (\<forall>slot. ps_bench ps slot = None)
         \<and> (\<exists>summon. ps_main ps = Some summon \<and> si_readiness summon = Exhausted \<and> si_damage summon = 0
              \<and> map cr_def (chain_layers (si_chain summon)) = [dk_starter d]))"
proof -
  obtain sp1 sp2 sc s where dealt: "dealt d1 1 sp1" "dealt d2 22 sp2"
    and sc: "sc = \<lparr>sn_players = pp_new sp1 sp2, sn_active_player = player_id.One, sn_coin = Some Coin\<rparr>"
    and s: "from_scenario (cl_core_cards library) sc = Inr s" "initial_state rng library d1 d2 seed = Some (Inr s)"
    using opening_state [OF assms] by blast
  note state = opened_facts [OF s(1) [unfolded sc] dealt]
  have "\<forall>p. let ps = player_of s p; d = (case p of player_id.One \<Rightarrow> d1 | player_id.Two \<Rightarrow> d2) in
         length (ps_hand ps) = 5 \<and> length (ps_prizes ps) = 2 \<and> length (ps_deck ps) = 13
         \<and> mset (map cr_def (ps_hand ps @ ps_prizes ps @ ps_deck ps)) = mset (dk_body d)
         \<and> ps_discard ps = [] \<and> ps_main_losses ps = 0 \<and> (\<forall>slot. ps_bench ps slot = None)
         \<and> (\<exists>summon. ps_main ps = Some summon \<and> si_readiness summon = Exhausted \<and> si_damage summon = 0
              \<and> map cr_def (chain_layers (si_chain summon)) = [dk_starter d])"
    using dealt by (simp add: all_player player_of_def pp_get_def pp_new_def state(1) built_player_def dealt_def
        built_summon_def chain_layers_def chain_new_def)
  then show ?thesis using s(2) state by (simp add: required_actor_def)
qed

lemma opened_reachable:
  assumes "load_library uuid set_toml documents = Inr library"
    and "parse_deck toml bytes1 library = Inr d1" and "parse_deck toml bytes2 library = Inr d2"
    and "shuffles rng" and "initial_state rng library d1 d2 seed = Some (Inr start)"
    and "plays start actions = Some s"
  obtains sp1 sp2 sc where "dealt d1 1 sp1" "dealt d2 22 sp2"
    "sn_players sc = pp_new sp1 sp2"
    "reachable (card_set_new (library_entities library)) sc s"
proof -
  obtain sp1 sp2 sc s' where dealt: "dealt d1 1 sp1" "dealt d2 22 sp2"
    and sc: "sc = \<lparr>sn_players = pp_new sp1 sp2, sn_active_player = player_id.One, sn_coin = Some Coin\<rparr>"
    and s': "from_scenario (cl_core_cards library) sc = Inr s'" "initial_state rng library d1 d2 seed = Some (Inr s')"
    using opening_state [OF assms(1-4)] by blast
  have cards: "card_set_new (library_entities library) = cl_core_cards library"
    using loaded_library(1) [OF assms(1)] by (simp add: library_entities_def)
  have "start = s'" using s'(2) assms(5) by simp
  then have "reachable (cl_core_cards library) sc s"
    using reachable.parsed [OF s'(1)] reachable_plays assms(6) by blast
  then show thesis
    by (intro that [OF dealt, of sc]) (simp_all only: cards, simp add: sc)
qed


text \<open>C16: nobody ever plays a card that is not in their Deck: in every state of a match opened from
  accepted Decks, the cards of a player over all zones and chains are cards of the player's Deck,
  none more often than the Deck holds it, and no Summon changes sides.\<close>

theorem only_deck_cards:
  assumes "load_library uuid set_toml documents = Inr library"
    and "parse_deck toml bytes1 library = Inr d1" and "parse_deck toml bytes2 library = Inr d2"
    and "shuffles rng" and "initial_state rng library d1 d2 seed = Some (Inr start)"
    and "plays start actions = Some s"
  shows "home s \<and> image_mset cr_def (owned s p) \<subseteq>#
    (case p of player_id.One \<Rightarrow> add_mset (dk_starter d1) (mset (dk_body d1))
             | player_id.Two \<Rightarrow> add_mset (dk_starter d2) (mset (dk_body d2)))"
proof -
  obtain sp1 sp2 sc where dealt: "dealt d1 1 sp1" "dealt d2 22 sp2" and sc: "sn_players sc = pp_new sp1 sp2"
    and reach: "reachable (card_set_new (library_entities library)) sc s"
    using opened_reachable [OF assms] by blast
  obtain begin_state where parsed: "from_scenario (card_set_new (library_entities library)) sc = Inr begin_state"
    and run: "no_gain begin_state s"
    using never_gains.from_start [OF reach] by blast
  have sub: "home s" "owned s p \<subseteq># mset (player_card_refs (pp_get (sn_players sc) p))"
    using run parsed_owned [OF parsed] by (auto simp: no_gain_def)
  have defs: "image_mset cr_def (mset (player_card_refs sp)) = add_mset (dk_starter d) (mset (dk_body d))"
    if "dealt d n sp" for d n sp
    using that dealt_refs(1) [OF that] by (simp add: dealt_def ac_simps)
  have "image_mset cr_def (owned s p) \<subseteq># image_mset cr_def (mset (player_card_refs (pp_get (sn_players sc) p)))"
    by (rule image_mset_subseteq_mono [OF sub(2)])
  then show ?thesis
    using sub(1) defs [OF dealt(1)] defs [OF dealt(2)] by (cases p) (simp_all add: sc pp_get_def pp_new_def)
qed

end
