(* ===== verification/Served.thy ===== *)
theory Served
  imports Serving Replay_Command Opening
begin

text \<open>
  The \<open>serve\<close> command from end to end: the session it opens, and the file it leaves behind, of which
  the \<open>replay\<close> command makes its summary: it finds the record of the match, the second line.
\<close>

section \<open>Lines of text\<close>

lemma utf8_tail_length: "utf8_tail seen n bs = Inr k \<Longrightarrow> k = seen + n \<and> n \<le> length bs"
  by (induction seen n bs rule: utf8_tail.induct) (auto split: if_splits)

lemma utf8_tail_append: "utf8_tail seen n bs = Inr k \<Longrightarrow> utf8_tail seen n (bs @ cs) = Inr k"
  by (induction seen n bs rule: utf8_tail.induct) (auto split: if_splits)

lemma utf8_char_append: "utf8_char a bs = Inr k \<Longrightarrow> utf8_char a (bs @ cs) = Inr k"
  by (cases bs) (auto simp: utf8_char_def Let_def utf8_tail_append split: if_splits)

lemma utf8_char_length: "utf8_char a bs = Inr k \<Longrightarrow> 1 \<le> k \<and> k - 1 \<le> length bs"
  by (cases bs) (auto simp: utf8_char_def Let_def split: if_splits dest!: utf8_tail_length)

lemma utf8_scan_append: "utf8_scan n bs = None \<Longrightarrow> utf8_scan n (bs @ cs) = utf8_scan (n + length bs) cs"
proof (induction n bs rule: utf8_scan.induct)
  case (2 n a bs)
  then obtain k where k: "utf8_char a bs = Inr k" by (auto split: sum.splits)
  obtain j where "k = Suc j" "j \<le> length bs" using utf8_char_length [OF k] by (cases k) auto
  then show ?case
    using 2 k utf8_char_append [OF k, of cs] by (simp add: add.assoc)
qed simp

lemma line_feed: "char_of (unat (10 :: u8)) = CHR 0x0A"
  by code_simp

lemma from_utf8_line: "from_utf8 b = Inr t \<Longrightarrow> from_utf8 (b @ [10]) = Inr (t @ [CHR 0x0A])"
  using utf8_scan_append [of 0 b "[10]"] line_feed
  by (auto simp: from_utf8_def utf8_char_def split: option.splits)

text \<open>\<open>read_line\<close> on a slice of bytes.\<close>

definition slice_read_line :: "u8 list \<Rightarrow> (io_error + string) \<times> u8 list" where
  "slice_read_line bytes =
     (map_err (\<lambda>_. IoError InvalidData ''stream did not contain valid UTF-8'') (from_utf8 (first_line bytes)),
      after_line bytes)"

section \<open>The summary of a log\<close>

text \<open>What serde answers when a line is read as a \<open>match_created\<close> record: the record, if it is one, and
  an error for any other record.\<close>

definition reads_created :: "serialization \<Rightarrow> (string \<Rightarrow> string + match_created_v1) \<Rightarrow> record_v1 \<Rightarrow> bool" where
  "reads_created sz from_str r \<longleftrightarrow>
     (\<forall>bytes text. sz_record sz r = Inr bytes \<and> from_utf8 bytes = Inr text \<longrightarrow>
       (case r of
          record_v1.MatchCreated created \<Rightarrow> from_str (text @ [CHR 0x0A]) = Inr created
        | _ \<Rightarrow> isl (from_str (text @ [CHR 0x0A]))))"

lemma slice_read_line_record:
  assumes "reads_back sz jd r" and "encode_record sz r = Inr l"
  obtains line where "sz_record sz r = Inr (butlast l)" "from_utf8 (butlast l) = Inr line"
    "slice_read_line (l @ rest) = (Inr (line @ [CHR 0x0A]), rest)"
proof -
  obtain b where b: "sz_record sz r = Inr b" "l = b @ [10]" using assms(2) encode_record_Inr by blast
  obtain line where "10 \<notin> set b" "from_utf8 b = Inr line" using assms(1) b(1) by (auto simp: reads_back_def)
  then show thesis
    using b from_utf8_line [of b line]
    by (intro that [of line]) (simp_all add: slice_read_line_def first_line_append)
qed

text \<open>The first line of a log is its header and the second its match.\<close>

lemma summary_found:
  assumes "try_map (encode_record sz) (records_in t) = Inr ls"
    and "\<forall>r \<in> set (records_in t). reads_back sz jd r \<and> reads_created sz from_str r"
  shows "recorded_match_created slice_read_line from_str (concat ls) = Some (Inr (tv_match_created t))"
proof -
  let ?header = "record_v1.Header (tv_header t)" and ?created = "record_v1.MatchCreated (tv_match_created t)"
  obtain h c more where ls: "ls = h # c # more" "encode_record sz ?header = Inr h" "encode_record sz ?created = Inr c"
    using assms(1) by (auto simp: records_in_def and_then_Inr)
  have ok: "reads_back sz jd ?header" "reads_created sz from_str ?header"
    "reads_back sz jd ?created" "reads_created sz from_str ?created"
    using assms(2) by (simp_all add: records_in_def)
  obtain ht where header: "sz_record sz ?header = Inr (butlast h)" "from_utf8 (butlast h) = Inr ht"
    "slice_read_line (h @ c @ concat more) = (Inr (ht @ [CHR 0x0A]), c @ concat more)"
    by (rule slice_read_line_record [OF ok(1) ls(2)])
  obtain ct where created: "sz_record sz ?created = Inr (butlast c)" "from_utf8 (butlast c) = Inr ct"
    "slice_read_line (c @ concat more) = (Inr (ct @ [CHR 0x0A]), concat more)"
    by (rule slice_read_line_record [OF ok(3) ls(3)])
  have "isl (from_str (ht @ [CHR 0x0A]))" "from_str (ct @ [CHR 0x0A]) = Inr (tv_match_created t)"
    using ok(2,4) header created by (auto simp: reads_created_def)
  then show ?thesis
    using header(3) created(3)
    by (subst recorded_match_created.simps)
      (auto simp: ls(1) recorded_match_created.simps [of _ _ "c @ concat more"] isl_def)
qed

text \<open>\<open>replay\<close> on a file that is such a log.\<close>

lemma replay_confirms:
  assumes "try_map (encode_record sz) (records_in t) = Inr ls"
    and "\<forall>r \<in> set (records_in t). reads_back sz jd r \<and> reads_created sz from_str r"
    and "verify_transcript sz slice_read_until jd (set_revision (bc_library catalog))
      (cl_core_cards (bc_library catalog)) (concat ls) = Some (Inr ())"
    and "tf_open files path = Inr (concat ls)" and "tf_rewind files = Inr"
    and "tf_read_until files = slice_read_until" and "tf_read_line files = slice_read_line"
  shows "run_replay files (Inr catalog) sz jd from_str path =
    Some (Inr \<lparr>vs_path = path, vs_required_sets = mc1_required_sets (tv_match_created t)\<rparr>)"
  using assms(3-7) summary_found [OF assms(1,2)] by (simp add: run_replay_def)

section \<open>What is served\<close>

lemma catalog_loaded:
  assumes "load_catalog uuid set_toml deck_toml foundations set_paths barrow_herd = Inr catalog"
  shows "load_library uuid set_toml [foundations] = Inr (bc_library catalog)"
  using assms by (auto simp: load_catalog_def load_library_def and_then_Inr map_err_Inr)

lemma load_decks_parsed:
  assumes "load_decks files fs toml library paths = Inr (one, two)"
  obtains bytes1 bytes2 where "parse_deck toml bytes1 library = Inr one" "parse_deck toml bytes2 library = Inr two"
  using assms by (auto simp: load_decks_def load_deck_def and_then_Inr map_err_Inr split: prod.splits)

lemma created_output:
  assumes "\<And>path fs w fs'. fo_create_new files path fs = (Inr w, fs') \<Longrightarrow> P w"
  shows "create_output files out fs = (Inr (w, path), fs') \<Longrightarrow> P w"
proof -
  have explicit: "create_explicit_output files path fs = (Inr (w, path'), fs') \<Longrightarrow> P w" for path fs w path' fs'
    using assms by (auto simp: create_explicit_output_def split: prod.splits sum.splits)
  have "create_default_output_from files directory seconds ks fs = (Inr (w, path), fs') \<Longrightarrow> P w"
    for directory seconds ks fs
    by (induction ks arbitrary: fs)
      (auto dest: explicit split: prod.splits sum.splits serve_error.splits io_error.splits error_kind.splits)
  then show "create_output files out fs = (Inr (w, path), fs') \<Longrightarrow> P w"
    by (cases out) (auto simp: create_default_output_def create_default_output_at_def dest: explicit
        split: prod.splits sum.splits)
qed

lemma opened_projects:
  assumes "load_library uuid set_toml documents = Inr library"
    and "parse_deck toml bytes1 library = Inr one" "parse_deck toml bytes2 library = Inr two"
    and "shuffles rng" and "initial_state rng library one two seed = Some (Inr s)"
  shows "gs_cards s = cl_core_cards library" and "projectable s"
proof -
  have "plays s [] = Some s" by simp
  then obtain sc where reach: "reachable (card_set_new (library_entities library)) sc s"
    using opened_reachable [OF assms] by metis
  show "gs_cards s = cl_core_cards library"
    using reachable_cards [OF reach] loaded_library(1) [OF assms(1)] by (simp add: library_entities_def)
  show "projectable s" by (rule reachable_projectable [OF reach])
qed

text \<open>What a session is opened with.\<close>

lemma open_session_Inr:
  assumes "open_session host args fs n = Some (Inr (sr, start), fs')"
  obtains catalog one two seed s w path metadata sets m where
    "ho_catalog host = Inr catalog"
    "load_decks (ho_files host) fs (ho_toml host) (bc_library catalog) (sa_decks args) = Inr (one, two)"
    "initial_state (ho_generator host) (bc_library catalog) one two seed = Some (Inr s)"
    "create_output (ho_files host) (sa_output args) fs = (Inr (w, path), fs')"
    "required_sets (bc_library catalog) = Inr sets"
    "record_start (ho_serialization host) (ho_writer host) w metadata sets s = Inr m"
    "start = session_start m n" "sr_serialization sr = ho_serialization host" "sr_writer sr = ho_writer host"
  using assms
  by (auto simp: open_session_def start_recording_def Let_def and_then_Inr map_err_Inr
      split: sum.splits prod.splits option.splits)

text \<open>C6: what is served can be replayed. When the server opens a match from the loaded catalog and two
  Deck files, and the game of its session ends without a failure of the recording, then, whatever
  the clients sent, in whatever order, and however their connections behaved, the output file holds
  exactly the lines of one transcript; and if serde reads back the records it wrote, the \<open>replay\<close>
  command on that file accepts it against the same catalog and confirms the revision of the
  foundations. Assumed are a file that is created empty and keeps what is written to it, and a
  shuffle that only reorders.\<close>
theorem served_match_replays:
  assumes "\<And>w bytes w'. wr_write_all (ho_writer host) w bytes = (Inr (), w') \<Longrightarrow> contents w' = contents w @ bytes"
    and "\<And>w w'. wr_flush (ho_writer host) w = (Inr (), w') \<Longrightarrow> contents w' = contents w"
    and "\<And>path fs w fs'. fo_create_new (ho_files host) path fs = (Inr w, fs') \<Longrightarrow> contents w = []"
    and "shuffles (ho_generator host)"
    and "load_catalog uuid set_toml deck_toml foundations set_paths barrow_herd = Inr catalog"
    and "ho_catalog host = Inr catalog"
    and "serve host args fs n events = Some (Inr r)" and "\<not> recording_failed r"
    and "gs_status (rm_state (se_recorder (result_session r))) = game_status.Ended outcome"
    and "tf_open files path = Inr (contents (rm_writer (se_recorder (result_session r))))"
    and "tf_rewind files = Inr" "tf_read_until files = slice_read_until" "tf_read_line files = slice_read_line"
  shows "\<exists>t ls revision. try_map (encode_record (ho_serialization host)) (records_in t) = Inr ls
    \<and> contents (rm_writer (se_recorder (result_session r))) = concat ls
    \<and> set_revision (bc_library catalog) ''foundations'' = Some revision
    \<and> ((\<forall>record \<in> set (records_in t). reads_back (ho_serialization host) jd record
            \<and> reads_created (ho_serialization host) from_str record) \<longrightarrow>
         (\<exists>summary. run_replay files (Inr catalog) (ho_serialization host) jd from_str path = Some (Inr summary)
            \<and> confirmation_line summary = ''OK '' @ path_text path
                @ '': transcript verified (foundations revision '' @ number_text revision @ '')''))"
proof -
  obtain sr start fs' where opened: "open_session host args fs n = Some (Inr (sr, start), fs')"
    and served: "serve_session sr events start = Some r"
    using assms(7) by (auto simp: serve_def split: option.splits sum.splits prod.splits)
  obtain one two seed s w out metadata sets m where
    decks: "load_decks (ho_files host) fs (ho_toml host) (bc_library catalog) (sa_decks args) = Inr (one, two)"
    and s: "initial_state (ho_generator host) (bc_library catalog) one two seed = Some (Inr s)"
    and out: "create_output (ho_files host) (sa_output args) fs = (Inr (w, out), fs')"
    and sets: "required_sets (bc_library catalog) = Inr sets"
    and rec: "record_start (ho_serialization host) (ho_writer host) w metadata sets s = Inr m"
    and sr: "start = session_start m n" "sr_serialization sr = ho_serialization host" "sr_writer sr = ho_writer host"
    by (rule open_session_Inr [OF opened]) (use assms(6) in auto)
  obtain bytes1 bytes2 where parsed: "parse_deck (ho_toml host) bytes1 (bc_library catalog) = Inr one"
    "parse_deck (ho_toml host) bytes2 (bc_library catalog) = Inr two"
    by (rule load_decks_parsed [OF decks])
  have cards: "gs_cards s = cl_core_cards (bc_library catalog)" and projects: "projectable s"
    using opened_projects [OF catalog_loaded [OF assms(5)] parsed assms(4) s] by auto
  obtain revision where revision: "set_revision (bc_library catalog) ''foundations'' = Some revision"
    "sets = [\<lparr>sq1_set = ''foundations'', sq1_revision = revision\<rparr>]"
    using sets by (auto simp: required_sets_def split: option.splits)
  then have met: "requirements_met (set_revision (bc_library catalog)) sets" by (simp add: requirements_met_def)
  have empty: "contents w = []" by (rule created_output [OF assms(3) out])
  obtain t ls where t: "try_map (encode_record (ho_serialization host)) (records_in t) = Inr ls"
    "contents (rm_writer (se_recorder (result_session r))) = concat ls"
    "mc1_required_sets (tv_match_created t) = sets"
    "(\<forall>r \<in> set (records_in t). reads_back (ho_serialization host) jd r) \<longrightarrow>
      verify_transcript (ho_serialization host) slice_read_until jd (set_revision (bc_library catalog))
        (cl_core_cards (bc_library catalog)) (concat ls) = Some (Inr ())"
    using finished_recording_verifies [where contents = contents and sr = sr and jd = jd,
        unfolded sr(2,3), OF assms(1,2) empty rec projects met served [unfolded sr(1)] assms(8,9)]
    by (auto simp: cards)
  have "run_replay files (Inr catalog) (ho_serialization host) jd from_str path
      = Some (Inr \<lparr>vs_path = path, vs_required_sets = sets\<rparr>)"
    if "\<forall>record \<in> set (records_in t). reads_back (ho_serialization host) jd record
      \<and> reads_created (ho_serialization host) from_str record"
    using replay_confirms [OF t(1) that _ assms(10) [unfolded t(2)] assms(11-13)] t(3,4) that by simp
  then show ?thesis
    using t(1,2) revision
    by (intro exI [of _ t] exI [of _ ls] exI [of _ revision]) (simp add: confirmation_line_def)
qed

end
