(* ===== verification/Prompt.thy ===== *)
theory Prompt
  imports Protocol
begin

text \<open>
  \<open>crates/cli/src/prompt.rs\<close>: the prompt of the terminal client, a state machine that one line of
  input moves on. A target list is its array of four places; \<open>usize\<close> has 64 bits.
\<close>

section \<open>Lines of input\<close>

text \<open>\<open>str::trim\<close>: the characters of the Unicode property White\_Space, by their UTF-8 bytes.\<close>

definition space_char :: "nat list \<Rightarrow> bool" where
  "space_char bs \<longleftrightarrow>
     (case bs of
        [a] \<Rightarrow> 9 \<le> a \<and> a \<le> 13 \<or> a = 32
      | [a, b] \<Rightarrow> a = 0xC2 \<and> b \<in> {0x85, 0xA0}
      | [a, b, c] \<Rightarrow>
          a = 0xE1 \<and> b = 0x9A \<and> c = 0x80
          \<or> a = 0xE2 \<and> b = 0x80 \<and> (0x80 \<le> c \<and> c \<le> 0x8A \<or> c \<in> {0xA8, 0xA9, 0xAF})
          \<or> a = 0xE2 \<and> b = 0x81 \<and> c = 0x9F
          \<or> a = 0xE3 \<and> b = 0x80 \<and> c = 0x80
      | _ \<Rightarrow> False)"

definition space_width :: "string \<Rightarrow> nat" where
  "space_width t =
     (if space_char (map of_char (take 1 t)) then 1
      else if space_char (map of_char (take 2 t)) then 2
      else if space_char (map of_char (take 3 t)) then 3 else 0)"

definition space_width_end :: "string \<Rightarrow> nat" where
  "space_width_end t =
     (if space_char (map of_char (rev (take 1 (rev t)))) then 1
      else if space_char (map of_char (rev (take 2 (rev t)))) then 2
      else if space_char (map of_char (rev (take 3 (rev t)))) then 3 else 0)"

function trim_start :: "string \<Rightarrow> string" where
  "trim_start t = (if space_width t = 0 then t else trim_start (drop (space_width t) t))"
  by pat_completeness auto

lemma space_width_Nil: "space_width [] = 0" "space_width_end [] = 0"
  by (simp_all add: space_width_def space_width_end_def space_char_def)

termination trim_start
proof (relation "measure length", goal_cases)
  case (2 t)
  then have "t \<noteq> []" by (auto simp: space_width_Nil)
  with 2 show ?case by simp
qed simp

function trim_end :: "string \<Rightarrow> string" where
  "trim_end t = (if space_width_end t = 0 then t else trim_end (take (length t - space_width_end t) t))"
  by pat_completeness auto

termination trim_end
proof (relation "measure length", goal_cases)
  case (2 t)
  then have "t \<noteq> []" by (auto simp: space_width_Nil)
  with 2 show ?case by simp
qed simp

declare trim_start.simps [simp del] trim_end.simps [simp del]

definition trim :: "string \<Rightarrow> string" where
  "trim t = trim_end (trim_start t)"

text \<open>\<open>eq_ignore_ascii_case\<close> and \<open>parse::<usize>\<close>.\<close>

definition eq_ignore_ascii_case :: "string \<Rightarrow> string \<Rightarrow> bool" where
  "eq_ignore_ascii_case s t \<longleftrightarrow> map ascii_lower s = map ascii_lower t"

definition decimal_value :: "string \<Rightarrow> nat" where
  "decimal_value t = fold (\<lambda>c v. 10 * v + (of_char c - 48)) t 0"

definition parse_usize :: "string \<Rightarrow> nat option" where
  "parse_usize t =
     (let digits = (case t of c # u \<Rightarrow> if c = CHR ''+'' then u else t | [] \<Rightarrow> []) in
      if digits \<noteq> [] \<and> list_all is_ascii_digit digits \<and> decimal_value digits < 2 ^ 64
      then Some (decimal_value digits) else None)"

section \<open>States\<close>

datatype target_list =
  TargetList "position_v1 option" "position_v1 option" "position_v1 option" "position_v1 option"

datatype target_action = Cast u32 | Skill position_v1 nat

datatype mana_action = Retreat bench_slot_v1 | Attack position_v1 | Convert | Choose

datatype prompt_form =
  PlayCard
| PlaySlot u32
| UpgradeCard
| UpgradePosition u32
| RetreatSlot
| AttackTarget
| EndTurn
| Mana mana_action
| Promotion
| Prize
| CastCard
| SkillPosition
| SkillAbility position_v1
| Targets target_action target_list
| ManaHint target_action target_list
| Resign

datatype prompt_state = Menu u64 | Form u64 prompt_form

datatype prompt_effect = Render "string list" | Submit u64 action_v1 | Cancelled

fun prompt_revision :: "prompt_state \<Rightarrow> u64" where
  "prompt_revision (prompt_state.Menu revision) = revision"
| "prompt_revision (prompt_state.Form revision _) = revision"

definition targets_empty :: target_list where
  "targets_empty = TargetList None None None None"

fun target_values :: "target_list \<Rightarrow> position_v1 list" where
  "target_values (TargetList a b c d) = filter_map (\<lambda>slot. slot) [a, b, c, d]"

text \<open>\<open>push\<close> fills the first free place and tells whether there was one, \<open>undo\<close> clears the last that
  is taken.\<close>

fun target_push :: "target_list \<Rightarrow> position_v1 \<Rightarrow> target_list \<times> bool" where
  "target_push (TargetList a b c d) target =
     (if a = None then (TargetList (Some target) b c d, True)
      else if b = None then (TargetList a (Some target) c d, True)
      else if c = None then (TargetList a b (Some target) d, True)
      else if d = None then (TargetList a b c (Some target), True)
      else (TargetList a b c d, False))"

fun target_undo :: "target_list \<Rightarrow> target_list" where
  "target_undo (TargetList a b c d) =
     (if d \<noteq> None then TargetList a b c None
      else if c \<noteq> None then TargetList a b None d
      else if b \<noteq> None then TargetList a None c d
      else if a \<noteq> None then TargetList None b c d
      else TargetList a b c d)"

section \<open>Lines of output\<close>

fun seat_debug :: "seat \<Rightarrow> string" where
  "seat_debug seat.One = ''One''"
| "seat_debug seat.Two = ''Two''"

fun pending_kind_debug :: "pending_kind_view \<Rightarrow> string" where
  "pending_kind_debug pending_kind_view.ManaProduction = ''ManaProduction''"
| "pending_kind_debug pending_kind_view.Promotion = ''Promotion''"
| "pending_kind_debug pending_kind_view.PrizePick = ''PrizePick''"

definition prompt_lines :: "player_view_data \<Rightarrow> u64 \<Rightarrow> string list" where
  "prompt_lines view revision =
     [''Actions: 1. Play Summon 2. Upgrade Summon 3. Retreat 4. Declare Attack 5. End Turn 6. Pass Priority 7. Convert Coin 8. Resign 9. Cast Spell 10. Activate Skill'']
     @ (case pv_pending view of
          Some pending \<Rightarrow> [''Awaiting '' @ pending_kind_debug (pw_kind pending) @ '' from '' @ seat_debug (pw_owner pending)]
        | None \<Rightarrow> [])
     @ (case pv_priority_holder view of
          Some holder \<Rightarrow> [''Priority: Some('' @ seat_debug holder @ '')'']
        | None \<Rightarrow> [])"

definition hand_lines :: "player_view_data \<Rightarrow> string list" where
  "hand_lines view =
     map (\<lambda>(i, c). dec_digits (i + 1) @ ''. '' @ cd_name (hc_card c)) (enumerate 0 (pv_hand view))"

definition bench_lines :: "string list" where
  "bench_lines = [''1. Bench 1'', ''2. Bench 2'', ''3. Bench 3'']"

definition position_lines :: "string list" where
  "position_lines = [''1. Main'', ''2. Bench 1'', ''3. Bench 2'', ''4. Bench 3'']"

definition mana_lines :: "string list" where
  "mana_lines = [''1. Matter'', ''2. Mind'', ''3. Spirit'']"

definition mana_hint_lines :: "string list" where
  "mana_hint_lines = [''1. Matter'', ''2. Mind'', ''3. Spirit'', ''4. No hint'']"

definition target_lines :: "string list" where
  "target_lines = [''1. Main'', ''2. Bench 1'', ''3. Bench 2'', ''4. Bench 3'', ''5. Done'', ''6. Undo'', ''7. Clear'']"

section \<open>Choices\<close>

fun prompt_player :: "seat \<Rightarrow> player_id_v1" where
  "prompt_player seat.One = player_id_v1.One"
| "prompt_player seat.Two = player_id_v1.Two"

definition slot_choice :: "nat option \<Rightarrow> bench_slot_v1 option" where
  "slot_choice n =
     (if n = Some 1 then Some bench_slot_v1.First
      else if n = Some 2 then Some bench_slot_v1.Second
      else if n = Some 3 then Some bench_slot_v1.Third else None)"

definition position_choice :: "nat option \<Rightarrow> position_v1 option" where
  "position_choice n =
     (if n = Some 1 then Some position_v1.Main
      else if n = Some 2 then Some (position_v1.Bench bench_slot_v1.First)
      else if n = Some 3 then Some (position_v1.Bench bench_slot_v1.Second)
      else if n = Some 4 then Some (position_v1.Bench bench_slot_v1.Third) else None)"

definition mana_choice :: "nat option \<Rightarrow> mana_type_v1 option" where
  "mana_choice n =
     (if n = Some 1 then Some mana_type_v1.Matter
      else if n = Some 2 then Some mana_type_v1.Mind
      else if n = Some 3 then Some mana_type_v1.Spirit else None)"

definition hint_choice :: "nat option \<Rightarrow> mana_type_v1 option option" where
  "hint_choice n =
     (if n = Some 1 then Some (Some mana_type_v1.Matter)
      else if n = Some 2 then Some (Some mana_type_v1.Mind)
      else if n = Some 3 then Some (Some mana_type_v1.Spirit)
      else if n = Some 4 then Some None else None)"

section \<open>Steps\<close>

type_synonym prompt_answer = "prompt_state \<times> prompt_effect list"

definition revised :: "prompt_state \<Rightarrow> u64 \<Rightarrow> prompt_answer" where
  "revised state revision =
     (if prompt_revision state \<noteq> revision then (prompt_state.Menu revision, [Cancelled]) else (state, []))"

definition submit_action :: "u64 \<Rightarrow> action_v1 \<Rightarrow> prompt_answer" where
  "submit_action revision action = (prompt_state.Menu revision, [prompt_effect.Submit revision action])"

definition invalid_choice :: "u64 \<Rightarrow> prompt_answer" where
  "invalid_choice revision = (prompt_state.Menu revision, [Render [''Invalid selection'']])"

definition show_form :: "u64 \<Rightarrow> prompt_form \<Rightarrow> string list \<Rightarrow> prompt_answer" where
  "show_form revision form lines = (prompt_state.Form revision form, [Render lines])"

fun first_lines :: "player_view_data \<Rightarrow> prompt_form \<Rightarrow> string list" where
  "first_lines view prompt_form.PlayCard = hand_lines view"
| "first_lines view prompt_form.UpgradeCard = hand_lines view"
| "first_lines view prompt_form.CastCard = hand_lines view"
| "first_lines view prompt_form.SkillPosition = position_lines"
| "first_lines view prompt_form.RetreatSlot = bench_lines"
| "first_lines view prompt_form.AttackTarget = position_lines"
| "first_lines view prompt_form.EndTurn = [''Enter 1 to confirm, or cancel'']"
| "first_lines view prompt_form.Resign = [''Confirm Give up with yes'']"
| "first_lines view (prompt_form.Mana _) = mana_lines"
| "first_lines view _ = []"

definition menu_step :: "u64 \<Rightarrow> player_view_data \<Rightarrow> nat option \<Rightarrow> prompt_answer" where
  "menu_step revision view number =
     (if number = Some 6 then submit_action revision (action_v1.PassPriority (prompt_player (pv_you view)))
      else
        (case
           (if number = Some 1 then Some prompt_form.PlayCard
            else if number = Some 2 then Some prompt_form.UpgradeCard
            else if number = Some 3 then Some prompt_form.RetreatSlot
            else if number = Some 4 then Some prompt_form.AttackTarget
            else if number = Some 5 then Some prompt_form.EndTurn
            else if number = Some 7 then Some (prompt_form.Mana Convert)
            else if number = Some 8 then Some prompt_form.Resign
            else if number = Some 9 then Some prompt_form.CastCard
            else if number = Some 10 then Some prompt_form.SkillPosition
            else None) of
           Some form \<Rightarrow> show_form revision form (first_lines view form)
         | None \<Rightarrow> invalid_choice revision))"

definition bench_place :: "'a array3 \<Rightarrow> bench_slot_v1 \<Rightarrow> 'a" where
  "bench_place bench slot =
     (case bench of Array3 a b c \<Rightarrow>
        (case slot of bench_slot_v1.First \<Rightarrow> a | bench_slot_v1.Second \<Rightarrow> b | bench_slot_v1.Third \<Rightarrow> c))"

definition view_board :: "player_view_data \<Rightarrow> seat \<Rightarrow> board_view" where
  "view_board view s =
     (case s of
        seat.One \<Rightarrow> pu_board (sv_one (pv_players view))
      | seat.Two \<Rightarrow> pu_board (sv_two (pv_players view)))"

definition skills_at :: "player_view_data \<Rightarrow> position_v1 \<Rightarrow> ability_description list" where
  "skills_at view position =
     (let board = view_board view (pv_you view);
          summon = (case position of
            position_v1.Main \<Rightarrow> bv_main board
          | position_v1.Bench slot \<Rightarrow> bench_place (bv_bench board) slot) in
      case Option.bind summon (\<lambda>summon. last_of (sv_chain summon)) of
        None \<Rightarrow> []
      | Some c \<Rightarrow> filter (\<lambda>ability. ad_kind ability = ability_kind.Skill) (cd_abilities c))"

definition skill_lines :: "player_view_data \<Rightarrow> position_v1 \<Rightarrow> string list" where
  "skill_lines view position =
     map (\<lambda>(i, skill). dec_digits (i + 1) @ ''. '' @ ad_name skill) (enumerate 0 (skills_at view position))"

text \<open>\<open>n.filter(|n| *n >= 1)\<close> and then an index into a slice.\<close>

definition pick :: "'a list \<Rightarrow> nat option \<Rightarrow> 'a option" where
  "pick xs n = (case n of Some (Suc i) \<Rightarrow> nth_of xs i | _ \<Rightarrow> None)"

definition card_next ::
  "u64 \<Rightarrow> player_view_data \<Rightarrow> nat option \<Rightarrow> string list \<Rightarrow> (u32 \<Rightarrow> prompt_form) \<Rightarrow> prompt_answer" where
  "card_next revision view n lines next' =
     (case pick (pv_hand view) n of
        None \<Rightarrow> invalid_choice revision
      | Some c \<Rightarrow> show_form revision (next' (hc_instance c)) lines)"

definition slot_next :: "u64 \<Rightarrow> nat option \<Rightarrow> (bench_slot_v1 \<Rightarrow> prompt_form) \<Rightarrow> prompt_answer" where
  "slot_next revision n next' =
     (case slot_choice n of
        None \<Rightarrow> invalid_choice revision
      | Some slot \<Rightarrow> show_form revision (next' slot) mana_hint_lines)"

definition position_next :: "u64 \<Rightarrow> nat option \<Rightarrow> (position_v1 \<Rightarrow> prompt_form) \<Rightarrow> prompt_answer" where
  "position_next revision n next' =
     (case position_choice n of
        None \<Rightarrow> invalid_choice revision
      | Some p \<Rightarrow> show_form revision (next' p) mana_hint_lines)"

definition slot_submit ::
  "u64 \<Rightarrow> player_id_v1 \<Rightarrow> u32 \<Rightarrow> nat option \<Rightarrow> (bench_slot_v1 \<Rightarrow> action_v1) \<Rightarrow> prompt_answer" where
  "slot_submit revision me c n build =
     (case slot_choice n of None \<Rightarrow> invalid_choice revision | Some s \<Rightarrow> submit_action revision (build s))"

definition position_submit ::
  "u64 \<Rightarrow> player_id_v1 \<Rightarrow> nat option \<Rightarrow> (position_v1 \<Rightarrow> action_v1) \<Rightarrow> prompt_answer" where
  "position_submit revision me n build =
     (case position_choice n of None \<Rightarrow> invalid_choice revision | Some p \<Rightarrow> submit_action revision (build p))"

definition confirm_submit :: "u64 \<Rightarrow> player_id_v1 \<Rightarrow> nat option \<Rightarrow> action_v1 \<Rightarrow> prompt_answer" where
  "confirm_submit revision me n action =
     (if n = Some 1 then submit_action revision action else invalid_choice revision)"

fun mana_submit :: "u64 \<Rightarrow> player_id_v1 \<Rightarrow> mana_action \<Rightarrow> nat option \<Rightarrow> prompt_answer" where
  "mana_submit revision me Convert n =
     (case mana_choice n of
        None \<Rightarrow> invalid_choice revision
      | Some mana_type \<Rightarrow> submit_action revision (action_v1.ConvertCoin me mana_type))"
| "mana_submit revision me Choose n =
     (case mana_choice n of
        None \<Rightarrow> invalid_choice revision
      | Some mana_type \<Rightarrow> submit_action revision (action_v1.ChooseManaType me mana_type))"
| "mana_submit revision me (mana_action.Retreat slot) n =
     (case hint_choice n of
        None \<Rightarrow> invalid_choice revision
      | Some mana_hint \<Rightarrow> submit_action revision (action_v1.Retreat me slot mana_hint))"
| "mana_submit revision me (mana_action.Attack target) n =
     (case hint_choice n of
        None \<Rightarrow> invalid_choice revision
      | Some mana_hint \<Rightarrow> submit_action revision (action_v1.DeclareAttack me target mana_hint))"

definition target_form :: "u64 \<Rightarrow> target_action \<Rightarrow> target_list \<Rightarrow> prompt_answer" where
  "target_form revision action targets = show_form revision (prompt_form.Targets action targets) target_lines"

definition target_step :: "u64 \<Rightarrow> target_action \<Rightarrow> target_list \<Rightarrow> nat option \<Rightarrow> prompt_answer" where
  "target_step revision action targets n =
     (if n = Some 5 then show_form revision (prompt_form.ManaHint action targets) mana_hint_lines
      else if n = Some 6 then target_form revision action (target_undo targets)
      else if n = Some 7 then target_form revision action targets_empty
      else
        (case position_choice n of
           None \<Rightarrow> invalid_choice revision
         | Some position \<Rightarrow>
             (case target_push targets position of
                (targets, True) \<Rightarrow> target_form revision action targets
              | (_, False) \<Rightarrow> invalid_choice revision)))"

definition target_submit ::
  "u64 \<Rightarrow> player_view_data \<Rightarrow> player_id_v1 \<Rightarrow> target_action \<times> target_list \<Rightarrow> mana_type_v1 option
    \<Rightarrow> prompt_answer" where
  "target_submit revision view me target mana_hint =
     (let (action, targets) = target in
      case action of
        target_action.Cast c \<Rightarrow>
          submit_action revision (action_v1.CastSpell me c (target_values targets) mana_hint)
      | target_action.Skill position skill \<Rightarrow>
          (case nth_of (skills_at view position) skill of
             None \<Rightarrow> invalid_choice revision
           | Some ability \<Rightarrow>
               submit_action revision
                 (action_v1.ActivateSkill me position (ad_id ability) (target_values targets) mana_hint)))"

definition skill_next :: "u64 \<Rightarrow> player_view_data \<Rightarrow> position_v1 \<Rightarrow> nat option \<Rightarrow> prompt_answer" where
  "skill_next revision view position n =
     (case n of
        Some (Suc skill) \<Rightarrow>
          if skill < length (skills_at view position)
          then target_form revision (target_action.Skill position skill) targets_empty
          else invalid_choice revision
      | _ \<Rightarrow> invalid_choice revision)"

fun form_step ::
  "u64 \<Rightarrow> player_view_data \<Rightarrow> player_id_v1 \<Rightarrow> prompt_form \<Rightarrow> nat option \<Rightarrow> prompt_answer" where
  "form_step revision view me prompt_form.PlayCard n =
     card_next revision view n bench_lines prompt_form.PlaySlot"
| "form_step revision view me (prompt_form.PlaySlot c) n =
     slot_submit revision me c n (action_v1.PlaySummon me c)"
| "form_step revision view me prompt_form.UpgradeCard n =
     card_next revision view n position_lines prompt_form.UpgradePosition"
| "form_step revision view me (prompt_form.UpgradePosition c) n =
     position_submit revision me n (action_v1.UpgradeSummon me c)"
| "form_step revision view me prompt_form.RetreatSlot n =
     slot_next revision n (\<lambda>slot. prompt_form.Mana (mana_action.Retreat slot))"
| "form_step revision view me prompt_form.AttackTarget n =
     position_next revision n (\<lambda>target. prompt_form.Mana (mana_action.Attack target))"
| "form_step revision view me (prompt_form.Mana action) n = mana_submit revision me action n"
| "form_step revision view me prompt_form.EndTurn n =
     confirm_submit revision me n (action_v1.EndTurn me)"
| "form_step revision view me prompt_form.Resign n =
     confirm_submit revision me n (action_v1.Resign me)"
| "form_step revision view me prompt_form.Promotion n =
     slot_submit revision me 0 n (action_v1.ChoosePromotion me)"
| "form_step revision view me prompt_form.Prize n =
     (case n of
        Some (Suc i) \<Rightarrow> submit_action revision (action_v1.ChoosePrize me (of_nat i))
      | _ \<Rightarrow> invalid_choice revision)"
| "form_step revision view me prompt_form.CastCard n =
     card_next revision view n target_lines (\<lambda>c. prompt_form.Targets (target_action.Cast c) targets_empty)"
| "form_step revision view me (prompt_form.Targets action targets) n =
     target_step revision action targets n"
| "form_step revision view me (prompt_form.ManaHint action targets) n =
     (case hint_choice n of
        None \<Rightarrow> invalid_choice revision
      | Some mana_hint \<Rightarrow> target_submit revision view me (action, targets) mana_hint)"
| "form_step revision view me prompt_form.SkillPosition n =
     (case position_choice n of
        None \<Rightarrow> invalid_choice revision
      | Some position \<Rightarrow> show_form revision (prompt_form.SkillAbility position) (skill_lines view position))"
| "form_step revision view me (prompt_form.SkillAbility position) n = skill_next revision view position n"

definition reduce :: "prompt_state \<Rightarrow> player_view_data \<Rightarrow> string \<Rightarrow> prompt_answer" where
  "reduce state view input =
     (let revision = prompt_revision state; me = prompt_player (pv_you view); trimmed = trim input in
      if eq_ignore_ascii_case trimmed ''cancel''
      then (prompt_state.Menu revision, [Cancelled, Render (prompt_lines view revision)])
      else
        (let number =
           (if (case state of prompt_state.Form _ prompt_form.Resign \<Rightarrow> True | _ \<Rightarrow> False) \<and> eq_ignore_ascii_case trimmed ''yes''
            then Some 1 else parse_usize trimmed) in
         case state of
           prompt_state.Menu _ \<Rightarrow> menu_step revision view number
         | prompt_state.Form _ form \<Rightarrow> form_step revision view me form number))"

definition forced_form :: "player_view_data \<Rightarrow> prompt_form option" where
  "forced_form view =
     (case pv_pending view of
        None \<Rightarrow> None
      | Some pending \<Rightarrow>
          (case pw_kind pending of
             pending_kind_view.ManaProduction \<Rightarrow> Some (prompt_form.Mana Choose)
           | pending_kind_view.Promotion \<Rightarrow> Some prompt_form.Promotion
           | pending_kind_view.PrizePick \<Rightarrow> Some prompt_form.Prize))"

end
