(* ===== verification/Client.thy ===== *)
theory Client
  imports Server Prompt
begin

text \<open>
  \<open>crates/cli/src/client.rs\<close>: the terminal client of a match. One thread reads the messages of the
  server into a snapshot and prints them, another reads lines of input, each tagged with the revision
  of the snapshot, and the main loop moves the prompt on. The loop is a step on its local variables,
  one line, poll or end of input at a time, with the snapshot as it is then; what it prints and sends
  is a list, performed in order until a write fails.
\<close>

section \<open>Errors and state\<close>

datatype play_error =
  Connect io_error
| Socket io_error
| Encode string

record snapshot =
  sp_revision :: u64
  sp_view :: "player_view_data option"
  sp_history :: "string list"

definition snapshot_default :: snapshot where
  "snapshot_default = \<lparr>sp_revision = 0, sp_view = None, sp_history = []\<rparr>"

definition max_server_frame :: nat where
  "max_server_frame = 1024 * 1024"

definition is_stale :: "u64 \<Rightarrow> u64 \<Rightarrow> bool" where
  "is_stale tagged_revision snapshot_revision \<longleftrightarrow> tagged_revision < snapshot_revision"

section \<open>Texts\<close>

fun readiness_debug :: "readiness_view \<Rightarrow> string" where
  "readiness_debug readiness_view.Ready = ''Ready''"
| "readiness_debug readiness_view.Exhausted = ''Exhausted''"

fun phase_debug :: "phase_view \<Rightarrow> string" where
  "phase_debug phase_view.Upkeep = ''Upkeep''"
| "phase_debug phase_view.Main = ''Main''"
| "phase_debug phase_view.Combat = ''Combat''"

definition optional_text :: "string \<Rightarrow> string option \<Rightarrow> string" where
  "optional_text before t = (case t of None \<Rightarrow> [] | Some t \<Rightarrow> before @ t)"

definition render_card :: "card_description \<Rightarrow> string" where
  "render_card c =
     cd_name c @ optional_text '' life '' (map_option number_text (cd_life c))
     @ (if cd_effects c = [] then [] else '' ['' @ join_text '', '' (cd_effects c) @ '']'')"

definition render_summon :: "summon_view option \<Rightarrow> string" where
  "render_summon summon =
     (case summon of
        None \<Rightarrow> ''empty''
      | Some summon \<Rightarrow>
          join_text '' -> '' (map render_card (sv_chain summon)) @ '' damage '' @ number_text (sv_damage summon)
          @ '' '' @ readiness_debug (sv_readiness summon))"

definition bench_list :: "'a array3 \<Rightarrow> 'a list" where
  "bench_list bench = (case bench of Array3 a b c \<Rightarrow> [a, b, c])"

definition render_board :: "string \<Rightarrow> board_view \<Rightarrow> string" where
  "render_board name board =
     name @ '' Main '' @ render_summon (bv_main board) @ ''; Bench [''
     @ join_text '', '' (map render_summon (bench_list (bv_bench board))) @ '']''"

definition render_view :: "player_view_data \<Rightarrow> string" where
  "render_view view =
     ''Hand: '' @ join_text '', '' (map (\<lambda>c. ''#'' @ number_text (hc_instance c) @ '' '' @ render_card (hc_card c)) (pv_hand view))
     @ [CHR 0x0A] @ ''Board: '' @ render_board ''Player One'' (pu_board (sv_one (pv_players view)))
     @ ''; '' @ render_board ''Player Two'' (pu_board (sv_two (pv_players view)))
     @ [CHR 0x0A] @ ''Phase: '' @ phase_debug (pv_phase view)"

fun ability_kind_text :: "ability_kind \<Rightarrow> string" where
  "ability_kind_text ability_kind.Skill = ''Skill''"
| "ability_kind_text ability_kind.Attack = ''Attack''"
| "ability_kind_text ability_kind.Trigger = ''Trigger''"

definition render_ability :: "ability_description \<Rightarrow> string" where
  "render_ability ability =
     ability_kind_text (ad_kind ability) @ '' '' @ ad_name ability
     @ optional_text '' cost '' (ad_cost ability)
     @ optional_text '' after '' (ad_trigger_event ability)
     @ optional_text '' '' (ad_timing ability)
     @ (if ad_respondable ability then '' respondable'' else [])
     @ (if ad_effects ability = [] then [] else '': '' @ join_text '', '' (ad_effects ability))
     @ (if ad_modifiers ability = [] then [] else '' modifiers '' @ join_text '', '' (ad_modifiers ability))
     @ (if ad_persistent ability then '' persistent'' else [])"

definition inspect_card :: "card_description \<Rightarrow> string" where
  "inspect_card c =
     render_card c
     @ optional_text '' retreat '' (map_option number_text (cd_retreat_cost c))
     @ (if cd_mana_types c = [] then [] else '' Mana '' @ join_text '', '' (cd_mana_types c))
     @ optional_text '' cost '' (cd_cost c)
     @ (if cd_abilities c = [] then [] else '' ['' @ join_text '', '' (map render_ability (cd_abilities c)) @ '']'')
     @ (if cd_modifiers c = [] then [] else '' modifiers '' @ join_text '', '' (cd_modifiers c))
     @ (if cd_persistent c then '' persistent'' else [])"

fun outcome_reason_text :: "outcome_reason_view \<Rightarrow> string" where
  "outcome_reason_text outcome_reason_view.ThirdMainLoss = ''third Main loss''"
| "outcome_reason_text outcome_reason_view.NoPromotionAvailable = ''no promotion available''"
| "outcome_reason_text outcome_reason_view.EmptyDeckDraw = ''empty deck draw''"
| "outcome_reason_text outcome_reason_view.Resignation = ''resignation''"

definition render_outcome :: "outcome_view \<Rightarrow> string" where
  "render_outcome outcome =
     (case ov_winner outcome of seat.One \<Rightarrow> ''Player One'' | seat.Two \<Rightarrow> ''Player Two'')
     @ '' wins by '' @ outcome_reason_text (ov_reason outcome)"

section \<open>Local commands\<close>

text \<open>\<open>str::split_whitespace\<close>.\<close>

fun word_start :: "string \<Rightarrow> string" where
  "word_start [] = []"
| "word_start (c # t) = (if space_width (c # t) \<noteq> 0 then [] else c # word_start t)"

lemma trim_start_length: "length (trim_start t) \<le> length t"
  by (induction t rule: trim_start.induct) (subst trim_start.simps, auto)

lemma trim_start_space: "space_width (trim_start t) = 0"
  by (induction t rule: trim_start.induct) (subst trim_start.simps, simp)

lemma word_start_shortens: "space_width t = 0 \<Longrightarrow> t \<noteq> [] \<Longrightarrow> 0 < length (word_start t)"
  by (cases t) simp_all

function split_whitespace :: "string \<Rightarrow> string list" where
  "split_whitespace t =
     (let rest = trim_start t in
      if rest = [] then []
      else word_start rest # split_whitespace (drop (length (word_start rest)) rest))"
  by pat_completeness auto

termination split_whitespace
proof (relation "measure length", goal_cases)
  case (2 t rest)
  then have "0 < length (word_start rest)" "length rest \<le> length t" "0 < length rest"
    using word_start_shortens [of rest] trim_start_space [of t] trim_start_length [of t] by simp_all
  then have "length rest - length (word_start rest) < length t" by linarith
  then show ?case by simp
qed simp

declare split_whitespace.simps [simp del]

definition inspected_seat :: "string \<Rightarrow> seat option" where
  "inspected_seat t = (if t = ''1'' then Some seat.One else if t = ''2'' then Some seat.Two else None)"

definition board_place :: "board_view \<Rightarrow> nat \<Rightarrow> summon_view option" where
  "board_place board position =
     (if position = 1 then bv_main board else Option.bind (nth_of (bench_list (bv_bench board)) (position - 2)) (\<lambda>s. s))"

definition inspected_card :: "player_view_data \<Rightarrow> string \<Rightarrow> card_description option" where
  "inspected_card view command =
     (case split_whitespace command of
        verb # target # others \<Rightarrow>
          if verb \<noteq> ''inspect'' then None
          else if target = ''board'' then
            (case others of
               side # slot # rest \<Rightarrow>
                 Option.bind (inspected_seat side) (\<lambda>seat.
                 Option.bind (parse_usize slot) (\<lambda>position.
                 if rest \<noteq> [] \<or> \<not> (1 \<le> position \<and> position \<le> 4) then None
                 else Option.bind (board_place (view_board view seat) position) (\<lambda>summon.
                   last_of (sv_chain summon))))
             | _ \<Rightarrow> None)
          else
            Option.bind (parse_usize target) (\<lambda>index.
            if others \<noteq> [] \<or> index = 0 then None
            else map_option hc_card (nth_of (pv_hand view) (index - 1)))
      | _ \<Rightarrow> None)"

definition starts_with :: "string \<Rightarrow> string \<Rightarrow> bool" where
  "starts_with t start \<longleftrightarrow> take (length start) t = start"

definition local_command :: "string \<Rightarrow> snapshot \<Rightarrow> string list option" where
  "local_command line snapshot =
     Option.bind (sp_view snapshot) (\<lambda>view.
     case inspected_card view line of
       Some c \<Rightarrow> Some [inspect_card c]
     | None \<Rightarrow>
         if starts_with line ''inspect '' then Some [''Invalid inspection'']
         else if eq_ignore_ascii_case line ''history'' then Some (sp_history snapshot)
         else None)"

section \<open>Messages of the server\<close>

text \<open>\<open>read_frame\<close> over the bytes that the socket yields, or its errors, until it is closed.\<close>

function client_frame_from ::
  "u8 list \<Rightarrow> (io_error + u8) list \<Rightarrow> io_error + (u8 list \<times> (io_error + u8) list)" where
  "client_frame_from bytes input =
     (if length bytes = max_server_frame then Inl (IoError Other ''frame limit'')
      else
        (case input of
           [] \<Rightarrow> Inl (IoError UnexpectedEof ''closed'')
         | Inl error # rest \<Rightarrow> Inl error
         | Inr byte # rest \<Rightarrow>
             if byte = 10 then Inr (bytes, rest) else client_frame_from (bytes @ [byte]) rest))"
  by pat_completeness auto

termination client_frame_from
  by (relation "measure (\<lambda>(_, input). length input)") simp_all

declare client_frame_from.simps [simp del]

definition client_read_frame ::
  "(io_error + u8) list \<Rightarrow> io_error + (u8 list \<times> (io_error + u8) list)" where
  "client_read_frame input = client_frame_from [] input"

text \<open>One message: the snapshot after it, the lines it prints, and whether it is the last.\<close>

fun receive_message :: "server_envelope \<Rightarrow> snapshot \<Rightarrow> snapshot \<times> string list \<times> bool" where
  "receive_message (Update next_revision view notices _ result) snapshot =
     (snapshot\<lparr>sp_revision := next_revision, sp_view := Some view,
        sp_history := sp_history snapshot @ map no_text notices\<rparr>,
      render_view view # map no_text notices
      @ (case result of Some (submission_result.Rejected reason) \<Rightarrow> [''Rejected '' @ reason] | _ \<Rightarrow> [])
      @ prompt_lines view next_revision, False)"
| "receive_message (Finished outcome view notices _) snapshot =
     (snapshot\<lparr>sp_history := sp_history snapshot @ map no_text notices\<rparr>,
      render_view view # map no_text notices @ [''Finished: '' @ render_outcome outcome], True)"
| "receive_message (Waiting _) snapshot = (snapshot, [''Waiting''], False)"
| "receive_message (server_envelope.Rejected _ reason) snapshot = (snapshot, [''Rejected '' @ reason], False)"
| "receive_message (server_envelope.Stopped reason) snapshot = (snapshot, [''Stopped '' @ reason], True)"

text \<open>The reader thread: every state of the snapshot it leaves, the lines it prints, and whether it tells
  the main loop that the match is over. \<open>from_slice\<close> is an argument.\<close>

lemma client_frame_shortens: "client_frame_from bytes input = Inr (frame, rest) \<Longrightarrow> length rest < length input"
  by (induction bytes input rule: client_frame_from.induct)
    (subst (asm) client_frame_from.simps, fastforce split: if_splits list.splits sum.splits)

function receive ::
  "(u8 list \<Rightarrow> string + server_envelope) \<Rightarrow> (io_error + u8) list \<Rightarrow> snapshot \<Rightarrow> snapshot \<times> string list \<times> bool" where
  "receive from_slice input snapshot =
     (case client_read_frame input of
        Inl _ \<Rightarrow> (snapshot, [''Stopped connection closed''], True)
      | Inr (frame, rest) \<Rightarrow>
          (case from_slice frame of
             Inl _ \<Rightarrow> (snapshot, [], False)
           | Inr message \<Rightarrow>
               (let (snapshot, lines, over) = receive_message message snapshot in
                if over then (snapshot, lines, True)
                else
                  (let (snapshot, more, over) = receive from_slice rest snapshot in
                   (snapshot, lines @ more, over)))))"
  by pat_completeness auto

termination receive
  by (relation "measure (\<lambda>(_, input, _). length input)")
    (auto simp: client_read_frame_def dest: client_frame_shortens)

declare receive.simps [simp del]

section \<open>The loop\<close>

record play_state =
  py_request_id :: u64
  py_giveup_pending :: bool
  py_resignation_sent :: bool
  py_prompt :: prompt_state

definition play_start :: play_state where
  "play_start = \<lparr>py_request_id = 0, py_giveup_pending = False, py_resignation_sent = False,
     py_prompt = prompt_state.Menu 0\<rparr>"

text \<open>What \<open>recv_timeout\<close> answers: a line and the revision it was tagged with, nothing in time, or the
  end of the input, after which the end of the match may still arrive.\<close>

datatype play_event =
  InputLine "io_error + string" u64 snapshot
| NoInput snapshot
| InputClosed bool

datatype play_output = Println string | Send client_envelope

datatype play_flow = Next play_state | Break | Fail play_error

definition submit_line :: "play_state \<Rightarrow> u64 \<Rightarrow> action_v1 \<Rightarrow> client_envelope" where
  "submit_line s based_on_revision action =
     client_envelope.Submit protocol_version (py_request_id s + 1) based_on_revision action"

text \<open>The effects of one answer of the prompt, in order.\<close>

fun play_effects :: "u64 \<Rightarrow> prompt_effect list \<Rightarrow> play_state \<Rightarrow> play_output list \<times> play_state" where
  "play_effects current [] s = ([], s)"
| "play_effects current (Render lines # effects) s =
     (let (outputs, s) = play_effects current effects s in (map Println lines @ outputs, s))"
| "play_effects current (Cancelled # effects) s =
     (let (outputs, s) = play_effects current effects s in (Println ''Prompt cancelled'' # outputs, s))"
| "play_effects current (prompt_effect.Submit based_on_revision action # effects) s =
     (if based_on_revision \<noteq> current then
        (let (outputs, s) = play_effects current effects s in (Println ''Prompt cancelled'' # outputs, s))
      else
        (let message = submit_line s based_on_revision action;
             (outputs, s) = play_effects current effects
               (s\<lparr>py_request_id := py_request_id s + 1,
                  py_resignation_sent := (case action of action_v1.Resign _ \<Rightarrow> True | _ \<Rightarrow> False)\<rparr>)
         in (Send message # outputs, s)))"

definition play_prompt ::
  "seat \<Rightarrow> string \<Rightarrow> player_view_data \<Rightarrow> u64 \<Rightarrow> play_state \<Rightarrow> play_output list \<times> play_state" where
  "play_prompt seat line latest current s =
     (let (prompt, revision_effects) = revised (py_prompt s) current;
          cancelled = (if Cancelled \<in> set revision_effects then [Println ''Prompt cancelled''] else []);
          prompt = (case prompt of
              prompt_state.Menu _ \<Rightarrow>
                (case (pv_pending latest, forced_form latest) of
                   (Some pending, Some form) \<Rightarrow>
                     if pw_owner pending = seat then prompt_state.Form current form else prompt
                 | _ \<Rightarrow> prompt)
            | _ \<Rightarrow> prompt);
          (prompt, effects) = reduce prompt latest
            (if eq_ignore_ascii_case (trim line) ''give up'' then ''8'' else line);
          (outputs, s) = play_effects current effects (s\<lparr>py_prompt := prompt\<rparr>)
      in (cancelled @ outputs, s))"

definition play_line ::
  "seat \<Rightarrow> string \<Rightarrow> u64 \<Rightarrow> snapshot \<Rightarrow> play_state \<Rightarrow> play_output list \<times> play_state" where
  "play_line seat line tagged_revision snapshot s =
     (if is_stale tagged_revision (sp_revision snapshot) then ([Println ''Discarded stale input''], s)
      else if eq_ignore_ascii_case (trim line) ''give up'' then
        ([Println ''Confirm Give up with yes''], s\<lparr>py_giveup_pending := True\<rparr>)
      else if py_giveup_pending s \<and> eq_ignore_ascii_case (trim line) ''yes'' then
        ([Send (submit_line s (sp_revision snapshot)
            (action_v1.Resign (case seat of seat.One \<Rightarrow> player_id_v1.One | seat.Two \<Rightarrow> player_id_v1.Two)))],
         s\<lparr>py_giveup_pending := False, py_request_id := py_request_id s + 1, py_resignation_sent := True\<rparr>)
      else if py_giveup_pending s then
        ([Println ''Give up cancelled''], s\<lparr>py_giveup_pending := False\<rparr>)
      else
        (case sp_view snapshot of
           None \<Rightarrow> ([], s)
         | Some latest \<Rightarrow>
             (case local_command (trim line) snapshot of
                Some lines \<Rightarrow> (map Println lines, s)
              | None \<Rightarrow> play_prompt seat line latest (sp_revision snapshot) s)))"

fun play_step :: "seat \<Rightarrow> play_event \<Rightarrow> play_state \<Rightarrow> play_output list \<times> play_flow" where
  "play_step seat (InputLine (Inl error) _ _) s = ([], Fail (Socket error))"
| "play_step seat (InputLine (Inr line) tagged_revision snapshot) s =
     map_prod (\<lambda>outputs. outputs) Next (play_line seat line tagged_revision snapshot s)"
| "play_step seat (NoInput snapshot) s =
     (let (prompt, effects) = revised (py_prompt s) (sp_revision snapshot) in
      if Cancelled \<in> set effects
      then ([Println ''Prompt cancelled''], Next (s\<lparr>py_giveup_pending := False, py_prompt := prompt\<rparr>))
      else ([], Next (s\<lparr>py_prompt := prompt\<rparr>)))"
| "play_step seat (InputClosed over_in_time) s =
     (if py_resignation_sent s \<and> over_in_time then ([], Break)
      else ([Println ''Stopped input closed''], Break))"

text \<open>The loop over the events until the end of the match is told; the sends that fail end it.\<close>

fun play_loop :: "seat \<Rightarrow> play_event list \<Rightarrow> play_state \<Rightarrow> play_output list \<times> play_error option" where
  "play_loop seat [] s = ([], None)"
| "play_loop seat (event # events) s =
     (case play_step seat event s of
        (outputs, Next s) \<Rightarrow> (let (more, result) = play_loop seat events s in (outputs @ more, result))
      | (outputs, Break) \<Rightarrow> (outputs, None)
      | (outputs, Fail error) \<Rightarrow> (outputs, Some error))"

definition send_message ::
  "(client_envelope \<Rightarrow> string + u8 list) \<Rightarrow> (u8 list \<Rightarrow> 'k \<Rightarrow> (io_error + unit) \<times> 'k)
    \<Rightarrow> client_envelope \<Rightarrow> 'k \<Rightarrow> (play_error + unit) \<times> 'k" where
  "send_message to_vec write_all message k =
     (case to_vec message of
        Inl error \<Rightarrow> (Inl (Encode error), k)
      | Inr bytes \<Rightarrow> apfst (map_err Socket) (write_all (bytes @ [10]) k))"

fun perform ::
  "(client_envelope \<Rightarrow> string + u8 list) \<Rightarrow> (u8 list \<Rightarrow> 'k \<Rightarrow> (io_error + unit) \<times> 'k)
    \<Rightarrow> play_output list \<Rightarrow> 'k \<Rightarrow> (play_error + unit) \<times> string list \<times> 'k" where
  "perform to_vec write_all [] k = (Inr (), [], k)"
| "perform to_vec write_all (Println line # outputs) k =
     (let (result, lines, k) = perform to_vec write_all outputs k in (result, line # lines, k))"
| "perform to_vec write_all (Send message # outputs) k =
     (case send_message to_vec write_all message k of
        (Inl error, k) \<Rightarrow> (Inl error, [], k)
      | (Inr _, k) \<Rightarrow> perform to_vec write_all outputs k)"

text \<open>After the connection: the join, then the loop. A failed send comes before the error the loop ends
  with, which comes after everything it sent.\<close>

definition play ::
  "(client_envelope \<Rightarrow> string + u8 list) \<Rightarrow> (u8 list \<Rightarrow> 'k \<Rightarrow> (io_error + unit) \<times> 'k)
    \<Rightarrow> nat \<Rightarrow> play_event list \<Rightarrow> 'k \<Rightarrow> (play_error + unit) \<times> string list \<times> 'k" where
  "play to_vec write_all player events k =
     (let seat = (if player = 1 then seat.One else seat.Two) in
      case send_message to_vec write_all (client_envelope.Join protocol_version seat) k of
        (Inl error, k) \<Rightarrow> (Inl error, [], k)
      | (Inr _, k) \<Rightarrow>
          (let (outputs, failure) = play_loop seat events play_start;
               (result, lines, k) = perform to_vec write_all outputs k in
           (and_then result (\<lambda>_. case failure of None \<Rightarrow> Inr () | Some error \<Rightarrow> Inl error), lines, k)))"

end
