(* ===== verification/Prompting.thy ===== *)
theory Prompting
  imports Prompt
begin

text \<open>
  What the prompt can do: it submits nothing but the player's own actions, and every action of the
  player can be entered.
\<close>

section \<open>Numbers as lines of input\<close>

definition digit_char :: "char \<Rightarrow> bool" where
  "digit_char c \<longleftrightarrow> 48 \<le> (of_char c :: nat) \<and> of_char c \<le> (57 :: nat)"

lemma dec_digits_digits: "c \<in> set (dec_digits n) \<Longrightarrow> digit_char c"
proof (induction n rule: dec_digits.induct)
  case (1 n)
  then show ?case
    by (subst (asm) (2) dec_digits.simps) (auto simp: digit_char_def split: if_splits)
qed

lemma dec_digits_not_Nil [simp]: "dec_digits n \<noteq> []"
  by (subst dec_digits.simps) simp

lemma digit_not_space:
  "digit_char c \<Longrightarrow> space_width (c # t) = 0"
  by (auto simp: space_width_def space_char_def digit_char_def split: list.splits)

lemma digit_not_space_end:
  assumes "digit_char c"
  shows "space_width_end (t @ [c]) = 0"
proof -
  obtain u where u: "rev t = u" by simp
  show ?thesis
    using assms
    by (cases u; cases "tl u") (auto simp: space_width_end_def space_char_def digit_char_def u)
qed

lemma trim_digits:
  assumes "\<forall>c \<in> set t. digit_char c"
  shows "trim t = t"
proof (cases t rule: rev_cases)
  case Nil
  then show ?thesis by (simp add: trim_def trim_start.simps [of "[]"] trim_end.simps [of "[]"] space_width_Nil)
next
  case (snoc u d)
  then obtain c v where "t = c # v" by (metis append_is_Nil_conv list.distinct(1) neq_Nil_conv)
  then have "trim_start t = t"
    using assms digit_not_space [of c v] by (simp add: trim_start.simps [of "c # v"])
  moreover have "trim_end t = t"
    using assms digit_not_space_end [of d u] by (simp add: snoc trim_end.simps [of "u @ [d]"])
  ultimately show ?thesis by (simp add: trim_def)
qed

lemma decimal_value_snoc: "decimal_value (t @ [c]) = 10 * decimal_value t + (of_char c - 48)"
  by (simp add: decimal_value_def)

lemma decimal_value_digits: "decimal_value (dec_digits n) = n"
proof (induction n rule: dec_digits.induct)
  case (1 n)
  show ?case
  proof (cases "n < 10")
    case True
    then show ?thesis by (subst dec_digits.simps) (simp add: decimal_value_def)
  next
    case False
    then have "decimal_value (dec_digits n) = 10 * (n div 10) + n mod 10"
      using 1 by (subst dec_digits.simps) (simp add: decimal_value_snoc)
    then show ?thesis by simp
  qed
qed

lemma parse_usize_digits: "n < 2 ^ 64 \<Longrightarrow> parse_usize (dec_digits n) = Some n"
proof -
  assume n: "n < 2 ^ 64"
  obtain c u where c: "dec_digits n = c # u" by (metis dec_digits_not_Nil neq_Nil_conv)
  have digits: "\<forall>d \<in> set (dec_digits n). digit_char d" using dec_digits_digits by blast
  then have "c \<noteq> CHR ''+''" by (auto simp: c digit_char_def)
  moreover have "list_all is_ascii_digit (dec_digits n)"
    using digits by (auto simp: list_all_iff is_ascii_digit_def digit_char_def Let_def)
  ultimately show ?thesis
    using n by (simp add: parse_usize_def c decimal_value_digits [of n, unfolded c] Let_def)
qed

lemma digits_no_word:
  assumes "digit_char c" and "\<not> digit_char (ascii_lower d)" and "eq_ignore_ascii_case (c # t) (d # u)"
  shows False
proof -
  have "ascii_lower c = c" using assms(1) by (simp add: ascii_lower_def digit_char_def Let_def)
  with assms show False by (auto simp: eq_ignore_ascii_case_def)
qed

lemma digits_no_command:
  "\<not> eq_ignore_ascii_case (dec_digits n) ''cancel''" "\<not> eq_ignore_ascii_case (dec_digits n) ''yes''"
proof -
  obtain c u where c: "dec_digits n = c # u" by (metis dec_digits_not_Nil neq_Nil_conv)
  then have "digit_char c" using dec_digits_digits [of c n] by simp
  then show "\<not> eq_ignore_ascii_case (dec_digits n) ''cancel''" "\<not> eq_ignore_ascii_case (dec_digits n) ''yes''"
    using digits_no_word [of c "CHR ''c''" u] digits_no_word [of c "CHR ''y''" u]
    by (auto simp: c digit_char_def ascii_lower_def)
qed

lemma reduce_number:
  "n < 2 ^ 64 \<Longrightarrow> reduce state view (dec_digits n) =
     (case state of
        prompt_state.Menu r \<Rightarrow> menu_step r view (Some n)
      | prompt_state.Form r form \<Rightarrow> form_step r view (prompt_player (pv_you view)) form (Some n))"
  by (auto simp: reduce_def Let_def trim_digits dec_digits_digits parse_usize_digits digits_no_command
      split: prompt_state.split)

section \<open>Entering an action\<close>

text \<open>The lines of a player, one after the other, while the view stays the same.\<close>

fun enter :: "prompt_state \<Rightarrow> player_view_data \<Rightarrow> string list \<Rightarrow> prompt_answer" where
  "enter state view [] = (state, [])"
| "enter state view (input # inputs) =
     (let (state, es) = reduce state view input; (state, fs) = enter state view inputs in (state, es @ fs))"

definition submissions :: "prompt_effect list \<Rightarrow> (u64 \<times> action_v1) list" where
  "submissions es =
     filter_map (\<lambda>e. case e of prompt_effect.Submit revision action \<Rightarrow> Some (revision, action) | _ \<Rightarrow> None) es"

text \<open>Where the client starts: at the menu, or at the form of a decision that is the player's.\<close>

definition prompt_start :: "player_view_data \<Rightarrow> u64 \<Rightarrow> prompt_state" where
  "prompt_start view revision =
     (if \<exists>pending. pv_pending view = Some pending \<and> pw_owner pending = pv_you view
      then (case forced_form view of
        Some form \<Rightarrow> prompt_state.Form revision form | None \<Rightarrow> prompt_state.Menu revision)
      else prompt_state.Menu revision)"

fun answers :: "pending_kind_view \<Rightarrow> action_v1 \<Rightarrow> bool" where
  "answers pending_kind_view.ManaProduction (action_v1.ChooseManaType _ _) = True"
| "answers pending_kind_view.Promotion (action_v1.ChoosePromotion _ _) = True"
| "answers pending_kind_view.PrizePick (action_v1.ChoosePrize _ n) = (unat n + 1 < 2 ^ 64)"
| "answers _ _ = False"

fun offered :: "player_view_data \<Rightarrow> action_v1 \<Rightarrow> bool" where
  "offered view (action_v1.PlaySummon _ c _) = (c \<in> hc_instance ` set (pv_hand view))"
| "offered view (action_v1.UpgradeSummon _ c _) = (c \<in> hc_instance ` set (pv_hand view))"
| "offered view (action_v1.CastSpell _ c targets _) =
     (c \<in> hc_instance ` set (pv_hand view) \<and> length targets \<le> 4)"
| "offered view (action_v1.ActivateSkill _ position ability targets _) =
     (ability \<in> ad_id ` set (skills_at view position) \<and> length targets \<le> 4)"
| "offered view (action_v1.ChooseManaType _ _) = False"
| "offered view (action_v1.ChoosePromotion _ _) = False"
| "offered view (action_v1.ChoosePrize _ _) = False"
| "offered view _ = True"

fun action_player :: "action_v1 \<Rightarrow> player_id_v1" where
  "action_player (action_v1.PlaySummon p _ _) = p"
| "action_player (action_v1.UpgradeSummon p _ _) = p"
| "action_player (action_v1.CastSpell p _ _ _) = p"
| "action_player (action_v1.ActivateSkill p _ _ _ _) = p"
| "action_player (action_v1.Retreat p _ _) = p"
| "action_player (action_v1.DeclareAttack p _ _) = p"
| "action_player (action_v1.EndTurn p) = p"
| "action_player (action_v1.PassPriority p) = p"
| "action_player (action_v1.ConvertCoin p _) = p"
| "action_player (action_v1.ChooseManaType p _) = p"
| "action_player (action_v1.ChoosePromotion p _) = p"
| "action_player (action_v1.ChoosePrize p _) = p"
| "action_player (action_v1.Resign p) = p"

definition enterable :: "player_view_data \<Rightarrow> action_v1 \<Rightarrow> bool" where
  "enterable view action \<longleftrightarrow>
     action_player action = prompt_player (pv_you view)
     \<and> (case pv_pending view of
          Some pending \<Rightarrow>
            if pw_owner pending = pv_you view then answers (pw_kind pending) action else offered view action
        | None \<Rightarrow> offered view action)"

definition enters ::
  "player_view_data \<Rightarrow> prompt_state \<Rightarrow> string list \<Rightarrow> prompt_state \<Rightarrow> (u64 \<times> action_v1) list \<Rightarrow> bool" where
  "enters view state inputs state' sent \<longleftrightarrow>
     (\<exists>es. enter state view inputs = (state', es) \<and> submissions es = sent)"

lemma submissions_simps [simp]:
  "submissions [] = []" "submissions (es @ fs) = submissions es @ submissions fs"
  "submissions [Render lines] = []" "submissions [prompt_effect.Submit r a] = [(r, a)]"
  by (simp_all add: submissions_def)

lemma enters_Nil: "enters view state [] state []"
  by (simp add: enters_def)

lemma enters_number:
  assumes "n < 2 ^ 64"
    and "(case state of
        prompt_state.Menu r \<Rightarrow> menu_step r view (Some n)
      | prompt_state.Form r form \<Rightarrow> form_step r view (prompt_player (pv_you view)) form (Some n)) = (state', es)"
    and "enters view state' inputs state'' sent"
  shows "enters view state (dec_digits n # inputs) state'' (submissions es @ sent)"
  using assms by (auto simp: enters_def reduce_number split: prod.splits)

lemma enters_submit:
  assumes "n < 2 ^ 64"
    and "(case state of
        prompt_state.Menu r \<Rightarrow> menu_step r view (Some n)
      | prompt_state.Form r form \<Rightarrow> form_step r view (prompt_player (pv_you view)) form (Some n))
      = submit_action revision action"
  shows "enters view state [dec_digits n] (prompt_state.Menu revision) [(revision, action)]"
  using enters_number [OF assms(1) assms(2) [unfolded submit_action_def] enters_Nil] by simp

lemma enters_form:
  assumes "n < 2 ^ 64"
    and "(case state of
        prompt_state.Menu r \<Rightarrow> menu_step r view (Some n)
      | prompt_state.Form r form \<Rightarrow> form_step r view (prompt_player (pv_you view)) form (Some n))
      = show_form revision form lines"
    and "enters view (prompt_state.Form revision form) inputs state'' sent"
  shows "enters view state (dec_digits n # inputs) state'' sent"
  using enters_number [OF assms(1) assms(2) [unfolded show_form_def] assms(3)] by simp

text \<open>The number that stands for a choice.\<close>

fun slot_number :: "bench_slot_v1 \<Rightarrow> nat" where
  "slot_number bench_slot_v1.First = 1"
| "slot_number bench_slot_v1.Second = 2"
| "slot_number bench_slot_v1.Third = 3"

fun position_number :: "position_v1 \<Rightarrow> nat" where
  "position_number position_v1.Main = 1"
| "position_number (position_v1.Bench bench_slot_v1.First) = 2"
| "position_number (position_v1.Bench bench_slot_v1.Second) = 3"
| "position_number (position_v1.Bench bench_slot_v1.Third) = 4"

fun mana_number :: "mana_type_v1 \<Rightarrow> nat" where
  "mana_number mana_type_v1.Matter = 1"
| "mana_number mana_type_v1.Mind = 2"
| "mana_number mana_type_v1.Spirit = 3"

fun hint_number :: "mana_type_v1 option \<Rightarrow> nat" where
  "hint_number None = 4"
| "hint_number (Some mana_type) = mana_number mana_type"

lemma slot_choice_number [simp]: "slot_choice (Some (slot_number s)) = Some s"
  by (cases s) (simp_all add: slot_choice_def)

lemma position_choice_number [simp]: "position_choice (Some (position_number p)) = Some p"
  by (cases p rule: position_number.cases) (simp_all add: position_choice_def)

lemma mana_choice_number [simp]: "mana_choice (Some (mana_number m)) = Some m"
  by (cases m) (simp_all add: mana_choice_def)

lemma hint_choice_number [simp]: "hint_choice (Some (hint_number h)) = Some h"
  by (cases h rule: hint_number.cases; cases "the h") (simp_all add: hint_choice_def)

lemma mana_number_small [simp]: "mana_number m < 18446744073709551616"
  by (cases m) simp_all

lemma slot_number_small [simp]: "slot_number s < 18446744073709551616"
  by (cases s) simp_all

lemma position_number_small [simp]: "position_number p < 18446744073709551616"
  by (cases p rule: position_number.cases) simp_all

lemma hint_number_small [simp]: "hint_number h < 18446744073709551616"
  by (cases h) simp_all

lemma position_number_range: "position_number p \<noteq> 5" "position_number p \<noteq> 6" "position_number p \<noteq> 7"
  by (cases p rule: position_number.cases; simp)+

text \<open>The target list that holds the first targets entered.\<close>

definition packed :: "position_v1 list \<Rightarrow> target_list" where
  "packed ts = TargetList (nth_of ts 0) (nth_of ts 1) (nth_of ts 2) (nth_of ts 3)"

lemma packed_Nil: "packed [] = targets_empty"
  by (simp add: packed_def targets_empty_def nth_of_def)

lemma packed_push: "length ts < 4 \<Longrightarrow> target_push (packed ts) t = (packed (ts @ [t]), True)"
  by (auto simp: packed_def nth_of_def nth_append less_Suc_eq numeral_eq_Suc)

lemma packed_values: "length ts \<le> 4 \<Longrightarrow> target_values (packed ts) = ts"
  by (auto simp: packed_def nth_of_def numeral_eq_Suc le_Suc_eq length_Suc_conv)

lemma enters_targets:
  assumes "length (ts @ us) \<le> 4"
    and "enters view (prompt_state.Form r (prompt_form.Targets action (packed (ts @ us)))) inputs state' sent"
  shows "enters view (prompt_state.Form r (prompt_form.Targets action (packed ts)))
    (map (\<lambda>p. dec_digits (position_number p)) us @ inputs) state' sent"
  using assms
proof (induction us arbitrary: ts)
  case (Cons u us)
  have "enters view (prompt_state.Form r (prompt_form.Targets action (packed (ts @ [u]))))
      (map (\<lambda>p. dec_digits (position_number p)) us @ inputs) state' sent"
    using Cons by simp
  moreover have "target_step r action (packed ts) (Some (position_number u))
      = show_form r (prompt_form.Targets action (packed (ts @ [u]))) target_lines"
    using Cons.prems(1) by (simp add: target_step_def position_number_range packed_push target_form_def)
  ultimately show ?case
    by (simp, intro enters_form [where lines = target_lines]) simp_all
qed simp

lemma pick_member:
  assumes "x \<in> set xs" and "length xs < 2 ^ 64"
  obtains n where "n < 2 ^ 64" "pick xs (Some n) = Some x"
proof -
  obtain i where "i < length xs" "xs ! i = x" using assms(1) by (auto simp: in_set_conv_nth)
  then show thesis using assms(2) that [of "Suc i"] by (simp add: pick_def nth_of_def)
qed

lemma enters_card:
  assumes "c \<in> hc_instance ` set (pv_hand view)" and "length (pv_hand view) < 2 ^ 64"
    and "\<And>n. form_step r view (prompt_player (pv_you view)) form n = card_next r view n lines next'"
    and "enters view (prompt_state.Form r (next' c)) inputs state' sent"
  shows "\<exists>n. enters view (prompt_state.Form r form) (dec_digits n # inputs) state' sent"
proof -
  obtain h where "h \<in> set (pv_hand view)" "hc_instance h = c" using assms(1) by blast
  then obtain n where "n < 2 ^ 64" "pick (pv_hand view) (Some n) = Some h"
    using pick_member assms(2) by metis
  then show ?thesis
    using assms(4) \<open>hc_instance h = c\<close>
    by (intro exI [of _ n] enters_form [where lines = lines]) (simp_all add: assms(3) card_next_def)
qed

lemma enters_menu:
  assumes "menu_step r view (Some n) = show_form r form lines" and "n < 2 ^ 64"
    and "enters view (prompt_state.Form r form) inputs state' sent"
  shows "enters view (prompt_state.Menu r) (dec_digits n # inputs) state' sent"
  using assms by (intro enters_form [where lines = lines]) simp_all

lemma menu_steps:
  "menu_step r view (Some 1) = show_form r prompt_form.PlayCard (hand_lines view)"
  "menu_step r view (Some 2) = show_form r prompt_form.UpgradeCard (hand_lines view)"
  "menu_step r view (Some 3) = show_form r prompt_form.RetreatSlot bench_lines"
  "menu_step r view (Some 4) = show_form r prompt_form.AttackTarget position_lines"
  "menu_step r view (Some 5) = show_form r prompt_form.EndTurn [''Enter 1 to confirm, or cancel'']"
  "menu_step r view (Some 6) = submit_action r (action_v1.PassPriority (prompt_player (pv_you view)))"
  "menu_step r view (Some 7) = show_form r (prompt_form.Mana Convert) mana_lines"
  "menu_step r view (Some 8) = show_form r prompt_form.Resign [''Confirm Give up with yes'']"
  "menu_step r view (Some 9) = show_form r prompt_form.CastCard (hand_lines view)"
  "menu_step r view (Some 10) = show_form r prompt_form.SkillPosition position_lines"
  by (simp_all add: menu_step_def)

text \<open>Targets, the end of the list and the hint, after the Spell or the Skill is chosen.\<close>

lemma enters_aimed:
  assumes "length targets \<le> 4"
    and "target_submit r view (prompt_player (pv_you view)) (action, packed targets) hint = submit_action r a"
  shows "\<exists>inputs. enters view (prompt_state.Form r (prompt_form.Targets action targets_empty)) inputs
    (prompt_state.Menu r) [(r, a)]"
proof -
  let ?hints = "prompt_state.Form r (prompt_form.ManaHint action (packed targets))"
  have "enters view ?hints [dec_digits (hint_number hint)] (prompt_state.Menu r) [(r, a)]"
    using assms(2) by (intro enters_submit) simp_all
  then have "enters view (prompt_state.Form r (prompt_form.Targets action (packed targets)))
      [dec_digits 5, dec_digits (hint_number hint)] (prompt_state.Menu r) [(r, a)]"
    by (rule enters_form [where lines = mana_hint_lines, rotated 2]) (simp_all add: target_step_def)
  then show ?thesis
    using enters_targets [of "[]" targets view r action] assms(1) by (auto simp: packed_Nil)
qed


lemma enters_confirm:
  assumes "\<And>n. form_step r view (prompt_player (pv_you view)) form n
    = confirm_submit r (prompt_player (pv_you view)) n action"
  shows "enters view (prompt_state.Form r form) [dec_digits 1] (prompt_state.Menu r) [(r, action)]"
  by (rule enters_submit) (simp_all add: assms confirm_submit_def)

lemma offered_enters:
  assumes "offered view action" and "action_player action = prompt_player (pv_you view)"
    and "length (pv_hand view) < 2 ^ 64" and "\<And>p. length (skills_at view p) < 2 ^ 64"
  shows "\<exists>inputs. enters view (prompt_state.Menu r) inputs (prompt_state.Menu r) [(r, action)]"
proof -
  let ?me = "prompt_player (pv_you view)" and ?menu = "prompt_state.Menu r"
  have menu: "\<exists>inputs. enters view ?menu inputs ?menu [(r, action)]"
    if "menu_step r view (Some n) = show_form r form lines" "n < 2 ^ 64"
      "enters view (prompt_state.Form r form) inputs ?menu [(r, action)]" for n form lines inputs
    using enters_menu [OF that] by blast
  show ?thesis
  proof (cases action)
    case (PlaySummon p c slot)
    then have "enters view (prompt_state.Form r (prompt_form.PlaySlot c)) [dec_digits (slot_number slot)] ?menu [(r, action)]"
      using assms(2) by (intro enters_submit) (simp_all add: slot_submit_def)
    moreover have "c \<in> hc_instance ` set (pv_hand view)" using assms(1) PlaySummon by simp
    ultimately show ?thesis
      using enters_card [where form = prompt_form.PlayCard] assms(3) menu [OF menu_steps(1)] by fastforce
  next
    case (UpgradeSummon p c pos)
    then have "enters view (prompt_state.Form r (prompt_form.UpgradePosition c)) [dec_digits (position_number pos)] ?menu [(r, action)]"
      using assms(2) by (intro enters_submit) (simp_all add: position_submit_def)
    moreover have "c \<in> hc_instance ` set (pv_hand view)" using assms(1) UpgradeSummon by simp
    ultimately show ?thesis
      using enters_card [where form = prompt_form.UpgradeCard] assms(3) menu [OF menu_steps(2)] by fastforce
  next
    case (CastSpell p c targets hint)
    then obtain inputs where "enters view (prompt_state.Form r (prompt_form.Targets (target_action.Cast c) targets_empty))
        inputs ?menu [(r, action)]"
      using enters_aimed [of targets r view "target_action.Cast c" hint action] assms(1,2)
      by (auto simp: target_submit_def packed_values)
    moreover have "c \<in> hc_instance ` set (pv_hand view)" using assms(1) CastSpell by simp
    ultimately show ?thesis
      using enters_card [where form = prompt_form.CastCard] assms(3) menu [OF menu_steps(9)] by fastforce
  next
    case (ActivateSkill p pos ability targets hint)
    then obtain skill where skill: "skill < length (skills_at view pos)" "ad_id (skills_at view pos ! skill) = ability"
      using assms(1) by (auto simp: in_set_conv_nth)
    then obtain inputs where "enters view
        (prompt_state.Form r (prompt_form.Targets (target_action.Skill pos skill) targets_empty)) inputs ?menu [(r, action)]"
      using enters_aimed [of targets r view "target_action.Skill pos skill" hint action] assms(1,2) ActivateSkill
      by (auto simp: target_submit_def packed_values nth_of_def)
    then have "enters view (prompt_state.Form r (prompt_form.SkillAbility pos)) (dec_digits (Suc skill) # inputs) ?menu [(r, action)]"
      using skill assms(4) [of pos]
      by (intro enters_form [where lines = target_lines]) (simp_all add: skill_next_def target_form_def)
    then have "enters view (prompt_state.Form r prompt_form.SkillPosition)
        (dec_digits (position_number pos) # dec_digits (Suc skill) # inputs) ?menu [(r, action)]"
      by (rule enters_form [where lines = "skill_lines view pos", rotated 2]) simp_all
    then show ?thesis using menu [OF menu_steps(10)] by simp
  next
    case (Retreat p slot hint)
    then have "enters view (prompt_state.Form r (prompt_form.Mana (mana_action.Retreat slot))) [dec_digits (hint_number hint)] ?menu [(r, action)]"
      using assms(2) by (intro enters_submit) simp_all
    then have "enters view (prompt_state.Form r prompt_form.RetreatSlot) [dec_digits (slot_number slot), dec_digits (hint_number hint)] ?menu [(r, action)]"
      by (rule enters_form [where lines = mana_hint_lines, rotated 2]) (simp_all add: slot_next_def)
    then show ?thesis using menu [OF menu_steps(3)] by simp
  next
    case (DeclareAttack p pos hint)
    then have "enters view (prompt_state.Form r (prompt_form.Mana (mana_action.Attack pos))) [dec_digits (hint_number hint)] ?menu [(r, action)]"
      using assms(2) by (intro enters_submit) simp_all
    then have "enters view (prompt_state.Form r prompt_form.AttackTarget) [dec_digits (position_number pos), dec_digits (hint_number hint)] ?menu [(r, action)]"
      by (rule enters_form [where lines = mana_hint_lines, rotated 2]) (simp_all add: position_next_def)
    then show ?thesis using menu [OF menu_steps(4)] by simp
  next
    case (EndTurn p)
    then show ?thesis
      using menu [OF menu_steps(5) _ enters_confirm] assms(2) by simp
  next
    case (PassPriority p)
    then have "enters view ?menu [dec_digits 6] ?menu [(r, action)]"
      using assms(2) by (intro enters_submit) (simp_all add: menu_steps)
    then show ?thesis by blast
  next
    case (ConvertCoin p mana)
    then have "enters view (prompt_state.Form r (prompt_form.Mana Convert)) [dec_digits (mana_number mana)] ?menu [(r, action)]"
      using assms(2) by (intro enters_submit) simp_all
    then show ?thesis using menu [OF menu_steps(7)] by simp
  next
    case (Resign p)
    then show ?thesis
      using menu [OF menu_steps(8) _ enters_confirm] assms(2) by simp
  qed (use assms(1) in simp_all)
qed


lemma answers_enters:
  assumes "answers kind action" and "action_player action = prompt_player (pv_you view)"
    and "pv_pending view = Some pending" and "pw_kind pending = kind"
  shows "\<exists>form n. forced_form view = Some form
    \<and> enters view (prompt_state.Form r form) [dec_digits n] (prompt_state.Menu r) [(r, action)]"
proof (cases "(kind, action)" rule: answers.cases)
  case (1 p mana)
  then show ?thesis
    using assms by (intro exI [of _ "prompt_form.Mana Choose"] exI [of _ "mana_number mana"] conjI enters_submit)
      (simp_all add: forced_form_def)
next
  case (2 p slot)
  then show ?thesis
    using assms by (intro exI [of _ prompt_form.Promotion] exI [of _ "slot_number slot"] conjI enters_submit)
      (simp_all add: forced_form_def slot_submit_def)
next
  case (3 p n)
  then show ?thesis
    using assms by (intro exI [of _ prompt_form.Prize] exI [of _ "Suc (unat n)"] conjI enters_submit)
      (simp_all add: forced_form_def)
qed (use assms(1) in simp_all)

text \<open>C10: whatever the player may do can be entered at the prompt: for every action that the view
  offers (a card of the hand, a Skill of a Summon of one's own, at most four targets, or, when a
  decision is the player's, its answer) there are lines of input after which the prompt has
  submitted exactly this action, once, and is back at the menu.\<close>
theorem every_action_enterable:
  assumes "enterable view action"
    and "length (pv_hand view) < 2 ^ 64" and "\<forall>p. length (skills_at view p) < 2 ^ 64"
  shows "\<exists>inputs. enters view (prompt_start view r) inputs (prompt_state.Menu r) [(r, action)]"
proof (cases "\<exists>pending. pv_pending view = Some pending \<and> pw_owner pending = pv_you view")
  case True
  then obtain pending where *: "pv_pending view = Some pending" "pw_owner pending = pv_you view" by blast
  then show ?thesis
    using answers_enters [of "pw_kind pending" action view pending r] assms(1)
    by (auto simp: enterable_def prompt_start_def)
next
  case False
  then have "prompt_start view r = prompt_state.Menu r" unfolding prompt_start_def by (rule if_not_P)
  moreover have "offered view action" "action_player action = prompt_player (pv_you view)"
    using assms(1) False by (auto simp: enterable_def split: option.splits)
  ultimately show ?thesis using offered_enters assms(2,3) by simp
qed

section \<open>What can be submitted\<close>

lemma cards_described:
  assumes "from_card_set cards e = Some d"
  shows "\<exists>c \<in> set (cs_entities cards). d = describe_card c"
proof -
  have "m e = Some d \<or> (\<exists>c \<in> set cs. d = describe_card c)"
    if "fold (\<lambda>c m. m(entity_id c \<mapsto> describe_card c)) cs m e = Some d" for cs m
    using that
  proof (induction cs arbitrary: m)
    case (Cons c cs)
    then show ?case using Cons.IH [of "m(entity_id c \<mapsto> describe_card c)"] by (auto split: if_splits)
  qed simp
  from this [of "cs_entities cards" Map.empty] show ?thesis using assms by (simp add: from_card_set_def)
qed

text \<open>The identities that a view names are printed ones.\<close>

lemma printed_abilities:
  "ability \<in> set (cd_abilities (describe_card c)) \<Longrightarrow> \<exists>i. ad_id ability = EntityIdV1 (entity_id_display i)"
proof -
  have "ad_id (describe_ability kind x) = EntityIdV1 (entity_id_display (entity_id x))" for kind x
    by (simp add: describe_ability_def)
  moreover have "cd_abilities (describe_card c) =
      map (describe_ability ability_kind.Skill) (entity_all skill_field c)
      @ map (describe_ability ability_kind.Attack) (entity_all attack_field c)
      @ map (describe_ability ability_kind.Trigger) (entity_all trigger_field c)"
    by (simp add: describe_card_def)
  moreover assume "ability \<in> set (cd_abilities (describe_card c))"
  ultimately show ?thesis by auto
qed

lemma described_ability:
  "ability \<in> set (cd_abilities (description_of (from_card_set cards) e))
    \<Longrightarrow> \<exists>i. ad_id ability = EntityIdV1 (entity_id_display i)"
  using cards_described [of cards e] printed_abilities
  by (fastforce simp: description_of_def unknown_card_def split: option.splits)

lemma view_skill:
  assumes "ability \<in> set (skills_at (player_view s viewer (from_card_set cards)) p)"
  shows "\<exists>i. ad_id ability = EntityIdV1 (entity_id_display i)"
proof -
  let ?view = "player_view s viewer (from_card_set cards)"
  have chain: "\<exists>e. c = description_of (from_card_set cards) e"
    if "Some c = last_of (sv_chain (summon_to_view (from_card_set cards) summon))" for c summon
    using that [symmetric] by (auto simp: summon_to_view_def last_of_def last_map split: if_splits)
  obtain c where "ability \<in> set (cd_abilities c)" and
    "\<exists>summon. Some c = last_of (sv_chain (summon_to_view (from_card_set cards) summon))"
    using assms
    by (auto simp: skills_at_def Let_def player_view_def view_board_def public_player_def bench_place_def
        split: option.splits bind_splits seat.splits position_v1.splits bench_slot_v1.splits; blast)
  then show ?thesis using chain described_ability by blast
qed


fun own_action :: "player_view_data \<Rightarrow> action_v1 \<Rightarrow> bool" where
  "own_action view (action_v1.ActivateSkill p position ability _ _) \<longleftrightarrow>
     p = prompt_player (pv_you view) \<and> ability \<in> ad_id ` set (skills_at view position)"
| "own_action view action \<longleftrightarrow> action_player action = prompt_player (pv_you view)"

text \<open>An answer that submits nothing, or one action of the player.\<close>

definition own_step :: "player_view_data \<Rightarrow> u64 \<Rightarrow> prompt_answer \<Rightarrow> bool" where
  "own_step view r answer \<longleftrightarrow>
     submissions (snd answer) = [] \<or> (\<exists>a. answer = submit_action r a \<and> own_action view a)"

lemma own_step_simps [simp]:
  "own_step view r (invalid_choice r')" "own_step view r (show_form r' form lines)"
  "own_step view r (target_form r' action targets)"
  "own_step view r (submit_action r a) \<longleftrightarrow> own_action view a"
  "own_step view r (state, [Cancelled, Render lines])"
  by (auto simp: own_step_def invalid_choice_def show_form_def target_form_def submit_action_def submissions_def)

lemma own_menu: "own_step view r (menu_step r view n)"
  by (simp add: menu_step_def split: option.split)

lemma own_targets: "own_step view r (target_submit r view (prompt_player (pv_you view)) target hint)"
  by (auto simp: target_submit_def nth_of_def split: prod.split target_action.split option.split)

lemma own_form: "own_step view r (form_step r view (prompt_player (pv_you view)) form n)"
proof (cases form)
  case (Mana action)
  then show ?thesis by (cases action) (simp_all split: option.split)
next
  case (Targets action targets)
  then show ?thesis by (auto simp: target_step_def split: option.split prod.split bool.split)
qed (auto simp: card_next_def slot_submit_def position_submit_def slot_next_def position_next_def
    confirm_submit_def skill_next_def own_targets split: option.split nat.split)

lemma own_reduce: "own_step view (prompt_revision state) (reduce state view input)"
  by (cases state) (simp_all add: reduce_def Let_def own_menu own_form)

lemma own_normalizes:
  assumes "own_action (player_view s viewer (from_card_set cards)) action"
  shows "\<exists>g. normalize_action viewer action = Inr g"
proof -
  have you: "player_id_of_v1 (prompt_player (pv_you (player_view s viewer (from_card_set cards)))) = viewer"
    by (cases viewer) (simp_all add: player_view_def)
  show ?thesis
  proof (cases action)
    case (ActivateSkill p position ability targets hint)
    then obtain i where "ability = EntityIdV1 (entity_id_display i)"
      using assms view_skill by fastforce
    then have "parse_entity_id ability = Inr i" by (simp add: parse_entity_id_def parse_displayed)
    with ActivateSkill assms show ?thesis by (simp add: normalize_action_def you)
  next
    case (ChoosePrize p n)
    with assms show ?thesis by (simp add: normalize_action_def you usize_try_from)
  qed (use assms in \<open>simp_all add: normalize_action_def you\<close>)
qed

text \<open>The prompt of a player submits only what the server takes for that player's own: an answer to
  a line of input that submits anything submits one action, at the revision of the form, and is
  back at the menu; and the action, whose Skill is one the view shows, is normalized without error.\<close>
lemma prompt_submits_own:
  assumes "reduce state (player_view s viewer (from_card_set cards)) input = (state', es)"
    and "prompt_effect.Submit revision action \<in> set es"
  shows "revision = prompt_revision state \<and> state' = prompt_state.Menu revision
    \<and> es = [prompt_effect.Submit revision action] \<and> (\<exists>g. normalize_action viewer action = Inr g)"
proof -
  let ?view = "player_view s viewer (from_card_set cards)"
  have "(revision, action) \<in> set (submissions es)"
    using assms(2) by (force simp: submissions_def set_filter_map)
  moreover have "own_step ?view (prompt_revision state) (state', es)"
    using own_reduce [of ?view state input] assms(1) by simp
  ultimately obtain a where "(state', es) = submit_action (prompt_revision state) a" "own_action ?view a"
    by (auto simp: own_step_def)
  then show ?thesis using assms(2) own_normalizes by (auto simp: submit_action_def)
qed

end
