(* ===== verification/Playing.thy ===== *)
theory Playing
  imports Client Prompting
begin

text \<open>
  What the terminal client sends, and what it makes of the messages it is sent.
\<close>

section \<open>What the client sends\<close>

fun sent_of :: "play_output \<Rightarrow> client_envelope option" where
  "sent_of (Send message) = Some message"
| "sent_of (Println _) = None"

definition sent :: "play_output list \<Rightarrow> client_envelope list" where
  "sent outputs = filter_map sent_of outputs"

lemma sent_simps [simp]:
  "sent [] = []" "sent (Println line # outputs) = sent outputs" "sent (Send m # outputs) = m # sent outputs"
  "sent (xs @ ys) = sent xs @ sent ys" "sent (map Println lines) = []"
proof -
  show "sent (map Println lines) = []" by (induction lines) (simp_all add: sent_def)
qed (simp_all add: sent_def)

text \<open>A view of the match as the player of the seat is sent it.\<close>

definition own_view :: "seat \<Rightarrow> player_view_data \<Rightarrow> bool" where
  "own_view seat view \<longleftrightarrow> (\<exists>s cards. view = player_view s (player_id_of_seat seat) (from_card_set cards))"

fun event_snapshot :: "play_event \<Rightarrow> snapshot option" where
  "event_snapshot (InputLine _ _ snapshot) = Some snapshot"
| "event_snapshot (NoInput snapshot) = Some snapshot"
| "event_snapshot (InputClosed _) = None"

definition shows_own :: "seat \<Rightarrow> play_event \<Rightarrow> bool" where
  "shows_own seat event \<longleftrightarrow>
     (\<forall>snapshot view. event_snapshot event = Some snapshot \<and> sp_view snapshot = Some view \<longrightarrow> own_view seat view)"

lemma quiet_effects:
  "submissions effects = [] \<Longrightarrow> sent (fst (play_effects current effects s)) = []
    \<and> snd (play_effects current effects s) = s"
  by (induction effects) (auto simp: submissions_def split: prod.splits prompt_effect.splits elim!: play_effects.elims)

text \<open>What one step may send: nothing, or one own action under the next request id, on the revision of
  the snapshot.\<close>

definition sends_one :: "seat \<Rightarrow> u64 \<Rightarrow> play_output list \<Rightarrow> u64 \<Rightarrow> bool" where
  "sends_one seat request_id outputs request_id' \<longleftrightarrow>
     sent outputs = [] \<and> request_id' = request_id
     \<or> (\<exists>revision action g. sent outputs = [client_envelope.Submit protocol_version (request_id + 1) revision action]
          \<and> request_id' = request_id + 1 \<and> normalize_action (player_id_of_seat seat) action = Inr g)"

lemma resign_own:
  "\<exists>g. normalize_action (player_id_of_seat seat)
    (action_v1.Resign (case seat of seat.One \<Rightarrow> player_id_v1.One | seat.Two \<Rightarrow> player_id_v1.Two)) = Inr g"
  by (cases seat) (simp_all add: normalize_action_def)

lemma revised_revision: "prompt_revision (fst (revised prompt current)) = current"
  by (simp add: revised_def)

lemma play_prompt_reduces:
  "\<exists>prompt cancelled input. prompt_revision prompt = current
    \<and> play_prompt seat line view current s =
      (let (prompt, effects) = reduce prompt view input;
           (outputs, t) = play_effects current effects (s\<lparr>py_prompt := prompt\<rparr>)
       in (map Println cancelled @ outputs, t))"
proof -
  let ?prompt = "fst (revised (py_prompt s) current)"
  let ?forced = "case ?prompt of
      prompt_state.Menu _ \<Rightarrow>
        (case (pv_pending view, forced_form view) of
           (Some pending, Some form) \<Rightarrow>
             if pw_owner pending = seat then prompt_state.Form current form else ?prompt
         | _ \<Rightarrow> ?prompt)
    | _ \<Rightarrow> ?prompt"
  have "prompt_revision ?forced = current"
    using revised_revision [of "py_prompt s" current] by (auto split: prompt_state.split option.split)
  moreover have "play_prompt seat line view current s =
      (let (prompt, effects) = reduce ?forced view (if eq_ignore_ascii_case (trim line) ''give up'' then ''8'' else line);
           (outputs, t) = play_effects current effects (s\<lparr>py_prompt := prompt\<rparr>)
       in (map Println (if Cancelled \<in> set (snd (revised (py_prompt s) current)) then [''Prompt cancelled''] else []) @ outputs, t))"
    by (simp add: play_prompt_def Let_def case_prod_beta)
  ultimately show ?thesis by metis
qed

lemma play_prompt_sends:
  assumes "own_view seat view"
  shows "sends_one seat (py_request_id s) (fst (play_prompt seat line view current s))
    (py_request_id (snd (play_prompt seat line view current s)))"
proof -
  obtain g cards where view: "view = player_view g (player_id_of_seat seat) (from_card_set cards)"
    using assms by (auto simp: own_view_def)
  obtain prompt cancelled input where prompt: "prompt_revision prompt = current"
    and play: "play_prompt seat line view current s =
      (let (prompt, effects) = reduce prompt view input;
           (outputs, t) = play_effects current effects (s\<lparr>py_prompt := prompt\<rparr>)
       in (map Println cancelled @ outputs, t))"
    using play_prompt_reduces by metis
  obtain prompt' effects where reduced: "reduce prompt view input = (prompt', effects)" by force
  have "own_step view current (prompt', effects)"
    using own_reduce [of view prompt input] reduced prompt by simp
  then consider "submissions effects = []" | action where "effects = [prompt_effect.Submit current action]" "own_action view action"
    by (auto simp: own_step_def submit_action_def)
  then show ?thesis
  proof cases
    case 1
    then show ?thesis
      using quiet_effects [OF 1, of current "s\<lparr>py_prompt := prompt'\<rparr>"]
      by (simp add: play reduced sends_one_def case_prod_beta)
  next
    case 2
    then show ?thesis
      using own_normalizes [of g "player_id_of_seat seat" cards action, folded view]
      by (auto simp: play reduced sends_one_def submit_line_def Let_def)
  qed
qed

lemma play_step_sends:
  assumes "shows_own seat event" and "play_step seat event s = (outputs, flow)"
  shows "sent outputs = [] \<and> (\<forall>t. flow = Next t \<longrightarrow> py_request_id t = py_request_id s)
    \<or> (\<exists>t. flow = Next t \<and> sends_one seat (py_request_id s) outputs (py_request_id t))"
proof (cases event)
  case (InputLine line tagged snapshot)
  show ?thesis
  proof (cases line)
    case (Inr typed)
    let ?out = "play_line seat typed tagged snapshot s"
    have "sends_one seat (py_request_id s) (fst ?out) (py_request_id (snd ?out))"
    proof (cases "sp_view snapshot")
      case None
      then show ?thesis using resign_own [of seat] by (auto simp: play_line_def sends_one_def submit_line_def)
    next
      case (Some view)
      then have "own_view seat view" using assms(1) InputLine by (simp add: shows_own_def)
      then show ?thesis
        using Some resign_own [of seat] play_prompt_sends [of seat view s typed "sp_revision snapshot"]
        by (auto simp: play_line_def sends_one_def submit_line_def split: option.split)
    qed
    then show ?thesis using assms(2) InputLine Inr by (cases ?out) auto
  qed (use assms(2) InputLine in auto)
qed (use assms(2) in \<open>auto simp: Let_def split: prod.splits if_splits\<close>)

text \<open>The messages with consecutive request ids.\<close>

fun numbered :: "u64 \<Rightarrow> (u64 \<times> action_v1) list \<Rightarrow> client_envelope list" where
  "numbered request_id [] = []"
| "numbered request_id ((revision, action) # actions) =
     client_envelope.Submit protocol_version (request_id + 1) revision action # numbered (request_id + 1) actions"

lemma play_loop_sends:
  assumes "\<forall>event \<in> set events. shows_own seat event"
  shows "\<exists>actions. sent (fst (play_loop seat events s)) = numbered (py_request_id s) actions
    \<and> (\<forall>(revision, action) \<in> set actions. \<exists>g. normalize_action (player_id_of_seat seat) action = Inr g)"
  using assms
proof (induction events arbitrary: s)
  case (Cons event events)
  obtain outputs flow where step: "play_step seat event s = (outputs, flow)" by force
  have ok: "shows_own seat event" using Cons.prems by simp
  show ?case
  proof (cases "\<exists>t. flow = Next t")
    case True
    then obtain t where t: "flow = Next t" by blast
    obtain actions where rest: "sent (fst (play_loop seat events t)) = numbered (py_request_id t) actions"
      "\<forall>(revision, action) \<in> set actions. \<exists>g. normalize_action (player_id_of_seat seat) action = Inr g"
      using Cons.IH [of t] Cons.prems by auto
    have "sends_one seat (py_request_id s) outputs (py_request_id t)"
      using play_step_sends [OF ok step] t by (auto simp: sends_one_def)
    then consider "sent outputs = []" "py_request_id t = py_request_id s"
      | revision action g where "sent outputs = [client_envelope.Submit protocol_version (py_request_id s + 1) revision action]"
        "py_request_id t = py_request_id s + 1" "normalize_action (player_id_of_seat seat) action = Inr g"
      by (auto simp: sends_one_def)
    then show ?thesis
    proof cases
      case 1
      then show ?thesis using rest by (intro exI [of _ actions]) (simp add: step t case_prod_beta)
    next
      case 2
      then show ?thesis
        using rest by (intro exI [of _ "(revision, action) # actions"]) (simp add: step t case_prod_beta)
    qed
  next
    case False
    then have "sent outputs = []" using play_step_sends [OF ok step] by blast
    then show ?thesis using False by (intro exI [of _ "[]"]) (cases flow, auto simp: step)
  qed
qed (intro exI [of _ "[]"], simp)

lemma numbered_length [simp]: "length (numbered k actions) = length actions"
  by (induction k actions rule: numbered.induct) simp_all

lemma numbered_enumerate:
  "numbered (of_nat n) actions =
     map (\<lambda>(i, revision, action). client_envelope.Submit protocol_version (of_nat (Suc i)) revision action)
       (enumerate n actions)"
proof (induction actions arbitrary: n)
  case (Cons x actions)
  obtain revision action where "x = (revision, action)" by force
  with Cons.IH [of "Suc n"] show ?case by (simp add: add.commute)
qed simp

lemma connection_submits:
  "connection_events seat (map Inr (map (\<lambda>(i, revision, action).
       client_envelope.Submit protocol_version (of_nat (Suc i)) revision action) xs))
   = map (\<lambda>(i, revision, action). session_event.Submit seat (of_nat (Suc i)) revision action) xs @ [Gone seat]"
  by (induction xs) auto

lemma next_request: "Suc i < 2 ^ 64 \<Longrightarrow> request_is_next (of_nat i) (of_nat (Suc i))"
  by (simp add: request_is_next_def word_less_nat_alt unat_of_nat del: of_nat_Suc)

text \<open>C9: client and server agree on submissions. Whatever lines a player types and whichever of the
  player's own views the client holds meanwhile, the server takes the messages of the client for
  submissions with the request ids 1, 2, 3 and so on, each of which may follow the one before, and
  normalizes each to an action of the player's own: it never answers with an unsupported version, a
  request id that must increase, or an actor that does not own the connection.\<close>
theorem client_submissions_welcome:
  assumes "\<forall>event \<in> set events. shows_own seat event"
    and "length (sent (fst (play_loop seat events play_start))) < 2 ^ 64"
  shows "\<exists>actions. connection_events seat (map Inr (sent (fst (play_loop seat events play_start))))
      = map (\<lambda>(i, revision, action). session_event.Submit seat (of_nat (Suc i)) revision action)
          (enumerate 0 actions) @ [Gone seat]
    \<and> (\<forall>i < length actions. request_is_next (of_nat i) (of_nat (Suc i)))
    \<and> (\<forall>(revision, action) \<in> set actions. \<exists>g. normalize_action (player_id_of_seat seat) action = Inr g)"
proof -
  obtain actions where actions: "sent (fst (play_loop seat events play_start)) = numbered (of_nat 0) actions"
    and own: "\<forall>(revision, action) \<in> set actions. \<exists>g. normalize_action (player_id_of_seat seat) action = Inr g"
    using play_loop_sends [OF assms(1), of play_start] by (auto simp: play_start_def)
  have "length actions < 2 ^ 64" using assms(2) by (simp add: actions)
  then have "\<forall>i < length actions. request_is_next (of_nat i) (of_nat (Suc i))" using next_request by auto
  moreover note own
  ultimately show ?thesis unfolding actions numbered_enumerate connection_submits by blast
qed

section \<open>Frames\<close>

lemma client_frame_reads:
  assumes "10 \<notin> set json" and "length bytes \<le> max_server_frame"
  shows "client_frame_from bytes (map Inr (json @ [10]) @ rest) =
    (if length bytes + length json < max_server_frame then Inr (bytes @ json, rest)
     else Inl (IoError Other ''frame limit''))"
  using assms
proof (induction json arbitrary: bytes)
  case Nil
  then show ?case by (subst client_frame_from.simps) simp
next
  case (Cons byte json)
  then show ?case using Cons.IH [of "bytes @ [byte]"] by (subst client_frame_from.simps) auto
qed

lemma server_frame_reads:
  assumes "10 \<notin> set json" and "length bytes \<le> limit"
  shows "read_frame_from limit bytes (json @ 10 # rest) =
    (if length bytes + length json < limit then Inr (bytes @ json, rest)
     else Inl (IoError Other ''frame limit''))"
  using assms
proof (induction json arbitrary: bytes)
  case Nil
  then show ?case by (subst read_frame_from.simps) simp
next
  case (Cons byte json)
  then show ?case using Cons.IH [of "bytes @ [byte]"] by (subst read_frame_from.simps) auto
qed

lemma client_reads:
  "10 \<notin> set json \<Longrightarrow> client_read_frame (map Inr (json @ [10]) @ rest) =
    (if length json < max_server_line then Inr (json, rest) else Inl (IoError Other ''frame limit''))"
  using client_frame_reads [of json "[]" rest]
  by (simp add: client_read_frame_def max_server_frame_def max_server_line_def)

text \<open>C12: the limits on frames are exact, and the same at both ends. A message whose JSON text has no
  line break is framed by the server exactly when the client reads the frame back whole, leaving
  what follows it, that is when it is shorter than 1 MiB; a longer one is refused, by either, as
  over the limit. What a client sends is read back by the server exactly up to 64 KiB.\<close>
theorem frame_limits_exact:
  assumes "10 \<notin> set json"
  shows "server_frame (\<lambda>_. Inr json) envelope =
      (if length json < max_server_line then Inr (json @ [10]) else Inl (IoError Other ''frame limit''))
    \<and> client_read_frame (map Inr (json @ [10]) @ rest) =
      (if length json < max_server_line then Inr (json, rest) else Inl (IoError Other ''frame limit''))
    \<and> read_frame (json @ 10 # following) =
      (if length json < max_client_line then Inr (json, following) else Inl (IoError Other ''frame limit''))"
  using client_reads [OF assms, of rest] server_frame_reads [OF assms, of "[]" max_client_line following]
  by (simp add: server_frame_def read_frame_def)

section \<open>The messages of a match\<close>

fun message_notices :: "server_envelope \<Rightarrow> notice list" where
  "message_notices (Update _ _ notices _ _) = notices"
| "message_notices (Finished _ _ notices _) = notices"
| "message_notices _ = []"

fun last_message :: "server_envelope \<Rightarrow> bool" where
  "last_message (Finished _ _ _ _) = True"
| "last_message (server_envelope.Stopped _) = True"
| "last_message _ = False"

text \<open>The view and its revision, as the last update has them.\<close>

fun updated :: "server_envelope \<Rightarrow> u64 \<times> player_view_data option \<Rightarrow> u64 \<times> player_view_data option" where
  "updated (Update revision view _ _ _) shown = (revision, Some view)"
| "updated _ shown = shown"

lemma receive_message_spec:
  "receive_message message snapshot = (snapshot', lines, over) \<Longrightarrow>
    over = last_message message \<and> sp_history snapshot' = sp_history snapshot @ map no_text (message_notices message)
    \<and> (sp_revision snapshot', sp_view snapshot') = updated message (sp_revision snapshot, sp_view snapshot)"
  by (cases message) auto

lemma receive_frame:
  assumes "server_frame to_vec message = Inr frame"
    and "\<And>bytes. to_vec message = Inr bytes \<Longrightarrow> 10 \<notin> set bytes \<and> from_slice bytes = Inr message"
  shows "receive from_slice (map Inr frame @ rest) snapshot =
    (let (snapshot, lines, over) = receive_message message snapshot in
     if over then (snapshot, lines, True)
     else (let (snapshot, more, over) = receive from_slice rest snapshot in (snapshot, lines @ more, over)))"
proof -
  obtain json where json: "to_vec message = Inr json" "frame = json @ [10]" "length json < max_server_line"
    using assms(1) by (auto simp: server_frame_def and_then_Inr map_err_def split: if_splits sum.splits)
  have "client_read_frame (map Inr frame @ rest) = Inr (json, rest)"
    using client_reads [of json rest] assms(2) [OF json(1)] json(2,3) by simp
  then show ?thesis using assms(2) [OF json(1)] by (subst receive.simps) simp
qed

text \<open>The messages up to the one that ends the match.\<close>

fun until_last :: "server_envelope list \<Rightarrow> server_envelope list" where
  "until_last [] = []"
| "until_last (message # messages) = message # (if last_message message then [] else until_last messages)"

lemma receive_closed: "receive from_slice [] snapshot = (snapshot, [''Stopped connection closed''], True)"
  by (subst receive.simps) (simp add: client_read_frame_def client_frame_from.simps max_server_frame_def)

text \<open>C11: a client misses nothing. When the server frames its messages and serde writes no line break
  and reads back what it wrote, the history of the client grows by exactly the notices of the
  messages up to the last one of the match, in order and none twice; its view and revision are those
  of the last update; and the main loop is told that the match is over.\<close>
theorem client_misses_nothing:
  assumes "try_map (server_frame to_vec) messages = Inr frames"
    and "\<And>message bytes. message \<in> set messages \<Longrightarrow> to_vec message = Inr bytes \<Longrightarrow>
      10 \<notin> set bytes \<and> from_slice bytes = Inr message"
  shows "\<exists>after lines. receive from_slice (map Inr (concat frames)) before = (after, lines, True)
    \<and> sp_history after = sp_history before @ map no_text (concat (map message_notices (until_last messages)))
    \<and> (sp_revision after, sp_view after) =
        fold updated (until_last messages) (sp_revision before, sp_view before)"
  using assms
proof (induction messages arbitrary: frames before)
  case Nil
  then show ?case by (simp add: receive_closed)
next
  case (Cons message messages)
  then obtain frame more where frames: "server_frame to_vec message = Inr frame"
    "try_map (server_frame to_vec) messages = Inr more" "frames = frame # more"
    by (auto simp: and_then_Inr)
  obtain mid lines over where mid: "receive_message message before = (mid, lines, over)"
    using prod_cases3 by blast
  note spec = receive_message_spec [OF mid]
  have step: "receive from_slice (map Inr (concat frames)) before =
    (if over then (mid, lines, True)
     else (let (s, more_lines, over) = receive from_slice (map Inr (concat more)) mid in (s, lines @ more_lines, over)))"
    using receive_frame [OF frames(1), of from_slice "map Inr (concat more)" before] Cons.prems(2) [of message] mid
    by (simp add: frames(3))
  show ?case
  proof (cases over)
    case True
    then show ?thesis using step spec by simp
  next
    case False
    obtain after rest where "receive from_slice (map Inr (concat more)) mid = (after, rest, True)"
      "sp_history after = sp_history mid @ map no_text (concat (map message_notices (until_last messages)))"
      "(sp_revision after, sp_view after) = fold updated (until_last messages) (sp_revision mid, sp_view mid)"
      using Cons.IH [OF frames(2), of mid] Cons.prems(2) by auto
    then show ?thesis using step spec False by simp
  qed
qed

end
