(* ===== verification/Log_Applications.thy ===== *)
theory Log_Applications
  imports Log_Safety Samples
begin

text \<open>
  The theorems about the match log, applied: One resigns from a match that has just started, recorded
  into memory. The library parameters are functions that write and read exactly the records of
  this log, each as its name. \<open>s\<close> is the state the match starts in.
\<close>

section \<open>A small log\<close>

definition resign_digest :: state_digest_v1 where
  "resign_digest = StateDigestV1 (''sha256:'' @ concat (map lower_hex (replicate 32 0)))"

definition resign_outcome :: game_outcome where
  "resign_outcome = \<lparr>go_winner = player_id.Two, go_reason = loss_reason.Resignation\<rparr>"

definition resign_over :: "game_state \<Rightarrow> game_state" where
  "resign_over s = s\<lparr>gs_status := game_status.Ended resign_outcome\<rparr>"

definition resign_created :: "game_state \<Rightarrow> set_requirement_v1 list \<Rightarrow> match_created_v1" where
  "resign_created s sets = match_created_new sets (projection_from_state s) resign_digest"

definition resign_event :: game_event where
  "resign_event = game_event.GameEnded player_id.Two loss_reason.Resignation"

definition resign_final :: "game_state \<Rightarrow> final_state_v1" where
  "resign_final s = \<lparr>fs1_sequence = 5, fs1_record = final_state_record_kind_v1.FinalState,
     fs1_final_state = projection_from_state (resign_over s), fs1_state_digest = resign_digest\<rparr>"

definition resign_completed :: match_completed_v1 where
  "resign_completed = \<lparr>md1_sequence = 6, md1_record = match_completed_record_kind_v1.MatchCompleted,
     md1_step_count = 1, md1_event_count = 1, md1_state_digest = resign_digest,
     md1_winner = player_id_to_v1 player_id.Two, md1_reason = loss_reason_to_v1 loss_reason.Resignation\<rparr>"

definition resign_log :: "game_state \<Rightarrow> header_metadata_v1 \<Rightarrow> set_requirement_v1 list \<Rightarrow> record_v1 list" where
  "resign_log s metadata sets =
     [record_v1.Header (header_new metadata), record_v1.MatchCreated (resign_created s sets),
      record_v1.Action (recorded_action 2 1 (game_action.Resign player_id.One)),
      record_v1.Event (prepare_event 3 1 (0, resign_event)),
      record_v1.StepCompleted (prepare_step_completed 3 1 [resign_event] resign_digest),
      record_v1.FinalState (resign_final s), record_v1.MatchCompleted resign_completed]"

definition record_line :: "record_v1 \<Rightarrow> u8 list" where
  "record_line r = map of_char (record_name r)"

definition resign_sz :: "game_state \<Rightarrow> header_metadata_v1 \<Rightarrow> set_requirement_v1 list \<Rightarrow> serialization" where
  "resign_sz s metadata sets =
     \<lparr>sz_state = (\<lambda>_ _. Inr []),
      sz_record = (\<lambda>r. if r \<in> set (resign_log s metadata sets) then Inr (record_line r) else Inl ''not of this log''),
      sz_sha256 = (\<lambda>_. replicate 32 0)\<rparr>"

definition resign_jd :: "game_state \<Rightarrow> header_metadata_v1 \<Rightarrow> set_requirement_v1 list \<Rightarrow> decoders" where
  "resign_jd s metadata sets =
     \<lparr>jd_value = (\<lambda>name. Inr (Object [(''record'', String name)])),
      jd_header = (\<lambda>_. Inr (header_new metadata)), jd_match_created = (\<lambda>_. Inr (resign_created s sets)),
      jd_action = (\<lambda>_. Inr (recorded_action 2 1 (game_action.Resign player_id.One))),
      jd_event = (\<lambda>_. Inr (prepare_event 3 1 (0, resign_event))),
      jd_step_completed = (\<lambda>_. Inr (prepare_step_completed 3 1 [resign_event] resign_digest)),
      jd_step_rejected = (\<lambda>_. Inl ([], [])), jd_final_state = (\<lambda>_. Inr (resign_final s)),
      jd_match_completed = (\<lambda>_. Inr resign_completed)\<rparr>"

lemma resign_computes: "digest_compute (resign_sz s metadata sets) p = Inr resign_digest"
  by (simp add: digest_compute_def canonical_bytes_def resign_sz_def resign_digest_def map_err_def)

lemma resign_encode:
  "r \<in> set (resign_log s metadata sets) \<Longrightarrow> encode_record (resign_sz s metadata sets) r = Inr (record_line r @ [10])"
  by (simp add: encode_record_def resign_sz_def map_err_def)

definition record_names :: "string set" where
  "record_names = {''header'', ''match_created'', ''action'', ''event'', ''step_completed'', ''step_rejected'',
     ''final_state'', ''match_completed''}"

lemma record_name_known: "record_name r \<in> record_names"
  by (cases r) (simp_all add: record_names_def)

lemma record_lines:
  "name \<in> record_names \<Longrightarrow>
    10 \<notin> set (map of_char name :: u8 list) \<and> last (map of_char name :: u8 list) \<noteq> 13
    \<and> from_utf8 (map of_char name) = Inr name"
  unfolding record_names_def by (elim insertE emptyE; hypsubst; code_simp)

lemma resign_reads_back: "reads_back (resign_sz s metadata sets) (resign_jd s metadata sets) r"
proof (cases "r \<in> set (resign_log s metadata sets)")
  case False
  then show ?thesis by (simp add: reads_back_def resign_sz_def)
next
  case True
  note name = record_lines [OF record_name_known [of r]]
  have "typed_reads (resign_jd s metadata sets) (record_name r) r"
    using True by (auto simp: resign_log_def resign_jd_def header_new_def)
  moreover have "jd_value (resign_jd s metadata sets) (record_name r) = Inr (Object [(''record'', String (record_name r))])"
    by (simp add: resign_jd_def)
  ultimately show ?thesis
    using name by (simp add: reads_back_def resign_sz_def record_line_def get_with_def validate_field_def)
qed

section \<open>Recording it\<close>

lemma resign_record_start:
  assumes "gs_status s = game_status.Playing"
  shows "\<exists>m. record_start (resign_sz s metadata sets) vec_write_ops [] metadata sets s = Inr m
    \<and> rm_state m = s \<and> rm_next_sequence m = 2 \<and> rm_next_step m = 1 \<and> rm_total_events m = 0
    \<and> rm_lifecycle m = Active"
proof -
  let ?sz = "resign_sz s metadata sets"
  have "encode_record ?sz (record_v1.Header (header_new metadata)) = Inr (record_line (record_v1.Header (header_new metadata)) @ [10])"
    "encode_record ?sz (record_v1.MatchCreated (resign_created s sets))
      = Inr (record_line (record_v1.MatchCreated (resign_created s sets)) @ [10])"
    by (simp_all add: resign_encode resign_log_def)
  then show ?thesis
    by (simp add: record_start_def check_initial_status_def assms prepare_start_def resign_computes
        map_err_def resign_created_def write_record_def flush_checkpoint_def vec_write_ops_def)
qed

lemma resign_append:
  "r \<in> set (resign_log s metadata sets) \<Longrightarrow> append_record (resign_sz s metadata sets) vec_write_ops r m =
    (Inr (), m\<lparr>rm_writer := rm_writer m @ record_line r @ [10], rm_next_sequence := rm_next_sequence m + 1\<rparr>)"
  by (simp add: append_record_def resign_encode write_record_def vec_write_ops_def map_err_def)

lemma vec_flush: "flush vec_write_ops m = (Inr (), m)"
  by (simp add: flush_def flush_checkpoint_def vec_write_ops_def map_err_def)

lemma resign_submit:
  assumes "gs_status s = game_status.Playing" and "rm_state m = s" "rm_next_sequence m = 2" "rm_next_step m = 1"
    and "rm_total_events m = 0" "rm_lifecycle m = Active"
  shows "\<exists>m'. submit (resign_sz s metadata sets) vec_write_ops m (game_action.Resign player_id.One)
      = Some (Inr (recorded_step.Accepted [resign_event]), m')
    \<and> rm_lifecycle m' = lifecycle.Stopped recording_stopped.MatchCompleted
    \<and> gs_status (rm_state m') = game_status.Ended resign_outcome"
proof -
  note records = resign_append [of "record_v1.Action (recorded_action 2 1 (game_action.Resign player_id.One))"]
    resign_append [of "record_v1.Event (prepare_event 3 1 (0, resign_event))"]
    resign_append [of "record_v1.StepCompleted (prepare_step_completed 3 1 [resign_event] resign_digest)"]
    resign_append [of "record_v1.FinalState (resign_final s)"] resign_append [of "record_v1.MatchCompleted resign_completed"]
  have applied: "apply_action s (game_action.Resign player_id.One)
      = Some (Inr \<lparr>ao_state = resign_over s, ao_events = [resign_event]\<rparr>)"
    by (simp add: apply_action_resign assms(1) resign_def resign_over_def resign_outcome_def
        resign_event_def Let_def)
  have check: "check_terminal_events (game_status.Ended resign_outcome) [resign_event] = Inr (Some resign_outcome)"
    by (simp add: check_terminal_events_def resign_event_def resign_outcome_def)
  have completion: "prepare_completion \<lparr>cc_sequence = 5, cc_steps = 1, cc_events = 1\<rparr> resign_outcome
      (projection_from_state (resign_over s)) resign_digest
      = [record_v1.FinalState (resign_final s), record_v1.MatchCompleted resign_completed]"
    by (simp add: prepare_completion_def resign_final_def resign_completed_def resign_outcome_def)
  have action: "prepare_action 2 1 (game_action.Resign player_id.One)
      = record_v1.Action (recorded_action 2 1 (game_action.Resign player_id.One))"
    by (simp add: prepare_action_def recorded_action_def)
  have over: "gs_status (resign_over s) = game_status.Ended resign_outcome" by (simp add: resign_over_def)
  show ?thesis
    by (simp add: submit_def submit_with_def ensure_active_def assms(2-) action records applied
        record_accepted_step_def compute_digest_def resign_computes prepare_accepted_step_def vec_flush
        settle_step_def over check complete_ended_match_def completion resign_log_def Let_def)
qed

text \<open>On the sample match.\<close>

lemma sample_playing: "gs_status sample_start = game_status.Playing"
  using from_scenario_Inr [OF sample_parsed] by (metis (no_types, lifting) game_state.select_convs(8))

definition sample_sz :: serialization where
  "sample_sz = resign_sz sample_start [] []"

definition sample_jd :: decoders where
  "sample_jd = resign_jd sample_start [] []"

definition sample_recording :: "u8 list recorded_match" where
  "sample_recording = projr (record_start sample_sz vec_write_ops [] [] [] sample_start)"

lemma sample_record_start:
  "record_start sample_sz vec_write_ops [] [] [] sample_start = Inr sample_recording"
  "rm_state sample_recording = sample_start" "rm_next_sequence sample_recording = 2"
  "rm_next_step sample_recording = 1" "rm_total_events sample_recording = 0"
  "rm_lifecycle sample_recording = Active"
  using resign_record_start [OF sample_playing, of "[]" "[]"] by (auto simp: sample_recording_def sample_sz_def)

lemma sample_submit:
  "\<exists>m'. submit sample_sz vec_write_ops sample_recording (game_action.Resign player_id.One)
      = Some (Inr (recorded_step.Accepted [resign_event]), m')
    \<and> rm_lifecycle m' = lifecycle.Stopped recording_stopped.MatchCompleted"
  using resign_submit [OF sample_playing sample_record_start(2-6), of "[]" "[]"] by (auto simp: sample_sz_def)

section \<open>The applications\<close>

lemma recorded_match_verifies_applied:
  "\<exists>m'. submit_all sample_sz vec_write_ops sample_recording [game_action.Resign player_id.One] = Some m'
    \<and> verify_transcript sample_sz slice_read_until sample_jd (\<lambda>_. None) sample_cards (rm_writer m')
        = Some (Inr ())"
proof -
  obtain m' where m': "submit_all sample_sz vec_write_ops sample_recording [game_action.Resign player_id.One] = Some m'"
    "rm_lifecycle m' = lifecycle.Stopped recording_stopped.MatchCompleted"
    using sample_submit by auto
  have "\<exists>t ls. try_map (encode_record sample_sz) (records_in t) = Inr ls
    \<and> rm_writer m' = concat ls
    \<and> verify_parsed_transcript sample_sz (\<lambda>_. None) (gs_cards sample_start) t = Some (Inr ())
    \<and> ((\<forall>r \<in> set (records_in t). reads_back sample_sz sample_jd r) \<longrightarrow>
         parse_reader sample_sz slice_read_until sample_jd (rm_writer m') = Some (Inr t)
         \<and> verify_transcript sample_sz slice_read_until sample_jd (\<lambda>_. None) (gs_cards sample_start) (rm_writer m')
             = Some (Inr ()))"
  proof (rule recorded_match_verifies [where contents = "\<lambda>w. w", OF _ _ _ sample_record_start(1) m'(1) _ m'(2)])
    show "projectable sample_start" by (rule reachable_projectable [OF sample_reachable])
  qed (auto simp: vec_write_ops_def recordable_def requirements_met_def)
  then show ?thesis
    using m'(1) resign_reads_back [of sample_start "[]" "[]", folded sample_sz_def sample_jd_def] reachable_cards [OF sample_reachable] by auto
qed

lemma reachable_state_rebuilds_applied:
  "into_game_state (projection_from_state sample_start) sample_cards = Inr sample_start"
  by (rule reachable_state_rebuilds [OF sample_reachable])

text \<open>Two cannot be answered any more: a recording whose writer fails, and what follows.\<close>

definition full_write_ops :: "u8 list write_ops" where
  "full_write_ops = vec_write_ops\<lparr>wr_write_all := (\<lambda>w bytes. (Inl ''no space left'', w))\<rparr>"

lemma submit_fails_closed_applied:
  "\<exists>e m'. submit sample_sz full_write_ops sample_recording (game_action.Resign player_id.One) = Some (Inl e, m')
    \<and> submit sample_sz full_write_ops m' (game_action.EndTurn player_id.One)
        = Some (Inl (recording_error.Stopped RecordingFailed), m')"
proof -
  have "encode_record sample_sz (prepare_action 2 1 (game_action.Resign player_id.One)) \<noteq> Inl e'" for e'
    using resign_encode [of "prepare_action 2 1 (game_action.Resign player_id.One)" sample_start "[]" "[]"]
    by (simp add: resign_log_def sample_sz_def prepare_action_def recorded_action_def)
  then obtain e m' where failed: "submit sample_sz full_write_ops sample_recording (game_action.Resign player_id.One) = Some (Inl e, m')"
    "rm_lifecycle m' = lifecycle.Stopped RecordingFailed"
    by (cases "encode_record sample_sz (prepare_action 2 1 (game_action.Resign player_id.One))")
      (auto simp: submit_def submit_with_def ensure_active_def sample_record_start append_record_def
        write_record_def full_write_ops_def map_err_def stop_def Let_def)
  from submit_fails_closed [OF failed(1)] failed show ?thesis by auto
qed

end
