(* ===== verification/Card_Applications.thy ===== *)
theory Card_Applications
  imports Opening
begin

text \<open>
  A small Set and a small Deck, on which the theorems about loaded cards are applied: one Base
  Summon and ten Spells, and the Deck of the Summon with two copies of each Spell. The
  readers answer these documents for every text, and the generator does not reorder.
\<close>

section \<open>Documents\<close>

definition toy_uuid :: uuid_v5 where
  "toy_uuid namespace input = replicate 30 CHR ''0'' @ lower_hex (of_char (last input))"

definition toy_attack :: dto_ability where
  "toy_attack = \<lparr>da_code = ''z'', da_name = ''Strike'', da_text = [], da_kind = dto_ability_kind.Attack,
     da_cost = Some [dto_mana_symbol.Generic], da_event = None, da_response = None,
     da_effects = [dto_effect.Damage target.DefendingMain 10 [] []], da_modifier = None\<rparr>"

definition toy_summon :: dto_card where
  "toy_summon = \<lparr>dc_code = ''a'', dc_name = ''Golem'', dc_text = [], dc_kind = dto_card_kind.Summon,
     dc_form = Some dto_form.Base, dc_life = Some 30, dc_types = Some [dto_mana_type.Matter],
     dc_retreat = Some 1, dc_timing = None, dc_persistence = None, dc_cost = None,
     dc_abilities = [toy_attack], dc_effects = [], dc_modifiers = []\<rparr>"

definition toy_spell :: "char \<Rightarrow> dto_card" where
  "toy_spell c = \<lparr>dc_code = [c], dc_name = ''Draw'', dc_text = [], dc_kind = dto_card_kind.Spell,
     dc_form = None, dc_life = None, dc_types = None, dc_retreat = None,
     dc_timing = Some dto_spell_timing.Support, dc_persistence = Some persistence.Discard,
     dc_cost = Some [dto_mana_symbol.Generic], dc_abilities = [],
     dc_effects = [dto_effect.DrawCards 1], dc_modifiers = []\<rparr>"

definition toy_set :: dto_set where
  "toy_set = \<lparr>ds_schema_version = 1, ds_id = ''foundations'', ds_revision = 1, ds_name = ''Toys'',
     ds_cards = toy_summon # map toy_spell ''bcdefghijk''\<rparr>"

definition toy_set_reader :: "dto_set toml_reader" where
  "toy_set_reader = \<lparr>tm_schema_version = (\<lambda>_. Inr (Some (Inr 1))), tm_document = (\<lambda>_. Inr (Inr toy_set))\<rparr>"

definition toy_deck :: deck_dto where
  "toy_deck = \<lparr>kd_schema_version = 1, kd_id = ''d'', kd_name = ''Toy Deck'', kd_starter = ''foundations/a'',
     kd_requires = [\<lparr>sr_set = ''foundations'', sr_revision = 1\<rparr>],
     kd_cards = map (\<lambda>c. \<lparr>cq_card = ''foundations/'' @ [c], cq_quantity = 2\<rparr>) ''bcdefghijk''\<rparr>"

definition toy_deck_reader :: "deck_dto toml_reader" where
  "toy_deck_reader = \<lparr>tm_schema_version = (\<lambda>_. Inr (Some (Inr 1))), tm_document = (\<lambda>_. Inr (Inr toy_deck))\<rparr>"

definition toy_generator :: "unit generator" where
  "toy_generator = \<lparr>rg_seed_from = (\<lambda>_. ()), rg_shuffle = (\<lambda>cards g. (cards, g))\<rparr>"

definition toy_library :: card_library where
  "toy_library = projr (load_library toy_uuid toy_set_reader [[]])"

definition built_toy :: deck where
  "built_toy = projr (parse_deck toy_deck_reader [] toy_library)"

definition toy_start :: game_state where
  "toy_start = projr (the (initial_state toy_generator toy_library built_toy built_toy 7))"

lemma toy_loads:
  "load_library toy_uuid toy_set_reader [[]] = Inr toy_library"
  "parse_deck toy_deck_reader [] toy_library = Inr built_toy"
proof -
  have "\<not> isl (load_library toy_uuid toy_set_reader [[]])" by code_simp
  then show "load_library toy_uuid toy_set_reader [[]] = Inr toy_library" by (simp add: toy_library_def)
  have "\<not> isl (parse_deck toy_deck_reader [] toy_library)" by code_simp
  then show "parse_deck toy_deck_reader [] toy_library = Inr built_toy" by (simp add: built_toy_def)
qed

lemma toy_shuffles: "shuffles toy_generator"
  by (simp add: shuffles_def toy_generator_def)

section \<open>Applications\<close>

lemma authored_cards_resolve_applied:
  "\<exists>e. library_card_id toy_library ''foundations/k'' = Some (entity_id e)
    \<and> card_set_get (cl_core_cards toy_library) (entity_id e) = Some e \<and> family e = card_kind.Spell"
proof -
  have doc: "decode_set toy_set_reader [] = Inr toy_set" by code_simp
  have card: "toy_spell CHR ''k'' \<in> set (ds_cards toy_set)" by (simp add: toy_set_def)
  have "[] \<in> set [[] :: u8 list]" by simp
  from authored_cards_resolve [OF toy_loads(1) this doc card] show ?thesis
    by (auto simp: qualified_key_def toy_set_def toy_spell_def)
qed

lemma decks_open_applied:
  "initial_state toy_generator toy_library built_toy built_toy 7 = Some (Inr toy_start)
    \<and> gs_status toy_start = game_status.Playing \<and> gs_pending toy_start = None
    \<and> required_actor toy_start = player_id.One"
  using decks_open [OF toy_loads(1,2,2) toy_shuffles, of 7] by (auto simp: toy_start_def)

lemma toy_opens: "initial_state toy_generator toy_library built_toy built_toy 7 = Some (Inr toy_start)"
  using opening_state [OF toy_loads(1,2,2) toy_shuffles, of 7] by (auto simp: toy_start_def)

lemma toy_playing: "gs_status toy_start = game_status.Playing \<and> gs_pending toy_start = None"
proof -
  obtain sp1 sp2 sc s where dealt: "dealt built_toy 1 sp1" "dealt built_toy 22 sp2"
    and sc: "sc = \<lparr>sn_players = pp_new sp1 sp2, sn_active_player = player_id.One, sn_coin = Some Coin\<rparr>"
    and s: "from_scenario (cl_core_cards toy_library) sc = Inr s"
      "initial_state toy_generator toy_library built_toy built_toy 7 = Some (Inr s)"
    using opening_state [OF toy_loads(1,2,2) toy_shuffles, of 7] by blast
  have "s = toy_start" using s(2) toy_opens by simp
  then show ?thesis using opened_facts(2,6) [OF s(1) [unfolded sc] dealt] by simp
qed


lemma only_deck_cards_applied:
  "image_mset cr_def (owned toy_start player_id.Two) \<subseteq># add_mset (dk_starter built_toy) (mset (dk_body built_toy))"
proof -
  have "plays toy_start [] = Some toy_start" by simp
  from only_deck_cards [OF toy_loads(1,2,2) toy_shuffles toy_opens this, of player_id.Two] show ?thesis by simp
qed

end
