(* ===== verification/Cli_Applications.thy ===== *)
theory Cli_Applications
  imports Served Playing Log_Applications Card_Applications
begin

text \<open>
  The theorems about server and client, applied: a server of the small catalog whose clients both join,
  after which One resigns, over connections that deliver everything, into a file in memory; and
  small messages, views and lines of input.
\<close>

section \<open>A served match\<close>

definition calm_channels :: "(unit, unit) channel_ops" where
  "calm_channels = \<lparr>ch_send = (\<lambda>_ _ n. (Answered (Inr ()), n)), ch_admit = (\<lambda>_ _ n. n)\<rparr>"

lemma calm_delivers: "deliver calm_channels client envelope n = (Inr (), n)"
  by (simp add: deliver_def calm_channels_def)

lemma calm_broadcasts: "broadcast calm_channels clients input n = (Inr (), n)"
proof -
  have "fold (broadcast_to calm_channels clients input) ss (None, n) = (None, n)" for ss
    by (induction ss) (simp_all add: broadcast_to_def calm_delivers split: option.split)
  then show ?thesis by (simp add: broadcast_def)
qed

definition resign_events :: "unit session_event list" where
  "resign_events =
     [Joined seat.One (), Joined seat.Two (), session_event.Submit seat.One 1 0 (action_v1.Resign player_id_v1.One)]"

definition calm_service :: "game_state \<Rightarrow> header_metadata_v1 \<Rightarrow> set_requirement_v1 list
    \<Rightarrow> card_descriptions \<Rightarrow> card_identity_map \<Rightarrow> (unit, u8 list, unit) service" where
  "calm_service s metadata sets descriptions identities =
     \<lparr>sr_channels = calm_channels, sr_descriptions = descriptions, sr_identities = identities,
      sr_serialization = resign_sz s metadata sets, sr_writer = vec_write_ops\<rparr>"

lemma resigned_session:
  assumes "gs_status s = game_status.Playing" and "rm_state m = s" "rm_next_sequence m = 2" "rm_next_step m = 1"
    and "rm_total_events m = 0" "rm_lifecycle m = Active"
  shows "\<exists>t. serve_session (calm_service s metadata sets descriptions identities) resign_events (session_start m ())
      = Some (Return (Inr ()) t)
    \<and> gs_status (rm_state (se_recorder t)) = game_status.Ended resign_outcome
    \<and> executed (calm_service s metadata sets descriptions identities) resign_events (session_start m ())
      = [(seat.One, 1, game_action.Resign player_id.One)]"
proof -
  let ?sr = "calm_service s metadata sets descriptions identities"
  obtain m' where m': "submit (resign_sz s metadata sets) vec_write_ops m (game_action.Resign player_id.One)
      = Some (Inr (recorded_step.Accepted [resign_event]), m')"
    "gs_status (rm_state m') = game_status.Ended resign_outcome"
    using resign_submit [OF assms] by blast
  let ?s1 = "(session_start m ())\<lparr>se_clients := [seat.One \<mapsto> ()]\<rparr>"
  let ?s2 = "(session_start m ())\<lparr>se_clients := [seat.One \<mapsto> (), seat.Two \<mapsto> ()]\<rparr>"
  have one: "session_step ?sr (Joined seat.One ()) (session_start m ()) = Some (Continue ?s1)"
    by (simp add: on_joined_def session_start_def both_seated_def seats_def calm_service_def calm_delivers
        calm_channels_def [THEN arg_cong, of ch_admit])
  have two: "session_step ?sr (Joined seat.Two ()) ?s1 = Some (Continue ?s2)"
    by (simp add: on_joined_def session_start_def both_seated_def seats_def calm_service_def calm_delivers
        broadcast_or_stop_def calm_broadcasts calm_channels_def [THEN arg_cong, of ch_admit])
  let ?e = "session_event.Submit seat.One 1 0 (action_v1.Resign player_id_v1.One)"
  have admit: "admitted ?s2 ?e = Some (seat.One, 1, game_action.Resign player_id.One)"
    by (simp add: admitted_def session_start_def both_seated_def seats_def request_is_next_def
        normalize_action_def accepts_revision_def assms)
  obtain t where three: "session_step ?sr ?e ?s2 = Some (Return (Inr ()) t)" "se_recorder t = m'"
    using m' by (simp add: on_submit_def session_start_def both_seated_def seats_def request_is_next_def
        normalize_action_def accepts_revision_def assms record_submission_def calm_service_def
        broadcast_or_stop_def calm_broadcasts)
  show ?thesis
  proof (intro exI conjI)
    show "serve_session ?sr resign_events (session_start m ()) = Some (Return (Inr ()) t)"
      by (simp add: resign_events_def one two three del: session_step.simps)
    show "gs_status (rm_state (se_recorder t)) = game_status.Ended resign_outcome"
      using m' three by simp
    have "admitted (session_start m ()) (Joined seat.One ()) = None" "admitted ?s1 (Joined seat.Two ()) = None"
      by (simp_all add: admitted_def)
    then show "executed ?sr resign_events (session_start m ()) = [(seat.One, 1, game_action.Resign player_id.One)]"
      by (simp add: resign_events_def one two three admit del: session_step.simps)
  qed
qed

lemma session_executes_once_applied:
  "\<exists>m'. submit_all sample_sz vec_write_ops sample_recording [game_action.Resign player_id.One] = Some m'
    \<and> gs_status (rm_state m') = game_status.Ended resign_outcome"
proof -
  let ?sr = "calm_service sample_start [] [] Map.empty Map.empty"
  obtain t where t: "serve_session ?sr resign_events (session_start sample_recording ()) = Some (Return (Inr ()) t)"
    "gs_status (rm_state (se_recorder t)) = game_status.Ended resign_outcome"
    "executed ?sr resign_events (session_start sample_recording ()) = [(seat.One, 1, game_action.Resign player_id.One)]"
    using resigned_session [OF sample_playing sample_record_start(2-6)] by blast
  have "\<not> recording_failed (Return (Inr ()) t)" by (simp add: recording_failed_def)
  from session_executes_once [OF t(1) this] t(2,3) show ?thesis
    by (simp add: calm_service_def sample_sz_def)
qed

definition toy_catalog :: built_in_catalog where
  "toy_catalog = \<lparr>bc_library = toy_library, bc_set_paths = built_toy, bc_barrow_herd = built_toy\<rparr>"

definition toy_file_ops :: "(unit, u8 list, unit) file_ops" where
  "toy_file_ops =
     \<lparr>fo_metadata_len = (\<lambda>_ _. Inr 0), fo_open = (\<lambda>_ _. Inr ()), fo_read_up_to = (\<lambda>_ _. Inr []),
      fo_create_new = (\<lambda>_ fs. (Inr [], fs)), fo_create_dir_all = (\<lambda>_ fs. (Inr (), fs)), fo_epoch_seconds = Inr 0\<rparr>"

definition toy_metadata :: header_metadata_v1 where
  "toy_metadata = [(''seed'', json_value.Null), (''shuffle_version'', json_value.String shuffle_version)]"

definition toy_required :: "set_requirement_v1 list" where
  "toy_required = [\<lparr>sq1_set = ''foundations'', sq1_revision = 1\<rparr>]"

definition toy_host :: "(unit, unit, u8 list, unit, unit, unit) host" where
  "toy_host =
     \<lparr>ho_catalog = Inr toy_catalog, ho_toml = toy_deck_reader, ho_generator = toy_generator,
      ho_files = toy_file_ops, ho_serialization = resign_sz toy_start toy_metadata toy_required,
      ho_writer = vec_write_ops, ho_channels = calm_channels, ho_bind = Inr (), ho_local_addr = Inr (),
      ho_json_seed = (\<lambda>_. json_value.Null), ho_drawn_seed = 7\<rparr>"

definition toy_args :: serve_args where
  "toy_args = \<lparr>sa_decks = (''one'', ''two''), sa_seed = None, sa_address = ''127.0.0.1:0'', sa_output = Some ''log''\<rparr>"

definition toy_transcripts :: "u8 list \<Rightarrow> u8 list transcript_files" where
  "toy_transcripts bytes =
     \<lparr>tf_open = (\<lambda>_. Inr bytes), tf_rewind = Inr, tf_read_until = slice_read_until, tf_read_line = slice_read_line\<rparr>"

definition toy_from_str :: "string \<Rightarrow> string + match_created_v1" where
  "toy_from_str line =
     (if line = ''match_created'' @ [CHR 0x0A] then Inr (resign_created toy_start toy_required)
      else Inl ''another record'')"

lemma toy_catalog_loads: "load_catalog toy_uuid toy_set_reader toy_deck_reader [] [] [] = Inr toy_catalog"
  using toy_loads by (auto simp: load_catalog_def load_library_def toy_catalog_def and_then_Inr map_err_Inr)

text \<open>The Deck that is accepted requires this revision.\<close>

lemma toy_revision: "set_revision toy_library ''foundations'' = Some 1"
proof -
  have "resolve toy_deck toy_library = Inr built_toy"
    using toy_loads(2)
    by (auto simp: parse_deck_def toy_deck_reader_def deck_decode_v1_def and_then_Inr split: if_splits)
  then show ?thesis by (simp add: resolve_Inr legal_deck_def toy_deck_def)
qed

lemma resign_reads_created:
  "reads_created (resign_sz toy_start toy_metadata toy_required) toy_from_str r"
proof (cases "r \<in> set (resign_log toy_start toy_metadata toy_required)")
  case True
  then show ?thesis
    using record_lines [OF record_name_known [of r]]
    by (auto simp: reads_created_def resign_sz_def record_line_def toy_from_str_def resign_log_def)
qed (simp add: reads_created_def resign_sz_def)

lemma toy_serves:
  "\<exists>t. serve toy_host toy_args () () resign_events = Some (Inr (Return (Inr ()) t))
    \<and> gs_status (rm_state (se_recorder t)) = game_status.Ended resign_outcome"
proof -
  have playing: "gs_status toy_start = game_status.Playing" using toy_playing by simp
  obtain m where m: "record_start (resign_sz toy_start toy_metadata toy_required) vec_write_ops [] toy_metadata
      toy_required toy_start = Inr m" "rm_state m = toy_start" "rm_next_sequence m = 2" "rm_next_step m = 1"
    "rm_total_events m = 0" "rm_lifecycle m = Active"
    using resign_record_start [OF playing] by blast
  have deck: "load_deck toy_file_ops () toy_deck_reader toy_library path = Inr built_toy" for path
    by (simp add: load_deck_def read_deck_def toy_file_ops_def max_deck_bytes_def toy_loads(2))
  have sets: "required_sets toy_library = Inr toy_required"
    by (simp add: required_sets_def toy_revision toy_required_def)
  have "open_session toy_host toy_args () () =
      Some (Inr (calm_service toy_start toy_metadata toy_required (from_card_set (gs_cards toy_start))
        (from_initial_state toy_start (from_card_set (gs_cards toy_start))), session_start m ()), ())"
    using m(1)
    by (simp add: open_session_def toy_host_def toy_args_def load_decks_def toy_catalog_def deck toy_opens
        create_explicit_output_def toy_file_ops_def [THEN arg_cong, of fo_create_new] sets start_recording_def
        calm_service_def toy_metadata_def Let_def)
  then show ?thesis using resigned_session [OF playing m(2-6), of toy_metadata toy_required "from_card_set (gs_cards toy_start)"
        "from_initial_state toy_start (from_card_set (gs_cards toy_start))"]
    by (auto simp: serve_def)
qed

lemma served_match_replays_applied:
  "\<exists>t summary. serve toy_host toy_args () () resign_events = Some (Inr (Return (Inr ()) t))
    \<and> run_replay (toy_transcripts (rm_writer (se_recorder t))) (Inr toy_catalog)
        (resign_sz toy_start toy_metadata toy_required) (resign_jd toy_start toy_metadata toy_required)
        toy_from_str ''log'' = Some (Inr summary)
    \<and> confirmation_line summary = ''OK log: transcript verified (foundations revision 1)''"
proof -
  obtain t where t: "serve toy_host toy_args () () resign_events = Some (Inr (Return (Inr ()) t))"
    "gs_status (rm_state (se_recorder t)) = game_status.Ended resign_outcome"
    using toy_serves by blast
  have "\<exists>tr ls revision. try_map (encode_record (ho_serialization toy_host)) (records_in tr) = Inr ls
    \<and> rm_writer (se_recorder (result_session (Return (Inr ()) t))) = concat ls
    \<and> set_revision (bc_library toy_catalog) ''foundations'' = Some revision
    \<and> ((\<forall>record \<in> set (records_in tr). reads_back (ho_serialization toy_host)
            (resign_jd toy_start toy_metadata toy_required) record
            \<and> reads_created (ho_serialization toy_host) toy_from_str record) \<longrightarrow>
         (\<exists>summary. run_replay (toy_transcripts (rm_writer (se_recorder t))) (Inr toy_catalog)
              (ho_serialization toy_host) (resign_jd toy_start toy_metadata toy_required) toy_from_str ''log''
              = Some (Inr summary)
            \<and> confirmation_line summary = ''OK '' @ path_text ''log''
                @ '': transcript verified (foundations revision '' @ number_text revision @ '')''))"
  proof (rule served_match_replays [where contents = "\<lambda>w. w", OF _ _ _ _ toy_catalog_loads _ t(1)])
    show "shuffles (ho_generator toy_host)" by (simp add: toy_host_def toy_shuffles)
    show "gs_status (rm_state (se_recorder (result_session (Return (Inr ()) t)))) = game_status.Ended resign_outcome"
      using t(2) by simp
  qed (auto simp: toy_host_def vec_write_ops_def toy_file_ops_def recording_failed_def toy_transcripts_def)
  moreover have "path_text ''log'' = ''log''" "number_text (1 :: u32) = ''1''" by code_simp+
  ultimately show ?thesis
    using t(1) resign_reads_back resign_reads_created
    by (auto simp: toy_host_def toy_catalog_def toy_revision)
qed

section \<open>Messages and lines of input\<close>

text \<open>Two's hidden cards in another order, and Two drawing another card.\<close>

definition reshuffled :: "game_state \<Rightarrow> game_state" where
  "reshuffled s =
     (let two = player_of s player_id.Two in
      update_player s player_id.Two (\<lambda>ps. ps\<lparr>ps_deck := rev (ps_deck two), ps_prizes := rev (ps_prizes two),
        ps_hand := rev (ps_hand two)\<rparr>))"

definition drawn_by_two :: "game_state \<Rightarrow> u32 \<Rightarrow> broadcast_input" where
  "drawn_by_two s c =
     \<lparr>bc_state = s, bc_descriptions = from_card_set sample_cards, bc_identities = Map.empty,
      bc_events = [game_event.CardDrawn player_id.Two (CardInstanceId c)], bc_revision = 3, bc_reply = Some 8,
      bc_requester = Some seat.Two, bc_result = Some submission_result.Accepted\<rparr>"

lemma broadcast_private_applied:
  "broadcast_envelope (drawn_by_two sample_start 5) seat.One
    = broadcast_envelope (drawn_by_two (reshuffled sample_start) 6) seat.One"
proof (rule broadcast_private)
  show "looks_alike (player_id_of_seat seat.One) (bc_state (drawn_by_two sample_start 5))
      (bc_state (drawn_by_two (reshuffled sample_start) 6))"
    unfolding drawn_by_two_def reshuffled_def Let_def broadcast_input.select_convs
    by (rule looks_alike_hidden) simp_all
qed (simp_all add: drawn_by_two_def)

definition give_up_lines :: "play_event list" where
  "give_up_lines =
     [InputLine (Inr ''give up'') 0 snapshot_default, InputLine (Inr ''YES'') 0 snapshot_default]"

lemma client_submissions_welcome_applied:
  "\<exists>actions. (connection_events seat.One (map Inr (sent (fst (play_loop seat.One give_up_lines play_start)))) :: unit session_event list)
      = map (\<lambda>(i, revision, action). session_event.Submit seat.One (of_nat (Suc i)) revision action)
          (enumerate 0 actions) @ [Gone seat.One]
    \<and> length actions = 1
    \<and> (\<forall>(revision, action) \<in> set actions. \<exists>g. normalize_action player_id.One action = Inr g)"
proof -
  have one: "sent (fst (play_loop seat.One give_up_lines play_start))
      = [client_envelope.Submit protocol_version 1 0 (action_v1.Resign player_id_v1.One)]"
    by code_simp
  have shown: "\<forall>event \<in> set give_up_lines. shows_own seat.One event"
    by (simp add: give_up_lines_def shows_own_def snapshot_default_def)
  have few: "length (sent (fst (play_loop seat.One give_up_lines play_start))) < 2 ^ 64" by (simp add: one)
  obtain actions where actions:
    "(connection_events seat.One (map Inr (sent (fst (play_loop seat.One give_up_lines play_start)))) :: unit session_event list)
      = map (\<lambda>(i, revision, action). session_event.Submit seat.One (of_nat (Suc i)) revision action)
          (enumerate 0 actions) @ [Gone seat.One]"
    "\<forall>(revision, action) \<in> set actions. \<exists>g. normalize_action (player_id_of_seat seat.One) action = Inr g"
    using client_submissions_welcome [OF shown few] by blast
  have "length actions = 1" using arg_cong [OF actions(1), of length] by (simp add: one)
  moreover have "\<forall>(revision, action) \<in> set actions. \<exists>g. normalize_action player_id.One action = Inr g"
    using actions(2) by simp
  ultimately show ?thesis using actions(1) by (intro exI [of _ actions] conjI)
qed

lemma frame_limits_exact_applied:
  "client_read_frame (map Inr ([123, 125] @ [10]) @ [Inr 7]) = Inr ([123, 125], [Inr 7])"
proof -
  have "10 \<notin> set [123, 125 :: u8]" by simp
  from frame_limits_exact [OF this] show ?thesis by (simp add: max_server_line_def)
qed

definition two_messages :: "server_envelope list" where
  "two_messages = [Waiting seat.One, server_envelope.Stopped ''interrupted'']"

lemma client_misses_nothing_applied:
  "\<exists>lines. receive (\<lambda>bytes. if bytes = [1] then Inr (Waiting seat.One) else Inr (server_envelope.Stopped ''interrupted''))
      (map Inr (concat [[1, 10], [2, 10]])) snapshot_default = (snapshot_default, lines, True)"
proof -
  let ?to_vec = "\<lambda>message. Inr (if message = Waiting seat.One then [1] else [2]) :: string + u8 list"
  let ?from = "\<lambda>bytes :: u8 list. if bytes = [1] then Inr (Waiting seat.One)
    else Inr (server_envelope.Stopped ''interrupted'') :: string + server_envelope"
  have "try_map (server_frame ?to_vec) two_messages = Inr [[1, 10], [2, 10]]"
    by (simp add: two_messages_def server_frame_def max_server_line_def)
  then have "\<exists>after lines. receive ?from (map Inr (concat [[1, 10], [2, 10]])) snapshot_default = (after, lines, True)
    \<and> sp_history after = sp_history snapshot_default @ map no_text (concat (map message_notices (until_last two_messages)))
    \<and> (sp_revision after, sp_view after) =
        fold updated (until_last two_messages) (sp_revision snapshot_default, sp_view snapshot_default)"
    by (rule client_misses_nothing) (auto simp: two_messages_def)
  then show ?thesis by (auto simp: two_messages_def snapshot_default_def)
qed

definition bare_player :: player_public_view where
  "bare_player =
     \<lparr>pu_board = \<lparr>bv_main = None, bv_bench = Array3 None None None\<rparr>,
      pu_mana = \<lparr>mv_matter = 0, mv_mind = 0, mv_spirit = 0\<rparr>, pu_main_losses = 0, pu_discard = [],
      pu_persistent = [], pu_deck_count = 13, pu_prize_count = 2, pu_hand_count = 1\<rparr>"

definition bare_view :: player_view_data where
  "bare_view =
     \<lparr>pv_you = seat.One, pv_hand = [\<lparr>hc_instance = 7, hc_card = unknown_card\<rparr>],
      pv_players = \<lparr>sv_one = bare_player, sv_two = bare_player\<rparr>, pv_coin = True, pv_stack = [],
      pv_phase = phase_view.Main, pv_active_player = seat.One, pv_priority_holder = None, pv_pending = None,
      pv_outcome = None\<rparr>"

lemma every_action_enterable_applied:
  "\<exists>inputs. enters bare_view (prompt_state.Menu 0) inputs (prompt_state.Menu 0)
      [(0, action_v1.PlaySummon player_id_v1.One 7 bench_slot_v1.Second)]"
proof -
  have "enterable bare_view (action_v1.PlaySummon player_id_v1.One 7 bench_slot_v1.Second)"
    by (simp add: enterable_def bare_view_def)
  moreover have "length (pv_hand bare_view) < 2 ^ 64" by (simp add: bare_view_def)
  moreover have "\<forall>p. length (skills_at bare_view p) < 2 ^ 64"
    by (simp add: skills_at_def Let_def bare_view_def bare_player_def view_board_def bench_place_def
        split: position_v1.split bench_slot_v1.split)
  ultimately have "\<exists>inputs. enters bare_view (prompt_start bare_view 0) inputs (prompt_state.Menu 0)
      [(0, action_v1.PlaySummon player_id_v1.One 7 bench_slot_v1.Second)]"
    by (rule every_action_enterable)
  then show ?thesis by (simp add: prompt_start_def bare_view_def)
qed

end
