(* ===== verification/Comparing.thy ===== *)
theory Comparing
  imports Compare
begin

text \<open>
  What a comparison finds: the relation \<open>agrees\<close> of two ordered values, which looks up fields by
  name, and the place of a difference that is found.
\<close>

section \<open>Values that agree\<close>

inductive agrees :: "ordered_value \<Rightarrow> ordered_value \<Rightarrow> bool" where
  scalar: "scalar_eq v w \<Longrightarrow> agrees v w"
| sequence: "list_all2 agrees xs ys \<Longrightarrow> agrees (Sequence xs) (Sequence ys)"
| mapping: "\<forall>(name, v) \<in> set xs. \<exists>w. map_of ys name = Some w \<and> agrees v w
    \<Longrightarrow> fst ` set ys \<subseteq> fst ` set xs \<Longrightarrow> agrees (Mapping xs) (Mapping ys)"

inductive_simps agrees_simps:
  "agrees (Sequence xs) (Sequence ys)" "agrees (Mapping xs) (Mapping ys)"

lemma scalar_eq_containers [simp]:
  "\<not> scalar_eq (Sequence xs) w" "\<not> scalar_eq v (Sequence ys)"
  "\<not> scalar_eq (Mapping es) w" "\<not> scalar_eq v (Mapping fs)"
  by (cases w; simp) (cases v; simp)+

lemma agrees_sequence: "agrees (Sequence xs) (Sequence ys) \<longleftrightarrow> list_all2 agrees xs ys"
  by (simp add: agrees_simps)

lemma agrees_mapping: "agrees (Mapping xs) (Mapping ys) \<longleftrightarrow>
    (\<forall>(name, v) \<in> set xs. \<exists>w. map_of ys name = Some w \<and> agrees v w) \<and> fst ` set ys \<subseteq> fst ` set xs"
  by (simp add: agrees_simps)

lemma agrees_other:
  assumes "\<not> (\<exists>xs ys. v = Sequence xs \<and> w = Sequence ys)" and "\<not> (\<exists>xs ys. v = Mapping xs \<and> w = Mapping ys)"
  shows "agrees v w \<longleftrightarrow> scalar_eq v w"
  using assms by (auto intro: agrees.scalar elim: agrees.cases)

text \<open>Two optional values agree when both are there and agree, or neither is looked at.\<close>

fun agree :: "ordered_value option \<Rightarrow> ordered_value option \<Rightarrow> bool" where
  "agree (Some v) (Some w) = agrees v w"
| "agree _ _ = False"

section \<open>The traversal decides it\<close>

lemma list_all2_nth_of:
  "list_all2 agrees xs ys \<longleftrightarrow> (\<forall>i < max (length xs) (length ys). agree (nth_of xs i) (nth_of ys i))"
proof
  assume all: "\<forall>i < max (length xs) (length ys). agree (nth_of xs i) (nth_of ys i)"
  have "length xs = length ys"
  proof (rule ccontr)
    assume "length xs \<noteq> length ys"
    then have "min (length xs) (length ys) < max (length xs) (length ys)" by linarith
    with all have "agree (nth_of xs (min (length xs) (length ys))) (nth_of ys (min (length xs) (length ys)))"
      by blast
    then show False by (simp add: nth_of_def min_def split: if_splits)
  qed
  with all show "list_all2 agrees xs ys" by (simp add: list_all2_conv_all_nth nth_of_def)
qed (simp add: list_all2_conv_all_nth nth_of_def)

lemma difference_mapping:
  "first_value_difference (Some (Mapping xs)) (Some (Mapping ys)) path =
     (case find_map (\<lambda>(name, v). first_value_difference (Some v) (map_of ys name) (join_path path name)) xs of
        Some difference \<Rightarrow> Some difference | None \<Rightarrow> find_map (missing_field xs path) ys)"
  by (subst first_value_difference.simps) simp

lemma difference_sequence:
  "first_value_difference (Some (Sequence xs)) (Some (Sequence ys)) path =
     find_map (\<lambda>i. first_value_difference (nth_of xs i) (nth_of ys i) (index_path path i))
       [0..<max (length xs) (length ys)]"
  by (subst first_value_difference.simps) simp

lemma difference_other:
  assumes "\<not> (\<exists>xs ys. e = Some (Sequence xs) \<and> a = Some (Sequence ys))"
    and "\<not> (\<exists>xs ys. e = Some (Mapping xs) \<and> a = Some (Mapping ys))"
  shows "first_value_difference e a path = (if agree e a then None
    else Some \<lparr>vd_path = path, vd_expected = map_option into_json e, vd_actual = map_option into_json a\<rparr>)"
  using assms by (subst first_value_difference.simps)
    (auto simp: agrees_other split: option.splits ordered_value.splits)

lemma missing_field_None: "missing_field xs path entry = None \<longleftrightarrow> fst entry \<in> fst ` set xs"
  by (cases entry) (force simp: missing_field_def list_all_iff)

lemma missing_None: "find_map (missing_field xs path) ys = None \<longleftrightarrow> fst ` set ys \<subseteq> fst ` set xs"
  by (simp add: find_map_None missing_field_None image_subset_iff)

lemma difference_none:
  "first_value_difference e a path = None \<longleftrightarrow> agree e a"
proof (induction e a path rule: first_value_difference.induct)
  case (1 e a path)
  show ?case
  proof (cases "\<exists>xs ys. e = Some (Sequence xs) \<and> a = Some (Sequence ys)")
    case True
    then obtain xs ys where *: "e = Some (Sequence xs)" "a = Some (Sequence ys)" by blast
    have "first_value_difference (nth_of xs i) (nth_of ys i) (index_path path i) = None
        \<longleftrightarrow> agree (nth_of xs i) (nth_of ys i)" if "i < max (length xs) (length ys)" for i
      using 1(1) [of e a] that * by simp
    then show ?thesis
      by (subst first_value_difference.simps)
        (auto simp: * find_map_None agrees_sequence list_all2_nth_of)
  next
    case no_seq: False
    show ?thesis
    proof (cases "\<exists>xs ys. e = Some (Mapping xs) \<and> a = Some (Mapping ys)")
      case True
      then obtain xs ys where *: "e = Some (Mapping xs)" "a = Some (Mapping ys)" by blast
      have each: "first_value_difference (Some v) (map_of ys name) (join_path path name) = None
          \<longleftrightarrow> agree (Some v) (map_of ys name)" if "(name, v) \<in> set xs" for name v
        using 1(2) [of e a] that * by simp
      have some: "agree (Some v) w \<longleftrightarrow> (\<exists>u. w = Some u \<and> agrees v u)" for v w
        by (cases w) simp_all
      have expected: "find_map (\<lambda>(name, v). first_value_difference (Some v) (map_of ys name) (join_path path name)) xs
            = None \<longleftrightarrow> (\<forall>(name, v) \<in> set xs. \<exists>w. map_of ys name = Some w \<and> agrees v w)"
        unfolding find_map_None by (intro ball_cong refl) (use each some in auto)
      show ?thesis
        unfolding * difference_mapping agree.simps agrees_mapping missing_None [symmetric, of ys xs path] expected [symmetric]
        by (simp split: option.split)
    next
      case False
      then show ?thesis
        using no_seq by (subst difference_other) simp_all
    qed
  qed
qed

section \<open>Transcripts that are equal\<close>

text \<open>Two records match when both can be read back and their values agree.\<close>

definition matching ::
  "value_codec \<Rightarrow> comparison_options \<Rightarrow> record_view \<Rightarrow> record_view \<Rightarrow> bool" where
  "matching vc options r s \<longleftrightarrow>
     (\<exists>v w. view_value vc options r = Inr v \<and> view_value vc options s = Inr w \<and> agrees v w)"

lemma difference_some: "first_value_difference e a path = Some d \<Longrightarrow> \<not> agree e a"
  using difference_none [of e a path] by simp

lemma compare_pairs_none:
  "compare_pairs vc options rs = Inr None \<longleftrightarrow> (\<forall>(r, s) \<in> set rs. matching vc options r s)"
proof (induction rs)
  case (Cons rs1 rs)
  obtain r s where "rs1 = (r, s)" by force
  with Cons show ?case
    by (auto simp: matching_def and_then_def difference_none dest: difference_some
        split: sum.splits option.splits)
qed simp

lemma compare_lengths_equal:
  "compare_lengths vc options rs ss = Inr Equal \<longleftrightarrow> length rs = length ss"
  by (auto simp: compare_lengths_def nth_of_def option_or_def ok_or_def and_then_def
    split: option.splits sum.splits if_splits)

text \<open>C25: the comparison answers Equal exactly when the two transcripts have the same number of
  records and, record by record, both values can be read and agree: the same scalars, the same
  elements in order and the same fields in any order, the header's metadata looked at only when
  the options ask for it.\<close>
theorem comparison_equal:
  "compare_parsed_transcripts vc expected actual options = Inr Equal \<longleftrightarrow>
     list_all2 (\<lambda>r s. \<exists>v w. view_value vc options r = Inr v \<and> view_value vc options s = Inr w \<and> agrees v w)
       (transcript_records expected) (transcript_records actual)"
proof -
  let ?rs = "transcript_records expected" and ?ss = "transcript_records actual"
  have "compare_parsed_transcripts vc expected actual options = Inr Equal \<longleftrightarrow>
      compare_pairs vc options (zip ?rs ?ss) = Inr None \<and> compare_lengths vc options ?rs ?ss = Inr Equal"
    by (auto simp: compare_parsed_transcripts_def Let_def and_then_def split: sum.splits option.splits)
  then show ?thesis
    unfolding compare_pairs_none compare_lengths_equal matching_def list_all2_iff by blast
qed

section \<open>The place of a difference\<close>

datatype place = Element nat | Field string

fun place_path :: "string \<Rightarrow> place list \<Rightarrow> string" where
  "place_path path [] = path"
| "place_path path (Element i # ps) = place_path (index_path path i) ps"
| "place_path path (Field name # ps) = place_path (join_path path name) ps"

fun value_at :: "ordered_value option \<Rightarrow> place list \<Rightarrow> ordered_value option" where
  "value_at v [] = v"
| "value_at (Some (Sequence xs)) (Element i # ps) = value_at (nth_of xs i) ps"
| "value_at (Some (Mapping xs)) (Field name # ps) = value_at (map_of xs name) ps"
| "value_at _ _ = None"

text \<open>No mapping of the value names a field twice.\<close>

fun unique_names :: "ordered_value \<Rightarrow> bool" where
  "unique_names (Sequence xs) = list_all unique_names xs"
| "unique_names (Mapping xs) = (distinct (map fst xs) \<and> list_all (\<lambda>(_, v). unique_names v) xs)"
| "unique_names _ = True"

definition located ::
  "ordered_value option \<Rightarrow> ordered_value option \<Rightarrow> string \<Rightarrow> value_difference \<Rightarrow> bool" where
  "located e a path d \<longleftrightarrow> (\<exists>ps. vd_path d = place_path path ps
     \<and> vd_expected d = map_option into_json (value_at e ps)
     \<and> vd_actual d = map_option into_json (value_at a ps)
     \<and> \<not> agree (value_at e ps) (value_at a ps))"

lemma located_element:
  "located (nth_of xs i) (nth_of ys i) (index_path path i) d
    \<Longrightarrow> located (Some (Sequence xs)) (Some (Sequence ys)) path d"
  unfolding located_def by (metis place_path.simps(2) value_at.simps(2))

lemma located_field:
  "located (map_of xs name) (map_of ys name) (join_path path name) d
    \<Longrightarrow> located (Some (Mapping xs)) (Some (Mapping ys)) path d"
  unfolding located_def by (metis place_path.simps(3) value_at.simps(3))

lemma located_here:
  "\<not> agree e a \<Longrightarrow> located e a path
    \<lparr>vd_path = path, vd_expected = map_option into_json e, vd_actual = map_option into_json a\<rparr>"
  unfolding located_def by (rule exI [of _ "[]"]) simp

lemma missing_found:
  "find_map (missing_field xs path) ys = Some d
    \<Longrightarrow> \<exists>name v. map_of xs name = None \<and> map_of ys name = Some v
      \<and> d = \<lparr>vd_path = join_path path name, vd_expected = None, vd_actual = Some (into_json v)\<rparr>"
proof (induction ys)
  case (Cons y ys)
  obtain name v where y: "y = (name, v)" by force
  show ?case
  proof (cases "missing_field xs path y")
    case None
    then have "name \<in> fst ` set xs" using missing_field_None [of xs path y] y by simp
    moreover obtain n w where "map_of xs n = None" "map_of ys n = Some w"
        "d = \<lparr>vd_path = join_path path n, vd_expected = None, vd_actual = Some (into_json w)\<rparr>"
      using Cons None by auto
    moreover from calculation have "n \<noteq> name" by (auto simp: map_of_eq_None_iff)
    ultimately show ?thesis by (intro exI [of _ n] exI [of _ w]) (simp add: y)
  next
    case (Some found)
    then have "map_of xs name = None"
      by (fastforce simp: y missing_field_def list_all_iff map_of_eq_None_iff split: if_splits)
    with Some Cons.prems show ?thesis
      by (intro exI [of _ name] exI [of _ v]) (auto simp: y missing_field_def split: if_splits)
  qed
qed simp

lemma missing_located:
  assumes "find_map (missing_field xs path) ys = Some d"
  shows "located (Some (Mapping xs)) (Some (Mapping ys)) path d"
proof -
  obtain name v where *: "map_of xs name = None" "map_of ys name = Some v"
      "d = \<lparr>vd_path = join_path path name, vd_expected = None, vd_actual = Some (into_json v)\<rparr>"
    using missing_found [OF assms] by blast
  then show ?thesis
    using located_here [of "map_of xs name" "map_of ys name" "join_path path name"]
    by (intro located_field [of _ name]) simp
qed

lemma unique_element: "list_all unique_names xs \<Longrightarrow> nth_of xs i = Some v \<Longrightarrow> unique_names v"
  by (auto simp: nth_of_def list_all_length split: if_splits)

lemma unique_entry:
  "unique_names (Mapping xs) \<Longrightarrow> (name, v) \<in> set xs \<Longrightarrow> map_of xs name = Some v \<and> unique_names v"
  by (auto simp: list_all_iff)

lemma difference_located_of:
  "first_value_difference e a path = Some d \<Longrightarrow> pred_option unique_names e \<Longrightarrow> located e a path d"
proof (induction e a path arbitrary: d rule: first_value_difference.induct)
  case (1 e a path)
  consider xs ys where "e = Some (Sequence xs)" "a = Some (Sequence ys)"
    | xs ys where "e = Some (Mapping xs)" "a = Some (Mapping ys)"
    | "\<not> (\<exists>xs ys. e = Some (Sequence xs) \<and> a = Some (Sequence ys))"
      "\<not> (\<exists>xs ys. e = Some (Mapping xs) \<and> a = Some (Mapping ys))"
    by blast
  then show ?case
  proof cases
    case (1 xs ys)
    obtain i where i: "i < max (length xs) (length ys)"
        and d: "first_value_difference (nth_of xs i) (nth_of ys i) (index_path path i) = Some d"
      using find_map_Some [OF "1.prems"(1) [unfolded 1 difference_sequence]] by auto
    moreover have "pred_option unique_names (nth_of xs i)"
      using "1.prems"(2) by (auto simp: 1 option.pred_set dest: unique_element)
    ultimately have "located (nth_of xs i) (nth_of ys i) (index_path path i) d"
      using "1.IH"(1) [of e a "Sequence xs" xs "Sequence ys" ys i d] 1 by simp
    then show ?thesis unfolding 1 by (rule located_element)
  next
    case (2 xs ys)
    show ?thesis
    proof (cases "find_map (\<lambda>(name, v).
        first_value_difference (Some v) (map_of ys name) (join_path path name)) xs")
      case None
      with "1.prems"(1) show ?thesis by (simp add: 2 difference_mapping missing_located)
    next
      case (Some found)
      then have "found = d" using "1.prems"(1) by (simp add: 2 difference_mapping)
      then obtain name v where entry: "(name, v) \<in> set xs"
          and d: "first_value_difference (Some v) (map_of ys name) (join_path path name) = Some d"
        using find_map_Some [OF Some] by auto
      moreover from entry have "map_of xs name = Some v \<and> unique_names v"
        using "1.prems"(2) by (intro unique_entry) (simp_all add: 2)
      ultimately have "located (map_of xs name) (map_of ys name) (join_path path name) d"
        using "1.IH"(2) [of e a "Mapping xs" xs "Mapping ys" ys "(name, v)" name v d] 2 by simp
      then show ?thesis unfolding 2 by (rule located_field)
    qed
  next
    case 3
    have "\<not> agree e a" using difference_some [OF "1.prems"(1)] .
    with "1.prems"(1) show ?thesis
      using located_here [of e a path] by (simp add: difference_other [OF 3])
  qed
qed

text \<open>C26: the difference found between two values is one: its path, from the record's own, leads to a
  place where the two values do not agree, and what is reported is what the two values hold there
  (nothing, where one of them has no such place), as JSON.\<close>
theorem difference_located:
  assumes "first_value_difference (Some expected) (Some actual) path = Some d"
    and "unique_names expected"
  shows "\<exists>ps. vd_path d = place_path path ps
     \<and> vd_expected d = map_option into_json (value_at (Some expected) ps)
     \<and> vd_actual d = map_option into_json (value_at (Some actual) ps)
     \<and> \<not> agree (value_at (Some expected) ps) (value_at (Some actual) ps)"
  using difference_located_of [OF assms(1)] assms(2) by (simp add: located_def)

lemma difference_located_applied:
  "let e = Mapping [(''life'', Bool True), (''slots'', Sequence [String ''a'', Number (PosInt 1)])];
       a = Mapping [(''slots'', Sequence [String ''a'']), (''life'', Bool True)] in
   \<exists>ps. ''card.slots[1]'' = place_path ''card'' ps
     \<and> Some (json_value.Number (PosInt 1)) = map_option into_json (value_at (Some e) ps)
     \<and> None = map_option into_json (value_at (Some a) ps)
     \<and> \<not> agree (value_at (Some e) ps) (value_at (Some a) ps)"
proof -
  have digit: "dec_digits (Suc 0) = ''1''" by code_simp
  have "first_value_difference
      (Some (Mapping [(''life'', Bool True), (''slots'', Sequence [String ''a'', Number (PosInt 1)])]))
      (Some (Mapping [(''slots'', Sequence [String ''a'']), (''life'', Bool True)])) ''card''
    = Some \<lparr>vd_path = ''card.slots[1]'', vd_expected = Some (json_value.Number (PosInt 1)), vd_actual = None\<rparr>"
    by (simp add: difference_mapping difference_sequence difference_other upt_rec nth_of_def
        agrees_other join_path_def index_path_def digit)
  from difference_located [OF this] show ?thesis by simp
qed

end
