(* ===== verification/Spec2Isabelle.thy ===== *)
theory Spec2Isabelle
  imports Applications Cli_Applications Comparing
begin

text \<open>
  Summoners: the rules engine of \<open>crates/core\<close>, the card and Deck loaders of \<open>crates/cards\<close>, the
  match log of \<open>crates/match-log\<close>, and the match server, the terminal client and the replay command
  of \<open>crates/cli\<close>, modelled and verified.

  The engine is a pure crate: one value, \<open>GameState\<close>, is the whole match, and \<open>engine::apply\<close>
  takes a state and an action to a rejection or to the next state with the events that happened.
  Everything an action sets off is driven by a work queue, a Stack of pending attacks, Spells and
  Triggered Abilities, response windows and pending decisions, which the loop \<open>drain\<close> resolves
  until the game waits for a player again.

  A match starts from documents: \<open>parse_set\<close> turns the bytes of a Set into core entities with minted
  identities, \<open>CardLibrary::from_sets\<close> joins Sets into one card pool, \<open>parse_deck\<close> resolves a Deck
  against it, and \<open>initial_state\<close> deals two Decks into the scenario that the engine parses. The \<open>serve\<close>
  command opens such a match, takes the submissions of two clients one at a time, applies them
  through the recorder, which writes the transcript, and sends each player a view that hides the
  opponent's cards; the \<open>play\<close> command is the client, and \<open>replay\<close> verifies a transcript.

  \<^bold>\<open>Where each part is.\<close> One theory per source module, under its name:
  \<^item> \<open>Prelude\<close>: the \<open>std\<close> operations the crate uses (saturating arithmetic, \<open>find_map\<close>,
    \<open>position\<close>, \<open>Vec::remove\<close>, the question mark operator) and the lens interfaces
    \<open>place\<close> and \<open>two_places\<close> for a getter and its \<open>_mut\<close> twin.
  \<^item> \<open>Ids\<close> (\<open>domain/ids.rs\<close>), \<open>Entity_Id\<close>, \<open>Cards\<close> and \<open>Card_Set\<close> (\<open>domain/cards\<close>),
    \<open>State\<close> (\<open>domain/state.rs\<close>), \<open>Events\<close> (\<open>domain/events.rs\<close>, \<open>actions.rs\<close>, \<open>errors.rs\<close>).
  \<^item> \<open>Payment\<close>, \<open>Damage\<close>, \<open>Loss\<close>, \<open>Upkeep\<close>, \<open>Effects\<close>, \<open>Triggers\<close>, \<open>Destruction\<close>,
    \<open>Resolution\<close>, \<open>Turn\<close>, \<open>Stack\<close>, \<open>Board\<close>, \<open>Skills\<close>, \<open>Apply\<close>: the modules of \<open>engine\<close>.
  \<^item> \<open>Scenario\<close> (\<open>scenario.rs\<close>): the parser of described match situations.
  \<^item> \<open>Zones\<close>, \<open>Conservation\<close>, \<open>Game\<close>, \<open>Frames\<close>, \<open>Invariants\<close>, \<open>Losses\<close>, \<open>Termination\<close>,
    \<open>Chains\<close>, \<open>Unbroken\<close>, \<open>Match\<close>: the properties of whole runs.
  \<^item> \<open>Text\<close> (UTF-8, whitespace, paths, stable keys), \<open>Authoring\<close> (\<open>error.rs\<close>, \<open>v1/dto.rs\<close>,
    \<open>document.rs\<close>), \<open>Set_Model\<close> (\<open>v1/model.rs\<close>), \<open>Ordered_Map\<close> (\<open>BTreeMap\<close>), \<open>Set_Convert\<close>
    (\<open>v1/convert.rs\<close>, \<open>v1/mod.rs\<close>, \<open>identity.rs\<close>, \<open>lib.rs\<close>), \<open>Library\<close> (\<open>library.rs\<close>), \<open>Deck\<close> (\<open>deck.rs\<close>),
    \<open>Catalog\<close> (\<open>built_in.rs\<close>), \<open>Setup\<close> (\<open>setup.rs\<close> of the client): the way from documents to a match.
  \<^item> \<open>Authored\<close>, \<open>Loaded\<close>, \<open>Deck_Rules\<close>, \<open>Opening\<close>: what the loaders accept, and what it means for the
    matches they open.
  \<^item> \<open>Wire\<close> (\<open>wire.rs\<close> and the types of \<open>wire/\<close>), \<open>Wire_State\<close> (the conversions of \<open>state.rs\<close>),
    \<open>Wire_Events\<close> (those of \<open>wire/action.rs\<close>, \<open>action_error.rs\<close>, \<open>event.rs\<close>), \<open>Digest\<close>
    (\<open>StateDigestV1::compute\<close>, \<open>codec.rs\<close>), \<open>Recorder\<close> (\<open>record.rs\<close>), \<open>Transcript\<close> and \<open>Decode\<close>
    (\<open>parse.rs\<close>: its phases, and its lines and records), \<open>Replay\<close> (\<open>replay.rs\<close>), \<open>Compare\<close>
    (\<open>compare.rs\<close>), \<open>Log_Text\<close> (the texts of its errors): the match log.
  \<^item> \<open>Endings\<close>, \<open>Parsing\<close>, \<open>Recording\<close>, \<open>Replaying\<close>, \<open>Match_Log\<close>, \<open>Reading\<close>, \<open>Log_Safety\<close>,
    \<open>Comparing\<close>: its
    properties.
  \<^item> \<open>Card_Text\<close> (\<open>terminal.rs\<close>, \<open>card_text.rs\<close>), \<open>Protocol\<close> (\<open>protocol.rs\<close>), \<open>Prompt\<close> (\<open>prompt.rs\<close>),
    \<open>Server\<close> (\<open>server.rs\<close>), \<open>Client\<close> (\<open>client.rs\<close>), \<open>Replay_Command\<close> (\<open>replay.rs\<close>): the commands.
  \<^item> \<open>Privacy\<close>, \<open>Prompting\<close>, \<open>Serving\<close>, \<open>Playing\<close>, \<open>Served\<close>: their properties.
  \<^item> \<open>Samples\<close>, \<open>Findings\<close>, \<open>Applications\<close>, \<open>Log_Applications\<close>, \<open>Card_Applications\<close>,
    \<open>Cli_Applications\<close>: concrete matches, a concrete log, concrete documents and a concrete server;
    the last four apply each theorem with hypotheses at one of them.

  \<^bold>\<open>How the state corresponds.\<close> A struct is a record whose fields carry a prefix (\<open>PlayerState.deck\<close>
  is \<open>ps_deck\<close>), an enum a datatype with the source's variants, an integer a machine word of its
  width. The \<open>bench\<close> array, indexed by \<open>slot.index()\<close> only, is a function of the slot. A function
  that clones and returns the state returns the updated record; a \<open>Result\<close> is a sum whose left
  side is the error; events are returned in the order they are pushed. \<open>drain\<close> is \<open>while_option\<close>
  because the source puts no bound on its iterations, so \<open>apply_action\<close> has three answers: no
  return, a rejection, or a next state. Plain \<open>+\<close> and \<open>+=\<close> wrap, as in the release profile; the
  payment policy computes on integers, its \<open>i64\<close> values being sums and differences of a few
  \<open>u32\<close> values. A recording is a record whose operations return it updated, errors included. What
  the log takes from libraries is a parameter: \<open>serialization\<close> (\<open>serde_json\<close> and SHA-256), \<open>value_codec\<close> (records read back as JSON values),
  \<open>decoders\<close> (serde's deserializers), \<open>write_ops\<close> (the caller's \<open>Write\<close>) and \<open>reader\<close> (its
  \<open>BufRead\<close>), with what is relied on as the locales \<open>log_writer\<close> and \<open>line_reader\<close> and the predicate
  \<open>reads_back\<close>; the locales are interpreted for vectors and slices of bytes. The loaders take the
  TOML reader (\<open>toml_reader\<close>) and \<open>Uuid::new_v5\<close> (\<open>uuid_v5\<close>) as parameters, with nothing assumed of
  them, and the setup takes the random generator (\<open>generator\<close>), of which \<open>shuffles\<close> says that it only
  reorders. The session of the server is a step on one event at a time, over \<open>channel_ops\<close>: a handle
  for each connection and a network state that every delivery may change and any delivery may fail
  in; nothing is assumed of it. The tasks that accept connections are the events they send
  (\<open>connection_events\<close>). The client's loop is a step on what its input thread yields, with the
  snapshot as it is then. Files are \<open>file_ops\<close> and \<open>transcript_files\<close>. A \<open>BTreeMap\<close> is the list of its entries in order of their keys; the locale \<open>dictionary\<close>
  is what the loaders rely on from it.

  \<^bold>\<open>What the lemmas show.\<close>
  \<^item> Payment: the greedy choice of pools accepts exactly the payable costs, takes exactly the cost,
    and reports the exact shortfall.
  \<^item> Damage: the staged loop computes a closed formula and its event trace accounts for every
    intermediate amount.
  \<^item> The locale \<open>leaf_stable\<close> (Effects) carries a relation from single effect leaves to whole
    abilities; \<open>engine_stable\<close> (Game) carries it on through work items, Stack resolution, handlers,
    the loop and whole matches; \<open>game_invariant\<close> does so for predicates on states. Their
    interpretations are: cards are never gained; the card set is constant; segments of the Stack
    are well nested; Upkeep always has its Main Phase queued; a pending decision can be answered;
    a recorded loss is always followed by its loss check, so a third loss stands unsettled only
    as the count a scenario itself described; upgrade chains climb.
  \<^item> Termination: with Triggered Abilities that move no Summon the loop returns, whatever the
    scenario describes, already decided matches included. The measure is
    lexicographic: loop still running, Stack height, losses and Summons left to lose, weight of
    the queue. \<open>Findings\<close> shows a card set for which the loop does not return, so the condition
    on the card set cannot be dropped.
  \<^item> Conservation: every work item keeps each player's cards, except a Promotion onto an occupied
    Main, which loses exactly the overwritten chain, and \<open>Findings\<close> shows a match in which that
    happens.
  \<^item> Destruction: the check queues one whole procedure for each over-damaged Summon, so every
    further check of the same Main counts a further loss (\<open>Findings\<close>).

  \<^item> The log: conversions to the wire and back (the locales \<open>wire_codec\<close> and \<open>wire_iso\<close>) rebuild
    every reachable state; the parser accepts exactly the consistent transcripts; replay accepts
    exactly the real matches; a recorded match is such a transcript and such a match; a
    recording stops exactly when its match does, and for good at its first failure; two transcripts
    compare as equal exactly when their records agree, and a difference is one at its path.

  \<^item> The loaders: a table of what each context allows (\<open>allowed\<close>, \<open>card_ok\<close>, \<open>model_ok\<close>) that every
    parsed Set obeys; the shape of the entities made of it (\<open>well_printed\<close>); the rules of a Deck
    (\<open>legal_deck\<close>), which \<open>parse_deck\<close> decides. Two accepted Decks open a match, and since loaded
    Triggered Abilities move no Summon and loaded Summons print a Life, in such a match the loop
    always returns and no card breaks the game.

  \<^item> The commands: over any events and any network the recording of a session is what its executed
    actions make of it, each executed once and for its own seat; a match served to its end leaves a
    file that \<open>replay\<close> confirms; a message depends on nothing that is hidden from its player
    (\<open>looks_alike\<close>); what the client submits is always the player's own and in sequence, whatever
    the view offers can be entered, nothing that is sent is missed, and both ends agree on the
    limits of frames.

  \<^bold>\<open>Not modelled.\<close> \<open>CardSet::entities\<close> and \<open>GameState\<close>'s handle comparison of \<open>cards\<close>, which the
  engine does not call; the \<open>fixtures\<close> and the tests. Of \<open>crates/match-log\<close>: the JSON text that
  serde derives and the schema (\<open>schema.rs\<close>). Of \<open>crates/cards\<close>: the texts of its errors, which print
  derived \<open>Debug\<close> values, and the cell that caches the catalog. Of \<open>crates/cli\<close>: the command line
  (\<open>app.rs\<close>, \<open>main.rs\<close>, \<open>lib.rs\<close>), and of its server and client the sockets, timers and threads behind
  the parameters and the texts of their errors. Of the other crates: \<open>crates/cceroby\<close>, which searches
  images through web APIs and shares nothing with the rules, and the build helper \<open>xtask\<close>.
\<close>

end
